(* ===== verification/Js_Number.thy ===== *)
theory Js_Number
  imports Complex_Main "HOL-Library.Log_Nat"
begin

text \<open>
  JavaScript numbers.  Every amount the services compute with is an IEEE double, so the model
  keeps the rounding: a finite double is the rational it denotes, and each arithmetic operation
  of the source is the exact operation followed by \<open>fl\<close>, rounding to 53 significant bits with
  ties to even.  \<open>toFixed\<close>, \<open>Math.round\<close>, \<open>Math.floor\<close> and the decimal text of a number
  (\<open>js_dec\<close>, the value of \<open>String(x)\<close> for values below 2 ^ 53) are defined on top of it.
  The exponent is unbounded: overflow to Infinity and subnormal numbers (outside roughly
  1e-300 .. 1e300) are not modelled.  NaN and the infinities appear only as inputs, as the
  value \<open>None\<close> of an optional number.
\<close>

section \<open>Rounding to the nearest integer\<close>

definition rne :: "rat \<Rightarrow> int" where
  "rne x = (let n = \<lfloor>x\<rfloor>; r = x - of_int n in
     if r < 1/2 then n else if r > 1/2 then n + 1 else if even n then n else n + 1)"

text \<open>Round half away from zero: PostgreSQL's numeric rounding and the digits of \<open>toFixed\<close>.\<close>

definition rhaz :: "rat \<Rightarrow> int" where
  "rhaz x = (if x < 0 then - \<lfloor>- x + 1/2\<rfloor> else \<lfloor>x + 1/2\<rfloor>)"

lemma rne_bounds: "\<bar>of_int (rne x) - x\<bar> \<le> 1/2"
proof -
  have f: "of_int \<lfloor>x\<rfloor> \<le> x" "x < of_int \<lfloor>x\<rfloor> + 1" by linarith+
  show ?thesis using f by (auto simp: rne_def Let_def abs_le_iff)
qed

lemma rne_of_int [simp]: "rne (of_int n) = n"
  by (simp add: rne_def)

lemma rne_mono: assumes "x \<le> y" shows "rne x \<le> rne y"
proof (cases "\<lfloor>x\<rfloor> = \<lfloor>y\<rfloor>")
  case True
  with assms show ?thesis by (auto simp: rne_def Let_def)
next
  case False
  with assms have "\<lfloor>x\<rfloor> + 1 \<le> \<lfloor>y\<rfloor>" by (metis floor_mono add1_zle_eq order_le_neq_trans)
  moreover have "rne x \<le> \<lfloor>x\<rfloor> + 1" "\<lfloor>y\<rfloor> \<le> rne y" by (auto simp: rne_def Let_def)
  ultimately show ?thesis by linarith
qed

lemma rne_minus: "rne (- x) = - rne x"
proof (cases "x = of_int \<lfloor>x\<rfloor>")
  case True
  then have "- x = of_int (- \<lfloor>x\<rfloor>)" by simp
  then have "rne (- x) = - \<lfloor>x\<rfloor>" by (metis rne_of_int)
  moreover have "rne x = \<lfloor>x\<rfloor>" using True by (metis rne_of_int)
  ultimately show ?thesis by simp
next
  case False
  then have "of_int \<lfloor>x\<rfloor> < x" by (metis of_int_floor_le order_le_neq_trans)
  then have fl: "\<lfloor>- x\<rfloor> = - \<lfloor>x\<rfloor> - 1" by linarith
  show ?thesis by (auto simp: rne_def Let_def fl)
qed

lemma rhaz_near: assumes "\<bar>x - of_int k\<bar> < 1/2" shows "rhaz x = k"
proof (cases "x < 0")
  case True
  have "of_int (- k) \<le> - x + 1/2" "- x + 1/2 < of_int (- k) + 1" using assms by linarith+
  then have "\<lfloor>- x + 1/2\<rfloor> = - k" by linarith
  with True show ?thesis by (simp add: rhaz_def)
next
  case False
  have "of_int k \<le> x + 1/2" "x + 1/2 < of_int k + 1" using assms by linarith+
  then have "\<lfloor>x + 1/2\<rfloor> = k" by linarith
  with False show ?thesis by (simp add: rhaz_def)
qed

lemma rhaz_of_int [simp]: "rhaz (of_int k) = k"
  by (rule rhaz_near) simp

lemma rhaz_bounds: "\<bar>of_int (rhaz x) - x\<bar> \<le> 1/2"
proof (cases "x < 0")
  case True
  have "of_int \<lfloor>- x + 1/2\<rfloor> \<le> - x + 1/2" "- x + 1/2 < of_int \<lfloor>- x + 1/2\<rfloor> + 1" by linarith+
  then have "\<bar>- of_int \<lfloor>- x + 1/2\<rfloor> - x\<bar> \<le> 1/2" by linarith
  with True show ?thesis by (simp add: rhaz_def)
next
  case False
  have "of_int \<lfloor>x + 1/2\<rfloor> \<le> x + 1/2" "x + 1/2 < of_int \<lfloor>x + 1/2\<rfloor> + 1" by linarith+
  then have "\<bar>of_int \<lfloor>x + 1/2\<rfloor> - x\<bar> \<le> 1/2" by linarith
  with False show ?thesis by (simp add: rhaz_def)
qed

lemma rhaz_nonneg: "0 \<le> x \<Longrightarrow> 0 \<le> rhaz x"
  by (simp add: rhaz_def)

lemma rhaz_mono: assumes "x \<le> y" shows "rhaz x \<le> rhaz y"
proof -
  consider "x < 0" "y < 0" | "x < 0" "0 \<le> y" | "0 \<le> x" "0 \<le> y" using assms by linarith
  then show ?thesis
  proof cases
    case 1
    have "\<lfloor>- y + 1/2\<rfloor> \<le> \<lfloor>- x + 1/2\<rfloor>" using assms by (intro floor_mono) simp
    with 1 show ?thesis by (simp add: rhaz_def)
  next
    case 2
    then have "- \<lfloor>- x + 1/2\<rfloor> \<le> \<lfloor>y + 1/2\<rfloor>" by linarith
    with 2 show ?thesis by (simp add: rhaz_def)
  next
    case 3
    have "\<lfloor>x + 1/2\<rfloor> \<le> \<lfloor>y + 1/2\<rfloor>" using assms by (intro floor_mono) simp
    with 3 show ?thesis by (simp add: rhaz_def)
  qed
qed

section \<open>Binary logarithm of a positive rational\<close>

definition ilog2 :: "rat \<Rightarrow> int" where
  "ilog2 x = (let (p, q) = quotient_of x; k = bitlen p - bitlen q in
     if (2::rat) powi k \<le> x then k else k - 1)"

lemma bitlen_powi: assumes "0 < p"
  shows "(2::rat) powi (bitlen p - 1) \<le> of_int p" "of_int p < (2::rat) powi bitlen p"
proof -
  have b: "2 ^ nat (bitlen p - 1) \<le> p" "p < 2 ^ nat (bitlen p)"
    using bitlen_bounds[OF assms] by auto
  have pos: "1 \<le> bitlen p" using assms by (metis bitlen_eq_zero_iff bitlen_nonneg int_one_le_iff_zero_less linorder_not_le order_le_less)
  have "(2::rat) powi (bitlen p - 1) = of_int (2 ^ nat (bitlen p - 1))"
    using pos by (simp add: power_int_nonneg_exp)
  with b(1) show "(2::rat) powi (bitlen p - 1) \<le> of_int p" by (metis of_int_le_iff)
  have "(2::rat) powi bitlen p = of_int (2 ^ nat (bitlen p))"
    using pos by (simp add: power_int_nonneg_exp)
  with b(2) show "of_int p < (2::rat) powi bitlen p" by (metis of_int_less_iff)
qed

lemma ilog2_bounds: assumes "0 < x"
  shows "2 powi ilog2 x \<le> x" "x < 2 powi (ilog2 x + 1)"
proof -
  obtain p q where pq: "quotient_of x = (p, q)" by (cases "quotient_of x")
  have q: "0 < q" and x: "x = of_int p / of_int q"
    using pq quotient_of_denom_pos quotient_of_div by blast+
  with assms have p: "0 < p" by (simp add: zero_less_divide_iff)
  let ?k = "bitlen p - bitlen q"
  have P: "(2::rat) powi (bitlen p - 1) \<le> of_int p" "of_int p < (2::rat) powi bitlen p"
    using bitlen_powi[OF p] by auto
  have Q: "(2::rat) powi (bitlen q - 1) \<le> of_int q" "of_int q < (2::rat) powi bitlen q"
    using bitlen_powi[OF q] by auto
  have Q0: "(0::rat) < of_int q" using q by simp
  have lo: "2 powi (?k - 1) \<le> x"
  proof -
    have "(2::rat) powi (?k - 1) * of_int q \<le> 2 powi (?k - 1) * 2 powi bitlen q"
      using Q(2) by (intro mult_left_mono) auto
    also have "\<dots> = 2 powi (bitlen p - 1)" by (simp flip: power_int_add)
    also have "\<dots> \<le> of_int p" by (rule P)
    finally show ?thesis using Q0 by (simp add: x pos_le_divide_eq)
  qed
  have hi: "x < 2 powi (?k + 1)"
  proof -
    have "of_int p < (2::rat) powi bitlen p" by (rule P)
    also have "\<dots> = 2 powi (?k + 1) * 2 powi (bitlen q - 1)" by (simp flip: power_int_add)
    also have "\<dots> \<le> 2 powi (?k + 1) * of_int q" using Q(1) by (intro mult_left_mono) auto
    finally show ?thesis using Q0 by (simp add: x pos_divide_less_eq)
  qed
  show "2 powi ilog2 x \<le> x" "x < 2 powi (ilog2 x + 1)"
    using lo hi by (auto simp: ilog2_def pq Let_def)
qed

lemma powi2_less: "(a::int) < b \<Longrightarrow> (2::rat) powi a < 2 powi b"
  by (rule power_int_strict_increasing) auto

lemma powi2_le: "(a::int) \<le> b \<Longrightarrow> (2::rat) powi a \<le> 2 powi b"
  by (rule power_int_increasing) auto

lemma ilog2_unique: assumes "2 powi k \<le> x" "x < 2 powi (k + 1)" shows "ilog2 x = k"
proof -
  have x: "0 < x" using assms(1) by (meson less_le_trans zero_less_numeral zero_less_power_int)
  have "(2::rat) powi k < 2 powi (ilog2 x + 1)" "(2::rat) powi ilog2 x < 2 powi (k + 1)"
    using ilog2_bounds[OF x] assms by linarith+
  then have "\<not> ilog2 x + 1 \<le> k" "\<not> k + 1 \<le> ilog2 x"
    using powi2_le by (metis linorder_not_le)+
  then show ?thesis by linarith
qed

lemma ilog2_mono: assumes "0 < x" "x \<le> y" shows "ilog2 x \<le> ilog2 y"
proof (rule ccontr)
  assume "\<not> ilog2 x \<le> ilog2 y"
  then have "(2::rat) powi (ilog2 y + 1) \<le> 2 powi ilog2 x" by (intro powi2_le) simp
  moreover have "y < 2 powi (ilog2 y + 1)" "2 powi ilog2 x \<le> x"
    using assms by (auto intro: ilog2_bounds)
  ultimately show False using assms by linarith
qed

section \<open>Rounding to a double\<close>

definition fl :: "rat \<Rightarrow> rat" where
  "fl x = (if x = 0 then 0
     else let e = ilog2 \<bar>x\<bar> - 52 in of_int (rne (x / 2 powi e)) * 2 powi e)"

lemma fl_0 [simp]: "fl 0 = 0"
  by (simp add: fl_def)

lemma fl_minus: "fl (- x) = - fl x"
  by (simp add: fl_def Let_def rne_minus)

text \<open>The mantissa of a positive number lies between 2 ^ 52 and 2 ^ 53.\<close>

lemma fl_binade: assumes "0 < x"
  shows "2 powi ilog2 x \<le> fl x" "fl x \<le> 2 powi (ilog2 x + 1)"
proof -
  let ?e = "ilog2 x - 52"
  have E: "(0::rat) < 2 powi ?e" by simp
  have fx: "fl x = of_int (rne (x / 2 powi ?e)) * 2 powi ?e" using assms by (simp add: fl_def Let_def)
  have "of_int (2 ^ 52) \<le> x / 2 powi ?e"
    using ilog2_bounds(1)[OF assms] E
    by (simp add: pos_le_divide_eq power_int_diff)
  then have "2 ^ 52 \<le> rne (x / 2 powi ?e)" by (metis rne_mono rne_of_int)
  then have "of_int (2 ^ 52) * 2 powi ?e \<le> fl x"
    unfolding fx using E by (intro mult_right_mono) (simp_all only: of_int_le_iff less_imp_le)
  then show "2 powi ilog2 x \<le> fl x" by (simp add: power_int_diff)
  have "x / 2 powi ?e \<le> of_int (2 ^ 53)"
    using ilog2_bounds(2)[OF assms] E
    by (simp add: pos_divide_le_eq power_int_diff power_int_add)
  then have "rne (x / 2 powi ?e) \<le> 2 ^ 53" by (metis rne_mono rne_of_int)
  then have "fl x \<le> of_int (2 ^ 53) * 2 powi ?e"
    unfolding fx using E by (intro mult_right_mono) (simp_all only: of_int_le_iff less_imp_le)
  then show "fl x \<le> 2 powi (ilog2 x + 1)" by (simp add: power_int_diff power_int_add)
qed

lemma fl_mono_pos: assumes "0 < x" "x \<le> y" shows "fl x \<le> fl y"
proof (cases "ilog2 x = ilog2 y")
  case True
  let ?e = "ilog2 y - 52"
  have "x / 2 powi ?e \<le> y / 2 powi ?e" using assms by (simp add: divide_right_mono)
  then have "rne (x / 2 powi ?e) \<le> rne (y / 2 powi ?e)" by (rule rne_mono)
  then have "of_int (rne (x / 2 powi ?e)) * (2::rat) powi ?e \<le> of_int (rne (y / 2 powi ?e)) * 2 powi ?e"
    by (intro mult_right_mono) auto
  then show ?thesis using assms True by (simp add: fl_def Let_def)
next
  case False
  with ilog2_mono[OF assms] have "ilog2 x + 1 \<le> ilog2 y" by linarith
  then have "(2::rat) powi (ilog2 x + 1) \<le> 2 powi ilog2 y" by (rule powi2_le)
  moreover have "fl x \<le> 2 powi (ilog2 x + 1)" using assms(1) by (rule fl_binade)
  moreover have "2 powi ilog2 y \<le> fl y" using assms by (intro fl_binade) simp
  ultimately show ?thesis by linarith
qed

lemma fl_pos: "0 < x \<Longrightarrow> 0 < fl x"
  using fl_binade(1)[of x] by (meson less_le_trans zero_less_numeral zero_less_power_int)

lemma fl_mono: assumes "x \<le> y" shows "fl x \<le> fl y"
proof (cases "0 < x")
  case True
  then show ?thesis using assms by (rule fl_mono_pos)
next
  case x: False
  show ?thesis
  proof (cases "y < 0")
    case True
    then have "fl (- y) \<le> fl (- x)" using assms by (intro fl_mono_pos) auto
    then show ?thesis by (simp add: fl_minus)
  next
    case False
    have "fl x \<le> 0" using x fl_pos[of "- x"] by (cases "x = 0") (auto simp: fl_minus)
    moreover have "0 \<le> fl y" using False fl_pos[of y] by (cases "y = 0") auto
    ultimately show ?thesis by linarith
  qed
qed

text \<open>Relative error: half a unit in the last place.\<close>

lemma fl_error: "\<bar>fl x - x\<bar> \<le> \<bar>x\<bar> / 2 ^ 53"
proof (cases "x = 0")
  case False
  let ?e = "ilog2 \<bar>x\<bar> - 52"
  have E: "(0::rat) < 2 powi ?e" by simp
  have "fl x - x = (of_int (rne (x / 2 powi ?e)) - x / 2 powi ?e) * 2 powi ?e"
    using False E by (simp add: fl_def Let_def left_diff_distrib)
  then have "\<bar>fl x - x\<bar> = \<bar>of_int (rne (x / 2 powi ?e)) - x / 2 powi ?e\<bar> * 2 powi ?e"
    by (simp add: abs_mult)
  also have "\<dots> \<le> 1/2 * 2 powi ?e" using rne_bounds E by (intro mult_right_mono) auto
  also have "\<dots> = 2 powi ilog2 \<bar>x\<bar> / 2 ^ 53" by (simp add: power_int_diff)
  also have "\<dots> \<le> \<bar>x\<bar> / 2 ^ 53" using ilog2_bounds(1)[of "\<bar>x\<bar>"] False by (simp add: divide_right_mono)
  finally show ?thesis .
qed simp

text \<open>Integers up to 2 ^ 53 are exact.\<close>

lemma fl_pow53: "fl (2 ^ 53) = 2 ^ 53"
proof -
  have "ilog2 (2 ^ 53) = 53" by (rule ilog2_unique) (simp_all add: power_int_def)
  moreover have "rne (2 ^ 52) = 2 ^ 52" using rne_of_int[of "2 ^ 52"] by simp
  ultimately show ?thesis by (simp add: fl_def Let_def power_int_def)
qed

lemma fl_of_int: assumes "\<bar>n\<bar> \<le> 2 ^ 53" shows "fl (of_int n) = of_int n"
proof -
  consider "n = 2 ^ 53" | "n = - (2 ^ 53)" | "n = 0" | "n \<noteq> 0" "\<bar>n\<bar> < 2 ^ 53" using assms by linarith
  then show ?thesis
  proof cases
    case 4
    let ?x = "of_int n :: rat"
    have "of_int \<bar>n\<bar> < (of_int (2 ^ 53) :: rat)" using 4(2) by (simp only: of_int_less_iff)
    then have x: "0 < \<bar>?x\<bar>" "\<bar>?x\<bar> < 2 powi 53" using 4 by (simp_all add: power_int_def)
    have "ilog2 \<bar>?x\<bar> < 53"
    proof (rule ccontr)
      assume "\<not> ilog2 \<bar>?x\<bar> < 53"
      then have "(2::rat) powi 53 \<le> 2 powi ilog2 \<bar>?x\<bar>" by (intro powi2_le) simp
      with ilog2_bounds(1)[OF x(1)] x(2) show False by linarith
    qed
    then obtain j :: nat where j: "ilog2 \<bar>?x\<bar> - 52 = - int j"
      using that[of "nat (52 - ilog2 \<bar>?x\<bar>)"] by simp
    have "?x / 2 powi (- int j) = of_int (n * 2 ^ j)" by (simp add: power_int_minus divide_inverse)
    then have "rne (?x / 2 powi (- int j)) = n * 2 ^ j" by (metis rne_of_int)
    then show ?thesis using 4 j by (simp add: fl_def Let_def power_int_minus)
  qed (use fl_pow53 in \<open>simp_all add: fl_minus\<close>)
qed

lemma fl_numeral [simp]: "numeral n \<le> (2::int) ^ 53 \<Longrightarrow> fl (numeral n) = numeral n"
  using fl_of_int[of "numeral n"] by simp

text \<open>A double is rounded to itself.\<close>

lemma fl_powi: "fl (2 powi k) = 2 powi k"
proof -
  have "ilog2 (2 powi k) = k" by (rule ilog2_unique) (simp_all add: power_int_add)
  moreover have "(2::rat) powi k / 2 powi (k - 52) = of_int (2 ^ 52)" by (simp add: power_int_diff)
  ultimately have "fl (2 powi k) = of_int (rne (of_int (2 ^ 52))) * 2 powi (k - 52)" by (simp only: fl_def Let_def) simp
  also have "\<dots> = 2 powi k" by (simp only: rne_of_int) (simp add: power_int_diff)
  finally show ?thesis .
qed

lemma fl_fl_pos: assumes "0 < x" shows "fl (fl x) = fl x"
proof -
  let ?k = "ilog2 x"
  let ?u = "(2::rat) powi (?k - 52)"
  define m where "m = rne (x / ?u)"
  have fx: "fl x = of_int m * ?u" using assms by (simp add: fl_def Let_def m_def)
  have b: "2 powi ?k \<le> fl x" "fl x \<le> 2 powi (?k + 1)" using assms by (rule fl_binade)+
  have pos: "0 < fl x" using assms by (rule fl_pos)
  show ?thesis
  proof (cases "fl x = 2 powi (?k + 1)")
    case True
    then show ?thesis by (simp only: fl_powi)
  next
    case False
    then have "ilog2 (fl x) = ?k" using b by (intro ilog2_unique) simp_all
    moreover have "fl x / ?u = of_int m" by (simp add: fx)
    ultimately have "fl (fl x) = of_int (rne (of_int m)) * ?u" using pos by (simp add: fl_def[of "fl x"] Let_def)
    then show ?thesis by (simp only: rne_of_int fx)
  qed
qed

lemma fl_fl [simp]: "fl (fl x) = fl x"
  using fl_fl_pos[of x] fl_fl_pos[of "- x"] by (cases x "0 :: rat" rule: linorder_cases) (simp_all add: fl_minus)

section \<open>Standard library functions on numbers\<close>

text \<open>\<open>Number(x.toFixed(d))\<close>: the integer nearest to \<open>x * 10 ^ d\<close>, ties away from zero, over
  \<open>10 ^ d\<close>, read back as a double.  From 1e21 on, \<open>toFixed\<close> prints the number itself.\<close>

definition toFixed :: "nat \<Rightarrow> rat \<Rightarrow> rat" where
  "toFixed d x = (if \<bar>x\<bar> \<ge> 10 ^ 21 then x else fl (of_int (rhaz (x * 10 ^ d)) / 10 ^ d))"

text \<open>\<open>Math.round\<close> rounds half up, \<open>Number.EPSILON\<close> is 2 ^ -52.\<close>

definition math_round :: "rat \<Rightarrow> int" where
  "math_round x = \<lfloor>x + 1/2\<rfloor>"

definition number_epsilon :: rat where
  "number_epsilon = 1 / 2 ^ 52"

text \<open>The decimal value of \<open>String(x)\<close>: the decimal with the fewest decimal places that reads back
  as the same double, nearest to it.  It is what JSON carries to the database driver.\<close>

fun dec_search :: "nat \<Rightarrow> nat \<Rightarrow> rat \<Rightarrow> rat" where
  "dec_search 0 d x = x"
| "dec_search (Suc n) d x =
     (let c = of_int (rne (x * 10 ^ d)) / 10 ^ d in
      if fl c = x then c else dec_search n (Suc d) x)"

definition js_dec :: "rat \<Rightarrow> rat" where
  "js_dec x = dec_search 40 0 x"

lemma dec_search_cases: "dec_search n d x = x \<or> fl (dec_search n d x) = x"
  by (induction n d x rule: dec_search.induct) (auto simp: Let_def)

lemma js_dec_cases: "js_dec x = x \<or> fl (js_dec x) = x"
  unfolding js_dec_def by (rule dec_search_cases)

lemma js_dec_of_int: assumes "\<bar>n\<bar> \<le> 2 ^ 53" shows "js_dec (of_int n) = of_int n"
proof -
  have "dec_search (Suc m) 0 (of_int n) = of_int n" for m
    using fl_of_int[OF assms] by simp
  from this[of 39] show ?thesis by (simp add: js_dec_def)
qed

lemma js_dec_0 [simp]: "js_dec 0 = 0"
  using js_dec_of_int[of 0] by simp

text \<open>Rounding is the only error of the decimal text, and it keeps the sign.\<close>

lemma fl_nonneg_iff: "0 \<le> fl x \<longleftrightarrow> 0 \<le> x"
  using fl_pos[of x] fl_pos[of "- x"] by (cases x "0::rat" rule: linorder_cases) (auto simp: fl_minus)

lemma fl_pos_iff: "0 < fl x \<longleftrightarrow> 0 < x"
  using fl_pos[of x] fl_pos[of "- x"] by (cases x "0::rat" rule: linorder_cases) (auto simp: fl_minus)

lemma js_dec_nonneg_iff: "0 \<le> js_dec x \<longleftrightarrow> 0 \<le> x"
  using js_dec_cases[of x] fl_nonneg_iff[of "js_dec x"] by auto

lemma js_dec_error: "\<bar>js_dec x - x\<bar> \<le> \<bar>js_dec x\<bar> / 2 ^ 53"
  using js_dec_cases[of x]
proof
  assume "fl (js_dec x) = x"
  with fl_error[of "js_dec x"] show ?thesis by (simp only: abs_minus_commute[of x])
qed simp

section \<open>Evaluating a rounding\<close>

lemma rne_near: assumes "\<bar>x - of_int m\<bar> < 1/2" shows "rne x = m"
  using rne_bounds[of x] assms by linarith

lemma fl_small:
  assumes "1 / 2 ^ j \<le> x" "x < 2 / 2 ^ j" "\<bar>x * 2 ^ (52 + j) - of_int m\<bar> < 1/2"
  shows "fl x = of_int m / 2 ^ (52 + j)"
proof -
  have p: "2 powi (- int j) = 1 / (2::rat) ^ j" "2 powi (- int j + 1) = 2 / (2::rat) ^ j"
    by (simp_all add: power_int_diff power_int_minus divide_inverse)
  have x: "0 < x" using assms(1) by (rule less_le_trans[rotated]) simp
  then have k: "ilog2 x = - int j" using assms p by (intro ilog2_unique) simp_all
  have e: "2 powi (- int j - 52) = 1 / (2::rat) ^ (52 + j)"
    by (subst power_int_diff) (simp_all add: power_int_minus power_add field_simps)
  have "rne (x * 2 ^ (52 + j)) = m" by (rule rne_near[OF assms(3)])
  with x show ?thesis by (simp add: fl_def k e Let_def)
qed

lemma dec_search_0: "0 < x \<Longrightarrow> \<bar>x * 10 ^ d\<bar> < 1/2 \<Longrightarrow> dec_search (Suc n) d x = dec_search n (Suc d) x"
  using rne_near[of "x * 10 ^ d" 0] by simp

lemma dec_search_small: "0 < x \<Longrightarrow> x * 10 ^ (d + k) < 1/2 \<Longrightarrow> dec_search (Suc k + n) d x = dec_search n (d + Suc k) x"
proof (induction k arbitrary: d)
  case 0
  then show ?case by (simp add: dec_search_0 del: dec_search.simps)
next
  case (Suc k)
  have le: "x * 10 ^ d \<le> x * 10 ^ (d + Suc k)" using Suc.prems(1) by (intro mult_left_mono power_increasing) auto
  have "\<bar>x * 10 ^ d\<bar> = x * 10 ^ d" using Suc.prems(1) by simp
  then have "\<bar>x * 10 ^ d\<bar> < 1/2" using le_less_trans[OF le Suc.prems(2)] by simp
  then have "dec_search (Suc (Suc k) + n) d x = dec_search (Suc k + n) (Suc d) x"
    using Suc.prems(1) by (simp only: add_Suc) (rule dec_search_0)
  also have "\<dots> = dec_search n (Suc d + Suc k) x" by (rule Suc.IH) (use Suc.prems in simp_all)
  finally show ?case by simp
qed

lemma dec_search_hit: "fl (of_int (rne (x * 10 ^ d)) / 10 ^ d) = x
    \<Longrightarrow> dec_search (Suc n) d x = of_int (rne (x * 10 ^ d)) / 10 ^ d"
  by simp

lemma dec_search_miss: "fl (of_int (rne (x * 10 ^ d)) / 10 ^ d) \<noteq> x
    \<Longrightarrow> dec_search (Suc n) d x = dec_search n (Suc d) x"
  by simp

end
