(* ===== verification/Money.thy ===== *)
theory Money
  imports Js_Number
begin

text \<open>
  Money at rest and in flight.  A money column of the database is \<open>Decimal(30, 8)\<close>
  (prisma/schema.prisma): the model stores it as an integer number of units of 1e-8 FARM.
  \<open>num\<close> is \<open>Number(column)\<close>, \<open>to_units\<close> is what a double becomes when it is written to such a
  column, \<open>dec_inc\<close> and \<open>dec_dec\<close> are the SQL increment and decrement of a column by a double:
  the decimal text of the double is added exactly and the sum is rounded to eight places.
  The lemmas bound the error of a chain of double operations in units; below 10 ^ 15 units (ten
  million FARM) a value that should be a whole number of units is stored as exactly that number.
\<close>

section \<open>Columns\<close>

definition num :: "int \<Rightarrow> rat" where
  "num n = fl (of_int n / 10 ^ 8)"

definition to_units :: "rat \<Rightarrow> int" where
  "to_units x = rhaz (js_dec x * 10 ^ 8)"

definition dec_inc :: "int \<Rightarrow> rat \<Rightarrow> int" where
  "dec_inc n x = rhaz (of_int n + js_dec x * 10 ^ 8)"

definition dec_dec :: "int \<Rightarrow> rat \<Rightarrow> int" where
  "dec_dec n x = rhaz (of_int n - js_dec x * 10 ^ 8)"

text \<open>A comparison done in SQL is exact: \<open>sql x\<close> is the parameter in units, not rounded.\<close>

definition sql :: "rat \<Rightarrow> rat" where
  "sql x = js_dec x * 10 ^ 8"

lemma num_0 [simp]: "num 0 = 0"
  by (simp add: num_def)

lemma num_mono: "m \<le> n \<Longrightarrow> num m \<le> num n"
  by (simp add: num_def fl_mono divide_right_mono)

lemma num_nonneg_iff [simp]: "0 \<le> num n \<longleftrightarrow> 0 \<le> n"
  by (simp add: num_def fl_nonneg_iff zero_le_divide_iff)

lemma num_pos_iff [simp]: "0 < num n \<longleftrightarrow> 0 < n"
  by (simp add: num_def fl_pos_iff zero_less_divide_iff)

lemma num_nonpos_iff [simp]: "num n \<le> 0 \<longleftrightarrow> n \<le> 0"
  using num_pos_iff[of n] by (simp add: not_less[symmetric] del: num_pos_iff)

section \<open>Nearness in units\<close>

definition near :: "rat \<Rightarrow> rat \<Rightarrow> int \<Rightarrow> bool" where
  "near e x k \<longleftrightarrow> \<bar>x * 10 ^ 8 - of_int k\<bar> \<le> e"

definition MAXU :: int where "MAXU = 10 ^ 15"

lemma abs_of_int_le: "\<bar>k\<bar> \<le> MAXU \<Longrightarrow> \<bar>of_int k :: rat\<bar> \<le> 10 ^ 15"
proof -
  assume "\<bar>k\<bar> \<le> MAXU"
  then have "of_int \<bar>k\<bar> \<le> (of_int (10 ^ 15) :: rat)" by (simp only: MAXU_def of_int_le_iff)
  then show ?thesis by simp
qed

text \<open>One rounding of a value below the bound costs at most this many units.\<close>

definition ulp :: rat where "ulp = 9 / 80"

lemma near_mono: "near e x k \<Longrightarrow> e \<le> e' \<Longrightarrow> near e' x k"
  by (auto simp: near_def)

lemma near_minus_iff: "near e (- x) (- k) \<longleftrightarrow> near e x k"
  unfolding near_def by (simp add: abs_minus_commute)

lemma near_add: "near e1 x j \<Longrightarrow> near e2 y k \<Longrightarrow> near (e1 + e2) (x + y) (j + k)"
  unfolding near_def distrib_right of_int_add by linarith

lemma near_diff: "near e1 x j \<Longrightarrow> near e2 y k \<Longrightarrow> near (e1 + e2) (x - y) (j - k)"
  unfolding near_def left_diff_distrib of_int_diff by linarith

lemma near_exact: "near 0 (of_int k / 10 ^ 8) k"
  by (simp add: near_def)

lemma near_rhaz: "near e x k \<Longrightarrow> e < 1/2 \<Longrightarrow> rhaz (x * 10 ^ 8) = k"
  unfolding near_def by (intro rhaz_near) linarith

lemma near_unique: "near e1 x j \<Longrightarrow> near e2 x k \<Longrightarrow> e1 + e2 < 1 \<Longrightarrow> j = k"
proof -
  assume "near e1 x j" "near e2 x k" "e1 + e2 < 1"
  then have "\<bar>of_int j - of_int k :: rat\<bar> < 1" unfolding near_def by linarith
  then show "j = k" by linarith
qed

lemma scale_abs: "\<bar>a - b\<bar> * 10 ^ 8 = \<bar>a * 10 ^ 8 - b * 10 ^ 8 :: rat\<bar>"
proof -
  have "a * 10 ^ 8 - b * 10 ^ 8 = (a - b) * 10 ^ 8" by (simp only: left_diff_distrib)
  then show ?thesis by (simp only: abs_mult) simp
qed

lemma self_bound: "(y::rat) \<le> 10 ^ 15 + 1 + y / 2 ^ 53 \<Longrightarrow> y \<le> 10 ^ 15 + 2"
  by simp

text \<open>
  The contract of a rounding function, and what it gives for chains of operations.  The
  double rounding \<open>fl\<close> provides it; the lemmas below use nothing else.
\<close>

locale rounding =
  fixes rnd :: "rat \<Rightarrow> rat"
  assumes rnd_minus: "rnd (- x) = - rnd x"
    and rnd_mono: "x \<le> y \<Longrightarrow> rnd x \<le> rnd y"
    and rnd_error: "\<bar>rnd x - x\<bar> \<le> \<bar>x\<bar> / 2 ^ 53"
begin

lemma near_rnd_within:
  assumes "near e x k" "\<bar>k\<bar> \<le> K" "e \<le> 1"
  shows "near (e + (of_int K + 1) / 2 ^ 53) (rnd x) k"
proof -
  have "of_int \<bar>k\<bar> \<le> (of_int K :: rat)" using assms(2) by (simp only: of_int_le_iff)
  then have k: "\<bar>of_int k :: rat\<bar> \<le> of_int K" by simp
  have "\<bar>rnd x - x\<bar> * 10 ^ 8 \<le> \<bar>x\<bar> / 2 ^ 53 * 10 ^ 8"
    by (intro mult_right_mono rnd_error) simp
  also have "\<dots> = \<bar>x * 10 ^ 8\<bar> / 2 ^ 53" by (simp add: abs_mult)
  also have "\<dots> \<le> (of_int K + 1) / 2 ^ 53"
    using assms(1,3) k unfolding near_def by (intro divide_right_mono, linarith, simp)
  finally have "\<bar>rnd x * 10 ^ 8 - x * 10 ^ 8\<bar> \<le> (of_int K + 1) / 2 ^ 53" unfolding scale_abs .
  with assms(1) show ?thesis unfolding near_def by linarith
qed

lemma near_rnd:
  assumes "near e x k" "\<bar>k\<bar> \<le> MAXU" "e \<le> 1" shows "near (e + ulp) (rnd x) k"
  by (rule near_mono[OF near_rnd_within[OF assms]]) (simp add: ulp_def MAXU_def)

text \<open>A tenth of the bound gives nine times the precision.\<close>

lemma near_rnd_tight:
  assumes "near e x k" "\<bar>k\<bar> \<le> 10 ^ 14" "e \<le> 1" shows "near (e + 1 / 80) (rnd x) k"
  by (rule near_mono[OF near_rnd_within[OF assms]]) simp

text \<open>Multiplying and dividing by the same constant costs one rounding.\<close>

lemma near_mult_div_within:
  assumes "near e x k" "\<bar>k\<bar> \<le> K" "e \<le> 1" "0 < c"
  shows "near (e + (of_int K + 1) / 2 ^ 53) (rnd (x * c) / c) k"
proof -
  have "of_int \<bar>k\<bar> \<le> (of_int K :: rat)" using assms(2) by (simp only: of_int_le_iff)
  then have k: "\<bar>of_int k :: rat\<bar> \<le> of_int K" by simp
  have "rnd (x * c) / c - x = (rnd (x * c) - x * c) / c" using assms(4) by (simp add: diff_divide_distrib)
  then have "\<bar>rnd (x * c) / c - x\<bar> = \<bar>rnd (x * c) - x * c\<bar> / c" using assms(4) by simp
  also have "\<dots> \<le> \<bar>x * c\<bar> / 2 ^ 53 / c" using assms(4) by (intro divide_right_mono rnd_error) simp
  also have "\<dots> = \<bar>x\<bar> / 2 ^ 53" using assms(4) by (simp add: abs_mult)
  finally have "\<bar>rnd (x * c) / c - x\<bar> * 10 ^ 8 \<le> \<bar>x\<bar> / 2 ^ 53 * 10 ^ 8" by (rule mult_right_mono) simp
  also have "\<dots> = \<bar>x * 10 ^ 8\<bar> / 2 ^ 53" by (simp add: abs_mult)
  also have "\<dots> \<le> (of_int K + 1) / 2 ^ 53"
    using assms(1,3) k unfolding near_def by (intro divide_right_mono, linarith, simp)
  finally have "\<bar>rnd (x * c) / c * 10 ^ 8 - x * 10 ^ 8\<bar> \<le> (of_int K + 1) / 2 ^ 53" unfolding scale_abs .
  with assms(1) show ?thesis unfolding near_def by linarith
qed

lemma near_mult_div:
  assumes "near e x k" "\<bar>k\<bar> \<le> 10 ^ 14" "e \<le> 1" "0 < c"
  shows "near (e + 1 / 80) (rnd (x * c) / c) k"
  by (rule near_mono[OF near_mult_div_within[OF assms]]) simp

lemma near_mult_div_max:
  assumes "near e x k" "\<bar>k\<bar> \<le> MAXU" "e \<le> 1" "0 < c"
  shows "near (e + ulp) (rnd (x * c) / c) k"
  by (rule near_mono[OF near_mult_div_within[OF assms]]) (simp add: ulp_def MAXU_def)

lemma near_plus:
  "near e1 x j \<Longrightarrow> near e2 y k \<Longrightarrow> \<bar>j + k\<bar> \<le> MAXU \<Longrightarrow> e1 + e2 \<le> 1
    \<Longrightarrow> near (e1 + e2 + ulp) (rnd (x + y)) (j + k)"
  by (intro near_rnd near_add)

lemma near_minus:
  "near e1 x j \<Longrightarrow> near e2 y k \<Longrightarrow> \<bar>j - k\<bar> \<le> MAXU \<Longrightarrow> e1 + e2 \<le> 1
    \<Longrightarrow> near (e1 + e2 + ulp) (rnd (x - y)) (j - k)"
  by (intro near_rnd near_diff)

text \<open>Preimages: a value that rounds to a number near \<open>k\<close> is itself near \<open>k\<close>.\<close>

lemma near_preimage:
  assumes "near e (rnd c) k" "\<bar>k\<bar> \<le> MAXU" "e \<le> 1"
  shows "near (e + ulp) c k"
proof -
  have k: "\<bar>of_int k :: rat\<bar> \<le> 10 ^ 15"
    using assms(2) by (rule abs_of_int_le)
  have u: "\<bar>rnd c * 10 ^ 8\<bar> \<le> 10 ^ 15 + 1" using assms(1,3) k unfolding near_def by linarith
  have e: "\<bar>rnd c * 10 ^ 8 - c * 10 ^ 8\<bar> \<le> \<bar>c * 10 ^ 8\<bar> / 2 ^ 53"
    using mult_right_mono[OF rnd_error[of c], of "10 ^ 8"] unfolding scale_abs by (simp add: abs_mult)
  then have "\<bar>c * 10 ^ 8\<bar> \<le> 10 ^ 15 + 1 + \<bar>c * 10 ^ 8\<bar> / 2 ^ 53" using u by linarith
  then have "\<bar>c * 10 ^ 8\<bar> \<le> 10 ^ 15 + 2" by (rule self_bound)
  then have "\<bar>c * 10 ^ 8\<bar> / 2 ^ 53 \<le> (10 ^ 15 + 2) / 2 ^ 53" by (rule divide_right_mono) simp
  also have "\<dots> \<le> ulp" by (simp add: ulp_def)
  finally have "\<bar>rnd c * 10 ^ 8 - c * 10 ^ 8\<bar> \<le> ulp" using e by linarith
  with assms(1) show ?thesis unfolding near_def by linarith
qed

end

interpretation js: rounding fl
  by unfold_locales (rule fl_minus, erule fl_mono, rule fl_error)

section \<open>Exactness of stored values\<close>

lemma near_num: "\<bar>k\<bar> \<le> MAXU \<Longrightarrow> near ulp (num k) k"
  unfolding num_def using js.near_rnd[OF near_exact] by simp

lemma near_js_dec:
  assumes "near e x k" "\<bar>k\<bar> \<le> MAXU" "e \<le> 1"
  shows "near (e + ulp) (js_dec x) k"
proof (cases "js_dec x = x")
  case True
  with assms(1) show ?thesis by (auto simp: ulp_def elim: near_mono)
next
  case False
  then have "fl (js_dec x) = x" using js_dec_cases[of x] by blast
  with assms show ?thesis using js.near_preimage[of e "js_dec x" k] by simp
qed

lemma to_units_near:
  "near e x k \<Longrightarrow> \<bar>k\<bar> \<le> MAXU \<Longrightarrow> e < 1/2 - ulp \<Longrightarrow> to_units x = k"
  unfolding to_units_def by (rule near_rhaz[OF near_js_dec]) (auto simp: ulp_def)

lemma dec_inc_near:
  assumes "near e x k" "\<bar>k\<bar> \<le> MAXU" "e < 1/2 - ulp" shows "dec_inc n x = n + k"
proof -
  have "near (e + ulp) (js_dec x) k" by (rule near_js_dec[OF assms(1,2)]) (use assms(3) in \<open>simp add: ulp_def\<close>)
  with assms(3) show ?thesis unfolding dec_inc_def near_def by (intro rhaz_near) (simp add: ulp_def)
qed

lemma dec_dec_near:
  assumes "near e x k" "\<bar>k\<bar> \<le> MAXU" "e < 1/2 - ulp" shows "dec_dec n x = n - k"
proof -
  have "near (e + ulp) (js_dec x) k" by (rule near_js_dec[OF assms(1,2)]) (use assms(3) in \<open>simp add: ulp_def\<close>)
  with assms(3) show ?thesis unfolding dec_dec_def near_def
    by (intro rhaz_near) (simp add: ulp_def abs_minus_commute)
qed

lemma toFixed8_near:
  assumes "near e x k" "\<bar>k\<bar> \<le> MAXU" "e < 1/2" shows "toFixed 8 x = num k"
proof -
  have "\<bar>of_int k :: rat\<bar> \<le> 10 ^ 15"
    using assms(2) by (rule abs_of_int_le)
  with assms have "\<bar>x * 10 ^ 8\<bar> \<le> 10 ^ 15 + 1" unfolding near_def by linarith
  then have "\<bar>x\<bar> < 10 ^ 21" by (simp add: abs_mult)
  moreover have "rhaz (x * 10 ^ 8) = k" using assms(1,3) by (rule near_rhaz)
  ultimately show ?thesis by (simp add: toFixed_def num_def)
qed

text \<open>The stored value of \<open>Number(column)\<close> is the column.\<close>

lemma to_units_num [simp]: "\<bar>k\<bar> \<le> MAXU \<Longrightarrow> to_units (num k) = k"
  by (rule to_units_near[OF near_num]) (auto simp: ulp_def)

lemma dec_inc_num [simp]: "\<bar>k\<bar> \<le> MAXU \<Longrightarrow> dec_inc n (num k) = n + k"
  by (rule dec_inc_near[OF near_num]) (auto simp: ulp_def)

lemma dec_dec_num [simp]: "\<bar>k\<bar> \<le> MAXU \<Longrightarrow> dec_dec n (num k) = n - k"
  by (rule dec_dec_near[OF near_num]) (auto simp: ulp_def)

lemma toFixed8_num [simp]: "\<bar>k\<bar> \<le> MAXU \<Longrightarrow> toFixed 8 (num k) = num k"
  by (rule toFixed8_near[OF near_num]) (auto simp: ulp_def)

lemma num_inject: "\<bar>j\<bar> \<le> MAXU \<Longrightarrow> \<bar>k\<bar> \<le> MAXU \<Longrightarrow> num j = num k \<longleftrightarrow> j = k"
  by (metis to_units_num)

lemma num_le_iff: assumes "\<bar>j\<bar> \<le> MAXU" "\<bar>k\<bar> \<le> MAXU" shows "num j \<le> num k \<longleftrightarrow> j \<le> k"
  using assms num_mono num_inject by (metis linorder_le_cases order_antisym)

lemma num_less_iff: assumes "\<bar>j\<bar> \<le> MAXU" "\<bar>k\<bar> \<le> MAXU" shows "num j < num k \<longleftrightarrow> j < k"
  using num_le_iff[OF assms(2,1)] by (simp add: not_le[symmetric])

text \<open>Sums and differences of two stored values, computed in doubles, then stored.\<close>

lemma dec_dec_sum:
  assumes "\<bar>j\<bar> \<le> MAXU" "\<bar>k\<bar> \<le> MAXU" "\<bar>j + k\<bar> \<le> MAXU"
  shows "dec_dec n (fl (num j + num k)) = n - (j + k)"
  by (rule dec_dec_near[OF js.near_plus[OF near_num near_num]]) (use assms in \<open>auto simp: ulp_def\<close>)

lemma to_units_sum:
  assumes "\<bar>j\<bar> \<le> MAXU" "\<bar>k\<bar> \<le> MAXU" "\<bar>j + k\<bar> \<le> MAXU"
  shows "to_units (fl (num j + num k)) = j + k"
  by (rule to_units_near[OF js.near_plus[OF near_num near_num]]) (use assms in \<open>auto simp: ulp_def\<close>)

lemma toFixed8_diff:
  assumes "\<bar>j\<bar> \<le> MAXU" "\<bar>k\<bar> \<le> MAXU" "\<bar>j - k\<bar> \<le> MAXU"
  shows "toFixed 8 (fl (num j - num k)) = num (j - k)"
  by (rule toFixed8_near[OF js.near_minus[OF near_num near_num]]) (use assms in \<open>auto simp: ulp_def\<close>)

lemma toFixed8_sum:
  assumes "\<bar>j\<bar> \<le> MAXU" "\<bar>k\<bar> \<le> MAXU" "\<bar>j + k\<bar> \<le> MAXU"
  shows "toFixed 8 (fl (num j + num k)) = num (j + k)"
  by (rule toFixed8_near[OF js.near_plus[OF near_num near_num]]) (use assms in \<open>auto simp: ulp_def\<close>)

text \<open>The decimal text of \<open>Number(column)\<close> is the column's value.\<close>

lemma dec_search_num:
  assumes k: "\<bar>k\<bar> \<le> MAXU" and "d \<le> 8" "9 - d \<le> n"
  shows "dec_search n d (num k) = of_int k / 10 ^ 8"
  using assms(2,3)
proof (induction n arbitrary: d)
  case 0
  then show ?case by simp
next
  case (Suc n)
  let ?j = "rne (num k * 10 ^ d)"
  let ?c = "of_int ?j / 10 ^ d :: rat"
  have c: "?c = of_int (?j * 10 ^ (8 - d)) / 10 ^ 8"
  proof -
    have p: "(10::rat) ^ 8 = 10 ^ d * 10 ^ (8 - d)" using Suc.prems(1) by (simp flip: power_add)
    show ?thesis unfolding p by simp
  qed
  show ?case
  proof (cases "fl ?c = num k")
    case True
    have "near (ulp + ulp) ?c k"
      by (rule js.near_preimage) (use True near_num[OF k] k in \<open>auto simp: ulp_def\<close>)
    moreover have "near 0 ?c (?j * 10 ^ (8 - d))" unfolding c by (rule near_exact)
    ultimately have "k = ?j * 10 ^ (8 - d)" by (rule near_unique) (simp add: ulp_def)
    with c have "?c = of_int k / 10 ^ 8" by simp
    moreover have "dec_search (Suc n) d (num k) = ?c" using True by (simp add: Let_def)
    ultimately show ?thesis by simp
  next
    case False
    have "d \<noteq> 8"
    proof
      assume d: "d = 8"
      have "\<bar>of_int (rne (num k * 10 ^ 8)) - num k * 10 ^ 8\<bar> \<le> 1/2" by (rule rne_bounds)
      moreover have "\<bar>num k * 10 ^ 8 - of_int k\<bar> \<le> ulp" using near_num[OF k] by (simp add: near_def)
      ultimately have "\<bar>of_int (rne (num k * 10 ^ 8)) - of_int k :: rat\<bar> < 1" unfolding ulp_def by linarith
      then have "rne (num k * 10 ^ 8) = k" by linarith
      with False d show False by (simp add: num_def)
    qed
    with False Suc show ?thesis by (simp add: Let_def)
  qed
qed

lemma js_dec_num: "\<bar>k\<bar> \<le> MAXU \<Longrightarrow> js_dec (num k) = of_int k / 10 ^ 8"
  unfolding js_dec_def by (rule dec_search_num) simp_all

lemma sql_num [simp]: "\<bar>k\<bar> \<le> MAXU \<Longrightarrow> sql (num k) = of_int k"
  by (simp add: sql_def js_dec_num)

lemma dec_inc_sql: "dec_inc n x = rhaz (of_int n + sql x)"
  by (simp add: dec_inc_def sql_def)

lemma dec_inc_le: "of_int n + sql x \<le> of_int k \<Longrightarrow> dec_inc n x \<le> k"
  unfolding dec_inc_sql by (metis rhaz_mono rhaz_of_int)

lemma dec_inc_ge: "0 \<le> x \<Longrightarrow> n \<le> dec_inc n x"
  using rhaz_mono[of "of_int n" "of_int n + sql x"] by (simp add: dec_inc_sql sql_def js_dec_nonneg_iff)

lemma to_units_floor: "0 \<le> x \<Longrightarrow> to_units x = \<lfloor>sql x + 1/2\<rfloor>"
proof -
  assume "0 \<le> x"
  then have "\<not> sql x < 0" by (simp add: sql_def js_dec_nonneg_iff not_less)
  then show ?thesis unfolding to_units_def sql_def rhaz_def by simp
qed

lemma sql_nonneg: "0 \<le> x \<Longrightarrow> 0 \<le> sql x"
  by (simp add: sql_def js_dec_nonneg_iff)

lemma to_units_nonneg: "0 \<le> x \<Longrightarrow> 0 \<le> to_units x"
  by (simp add: to_units_def rhaz_nonneg js_dec_nonneg_iff)

lemma inc_units: "0 \<le> n \<Longrightarrow> 0 \<le> x \<Longrightarrow> dec_inc n x = n + to_units x"
proof -
  assume n: "0 \<le> n" and x: "0 \<le> x"
  then have "dec_inc n x = \<lfloor>of_int n + (sql x + 1/2)\<rfloor>"
    using sql_nonneg[OF x] by (simp add: dec_inc_def sql_def rhaz_def add.assoc)
  then show ?thesis using x by (simp add: to_units_floor)
qed

section \<open>Whole amounts as bounds\<close>

lemma js_dec_le_of_int: assumes "x \<le> of_int n" "\<bar>n\<bar> \<le> 2 ^ 53" shows "js_dec x \<le> of_int n"
proof (cases "js_dec x = x")
  case False
  then have x: "fl (js_dec x) = x" using js_dec_cases[of x] by simp
  show ?thesis
  proof (rule ccontr)
    assume gt: "\<not> js_dec x \<le> of_int n"
    then have "fl (of_int n) \<le> x" using fl_mono[of "of_int n" "js_dec x"] x by simp
    then have "x = of_int n" using assms fl_of_int[OF assms(2)] by simp
    then show False using gt js_dec_of_int[OF assms(2)] by simp
  qed
qed (use assms in simp)

lemma to_units_le:
  assumes "x \<le> of_int n" "\<bar>n\<bar> \<le> 2 ^ 53" shows "to_units x \<le> n * 10 ^ 8"
proof -
  have "to_units x \<le> rhaz (of_int (n * 10 ^ 8))"
    unfolding to_units_def using js_dec_le_of_int[OF assms] by (intro rhaz_mono) simp
  then show ?thesis by (simp only: rhaz_of_int)
qed

lemma js_dec_ge_of_int:
  assumes "of_int n \<le> x" "\<bar>n\<bar> \<le> 2 ^ 53" shows "of_int n \<le> js_dec x"
proof (cases "js_dec x = x")
  case False
  then have x: "fl (js_dec x) = x" using js_dec_cases[of x] by simp
  show ?thesis
  proof (rule ccontr)
    assume lt: "\<not> of_int n \<le> js_dec x"
    then have "x \<le> fl (of_int n)" using fl_mono[of "js_dec x" "of_int n"] x by simp
    then have "x = of_int n" using assms fl_of_int[OF assms(2)] by simp
    then show False using lt js_dec_of_int[OF assms(2)] by simp
  qed
qed (use assms in simp)

lemma to_units_ge:
  assumes "of_int n \<le> x" "\<bar>n\<bar> \<le> 2 ^ 53" shows "n * 10 ^ 8 \<le> to_units x"
proof -
  have "rhaz (of_int (n * 10 ^ 8)) \<le> to_units x"
    unfolding to_units_def using js_dec_ge_of_int[OF assms] by (intro rhaz_mono) simp
  then show ?thesis by (simp only: rhaz_of_int)
qed

section \<open>Whole cents\<close>

text \<open>\<open>Math.round(x * 100) / 100\<close> of a double near a whole number of cents is that number.\<close>

lemma cents_near:
  assumes "near e x (1000000 * k)" "\<bar>1000000 * k\<bar> \<le> MAXU" "e \<le> 1"
  shows "fl (of_int (math_round (fl (x * 100))) / 100) = num (1000000 * k)"
proof -
  have "near (e + (of_int MAXU + 1) / 2 ^ 53) (fl (x * 100) / 100) (1000000 * k)"
    by (rule js.near_mult_div_within[OF assms]) simp
  then have "\<bar>fl (x * 100) / 100 * 10 ^ 8 - of_int (1000000 * k)\<bar> \<le> 2"
    using assms(3) unfolding near_def MAXU_def by (elim order_trans) simp
  then have "\<bar>1000000 * fl (x * 100) - 1000000 * of_int k\<bar> \<le> 2" by simp
  then have "\<bar>fl (x * 100) - of_int k\<bar> < 1/2" by linarith
  then have "math_round (fl (x * 100)) = k" unfolding math_round_def by (intro floor_unique; linarith)
  then show ?thesis by (simp add: num_def)
qed

end
