(* ===== verification/Prelude.thy ===== *)
theory Prelude
  imports Money
begin

text \<open>
  What every component shares.  A service method is an operation on the database state that
  either throws or returns a value, in both cases with the state it leaves behind:
  \<open>('s, 'a) op\<close>.  A throw keeps what was written before it, as in the code; the rollback of
  \<open>prisma.$transaction\<close> is in theory Core.  \<open>wp\<close> is the weakest precondition of
  an operation, and the collection \<open>wp_simps\<close> computes it; \<open>preserves\<close> is the frame rule for
  facts no operation of a group disturbs.  Tables are lists of rows in scan order, and the last
  section holds the lemmas on finding and updating a row by its key.
\<close>

section \<open>Operations\<close>

datatype err =
    BadRequest string
  | Incomplete string "string list"
  | Unauthorized string
  | Forbidden string
  | NotFound string
  | Conflict string
  | Gone string
  | Failure string

type_synonym ('s, 'a) op = "'s \<Rightarrow> (err + 'a) \<times> 's"

definition ret :: "'a \<Rightarrow> ('s, 'a) op" where
  "ret a = (\<lambda>s. (Inr a, s))"

definition throw :: "err \<Rightarrow> ('s, 'a) op" where
  "throw e = (\<lambda>s. (Inl e, s))"

definition bnd :: "('s, 'a) op \<Rightarrow> ('a \<Rightarrow> ('s, 'b) op) \<Rightarrow> ('s, 'b) op" where
  "bnd m f = (\<lambda>s. case m s of (Inr a, t) \<Rightarrow> f a t | (Inl e, t) \<Rightarrow> (Inl e, t))"

definition thn :: "('s, 'a) op \<Rightarrow> ('s, 'b) op \<Rightarrow> ('s, 'b) op" where
  "thn m k = bnd m (\<lambda>_. k)"

definition gets :: "('s \<Rightarrow> 'a) \<Rightarrow> ('s, 'a) op" where
  "gets f = (\<lambda>s. (Inr (f s), s))"

definition modify :: "('s \<Rightarrow> 's) \<Rightarrow> ('s, unit) op" where
  "modify f = (\<lambda>s. (Inr (), f s))"

definition catch :: "('s, 'a) op \<Rightarrow> (err \<Rightarrow> ('s, 'a) op) \<Rightarrow> ('s, 'a) op" where
  "catch m h = (\<lambda>s. case m s of (Inr a, t) \<Rightarrow> (Inr a, t) | (Inl e, t) \<Rightarrow> h e t)"

text \<open>\<open>if (!x) throw e\<close> on an optional row, and a loop over rows.\<close>

definition or_throw :: "err \<Rightarrow> 'a option \<Rightarrow> ('s, 'a) op" where
  "or_throw e x = (case x of None \<Rightarrow> throw e | Some a \<Rightarrow> ret a)"

definition of_sum :: "err + 'a \<Rightarrow> ('s, 'a) op" where
  "of_sum x = (case x of Inl e \<Rightarrow> throw e | Inr a \<Rightarrow> ret a)"

fun each :: "('a \<Rightarrow> ('s, unit) op) \<Rightarrow> 'a list \<Rightarrow> ('s, unit) op" where
  "each f [] = ret ()"
| "each f (x # xs) = thn (f x) (each f xs)"

section \<open>Weakest preconditions\<close>

named_theorems wp_simps

definition wp :: "('s, 'a) op \<Rightarrow> ('a \<Rightarrow> 's \<Rightarrow> bool) \<Rightarrow> (err \<Rightarrow> 's \<Rightarrow> bool) \<Rightarrow> 's \<Rightarrow> bool" where
  "wp m Q E s = (case m s of (Inr a, t) \<Rightarrow> Q a t | (Inl e, t) \<Rightarrow> E e t)"

lemma wp_ret [wp_simps]: "wp (ret a) Q E s = Q a s"
  by (simp add: wp_def ret_def)

lemma wp_ret_eta [wp_simps]: "wp (ret a) Q E = Q a"
  by (rule ext) (rule wp_ret)

lemma wp_throw [wp_simps]: "wp (throw e) Q E s = E e s"
  by (simp add: wp_def throw_def)

lemma wp_bnd [wp_simps]: "wp (bnd m f) Q E s = wp m (\<lambda>a. wp (f a) Q E) E s"
  by (simp add: wp_def bnd_def split: prod.splits sum.splits)

lemma wp_thn [wp_simps]: "wp (thn m k) Q E s = wp m (\<lambda>_. wp k Q E) E s"
  by (simp add: thn_def wp_bnd)

lemma wp_gets [wp_simps]: "wp (gets f) Q E s = Q (f s) s"
  by (simp add: wp_def gets_def)

lemma wp_modify [wp_simps]: "wp (modify f) Q E s = Q () (f s)"
  by (simp add: wp_def modify_def)

lemma wp_catch [wp_simps]: "wp (catch m h) Q E s = wp m Q (\<lambda>e. wp (h e) Q E) s"
  by (simp add: wp_def catch_def split: prod.splits sum.splits)

lemma wp_or_throw [wp_simps]:
  "wp (or_throw e x) Q E s = (case x of None \<Rightarrow> E e s | Some a \<Rightarrow> Q a s)"
  by (simp add: or_throw_def wp_throw wp_ret split: option.split)

lemma of_sum_wp: "(\<And>d. x = Inr d \<Longrightarrow> Q d s) \<Longrightarrow> (\<And>e. E e s) \<Longrightarrow> wp (of_sum x) Q E s"
  by (cases x) (simp_all add: of_sum_def wp_ret wp_throw)

lemma wp_if [wp_simps]: "wp (if b then m else k) Q E s = (if b then wp m Q E s else wp k Q E s)"
  by simp

lemma wp_case_option [wp_simps]:
  "wp (case x of None \<Rightarrow> m | Some a \<Rightarrow> f a) Q E s
    = (case x of None \<Rightarrow> wp m Q E s | Some a \<Rightarrow> wp (f a) Q E s)"
  by (simp split: option.split)

lemma wp_case_prod [wp_simps]:
  "wp (case x of (a, b) \<Rightarrow> f a b) Q E s = (case x of (a, b) \<Rightarrow> wp (f a b) Q E s)"
  by (simp split: prod.split)

lemma wp_let [wp_simps]: "wp (Let x f) Q E s = wp (f x) Q E s"
  by (simp add: Let_def)

lemma wp_mono:
  "wp m Q E s \<Longrightarrow> (\<And>a t. Q a t \<Longrightarrow> Q' a t) \<Longrightarrow> (\<And>e t. E e t \<Longrightarrow> E' e t) \<Longrightarrow> wp m Q' E' s"
  by (auto simp: wp_def split: prod.splits sum.splits)

lemma wp_conj: "wp m Q E s \<Longrightarrow> wp m Q' E' s
    \<Longrightarrow> wp m (\<lambda>a t. Q a t \<and> Q' a t) (\<lambda>e t. E e t \<and> E' e t) s"
  by (auto simp: wp_def split: prod.splits sum.splits)

lemma wpD_ok: "wp m Q E s \<Longrightarrow> m s = (Inr a, t) \<Longrightarrow> Q a t"
  by (simp add: wp_def)

lemma wpD_err: "wp m Q E s \<Longrightarrow> m s = (Inl e, t) \<Longrightarrow> E e t"
  by (simp add: wp_def)

lemma wpD_snd: "wp m (\<lambda>_. P) (\<lambda>_. P) s \<Longrightarrow> P (snd (m s))"
  by (auto simp: wp_def split: prod.splits sum.splits)

lemma wpI: "(\<And>a t. m s = (Inr a, t) \<Longrightarrow> Q a t) \<Longrightarrow> (\<And>e t. m s = (Inl e, t) \<Longrightarrow> E e t) \<Longrightarrow> wp m Q E s"
  by (auto simp: wp_def split: prod.splits sum.splits)

lemma wp_ok: "wp m Q (\<lambda>_ _. False) s \<Longrightarrow> \<exists>a t. m s = (Inr a, t) \<and> Q a t"
  by (auto simp: wp_def split: prod.splits sum.splits)

lemma wp_True: "wp m (\<lambda>_ _. True) (\<lambda>_ _. True) s"
  by (simp add: wp_def split: prod.split sum.split)

section \<open>Facts an operation preserves\<close>

named_theorems pres

definition preserves :: "('s \<Rightarrow> bool) \<Rightarrow> ('s, 'a) op \<Rightarrow> bool" where
  "preserves P m \<longleftrightarrow> (\<forall>s. P s \<longrightarrow> P (snd (m s)))"

lemma preservesI: "(\<And>s. P s \<Longrightarrow> wp m (\<lambda>_. P) (\<lambda>_. P) s) \<Longrightarrow> preserves P m"
  by (auto simp: preserves_def dest: wpD_snd)

lemma preservesD: "preserves P m \<Longrightarrow> P s \<Longrightarrow> P (snd (m s))"
  by (simp add: preserves_def)

lemma preserves_wp: "preserves P m \<Longrightarrow> P s \<Longrightarrow> wp m (\<lambda>_. P) (\<lambda>_. P) s"
  by (auto simp: preserves_def wp_def split: prod.splits sum.splits)

lemma preserves_ret [pres]: "preserves P (ret a)"
  by (simp add: preserves_def ret_def)

lemma preserves_throw [pres]: "preserves P (throw e)"
  by (simp add: preserves_def throw_def)

lemma preserves_gets [pres]: "preserves P (gets f)"
  by (simp add: preserves_def gets_def)

lemma preserves_bnd [pres]:
  "preserves P m \<Longrightarrow> (\<And>a. preserves P (f a)) \<Longrightarrow> preserves P (bnd m f)"
  by (auto simp: preserves_def bnd_def split: prod.splits sum.splits)

lemma preserves_thn [pres]: "preserves P m \<Longrightarrow> preserves P k \<Longrightarrow> preserves P (thn m k)"
  unfolding thn_def by (rule preserves_bnd)

lemma preserves_modify [pres]: "(\<And>s. P s \<Longrightarrow> P (f s)) \<Longrightarrow> preserves P (modify f)"
  by (simp add: preserves_def modify_def)

lemma preserves_catch [pres]:
  "preserves P m \<Longrightarrow> (\<And>e. preserves P (h e)) \<Longrightarrow> preserves P (catch m h)"
  by (auto simp: preserves_def catch_def split: prod.splits sum.splits)

lemma preserves_or_throw [pres]: "preserves P (or_throw e x)"
  by (simp add: or_throw_def preserves_ret preserves_throw split: option.split)

lemma preserves_if [pres]: "preserves P m \<Longrightarrow> preserves P k \<Longrightarrow> preserves P (if b then m else k)"
  by simp

lemma preserves_case_option [pres]:
  "preserves P m \<Longrightarrow> (\<And>a. preserves P (f a)) \<Longrightarrow> preserves P (case x of None \<Rightarrow> m | Some a \<Rightarrow> f a)"
  by (simp split: option.split)

lemma preserves_case_prod [pres]:
  "(\<And>a b. preserves P (f a b)) \<Longrightarrow> preserves P (case x of (a, b) \<Rightarrow> f a b)"
  by (simp split: prod.split)

lemma preserves_let [pres]: "preserves P (f x) \<Longrightarrow> preserves P (Let x f)"
  by (simp add: Let_def)

lemma preserves_each [pres]: "(\<And>x. preserves P (f x)) \<Longrightarrow> preserves P (each f xs)"
  by (induction xs) (auto intro: pres)

text \<open>
  Operations that keep an invariant, and what any sequence of them then keeps.  The operations
  of a component are a datatype of requests; a request that throws leaves the state it left.
\<close>

locale invariant_ops =
  fixes exec :: "'o \<Rightarrow> 's \<Rightarrow> 's" and inv :: "'s \<Rightarrow> bool"
  assumes exec_inv: "inv s \<Longrightarrow> inv (exec r s)"
begin

lemma run_inv: "inv s \<Longrightarrow> inv (fold exec rs s)"
  by (induction rs arbitrary: s) (auto intro: exec_inv)

end

text \<open>
  Operations that respect a relation between the states before and after, from states with an
  invariant: what a component promises of each of its operations, and what composition keeps.
\<close>

definition safe_op :: "('s \<Rightarrow> bool) \<Rightarrow> ('s \<Rightarrow> 's \<Rightarrow> bool) \<Rightarrow> ('s, 'a) op \<Rightarrow> bool" where
  "safe_op J R m \<longleftrightarrow> (\<forall>s. J s \<longrightarrow> wp m (\<lambda>_. R s) (\<lambda>_. R s) s)"

lemma safe_op_if: "safe_op J R m \<Longrightarrow> safe_op J R k \<Longrightarrow> safe_op J R (if b then m else k)"
  by simp

lemma safe_op_if_cond: "(b \<Longrightarrow> safe_op J R m) \<Longrightarrow> (\<not> b \<Longrightarrow> safe_op J R k) \<Longrightarrow> safe_op J R (if b then m else k)"
  by simp

lemma safe_op_case_option:
  "safe_op J R m \<Longrightarrow> (\<And>a. safe_op J R (f a)) \<Longrightarrow> safe_op J R (case x of None \<Rightarrow> m | Some a \<Rightarrow> f a)"
  by (simp split: option.split)

lemma safe_op_case_prod: "(\<And>a b. safe_op J R (f a b)) \<Longrightarrow> safe_op J R (case x of (a, b) \<Rightarrow> f a b)"
  by (simp split: prod.split)

locale step_contract =
  fixes inv :: "'s \<Rightarrow> bool" and rel :: "'s \<Rightarrow> 's \<Rightarrow> bool"
  assumes rel_refl: "inv s \<Longrightarrow> rel s s"
    and rel_trans: "rel s t \<Longrightarrow> rel t u \<Longrightarrow> rel s u"
    and rel_inv: "inv s \<Longrightarrow> rel s t \<Longrightarrow> inv t"
begin

lemma safeI: "(\<And>s. inv s \<Longrightarrow> wp m (\<lambda>_. rel s) (\<lambda>_. rel s) s) \<Longrightarrow> safe_op inv rel m"
  by (simp add: safe_op_def)

lemma safeD: "safe_op inv rel m \<Longrightarrow> inv s \<Longrightarrow> wp m (\<lambda>_. rel s) (\<lambda>_. rel s) s"
  by (simp add: safe_op_def)

lemma safe_from:
  "safe_op inv rel m \<Longrightarrow> inv s \<Longrightarrow> rel s t \<Longrightarrow> wp m (\<lambda>_. rel s) (\<lambda>_. rel s) t"
  by (rule wp_mono[OF safeD]) (auto intro: rel_inv rel_trans)

lemma safe_ret: "safe_op inv rel (ret a)"
  by (rule safeI) (simp add: wp_simps rel_refl)

lemma safe_throw: "safe_op inv rel (throw e)"
  by (rule safeI) (simp add: wp_simps rel_refl)

lemma safe_gets: "safe_op inv rel (gets f)"
  by (rule safeI) (simp add: wp_simps rel_refl)

lemma safe_bnd: "safe_op inv rel m \<Longrightarrow> (\<And>a. safe_op inv rel (f a)) \<Longrightarrow> safe_op inv rel (bnd m f)"
proof (rule safeI)
  fix s
  assume m: "safe_op inv rel m" and f: "\<And>a. safe_op inv rel (f a)" and s: "inv s"
  show "wp (bnd m f) (\<lambda>_. rel s) (\<lambda>_. rel s) s"
    unfolding wp_bnd by (rule wp_mono[OF safeD[OF m s]]) (auto intro: safe_from[OF f s])
qed

lemma safe_after:
  assumes "inv s" "wp m (\<lambda>_. rel s) (\<lambda>_. rel s) s" "\<And>a. safe_op inv rel (f a)"
  shows "wp (bnd m f) (\<lambda>_. rel s) (\<lambda>_. rel s) s"
  unfolding wp_bnd by (rule wp_mono[OF assms(2)]) (auto intro: safe_from[OF assms(3,1)])

lemma safe_bnd_value:
  assumes m: "safe_op inv rel m" and C: "\<And>s. wp m (\<lambda>a _. C a) (\<lambda>_ _. True) s"
    and f: "\<And>a. C a \<Longrightarrow> safe_op inv rel (f a)"
  shows "safe_op inv rel (bnd m f)"
proof (rule safeI)
  fix s
  assume s: "inv s"
  show "wp (bnd m f) (\<lambda>_. rel s) (\<lambda>_. rel s) s"
    unfolding wp_bnd by (rule wp_mono[OF wp_conj[OF safeD[OF m s] C[of s]]]) (auto intro: safe_from[OF f s])
qed

lemma safe_thn: "safe_op inv rel m \<Longrightarrow> safe_op inv rel k \<Longrightarrow> safe_op inv rel (thn m k)"
  unfolding thn_def by (rule safe_bnd)

lemma safe_catch: "safe_op inv rel m \<Longrightarrow> (\<And>e. safe_op inv rel (h e)) \<Longrightarrow> safe_op inv rel (catch m h)"
proof (rule safeI)
  fix s
  assume m: "safe_op inv rel m" and h: "\<And>e. safe_op inv rel (h e)" and s: "inv s"
  show "wp (catch m h) (\<lambda>_. rel s) (\<lambda>_. rel s) s"
    unfolding wp_catch by (rule wp_mono[OF safeD[OF m s]]) (auto intro: safe_from[OF h s])
qed

lemma safe_or_throw: "safe_op inv rel (or_throw e x)"
  by (simp add: or_throw_def safe_ret safe_throw split: option.split)

lemma safe_if: "safe_op inv rel m \<Longrightarrow> safe_op inv rel k \<Longrightarrow> safe_op inv rel (if b then m else k)"
  by simp

lemma safe_if_cond:
  "(b \<Longrightarrow> safe_op inv rel m) \<Longrightarrow> (\<not> b \<Longrightarrow> safe_op inv rel k) \<Longrightarrow> safe_op inv rel (if b then m else k)"
  by simp

lemma safe_case_option:
  "safe_op inv rel m \<Longrightarrow> (\<And>a. safe_op inv rel (f a)) \<Longrightarrow> safe_op inv rel (case x of None \<Rightarrow> m | Some a \<Rightarrow> f a)"
  by (simp split: option.split)

lemma safe_case_prod:
  "(\<And>a b. safe_op inv rel (f a b)) \<Longrightarrow> safe_op inv rel (case x of (a, b) \<Rightarrow> f a b)"
  by (simp split: prod.split)

lemma safe_let: "safe_op inv rel (f x) \<Longrightarrow> safe_op inv rel (Let x f)"
  by (simp add: Let_def)

lemma safe_snd: "safe_op inv rel m \<Longrightarrow> inv s \<Longrightarrow> rel s (snd (m s))"
  using safeD by (blast intro: wpD_snd)

lemmas safe_rules = safe_ret safe_throw safe_gets safe_bnd safe_thn safe_catch safe_or_throw safe_if
  safe_case_option safe_case_prod safe_let

end

text \<open>A contract kept by every admissible request of a component relates the ends of every run.\<close>

locale guarded_run = step_contract inv rel for inv :: "'s \<Rightarrow> bool" and rel :: "'s \<Rightarrow> 's \<Rightarrow> bool" +
  fixes exec :: "'o \<Rightarrow> 's \<Rightarrow> 's" and ok :: "'o \<Rightarrow> bool"
  assumes exec_ok: "ok r \<Longrightarrow> inv s \<Longrightarrow> rel s (exec r s)"
begin

lemma run_ok: "list_all ok rs \<Longrightarrow> inv s \<Longrightarrow> rel s (fold exec rs s)"
proof (induction rs arbitrary: s)
  case Nil
  then show ?case by (simp add: rel_refl)
next
  case (Cons r rs)
  then have "rel s (exec r s)" by (intro exec_ok) simp_all
  moreover from Cons this have "rel (exec r s) (fold exec rs (exec r s))" by (auto intro: rel_inv)
  ultimately show ?case by (auto intro: rel_trans)
qed

end

locale step_run = step_contract inv rel for inv :: "'s \<Rightarrow> bool" and rel :: "'s \<Rightarrow> 's \<Rightarrow> bool" +
  fixes exec :: "'o \<Rightarrow> 's \<Rightarrow> 's"
  assumes exec_rel: "inv s \<Longrightarrow> rel s (exec r s)"

sublocale step_run \<subseteq> guarded: guarded_run inv rel exec "\<lambda>_. True"
  by unfold_locales (rule exec_rel)

context step_run
begin

lemma run_rel: "inv s \<Longrightarrow> rel s (fold exec rs s)"
  by (rule guarded.run_ok) (simp_all add: list_all_iff)

lemma run_keeps: "inv s \<Longrightarrow> inv (fold exec rs s)"
  using run_rel rel_inv by blast

end

text \<open>
  Operations that also leave a view of the state alone.  What is known of the view when they start
  is still known when the next operation does.
\<close>

locale viewed_contract = step_contract inv rel for inv :: "'s \<Rightarrow> bool" and rel :: "'s \<Rightarrow> 's \<Rightarrow> bool" +
  fixes view :: "'s \<Rightarrow> 'v" and calm :: "'s \<Rightarrow> 's \<Rightarrow> bool"
  assumes calm_iff: "calm s t \<longleftrightarrow> rel s t \<and> view t = view s"
begin

lemma calm_safe: "safe_op inv calm m \<Longrightarrow> safe_op inv rel m"
  unfolding safe_op_def calm_iff by (blast intro: wp_mono)

lemma calm_bnd:
  assumes m: "safe_op inv calm m"
    and f: "\<And>a. safe_op (\<lambda>s. inv s \<and> G (view s)) rel (f a)"
  shows "safe_op (\<lambda>s. inv s \<and> G (view s)) rel (bnd m f)"
  unfolding safe_op_def wp_bnd
proof (intro allI impI, elim conjE)
  fix s
  assume s: "inv s" "G (view s)"
  have "wp m (\<lambda>_ t. rel s t \<and> view t = view s) (\<lambda>_ t. rel s t \<and> view t = view s) s"
    using m s(1) unfolding safe_op_def by (blast intro: wp_mono dest: calm_iff[THEN iffD1])
  then show "wp m (\<lambda>a. wp (f a) (\<lambda>_. rel s) (\<lambda>_. rel s)) (\<lambda>_. rel s) s"
  proof (rule wp_mono)
    fix a t
    assume t: "rel s t \<and> view t = view s"
    then have "wp (f a) (\<lambda>_. rel t) (\<lambda>_. rel t) t"
      using f[of a] s rel_inv[of s t] by (simp add: safe_op_def)
    then show "wp (f a) (\<lambda>_. rel s) (\<lambda>_. rel s) t" by (rule wp_mono) (use t in \<open>blast intro: rel_trans\<close>)+
  qed simp
qed

lemma calm_thn:
  "safe_op inv calm m \<Longrightarrow> safe_op (\<lambda>s. inv s \<and> G (view s)) rel k
    \<Longrightarrow> safe_op (\<lambda>s. inv s \<and> G (view s)) rel (thn m k)"
  unfolding thn_def by (rule calm_bnd)

lemma gets_view:
  "(\<And>a. safe_op (\<lambda>s. inv s \<and> h (view s) = a) rel (f a)) \<Longrightarrow> safe_op inv rel (bnd (gets (\<lambda>s. h (view s))) f)"
  by (simp add: safe_op_def wp_bnd wp_gets)

lemma under_bnd:
  "safe_op (\<lambda>s. inv s \<and> G (view s)) rel m \<Longrightarrow> (\<And>a. safe_op inv rel (f a))
    \<Longrightarrow> safe_op (\<lambda>s. inv s \<and> G (view s)) rel (bnd m f)"
  unfolding safe_op_def wp_bnd by (blast intro: wp_mono rel_inv rel_trans)

lemma under_thn:
  "safe_op (\<lambda>s. inv s \<and> G (view s)) rel m \<Longrightarrow> safe_op inv rel k
    \<Longrightarrow> safe_op (\<lambda>s. inv s \<and> G (view s)) rel (thn m k)"
  unfolding thn_def by (rule under_bnd)

lemma under_weaken: "safe_op inv rel m \<Longrightarrow> safe_op (\<lambda>s. inv s \<and> G (view s)) rel m"
  by (simp add: safe_op_def)

lemma underD: "safe_op (\<lambda>s. inv s \<and> G (view s)) rel m \<Longrightarrow> inv s \<Longrightarrow> rel s t \<Longrightarrow> G (view t)
    \<Longrightarrow> wp m (\<lambda>_. rel s) (\<lambda>_. rel s) t"
  unfolding safe_op_def by (blast intro: wp_mono rel_inv rel_trans)

end

sublocale viewed_contract \<subseteq> calm: step_contract inv calm
  by unfold_locales (auto simp: calm_iff intro: rel_refl rel_trans rel_inv)

section \<open>Tables\<close>

definition find_row :: "('r \<Rightarrow> 'k) \<Rightarrow> 'k \<Rightarrow> 'r list \<Rightarrow> 'r option" where
  "find_row key k rows = find (\<lambda>r. key r = k) rows"

definition upd_row :: "('r \<Rightarrow> 'k) \<Rightarrow> 'k \<Rightarrow> ('r \<Rightarrow> 'r) \<Rightarrow> 'r list \<Rightarrow> 'r list" where
  "upd_row key k f rows = map (\<lambda>r. if key r = k then f r else r) rows"

lemma find_row_Some: "find_row key k rows = Some r \<Longrightarrow> key r = k \<and> r \<in> set rows"
  unfolding find_row_def by (induction rows) (auto split: if_splits)

lemma find_row_None: "find_row key k rows = None \<longleftrightarrow> k \<notin> key ` set rows"
  unfolding find_row_def by (induction rows) auto

lemma find_row_Nil [simp]: "find_row key k [] = None"
  by (simp add: find_row_def)

lemma find_row_Cons [simp]:
  "find_row key k (r # rows) = (if key r = k then Some r else find_row key k rows)"
  by (simp add: find_row_def)

lemma find_row_append:
  "find_row key k (xs @ ys) = (case find_row key k xs of None \<Rightarrow> find_row key k ys | Some r \<Rightarrow> Some r)"
  by (induction xs) auto

lemma find_row_in: "distinct (map key rows) \<Longrightarrow> r \<in> set rows \<Longrightarrow> find_row key (key r) rows = Some r"
  by (induction rows) (auto simp: image_iff)

lemma upd_row_Nil [simp]: "upd_row key k f [] = []"
  by (simp add: upd_row_def)

lemma upd_row_Cons [simp]:
  "upd_row key k f (r # rows) = (if key r = k then f r else r) # upd_row key k f rows"
  by (simp add: upd_row_def)

lemma upd_row_append [simp]: "upd_row key k f (rows @ more) = upd_row key k f rows @ upd_row key k f more"
  by (simp add: upd_row_def)

lemma upd_row_absent: "k \<notin> key ` set rows \<Longrightarrow> upd_row key k f rows = rows"
  by (induction rows) auto

lemma length_upd_row [simp]: "length (upd_row key k f rows) = length rows"
  by (simp add: upd_row_def)

lemma upd_row_upd_row:
  "(\<And>r. key (g r) = key r) \<Longrightarrow> upd_row key k f (upd_row key k g rows) = upd_row key k (\<lambda>r. f (g r)) rows"
  by (induction rows) auto

text \<open>An update that keeps the key, as every update of the code does.\<close>

locale keyed_update =
  fixes key :: "'r \<Rightarrow> 'k" and f :: "'r \<Rightarrow> 'r"
  assumes key_f: "key (f r) = key r"
begin

lemma keys_upd: "map key (upd_row key k f rows) = map key rows"
  by (induction rows) (auto simp: key_f)

lemma find_upd:
  "find_row key j (upd_row key k f rows)
    = (if j = k then map_option f (find_row key k rows) else find_row key j rows)"
  by (induction rows) (auto simp: key_f)

end

lemma map_key_upd_row [simp]:
  "(\<And>r. key (f r) = key r) \<Longrightarrow> map key (upd_row key k f rows) = map key rows"
  by (rule keyed_update.keys_upd[OF keyed_update.intro])

lemma find_row_upd_row [simp]:
  "(\<And>r. key (f r) = key r) \<Longrightarrow> find_row key j (upd_row key k f rows)
    = (if j = k then map_option f (find_row key k rows) else find_row key j rows)"
  by (rule keyed_update.find_upd[OF keyed_update.intro])

lemma sum_upd_row:
  fixes g :: "'r \<Rightarrow> int"
  assumes "find_row key k rows = Some r" "distinct (map key rows)"
  shows "sum_list (map g (upd_row key k f rows)) = sum_list (map g rows) + (g (f r) - g r)"
  using assms by (induction rows) (auto simp: upd_row_absent)

lemma sum_upd_row_same:
  fixes g :: "'r \<Rightarrow> int"
  assumes "\<And>r. g (f r) = g r"
  shows "sum_list (map g (upd_row key k f rows)) = sum_list (map g rows)"
  using assms by (induction rows) auto

lemma list_all_upd_row:
  "list_all P rows \<Longrightarrow> (\<And>r. r \<in> set rows \<Longrightarrow> key r = k \<Longrightarrow> P r \<Longrightarrow> P (f r))
    \<Longrightarrow> list_all P (upd_row key k f rows)"
  by (induction rows) auto

text \<open>
  \<open>create\<close>, \<open>updateMany\<close> and \<open>deleteMany\<close> of a table, given as the selector and the update of its
  field of the state; the last two return the number of rows they found.
\<close>

definition upd_where :: "('r \<Rightarrow> bool) \<Rightarrow> ('r \<Rightarrow> 'r) \<Rightarrow> 'r list \<Rightarrow> 'r list" where
  "upd_where P f rows = map (\<lambda>r. if P r then f r else r) rows"

definition insert_row :: "(('r list \<Rightarrow> 'r list) \<Rightarrow> 's \<Rightarrow> 's) \<Rightarrow> 'r \<Rightarrow> ('s, unit) op" where
  "insert_row upd r = modify (upd (\<lambda>rows. rows @ [r]))"

definition update_many ::
  "('s \<Rightarrow> 'r list) \<Rightarrow> (('r list \<Rightarrow> 'r list) \<Rightarrow> 's \<Rightarrow> 's) \<Rightarrow> ('r \<Rightarrow> bool) \<Rightarrow> ('r \<Rightarrow> 'r) \<Rightarrow> ('s, nat) op" where
  "update_many tab upd P f = (\<lambda>s. (Inr (length (filter P (tab s))), upd (upd_where P f) s))"

definition delete_many ::
  "('s \<Rightarrow> 'r list) \<Rightarrow> (('r list \<Rightarrow> 'r list) \<Rightarrow> 's \<Rightarrow> 's) \<Rightarrow> ('r \<Rightarrow> bool) \<Rightarrow> ('s, nat) op" where
  "delete_many tab upd P = (\<lambda>s. (Inr (length (filter P (tab s))), upd (filter (\<lambda>r. \<not> P r)) s))"

lemma wp_insert_row [wp_simps]: "wp (insert_row upd r) Q E s = Q () (upd (\<lambda>rows. rows @ [r]) s)"
  by (simp add: insert_row_def wp_modify)

lemma wp_update_many [wp_simps]:
  "wp (update_many tab upd P f) Q E s = Q (length (filter P (tab s))) (upd (upd_where P f) s)"
  by (simp add: wp_def update_many_def)

lemma wp_delete_many [wp_simps]:
  "wp (delete_many tab upd P) Q E s = Q (length (filter P (tab s))) (upd (filter (\<lambda>r. \<not> P r)) s)"
  by (simp add: wp_def delete_many_def)

lemma upd_row_where: "upd_row key k f = upd_where (\<lambda>r. key r = k) f"
  by (simp add: fun_eq_iff upd_row_def upd_where_def)

lemma map_upd_where [simp]: "(\<And>r. key (f r) = key r) \<Longrightarrow> map key (upd_where P f rows) = map key rows"
  by (induction rows) (auto simp: upd_where_def)

lemma in_upd_where: "x \<in> set (upd_where P f rows) \<longleftrightarrow> (\<exists>r\<in>set rows. x = (if P r then f r else r))"
  by (auto simp: upd_where_def)

lemma find_row_upd_where:
  "(\<And>r. key (f r) = key r) \<Longrightarrow>
    find_row key k (upd_where P f rows) = map_option (\<lambda>r. if P r then f r else r) (find_row key k rows)"
  by (induction rows) (auto simp: upd_where_def)

lemma ball_upd_where:
  "(\<forall>x\<in>set (upd_where P f rows). Q x) \<longleftrightarrow> (\<forall>r\<in>set rows. (P r \<longrightarrow> Q (f r)) \<and> (\<not> P r \<longrightarrow> Q r))"
  by (auto simp: upd_where_def)

lemma filter_one:
  assumes "distinct (map key rows)" "r \<in> set rows" "P r" "\<And>x. x \<in> set rows \<Longrightarrow> P x \<Longrightarrow> key x = key r"
  shows "filter P rows = [r]"
  using assms
proof (induction rows)
  case (Cons a rows)
  show ?case
  proof (cases "a = r")
    case True
    have "\<not> P x" if "x \<in> set rows" for x
    proof
      assume "P x"
      then have "key x = key r" using Cons.prems(4) that by simp
      then have "key r \<in> set (map key rows)" using that by (metis image_eqI set_map)
      then show False using Cons.prems(1) True by simp
    qed
    then have "filter P rows = []" by (simp add: filter_empty_conv)
    with True Cons.prems(3) show ?thesis by simp
  next
    case False
    then have r: "r \<in> set rows" using Cons.prems(2) by simp
    have "\<not> P a"
    proof
      assume "P a"
      then have "key a = key r" using Cons.prems(4) by simp
      then show False using Cons.prems(1) r by (metis distinct.simps(2) image_eqI list.map(2) set_map)
    qed
    moreover have "filter P rows = [r]"
      by (rule Cons.IH[OF _ r Cons.prems(3)]) (use Cons.prems(1) in simp, rule Cons.prems(4), simp_all)
    ultimately show ?thesis by simp
  qed
qed simp

lemma sum_upd_one:
  fixes g :: "'r \<Rightarrow> int"
  assumes "distinct (map key rows)" "r \<in> set rows" "P r" "\<And>x. x \<in> set rows \<Longrightarrow> P x \<Longrightarrow> key x = key r"
  shows "sum_list (map g (upd_where P f rows)) = sum_list (map g rows) + (g (f r) - g r)"
proof -
  have "sum_list (map g (upd_where P f rows)) = sum_list (map g rows) + sum_list (map (\<lambda>x. g (f x) - g x) (filter P rows))"
    by (induction rows) (auto simp: upd_where_def)
  then show ?thesis using filter_one[where key = key and P = P, OF assms] by simp
qed

lemma find_map_keep: "(\<And>x. P (g x) = P x) \<Longrightarrow> find P (map g xs) = map_option g (find P xs)"
  by (induction xs) auto

section \<open>Strings\<close>

definition is_space :: "char \<Rightarrow> bool" where
  "is_space c \<longleftrightarrow> c \<in> {CHR '' '', CHR 0x09, CHR 0x0A, CHR 0x0B, CHR 0x0C, CHR 0x0D}"

text \<open>\<open>String.prototype.trim\<close> on ASCII text.\<close>

definition trim :: "string \<Rightarrow> string" where
  "trim s = rev (dropWhile is_space (rev (dropWhile is_space s)))"

lemma trim_Nil [simp]: "trim [] = []"
  by (simp add: trim_def)

text \<open>\<open>toLowerCase\<close> on ASCII text.\<close>

definition lower_char :: "char \<Rightarrow> char" where
  "lower_char c = (if 65 \<le> (of_char c :: nat) \<and> (of_char c :: nat) \<le> 90 then char_of ((of_char c :: nat) + 32) else c)"

definition upper_char :: "char \<Rightarrow> char" where
  "upper_char c = (if 97 \<le> (of_char c :: nat) \<and> (of_char c :: nat) \<le> 122 then char_of ((of_char c :: nat) - 32) else c)"

definition asset_char :: "char \<Rightarrow> bool" where
  "asset_char c \<longleftrightarrow> (97 \<le> (of_char c :: nat) \<and> (of_char c :: nat) \<le> 122) \<or> (48 \<le> (of_char c :: nat) \<and> (of_char c :: nat) \<le> 57)"

text \<open>The pattern of asset names, \<open>^[a-z0-9]{2,20}$\<close>.\<close>

definition asset_ok :: "string \<Rightarrow> bool" where
  "asset_ok c \<longleftrightarrow> 2 \<le> length c \<and> length c \<le> 20 \<and> list_all asset_char c"

text \<open>\<open>!!s\<close> for an optional string.\<close>

definition truthy :: "string option \<Rightarrow> bool" where
  "truthy s \<longleftrightarrow> (case s of None \<Rightarrow> False | Some t \<Rightarrow> t \<noteq> [])"

text \<open>\<open>x || y\<close> on strings.\<close>

definition or_string :: "string option \<Rightarrow> string option \<Rightarrow> string option" where
  "or_string x y = (if truthy x then x else y)"

text \<open>An optional string that is absent, or blank after trimming, is falsy.\<close>

definition blank :: "string option \<Rightarrow> bool" where
  "blank s \<longleftrightarrow> (case s of None \<Rightarrow> True | Some t \<Rightarrow> trim t = [])"

end
