(* ===== verification/Core.thy ===== *)
theory Core
  imports Prelude
begin

text \<open>
  The part of the database and of the process that every service works on: the tables
  \<open>users\<close>, \<open>biometric_settings\<close>, \<open>wallets\<close>, \<open>transactions\<close>, \<open>ledger_entries\<close> and
  \<open>fee_configurations\<close> of prisma/schema.prisma, the clock, the source of fresh ids, the in-memory
  fee cache, the Redis cache and the events sent to users.  A component
  with tables of its own extends the record.  Nullable columns with a default are modelled as
  non-null where the code never writes null.  Money columns are integers of 1e-8 FARM.
\<close>

section \<open>Rows\<close>

datatype user_role = RoleUser | RoleMerchant | RoleAdmin | RoleSuperAdmin

datatype kyc_status =
    KycNone | KycPending | KycVerified | KycRejected | KycUnderReview | KycAdditionalInfo

record user =
  u_id :: nat
  u_username :: string
  u_phone :: string
  u_email :: "string option"
  u_role :: user_role
  u_kyc :: kyc_status
  u_kyc_level :: int
  u_active :: bool
  u_deleted :: bool
  u_pin_hash :: "string option"
  u_failed_pins :: "int option"

record biometric =
  bm_user :: nat
  bm_enabled :: bool
  bm_fingerprint :: "string option"
  bm_device :: "string option"
  bm_type :: "string option"
  bm_trusted :: bool
  bm_last_verified :: "int option"
  bm_verifications :: "int option"
  bm_failed :: "int option"

datatype wallet_kind =
    UserWallet | MerchantWallet | PlatformWallet | TreasuryWallet | OperationsWallet | CreatorWallet

record wallet =
  w_id :: nat
  w_user :: "nat option"
  w_address :: string
  w_balance :: int
  w_locked :: int
  w_active :: bool
  w_frozen :: bool
  w_kind :: wallet_kind

datatype txn_type =
    DepositTxn | WithdrawalTxn | Transfer | TransferRequestTxn | MerchantPayment | EscrowLock
  | EscrowRelease | EscrowRefund | Investment | RoiPayout | Fee | InvestmentRefund
  | InvestmentSettlement | Conversion | CrossBorder

datatype txn_status = Pending | Processing | Completed | Failed | Cancelled | Reversed

datatype meta =
    MUser nat | MEscrow nat | MProject nat | MInvestment nat | MMilestone nat
  | MMerchantFee rat | MCategory string | MBy "nat option" | MRaised rat | MPartial
  | MHeldPart rat | MReservePart rat | MDisclosure nat | MRequest nat

record txn =
  t_id :: nat
  t_ref :: nat
  t_sender :: "nat option"
  t_receiver :: "nat option"
  t_type :: txn_type
  t_status :: txn_status
  t_amount :: int
  t_fee :: int
  t_net :: int
  t_created :: int
  t_meta :: "meta list"

datatype entry_type = Debit | Credit

record ledger_entry =
  l_txn :: "nat option"
  l_wallet :: nat
  l_type :: entry_type
  l_amount :: int
  l_before :: "int option"
  l_after :: "int option"
  l_category :: "string option"

datatype fee_key =
    EscrowCreation | EscrowReleaseFee | Withdrawal | InvestmentFee | TravelCommission
  | Merchant | TransferFee | ProjectListing | ReceivedChain | AgentPayment

record fee_config =
  fc_type :: string
  fc_percent :: int
  fc_flat :: int
  fc_min :: int
  fc_max :: int
  fc_active :: bool
  fc_created :: int
  fc_label :: "string option"
  fc_payer :: "string option"
  fc_wallet :: "nat option"

datatype fee_source = FromDb | FromEnv | FromDefault

record fee_rule =
  r_key :: fee_key
  r_percent :: rat
  r_flat :: rat
  r_min :: rat
  r_max :: rat
  r_source :: fee_source
  r_label :: "string option"
  r_payer :: "string option"
  r_wallet :: "nat option"

text \<open>
  What users see: realtime updates and notifications (kind and entity; the texts are not kept), and
  the events sent to a business, live or sandbox.
\<close>

datatype event =
    BalanceUpdate nat rat
  | TransactionUpdate nat nat
  | Notification nat string "nat option"
  | Webhook nat bool string nat

record wallet_payload =
  wp_id :: nat
  wp_balance :: rat
  wp_locked :: rat
  wp_available :: rat
  wp_frozen :: bool

record page_meta =
  pm_total :: int
  pm_page :: int
  pm_limit :: int
  pm_last :: int
  pm_next :: bool
  pm_prev :: bool

record history_item =
  hi_txn :: txn
  hi_outgoing :: bool

text \<open>Keys and values of the Redis cache (the prefix \<open>cache:\<close> is left out).\<close>

datatype cache_key =
    KWallet nat
  | KDashboard nat
  | KTransactions nat int int "txn_type option" "txn_status option"

datatype cache_val =
    VWallet wallet_payload
  | VHistory "history_item list" page_meta
  | VDashboard string

section \<open>State\<close>

record core =
  now :: int
  seq :: nat
  users :: "user list"
  biometrics :: "biometric list"
  activity :: "(nat \<times> string) list"
  wallets :: "wallet list"
  txns :: "txn list"
  ledger :: "ledger_entry list"
  fee_rows :: "fee_config list option"
  fee_env :: "fee_key \<Rightarrow> rat option"
  fee_wallet_env :: "nat option"
  fees_injected :: bool
  fee_cache :: "(int \<times> (fee_key \<Rightarrow> fee_rule)) option"
  cache_up :: bool
  cache :: "cache_key \<Rightarrow> (cache_val \<times> int) option"
  outbox :: "event list"

text \<open>Code outside the repository: bcrypt, the hash functions of node's crypto, and the start of
  the local day and month of the server's time zone.\<close>

record ext =
  bcrypt_compare :: "string \<Rightarrow> string \<Rightarrow> bool"
  bcrypt_hash :: "string \<Rightarrow> string"
  sha256_hex :: "string \<Rightarrow> string"
  hmac_sha256_b64url :: "string \<Rightarrow> string \<Rightarrow> string"
  day_start :: "int \<Rightarrow> int"
  month_start :: "int \<Rightarrow> int"

text \<open>\<open>prisma.$transaction\<close>: a throw restores the database; the fee cache lives in the process and
  stays as it is.\<close>

definition transaction :: "('a core_scheme, 'b) op \<Rightarrow> ('a core_scheme, 'b) op" where
  "transaction m = (\<lambda>s. case m s of
     (Inr a, t) \<Rightarrow> (Inr a, t)
   | (Inl e, t) \<Rightarrow> (Inl e, s\<lparr>fee_cache := fee_cache t\<rparr>))"

lemma wp_transaction [wp_simps]:
  "wp (transaction m) Q E s = wp m Q (\<lambda>e t. E e (s\<lparr>fee_cache := fee_cache t\<rparr>)) s"
  by (simp add: wp_def transaction_def split: prod.splits sum.splits)

lemma preserves_transaction [pres]:
  assumes "preserves P m" "\<And>s t. P s \<Longrightarrow> P t \<Longrightarrow> P (s\<lparr>fee_cache := fee_cache t\<rparr>)"
  shows "preserves P (transaction m)"
  using assms by (fastforce simp: preserves_def transaction_def split: prod.splits sum.splits)

section \<open>Rows of the shared tables\<close>

definition fresh :: "('a core_scheme, nat) op" where
  "fresh = (\<lambda>s. (Inr (seq s), s\<lparr>seq := Suc (seq s)\<rparr>))"

definition emit :: "event \<Rightarrow> ('a core_scheme, unit) op" where
  "emit e = modify (\<lambda>s. s\<lparr>outbox := outbox s @ [e]\<rparr>)"

definition user_by_id :: "'a core_scheme \<Rightarrow> nat \<Rightarrow> user option" where
  "user_by_id s i = find_row u_id i (users s)"

definition user_update :: "nat \<Rightarrow> (user \<Rightarrow> user) \<Rightarrow> ('a core_scheme, unit) op" where
  "user_update i f = modify (\<lambda>s. s\<lparr>users := upd_row u_id i f (users s)\<rparr>)"

definition wallet_by_id :: "'a core_scheme \<Rightarrow> nat \<Rightarrow> wallet option" where
  "wallet_by_id s i = find_row w_id i (wallets s)"

text \<open>\<open>wallets.findFirst({ user_id, is_active: true })\<close>, also as the included relation of a user.\<close>

definition active_wallet :: "'a core_scheme \<Rightarrow> nat \<Rightarrow> wallet option" where
  "active_wallet s u = find (\<lambda>w. w_user w = Some u \<and> w_active w) (wallets s)"

text \<open>\<open>wallets.update\<close> by id: the updated row, or an error when there is none.\<close>

definition wallet_update :: "nat \<Rightarrow> (wallet \<Rightarrow> wallet) \<Rightarrow> ('a core_scheme, wallet) op" where
  "wallet_update i f = (\<lambda>s. case wallet_by_id s i of
     None \<Rightarrow> (Inl (Failure ''Record to update not found''), s)
   | Some w \<Rightarrow> (Inr (f w), s\<lparr>wallets := upd_row w_id i f (wallets s)\<rparr>))"

definition txn_create :: "(nat \<Rightarrow> int \<Rightarrow> txn) \<Rightarrow> ('a core_scheme, txn) op" where
  "txn_create mk = bnd fresh (\<lambda>i s.
     let t = mk i (now s) in (Inr t, s\<lparr>txns := txns s @ [t]\<rparr>))"

definition txn_by_ref :: "'a core_scheme \<Rightarrow> nat \<Rightarrow> txn option" where
  "txn_by_ref s r = find_row t_ref r (txns s)"

definition txn_status_update :: "nat \<Rightarrow> txn_status \<Rightarrow> ('a core_scheme, unit) op" where
  "txn_status_update i st = modify (\<lambda>s. s\<lparr>txns := upd_row t_id i (\<lambda>t. t\<lparr>t_status := st\<rparr>) (txns s)\<rparr>)"

definition ledger_create :: "ledger_entry \<Rightarrow> ('a core_scheme, unit) op" where
  "ledger_create e = modify (\<lambda>s. s\<lparr>ledger := ledger s @ [e]\<rparr>)"

lemma wp_fresh [wp_simps]: "wp fresh Q E s = Q (seq s) (s\<lparr>seq := Suc (seq s)\<rparr>)"
  by (simp add: wp_def fresh_def)

lemma wp_emit [wp_simps]: "wp (emit e) Q E s = Q () (s\<lparr>outbox := outbox s @ [e]\<rparr>)"
  by (simp add: emit_def wp_simps)

lemma wp_user_update [wp_simps]:
  "wp (user_update i f) Q E s = Q () (s\<lparr>users := upd_row u_id i f (users s)\<rparr>)"
  by (simp add: user_update_def wp_simps)

lemma wp_wallet_update [wp_simps]:
  "wp (wallet_update i f) Q E s = (case wallet_by_id s i of
     None \<Rightarrow> E (Failure ''Record to update not found'') s
   | Some w \<Rightarrow> Q (f w) (s\<lparr>wallets := upd_row w_id i f (wallets s)\<rparr>))"
  by (simp add: wp_def wallet_update_def split: option.split)

lemma wp_txn_create [wp_simps]:
  "wp (txn_create mk) Q E s = Q (mk (seq s) (now s))
     (s\<lparr>seq := Suc (seq s), txns := txns s @ [mk (seq s) (now s)]\<rparr>)"
  by (simp add: txn_create_def wp_bnd wp_fresh) (simp add: wp_def Let_def)

lemma wp_ledger_create [wp_simps]:
  "wp (ledger_create e) Q E s = Q () (s\<lparr>ledger := ledger s @ [e]\<rparr>)"
  by (simp add: ledger_create_def wp_simps)

section \<open>The Redis cache (src/common/cache/cache.service.ts)\<close>

text \<open>Every call is a no-op when the cache is disabled or Redis is not reachable.\<close>

definition cacheGet :: "'a core_scheme \<Rightarrow> cache_key \<Rightarrow> cache_val option" where
  "cacheGet s k = (if \<not> cache_up s then None else
     (case cache s k of Some (v, expires) \<Rightarrow> if now s < expires then Some v else None | None \<Rightarrow> None))"

definition cacheSet :: "cache_key \<Rightarrow> cache_val \<Rightarrow> int \<Rightarrow> ('a core_scheme, unit) op" where
  "cacheSet k v seconds = modify (\<lambda>s.
     if cache_up s then s\<lparr>cache := (cache s)(k := Some (v, now s + seconds * 1000))\<rparr> else s)"

definition cacheDelete :: "cache_key \<Rightarrow> ('a core_scheme, unit) op" where
  "cacheDelete k = modify (\<lambda>s. if cache_up s then s\<lparr>cache := (cache s)(k := None)\<rparr> else s)"

definition history_of :: "nat \<Rightarrow> cache_key \<Rightarrow> bool" where
  "history_of u k = (case k of KTransactions v _ _ _ _ \<Rightarrow> v = u | _ \<Rightarrow> False)"

definition cacheInvalidateHistory :: "nat \<Rightarrow> ('a core_scheme, unit) op" where
  "cacheInvalidateHistory u = modify (\<lambda>s.
     if cache_up s then s\<lparr>cache := (\<lambda>k. if history_of u k then None else cache s k)\<rparr> else s)"

lemma wp_cacheSet [wp_simps]: "wp (cacheSet k v n) Q E s
    = Q () (if cache_up s then s\<lparr>cache := (cache s)(k := Some (v, now s + n * 1000))\<rparr> else s)"
  by (simp add: cacheSet_def wp_simps)

lemma wp_cacheDelete [wp_simps]: "wp (cacheDelete k) Q E s
    = Q () (if cache_up s then s\<lparr>cache := (cache s)(k := None)\<rparr> else s)"
  by (simp add: cacheDelete_def wp_simps)

lemma wp_cacheInvalidateHistory [wp_simps]: "wp (cacheInvalidateHistory u) Q E s
    = Q () (if cache_up s then s\<lparr>cache := (\<lambda>k. if history_of u k then None else cache s k)\<rparr> else s)"
  by (simp add: cacheInvalidateHistory_def wp_simps)

section \<open>What is only announced\<close>

text \<open>Operations that reach users and the cache, never the tables, and cannot fail.\<close>

definition quiet :: "('a core_scheme, unit) op \<Rightarrow> bool" where
  "quiet m \<longleftrightarrow> (\<forall>s. \<exists>x c. m s = (Inr (), s\<lparr>outbox := x, cache := c\<rparr>))"

named_theorems quiet_intros

lemma quietI: "(\<And>s. \<exists>x c. m s = (Inr (), s\<lparr>outbox := x, cache := c\<rparr>)) \<Longrightarrow> quiet m"
  by (simp add: quiet_def)

lemma wp_quiet: "quiet m \<Longrightarrow> (\<And>x c. Q () (s\<lparr>outbox := x, cache := c\<rparr>)) \<Longrightarrow> wp m Q E s"
  unfolding quiet_def wp_def by (drule spec[of _ s]) auto

lemma quiet_same: "\<exists>x c. s = s\<lparr>outbox := x, cache := c\<rparr>"
  by (rule exI[of _ "outbox s"], rule exI[of _ "cache s"]) simp

lemma quiet_ret [quiet_intros]: "quiet (ret ())"
  by (rule quietI) (simp add: ret_def quiet_same)

lemma quiet_emit [quiet_intros]: "quiet (emit e)"
proof (rule quietI)
  fix s :: "'a core_scheme"
  show "\<exists>x c. emit e s = (Inr (), s\<lparr>outbox := x, cache := c\<rparr>)"
    by (rule exI[of _ "outbox s @ [e]"], rule exI[of _ "cache s"]) (simp add: emit_def modify_def)
qed

lemma quiet_cache:
  fixes f :: "'a core_scheme \<Rightarrow> cache_key \<Rightarrow> (cache_val \<times> int) option"
  shows "quiet (modify (\<lambda>s. if cache_up s then s\<lparr>cache := f s\<rparr> else s))"
proof (rule quietI)
  fix s :: "'a core_scheme"
  show "\<exists>x c. modify (\<lambda>s. if cache_up s then s\<lparr>cache := f s\<rparr> else s) s
      = (Inr (), s\<lparr>outbox := x, cache := c\<rparr>)"
    by (rule exI[of _ "outbox s"], rule exI[of _ "if cache_up s then f s else cache s"])
      (simp add: modify_def)
qed

lemma quiet_caches [quiet_intros]:
  "quiet (cacheSet k v n)" "quiet (cacheDelete k)" "quiet (cacheInvalidateHistory u)"
  unfolding cacheSet_def cacheDelete_def cacheInvalidateHistory_def by (rule quiet_cache)+

lemma quiet_thn [quiet_intros]:
  assumes "quiet m" "quiet k" shows "quiet (thn m k)"
proof (rule quietI)
  fix s
  from assms(1) obtain x c where 1: "m s = (Inr (), s\<lparr>outbox := x, cache := c\<rparr>)"
    unfolding quiet_def by blast
  from assms(2) obtain y d where "k (s\<lparr>outbox := x, cache := c\<rparr>)
      = (Inr (), s\<lparr>outbox := x, cache := c\<rparr>\<lparr>outbox := y, cache := d\<rparr>)"
    unfolding quiet_def by blast
  with 1 show "\<exists>x c. thn m k s = (Inr (), s\<lparr>outbox := x, cache := c\<rparr>)"
    by (auto simp: thn_def bnd_def)
qed

lemma quiet_if [quiet_intros]: "quiet m \<Longrightarrow> quiet k \<Longrightarrow> quiet (if b then m else k)"
  by simp

lemma quiet_case_option [quiet_intros]:
  "quiet m \<Longrightarrow> (\<And>a. quiet (f a)) \<Longrightarrow> quiet (case x of None \<Rightarrow> m | Some a \<Rightarrow> f a)"
  by (simp split: option.split)

lemma quiet_each [quiet_intros]: "(\<And>x. quiet (f x)) \<Longrightarrow> quiet (each f xs)"
  by (induction xs) (auto intro: quiet_intros)

section \<open>Money in the wallets\<close>

definition total :: "'a core_scheme \<Rightarrow> int" where
  "total s = sum_list (map w_balance (wallets s))"

definition available :: "wallet \<Rightarrow> int" where
  "available w = w_balance w - w_locked w"

definition wallet_keys :: "'a core_scheme \<Rightarrow> bool" where
  "wallet_keys s \<longleftrightarrow> distinct (map w_id (wallets s))"

text \<open>No wallet owes money: nothing locked below zero, nothing locked that is not there.\<close>

definition solvent :: "'a core_scheme \<Rightarrow> bool" where
  "solvent s \<longleftrightarrow> list_all (\<lambda>w. 0 \<le> w_locked w \<and> 0 \<le> available w) (wallets s)"

text \<open>\<open>{ increment: x }\<close> and \<open>{ decrement: x }\<close> on the two money columns.\<close>

definition inc_balance :: "rat \<Rightarrow> wallet \<Rightarrow> wallet" where
  "inc_balance x w = w\<lparr>w_balance := dec_inc (w_balance w) x\<rparr>"

definition dec_balance :: "rat \<Rightarrow> wallet \<Rightarrow> wallet" where
  "dec_balance x w = w\<lparr>w_balance := dec_dec (w_balance w) x\<rparr>"

definition inc_locked :: "rat \<Rightarrow> wallet \<Rightarrow> wallet" where
  "inc_locked x w = w\<lparr>w_locked := dec_inc (w_locked w) x\<rparr>"

definition dec_locked :: "rat \<Rightarrow> wallet \<Rightarrow> wallet" where
  "dec_locked x w = w\<lparr>w_locked := dec_dec (w_locked w) x\<rparr>"

lemmas wallet_update_defs = inc_balance_def dec_balance_def inc_locked_def dec_locked_def

lemma wallet_update_keys [simp]:
  "w_id (inc_balance x w) = w_id w" "w_id (dec_balance x w) = w_id w"
  "w_id (inc_locked x w) = w_id w" "w_id (dec_locked x w) = w_id w"
  "w_user (inc_balance x w) = w_user w" "w_user (dec_balance x w) = w_user w"
  "w_user (inc_locked x w) = w_user w" "w_user (dec_locked x w) = w_user w"
  "w_active (inc_balance x w) = w_active w" "w_active (dec_balance x w) = w_active w"
  "w_active (inc_locked x w) = w_active w" "w_active (dec_locked x w) = w_active w"
  by (simp_all add: wallet_update_defs)

lemma wallet_update_money [simp]:
  "w_balance (inc_balance x w) = dec_inc (w_balance w) x"
  "w_balance (dec_balance x w) = dec_dec (w_balance w) x"
  "w_balance (inc_locked x w) = w_balance w" "w_balance (dec_locked x w) = w_balance w"
  "w_locked (inc_balance x w) = w_locked w" "w_locked (dec_balance x w) = w_locked w"
  "w_locked (inc_locked x w) = dec_inc (w_locked w) x"
  "w_locked (dec_locked x w) = dec_dec (w_locked w) x"
  by (simp_all add: wallet_update_defs)

interpretation inc_balance: keyed_update w_id "inc_balance x"
  by unfold_locales simp

interpretation dec_balance: keyed_update w_id "dec_balance x"
  by unfold_locales simp

interpretation inc_locked: keyed_update w_id "inc_locked x"
  by unfold_locales simp

interpretation dec_locked: keyed_update w_id "dec_locked x"
  by unfold_locales simp

lemma total_upd:
  assumes "wallet_by_id s i = Some w" "wallet_keys s"
  shows "total (s\<lparr>wallets := upd_row w_id i f (wallets s)\<rparr>) = total s + (w_balance (f w) - w_balance w)"
  using assms unfolding total_def wallet_by_id_def wallet_keys_def by (simp add: sum_upd_row)

lemma total_cong: "wallets t = wallets s \<Longrightarrow> total t = total s"
  by (simp add: total_def)

lemma solvent_cong: "wallets t = wallets s \<Longrightarrow> solvent t = solvent s"
  by (simp add: solvent_def)

lemma wallet_keys_cong: "wallets t = wallets s \<Longrightarrow> wallet_keys t = wallet_keys s"
  by (simp add: wallet_keys_def)

lemma wallet_by_id_Some: "wallet_by_id s i = Some w \<Longrightarrow> w_id w = i \<and> w \<in> set (wallets s)"
  unfolding wallet_by_id_def by (rule find_row_Some)

lemma find_Some: "find P xs = Some x \<Longrightarrow> P x \<and> x \<in> set xs"
  by (induction xs) (auto split: if_splits)

lemma active_wallet_Some:
  "active_wallet s u = Some w \<Longrightarrow> w_user w = Some u \<and> w_active w \<and> w \<in> set (wallets s)"
  unfolding active_wallet_def by (drule find_Some) simp

lemma active_wallet_by_id:
  "active_wallet s u = Some w \<Longrightarrow> wallet_keys s \<Longrightarrow> wallet_by_id s (w_id w) = Some w"
  unfolding wallet_by_id_def wallet_keys_def by (auto dest: active_wallet_Some intro: find_row_in)

section \<open>A small database\<close>

text \<open>Two users, the platform account and their wallets: the concrete input of the examples.\<close>

definition sample_ext :: ext where
  "sample_ext = \<lparr>bcrypt_compare = (\<lambda>p h. h = CHR ''#'' # p), bcrypt_hash = (\<lambda>p. CHR ''#'' # p),
     sha256_hex = rev, hmac_sha256_b64url = (\<lambda>k x. k @ x), day_start = (\<lambda>t. t - t mod 86400000),
     month_start = (\<lambda>t. t - t mod 2592000000)\<rparr>"

definition sample_user :: "nat \<Rightarrow> string \<Rightarrow> user_role \<Rightarrow> user" where
  "sample_user i name r = \<lparr>u_id = i, u_username = name, u_phone = name @ ''-phone'', u_email = None, u_role = r,
     u_kyc = KycVerified, u_kyc_level = 2, u_active = True, u_deleted = False,
     u_pin_hash = Some ''#1234'', u_failed_pins = Some 0\<rparr>"

definition sample_wallet :: "nat \<Rightarrow> nat \<Rightarrow> int \<Rightarrow> wallet" where
  "sample_wallet i u b = \<lparr>w_id = i, w_user = Some u, w_address = ''FARM'' @ replicate i CHR ''x'',
     w_balance = b, w_locked = 0, w_active = True, w_frozen = False, w_kind = UserWallet\<rparr>"

definition sample :: core where
  "sample = \<lparr>now = 1000000000000, seq = 100,
     users = [sample_user 1 ''ada'' RoleUser, sample_user 2 ''bob'' RoleUser, sample_user 9 ''farm'' RoleSuperAdmin],
     biometrics = [], activity = [],
     wallets = [sample_wallet 11 1 50000000000, sample_wallet 12 2 20000000000, sample_wallet 19 9 0],
     txns = [], ledger = [], fee_rows = Some [], fee_env = (\<lambda>_. None), fee_wallet_env = None,
     fees_injected = False, fee_cache = None, cache_up = True, cache = (\<lambda>_. None), outbox = []\<rparr>"

lemmas sample_defs = sample_def sample_user_def sample_wallet_def sample_ext_def

end
