(* ===== verification/Accounts.thy ===== *)
theory Accounts
  imports Core
begin

text \<open>
  The abstract books: every wallet is an account with a balance and a locked part, in whole units.
  \<open>accounts\<close> reads them off the database, \<open>post\<close> is the abstract booking of a balance and a
  locked amount, and the first lemmas show that the wallet updates of the code are bookings.
  Services state their effect on money as a chain of bookings; \<open>tot\<close> (the money in all accounts)
  and \<open>ok\<close> (no account owes money) are then arithmetic on the chain.
\<close>

type_synonym books = "nat \<rightharpoonup> int \<times> int"

section \<open>Bookings\<close>

definition post :: "nat \<Rightarrow> int \<Rightarrow> int \<Rightarrow> books \<Rightarrow> books" where
  "post i b l A = A(i := map_option (\<lambda>(x, y). (x + b, y + l)) (A i))"

definition tot :: "books \<Rightarrow> int" where
  "tot A = (\<Sum>i\<in>dom A. fst (the (A i)))"

definition ok :: "books \<Rightarrow> bool" where
  "ok A \<longleftrightarrow> (\<forall>i b l. A i = Some (b, l) \<longrightarrow> 0 \<le> l \<and> l \<le> b)"

definition acct :: "wallet list \<Rightarrow> books" where
  "acct ws = (\<lambda>i. map_option (\<lambda>w. (w_balance w, w_locked w)) (find_row w_id i ws))"

abbreviation accounts :: "'a core_scheme \<Rightarrow> books" where
  "accounts s \<equiv> acct (wallets s)"

lemma post_apply [simp]:
  "post i b l A j = (if j = i then map_option (\<lambda>(x, y). (x + b, y + l)) (A i) else A j)"
  by (simp add: post_def)

lemma dom_post [simp]: "dom (post i b l A) = dom A"
  by (auto simp: post_def split: if_splits)

lemma post_0 [simp]: "post i 0 0 A = A"
  by (rule ext, cases "A i") auto

lemma post_post_same: "post i b l (post i c m A) = post i (b + c) (l + m) A"
  by (rule ext, cases "A i") auto

lemma post_commute: "post i b l (post j c m A) = post j c m (post i b l A)"
  by (rule ext, cases "A i"; cases "A j") auto

lemma tot_post:
  assumes "finite (dom A)" "i \<in> dom A" shows "tot (post i b l A) = tot A + b"
proof -
  from assms(2) obtain x y where A: "A i = Some (x, y)" by auto
  have rest: "(\<Sum>j\<in>dom A - {i}. fst (the (post i b l A j))) = (\<Sum>j\<in>dom A - {i}. fst (the (A j)))"
    by (rule sum.cong) auto
  have "tot (post i b l A) = (x + b) + (\<Sum>j\<in>dom A - {i}. fst (the (A j)))"
    unfolding tot_def dom_post sum.remove[OF assms] rest by (simp add: A)
  moreover have "tot A = x + (\<Sum>j\<in>dom A - {i}. fst (the (A j)))"
    unfolding tot_def sum.remove[OF assms] by (simp add: A)
  ultimately show ?thesis by simp
qed

lemma okD: "ok A \<Longrightarrow> A i = Some (b, l) \<Longrightarrow> 0 \<le> l \<and> l \<le> b"
  by (simp add: ok_def)

lemma ok_post:
  assumes "ok A" "\<And>x y. A i = Some (x, y) \<Longrightarrow> 0 \<le> y \<Longrightarrow> y \<le> x \<Longrightarrow> 0 \<le> y + l \<and> y + l \<le> x + b"
  shows "ok (post i b l A)"
  using assms unfolding ok_def by (force split: if_splits)

lemma ok_credit: "ok A \<Longrightarrow> 0 \<le> b \<Longrightarrow> ok (post i b 0 A)"
  by (rule ok_post) auto

section \<open>The wallets table as books\<close>

lemma dom_acct: "dom (acct ws) = w_id ` set ws"
  using find_row_None[of w_id _ ws] by (auto simp: acct_def dom_def)

lemma finite_dom_acct [simp]: "finite (dom (acct ws))"
  by (simp add: dom_acct)

lemma accounts_wallet: "wallet_by_id s i = Some w \<Longrightarrow> accounts s i = Some (w_balance w, w_locked w)"
  by (simp add: acct_def wallet_by_id_def)

lemma in_dom_accounts: "wallet_by_id s i = Some w \<Longrightarrow> i \<in> dom (accounts s)"
  by (auto dest: accounts_wallet)

lemma total_tot: "wallet_keys s \<Longrightarrow> total s = tot (accounts s)"
proof -
  assume k: "wallet_keys s"
  then have i: "inj_on w_id (set (wallets s))" by (simp add: wallet_keys_def distinct_map)
  have "tot (accounts s) = (\<Sum>w\<in>set (wallets s). fst (the (acct (wallets s) (w_id w))))"
    unfolding tot_def dom_acct by (rule sum.reindex[OF i, unfolded o_def])
  also have "\<dots> = (\<Sum>w\<in>set (wallets s). w_balance w)"
  proof (rule sum.cong)
    fix w assume "w \<in> set (wallets s)"
    then show "fst (the (acct (wallets s) (w_id w))) = w_balance w"
      using k by (simp add: acct_def find_row_in wallet_keys_def)
  qed simp
  also have "\<dots> = total s"
    using k by (simp add: total_def wallet_keys_def distinct_map sum_list_distinct_conv_sum_set)
  finally show ?thesis by simp
qed

lemma solvent_ok: "wallet_keys s \<Longrightarrow> solvent s \<longleftrightarrow> ok (accounts s)"
proof
  assume "solvent s"
  then show "ok (accounts s)"
    by (auto simp: ok_def acct_def solvent_def available_def list_all_iff dest!: find_row_Some)
next
  assume k: "wallet_keys s" and o: "ok (accounts s)"
  show "solvent s" unfolding solvent_def list_all_iff
  proof
    fix w assume "w \<in> set (wallets s)"
    then have "accounts s (w_id w) = Some (w_balance w, w_locked w)"
      using k by (simp add: acct_def find_row_in wallet_keys_def)
    from okD[OF o this] show "0 \<le> w_locked w \<and> 0 \<le> available w" by (simp add: available_def)
  qed
qed

section \<open>The updates of the code are bookings\<close>

lemma acct_upd:
  "(\<And>w. w_id (f w) = w_id w \<and> w_balance (f w) = w_balance w + b \<and> w_locked (f w) = w_locked w + l)
    \<Longrightarrow> acct (upd_row w_id i f ws) = post i b l (acct ws)"
  by (rule ext) (auto simp: acct_def option.map_comp o_def)

lemma acct_inc_balance [simp]:
  "\<bar>k\<bar> \<le> MAXU \<Longrightarrow> acct (upd_row w_id i (inc_balance (num k)) ws) = post i k 0 (acct ws)"
  by (rule acct_upd) simp

lemma acct_dec_balance [simp]:
  "\<bar>k\<bar> \<le> MAXU \<Longrightarrow> acct (upd_row w_id i (dec_balance (num k)) ws) = post i (- k) 0 (acct ws)"
  by (rule acct_upd) simp

lemma acct_dec_balance_sum [simp]:
  "\<bar>j\<bar> \<le> MAXU \<Longrightarrow> \<bar>k\<bar> \<le> MAXU \<Longrightarrow> \<bar>j + k\<bar> \<le> MAXU
    \<Longrightarrow> acct (upd_row w_id i (dec_balance (fl (num j + num k))) ws) = post i (- (j + k)) 0 (acct ws)"
  by (rule acct_upd) (simp add: dec_dec_sum)

lemma acct_inc_locked [simp]:
  "\<bar>k\<bar> \<le> MAXU \<Longrightarrow> acct (upd_row w_id i (inc_locked (num k)) ws) = post i 0 k (acct ws)"
  by (rule acct_upd) simp

lemma acct_dec_locked [simp]:
  "\<bar>k\<bar> \<le> MAXU \<Longrightarrow> acct (upd_row w_id i (dec_locked (num k)) ws) = post i 0 (- k) (acct ws)"
  by (rule acct_upd) simp

text \<open>What an update of the money columns leaves alone: who owns which wallet.\<close>

lemma find_upd_row:
  "(\<And>r. P (f r) = P r) \<Longrightarrow> find P (upd_row key k f rows)
    = map_option (\<lambda>r. if key r = k then f r else r) (find P rows)"
  by (induction rows) auto

lemma active_wallet_upd:
  assumes "\<And>w. w_user (f w) = w_user w" "\<And>w. w_active (f w) = w_active w"
  shows "active_wallet (s\<lparr>wallets := upd_row w_id i f (wallets s)\<rparr>) u
    = map_option (\<lambda>w. if w_id w = i then f w else w) (active_wallet s u)"
  unfolding active_wallet_def by (simp add: find_upd_row assms)

section \<open>The ledger\<close>

text \<open>What a ledger entry says: its transaction, wallet, direction and amount in units.\<close>

definition entry :: "ledger_entry \<Rightarrow> nat option \<times> nat \<times> entry_type \<times> int" where
  "entry e = (l_txn e, l_wallet e, l_type e, l_amount e)"

text \<open>Any amount added to a balance that is not negative.\<close>

lemma acct_credit:
  "find_row w_id i ws = Some w \<Longrightarrow> 0 \<le> w_balance w \<Longrightarrow> 0 \<le> x
    \<Longrightarrow> acct (upd_row w_id i (inc_balance x) ws) = post i (to_units x) 0 (acct ws)"
  by (rule ext) (auto simp: acct_def option.map_comp o_def inc_units)

end
