(* ===== verification/Fees.thy ===== *)
theory Fees
  imports Accounts
begin

text \<open>
  The fee schedule: src/fees/fee-defaults.ts (keys, defaults, the fee arithmetic, the credits to
  the platform wallet) and src/fees/fees.service.ts (rules from the database with a 30 second
  cache, quotes).  The lemmas on \<open>computeFee\<close> hold for the double arithmetic as it is:
  sign, monotonicity in the amount, the cap and the floor, and that a fee computed to eight
  (two) places is a stored number of units (hundredths).
\<close>

section \<open>Keys and defaults\<close>

definition FEE_KEYS :: "fee_key list" where
  "FEE_KEYS = [EscrowCreation, EscrowReleaseFee, Withdrawal, InvestmentFee, TravelCommission,
     Merchant, TransferFee, ProjectListing, ReceivedChain, AgentPayment]"

fun key_name :: "fee_key \<Rightarrow> string" where
  "key_name EscrowCreation = ''escrow_creation''"
| "key_name EscrowReleaseFee = ''escrow_release''"
| "key_name Withdrawal = ''withdrawal''"
| "key_name InvestmentFee = ''investment''"
| "key_name TravelCommission = ''travel_commission''"
| "key_name Merchant = ''merchant''"
| "key_name TransferFee = ''transfer''"
| "key_name ProjectListing = ''project_listing''"
| "key_name ReceivedChain = ''received_chain''"
| "key_name AgentPayment = ''agent_payment''"

fun FEE_DEFAULTS :: "fee_key \<Rightarrow> rat" where
  "FEE_DEFAULTS EscrowCreation = 3/2"
| "FEE_DEFAULTS EscrowReleaseFee = 3/2"
| "FEE_DEFAULTS Withdrawal = 3/2"
| "FEE_DEFAULTS InvestmentFee = 3"
| "FEE_DEFAULTS TravelCommission = 5"
| "FEE_DEFAULTS Merchant = 1"
| "FEE_DEFAULTS TransferFee = 0"
| "FEE_DEFAULTS ProjectListing = 15"
| "FEE_DEFAULTS ReceivedChain = 0"
| "FEE_DEFAULTS AgentPayment = 0"

text \<open>\<open>fee_env s k\<close> is \<open>Number(process.env.FEE_<KEY>_PCT)\<close>, \<open>None\<close> when the variable is missing,
  empty or not a finite number.\<close>

definition defaultPercent :: "'a core_scheme \<Rightarrow> fee_key \<Rightarrow> rat \<times> fee_source" where
  "defaultPercent s k = (case fee_env s k of
     Some n \<Rightarrow> if 0 \<le> n \<and> n \<le> 100 then (n, FromEnv) else (FEE_DEFAULTS k, FromDefault)
   | None \<Rightarrow> (FEE_DEFAULTS k, FromDefault))"

section \<open>The arithmetic\<close>

definition raw_fee :: "fee_rule \<Rightarrow> rat \<Rightarrow> rat" where
  "raw_fee r amount = fl (fl (fl (amount * r_percent r) / 100) + r_flat r)"

definition round_dp :: "nat \<Rightarrow> rat \<Rightarrow> rat" where
  "round_dp dp fee = fl (of_int (math_round (fl (fl (fee + number_epsilon) * 10 ^ dp))) / 10 ^ dp)"

definition computeFee :: "fee_rule \<Rightarrow> rat \<Rightarrow> nat \<Rightarrow> rat" where
  "computeFee r amount dp =
     (if amount \<le> 0 then 0
      else let fee = raw_fee r amount;
               fee = (if r_min r > 0 then max (r_min r) fee else fee);
               fee = (if r_max r > 0 then min (r_max r) fee else fee)
           in max 0 (round_dp dp fee))"

section \<open>Rules\<close>

definition default_rule :: "'a core_scheme \<Rightarrow> fee_key \<Rightarrow> fee_rule" where
  "default_rule s k = \<lparr>r_key = k, r_percent = fst (defaultPercent s k), r_flat = 0, r_min = 0,
     r_max = 0, r_source = snd (defaultPercent s k), r_label = None, r_payer = None, r_wallet = None\<rparr>"

text \<open>The percentage column is \<open>Decimal(10, 4)\<close>.\<close>

definition db_rule :: "fee_key \<Rightarrow> fee_config \<Rightarrow> fee_rule" where
  "db_rule k c = \<lparr>r_key = k, r_percent = fl (of_int (fc_percent c) / 10 ^ 4), r_flat = num (fc_flat c),
     r_min = num (fc_min c), r_max = num (fc_max c), r_source = FromDb, r_label = fc_label c,
     r_payer = fc_payer c, r_wallet = fc_wallet c\<rparr>"

text \<open>Active rows of known keys, newest first; the first of a key wins.\<close>

definition configured :: "'a core_scheme \<Rightarrow> fee_config list" where
  "configured s = (case fee_rows s of
     None \<Rightarrow> []
   | Some rows \<Rightarrow> sort_key (\<lambda>c. - fc_created c)
       (filter (\<lambda>c. fc_type c \<in> set (map key_name FEE_KEYS) \<and> fc_active c) rows))"

definition loaded_rule :: "'a core_scheme \<Rightarrow> fee_key \<Rightarrow> fee_rule" where
  "loaded_rule s k = (case find (\<lambda>c. fc_type c = key_name k) (configured s) of
     Some c \<Rightarrow> db_rule k c
   | None \<Rightarrow> (default_rule s k)\<lparr>r_wallet := if k = ProjectListing then fee_wallet_env s else None\<rparr>)"

definition TTL_MS :: int where "TTL_MS = 30000"

definition rules :: "('a core_scheme, fee_key \<Rightarrow> fee_rule) op" where
  "rules = (\<lambda>s. case fee_cache s of
     Some (t0, m) \<Rightarrow>
       if now s - t0 < TTL_MS then (Inr m, s)
       else (Inr (loaded_rule s), s\<lparr>fee_cache := Some (now s, loaded_rule s)\<rparr>)
   | None \<Rightarrow> (Inr (loaded_rule s), s\<lparr>fee_cache := Some (now s, loaded_rule s)\<rparr>))"

definition invalidate :: "('a core_scheme, unit) op" where
  "invalidate = modify (\<lambda>s. s\<lparr>fee_cache := None\<rparr>)"

definition rule :: "fee_key \<Rightarrow> ('a core_scheme, fee_rule) op" where
  "rule k = bnd rules (\<lambda>m. ret (m k))"

definition fee :: "fee_key \<Rightarrow> rat \<Rightarrow> nat \<Rightarrow> ('a core_scheme, rat) op" where
  "fee k amount dp = bnd (rule k) (\<lambda>r. ret (computeFee r amount dp))"

definition feeFor :: "fee_key \<Rightarrow> rat \<Rightarrow> nat \<Rightarrow> ('a core_scheme, rat) op" where
  "feeFor k amount dp = bnd (gets fees_injected) (\<lambda>on.
     if on then fee k amount dp
     else bnd (gets (\<lambda>s. default_rule s k)) (\<lambda>r. ret (computeFee r amount dp)))"

definition ruleFor :: "fee_key \<Rightarrow> ('a core_scheme, fee_rule) op" where
  "ruleFor k = bnd (gets fees_injected) (\<lambda>on.
     if on then rule k else gets (\<lambda>s. default_rule s k))"

definition publicSchedule ::
  "('a core_scheme, (fee_key \<times> string \<times> rat \<times> rat \<times> rat \<times> rat \<times> string option) list) op" where
  "publicSchedule = bnd rules (\<lambda>m. ret (map (\<lambda>k. let r = m k in
     (r_key r, (case r_label r of Some l \<Rightarrow> l | None \<Rightarrow> key_name (r_key r)),
      r_percent r, r_flat r, r_min r, r_max r, r_payer r)) FEE_KEYS))"

text \<open>\<open>amount\<close> is \<open>None\<close> when the request's number is not finite.\<close>

definition quote_fee :: "string \<Rightarrow> rat option \<Rightarrow> ('a core_scheme, rat \<times> rat) op" where
  "quote_fee key amount = (case find (\<lambda>k. key_name k = key) FEE_KEYS of
     None \<Rightarrow> throw (BadRequest ''Unknown fee type'')
   | Some k \<Rightarrow> (case amount of
       None \<Rightarrow> throw (BadRequest ''Amount must be positive'')
     | Some a \<Rightarrow>
        if a \<le> 0 then throw (BadRequest ''Amount must be positive'')
        else bnd (rule k) (\<lambda>r. ret (r_percent r, computeFee r a 2))))"

section \<open>Credits to the platform wallet\<close>

text \<open>\<open>users.findFirst({ role: 'super_admin', is_deleted: false }, include its active wallet)\<close>.\<close>

definition platform_wallet :: "'a core_scheme \<Rightarrow> wallet option" where
  "platform_wallet s = (case find (\<lambda>u. u_role u = RoleSuperAdmin \<and> \<not> u_deleted u) (users s) of
     None \<Rightarrow> None
   | Some u \<Rightarrow> active_wallet s (u_id u))"

definition creditWalletInTx ::
  "nat \<Rightarrow> rat \<Rightarrow> nat option \<Rightarrow> string option \<Rightarrow> ('a core_scheme, unit) op" where
  "creditWalletInTx wid amount txn_id category =
     (if \<not> amount > 0 then ret ()
      else bnd (gets (\<lambda>s. wallet_by_id s wid)) (\<lambda>before. case before of
        None \<Rightarrow> throw (Failure ''Fee wallet not found'')
      | Some w \<Rightarrow>
          thn (wallet_update wid (inc_balance amount))
            (ledger_create \<lparr>l_txn = txn_id, l_wallet = wid, l_type = Credit,
               l_amount = to_units amount,
               l_before = Some (to_units (num (w_balance w))),
               l_after = Some (to_units (fl (num (w_balance w) + amount))),
               l_category = category\<rparr>)))"

definition creditPlatformInTx ::
  "rat \<Rightarrow> nat option \<Rightarrow> string option \<Rightarrow> ('a core_scheme, unit) op" where
  "creditPlatformInTx amount txn_id category =
     (if \<not> amount > 0 then ret ()
      else bnd (gets platform_wallet) (\<lambda>w. case w of
        None \<Rightarrow> throw (Failure ''Platform fee wallet not found'')
      | Some w \<Rightarrow> creditWalletInTx (w_id w) amount txn_id category))"

section \<open>The rules in force\<close>

definition next_cache :: "'a core_scheme \<Rightarrow> (int \<times> (fee_key \<Rightarrow> fee_rule)) option" where
  "next_cache s = (if fees_injected s then fee_cache (snd (rules s)) else fee_cache s)"

definition rule_in :: "'a core_scheme \<Rightarrow> fee_key \<Rightarrow> fee_rule" where
  "rule_in s k = (if fees_injected s then
     (case fee_cache s of
        Some (t0, m) \<Rightarrow> if now s - t0 < TTL_MS then m k else loaded_rule s k
      | None \<Rightarrow> loaded_rule s k)
   else default_rule s k)"

lemma wp_rules: "wp rules Q E s = Q (\<lambda>k. (case fee_cache s of
        Some (t0, m) \<Rightarrow> if now s - t0 < TTL_MS then m k else loaded_rule s k
      | None \<Rightarrow> loaded_rule s k)) (s\<lparr>fee_cache := fee_cache (snd (rules s))\<rparr>)"
  by (cases s) (auto simp: wp_def rules_def fun_eq_iff split: option.split)

lemma wp_rule: "fees_injected s \<Longrightarrow> wp (rule k) Q E s = Q (rule_in s k) (s\<lparr>fee_cache := next_cache s\<rparr>)"
  by (simp add: rule_def wp_simps wp_rules rule_in_def next_cache_def)

lemma no_refresh: "\<not> fees_injected s \<Longrightarrow> s\<lparr>fee_cache := next_cache s\<rparr> = s"
  by (simp add: next_cache_def)

lemma wp_ruleFor [wp_simps]:
  "wp (ruleFor k) Q E s = Q (rule_in s k) (s\<lparr>fee_cache := next_cache s\<rparr>)"
  by (cases "fees_injected s") (simp_all add: ruleFor_def wp_simps wp_rule no_refresh rule_in_def)

lemma wp_feeFor [wp_simps]:
  "wp (feeFor k a dp) Q E s = Q (computeFee (rule_in s k) a dp) (s\<lparr>fee_cache := next_cache s\<rparr>)"
  by (cases "fees_injected s")
    (simp_all add: feeFor_def fee_def wp_simps wp_rule no_refresh rule_in_def)

lemma rule_in_refresh [simp]: "rule_in (s\<lparr>fee_cache := next_cache s\<rparr>) k = rule_in s k"
  by (cases s) (auto simp: rule_in_def next_cache_def rules_def TTL_MS_def default_rule_def
      defaultPercent_def split: option.split)

lemma default_rule_cong:
  "fee_env t = fee_env s \<Longrightarrow> default_rule t k = default_rule s k"
  by (simp add: default_rule_def defaultPercent_def)

lemma loaded_rule_cong:
  assumes "fee_rows t = fee_rows s" "fee_env t = fee_env s" "fee_wallet_env t = fee_wallet_env s"
  shows "loaded_rule t k = loaded_rule s k"
proof -
  have "configured t = configured s" using assms by (simp add: configured_def)
  then show ?thesis
    using assms default_rule_cong[of t s] by (simp add: loaded_rule_def split: option.split)
qed

lemma rule_in_cong:
  assumes "fees_injected t = fees_injected s" "fee_cache t = fee_cache s" "now t = now s"
    "fee_rows t = fee_rows s" "fee_env t = fee_env s" "fee_wallet_env t = fee_wallet_env s"
  shows "rule_in t k = rule_in s k"
  using assms loaded_rule_cong[of t s] default_rule_cong[of t s]
  by (simp add: rule_in_def split: option.split)

lemma rule_in_frame [simp]:
  "rule_in (s\<lparr>users := x1\<rparr>) k = rule_in s k" "rule_in (s\<lparr>biometrics := x2\<rparr>) k = rule_in s k"
  "rule_in (s\<lparr>wallets := x3\<rparr>) k = rule_in s k"
  by (rule rule_in_cong; simp)+

text \<open>Without a database row and an override, the code's defaults are in force.\<close>

lemma rule_in_default:
  assumes "fee_cache s = None" "fee_rows s = Some []"
  shows "rule_in s k = (default_rule s k)\<lparr>r_wallet := r_wallet (rule_in s k)\<rparr>"
  using assms by (simp add: rule_in_def loaded_rule_def configured_def default_rule_def)

section \<open>The fee as a number of units\<close>

definition capped_fee :: "fee_rule \<Rightarrow> rat \<Rightarrow> rat" where
  "capped_fee r amount =
     (let f = raw_fee r amount;
          f = (if r_min r > 0 then max (r_min r) f else f)
      in if r_max r > 0 then min (r_max r) f else f)"

definition rounded :: "nat \<Rightarrow> rat \<Rightarrow> int" where
  "rounded dp x = math_round (fl (fl (x + number_epsilon) * 10 ^ dp))"

definition fee_units :: "fee_rule \<Rightarrow> rat \<Rightarrow> nat \<Rightarrow> int" where
  "fee_units r amount dp =
     (if amount \<le> 0 then 0 else max 0 (rounded dp (capped_fee r amount)) * 10 ^ (8 - dp))"

lemma fl_scaled: "dp \<le> 8 \<Longrightarrow> fl (of_int i / 10 ^ dp) = num (i * 10 ^ (8 - dp))"
proof -
  assume "dp \<le> 8"
  then have p: "(10::rat) ^ 8 = 10 ^ dp * 10 ^ (8 - dp)" by (simp flip: power_add)
  show ?thesis unfolding num_def p by simp
qed

lemma computeFee_units: "dp \<le> 8 \<Longrightarrow> computeFee r a dp = num (fee_units r a dp)"
proof -
  assume dp: "dp \<le> 8"
  have m: "max 0 (num (j * 10 ^ (8 - dp))) = num (max 0 j * 10 ^ (8 - dp))" for j
  proof (cases "0 \<le> j")
    case False
    then have "j * 10 ^ (8 - dp) \<le> 0" by (simp add: mult_le_0_iff)
    then have "num (j * 10 ^ (8 - dp)) \<le> 0" using num_mono[of _ 0] by simp
    with False show ?thesis by simp
  qed simp
  have "computeFee r a dp = (if a \<le> 0 then 0 else max 0 (round_dp dp (capped_fee r a)))"
    by (simp add: computeFee_def capped_fee_def Let_def)
  then show ?thesis
    by (simp add: round_dp_def fl_scaled[OF dp] m fee_units_def rounded_def)
qed

lemma fee_units_nonneg [simp]: "0 \<le> fee_units r a dp"
  by (simp add: fee_units_def)

lemma math_round_mono: "x \<le> y \<Longrightarrow> math_round x \<le> math_round y"
  by (simp add: math_round_def floor_mono)

lemma rounded_mono: "x \<le> y \<Longrightarrow> rounded dp x \<le> rounded dp y"
  unfolding rounded_def by (intro math_round_mono fl_mono mult_right_mono) auto

lemma raw_fee_mono: "0 \<le> r_percent r \<Longrightarrow> a \<le> b \<Longrightarrow> raw_fee r a \<le> raw_fee r b"
  unfolding raw_fee_def by (intro fl_mono add_right_mono divide_right_mono mult_right_mono) auto

lemma capped_fee_mono: "0 \<le> r_percent r \<Longrightarrow> a \<le> b \<Longrightarrow> capped_fee r a \<le> capped_fee r b"
  using raw_fee_mono[of r a b] by (auto simp: capped_fee_def Let_def max_def min_def)

lemma fee_units_mono:
  assumes "0 \<le> r_percent r" "a \<le> b" shows "fee_units r a dp \<le> fee_units r b dp"
  using rounded_mono[OF capped_fee_mono[OF assms], of dp] assms
  by (auto simp: fee_units_def intro!: mult_right_mono)

text \<open>Rounding to \<open>dp\<close> places returns the value of a number that has \<open>dp\<close> places.\<close>

lemma math_round_near: "\<bar>x - of_int k\<bar> < 1/2 \<Longrightarrow> math_round x = k"
  unfolding math_round_def by linarith

lemma near_eps: "near e x k \<Longrightarrow> near (e + 1 / 10 ^ 7) (x + number_epsilon) k"
  using near_add[of e x k "1 / 10 ^ 7" number_epsilon 0] by (simp add: near_def number_epsilon_def)

lemma rounded_near8:
  assumes "near e x k" "\<bar>k\<bar> \<le> MAXU" "e + 2 * ulp + 1 / 10 ^ 7 < 1/2"
  shows "rounded 8 x = k"
proof -
  let ?y = "fl (x + number_epsilon)"
  have y: "near (e + 1 / 10 ^ 7 + ulp) ?y k"
    by (rule js.near_rnd[OF near_eps[OF assms(1)] assms(2)]) (use assms(3) in \<open>simp add: ulp_def\<close>)
  have k: "\<bar>of_int k :: rat\<bar> \<le> 10 ^ 15" by (rule abs_of_int_le[OF assms(2)])
  have "\<bar>fl (?y * 10 ^ 8) - ?y * 10 ^ 8\<bar> \<le> \<bar>?y * 10 ^ 8\<bar> / 2 ^ 53" by (rule fl_error)
  also have "\<dots> \<le> (10 ^ 15 + 1) / 2 ^ 53"
    using y k assms(3) unfolding near_def ulp_def by (intro divide_right_mono, linarith, simp)
  also have "\<dots> \<le> ulp" by (simp add: ulp_def)
  finally have "\<bar>fl (?y * 10 ^ 8) - of_int k\<bar> < 1/2" using y assms(3) unfolding near_def by linarith
  then show ?thesis unfolding rounded_def by (rule math_round_near)
qed

lemma rounded8_num: "\<bar>k\<bar> \<le> MAXU \<Longrightarrow> rounded 8 (num k) = k"
  by (rule rounded_near8[OF near_num]) (auto simp: ulp_def)

text \<open>The cap and the floor, in units.\<close>

lemma fee_units_max:
  assumes "r_max r = num m" "0 < m" "m \<le> MAXU" shows "fee_units r a 8 \<le> m"
proof -
  have "capped_fee r a \<le> num m" using assms by (simp add: capped_fee_def Let_def)
  then have "rounded 8 (capped_fee r a) \<le> rounded 8 (num m)" by (rule rounded_mono)
  with assms rounded8_num[of m] show ?thesis by (simp add: fee_units_def)
qed

lemma fee_units_min:
  assumes "r_min r = num m" "0 < m" "m \<le> MAXU" "0 < a" "r_max r \<le> 0 \<or> r_min r \<le> r_max r"
  shows "m \<le> fee_units r a 8"
proof -
  have "num m \<le> capped_fee r a" using assms by (auto simp: capped_fee_def Let_def)
  then have "rounded 8 (num m) \<le> rounded 8 (capped_fee r a)" by (rule rounded_mono)
  with assms rounded8_num[of m] show ?thesis by (simp add: fee_units_def)
qed

text \<open>A percentage of at most 100, without a flat fee or a floor, never exceeds the amount.\<close>

definition percent_only :: "fee_rule \<Rightarrow> bool" where
  "percent_only r \<longleftrightarrow> 0 \<le> r_percent r \<and> r_percent r \<le> 100 \<and> r_flat r = 0 \<and> r_min r \<le> 0"

lemma near_num_tight: "\<bar>k\<bar> \<le> 10 ^ 14 \<Longrightarrow> near (1 / 80) (num k) k"
  unfolding num_def using js.near_rnd_tight[OF near_exact] by simp

lemma fee_units_le_amount:
  assumes r: "percent_only r" and k: "0 \<le> k" "k \<le> 10 ^ 14"
  shows "fee_units r (num k) 8 \<le> k"
proof -
  have k': "\<bar>k\<bar> \<le> 10 ^ 14" "\<bar>k\<bar> \<le> MAXU" using k by (auto simp: MAXU_def)
  let ?z = "fl (num k * 100) / 100"
  let ?y = "fl (fl ?z + 0)"
  have "near (1 / 80 + 1 / 80) ?z k"
    by (rule js.near_mult_div[OF near_num_tight[OF k'(1)] k'(1)]) simp_all
  then have "near (1 / 80 + 1 / 80 + 1 / 80) (fl ?z) k" by (rule js.near_rnd_tight[OF _ k'(1)]) simp
  then have "near (1 / 80 + 1 / 80 + 1 / 80) (fl ?z + 0) k" by simp
  then have y: "near (1 / 80 + 1 / 80 + 1 / 80 + 1 / 80) ?y k" by (rule js.near_rnd_tight[OF _ k'(1)]) simp
  have "num k * r_percent r \<le> num k * 100" using r k by (intro mult_left_mono) (auto simp: percent_only_def)
  then have "fl (num k * r_percent r) / 100 \<le> ?z" by (intro divide_right_mono fl_mono) simp_all
  then have "raw_fee r (num k) \<le> ?y"
    using r unfolding raw_fee_def percent_only_def by (auto intro!: fl_mono)
  moreover have "capped_fee r (num k) \<le> raw_fee r (num k)"
    using r by (auto simp: capped_fee_def Let_def percent_only_def)
  ultimately have "rounded 8 (capped_fee r (num k)) \<le> rounded 8 ?y" by (intro rounded_mono) simp
  also have "rounded 8 ?y = k" by (rule rounded_near8[OF y k'(2)]) (simp add: ulp_def)
  finally show ?thesis using k by (simp add: fee_units_def)
qed

text \<open>A percentage of at most one half, rounded to hundredths, does not exceed the amount.\<close>

definition half_percent :: "fee_rule \<Rightarrow> bool" where
  "half_percent r \<longleftrightarrow> percent_only r \<and> r_percent r \<le> 50"

definition off :: "rat \<Rightarrow> rat \<Rightarrow> rat \<Rightarrow> bool" where
  "off e x y \<longleftrightarrow> \<bar>x * 10 ^ 8 - y\<bar> \<le> e"

lemma off_fl:
  assumes "off e x y" "\<bar>y\<bar> \<le> 5 * 10 ^ 14" "e \<le> 1" shows "off (e + 9 / 160) (fl x) y"
proof -
  have "\<bar>fl x - x\<bar> * 10 ^ 8 \<le> \<bar>x\<bar> / 2 ^ 53 * 10 ^ 8" by (intro mult_right_mono fl_error) simp
  also have "\<dots> = \<bar>x * 10 ^ 8\<bar> / 2 ^ 53" by (simp add: abs_mult)
  also have "\<dots> \<le> (5 * 10 ^ 14 + 1) / 2 ^ 53"
    using assms unfolding off_def by (intro divide_right_mono, linarith, simp)
  also have "\<dots> \<le> 9 / 160" by simp
  finally have "\<bar>fl x * 10 ^ 8 - x * 10 ^ 8\<bar> \<le> 9 / 160" unfolding scale_abs .
  with assms(1) show ?thesis unfolding off_def by linarith
qed

lemma rounded2_le:
  assumes "off e x y" "\<bar>y\<bar> \<le> 5 * 10 ^ 14" "e \<le> 9 / 40"
  shows "of_int (rounded 2 x * 10 ^ 6) \<le> y + 5 * 10 ^ 5 + 2/5"
proof -
  let ?y = "fl (x + number_epsilon)"
  have "off (e + 1 / 10 ^ 7) (x + number_epsilon) y"
    using assms(1) unfolding off_def number_epsilon_def by (simp add: distrib_right)
  then have "off (e + 1 / 10 ^ 7 + 9 / 160) ?y y" by (rule off_fl) (use assms in simp_all)
  then have y: "\<bar>?y * 10 ^ 8 - y\<bar> \<le> 3/10"
    using assms(3) unfolding off_def by simp
  have "\<bar>fl (?y * 10 ^ 2) - ?y * 10 ^ 2\<bar> * 10 ^ 6 \<le> \<bar>?y * 10 ^ 2\<bar> / 2 ^ 53 * 10 ^ 6"
    by (intro mult_right_mono fl_error) simp
  also have "\<dots> = \<bar>?y * 10 ^ 8\<bar> / 2 ^ 53" by (simp add: abs_mult)
  also have "\<dots> \<le> (5 * 10 ^ 14 + 1) / 2 ^ 53"
    using y assms(2) by (intro divide_right_mono, linarith, simp)
  also have "\<dots> \<le> 9 / 160" by simp
  finally have z: "\<bar>fl (?y * 10 ^ 2) - ?y * 10 ^ 2\<bar> * 10 ^ 6 \<le> 9 / 160" .
  have "of_int (rounded 2 x) \<le> fl (?y * 10 ^ 2) + 1/2" unfolding rounded_def math_round_def by linarith
  then have "of_int (rounded 2 x) * 10 ^ 6 \<le> fl (?y * 10 ^ 2) * 10 ^ 6 + 5 * 10 ^ 5" by (simp add: field_simps)
  moreover have "fl (?y * 10 ^ 2) * 10 ^ 6 \<le> ?y * 10 ^ 8 + 9 / 160"
    using order_trans[OF mult_right_mono[OF abs_ge_self] z] by (simp add: left_diff_distrib)
  moreover have "?y * 10 ^ 8 \<le> y + 3/10" using y by (simp only: abs_le_iff) linarith
  ultimately show ?thesis by simp
qed

lemma half_integer: "n * 20000000 \<le> k * 10 + 10000008 \<Longrightarrow> 1 \<le> n \<Longrightarrow> n * 1000000 \<le> (k::int)"
  by linarith

lemma fee_units_half:
  assumes r: "half_percent r" and k: "0 \<le> k" "k \<le> MAXU"
  shows "fee_units r (num k) 2 \<le> k"
proof -
  let ?z = "fl (num k * 50) / 100"
  let ?y = "fl (fl ?z + 0)"
  have k': "\<bar>k\<bar> \<le> MAXU" "\<bar>of_int k / 2 :: rat\<bar> \<le> 5 * 10 ^ 14"
    using k abs_of_int_le[of k] by simp_all
  have "near (ulp + ulp) (fl (num k * 50) / 50) k"
    by (rule js.near_mult_div_max[OF near_num[OF k'(1)] k'(1)]) (simp_all add: ulp_def)
  then have "off ulp ?z (of_int k / 2)" unfolding near_def off_def by (simp add: abs_le_iff field_simps)
  then have "off (ulp + 9 / 160) (fl ?z) (of_int k / 2)" by (rule off_fl[OF _ k'(2)]) (simp add: ulp_def)
  then have "off (ulp + 9 / 160) (fl ?z + 0) (of_int k / 2)" by simp
  then have "off (ulp + 9 / 160 + 9 / 160) ?y (of_int k / 2)" by (rule off_fl[OF _ k'(2)]) (simp add: ulp_def)
  then have y: "of_int (rounded 2 ?y * 10 ^ 6) \<le> of_int k / 2 + 5 * 10 ^ 5 + (2/5 :: rat)"
    by (rule rounded2_le[OF _ k'(2)]) (simp add: ulp_def)
  have "num k * r_percent r \<le> num k * 50" using r k by (intro mult_left_mono) (auto simp: half_percent_def)
  then have "fl (num k * r_percent r) / 100 \<le> ?z" by (intro divide_right_mono fl_mono) simp_all
  then have "raw_fee r (num k) \<le> ?y"
    using r unfolding raw_fee_def half_percent_def percent_only_def by (auto intro!: fl_mono)
  moreover have "capped_fee r (num k) \<le> raw_fee r (num k)"
    using r by (auto simp: capped_fee_def Let_def half_percent_def percent_only_def)
  ultimately have "rounded 2 (capped_fee r (num k)) \<le> rounded 2 ?y" by (intro rounded_mono) simp
  moreover have "rounded 2 ?y * 10 ^ 6 \<le> k \<or> rounded 2 ?y \<le> 0"
  proof -
    have "of_int (rounded 2 ?y * 20000000) \<le> (of_int (k * 10 + 10000008) :: rat)"
      using y by simp
    then have "rounded 2 ?y * 20000000 \<le> k * 10 + 10000008" by (simp only: of_int_le_iff)
    then show ?thesis using half_integer[of "rounded 2 ?y" k] by (cases "1 \<le> rounded 2 ?y") auto
  qed
  ultimately show ?thesis using k by (auto simp: fee_units_def)
qed

text \<open>Any percentage, rounded to hundredths, exceeds the amount by at most half a hundredth.\<close>

lemma fee_units_cents:
  assumes r: "percent_only r" and k: "0 \<le> k" "k \<le> 10 ^ 14"
  shows "fee_units r (num k) 2 \<le> k + 500000"
proof -
  let ?z = "fl (num k * 100) / 100"
  let ?y = "fl (fl ?z + 0)"
  have k': "\<bar>k\<bar> \<le> 10 ^ 14" using k by simp
  then have "of_int \<bar>k\<bar> \<le> (of_int (10 ^ 14) :: rat)" by (simp only: of_int_le_iff)
  then have kk: "\<bar>of_int k :: rat\<bar> \<le> 5 * 10 ^ 14" by simp
  have "near (1/80 + 1/80) ?z k" by (rule js.near_mult_div[OF near_num_tight[OF k'] k']) simp_all
  then have "off (1/40) ?z (of_int k)" by (simp add: near_def off_def)
  from off_fl[OF this kk] have "off (1/40 + 9/160) (fl ?z + 0) (of_int k)" by simp
  then have "off (1/40 + 9/160 + 9/160) ?y (of_int k)" by (rule off_fl[OF _ kk]) simp
  then have y: "of_int (rounded 2 ?y * 10 ^ 6) \<le> of_int k + 5 * 10 ^ 5 + (2/5 :: rat)"
    by (rule rounded2_le[OF _ kk]) simp
  have "num k * r_percent r \<le> num k * 100" using r k by (intro mult_left_mono) (auto simp: percent_only_def)
  then have "fl (num k * r_percent r) / 100 \<le> ?z" by (intro divide_right_mono fl_mono) simp_all
  then have "raw_fee r (num k) \<le> ?y"
    using r unfolding raw_fee_def percent_only_def by (auto intro!: fl_mono)
  moreover have "capped_fee r (num k) \<le> raw_fee r (num k)"
    using r by (auto simp: capped_fee_def Let_def percent_only_def)
  ultimately have "rounded 2 (capped_fee r (num k)) \<le> rounded 2 ?y" by (intro rounded_mono) simp
  moreover have "rounded 2 ?y * 10 ^ 6 \<le> k + 500000"
  proof -
    have "of_int (rounded 2 ?y * 10 ^ 6) < (of_int (k + 500000 + 1) :: rat)" using y by simp
    then show ?thesis unfolding of_int_less_iff by simp
  qed
  ultimately show ?thesis using k by (auto simp: fee_units_def)
qed

lemma computeFee_nonneg: "0 \<le> computeFee r a dp"
  by (simp add: computeFee_def Let_def)

section \<open>Effect of a platform credit\<close>

lemma platform_wallet_active: "platform_wallet s = Some w \<Longrightarrow> \<exists>u. active_wallet s u = Some w"
  by (auto simp: platform_wallet_def split: option.splits)

lemma platform_wallet_by_id:
  "platform_wallet s = Some w \<Longrightarrow> wallet_keys s \<Longrightarrow> wallet_by_id s (w_id w) = Some w"
  using platform_wallet_active active_wallet_by_id by blast

text \<open>Which wallet collects the fees depends on who owns what, not on money or PIN counters.\<close>

definition platform_id :: "user list \<Rightarrow> wallet list \<Rightarrow> nat option" where
  "platform_id us ws = (case find (\<lambda>u. u_role u = RoleSuperAdmin \<and> \<not> u_deleted u) us of
     None \<Rightarrow> None
   | Some u \<Rightarrow> map_option w_id (find (\<lambda>w. w_user w = Some (u_id u) \<and> w_active w) ws))"

lemma platform_id_wallet: "platform_id (users s) (wallets s) = map_option w_id (platform_wallet s)"
  by (simp add: platform_id_def platform_wallet_def active_wallet_def split: option.split)

lemma platform_id_known: "platform_id us ws = Some p \<Longrightarrow> p \<in> w_id ` set ws"
  by (auto simp: platform_id_def split: option.splits dest: find_Some)

lemma platform_id_upd:
  assumes "\<And>w. w_id (f w) = w_id w" "\<And>w. w_user (f w) = w_user w" "\<And>w. w_active (f w) = w_active w"
  shows "platform_id us (upd_row w_id i f ws) = platform_id us ws"
  by (auto simp: platform_id_def find_upd_row assms option.map_comp o_def if_distrib
      split: option.split cong: if_cong)

lemma platform_id_money [simp]:
  "platform_id us (upd_row w_id i (inc_balance x) ws) = platform_id us ws"
  "platform_id us (upd_row w_id i (dec_balance x) ws) = platform_id us ws"
  "platform_id us (upd_row w_id i (inc_locked x) ws) = platform_id us ws"
  "platform_id us (upd_row w_id i (dec_locked x) ws) = platform_id us ws"
  by (rule platform_id_upd; simp)+

definition credit_entry :: "wallet \<Rightarrow> rat \<Rightarrow> nat option \<Rightarrow> string option \<Rightarrow> ledger_entry" where
  "credit_entry w amount i c = \<lparr>l_txn = i, l_wallet = w_id w, l_type = Credit,
     l_amount = to_units amount, l_before = Some (to_units (num (w_balance w))),
     l_after = Some (to_units (fl (num (w_balance w) + amount))), l_category = c\<rparr>"

lemma wp_creditPlatform:
  "distinct (map w_id (wallets s)) \<Longrightarrow> wp (creditPlatformInTx a i c) Q E s =
     (if \<not> a > 0 then Q () s
      else case platform_id (users s) (wallets s) of
        None \<Rightarrow> E (Failure ''Platform fee wallet not found'') s
      | Some p \<Rightarrow> Q () (s\<lparr>wallets := upd_row w_id p (inc_balance a) (wallets s),
                   ledger := ledger s @ [credit_entry (the (find_row w_id p (wallets s))) a i c]\<rparr>))"
  using platform_wallet_by_id[of s]
  by (auto simp: creditPlatformInTx_def creditWalletInTx_def wp_simps credit_entry_def
      platform_id_wallet wallet_keys_def wallet_by_id_def split: option.split)

section \<open>Rules that stay in force\<close>

text \<open>The rules of some keys have a property now and after a refresh of the cache.\<close>

definition rules_ok :: "(fee_rule \<Rightarrow> bool) \<Rightarrow> fee_key set \<Rightarrow> 'a core_scheme \<Rightarrow> bool" where
  "rules_ok P K s \<longleftrightarrow> (\<forall>k\<in>K. P (default_rule s k) \<and> P (loaded_rule s k)
     \<and> (\<forall>t0 m. fee_cache s = Some (t0, m) \<longrightarrow> P (m k)))"

lemma rules_ok_rule: "rules_ok P K s \<Longrightarrow> k \<in> K \<Longrightarrow> P (rule_in s k)"
  by (auto simp: rules_ok_def rule_in_def split: option.split)

definition same_fees :: "'a core_scheme \<Rightarrow> 'b core_scheme \<Rightarrow> bool" where
  "same_fees s t \<longleftrightarrow> fee_rows t = fee_rows s \<and> fee_env t = fee_env s \<and> fee_wallet_env t = fee_wallet_env s"

lemma rules_ok_cong:
  "rules_ok P K s \<Longrightarrow> same_fees s t \<Longrightarrow> fee_cache t = fee_cache s \<Longrightarrow> rules_ok P K t"
  using loaded_rule_cong[of t s] default_rule_cong[of t s] by (simp add: rules_ok_def same_fees_def)

lemma rules_ok_cache:
  "rules_ok P K s \<Longrightarrow> rules_ok P K t \<Longrightarrow> rules_ok P K (s\<lparr>fee_cache := fee_cache t\<rparr>)"
  using loaded_rule_cong[of "s\<lparr>fee_cache := fee_cache t\<rparr>" s]
    default_rule_cong[of "s\<lparr>fee_cache := fee_cache t\<rparr>" s] by (simp add: rules_ok_def)

lemma rules_ok_modify:
  "(\<And>s. same_fees s (f s) \<and> fee_cache (f s) = fee_cache s) \<Longrightarrow> preserves (rules_ok P K) (modify f)"
  by (rule preserves_modify) (auto intro: rules_ok_cong)

lemma rules_ok_ruleFor [pres]: "preserves (rules_ok P K) (ruleFor k)"
proof (rule preservesI)
  fix s :: "'a core_scheme"
  assume "rules_ok P K s"
  then have "rules_ok P K (s\<lparr>fee_cache := next_cache s\<rparr>)"
    using loaded_rule_cong[of "s\<lparr>fee_cache := next_cache s\<rparr>" s]
      default_rule_cong[of "s\<lparr>fee_cache := next_cache s\<rparr>" s]
    by (auto simp: rules_ok_def next_cache_def rules_def split: option.splits)
  then show "wp (ruleFor k) (\<lambda>_. rules_ok P K) (\<lambda>_. rules_ok P K) s" by (simp add: wp_simps)
qed

lemma rules_ok_feeFor [pres]: "preserves (rules_ok P K) (feeFor k a dp)"
proof (rule preservesI)
  fix s :: "'a core_scheme"
  assume "rules_ok P K s"
  from preserves_wp[OF rules_ok_ruleFor this, of k]
  show "wp (feeFor k a dp) (\<lambda>_. rules_ok P K) (\<lambda>_. rules_ok P K) s" by (simp add: wp_simps)
qed

lemma rules_ok_fresh [pres]: "preserves (rules_ok P K) fresh" "preserves (rules_ok P K) (txn_create f)"
  by (rule preservesI; auto simp: wp_simps same_fees_def elim!: rules_ok_cong)+

lemma rules_ok_wallet [pres]: "preserves (rules_ok P K) (wallet_update i f)"
  by (rule preservesI) (auto simp: wp_simps same_fees_def elim!: rules_ok_cong split: option.split)

lemma rules_ok_ledger [pres]: "preserves (rules_ok P K) (ledger_create e)"
  unfolding ledger_create_def by (rule rules_ok_modify) (simp add: same_fees_def)

lemma rules_ok_quiet: "quiet m \<Longrightarrow> preserves (rules_ok P K) m"
  by (rule preservesI, erule wp_quiet) (auto simp: same_fees_def elim!: rules_ok_cong)

lemma rules_ok_emit [pres]: "preserves (rules_ok P K) (emit e)"
  by (rule rules_ok_quiet[OF quiet_emit])

lemma rules_ok_credit [pres]: "preserves (rules_ok P K) (creditPlatformInTx x t c)"
  unfolding creditPlatformInTx_def creditWalletInTx_def by (intro pres)

section \<open>The sample database\<close>

lemma sample_rule_in: "rule_in sample k = default_rule sample k"
  by (simp add: rule_in_def sample_def)

lemma sample_percent_only: "percent_only (rule_in sample k)"
  unfolding sample_rule_in
  by (cases k) (simp_all add: percent_only_def default_rule_def defaultPercent_def sample_def)

lemma sample_half_percent: "half_percent (rule_in sample k)"
  using sample_percent_only[of k] unfolding sample_rule_in half_percent_def
  by (cases k) (simp_all add: default_rule_def defaultPercent_def sample_def)

lemma sample_ruleFor: "ruleFor k sample = (Inr (default_rule sample k), sample)"
  by (simp add: ruleFor_def bnd_def gets_def sample_def)

lemma sample_tables: "wallets sample = [sample_wallet 11 1 50000000000, sample_wallet 12 2 20000000000, sample_wallet 19 9 0]"
    "txns sample = []" "ledger sample = []" "seq sample = 100" "now sample = 1000000000000"
  by (simp_all add: sample_def)

lemma sample_keys: "wallet_keys sample"
  by (simp add: wallet_keys_def sample_defs)

lemma round_dp8_0: "round_dp 8 0 = 0"
  by code_simp

lemma computeFee_free: "r_percent r = 0 \<Longrightarrow> r_flat r = 0 \<Longrightarrow> r_min r = 0 \<Longrightarrow> r_max r = 0
    \<Longrightarrow> computeFee r a 8 = 0"
  by (simp add: computeFee_def raw_fee_def round_dp8_0)

lemma sample_free_transfer: "computeFee (default_rule sample TransferFee) a 8 = 0"
  by (rule computeFee_free) (simp_all add: default_rule_def defaultPercent_def sample_def)

lemma sample_free_units: "fee_units (rule_in sample TransferFee) a 8 = 0"
proof -
  have "rounded 8 0 = 0" by code_simp
  then show ?thesis unfolding sample_rule_in
    by (simp add: fee_units_def capped_fee_def raw_fee_def default_rule_def defaultPercent_def sample_def)
qed

section \<open>Fee laws\<close>

text \<open>C11: The double arithmetic of a percentage fee (at most 100 %, no flat part or floor) on
  a whole number of units from 0 to 10^14: rounded to eight decimals it is a whole number of units
  between zero and the amount; rounded to two decimals, the default, it is a whole number of
  hundredths, not negative, and at most the amount when the rate is at most 50 %, otherwise at most
  half a hundredth above it.\<close>

theorem fee_bounds:
  assumes "percent_only r" "0 \<le> k" "k \<le> 10 ^ 14"
  shows "(\<exists>n. computeFee r (num k) 8 = num n \<and> 0 \<le> n \<and> n \<le> k)
    \<and> (\<exists>n. computeFee r (num k) 2 = num (1000000 * n) \<and> 0 \<le> n \<and> 1000000 * n \<le> k + 500000
        \<and> (r_percent r \<le> 50 \<longrightarrow> 1000000 * n \<le> k))"
proof (intro conjI)
  show "\<exists>n. computeFee r (num k) 8 = num n \<and> 0 \<le> n \<and> n \<le> k"
    using fee_units_le_amount[OF assms] by (intro exI[of _ "fee_units r (num k) 8"]) (simp add: computeFee_units)
next
  have "10 ^ (8 - 2) = (1000000 :: int)" by simp
  then obtain n where n: "fee_units r (num k) 2 = 1000000 * n" "0 \<le> n"
    unfolding fee_units_def by (metis max.cobounded1 mult.commute mult_zero_right order_refl)
  have "half_percent r" if "r_percent r \<le> 50" using that assms(1) by (simp add: half_percent_def)
  then show "\<exists>n. computeFee r (num k) 2 = num (1000000 * n) \<and> 0 \<le> n \<and> 1000000 * n \<le> k + 500000
      \<and> (r_percent r \<le> 50 \<longrightarrow> 1000000 * n \<le> k)"
    using n fee_units_cents[OF assms] fee_units_half[of r k] assms
    by (intro exI[of _ n]) (auto simp: computeFee_units MAXU_def)
qed

theorem fee_bounds_witness:
  "\<exists>n. computeFee (default_rule sample Merchant) (num 4000000000) 2 = num (1000000 * n) \<and> 1000000 * n \<le> 4000000000"
  using fee_bounds[of "default_rule sample Merchant" 4000000000] sample_percent_only[of Merchant]
  by (auto simp: sample_rule_in)

theorem fee_monotone:
  assumes "0 \<le> r_percent r" "a \<le> b" "dp \<le> 8"
  shows "computeFee r a dp \<le> computeFee r b dp"
  unfolding computeFee_units[OF assms(3)] by (intro num_mono fee_units_mono assms)

theorem fee_monotone_witness:
  "computeFee (default_rule sample Withdrawal) 10 2 \<le> computeFee (default_rule sample Withdrawal) 20 2"
  by (rule fee_monotone) (simp_all add: default_rule_def defaultPercent_def sample_def)

theorem fee_cap_floor:
  assumes "r_max r = num c" "r_min r = num f" "0 < f" "f \<le> c" "c \<le> MAXU" "0 < a"
  shows "num f \<le> computeFee r a 8 \<and> computeFee r a 8 \<le> num c"
  using assms fee_units_max[of r c a] fee_units_min[of r f a]
  by (simp add: computeFee_units num_mono)

theorem fee_cap_floor_witness:
  "num 100 \<le> computeFee ((default_rule sample Withdrawal)\<lparr>r_min := num 100, r_max := num 5000\<rparr>) 1 8"
  using fee_cap_floor[of "(default_rule sample Withdrawal)\<lparr>r_min := num 100, r_max := num 5000\<rparr>" 5000 100 1]
  by (simp add: MAXU_def)
end
