(* ===== verification/Auth.thy ===== *)
theory Auth
  imports Core
begin

text \<open>
  The transaction PIN (src/auth/auth.service.ts: setPin, verifyPin, changePin), the biometric
  device records (src/security/security.service.ts) and the guards in front of money routes
  (src/common/guards/kyc.guard.ts, pin.guard.ts).  bcrypt and SHA-256 are parameters.  The
  lemmas give the effect of each operation on every branch, the frame (only the user and device
  tables change) and the lockout after five wrong PINs.
\<close>

section \<open>The transaction PIN\<close>

definition MAX_PIN_ATTEMPTS :: int where "MAX_PIN_ATTEMPTS = 5"

definition is_digit :: "char \<Rightarrow> bool" where
  "is_digit c \<longleftrightarrow> c \<in> set ''0123456789''"

text \<open>\<open>/^\d{4,6}$/\<close>\<close>

definition pin_format :: "string \<Rightarrow> bool" where
  "pin_format p \<longleftrightarrow> 4 \<le> length p \<and> length p \<le> 6 \<and> list_all is_digit p"

definition log_activity :: "nat \<Rightarrow> string \<Rightarrow> ('a core_scheme, unit) op" where
  "log_activity u a = modify (\<lambda>s. s\<lparr>activity := activity s @ [(u, a)]\<rparr>)"

definition setPin :: "ext \<Rightarrow> nat \<Rightarrow> string \<Rightarrow> string \<Rightarrow> ('a core_scheme, string) op" where
  "setPin X uid pin confirm_pin =
     (if pin \<noteq> confirm_pin then throw (BadRequest ''PINs do not match'')
      else if \<not> pin_format pin then throw (BadRequest ''PIN must be 4-6 digits'')
      else bnd (gets (\<lambda>s. user_by_id s uid)) (\<lambda>user. case user of
        None \<Rightarrow> throw (NotFound ''User not found'')
      | Some u \<Rightarrow>
          if truthy (u_pin_hash u) then throw (Forbidden ''PIN already exists'')
          else thn (user_update uid (\<lambda>r. r\<lparr>u_pin_hash := Some (bcrypt_hash X pin), u_failed_pins := Some 0\<rparr>))
              (thn (log_activity uid ''SET_PIN'')
              (ret ''PIN set successfully''))))"

definition verifyPin :: "ext \<Rightarrow> nat \<Rightarrow> string \<Rightarrow> ('a core_scheme, unit) op" where
  "verifyPin X uid pin = bnd (gets (\<lambda>s. user_by_id s uid)) (\<lambda>user.
     case Option.bind user u_pin_hash of
       None \<Rightarrow> throw (BadRequest ''PIN not set'')
     | Some h \<Rightarrow>
        if h = [] then throw (BadRequest ''PIN not set'')
        else let failed = (case Option.bind user u_failed_pins of None \<Rightarrow> 0 | Some n \<Rightarrow> n) in
          if failed \<ge> MAX_PIN_ATTEMPTS then throw (Forbidden ''PIN locked'')
          else if \<not> bcrypt_compare X pin h
          then thn (user_update uid (\<lambda>r. r\<lparr>u_failed_pins := map_option (\<lambda>n. n + 1) (u_failed_pins r)\<rparr>))
                 (throw (Unauthorized ''Incorrect PIN''))
          else user_update uid (\<lambda>r. r\<lparr>u_failed_pins := Some 0\<rparr>))"

definition changePin ::
  "ext \<Rightarrow> nat \<Rightarrow> string \<Rightarrow> string \<Rightarrow> string \<Rightarrow> ('a core_scheme, string) op" where
  "changePin X uid old_pin new_pin confirm_pin =
     (if new_pin \<noteq> confirm_pin then throw (BadRequest ''New PINs do not match'')
      else if \<not> pin_format new_pin then throw (BadRequest ''PIN must be 4-6 digits'')
      else bnd (gets (\<lambda>s. user_by_id s uid)) (\<lambda>user.
        case Option.bind user u_pin_hash of
          None \<Rightarrow> throw (BadRequest ''No PIN found'')
        | Some h \<Rightarrow>
            if h = [] then throw (BadRequest ''No PIN found'')
            else if \<not> bcrypt_compare X old_pin h then throw (Unauthorized ''Old PIN is incorrect'')
            else thn (user_update uid (\<lambda>r. r\<lparr>u_pin_hash := Some (bcrypt_hash X new_pin), u_failed_pins := Some 0\<rparr>))
                (thn (log_activity uid ''CHANGE_PIN'')
                (ret ''PIN changed successfully''))))"

section \<open>Trusted devices\<close>

record device_status =
  ds_trusted :: bool
  ds_reauth :: bool

definition biometric_of :: "'a core_scheme \<Rightarrow> nat \<Rightarrow> biometric option" where
  "biometric_of s uid = find_row bm_user uid (biometrics s)"

definition biometric_update :: "nat \<Rightarrow> (biometric \<Rightarrow> biometric) \<Rightarrow> ('a core_scheme, unit) op" where
  "biometric_update uid f = modify (\<lambda>s. s\<lparr>biometrics := upd_row bm_user uid f (biometrics s)\<rparr>)"

definition zero_if_none :: "int option \<Rightarrow> int" where
  "zero_if_none x = (case x of None \<Rightarrow> 0 | Some n \<Rightarrow> n)"

definition verifyDevice :: "ext \<Rightarrow> nat \<Rightarrow> string \<Rightarrow> ('a core_scheme, device_status) op" where
  "verifyDevice X uid fingerprint = bnd (gets (\<lambda>s. biometric_of s uid)) (\<lambda>settings.
     case settings of
       None \<Rightarrow> ret \<lparr>ds_trusted = False, ds_reauth = True\<rparr>
     | Some b \<Rightarrow>
        if \<not> bm_enabled b then ret \<lparr>ds_trusted = False, ds_reauth = True\<rparr>
        else if Some (sha256_hex X fingerprint) \<noteq> bm_fingerprint b
        then thn (biometric_update uid (\<lambda>r. r\<lparr>bm_failed := Some (zero_if_none (bm_failed b) + 1)\<rparr>))
               (ret \<lparr>ds_trusted = False, ds_reauth = True\<rparr>)
        else bnd (gets now) (\<lambda>t.
             thn (biometric_update uid (\<lambda>r. r\<lparr>bm_last_verified := Some t,
                    bm_verifications := Some (zero_if_none (bm_verifications b) + 1), bm_failed := Some 0\<rparr>))
               (ret \<lparr>ds_trusted = True, ds_reauth = False\<rparr>)))"

text \<open>\<open>enableBiometrics\<close> upserts the row; \<open>dev\<close> is the random part of the generated device id.\<close>

definition enableBiometrics ::
  "ext \<Rightarrow> nat \<Rightarrow> string \<Rightarrow> string option \<Rightarrow> string \<Rightarrow> ('a core_scheme, string) op" where
  "enableBiometrics X uid fingerprint btype dev =
     (if fingerprint = [] then throw (BadRequest ''User ID and device fingerprint are required'')
      else bnd (gets (\<lambda>s. biometric_of s uid)) (\<lambda>existing.
        let ty = (if truthy btype then btype else Some ''faceID'');
            did = ''device_'' @ dev in
        bnd (gets now) (\<lambda>t.
          thn (case existing of
                Some b \<Rightarrow> biometric_update uid (\<lambda>r. r\<lparr>bm_enabled := True,
                  bm_fingerprint := Some (sha256_hex X fingerprint), bm_device := Some did,
                  bm_type := ty, bm_trusted := True, bm_last_verified := Some t,
                  bm_verifications := Some (zero_if_none (bm_verifications b) + 1), bm_failed := Some 0\<rparr>)
              | None \<Rightarrow> modify (\<lambda>s. s\<lparr>biometrics := biometrics s @ [\<lparr>bm_user = uid, bm_enabled = True,
                  bm_fingerprint = Some (sha256_hex X fingerprint), bm_device = Some did,
                  bm_type = ty, bm_trusted = True, bm_last_verified = None,
                  bm_verifications = Some 1, bm_failed = Some 0\<rparr>]\<rparr>))
            (ret did))))"

definition disableBiometrics :: "nat \<Rightarrow> ('a core_scheme, string) op" where
  "disableBiometrics uid = bnd (gets (\<lambda>s. biometric_of s uid)) (\<lambda>settings.
     if settings = None then throw (BadRequest ''Biometric settings not found'')
     else thn (biometric_update uid (\<lambda>r. r\<lparr>bm_enabled := False, bm_trusted := False\<rparr>))
            (ret ''Biometric verification disabled''))"

definition getBiometricStatus ::
  "'a core_scheme \<Rightarrow> nat \<Rightarrow> bool \<times> string option \<times> int option \<times> string option \<times> bool option" where
  "getBiometricStatus s uid = (case biometric_of s uid of
     None \<Rightarrow> (False, None, None, None, None)
   | Some b \<Rightarrow> (bm_enabled b, bm_device b, bm_last_verified b, bm_type b, Some (bm_trusted b)))"

definition deleteBiometrics :: "nat \<Rightarrow> ('a core_scheme, string) op" where
  "deleteBiometrics uid = bnd (gets (\<lambda>s. biometric_of s uid)) (\<lambda>settings.
     if settings = None then ret ''No biometric settings found for user''
     else thn (modify (\<lambda>s. s\<lparr>biometrics := filter (\<lambda>r. bm_user r \<noteq> uid) (biometrics s)\<rparr>))
            (ret ''Biometric settings removed''))"

text \<open>The account-dependent part of \<open>getSettings\<close>; the rest of its reply is constant.\<close>

definition getSettings :: "'a core_scheme \<Rightarrow> nat \<Rightarrow> bool \<times> bool \<times> bool" where
  "getSettings s uid =
     (truthy (Option.bind (user_by_id s uid) u_pin_hash),
      zero_if_none (Option.bind (user_by_id s uid) u_failed_pins) \<ge> 5,
      (case biometric_of s uid of None \<Rightarrow> False | Some b \<Rightarrow> bm_enabled b))"

section \<open>Guards\<close>

definition kycGuard :: "'a core_scheme \<Rightarrow> nat option \<Rightarrow> bool \<Rightarrow> err + unit" where
  "kycGuard s uid is_withdraw_create = (case uid of
     None \<Rightarrow> Inl (Unauthorized ''Authentication required'')
   | Some i \<Rightarrow> (case user_by_id s i of
       None \<Rightarrow> Inl (Unauthorized ''User not found'')
     | Some u \<Rightarrow>
        let has_level2 = u_kyc_level u \<ge> 2 in
        if u_kyc u = KycVerified then Inr ()
        else if is_withdraw_create \<and> has_level2 then Inr ()
        else if u_kyc u = KycAdditionalInfo \<and> has_level2 then Inr ()
        else Inl (Forbidden ''KYC approval required to perform this action'')))"

definition pinGuard :: "ext \<Rightarrow> bool \<Rightarrow> nat \<Rightarrow> string option \<Rightarrow> ('a core_scheme, bool) op" where
  "pinGuard X require_pin uid pin =
     (if \<not> require_pin then ret True
      else if \<not> truthy pin then throw (BadRequest ''PIN is required for this action'')
      else thn (verifyPin X uid (the pin)) (ret True))"

section \<open>Frames\<close>

lemma upd_row_self: "(\<And>r. f r = r) \<Longrightarrow> upd_row key k f rows = rows"
  by (induction rows) auto

text \<open>The PIN check touches the counter of failed attempts of that user and nothing else.\<close>

definition pins_of :: "nat \<Rightarrow> (int option \<Rightarrow> int option) \<Rightarrow> user list \<Rightarrow> user list" where
  "pins_of uid n us = upd_row u_id uid (\<lambda>r. r\<lparr>u_failed_pins := n (u_failed_pins r)\<rparr>) us"

lemma pins_of_id: "pins_of uid (\<lambda>x. x) us = us"
  unfolding pins_of_def by (rule upd_row_self) simp

lemma verifyPin_frame:
  assumes Q: "\<And>n. Q () (s\<lparr>users := pins_of uid n (users s)\<rparr>)"
    and E: "\<And>e n. E e (s\<lparr>users := pins_of uid n (users s)\<rparr>)"
  shows "wp (verifyPin X uid pin) Q E s"
proof -
  from E[of _ "\<lambda>x. x"] have E0: "\<And>e. E e s" by (simp add: pins_of_id)
  from Q[of "\<lambda>_. Some 0"] have Q1: "Q () (s\<lparr>users := upd_row u_id uid (\<lambda>r. r\<lparr>u_failed_pins := Some 0\<rparr>) (users s)\<rparr>)"
    by (simp add: pins_of_def)
  from E[of _ "map_option (\<lambda>n. n + 1)"] have E1: "\<And>e. E e (s\<lparr>users := upd_row u_id uid
      (\<lambda>r. r\<lparr>u_failed_pins := map_option (\<lambda>n. n + 1) (u_failed_pins r)\<rparr>) (users s)\<rparr>)"
    by (simp add: pins_of_def)
  show ?thesis unfolding verifyPin_def using Q1 E0 E1 by (simp add: wp_simps split: option.split)
qed

lemma verifyDevice_frame:
  "(\<And>d bs. Q d (s\<lparr>biometrics := bs\<rparr>)) \<Longrightarrow> wp (verifyDevice X uid f) Q E s"
proof -
  assume Q: "\<And>d bs. Q d (s\<lparr>biometrics := bs\<rparr>)"
  from Q[of _ "biometrics s"] have Q0: "\<And>d. Q d s" by simp
  show ?thesis unfolding verifyDevice_def biometric_update_def using Q Q0
    by (simp add: wp_simps split: option.split)
qed

section \<open>The lockout\<close>

definition pin_state :: "'a core_scheme \<Rightarrow> nat \<Rightarrow> string \<Rightarrow> int \<Rightarrow> bool" where
  "pin_state s uid h n \<longleftrightarrow> (\<exists>u. user_by_id s uid = Some u \<and> u_pin_hash u = Some h \<and> h \<noteq> []
     \<and> u_failed_pins u = Some n)"

lemma verifyPin_wrong:
  assumes "pin_state s uid h n" "n < MAX_PIN_ATTEMPTS" "\<not> bcrypt_compare X pin h"
  shows "fst (verifyPin X uid pin s) = Inl (Unauthorized ''Incorrect PIN'')
    \<and> pin_state (snd (verifyPin X uid pin s)) uid h (n + 1)"
proof -
  obtain u where u: "user_by_id s uid = Some u" "u_pin_hash u = Some h" "h \<noteq> []" "u_failed_pins u = Some n"
    using assms(1) unfolding pin_state_def by blast
  then show ?thesis using assms(2,3)
    by (auto simp: verifyPin_def bnd_def thn_def gets_def throw_def user_update_def modify_def
        pin_state_def user_by_id_def)
qed

lemma verifyPin_right:
  assumes "pin_state s uid h n" "n < MAX_PIN_ATTEMPTS" "bcrypt_compare X pin h"
  shows "fst (verifyPin X uid pin s) = Inr () \<and> pin_state (snd (verifyPin X uid pin s)) uid h 0"
proof -
  obtain u where u: "user_by_id s uid = Some u" "u_pin_hash u = Some h" "h \<noteq> []" "u_failed_pins u = Some n"
    using assms(1) unfolding pin_state_def by blast
  then show ?thesis using assms(2,3)
    by (auto simp: verifyPin_def bnd_def thn_def gets_def throw_def user_update_def modify_def
        pin_state_def user_by_id_def)
qed

lemma verifyPin_locked:
  assumes "pin_state s uid h n" "MAX_PIN_ATTEMPTS \<le> n"
  shows "verifyPin X uid pin s = (Inl (Forbidden ''PIN locked''), s)"
proof -
  obtain u where u: "user_by_id s uid = Some u" "u_pin_hash u = Some h" "h \<noteq> []" "u_failed_pins u = Some n"
    using assms(1) unfolding pin_state_def by blast
  then show ?thesis using assms(2)
    by (auto simp: verifyPin_def bnd_def thn_def gets_def throw_def)
qed

section \<open>Guessing\<close>

definition guesses :: "ext \<Rightarrow> nat \<Rightarrow> string list \<Rightarrow> 'a core_scheme \<Rightarrow> 'a core_scheme" where
  "guesses X uid ps s = fold (\<lambda>p s. snd (verifyPin X uid p s)) ps s"

lemma guesses_counted:
  assumes "pin_state s uid h n" "0 \<le> n" "list_all (\<lambda>p. \<not> bcrypt_compare X p h) ps"
  shows "\<exists>m. pin_state (guesses X uid ps s) uid h m \<and> min MAX_PIN_ATTEMPTS (n + int (length ps)) \<le> m"
  using assms
proof (induction ps arbitrary: s n)
  case Nil
  then show ?case by (auto simp: guesses_def)
next
  case (Cons p ps)
  let ?t = "snd (verifyPin X uid p s)"
  show ?case
  proof (cases "n < MAX_PIN_ATTEMPTS")
    case True
    then have "pin_state ?t uid h (n + 1)" using verifyPin_wrong Cons.prems by fastforce
    from Cons.IH[OF this] Cons.prems show ?thesis by (auto simp: guesses_def algebra_simps)
  next
    case False
    then have "?t = s" using verifyPin_locked[OF Cons.prems(1)] by simp
    with Cons.IH[OF Cons.prems(1)] Cons.prems False show ?thesis by (auto simp: guesses_def)
  qed
qed

text \<open>C8: After five or more wrong PINs in a row, verifyPin rejects every PIN, the right one
  too.\<close>

theorem pin_lockout:
  assumes "pin_state s uid h 0" "list_all (\<lambda>p. \<not> bcrypt_compare X p h) ps" "5 \<le> length ps"
  shows "verifyPin X uid pin (guesses X uid ps s) = (Inl (Forbidden ''PIN locked''), guesses X uid ps s)"
proof -
  obtain m where "pin_state (guesses X uid ps s) uid h m" "MAX_PIN_ATTEMPTS \<le> m"
    using guesses_counted[OF assms(1) _ assms(2)] assms(3) by (auto simp: MAX_PIN_ATTEMPTS_def)
  then show ?thesis by (rule verifyPin_locked)
qed

lemma sample_pin: "pin_state sample 1 ''#1234'' 0"
  by (simp add: pin_state_def user_by_id_def sample_defs)

theorem pin_lockout_witness:
  "fst (verifyPin sample_ext 1 ''1234'' (guesses sample_ext 1 [''0000'', ''1111'', ''2222'', ''3333'', ''4444''] sample))
    = Inl (Forbidden ''PIN locked'')"
  by (subst pin_lockout[OF sample_pin]) (simp_all add: sample_ext_def)

theorem changePin_ignores_lockout:
  assumes "pin_state s uid h n" "pin_format new_pin" "bcrypt_hash X new_pin \<noteq> []"
  shows "if bcrypt_compare X old_pin h
    then fst (changePin X uid old_pin new_pin new_pin s) = Inr ''PIN changed successfully''
      \<and> pin_state (snd (changePin X uid old_pin new_pin new_pin s)) uid (bcrypt_hash X new_pin) 0
    else changePin X uid old_pin new_pin new_pin s = (Inl (Unauthorized ''Old PIN is incorrect''), s)"
proof -
  obtain u where u: "user_by_id s uid = Some u" "u_pin_hash u = Some h" "h \<noteq> []" "u_failed_pins u = Some n"
    using assms(1) unfolding pin_state_def by blast
  then show ?thesis using assms(2,3)
    by (auto simp: changePin_def bnd_def thn_def gets_def throw_def user_update_def modify_def ret_def
        log_activity_def pin_state_def user_by_id_def)
qed

theorem changePin_ignores_lockout_witness:
  "fst (verifyPin sample_ext 1 ''1234'' (sample\<lparr>users := [(sample_user 1 ''ada'' RoleUser)\<lparr>u_failed_pins := Some 5\<rparr>]\<rparr>))
     = Inl (Forbidden ''PIN locked'')
   \<and> fst (changePin sample_ext 1 ''1234'' ''9999'' ''9999''
       (sample\<lparr>users := [(sample_user 1 ''ada'' RoleUser)\<lparr>u_failed_pins := Some 5\<rparr>]\<rparr>)) = Inr ''PIN changed successfully''"
  (is "fst (verifyPin _ _ _ ?s) = _ \<and> _")
proof -
  have p: "pin_state ?s 1 ''#1234'' 5" by (simp add: pin_state_def user_by_id_def sample_defs)
  from verifyPin_locked[OF p] have "fst (verifyPin sample_ext 1 ''1234'' ?s) = Inl (Forbidden ''PIN locked'')"
    by (simp add: MAX_PIN_ATTEMPTS_def)
  moreover have "fst (changePin sample_ext 1 ''1234'' ''9999'' ''9999'' ?s) = Inr ''PIN changed successfully''"
    using changePin_ignores_lockout[OF p, of "''9999''" sample_ext "''1234''"]
    by (simp add: sample_ext_def pin_format_def is_digit_def)
  ultimately show ?thesis by blast
qed

section \<open>Devices\<close>

text \<open>C12: After enabling a device, exactly fingerprints with its hash are trusted; after
  disabling, none is.\<close>

theorem device_roundtrip:
  assumes "enableBiometrics X uid fp ty dev s = (Inr did, t)"
  shows "(\<exists>d. fst (verifyDevice X uid fp' t) = Inr d \<and> ds_trusted d = (sha256_hex X fp' = sha256_hex X fp))
    \<and> (\<exists>d. fst (verifyDevice X uid fp' (snd (disableBiometrics uid t))) = Inr d \<and> \<not> ds_trusted d)"
proof -
  obtain b where b: "biometric_of t uid = Some b" "bm_enabled b" "bm_fingerprint b = Some (sha256_hex X fp)"
    using assms by (auto simp: enableBiometrics_def bnd_def thn_def gets_def throw_def ret_def modify_def
        biometric_update_def biometric_of_def Let_def find_row_append split: if_splits option.splits)
  then show ?thesis
    by (auto simp: verifyDevice_def bnd_def thn_def gets_def throw_def ret_def modify_def
        biometric_update_def disableBiometrics_def biometric_of_def)
qed

theorem device_roundtrip_witness:
  "\<exists>t. enableBiometrics sample_ext 1 ''phone'' None ''d'' sample = (Inr ''device_d'', t)
    \<and> (\<exists>d. fst (verifyDevice sample_ext 1 ''other'' t) = Inr d \<and> \<not> ds_trusted d)"
proof -
  obtain t where run: "enableBiometrics sample_ext 1 ''phone'' None ''d'' sample = (Inr ''device_d'', t)"
    by (auto simp: enableBiometrics_def bnd_def thn_def gets_def ret_def modify_def Let_def
        biometric_of_def sample_defs)
  with device_roundtrip[OF run, of "''other''"] show ?thesis by (auto simp: sample_ext_def)
qed

end
