(* ===== verification/Wallets.thy ===== *)
theory Wallets
  imports Fees Auth
begin

text \<open>
  Wallet balances and P2P transfers: src/wallets/wallets.service.ts with the pagination helpers of
  src/common/utils.  \<open>sendFunds\<close> is split where the code has its phases: authorization,
  the recipient, and inside one database transaction the checks (\<open>send_check\<close>, which only
  reads) and the writes (\<open>send_commit\<close>).  PostgreSQL runs the transaction at read committed
  and the checks take no lock, so the split is also where another transfer can come between.
  What these operations promise is in theory Transfers.
\<close>

section \<open>Pagination\<close>

text \<open>\<open>parseInt\<close> of a query parameter is \<open>None\<close> for NaN; 0 is falsy too.\<close>

record page_params =
  pg_skip :: int
  pg_take :: int
  pg_page :: int
  pg_limit :: int

definition int_or :: "int option \<Rightarrow> int \<Rightarrow> int" where
  "int_or x d = (case x of None \<Rightarrow> d | Some n \<Rightarrow> if n = 0 then d else n)"

definition paginationParams :: "int option \<Rightarrow> int option \<Rightarrow> page_params" where
  "paginationParams page limit =
     (let p = max 1 (int_or page 1);
          l = min 100 (max 1 (int_or limit 20))
      in \<lparr>pg_skip = (p - 1) * l, pg_take = l, pg_page = p, pg_limit = l\<rparr>)"

text \<open>\<open>Math.ceil(total / limit) || 1\<close>; \<open>limit\<close> is positive.\<close>

definition paginate :: "int \<Rightarrow> int \<Rightarrow> int \<Rightarrow> page_meta" where
  "paginate count page limit =
     (let c = \<lceil>fl (of_int count / of_int limit)\<rceil>; last = (if c = 0 then 1 else c)
      in \<lparr>pm_total = count, pm_page = page, pm_limit = limit, pm_last = last,
          pm_next = page < last, pm_prev = page > 1\<rparr>)"

definition page_of :: "page_params \<Rightarrow> 'a list \<Rightarrow> 'a list" where
  "page_of p rows = take (nat (pg_take p)) (drop (nat (pg_skip p)) rows)"

section \<open>The balance\<close>

definition CACHE_SECONDS :: int where "CACHE_SECONDS = 30"

definition wallet_payload_of :: "wallet \<Rightarrow> wallet_payload" where
  "wallet_payload_of w = \<lparr>wp_id = w_id w, wp_balance = num (w_balance w), wp_locked = num (w_locked w),
     wp_available = max 0 (fl (num (w_balance w) - num (w_locked w))), wp_frozen = w_frozen w\<rparr>"

definition getMyWallet :: "nat \<Rightarrow> ('a core_scheme, wallet_payload) op" where
  "getMyWallet uid = bnd (gets (\<lambda>s. cacheGet s (KWallet uid))) (\<lambda>cached. case cached of
     Some (VWallet p) \<Rightarrow> ret p
   | _ \<Rightarrow> bnd (gets (\<lambda>s. active_wallet s uid)) (\<lambda>w. case w of
       None \<Rightarrow> throw (NotFound ''Wallet not found'')
     | Some w \<Rightarrow> thn (cacheSet (KWallet uid) (VWallet (wallet_payload_of w)) CACHE_SECONDS)
                   (ret (wallet_payload_of w))))"

section \<open>Sending funds\<close>

text \<open>The request; its amount is a finite double, as the controller validates.\<close>

record send_dto =
  sd_recipient :: string
  sd_amount :: rat
  sd_pin :: "string option"
  sd_biometric :: bool
  sd_fingerprint :: "string option"
  sd_fingerprint_alias :: "string option"

text \<open>The body may name the device \<open>device_fingerprint\<close> or \<open>deviceFingerprint\<close>.\<close>

definition send_authorize :: "ext \<Rightarrow> nat \<Rightarrow> send_dto \<Rightarrow> ('a core_scheme, unit) op" where
  "send_authorize X uid dto =
     (if sd_biometric dto then
        let fingerprint = or_string (sd_fingerprint dto) (sd_fingerprint_alias dto) in
        if \<not> truthy fingerprint
        then throw (BadRequest ''Device fingerprint required for biometric authorization'')
        else bnd (verifyDevice X uid (the fingerprint)) (\<lambda>v.
          if \<not> ds_trusted v then throw (Forbidden ''Biometric device verification failed'')
          else ret ())
      else if \<not> truthy (sd_pin dto) then throw (BadRequest ''Transaction PIN is required'')
      else verifyPin X uid (the (sd_pin dto)))"

text \<open>The recipient's user id, when one is known, and wallet id.\<close>

definition send_recipient :: "string \<Rightarrow> ('a core_scheme, nat option \<times> nat) op" where
  "send_recipient ident = bnd (gets (\<lambda>s. find (\<lambda>u. (u_username u = ident \<or> u_phone u = ident)
        \<and> \<not> u_deleted u \<and> u_active u) (users s))) (\<lambda>user.
     bnd (gets (\<lambda>s. Option.bind user (\<lambda>u. active_wallet s (u_id u)))) (\<lambda>w. case w of
       Some w \<Rightarrow> ret (map_option u_id user, w_id w)
     | None \<Rightarrow> bnd (gets (\<lambda>s. find (\<lambda>w. w_address w = ident) (wallets s))) (\<lambda>by_address.
         case by_address of
           None \<Rightarrow> throw (NotFound ''Recipient not found'')
         | Some w \<Rightarrow> ret (map_option u_id user, w_id w))))"

definition MAX_SINGLE_TX :: rat where "MAX_SINGLE_TX = 100000"
definition MAX_DAILY :: rat where "MAX_DAILY = 500000"

definition sent_today :: "ext \<Rightarrow> 'a core_scheme \<Rightarrow> nat \<Rightarrow> int" where
  "sent_today X s wid = sum_list (map t_amount (filter (\<lambda>t. t_sender t = Some wid
     \<and> t_type t = Transfer \<and> t_status t = Completed \<and> t_created t \<ge> day_start X (now s)) (txns s)))"

definition recent_duplicate :: "'a core_scheme \<Rightarrow> nat \<Rightarrow> rat \<Rightarrow> bool" where
  "recent_duplicate s wid amount \<longleftrightarrow> list_ex (\<lambda>t. t_sender t = Some wid \<and> t_type t = Transfer
     \<and> of_int (t_amount t) = sql amount \<and> t_status t = Completed \<and> t_created t \<ge> now s - 60000) (txns s)"

text \<open>What the checks hand to the writes.\<close>

record send_plan =
  sp_sender :: wallet
  sp_receiver :: nat
  sp_amount :: rat
  sp_fee :: rat
  sp_merchant_fee :: rat

definition sp_credit :: "send_plan \<Rightarrow> rat" where
  "sp_credit p = toFixed 8 (fl (sp_amount p - sp_merchant_fee p))"

definition sp_total_out :: "send_plan \<Rightarrow> rat" where
  "sp_total_out p = fl (sp_amount p + sp_fee p)"

definition send_check ::
  "ext \<Rightarrow> nat \<Rightarrow> rat \<Rightarrow> bool \<Rightarrow> nat \<Rightarrow> ('a core_scheme, send_plan) op" where
  "send_check X sender amount merchant_fee receiver =
     bnd (gets (\<lambda>s. active_wallet s sender)) (\<lambda>sw. case sw of
       None \<Rightarrow> throw (NotFound ''Sender wallet not found'')
     | Some sw \<Rightarrow>
     if w_frozen sw then throw (Forbidden ''Your wallet is frozen. Contact support.'')
     else if amount > MAX_SINGLE_TX then throw (BadRequest ''Single transfer limit'')
     else bnd (gets (\<lambda>s. sent_today X s (w_id sw))) (\<lambda>sent.
     if fl (num sent + amount) > MAX_DAILY then throw (BadRequest ''Daily transfer limit exceeded'')
     else if w_id sw = receiver then throw (BadRequest ''Cannot send to yourself'')
     else bnd (ruleFor TransferFee) (\<lambda>tr.
     bnd (if merchant_fee then bnd (ruleFor Merchant) (\<lambda>r. ret (computeFee r amount 8)) else ret 0) (\<lambda>mfee.
     let p = \<lparr>sp_sender = sw, sp_receiver = receiver, sp_amount = amount,
              sp_fee = computeFee tr amount 8, sp_merchant_fee = mfee\<rparr>
     in if fl (num (w_balance sw) - num (w_locked sw)) < sp_total_out p
        then throw (BadRequest ''Insufficient balance'')
        else bnd (gets (\<lambda>s. recent_duplicate s (w_id sw) amount)) (\<lambda>dup.
          if dup then throw (BadRequest ''You can only resend the same amount after 1 minute.'')
          else ret p)))))"

record send_result =
  sr_reference :: nat
  sr_amount :: rat
  sr_fee :: rat
  sr_merchant_fee :: rat
  sr_sender_balance :: rat
  sr_receiver_balance :: rat
  sr_receiver_user :: "nat option"

definition txn_complete :: "nat \<Rightarrow> ('a core_scheme, unit) op" where
  "txn_complete i = modify (\<lambda>s. s\<lparr>txns := upd_row t_id i (\<lambda>t. t\<lparr>t_status := Completed\<rparr>) (txns s)\<rparr>)"

definition send_fees :: "rat \<Rightarrow> rat \<Rightarrow> nat \<Rightarrow> ('a core_scheme, unit) op" where
  "send_fees merchant_fee sender_fee tx_id =
     thn (if merchant_fee > 0 then creditPlatformInTx merchant_fee (Some tx_id) None else ret ())
       (if sender_fee > 0 then creditPlatformInTx sender_fee (Some tx_id) None else ret ())"

definition send_commit ::
  "nat \<Rightarrow> nat option \<Rightarrow> send_plan \<Rightarrow> ('a core_scheme, send_result) op" where
  "send_commit sender receiver_user p =
     bnd (txn_create (\<lambda>i t. \<lparr>t_id = i, t_ref = i, t_sender = Some (w_id (sp_sender p)),
        t_receiver = Some (sp_receiver p), t_type = Transfer, t_status = Processing,
        t_amount = to_units (sp_amount p), t_fee = to_units (sp_fee p), t_net = to_units (sp_credit p),
        t_created = t, t_meta = MUser sender #
          (if sp_merchant_fee p > 0 then [MMerchantFee (sp_merchant_fee p)] else [])\<rparr>)) (\<lambda>tx.
     bnd (gets (\<lambda>s. wallet_by_id s (sp_receiver p))) (\<lambda>recv. case recv of
       None \<Rightarrow> throw (NotFound ''Recipient wallet not found'')
     | Some rw \<Rightarrow>
     bnd (wallet_update (w_id (sp_sender p)) (dec_balance (sp_total_out p))) (\<lambda>sender'.
     bnd (wallet_update (sp_receiver p) (inc_balance (sp_credit p))) (\<lambda>receiver'.
     thn (ledger_create \<lparr>l_txn = Some (t_id tx), l_wallet = w_id (sp_sender p), l_type = Debit,
            l_amount = to_units (sp_total_out p),
            l_before = Some (to_units (num (w_balance (sp_sender p)))),
            l_after = Some (to_units (fl (num (w_balance (sp_sender p)) - sp_total_out p))),
            l_category = None\<rparr>)
     (thn (ledger_create \<lparr>l_txn = Some (t_id tx), l_wallet = sp_receiver p, l_type = Credit,
            l_amount = to_units (sp_credit p),
            l_before = Some (to_units (num (w_balance rw))),
            l_after = Some (to_units (fl (num (w_balance rw) + sp_credit p))),
            l_category = None\<rparr>)
     (thn (send_fees (sp_merchant_fee p) (sp_fee p) (t_id tx))
     (thn (txn_complete (t_id tx))
     (ret \<lparr>sr_reference = t_ref tx, sr_amount = sp_amount p, sr_fee = sp_fee p,
           sr_merchant_fee = sp_merchant_fee p, sr_sender_balance = num (w_balance sender'),
           sr_receiver_balance = num (w_balance receiver'),
           sr_receiver_user = (case receiver_user of None \<Rightarrow> w_user rw | Some u \<Rightarrow> Some u)\<rparr>))))))))"

definition send_tx ::
  "ext \<Rightarrow> nat \<Rightarrow> rat \<Rightarrow> bool \<Rightarrow> nat option \<times> nat \<Rightarrow> ('a core_scheme, send_result) op" where
  "send_tx X sender amount merchant_fee to =
     transaction (bnd (send_check X sender amount merchant_fee (snd to)) (send_commit sender (fst to)))"

text \<open>Realtime updates, notifications and cache entries after the commit.\<close>

definition send_announce :: "nat \<Rightarrow> send_result \<Rightarrow> ('a core_scheme, unit) op" where
  "send_announce sender r =
     thn (emit (BalanceUpdate sender (sr_sender_balance r)))
     (thn (emit (TransactionUpdate sender (sr_reference r)))
     (thn (case sr_receiver_user r of
             None \<Rightarrow> ret ()
           | Some u \<Rightarrow>
               thn (emit (BalanceUpdate u (sr_receiver_balance r)))
               (thn (emit (TransactionUpdate u (sr_reference r)))
               (thn (emit (Notification sender ''transfer_sent'' (Some (sr_reference r))))
               (emit (Notification u ''transfer_received'' (Some (sr_reference r)))))))
     (thn (cacheDelete (KWallet sender))
     (thn (case sr_receiver_user r of None \<Rightarrow> ret () | Some u \<Rightarrow> cacheDelete (KWallet u))
     (thn (cacheDelete (KDashboard sender))
     (thn (case sr_receiver_user r of None \<Rightarrow> ret () | Some u \<Rightarrow> cacheDelete (KDashboard u))
     (thn (cacheInvalidateHistory sender)
     (case sr_receiver_user r of None \<Rightarrow> ret () | Some u \<Rightarrow> cacheInvalidateHistory u))))))))"

definition sendFunds ::
  "ext \<Rightarrow> nat \<Rightarrow> send_dto \<Rightarrow> bool \<Rightarrow> ('a core_scheme, send_result) op" where
  "sendFunds X sender dto merchant_fee =
     (if sd_amount dto \<le> 0 then throw (BadRequest ''Amount must be greater than zero'')
      else thn (send_authorize X sender dto)
        (bnd (send_recipient (sd_recipient dto)) (\<lambda>to.
         bnd (send_tx X sender (sd_amount dto) merchant_fee to) (\<lambda>r.
         thn (send_announce sender r) (ret r)))))"

section \<open>Transaction history\<close>

definition HIDDEN_TRANSACTION_HISTORY_STATUSES :: "txn_status list" where
  "HIDDEN_TRANSACTION_HISTORY_STATUSES = [Pending, Processing, Failed, Cancelled, Reversed]"

text \<open>\<open>wallets.findFirst({ user_id })\<close>, active or not; newest first.\<close>

definition getTransactions ::
  "nat \<Rightarrow> int option \<Rightarrow> int option \<Rightarrow> txn_type option \<Rightarrow> txn_status option
    \<Rightarrow> ('a core_scheme, history_item list \<times> page_meta) op" where
  "getTransactions uid page limit ty st =
     (let p = paginationParams page limit;
          key = KTransactions uid (pg_page p) (pg_limit p) ty st in
      bnd (gets (\<lambda>s. find (\<lambda>w. w_user w = Some uid) (wallets s))) (\<lambda>w. case w of
        None \<Rightarrow> throw (NotFound ''Wallet not found'')
      | Some w \<Rightarrow> bnd (gets (\<lambda>s. cacheGet s key)) (\<lambda>cached. case cached of
          Some (VHistory items m) \<Rightarrow> ret (items, m)
        | _ \<Rightarrow> bnd (gets (\<lambda>s. filter (\<lambda>t. (t_sender t = Some (w_id w) \<or> t_receiver t = Some (w_id w))
                \<and> t_status t \<notin> set HIDDEN_TRANSACTION_HISTORY_STATUSES
                \<and> (case ty of None \<Rightarrow> True | Some y \<Rightarrow> t_type t = y)
                \<and> (case st of None \<Rightarrow> True | Some y \<Rightarrow> t_status t = y)) (txns s))) (\<lambda>rows.
            let items = map (\<lambda>t. \<lparr>hi_txn = t, hi_outgoing = (t_sender t = Some (w_id w))\<rparr>)
                  (page_of p (sort_key (\<lambda>t. - t_created t) rows));
                m = paginate (int (length rows)) (pg_page p) (pg_limit p)
            in thn (cacheSet key (VHistory items m) 45) (ret (items, m))))))"

end
