(* ===== verification/Transfer_Amounts.thy ===== *)
theory Transfer_Amounts
  imports Wallets
begin

text \<open>
  What a transfer of any positive double within the limit does to whole units: the debit, the
  credit and the fees are each rounded on their own, so they miss each other by at most one unit;
  no more than the free money is taken, and the receiver is never debited.
\<close>

section \<open>Values off a rational number of units\<close>

definition SPAN :: rat where "SPAN = 4 * 10 ^ 13"

text \<open>A rounding of a value of at most \<open>SPAN\<close> units costs at most a hundredth of a unit.\<close>

lemma rounding_cost: "\<bar>x\<bar> \<le> SPAN + 2 \<Longrightarrow> \<bar>x\<bar> / 2 ^ 53 \<le> 1/200"
  by (simp add: SPAN_def)

lemma off_round:
  assumes "off e x y" "\<bar>y\<bar> \<le> SPAN" "e \<le> 1" shows "off (e + 1/200) (fl x) y"
proof -
  have "\<bar>fl x - x\<bar> * 10 ^ 8 \<le> \<bar>x\<bar> / 2 ^ 53 * 10 ^ 8" by (intro mult_right_mono fl_error) simp
  also have "\<dots> = \<bar>x * 10 ^ 8\<bar> / 2 ^ 53" by (simp add: abs_mult)
  also have "\<dots> \<le> 1/200"
    by (rule rounding_cost) (use assms in \<open>unfold off_def, linarith\<close>)
  finally have "\<bar>fl x * 10 ^ 8 - x * 10 ^ 8\<bar> \<le> 1/200" unfolding scale_abs .
  with assms(1) show ?thesis unfolding off_def by linarith
qed

lemma off_num: "\<bar>k\<bar> \<le> 4 * 10 ^ 13 \<Longrightarrow> off (1/200) (num k) (of_int k)"
proof -
  assume "\<bar>k\<bar> \<le> 4 * 10 ^ 13"
  then have "of_int \<bar>k\<bar> \<le> (of_int (4 * 10 ^ 13) :: rat)" by (simp only: of_int_le_iff)
  then have "\<bar>of_int k :: rat\<bar> \<le> SPAN" by (simp add: SPAN_def)
  moreover have "off 0 (of_int k / 10 ^ 8) (of_int k)" by (simp add: off_def)
  ultimately show ?thesis unfolding num_def using off_round[of 0] by fastforce
qed

lemma off_add: "off e x y \<Longrightarrow> off e' x' y' \<Longrightarrow> off (e + e') (x + x') (y + y')"
  unfolding off_def distrib_right by linarith

lemma off_diff: "off e x y \<Longrightarrow> off e' x' y' \<Longrightarrow> off (e + e') (x - x') (y - y')"
  unfolding off_def left_diff_distrib by linarith

lemma off_js_dec:
  assumes "off e x y" "\<bar>y\<bar> \<le> SPAN" "e \<le> 1" shows "off (e + 1/200) (js_dec x) y"
proof -
  have d: "\<bar>js_dec x * 10 ^ 8 - x * 10 ^ 8\<bar> \<le> \<bar>js_dec x * 10 ^ 8\<bar> / 2 ^ 53"
    using mult_right_mono[OF js_dec_error[of x], of "10 ^ 8"] unfolding scale_abs by (simp add: abs_mult)
  have x: "\<bar>x * 10 ^ 8\<bar> \<le> SPAN + 1" using assms unfolding off_def by linarith
  have self: "u \<le> SPAN + 1 + u / 2 ^ 53 \<Longrightarrow> u \<le> SPAN + 2" for u :: rat by (simp add: SPAN_def)
  have "\<bar>js_dec x * 10 ^ 8\<bar> \<le> SPAN + 1 + \<bar>js_dec x * 10 ^ 8\<bar> / 2 ^ 53" using d x by linarith
  then have "\<bar>js_dec x * 10 ^ 8\<bar> / 2 ^ 53 \<le> 1/200" by (intro rounding_cost self)
  then show ?thesis using d assms(1) unfolding off_def by linarith
qed

section \<open>Debit, credit and fees\<close>

text \<open>The units a transfer of \<open>a\<close> with fee \<open>f\<close> takes from a balance, and those it gives.\<close>

definition taken_units :: "int \<Rightarrow> rat \<Rightarrow> int \<Rightarrow> int" where
  "taken_units b a f = b - dec_dec b (fl (a + num f))"

definition given_units :: "rat \<Rightarrow> int \<Rightarrow> int" where
  "given_units a m = rhaz (fl (a - num m) * 10 ^ 8)"

lemma debit_whole: "\<bar>k\<bar> \<le> MAXU \<Longrightarrow> \<bar>f\<bar> \<le> MAXU \<Longrightarrow> \<bar>k + f\<bar> \<le> MAXU \<Longrightarrow> taken_units b (num k) f = k + f"
  by (simp add: taken_units_def dec_dec_sum)

lemma credit_whole:
  assumes "\<bar>k\<bar> \<le> MAXU" "\<bar>m\<bar> \<le> MAXU" "\<bar>k - m\<bar> \<le> MAXU" shows "given_units (num k) m = k - m"
  unfolding given_units_def
  by (rule near_rhaz[OF js.near_minus[OF near_num near_num]]) (use assms in \<open>auto simp: ulp_def\<close>)

text \<open>Amounts a transfer accepts: at most the single limit, with fees of at most that.\<close>

definition send_range :: "rat \<Rightarrow> int \<Rightarrow> int \<Rightarrow> bool" where
  "send_range a f m \<longleftrightarrow> 0 < a \<and> a * 10 ^ 8 \<le> 10 ^ 13 \<and> 0 \<le> f \<and> f \<le> 10 ^ 13 \<and> 0 \<le> m \<and> m \<le> 10 ^ 13"

lemma int_le_rat: "k \<le> 10 ^ 13 \<Longrightarrow> (of_int k :: rat) \<le> 10 ^ 13"
proof -
  assume "k \<le> 10 ^ 13"
  then have "of_int k \<le> (of_int (10 ^ 13) :: rat)" by (simp only: of_int_le_iff)
  then show ?thesis by simp
qed

lemma debit_near:
  assumes "send_range a f m"
  shows "off (1/50) (js_dec (fl (a + num f))) (a * 10 ^ 8 + of_int f)"
proof -
  have f: "0 \<le> (of_int f :: rat)" "(of_int f :: rat) \<le> 10 ^ 13" "\<bar>f\<bar> \<le> 4 * 10 ^ 13"
    using assms int_le_rat[of f] by (auto simp: send_range_def)
  have a: "0 < a * 10 ^ 8" "a * 10 ^ 8 \<le> 10 ^ 13" using assms by (auto simp: send_range_def)
  have L: "\<bar>a * 10 ^ 8 + of_int f\<bar> \<le> SPAN" using a f(1,2) by (simp add: SPAN_def)
  have "off 0 a (a * 10 ^ 8)" by (simp add: off_def)
  from off_add[OF this off_num[OF f(3)]] have "off (0 + 1/200) (a + num f) (a * 10 ^ 8 + of_int f)" .
  from off_js_dec[OF off_round[OF this L] L] show ?thesis by (simp add: off_def)
qed

lemma credit_near:
  assumes "send_range a f m" shows "off (1/100) (fl (a - num m)) (a * 10 ^ 8 - of_int m)"
proof -
  have m: "0 \<le> (of_int m :: rat)" "(of_int m :: rat) \<le> 10 ^ 13" "\<bar>m\<bar> \<le> 4 * 10 ^ 13"
    using assms int_le_rat[of m] by (auto simp: send_range_def)
  have a: "0 < a * 10 ^ 8" "a * 10 ^ 8 \<le> 10 ^ 13" using assms by (auto simp: send_range_def)
  have L: "\<bar>a * 10 ^ 8 - of_int m\<bar> \<le> SPAN" using a m(1,2) by (simp add: SPAN_def)
  have "off 0 a (a * 10 ^ 8)" by (simp add: off_def)
  from off_diff[OF this off_num[OF m(3)]] have "off (0 + 1/200) (a - num m) (a * 10 ^ 8 - of_int m)" .
  from off_round[OF this L] show ?thesis by simp
qed

lemma debit_off:
  assumes "send_range a f m" shows "\<bar>of_int (taken_units b a f) - (a * 10 ^ 8 + of_int f)\<bar> \<le> 13/25"
proof -
  let ?y = "js_dec (fl (a + num f)) * 10 ^ 8"
  have "\<bar>of_int (rhaz (of_int b - ?y)) - (of_int b - ?y)\<bar> \<le> 1/2" by (rule rhaz_bounds)
  then have "\<bar>of_int b - of_int (rhaz (of_int b - ?y)) - (a * 10 ^ 8 + of_int f)\<bar> \<le> 13/25"
    using debit_near[OF assms] unfolding off_def by linarith
  then show ?thesis unfolding taken_units_def dec_dec_def of_int_diff .
qed

lemma credit_off:
  assumes "send_range a f m" shows "\<bar>of_int (given_units a m) - (a * 10 ^ 8 - of_int m)\<bar> \<le> 51/100"
  using rhaz_bounds[of "fl (a - num m) * 10 ^ 8"] credit_near[OF assms] unfolding off_def given_units_def by linarith

text \<open>What the parts miss each other by.\<close>

lemma transfer_drift:
  assumes "send_range a f m" shows "\<bar>given_units a m + m + f - taken_units b a f\<bar> \<le> 1"
proof -
  have "\<bar>of_int (given_units a m + m + f - taken_units b a f) :: rat\<bar> < 2"
    using debit_off[OF assms, of b] credit_off[OF assms] unfolding of_int_add of_int_diff by linarith
  then show ?thesis by linarith
qed

text \<open>A double that is at most the free money takes at most the free money.\<close>

lemma debit_free:
  assumes r: "send_range a f m" and b: "0 \<le> l" "l \<le> b" "b \<le> MAXU" and c: "fl (a + num f) \<le> fl (num b - num l)"
  shows "taken_units b a f \<le> b - l"
proof -
  have av: "near (ulp + ulp + ulp) (fl (num b - num l)) (b - l)"
    by (rule js.near_minus[OF near_num near_num]) (use b in \<open>auto simp: ulp_def\<close>)
  let ?y = "js_dec (fl (a + num f)) * 10 ^ 8"
  have f: "0 \<le> (of_int f :: rat)" "(of_int f :: rat) \<le> 10 ^ 13" "\<bar>f\<bar> \<le> 4 * 10 ^ 13"
    using r int_le_rat[of f] by (auto simp: send_range_def)
  have L: "\<bar>a * 10 ^ 8 + of_int f\<bar> \<le> SPAN" using r f(1,2) by (simp add: SPAN_def send_range_def)
  have "off 0 a (a * 10 ^ 8)" by (simp add: off_def)
  from off_round[OF off_add[OF this off_num[OF f(3)]] L] have x: "off (1/100) (fl (a + num f)) (a * 10 ^ 8 + of_int f)" by simp
  have "?y \<le> fl (a + num f) * 10 ^ 8 + 3/100" using debit_near[OF r] x unfolding off_def by linarith
  moreover have "fl (a + num f) * 10 ^ 8 \<le> fl (num b - num l) * 10 ^ 8" using c by (rule mult_right_mono) simp
  ultimately have "of_int b - ?y \<ge> of_int l - 2/5" using av unfolding near_def ulp_def of_int_diff by linarith
  then have "rhaz (of_int l - 2/5) \<le> rhaz (of_int b - ?y)" by (rule rhaz_mono)
  moreover have "rhaz (of_int l - 2/5) = l" by (rule rhaz_near) simp
  ultimately show ?thesis by (simp add: taken_units_def dec_dec_def)
qed

section \<open>Fees of any amount\<close>

lemma fee_units_limit:
  assumes r: "percent_only r" and a: "a * 10 ^ 8 \<le> 10 ^ 13" shows "fee_units r a 8 \<le> 10 ^ 13"
proof -
  have "num (10 ^ 13) = 100000" by (simp add: num_def fl_of_int[of 100000, simplified])
  then have "a \<le> num (10 ^ 13)" using a by simp
  then have "fee_units r a 8 \<le> fee_units r (num (10 ^ 13)) 8"
    using r by (intro fee_units_mono) (simp_all add: percent_only_def)
  also have "\<dots> \<le> 10 ^ 13" using r by (intro fee_units_le_amount) simp_all
  finally show ?thesis .
qed

lemma send_range_fees:
  assumes "0 < a" "a \<le> 100000" "percent_only r" "mf \<Longrightarrow> percent_only q"
  shows "send_range a (fee_units r a 8) (if mf then fee_units q a 8 else 0)"
  using assms fee_units_limit[of r a] fee_units_limit[of q a] by (auto simp: send_range_def)

text \<open>A fee of at most one half, rounded to a unit, is at most half the amount and half a unit.\<close>

lemma rounded8_le:
  assumes "off e x y" "\<bar>y\<bar> \<le> 10 ^ 13" "e \<le> 1/2" shows "of_int (rounded 8 x) \<le> y + e + 1/2 + 1/50"
proof -
  let ?y = "fl (x + number_epsilon)"
  have S: "\<bar>y\<bar> \<le> SPAN" using assms(2) by (simp add: SPAN_def)
  have "off (1 / 10 ^ 7) number_epsilon 0" by (simp add: off_def number_epsilon_def)
  from off_add[OF assms(1) this] have "off (e + 1 / 10 ^ 7) (x + number_epsilon) y" by simp
  then have "off (e + 1 / 10 ^ 7 + 1/200) ?y y" by (rule off_round[OF _ S]) (use assms(3) in simp)
  then have y: "\<bar>?y * 10 ^ 8 - y\<bar> \<le> e + 1/100" unfolding off_def by (rule order_trans) simp
  have "\<bar>fl (?y * 10 ^ 8) - ?y * 10 ^ 8\<bar> \<le> \<bar>?y * 10 ^ 8\<bar> / 2 ^ 53" by (rule fl_error)
  also have "\<dots> \<le> 1/200" by (rule rounding_cost) (use y S assms(3) in linarith)
  finally have "fl (?y * 10 ^ 8) \<le> y + e + 1/50" using y by linarith
  moreover have "of_int (rounded 8 x) \<le> fl (?y * 10 ^ 8) + 1/2" unfolding rounded_def math_round_def by linarith
  ultimately show ?thesis by linarith
qed

lemma fee_units_half8:
  assumes r: "half_percent r" and a: "0 < a" "a * 10 ^ 8 \<le> 10 ^ 13"
  shows "of_int (fee_units r a 8) \<le> a * 10 ^ 8 / 2 + 11/20"
proof -
  let ?v = "a * 10 ^ 8 / 2"
  let ?z = "fl (a * 50) / 100"
  let ?y = "fl (fl ?z + 0)"
  have v: "\<bar>?v\<bar> \<le> 10 ^ 13" "\<bar>?v\<bar> \<le> SPAN" "0 < ?v" using a by (simp_all add: SPAN_def)
  have "\<bar>fl (a * 50) - a * 50\<bar> * 10 ^ 6 \<le> \<bar>a * 50\<bar> / 2 ^ 53 * 10 ^ 6" by (intro mult_right_mono fl_error) simp
  also have "\<dots> = \<bar>?v\<bar> / 2 ^ 53" using a(1) by (simp add: abs_mult)
  also have "\<dots> \<le> 1/200" by (rule rounding_cost) (use v in simp)
  finally have "\<bar>fl (a * 50) - a * 50\<bar> * 10 ^ 6 \<le> 1/200" .
  then have "\<bar>(fl (a * 50) - a * 50) * 10 ^ 6\<bar> \<le> 1/200" by (simp only: abs_mult) simp
  moreover have "?z * 10 ^ 8 - ?v = (fl (a * 50) - a * 50) * 10 ^ 6" by simp
  ultimately have "off (1/200) ?z ?v" unfolding off_def by (simp only:)
  from off_round[OF this v(2)] have "off (1/100) (fl ?z + 0) ?v" by simp
  from off_round[OF this v(2)] have "off (3/200) ?y ?v" by simp
  from rounded8_le[OF this v(1)] have le: "of_int (rounded 8 ?y) \<le> ?v + 11/20" by simp
  have "a * r_percent r \<le> a * 50" using r a by (intro mult_left_mono) (auto simp: half_percent_def)
  then have "fl (a * r_percent r) / 100 \<le> ?z" by (intro divide_right_mono fl_mono) simp_all
  then have "raw_fee r a \<le> ?y"
    using r unfolding raw_fee_def half_percent_def percent_only_def by (auto intro!: fl_mono)
  moreover have "capped_fee r a \<le> raw_fee r a"
    using r by (auto simp: capped_fee_def Let_def half_percent_def percent_only_def)
  ultimately have "rounded 8 (capped_fee r a) \<le> rounded 8 ?y" by (intro rounded_mono) simp
  then have "of_int (rounded 8 (capped_fee r a)) \<le> (of_int (rounded 8 ?y) :: rat)" by (simp only: of_int_le_iff)
  then have "of_int (rounded 8 (capped_fee r a)) \<le> ?v + 11/20" using le by (rule order_trans)
  then show ?thesis using a v(3) by (simp add: fee_units_def max_def)
qed

lemma credit_nonneg:
  assumes a: "send_range a f m" and m: "of_int m \<le> a * 10 ^ 8 / 2 + 11/20" shows "0 \<le> given_units a m"
proof (cases "0 < m")
  case True
  then have "1 \<le> (of_int m :: rat)" by simp
  then have "- (1/2) < fl (a - num m) * 10 ^ 8"
    using credit_near[OF a] m unfolding off_def by linarith
  moreover have "rhaz x = 0" if "- (1/2) < x" "x < 0" for x by (rule rhaz_near) (use that in simp)
  ultimately show ?thesis unfolding given_units_def
    by (cases "fl (a - num m) * 10 ^ 8 < 0") (auto intro: rhaz_nonneg)
next
  case False
  then have "m = 0" using a by (simp add: send_range_def)
  then show ?thesis using a by (simp add: given_units_def send_range_def rhaz_nonneg fl_nonneg_iff)
qed

lemma credit_half:
  assumes "send_range a f m" "m = 0 \<or> (half_percent q \<and> m = fee_units q a 8)" shows "0 \<le> given_units a m"
  using credit_nonneg[OF assms(1)] assms fee_units_half8[of q a] by (auto simp: send_range_def)

lemma credit_MAXU: "send_range a f m \<Longrightarrow> \<bar>given_units a m\<bar> \<le> MAXU"
proof -
  assume a: "send_range a f m"
  have "(of_int m :: rat) \<le> 10 ^ 13" using a int_le_rat by (simp add: send_range_def)
  moreover have "0 \<le> (of_int m :: rat)" "0 < a * 10 ^ 8" "a * 10 ^ 8 \<le> 10 ^ 13" using a by (simp_all add: send_range_def)
  ultimately have "\<bar>of_int (given_units a m) :: rat\<bar> \<le> 10 ^ 13 + 2" using credit_off[OF a] by linarith
  then have "of_int \<bar>given_units a m\<bar> \<le> (of_int (10 ^ 13 + 2) :: rat)" by simp
  then have "\<bar>given_units a m\<bar> \<le> 10 ^ 13 + 2" by (simp only: of_int_le_iff)
  then show ?thesis by (simp add: MAXU_def)
qed

lemma toFixed8_units: "\<bar>x\<bar> < 10 ^ 21 \<Longrightarrow> toFixed 8 x = num (rhaz (x * 10 ^ 8))"
  by (simp add: toFixed_def num_def)

lemma credit_value: assumes a: "send_range a f m" shows "toFixed 8 (fl (a - num m)) = num (given_units a m)"
proof -
  have "(of_int m :: rat) \<le> 10 ^ 13" "0 \<le> (of_int m :: rat)" "0 < a * 10 ^ 8" "a * 10 ^ 8 \<le> 10 ^ 13"
    using a int_le_rat by (simp_all add: send_range_def)
  then have "\<bar>fl (a - num m) * 10 ^ 8\<bar> \<le> 10 ^ 13 + 10 ^ 13 + 1" using credit_near[OF a] unfolding off_def by linarith
  then have "\<bar>fl (a - num m)\<bar> < 10 ^ 21" by (simp add: abs_mult)
  then show ?thesis by (simp add: toFixed8_units given_units_def)
qed

section \<open>The daily volume\<close>

lemma volume_le:
  assumes s: "0 \<le> s" "s \<le> 10 ^ 14" and a: "0 < a" "a \<le> 100000"
    and c: "fl (num s + a) \<le> num (5 * 10 ^ 13)"
  shows "s + to_units a \<le> 5 * 10 ^ 13"
proof -
  have A: "\<bar>a * 10 ^ 8\<bar> \<le> SPAN" using a by (simp add: SPAN_def)
  have d: "off (1/200) (js_dec a) (a * 10 ^ 8)"
    using off_js_dec[of 0 a "a * 10 ^ 8"] A by (simp add: off_def)
  have n: "near (1/80) (num s) s" using s by (intro near_num_tight) simp
  have l: "near (1/80) (num (5 * 10 ^ 13)) (5 * 10 ^ 13)" by (rule near_num_tight) simp
  let ?x = "(5 * 10 ^ 13 + 2/5) / 10 ^ 8 :: rat"
  show ?thesis
  proof (rule ccontr)
    assume "\<not> s + to_units a \<le> 5 * 10 ^ 13"
    then have "(of_int (5 * 10 ^ 13 + 1) :: rat) \<le> of_int (s + to_units a)" by (simp only: of_int_le_iff)
    then have "5 * 10 ^ 13 + 1 \<le> (of_int s + of_int (to_units a) :: rat)" by simp
    moreover have "of_int (to_units a) \<le> js_dec a * 10 ^ 8 + 1/2"
      using rhaz_bounds[of "js_dec a * 10 ^ 8"] unfolding to_units_def by linarith
    ultimately have "5 * 10 ^ 13 + 2/5 \<le> num s * 10 ^ 8 + a * 10 ^ 8"
      using n d unfolding near_def off_def by linarith
    then have "?x \<le> num s + a" by simp
    then have le: "fl ?x * 10 ^ 8 \<le> num (5 * 10 ^ 13) * 10 ^ 8"
      by (intro mult_right_mono order_trans[OF fl_mono c]) simp_all
    have "\<bar>fl ?x - ?x\<bar> * 10 ^ 8 \<le> \<bar>?x\<bar> / 2 ^ 53 * 10 ^ 8" by (intro mult_right_mono fl_error) simp
    also have "\<dots> \<le> 1/100" by simp
    finally have "?x * 10 ^ 8 - 1/100 \<le> fl ?x * 10 ^ 8" unfolding scale_abs by linarith
    then have "5 * 10 ^ 13 + 2/5 - 1/100 \<le> fl ?x * 10 ^ 8" by simp
    moreover have "num (5 * 10 ^ 13) * 10 ^ 8 \<le> 5 * 10 ^ 13 + 1/80"
      using l unfolding near_def of_int_mult of_int_power of_int_numeral by linarith
    ultimately show False using le by linarith
  qed
qed

end
