(* ===== verification/Transfers.thy ===== *)
theory Transfers
  imports Transfer_Amounts
begin

text \<open>
  What a transfer does to the books, for any amount (\<open>moved\<close>) and exactly for whole units
  (\<open>transferred\<close>): a chain of bookings, the ledger entries, the stored transaction, and whose wallet
  receives (\<open>recipient_of\<close>).  The lemmas refine the double arithmetic of the code to it and derive
  what the total can change by, solvency under sequential use, the daily limit, the fresh balance
  after a transfer and what the history shows.
\<close>

section \<open>The checks\<close>

lemma send_check_spec:
  "wp (send_check X u a mf r) (\<lambda>p t. \<exists>sw. active_wallet s u = Some sw \<and> \<not> w_frozen sw
      \<and> a \<le> MAX_SINGLE_TX \<and> fl (num (sent_today X s (w_id sw)) + a) \<le> MAX_DAILY \<and> w_id sw \<noteq> r
      \<and> p = \<lparr>sp_sender = sw, sp_receiver = r, sp_amount = a,
              sp_fee = computeFee (rule_in s TransferFee) a 8,
              sp_merchant_fee = (if mf then computeFee (rule_in s Merchant) a 8 else 0)\<rparr>
      \<and> sp_total_out p \<le> fl (num (w_balance sw) - num (w_locked sw))
      \<and> \<not> recent_duplicate s (w_id sw) a \<and> (\<exists>c. t = s\<lparr>fee_cache := c\<rparr>))
     (\<lambda>e t. \<exists>c. t = s\<lparr>fee_cache := c\<rparr>) s"
proof -
  have id: "\<exists>c. s = s\<lparr>fee_cache := c\<rparr>" by (rule exI[of _ "fee_cache s"]) simp
  have frame: "recent_duplicate (s\<lparr>fee_cache := c\<rparr>) w x = recent_duplicate s w x" for c w x
    by (simp add: recent_duplicate_def)
  show ?thesis unfolding send_check_def
    by (auto simp: wp_simps id frame not_less split: option.split)
qed

section \<open>The books after a transfer\<close>

text \<open>What a transfer books: \<open>d\<close> units taken, \<open>c\<close> units given, and the two fees.\<close>

definition bookings :: "nat \<Rightarrow> nat \<Rightarrow> nat \<Rightarrow> int \<Rightarrow> int \<Rightarrow> int \<Rightarrow> int \<Rightarrow> books \<Rightarrow> books" where
  "bookings from to platform d c f m A =
     post platform f 0 (post platform m 0 (post to c 0 (post from (- d) 0 A)))"

text \<open>The same for \<open>k\<close> whole units with sender fee \<open>f\<close> and merchant fee \<open>m\<close>.\<close>

definition transfer_books :: "nat \<Rightarrow> nat \<Rightarrow> nat \<Rightarrow> int \<Rightarrow> int \<Rightarrow> int \<Rightarrow> books \<Rightarrow> books" where
  "transfer_books from to platform k f m A =
     post platform f 0 (post platform m 0 (post to (k - m) 0 (post from (- (k + f)) 0 A)))"

lemma transfer_bookings: "bookings i j p (k + f) (k - m) f m A = transfer_books i j p k f m A"
  by (simp only: bookings_def transfer_books_def)

definition platform :: "'a core_scheme \<Rightarrow> nat" where
  "platform s = the (platform_id (users s) (wallets s))"

definition signed :: "ledger_entry \<Rightarrow> int" where
  "signed e = (case l_type e of Credit \<Rightarrow> l_amount e | Debit \<Rightarrow> - l_amount e)"

definition balanced :: "ledger_entry list \<Rightarrow> bool" where
  "balanced es \<longleftrightarrow> sum_list (map signed es) = 0"

lemma signed_simps [simp]:
  "l_type e = Credit \<Longrightarrow> signed e = l_amount e" "l_type e = Debit \<Longrightarrow> signed e = - l_amount e"
  by (simp_all add: signed_def)

lemma signed_credit_entry [simp]: "\<bar>k\<bar> \<le> MAXU \<Longrightarrow> signed (credit_entry w (num k) i c) = k"
  by (simp add: credit_entry_def signed_def)

definition fee_entry :: "nat \<Rightarrow> nat \<Rightarrow> int \<Rightarrow> (nat option \<times> nat \<times> entry_type \<times> int) list" where
  "fee_entry tx p f = (if f = 0 then [] else [(Some tx, p, Credit, f)])"

text \<open>The entries of a transfer: the sender's debit, the receiver's credit, a credit per fee.\<close>

definition transfer_entries ::
  "nat \<Rightarrow> nat \<Rightarrow> nat \<Rightarrow> nat \<Rightarrow> int \<Rightarrow> int \<Rightarrow> int \<Rightarrow> int \<Rightarrow> (nat option \<times> nat \<times> entry_type \<times> int) list" where
  "transfer_entries tx from to p d c f m =
     [(Some tx, from, Debit, d), (Some tx, to, Credit, c)] @ fee_entry tx p m @ fee_entry tx p f"

lemma bookings_tot:
  assumes "finite (dom A)" "i \<in> dom A" "j \<in> dom A" "f \<noteq> 0 \<or> m \<noteq> 0 \<Longrightarrow> p \<in> dom A"
  shows "tot (bookings i j p d c f m A) = tot A + (c + m + f - d)"
proof (cases "f = 0 \<and> m = 0")
  case True
  with assms show ?thesis by (simp add: bookings_def tot_post)
next
  case False
  with assms have "p \<in> dom A" by blast
  with assms show ?thesis by (simp add: bookings_def tot_post del: post_apply)
qed

text \<open>A plan with whole fees whose amount is within the single-transfer limit.\<close>

definition plan_of :: "send_plan \<Rightarrow> rat \<Rightarrow> int \<Rightarrow> int \<Rightarrow> bool" where
  "plan_of p a f m \<longleftrightarrow> sp_amount p = a \<and> sp_fee p = num f \<and> sp_merchant_fee p = num m \<and> send_range a f m"

lemma plan_values:
  assumes "plan_of p a f m"
  shows "sp_total_out p = fl (a + num f)" "sp_credit p = num (given_units a m)"
  using assms credit_value[of a f m] by (simp_all add: sp_total_out_def sp_credit_def plan_of_def)

lemma platform_credit:
  assumes keys: "distinct (map w_id (wallets s))" and k: "0 \<le> k" "k \<le> MAXU"
    and Q: "\<And>ws es. distinct (map w_id ws) \<Longrightarrow> platform_id (users s) ws = platform_id (users s) (wallets s)
      \<Longrightarrow> acct ws = post (platform s) k 0 (accounts s)
      \<Longrightarrow> (k \<noteq> 0 \<longrightarrow> platform s \<in> dom (accounts s)) \<Longrightarrow> map entry es = fee_entry i (platform s) k
      \<Longrightarrow> Q () (s\<lparr>wallets := ws, ledger := ledger s @ es\<rparr>)"
    and E: "\<And>e. E e s"
  shows "wp (if num k > 0 then creditPlatformInTx (num k) (Some i) c else ret ()) Q E s"
proof (cases "k = 0")
  case True
  with Q[of "wallets s" "[]"] keys show ?thesis by (simp add: wp_simps fee_entry_def)
next
  case False
  then have "0 < k" "\<bar>k\<bar> \<le> MAXU" using k by auto
  show ?thesis
  proof (cases "platform_id (users s) (wallets s)")
    case None
    with keys E \<open>0 < k\<close> show ?thesis by (simp add: wp_creditPlatform)
  next
    case (Some p)
    then have p: "platform s = p" "p \<in> dom (accounts s)"
      using platform_id_known[OF Some] by (simp_all add: platform_def dom_acct)
    then have "w_id (the (find_row w_id p (wallets s))) = p"
      by (auto simp: acct_def dest: find_row_Some)
    with p Some keys \<open>0 < k\<close> \<open>\<bar>k\<bar> \<le> MAXU\<close> show ?thesis
      by (simp add: wp_creditPlatform) (rule Q, simp_all add: entry_def credit_entry_def fee_entry_def)
  qed
qed

lemma wp_send_fees:
  assumes keys: "distinct (map w_id (wallets s))" and f: "0 \<le> f" "f \<le> MAXU" and m: "0 \<le> m" "m \<le> MAXU"
    and Q: "\<And>ws es. distinct (map w_id ws) \<Longrightarrow> platform_id (users s) ws = platform_id (users s) (wallets s)
      \<Longrightarrow> acct ws = post (platform s) f 0 (post (platform s) m 0 (accounts s))
      \<Longrightarrow> (f \<noteq> 0 \<or> m \<noteq> 0 \<longrightarrow> platform s \<in> dom (accounts s))
      \<Longrightarrow> map entry es = fee_entry i (platform s) m @ fee_entry i (platform s) f
      \<Longrightarrow> Q () (s\<lparr>wallets := ws, ledger := ledger s @ es\<rparr>)"
    and E: "\<And>e t. E e t"
  shows "wp (send_fees (num m) (num f) i) Q E s"
  unfolding send_fees_def wp_thn
proof (rule platform_credit[OF keys m])
  fix ws es
  assume h: "distinct (map w_id ws)" "platform_id (users s) ws = platform_id (users s) (wallets s)"
    "acct ws = post (platform s) m 0 (accounts s)" "m \<noteq> 0 \<longrightarrow> platform s \<in> dom (accounts s)"
    "map entry es = fee_entry i (platform s) m"
  let ?s = "s\<lparr>wallets := ws, ledger := ledger s @ es\<rparr>"
  have p: "platform ?s = platform s" using h(2) by (simp add: platform_def)
  show "wp (if 0 < num f then creditPlatformInTx (num f) (Some i) None else ret ()) Q E ?s"
  proof (rule platform_credit)
    fix vs ds
    assume g: "distinct (map w_id vs)" "platform_id (users ?s) vs = platform_id (users ?s) (wallets ?s)"
      "acct vs = post (platform ?s) f 0 (accounts ?s)"
      "f \<noteq> 0 \<longrightarrow> platform ?s \<in> dom (accounts ?s)" "map entry ds = fee_entry i (platform ?s) f"
    have "Q () (s\<lparr>wallets := vs, ledger := ledger s @ (es @ ds)\<rparr>)"
      by (rule Q) (use g h p in auto)
    then show "Q () (?s\<lparr>wallets := vs, ledger := ledger ?s @ ds\<rparr>)" by simp
  qed (use h f E in auto)
qed (rule E)

text \<open>The completed transaction a transfer leaves behind.\<close>

definition logged :: "'a core_scheme \<Rightarrow> nat \<Rightarrow> nat \<Rightarrow> int \<Rightarrow> 'a core_scheme \<Rightarrow> bool" where
  "logged s from to k t \<longleftrightarrow>
     txns t = upd_row t_id (seq s) (\<lambda>r. r\<lparr>t_status := Completed\<rparr>) (txns s) @ [last (txns t)]
     \<and> t_id (last (txns t)) = seq s \<and> t_sender (last (txns t)) = Some from
     \<and> t_receiver (last (txns t)) = Some to \<and> t_type (last (txns t)) = Transfer
     \<and> t_status (last (txns t)) = Completed \<and> t_amount (last (txns t)) = k
     \<and> t_created (last (txns t)) = now s \<and> now t = now s \<and> seq t = Suc (seq s)"

lemma acct_debit:
  "find_row w_id i ws = Some w \<Longrightarrow> acct (upd_row w_id i (dec_balance (fl (a + num f))) ws)
    = post i (- taken_units (w_balance w) a f) 0 (acct ws)"
  by (rule ext) (auto simp: acct_def option.map_comp o_def taken_units_def)

text \<open>The effect of the writes on the books, for any amount; \<open>b\<close> is the sender's balance then.\<close>

definition committed :: "'a core_scheme \<Rightarrow> nat \<Rightarrow> nat \<Rightarrow> int \<Rightarrow> rat \<Rightarrow> int \<Rightarrow> int \<Rightarrow> 'a core_scheme \<Rightarrow> bool" where
  "committed s from to b a f m t \<longleftrightarrow>
     accounts t = bookings from to (platform s) (taken_units b a f) (given_units a m) f m (accounts s)
     \<and> from \<in> dom (accounts s) \<and> to \<in> dom (accounts s)
     \<and> (f \<noteq> 0 \<or> m \<noteq> 0 \<longrightarrow> platform s \<in> dom (accounts s))
     \<and> wallet_keys t \<and> platform t = platform s
     \<and> (\<exists>es. ledger t = ledger s @ es \<and> map entry es = transfer_entries (seq s) from to (platform s)
           (to_units (fl (a + num f))) (given_units a m) f m)
     \<and> logged s from to (to_units a) t"

lemma send_commit_books:
  assumes keys: "wallet_keys s" and u: "plan_of p a f m"
    and other: "w_id (sp_sender p) \<noteq> sp_receiver p"
  shows "wp (send_commit su ru p) (\<lambda>r t. \<exists>b l. accounts s (w_id (sp_sender p)) = Some (b, l)
        \<and> committed s (w_id (sp_sender p)) (sp_receiver p) b a f m t) (\<lambda>_ _. True) s"
proof -
  note v = plan_values[OF u]
  have a: "sp_amount p = a" "sp_fee p = num f" "sp_merchant_fee p = num m" "0 \<le> f" "0 \<le> m"
      "f \<le> MAXU" "m \<le> MAXU" and c: "\<bar>given_units a m\<bar> \<le> MAXU"
    using u credit_MAXU[of a f m] by (simp_all add: plan_of_def send_range_def MAXU_def)
  show ?thesis
  proof (cases "w_id (sp_sender p) \<in> dom (accounts s) \<and> sp_receiver p \<in> dom (accounts s)")
    case False
    then show ?thesis unfolding send_commit_def
      by (auto simp: wp_simps wallet_by_id_def acct_def split: option.split)
  next
    case True
    then obtain sw rw where w: "find_row w_id (w_id (sp_sender p)) (wallets s) = Some sw"
        "find_row w_id (sp_receiver p) (wallets s) = Some rw"
      by (auto simp: acct_def)
    have A: "accounts s (w_id (sp_sender p)) = Some (w_balance sw, w_locked sw)" using w by (simp add: acct_def)
    show ?thesis unfolding send_commit_def a v committed_def A
      by (simp add: wp_simps wallet_by_id_def w other[symmetric] split del: if_split)
        (rule wp_send_fees, use keys a c True in \<open>simp_all add: platform_def bookings_def acct_debit[OF w(1)]
          wallet_keys_def entry_def transfer_entries_def wp_simps txn_complete_def logged_def\<close>)
  qed
qed

lemma platform_pins [simp]: "platform_id (pins_of i n us) ws = platform_id us ws"
  by (auto simp: platform_id_def pins_of_def find_upd_row split: option.split)

lemma wp_send_authorize:
  assumes "\<And>n bs. Q () (s\<lparr>users := pins_of u n (users s), biometrics := bs\<rparr>)"
    "\<And>e n bs. E e (s\<lparr>users := pins_of u n (users s), biometrics := bs\<rparr>)"
  shows "wp (send_authorize X u dto) Q E s"
proof -
  have q: "Q () (s\<lparr>biometrics := bs\<rparr>)" "E e (s\<lparr>biometrics := bs\<rparr>)" for e bs
    using assms[where n="\<lambda>x. x"] by (simp_all add: pins_of_id)
  have p: "Q () (s\<lparr>users := pins_of u n (users s)\<rparr>)" "E e (s\<lparr>users := pins_of u n (users s)\<rparr>)" for e n
    using assms[where n=n and bs="biometrics s"] by simp_all
  have e: "E e s" for e using p(2)[of e "\<lambda>x. x"] by (simp add: pins_of_id)
  show ?thesis unfolding send_authorize_def Let_def
    by (auto simp: wp_simps p q e intro!: verifyPin_frame verifyDevice_frame)
qed

text \<open>Who is meant: the active wallet of the active user of that name or phone, else the address.\<close>

definition recipient_of :: "user list \<Rightarrow> wallet list \<Rightarrow> string \<Rightarrow> nat option" where
  "recipient_of us ws ident =
     (case Option.bind (find (\<lambda>u. (u_username u = ident \<or> u_phone u = ident) \<and> \<not> u_deleted u \<and> u_active u) us)
         (\<lambda>u. find (\<lambda>w. w_user w = Some (u_id u) \<and> w_active w) ws) of
        Some w \<Rightarrow> Some (w_id w)
      | None \<Rightarrow> map_option w_id (find (\<lambda>w. w_address w = ident) ws))"

lemma recipient_pins: "recipient_of (pins_of i n us) ws ident = recipient_of us ws ident"
  unfolding recipient_of_def pins_of_def
  by (subst find_upd_row) (auto simp: o_def Option.bind_map_option if_distrib cong: if_cong)

lemma wp_send_recipient:
  "(\<And>ru i. recipient_of (users s) (wallets s) x = Some i \<Longrightarrow> Q (ru, i) s) \<Longrightarrow> (\<And>e. E e s)
    \<Longrightarrow> wp (send_recipient x) Q E s"
  unfolding send_recipient_def
  by (simp add: wp_simps recipient_of_def active_wallet_def split: option.split)

lemma quiet_send_announce: "quiet (send_announce u r)"
  unfolding send_announce_def by (intro quiet_intros)

lemma MAX_SINGLE_num: "MAX_SINGLE_TX = num (10 ^ 13)"
  by (simp add: MAX_SINGLE_TX_def num_def fl_of_int[of 100000, simplified])

lemma unit_amount_bound: "num k \<le> MAX_SINGLE_TX \<Longrightarrow> k \<le> 10 ^ 13"
proof (rule ccontr)
  assume le: "num k \<le> MAX_SINGLE_TX" and "\<not> k \<le> 10 ^ 13"
  then have "num (10 ^ 13 + 1) \<le> num k" by (intro num_mono) simp
  with le have "num (10 ^ 13 + 1) \<le> num (10 ^ 13)" by (simp add: MAX_SINGLE_num)
  then show False by (simp add: num_le_iff MAXU_def)
qed

text \<open>The two fees on an amount, in units.\<close>

definition sender_fee :: "'a core_scheme \<Rightarrow> rat \<Rightarrow> int" where
  "sender_fee s a = fee_units (rule_in s TransferFee) a 8"

definition receiver_fee :: "'a core_scheme \<Rightarrow> bool \<Rightarrow> rat \<Rightarrow> int" where
  "receiver_fee s mf a = (if mf then fee_units (rule_in s Merchant) a 8 else 0)"

text \<open>The same for \<open>k\<close> whole units.\<close>

definition transfer_fee :: "'a core_scheme \<Rightarrow> int \<Rightarrow> int" where
  "transfer_fee s k = fee_units (rule_in s TransferFee) (num k) 8"

definition merchant_cut :: "'a core_scheme \<Rightarrow> bool \<Rightarrow> int \<Rightarrow> int" where
  "merchant_cut s mf k = (if mf then fee_units (rule_in s Merchant) (num k) 8 else 0)"

lemma fee_of_units: "sender_fee s (num k) = transfer_fee s k" "receiver_fee s mf (num k) = merchant_cut s mf k"
  by (simp_all add: sender_fee_def receiver_fee_def transfer_fee_def merchant_cut_def)

lemmas send_fee_defs = sender_fee_def receiver_fee_def transfer_fee_def merchant_cut_def

definition untouched :: "'a core_scheme \<Rightarrow> 'a core_scheme \<Rightarrow> bool" where
  "untouched s t \<longleftrightarrow> wallets t = wallets s \<and> ledger t = ledger s \<and> txns t = txns s"

text \<open>A successful transfer of the amount \<open>a\<close> by user \<open>u\<close> from wallet \<open>sw\<close> to wallet \<open>to\<close>.\<close>

definition moved :: "ext \<Rightarrow> 'a core_scheme \<Rightarrow> nat \<Rightarrow> rat \<Rightarrow> int \<Rightarrow> int \<Rightarrow> wallet \<Rightarrow> nat \<Rightarrow> 'a core_scheme \<Rightarrow> bool" where
  "moved X s u a f m sw to t \<longleftrightarrow>
     active_wallet s u = Some sw \<and> \<not> w_frozen sw \<and> to \<noteq> w_id sw \<and> send_range a f m
      \<and> fl (a + num f) \<le> fl (num (w_balance sw) - num (w_locked sw))
      \<and> fl (num (sent_today X s (w_id sw)) + a) \<le> MAX_DAILY
      \<and> committed s (w_id sw) to (w_balance sw) a f m t"

definition moved_outcome :: "ext \<Rightarrow> 'a core_scheme \<Rightarrow> nat \<Rightarrow> bool \<Rightarrow> rat \<Rightarrow> nat \<Rightarrow> 'a core_scheme \<Rightarrow> bool" where
  "moved_outcome X s u mf a to t \<longleftrightarrow> (\<exists>sw. moved X s u a (sender_fee s a) (receiver_fee s mf a) sw to t)"

definition fees_percent :: "'a core_scheme \<Rightarrow> bool \<Rightarrow> bool" where
  "fees_percent s mf \<longleftrightarrow> percent_only (rule_in s TransferFee) \<and> (mf \<longrightarrow> percent_only (rule_in s Merchant))"

text \<open>What a passed check says of the state and the plan.\<close>

lemma send_checked:
  assumes "0 < a" "fees_percent s mf" "send_check X u a mf r s = (Inr p, t)"
  shows "\<exists>sw. active_wallet s u = Some sw \<and> \<not> w_frozen sw \<and> w_id sw \<noteq> r
    \<and> sp_sender p = sw \<and> sp_receiver p = r \<and> plan_of p a (sender_fee s a) (receiver_fee s mf a)
    \<and> fl (a + num (sender_fee s a)) \<le> fl (num (w_balance sw) - num (w_locked sw))
    \<and> fl (num (sent_today X s (w_id sw)) + a) \<le> MAX_DAILY \<and> (\<exists>c. t = s\<lparr>fee_cache := c\<rparr>)"
proof -
  obtain sw where h: "active_wallet s u = Some sw" "\<not> w_frozen sw" "a \<le> MAX_SINGLE_TX"
      "fl (num (sent_today X s (w_id sw)) + a) \<le> MAX_DAILY" "w_id sw \<noteq> r" "p = \<lparr>sp_sender = sw, sp_receiver = r,
        sp_amount = a, sp_fee = computeFee (rule_in s TransferFee) a 8,
        sp_merchant_fee = (if mf then computeFee (rule_in s Merchant) a 8 else 0)\<rparr>"
      "sp_total_out p \<le> fl (num (w_balance sw) - num (w_locked sw))" "\<exists>c. t = s\<lparr>fee_cache := c\<rparr>"
    using wpD_ok[OF send_check_spec assms(3)] by blast
  have "send_range a (sender_fee s a) (receiver_fee s mf a)"
    unfolding send_fee_defs using assms(1,2) h(3)
    by (intro send_range_fees) (simp_all add: MAX_SINGLE_TX_def fees_percent_def)
  then have "plan_of p a (sender_fee s a) (receiver_fee s mf a)"
    by (simp add: plan_of_def h(6) computeFee_units send_fee_defs)
  with h plan_values(1)[OF this] show ?thesis by auto
qed

lemma committed_cache: "committed (s\<lparr>fee_cache := c\<rparr>) i j b a f m t = committed s i j b a f m t"
  by (simp add: committed_def logged_def platform_def)

lemma active_books: "wallet_keys s \<Longrightarrow> active_wallet s u = Some w \<Longrightarrow> accounts s (w_id w) = Some (w_balance w, w_locked w)"
  by (intro accounts_wallet active_wallet_by_id)

lemma send_tx_spec:
  fixes s :: "'a core_scheme"
  assumes keys: "wallet_keys s" and a: "0 < a" and fees: "fees_percent s mf"
  shows "wp (send_tx X u a mf to) (\<lambda>r. moved_outcome X s u mf a (snd to)) (\<lambda>e. untouched s) s"
  unfolding send_tx_def wp_transaction wp_bnd
proof (rule wpI)
  fix p t assume c: "send_check X u a mf (snd to) s = (Inr p, t)"
  obtain sw c where h: "active_wallet s u = Some sw" "\<not> w_frozen sw" "w_id sw \<noteq> snd to" "sp_sender p = sw"
      "sp_receiver p = snd to" "plan_of p a (sender_fee s a) (receiver_fee s mf a)"
      "fl (a + num (sender_fee s a)) \<le> fl (num (w_balance sw) - num (w_locked sw))"
      "fl (num (sent_today X s (w_id sw)) + a) \<le> MAX_DAILY" and t: "t = s\<lparr>fee_cache := c\<rparr>"
    using send_checked[OF a fees c] by blast
  have k: "wallet_keys t" using keys by (simp add: t wallet_keys_def)
  show "wp (send_commit u (fst to) p) (\<lambda>r. moved_outcome X s u mf a (snd to))
      (\<lambda>e x. untouched s (s\<lparr>fee_cache := fee_cache x\<rparr>)) t"
  proof (rule wp_mono[OF send_commit_books[OF k h(6)]])
    show "w_id (sp_sender p) \<noteq> sp_receiver p" using h by simp
  next
    fix r and x :: "'a core_scheme"
    assume "\<exists>b l. accounts t (w_id (sp_sender p)) = Some (b, l) \<and> committed t (w_id (sp_sender p)) (sp_receiver p) b a
        (sender_fee s a) (receiver_fee s mf a) x"
    then show "moved_outcome X s u mf a (snd to) x"
      using h active_books[OF keys h(1)] unfolding moved_outcome_def moved_def
      by (auto simp: t committed_cache plan_of_def)
  qed (simp add: untouched_def)
next
  fix e t assume "send_check X u a mf (snd to) s = (Inl e, t)"
  from wpD_err[OF send_check_spec this] show "untouched s (s\<lparr>fee_cache := fee_cache t\<rparr>)" by (auto simp: untouched_def)
qed

definition sent_to :: "ext \<Rightarrow> 'a core_scheme \<Rightarrow> nat \<Rightarrow> bool \<Rightarrow> rat \<Rightarrow> string \<Rightarrow> 'a core_scheme \<Rightarrow> bool" where
  "sent_to X s u mf a ident t \<longleftrightarrow>
     (\<exists>to. recipient_of (users s) (wallets s) ident = Some to \<and> moved_outcome X s u mf a to t)"

lemma sendFunds_moved:
  fixes s :: "'a core_scheme"
  assumes keys: "wallet_keys s" and fees: "fees_percent s mf"
  shows "wp (sendFunds X u dto mf) (\<lambda>r t. 0 < sd_amount dto \<and> sent_to X s u mf (sd_amount dto) (sd_recipient dto) t)
    (\<lambda>e. untouched s) s"
proof -
  let ?a = "sd_amount dto"
  have out: "moved_outcome X (s\<lparr>users := pins_of u n (users s), biometrics := bs\<rparr>) u mf a to t
      = moved_outcome X s u mf a to t" for n bs a to and t :: "'a core_scheme"
    by (simp add: moved_outcome_def moved_def committed_def active_wallet_def platform_def send_fee_defs logged_def sent_today_def)
  have quiet: "moved_outcome X s u mf a to t \<Longrightarrow> moved_outcome X s u mf a to (t\<lparr>outbox := x, cache := c\<rparr>)"
    for t :: "'a core_scheme" and x c a to
    by (simp add: moved_outcome_def moved_def committed_def wallet_keys_def logged_def platform_def)
  let ?body = "bnd (send_recipient (sd_recipient dto)) (\<lambda>to. bnd (send_tx X u ?a mf to)
      (\<lambda>r. thn (send_announce u r) (ret r)))"
  have body: "wp ?body (\<lambda>r t. 0 < ?a \<and> sent_to X s u mf ?a (sd_recipient dto) t) (\<lambda>e. untouched s)
      (s\<lparr>users := pins_of u n (users s), biometrics := bs\<rparr>)" (is "wp _ _ _ ?s") if a: "0 < ?a" for n bs
    unfolding wp_bnd
  proof (rule wp_send_recipient)
    fix ru i assume "recipient_of (users ?s) (wallets ?s) (sd_recipient dto) = Some i"
    then have i: "recipient_of (users s) (wallets s) (sd_recipient dto) = Some i" by (simp add: recipient_pins)
    have f: "fees_percent ?s mf" "wallet_keys ?s" using fees keys by (simp_all add: fees_percent_def wallet_keys_def)
    show "wp (send_tx X u ?a mf (ru, i)) (\<lambda>r. wp (thn (send_announce u r) (ret r))
        (\<lambda>r t. 0 < ?a \<and> sent_to X s u mf ?a (sd_recipient dto) t) (\<lambda>e. untouched s)) (\<lambda>e. untouched s) ?s"
    proof (rule wp_mono[OF send_tx_spec[OF f(2) a f(1)]])
      fix r t assume "moved_outcome X ?s u mf ?a (snd (ru, i)) t"
      then have "moved_outcome X s u mf ?a i t" by (simp only: out snd_conv)
      then show "wp (thn (send_announce u r) (ret r))
          (\<lambda>r t. 0 < ?a \<and> sent_to X s u mf ?a (sd_recipient dto) t) (\<lambda>e. untouched s) t"
        unfolding wp_thn wp_ret sent_to_def
        by (intro wp_quiet[OF quiet_send_announce] conjI exI[of _ i] a i quiet)
    qed (simp add: untouched_def)
  qed (simp add: untouched_def)
  show ?thesis
  proof (cases "0 < ?a")
    case True
    then have "(?a \<le> 0) = False" by simp
    then show ?thesis unfolding sendFunds_def
      by (simp only: if_False wp_thn) (rule wp_send_authorize, rule body[OF True], simp_all add: untouched_def)
  qed (simp add: sendFunds_def wp_simps untouched_def not_less)
qed

section \<open>Transfers of whole units\<close>

text \<open>A successful transfer of \<open>k\<close> units by user \<open>u\<close> from wallet \<open>sw\<close> to wallet \<open>to\<close>.\<close>

definition transferred :: "ext \<Rightarrow> 'a core_scheme \<Rightarrow> nat \<Rightarrow> int \<Rightarrow> int \<Rightarrow> int \<Rightarrow> wallet \<Rightarrow> nat \<Rightarrow> 'a core_scheme \<Rightarrow> bool" where
  "transferred X s u k f m sw to t \<longleftrightarrow>
     active_wallet s u = Some sw \<and> \<not> w_frozen sw \<and> to \<noteq> w_id sw
      \<and> 0 < k \<and> k \<le> 10 ^ 13 \<and> 0 \<le> f \<and> f \<le> k \<and> 0 \<le> m \<and> m \<le> k
      \<and> fl (num k + num f) \<le> fl (num (w_balance sw) - num (w_locked sw))
      \<and> fl (num (sent_today X s (w_id sw)) + num k) \<le> MAX_DAILY
      \<and> accounts t = transfer_books (w_id sw) to (platform s) k f m (accounts s)
      \<and> w_id sw \<in> dom (accounts s) \<and> to \<in> dom (accounts s)
      \<and> (f \<noteq> 0 \<or> m \<noteq> 0 \<longrightarrow> platform s \<in> dom (accounts s)) \<and> wallet_keys t
      \<and> (\<exists>es. ledger t = ledger s @ es
          \<and> map entry es = transfer_entries (seq s) (w_id sw) to (platform s) (k + f) (k - m) f m)
      \<and> logged s (w_id sw) to k t"

definition transfer_outcome :: "ext \<Rightarrow> 'a core_scheme \<Rightarrow> nat \<Rightarrow> bool \<Rightarrow> int \<Rightarrow> 'a core_scheme \<Rightarrow> bool" where
  "transfer_outcome X s u mf k t \<longleftrightarrow>
     (\<exists>sw to. transferred X s u k (transfer_fee s k) (merchant_cut s mf k) sw to t)"

lemma range_units: "send_range (num k) f m \<Longrightarrow> 0 < k \<and> k \<le> 10 ^ 13"
  using unit_amount_bound[of k] by (simp add: send_range_def MAX_SINGLE_TX_def)

lemma fees_units:
  assumes "0 < k" "k \<le> 10 ^ 13" "fees_percent s mf"
  shows "0 \<le> transfer_fee s k \<and> transfer_fee s k \<le> k \<and> 0 \<le> merchant_cut s mf k \<and> merchant_cut s mf k \<le> k"
proof -
  have "k \<le> 10 ^ 14" using assms by simp
  with assms show ?thesis
    by (auto simp: send_fee_defs fees_percent_def intro!: fee_units_le_amount)
qed

lemma committed_whole:
  assumes c: "committed s i j b (num k) f m t" and k: "0 < k" "k \<le> 10 ^ 13" "0 \<le> f" "f \<le> k" "0 \<le> m" "m \<le> k"
  shows "accounts t = transfer_books i j (platform s) k f m (accounts s)
    \<and> (\<exists>es. ledger t = ledger s @ es \<and> map entry es = transfer_entries (seq s) i j (platform s) (k + f) (k - m) f m)
    \<and> logged s i j k t"
proof -
  have b: "\<bar>k\<bar> \<le> MAXU" "\<bar>f\<bar> \<le> MAXU" "\<bar>m\<bar> \<le> MAXU" "\<bar>k + f\<bar> \<le> MAXU" "\<bar>k - m\<bar> \<le> MAXU"
    using k by (simp_all add: MAXU_def)
  have "taken_units b (num k) f = k + f" "given_units (num k) m = k - m" "to_units (fl (num k + num f)) = k + f"
      "to_units (num k) = k"
    using b by (simp_all add: debit_whole credit_whole to_units_sum)
  with c show ?thesis by (simp add: committed_def transfer_bookings del: post_apply)
qed

lemma moved_whole:
  assumes "moved X s u (num k) (transfer_fee s k) (merchant_cut s mf k) sw to t" "fees_percent s mf"
  shows "transferred X s u k (transfer_fee s k) (merchant_cut s mf k) sw to t"
proof -
  have k: "0 < k" "k \<le> 10 ^ 13" using assms(1) by (auto simp: moved_def dest!: range_units)
  note f = fees_units[OF k assms(2)]
  from assms(1) have c: "committed s (w_id sw) to (w_balance sw) (num k) (transfer_fee s k) (merchant_cut s mf k) t"
    by (simp add: moved_def)
  from committed_whole[OF c k] f k assms(1) show ?thesis
    by (simp add: transferred_def moved_def committed_def del: post_apply)
qed

lemma sendFunds_spec:
  fixes s :: "'a core_scheme"
  assumes keys: "wallet_keys s" and k: "sd_amount dto = num k" and tr: "percent_only (rule_in s TransferFee)"
    and mr: "mf \<Longrightarrow> percent_only (rule_in s Merchant)"
  shows "wp (sendFunds X u dto mf) (\<lambda>r. transfer_outcome X s u mf k) (\<lambda>e. untouched s) s"
proof -
  have f: "fees_percent s mf" using tr mr by (simp add: fees_percent_def)
  show ?thesis
    by (rule wp_mono[OF sendFunds_moved[OF keys f]])
      (auto simp: k sent_to_def moved_outcome_def transfer_outcome_def fee_of_units intro: moved_whole[OF _ f])
qed

lemma transfer_tot:
  assumes "finite (dom A)" "i \<in> dom A" "j \<in> dom A" "f \<noteq> 0 \<or> m \<noteq> 0 \<Longrightarrow> p \<in> dom A"
  shows "tot (transfer_books i j p k f m A) = tot A"
  using bookings_tot[of A i j f m p "k + f" "k - m", OF assms] by (simp add: transfer_bookings)

lemma transferred_total: "transferred X s u k f m sw to t \<Longrightarrow> wallet_keys s \<Longrightarrow> total t = total s"
  by (simp only: transferred_def total_tot transfer_tot finite_dom_acct simp_thms)

text \<open>The check in doubles is exact enough: what leaves the wallet was available.\<close>

lemma available_check:
  assumes "0 \<le> b" "b \<le> MAXU" "0 \<le> l" "l \<le> b" "0 \<le> x" "x \<le> MAXU" "0 \<le> y" "y \<le> MAXU" "x + y \<le> MAXU"
    "fl (num x + num y) \<le> fl (num b - num l)"
  shows "x + y \<le> b - l"
proof (rule ccontr)
  let ?z = "x + y"
  assume "\<not> ?z \<le> b - l"
  have out: "near (ulp + ulp + ulp) (fl (num x + num y)) ?z"
    by (rule js.near_plus[OF near_num near_num]) (use assms in \<open>auto simp: ulp_def\<close>)
  have av: "near (ulp + ulp + ulp) (fl (num b - num l)) (b - l)"
    by (rule js.near_minus[OF near_num near_num]) (use assms in \<open>auto simp: ulp_def\<close>)
  have "of_int (b - l) + 1 \<le> (of_int ?z :: rat)" using \<open>\<not> ?z \<le> b - l\<close> by linarith
  moreover have "fl (num x + num y) * 10 ^ 8 \<le> fl (num b - num l) * 10 ^ 8"
    using assms(10) by (rule mult_right_mono) simp
  ultimately show False using out av unfolding near_def ulp_def abs_le_iff by linarith
qed

section \<open>Transfers of any amount\<close>

text \<open>Amounts that are the value of a whole number of units.\<close>

definition whole :: "rat \<Rightarrow> bool" where
  "whole a \<longleftrightarrow> a = num (to_units a)"

lemma moved_total: "moved X s u a f m sw to t \<Longrightarrow> wallet_keys s
    \<Longrightarrow> total t = total s + (given_units a m + m + f - taken_units (w_balance sw) a f)"
  by (simp only: moved_def committed_def total_tot bookings_tot finite_dom_acct simp_thms)

lemma sent_drift:
  assumes "sent_to X s u mf a ident t" "wallet_keys s" "fees_percent s mf"
  shows "\<bar>total t - total s\<bar> \<le> (if whole a then 0 else 1)"
proof -
  obtain sw to where t: "moved X s u a (sender_fee s a) (receiver_fee s mf a) sw to t"
    using assms(1) by (auto simp: sent_to_def moved_outcome_def)
  then have r: "send_range a (sender_fee s a) (receiver_fee s mf a)" by (simp add: moved_def)
  show ?thesis
  proof (cases "whole a")
    case True
    then obtain k where k: "a = num k" unfolding whole_def by blast
    from transferred_total[OF moved_whole[OF t[unfolded k fee_of_units] assms(3)] assms(2)] True show ?thesis by simp
  qed (use moved_total[OF t assms(2)] transfer_drift[OF r] in simp)
qed

lemma sent_solvent:
  assumes t: "sent_to X s u mf a ident t" and s: "wallet_keys s" "solvent s"
    and m: "mf \<Longrightarrow> half_percent (rule_in s Merchant)"
    and b: "\<And>w. w \<in> set (wallets s) \<Longrightarrow> w_balance w \<le> MAXU"
  shows "solvent t"
proof -
  obtain sw to where h: "moved X s u a (sender_fee s a) (receiver_fee s mf a) sw to t"
    using t by (auto simp: sent_to_def moved_outcome_def)
  let ?f = "sender_fee s a" and ?m = "receiver_fee s mf a"
  have r: "send_range a ?f ?m" and w: "active_wallet s u = Some sw" using h by (simp_all add: moved_def)
  have o: "ok (accounts s)" using s by (simp add: solvent_ok)
  note A = active_books[OF s(1) w] and l = okD[OF o active_books[OF s(1) w]]
  have "w_balance sw \<le> MAXU" using b w by (auto dest: active_wallet_Some)
  then have "taken_units (w_balance sw) a ?f \<le> w_balance sw - w_locked sw"
    using debit_free[OF r] l h by (simp add: moved_def)
  then have ok1: "ok (post (w_id sw) (- taken_units (w_balance sw) a ?f) 0 (accounts s))"
    using A l by (intro ok_post[OF o]) simp
  have "0 \<le> given_units a ?m"
    by (rule credit_half[OF r]) (use m in \<open>auto simp: receiver_fee_def\<close>)
  then have "ok (accounts t)" using ok1 r h
    by (simp add: moved_def committed_def bookings_def send_range_def ok_credit del: post_apply)
  moreover have "wallet_keys t" using h by (simp add: moved_def committed_def)
  ultimately show ?thesis by (simp add: solvent_ok)
qed

definition sample_send :: "rat \<Rightarrow> send_dto" where
  "sample_send a = \<lparr>sd_recipient = ''bob'', sd_amount = a, sd_pin = Some ''1234'', sd_biometric = False,
     sd_fingerprint = None, sd_fingerprint_alias = None\<rparr>"

text \<open>C4: With unique wallet ids and percentage fees, sendFunds of any amount, successful or
  not, changes the sum of all wallet balances by at most one unit (1e-8 FARM), and not at all when
  the amount is a whole number of units: then what the sender pays is what the receiver and the
  platform get.\<close>

theorem send_conserves:
  assumes "wallet_keys s" "percent_only (rule_in s TransferFee)"
    "mf \<Longrightarrow> percent_only (rule_in s Merchant)"
  shows "\<bar>total (snd (sendFunds X u dto mf s)) - total s\<bar> \<le> (if whole (sd_amount dto) then 0 else 1)"
proof -
  have f: "fees_percent s mf" using assms(2,3) by (simp add: fees_percent_def)
  show ?thesis
  proof (rule wpD_snd, rule wp_mono[OF sendFunds_moved[OF assms(1) f]])
    fix e t assume "untouched s t"
    then have "total t = total s" by (simp add: untouched_def total_def)
    then show "\<bar>total t - total s\<bar> \<le> (if whole (sd_amount dto) then 0 else 1)" by simp
  qed (use sent_drift[OF _ assms(1) f] in blast)
qed

theorem send_conserves_witness:
  "\<bar>total (snd (sendFunds sample_ext 1 (sample_send (num 4000000000)) True sample)) - total sample\<bar> \<le> 0"
  using send_conserves[of sample True sample_ext 1 "sample_send (num 4000000000)"]
  by (simp add: sample_keys sample_percent_only sample_send_def whole_def MAXU_def)

text \<open>C5: With unique wallet ids and percentage fees, a successful transfer of k whole units
  takes k plus the transfer fee from the sender's wallet, gives k less the merchant fee to the
  wallet of the recipient named in the request (the active wallet of the user of that name or phone,
  else the wallet of that address) and both fees to the platform wallet, changes no other balance,
  and writes exactly these movements as ledger entries of the one completed transaction it
  stores.\<close>

theorem send_books:
  assumes "wallet_keys s" "percent_only (rule_in s TransferFee)"
    "mf \<Longrightarrow> percent_only (rule_in s Merchant)" "sd_amount dto = num k"
    and run: "sendFunds X u dto mf s = (Inr r, t)"
  shows "\<exists>sw to es. active_wallet s u = Some sw
    \<and> recipient_of (users s) (wallets s) (sd_recipient dto) = Some to \<and> to \<noteq> w_id sw
    \<and> {w_id sw, to} \<subseteq> dom (accounts s)
    \<and> (transfer_fee s k \<noteq> 0 \<or> merchant_cut s mf k \<noteq> 0 \<longrightarrow> platform s \<in> dom (accounts s))
    \<and> accounts t = transfer_books (w_id sw) to (platform s) k (transfer_fee s k) (merchant_cut s mf k) (accounts s)
    \<and> ledger t = ledger s @ es
    \<and> map entry es = transfer_entries (seq s) (w_id sw) to (platform s) (k + transfer_fee s k)
        (k - merchant_cut s mf k) (transfer_fee s k) (merchant_cut s mf k)
    \<and> logged s (w_id sw) to k t"
proof -
  have f: "fees_percent s mf" using assms(2,3) by (simp add: fees_percent_def)
  have "sent_to X s u mf (num k) (sd_recipient dto) t"
    using wpD_ok[OF sendFunds_moved[OF assms(1) f] run] assms(4) by simp
  then obtain sw to where r: "recipient_of (users s) (wallets s) (sd_recipient dto) = Some to"
      and t: "moved X s u (num k) (transfer_fee s k) (merchant_cut s mf k) sw to t"
    unfolding sent_to_def moved_outcome_def fee_of_units by blast
  from moved_whole[OF t f] r show ?thesis unfolding transferred_def by blast
qed

text \<open>C6: With unique wallet ids, a percentage transfer fee, a merchant fee of at most one
  half and balances of at most 10^15 units, a transfer of any amount, successful or not, never takes
  money a wallet has locked or does not have: solvency before gives solvency after.\<close>

theorem send_solvent:
  assumes "wallet_keys s" "percent_only (rule_in s TransferFee)"
    "mf \<Longrightarrow> half_percent (rule_in s Merchant)"
    and "solvent s" "\<And>w. w \<in> set (wallets s) \<Longrightarrow> w_balance w \<le> MAXU"
  shows "solvent (snd (sendFunds X u dto mf s))"
proof -
  have f: "fees_percent s mf" using assms(2,3) by (simp add: fees_percent_def half_percent_def)
  show ?thesis
  proof (rule wpD_snd, rule wp_mono[OF sendFunds_moved[OF assms(1) f]])
    fix e t assume "untouched s t"
    with assms(4) show "solvent t" by (simp add: untouched_def solvent_def)
  qed (use sent_solvent[OF _ assms(1,4) assms(3,5)] in blast)
qed

theorem send_solvent_witness:
  "solvent (snd (sendFunds sample_ext 1 (sample_send (num 4000000000)) True sample))"
  by (rule send_solvent)
    (simp_all add: sample_keys sample_percent_only sample_half_percent, auto simp: solvent_def sample_defs available_def MAXU_def)

lemma send_tx_error: "wp (send_tx X u a mf to) (\<lambda>_ _. True) (\<lambda>_. untouched s) s"
  unfolding send_tx_def wp_transaction by (rule wp_mono[OF wp_True]) (simp_all add: untouched_def)

lemma sendFunds_error: "wp (sendFunds X u dto mf) (\<lambda>_ _. True) (\<lambda>_. untouched s) s"
proof -
  have tx: "wp (send_tx X u a mf to) (\<lambda>_ _. True) (\<lambda>_. untouched s)
      (s\<lparr>users := pins_of u n (users s), biometrics := bs\<rparr>)" for a to n bs
    by (rule wp_mono[OF send_tx_error]) (simp_all add: untouched_def)
  have q: "wp (send_announce u r) (\<lambda>_ _. True) (\<lambda>_. untouched s) t" for r t
    by (rule wp_quiet[OF quiet_send_announce]) simp
  show ?thesis unfolding sendFunds_def 
    by (simp add: wp_thn wp_if wp_throw, intro conjI impI, simp add: untouched_def)
      (rule wp_send_authorize, unfold wp_bnd wp_thn wp_ret, rule wp_send_recipient,
        rule wp_mono[OF tx], rule q, simp_all add: untouched_def)
qed

text \<open>C10: A transfer that throws leaves wallets, ledger and transactions as they
  were.\<close>

theorem send_failure_frame:
  assumes "sendFunds X u dto mf s = (Inl e, t)"
  shows "wallets t = wallets s \<and> ledger t = ledger s \<and> txns t = txns s"
  using wpD_err[OF sendFunds_error assms] by (simp add: untouched_def)

theorem send_failure_frame_witness:
  "\<exists>t. sendFunds sample_ext 1 (sample_send (num (- 5))) False sample = (Inl (BadRequest ''Amount must be greater than zero''), t)
    \<and> wallets t = wallets sample"
proof -
  have "sendFunds sample_ext 1 (sample_send (num (- 5))) False sample
      = (Inl (BadRequest ''Amount must be greater than zero''), sample)"
    by (simp add: sendFunds_def sample_send_def throw_def)
  with send_failure_frame[OF this] show ?thesis by blast
qed

lemma num_40: "num 4000000000 = 40" by (simp add: num_def)

lemma sample_check: "send_check sample_ext 1 40 False 12 sample =
  (Inr \<lparr>sp_sender = sample_wallet 11 1 50000000000, sp_receiver = 12, sp_amount = 40, sp_fee = 0, sp_merchant_fee = 0\<rparr>, sample)"
  by (simp add: send_check_def bnd_def gets_def active_wallet_def sample_tables sample_wallet_def
     MAX_SINGLE_TX_def sent_today_def MAX_DAILY_def sample_ruleFor ret_def sample_free_transfer Let_def sp_total_out_def recent_duplicate_def num_def)

lemma sample_authorize: "send_authorize sample_ext 1 (sample_send a) sample = (Inr (), sample)"
  by (simp add: send_authorize_def sample_send_def truthy_def verifyPin_def bnd_def thn_def gets_def
    user_by_id_def user_update_def modify_def sample_defs MAX_PIN_ATTEMPTS_def Let_def)

lemma sample_recipient: "send_recipient ''bob'' sample = (Inr (Some 2, 12), sample)"
  by (simp add: send_recipient_def bnd_def gets_def ret_def sample_defs active_wallet_def)

lemma sample_tx: "wp (send_tx sample_ext 1 40 False (Some 2, 12)) (\<lambda>_ _. True) (\<lambda>_ _. False) sample"
  unfolding send_tx_def wp_transaction wp_bnd wp_def[of "send_check _ _ _ _ _"]
  by (simp add: sample_check[simplified] send_commit_def wp_simps wallet_by_id_def sample_tables sample_wallet_def
    send_fees_def txn_complete_def)

lemma sample_send_ok: "\<exists>r t. sendFunds sample_ext 1 (sample_send 40) False sample = (Inr r, t)"
proof -
  have q: "wp (send_announce u r) (\<lambda>_ _. True) (\<lambda>_ _. False) t" for u r t
    by (rule wp_quiet[OF quiet_send_announce]) simp
  have rest: "wp (bnd (send_recipient ''bob'') (\<lambda>to. bnd (send_tx sample_ext 1 40 False to)
      (\<lambda>r. thn (send_announce 1 r) (ret r)))) (\<lambda>_ _. True) (\<lambda>_ _. False) sample"
    unfolding wp_bnd wp_def[of "send_recipient _"] sample_recipient
    by simp (rule wp_mono[OF sample_tx[simplified]], unfold wp_thn wp_ret, rule q, simp)
  then have "wp (sendFunds sample_ext 1 (sample_send 40) False) (\<lambda>_ _. True) (\<lambda>_ _. False) sample"
    unfolding sendFunds_def wp_thn wp_def[of "send_authorize _ _ _"] sample_authorize
    by (simp add: sample_send_def wp_thn wp_def[of "send_authorize _ _ _"] sample_authorize[unfolded sample_send_def, simplified])
  then show ?thesis by (auto dest: wp_ok)
qed
lemma MAX_DAILY_num: "MAX_DAILY = num (5 * 10 ^ 13)"
  by (simp add: MAX_DAILY_def num_def fl_of_int[of 500000, simplified])

lemma near_sum_le:
  assumes "0 \<le> x" "x \<le> MAXU" "0 \<le> y" "y \<le> MAXU" "x + y \<le> MAXU" "0 \<le> z" "z \<le> MAXU"
    "fl (num x + num y) \<le> num z"
  shows "x + y \<le> z"
proof (rule ccontr)
  assume "\<not> x + y \<le> z"
  have out: "near (ulp + ulp + ulp) (fl (num x + num y)) (x + y)"
    by (rule js.near_plus[OF near_num near_num]) (use assms in \<open>auto simp: ulp_def\<close>)
  have z: "near ulp (num z) z" using assms by (intro near_num) simp
  have "of_int z + 1 \<le> (of_int (x + y) :: rat)" using \<open>\<not> x + y \<le> z\<close> by linarith
  moreover have "fl (num x + num y) * 10 ^ 8 \<le> num z * 10 ^ 8"
    using assms(8) by (rule mult_right_mono) simp
  ultimately show False using out z unfolding near_def ulp_def abs_le_iff by linarith
qed

lemma sent_today_logged:
  assumes "logged s i j k t" "\<And>x. x \<in> set (txns s) \<Longrightarrow> t_id x < seq s" "day_start X (now s) \<le> now s"
  shows "sent_today X t i = sent_today X s i + k"
proof -
  have same: "upd_row t_id (seq s) f (txns s) = txns s" for f
    by (rule upd_row_absent) (use assms(2) in force)
  obtain x where x: "txns t = txns s @ [x]" "now t = now s" "t_sender x = Some i" "t_type x = Transfer"
      "t_status x = Completed" "t_amount x = k" "t_created x = now s"
    using assms(1) unfolding logged_def same by blast
  then show ?thesis using assms(3) by (simp add: sent_today_def)
qed

text \<open>C9: With unique wallet ids, percentage fees, transaction ids below the sequence, a day
  that has started and a volume between zero and 10^14 units, a successful transfer of any amount
  raises the sender's volume of the day by exactly its amount as stored (rounded to 1e-8 FARM) and
  never past 500,000 FARM.\<close>

theorem send_daily_cap:
  assumes "wallet_keys s" "percent_only (rule_in s TransferFee)"
    "mf \<Longrightarrow> percent_only (rule_in s Merchant)"
    and "\<And>x. x \<in> set (txns s) \<Longrightarrow> t_id x < seq s" "day_start X (now s) \<le> now s"
    and "active_wallet s u = Some w" "0 \<le> sent_today X s (w_id w)" "sent_today X s (w_id w) \<le> 10 ^ 14"
    and run: "sendFunds X u dto mf s = (Inr r, t)"
  shows "sent_today X t (w_id w) = sent_today X s (w_id w) + to_units (sd_amount dto)
    \<and> sent_today X t (w_id w) \<le> 5 * 10 ^ 13"
proof -
  let ?a = "sd_amount dto"
  have f: "fees_percent s mf" using assms(2,3) by (simp add: fees_percent_def)
  obtain f' m to where t: "moved X s u ?a f' m w to t"
    using wpD_ok[OF sendFunds_moved[OF assms(1) f] run] assms(6)
    by (auto simp: sent_to_def moved_outcome_def moved_def)
  then have "sent_today X s (w_id w) + to_units ?a \<le> 5 * 10 ^ 13"
    by (intro volume_le assms(7,8)) (simp_all add: moved_def send_range_def MAX_DAILY_num)
  moreover have "logged s (w_id w) to (to_units ?a) t" using t by (simp add: moved_def committed_def)
  ultimately show ?thesis using sent_today_logged[OF _ assms(4,5)] by simp
qed

section \<open>The cached balance\<close>

lemma quiet_clears:
  "wp (send_announce u r) (\<lambda>_ t. cacheGet t (KWallet u) = None
     \<and> (\<forall>v. sr_receiver_user r = Some v \<longrightarrow> cacheGet t (KWallet v) = None)) E s"
  unfolding send_announce_def
  by (cases "sr_receiver_user r"; cases "cache_up s") (simp_all add: wp_simps cacheGet_def history_of_def)

lemma sendFunds_clears:
  "wp (sendFunds X u dto mf) (\<lambda>r t. cacheGet t (KWallet u) = None
     \<and> (\<forall>v. sr_receiver_user r = Some v \<longrightarrow> cacheGet t (KWallet v) = None)) (\<lambda>_ _. True) s"
  unfolding sendFunds_def wp_if wp_thn wp_bnd wp_throw wp_ret
  by (auto intro!: wp_mono[OF wp_True] quiet_clears)

theorem send_balance_fresh:
  assumes "sendFunds X u dto mf s = (Inr r, t)" "v = u \<or> sr_receiver_user r = Some v"
  shows "fst (getMyWallet v t) = (case active_wallet t v of
      None \<Rightarrow> Inl (NotFound ''Wallet not found'') | Some w \<Rightarrow> Inr (wallet_payload_of w))"
proof -
  have "cacheGet t (KWallet v) = None" using wpD_ok[OF sendFunds_clears assms(1)] assms(2) by auto
  then show ?thesis
    by (simp add: getMyWallet_def bnd_def gets_def thn_def cacheSet_def modify_def ret_def throw_def
        split: option.split)
qed

section \<open>History\<close>

definition visible_rows :: "'a core_scheme \<Rightarrow> nat \<Rightarrow> txn_type option \<Rightarrow> txn_status option \<Rightarrow> txn list" where
  "visible_rows s wid ty st = filter (\<lambda>t. (t_sender t = Some wid \<or> t_receiver t = Some wid)
     \<and> t_status t \<notin> set HIDDEN_TRANSACTION_HISTORY_STATUSES
     \<and> (case ty of None \<Rightarrow> True | Some y \<Rightarrow> t_type t = y)
     \<and> (case st of None \<Rightarrow> True | Some y \<Rightarrow> t_status t = y)) (txns s)"

lemma visible_completed: "x \<in> set (visible_rows s wid ty st) \<Longrightarrow> x \<in> set (txns s) \<and> t_status x = Completed
    \<and> (t_sender x = Some wid \<or> t_receiver x = Some wid)"
  by (cases "t_status x") (auto simp: visible_rows_def HIDDEN_TRANSACTION_HISTORY_STATUSES_def)

lemma page_of_subset: "set (page_of p xs) \<subseteq> set xs"
  unfolding page_of_def by (auto dest!: in_set_takeD in_set_dropD)

lemma page_of_length: "length (page_of (paginationParams pg lm) xs) \<le> 100"
proof -
  have "nat (pg_take (paginationParams pg lm)) \<le> 100" by (simp add: paginationParams_def Let_def nat_le_iff)
  then show ?thesis by (simp add: page_of_def)
qed

theorem history_rows:
  assumes run: "getTransactions u pg lm ty st s = (Inr (items, m), t)"
    and cold: "cacheGet s (KTransactions u (pg_page (paginationParams pg lm))
        (pg_limit (paginationParams pg lm)) ty st) = None"
    and w: "find (\<lambda>w. w_user w = Some u) (wallets s) = Some w"
  shows "length items \<le> 100 \<and> (\<forall>h\<in>set items. hi_txn h \<in> set (txns s) \<and> t_status (hi_txn h) = Completed
    \<and> (t_sender (hi_txn h) = Some (w_id w) \<or> t_receiver (hi_txn h) = Some (w_id w))
    \<and> hi_outgoing h = (t_sender (hi_txn h) = Some (w_id w)))"
proof -
  let ?page = "page_of (paginationParams pg lm) (sort_key (\<lambda>t. - t_created t) (visible_rows s (w_id w) ty st))"
  have i: "items = map (\<lambda>t. \<lparr>hi_txn = t, hi_outgoing = (t_sender t = Some (w_id w))\<rparr>) ?page"
    using run cold w unfolding visible_rows_def
    by (simp add: getTransactions_def bnd_def gets_def thn_def cacheSet_def modify_def ret_def Let_def)
  have "set ?page \<subseteq> set (visible_rows s (w_id w) ty st)"
    using page_of_subset by (metis set_sort)
  then show ?thesis unfolding i using page_of_length visible_completed by fastforce
qed

theorem send_books_witness:
  "\<exists>r t es. sendFunds sample_ext 1 (sample_send 40) False sample = (Inr r, t)
    \<and> accounts t = transfer_books 11 12 (platform sample) 4000000000
        (transfer_fee sample 4000000000) (merchant_cut sample False 4000000000) (accounts sample)
    \<and> ledger t = es \<and> map entry es = [(Some 100, 11, Debit, 4000000000), (Some 100, 12, Credit, 4000000000)]"
proof -
  obtain r t where run: "sendFunds sample_ext 1 (sample_send 40) False sample = (Inr r, t)"
    using sample_send_ok by blast
  have a: "sd_amount (sample_send 40) = num 4000000000" by (simp add: sample_send_def num_40)
  have w: "active_wallet sample 1 = Some (sample_wallet 11 1 50000000000)" "w_id (sample_wallet 11 1 50000000000) = 11"
    by (simp_all add: active_wallet_def sample_tables sample_wallet_def)
  have r: "recipient_of (users sample) (wallets sample) (sd_recipient (sample_send 40)) = Some 12"
    by (simp add: recipient_of_def sample_send_def sample_defs)
  have f: "transfer_fee sample 4000000000 = 0" "merchant_cut sample False 4000000000 = 0"
    by (simp_all add: transfer_fee_def merchant_cut_def sample_free_units)
  from send_books[OF sample_keys sample_percent_only sample_percent_only a run] run w r f
  show ?thesis by (auto simp: sample_tables transfer_entries_def fee_entry_def)
qed

theorem send_daily_cap_witness:
  "\<exists>r t. sendFunds sample_ext 1 (sample_send 40) False sample = (Inr r, t)
    \<and> sent_today sample_ext t 11 \<le> 5 * 10 ^ 13"
proof -
  obtain r t where run: "sendFunds sample_ext 1 (sample_send 40) False sample = (Inr r, t)"
    using sample_send_ok by blast
  have w: "active_wallet sample 1 = Some (sample_wallet 11 1 50000000000)"
    by (simp add: active_wallet_def sample_tables sample_wallet_def)
  have "sent_today sample_ext t (w_id (sample_wallet 11 1 50000000000)) \<le> 5 * 10 ^ 13"
    using send_daily_cap[OF sample_keys sample_percent_only sample_percent_only _ _ w _ _ run]
    by (simp add: sample_tables sent_today_def sample_ext_def)
  with run show ?thesis by (simp add: sample_wallet_def)
qed

theorem send_balance_fresh_witness:
  "\<exists>r t. sendFunds sample_ext 1 (sample_send 40) False sample = (Inr r, t)
    \<and> fst (getMyWallet 1 t) = (case active_wallet t 1 of
      None \<Rightarrow> Inl (NotFound ''Wallet not found'') | Some w \<Rightarrow> Inr (wallet_payload_of w))"
proof -
  obtain r t where run: "sendFunds sample_ext 1 (sample_send 40) False sample = (Inr r, t)"
    using sample_send_ok by blast
  with Transfers.send_balance_fresh[OF run, of 1] show ?thesis by blast
qed

definition sample_sent :: core where
  "sample_sent = sample\<lparr>txns := [\<lparr>t_id = 1, t_ref = 1, t_sender = Some 11, t_receiver = Some 12, t_type = Transfer,
     t_status = Completed, t_amount = 5, t_fee = 0, t_net = 5, t_created = 0, t_meta = []\<rparr>,
     \<lparr>t_id = 2, t_ref = 2, t_sender = Some 11, t_receiver = Some 12, t_type = Transfer,
     t_status = Failed, t_amount = 5, t_fee = 0, t_net = 5, t_created = 0, t_meta = []\<rparr>]\<rparr>"

theorem history_rows_witness:
  "\<exists>items m t. getTransactions 2 None None None None sample_sent = (Inr (items, m), t) \<and> length items = 1
    \<and> (\<forall>h\<in>set items. t_status (hi_txn h) = Completed)"
proof -
  have w: "find (\<lambda>w. w_user w = Some 2) (wallets sample_sent) = Some (sample_wallet 12 2 20000000000)"
    by (simp add: sample_sent_def sample_tables sample_wallet_def)
  have c: "cacheGet sample_sent k = None" for k by (simp add: sample_sent_def sample_def cacheGet_def)
  have "getTransactions 2 None None None None sample_sent = (let
      items = map (\<lambda>t. \<lparr>hi_txn = t, hi_outgoing = (t_sender t = Some 12)\<rparr>)
        (page_of (paginationParams None None) (sort_key (\<lambda>t. - t_created t) (visible_rows sample_sent 12 None None)));
      m = paginate (int (length (visible_rows sample_sent 12 None None))) 1 20
    in (Inr (items, m), snd (cacheSet (KTransactions 2 1 20 None None) (VHistory items m) 45 sample_sent)))"
    using w c by (simp add: getTransactions_def bnd_def gets_def thn_def cacheSet_def modify_def ret_def Let_def
        visible_rows_def paginationParams_def int_or_def sample_wallet_def)
  then obtain items m t where run: "getTransactions 2 None None None None sample_sent = (Inr (items, m), t)"
      and i: "items = map (\<lambda>t. \<lparr>hi_txn = t, hi_outgoing = (t_sender t = Some 12)\<rparr>)
        (page_of (paginationParams None None) (sort_key (\<lambda>t. - t_created t) (visible_rows sample_sent 12 None None)))"
    by (auto simp: Let_def)
  have "length items = 1" unfolding i
    by (simp add: sample_sent_def visible_rows_def page_of_def paginationParams_def int_or_def
        HIDDEN_TRANSACTION_HISTORY_STATUSES_def)
  with history_rows[OF run c w] run show ?thesis by blast
qed
end
