(* ===== verification/Escrow.thy ===== *)
theory Escrow
  imports Transfers
begin

text \<open>
  Escrow contracts: src/escrow/escrow.service.ts and the dispute resolution of
  src/admin/admin.service.ts.  The buyer's money stays in the buyer's wallet as a locked part of
  the balance until it is released to the seller, in full or in parts, or refunded.  Every
  \<open>prisma.$transaction\<close> of the code is one \<open>transaction\<close> here.  \<open>executeRelease\<close> and
  \<open>executeRefund\<close> work on a row read earlier, possibly stale: the row is their argument.
  What these operations promise is in theory Escrow_Safety.
\<close>

section \<open>Tables\<close>

datatype escrow_status = EPending | EActive | ECompleted | EDisputed | ECancelled | ERefunded

record evidence =
  ev_reason :: string
  ev_by :: nat
  ev_attachment :: "(string \<times> string option) option"

record escrow =
  e_id :: nat
  e_ref :: nat
  e_buyer :: "nat option"
  e_seller :: "nat option"
  e_arbiter :: "nat option"
  e_buyer_wallet :: "nat option"
  e_seller_wallet :: "nat option"
  e_amount :: int
  e_fee :: int
  e_status :: escrow_status
  e_title :: string
  e_description :: "string option"
  e_evidence :: "evidence option"
  e_funded_at :: "int option"
  e_released_at :: "int option"
  e_disputed_at :: "int option"
  e_resolved_at :: "int option"
  e_auto_release_at :: "int option"
  e_note :: "string option"
  e_released :: int
  e_created :: int

record escrow_message =
  em_escrow :: nat
  em_sender :: nat
  em_text :: string
  em_attachment :: "string option"

record escrow_db = core +
  escrows :: "escrow list"
  messages :: "escrow_message list"
  audit :: "(nat \<times> string \<times> nat) list"

definition escrow_by_id :: "'a escrow_db_scheme \<Rightarrow> nat \<Rightarrow> escrow option" where
  "escrow_by_id s i = find_row e_id i (escrows s)"

definition escrow_update :: "nat \<Rightarrow> (escrow \<Rightarrow> escrow) \<Rightarrow> ('a escrow_db_scheme, unit) op" where
  "escrow_update i f = modify (\<lambda>s. s\<lparr>escrows := upd_row e_id i f (escrows s)\<rparr>)"

text \<open>\<open>updateMany({ where: { id, status: { in: sts } }, data })\<close>: the number of rows changed.\<close>

definition escrow_claim ::
  "nat \<Rightarrow> escrow_status list \<Rightarrow> (escrow \<Rightarrow> escrow) \<Rightarrow> ('a escrow_db_scheme, nat) op" where
  "escrow_claim i sts f = (\<lambda>s. case escrow_by_id s i of
     Some e \<Rightarrow> if e_status e \<in> set sts
       then (Inr 1, s\<lparr>escrows := upd_row e_id i f (escrows s)\<rparr>) else (Inr 0, s)
   | None \<Rightarrow> (Inr 0, s))"

definition getEscrowOrFail :: "nat \<Rightarrow> ('a escrow_db_scheme, escrow) op" where
  "getEscrowOrFail i = bnd (gets (\<lambda>s. escrow_by_id s i)) (or_throw (NotFound ''Escrow contract not found''))"

definition remainingAmount :: "escrow \<Rightarrow> rat" where
  "remainingAmount e = (let left = fl (num (e_amount e) - num (e_released e)) in
     if left > 0 then toFixed 8 left else 0)"

section \<open>Platform credit\<close>

definition getSuperadminWalletInTx :: "('a core_scheme, wallet) op" where
  "getSuperadminWalletInTx =
     bnd (gets platform_wallet) (or_throw (NotFound ''Superadmin wallet not found''))"

definition creditSuperadminWalletInTx :: "rat \<Rightarrow> ('a core_scheme, unit) op" where
  "creditSuperadminWalletInTx amount =
     (if amount \<le> 0 then ret ()
      else bnd getSuperadminWalletInTx (\<lambda>w.
        thn (wallet_update (w_id w) (inc_balance amount))
          (ledger_create \<lparr>l_txn = None, l_wallet = w_id w, l_type = Credit, l_amount = to_units amount,
             l_before = None, l_after = None, l_category = None\<rparr>)))"

text \<open>\<open>if (fee > 0)\<close> in front of the credit.\<close>

definition charge_platform :: "rat \<Rightarrow> ('a core_scheme, unit) op" where
  "charge_platform charge = (if charge > 0 then creditSuperadminWalletInTx charge else ret ())"

section \<open>Authorization\<close>

record auth_dto =
  ad_pin :: "string option"
  ad_biometric :: bool
  ad_fingerprint :: "string option"

definition escrow_authorize :: "ext \<Rightarrow> nat \<Rightarrow> auth_dto \<Rightarrow> ('a core_scheme, unit) op" where
  "escrow_authorize X uid dto =
     (if ad_biometric dto then
        if \<not> truthy (ad_fingerprint dto)
        then throw (BadRequest ''Device fingerprint required for biometric authorization'')
        else bnd (verifyDevice X uid (the (ad_fingerprint dto))) (\<lambda>v.
          if \<not> ds_trusted v then throw (BadRequest ''Biometric device verification failed'')
          else ret ())
      else if \<not> truthy (ad_pin dto) then throw (BadRequest ''Transaction PIN is required'')
      else verifyPin X uid (the (ad_pin dto)))"

section \<open>Creating\<close>

text \<open>\<open>amount\<close> is \<open>None\<close> when the request's number is not finite.\<close>

record escrow_dto =
  cd_seller :: "string option"
  cd_amount :: "rat option"
  cd_title :: "string option"
  cd_description :: "string option"
  cd_days :: "int option"
  cd_auth :: auth_dto

definition trimmed :: "string option \<Rightarrow> string" where
  "trimmed x = (case x of None \<Rightarrow> [] | Some t \<Rightarrow> trim t)"

definition create_validate :: "escrow_dto \<Rightarrow> err option" where
  "create_validate dto =
     (if (case cd_amount dto of None \<Rightarrow> True | Some a \<Rightarrow> a \<le> 0)
      then Some (BadRequest ''Amount must be a positive number'')
      else if trimmed (cd_seller dto) = []
      then Some (BadRequest ''Seller username or phone number is required'')
      else if trimmed (cd_title dto) = [] then Some (BadRequest ''Escrow title is required'')
      else if length (trimmed (cd_title dto)) > 255
      then Some (BadRequest ''Escrow title must be 255 characters or fewer'')
      else if (case cd_days dto of None \<Rightarrow> False | Some d \<Rightarrow> d < 1 \<or> d > 90)
      then Some (BadRequest ''Auto-release must be between 1 and 90 days'')
      else None)"

definition create_parties ::
  "nat \<Rightarrow> string \<Rightarrow> ('a core_scheme, wallet \<times> user \<times> wallet) op" where
  "create_parties buyer_id seller_identifier =
     bnd (gets (\<lambda>s. user_by_id s buyer_id)) (\<lambda>buyer.
     bnd (gets (\<lambda>s. Option.bind buyer (\<lambda>b. active_wallet s (u_id b)))) (\<lambda>bw. case bw of
       None \<Rightarrow> throw (NotFound ''Buyer wallet not found'')
     | Some bw \<Rightarrow>
     if w_frozen bw then throw (BadRequest ''Buyer wallet is frozen and cannot fund an escrow'')
     else bnd (gets (\<lambda>s. find (\<lambda>u. (u_username u = seller_identifier \<or> u_phone u = seller_identifier)
            \<and> \<not> u_deleted u) (users s))) (\<lambda>seller.
     bnd (gets (\<lambda>s. Option.bind seller (\<lambda>b. active_wallet s (u_id b)))) (\<lambda>sw. case sw of
       None \<Rightarrow> throw (NotFound ''Seller not found'')
     | Some sw \<Rightarrow>
     if u_id (the seller) = buyer_id then throw (BadRequest ''Cannot create escrow with yourself'')
     else ret (bw, the seller, sw)))))"

definition escrow_duplicate :: "'a escrow_db_scheme \<Rightarrow> nat \<Rightarrow> nat \<Rightarrow> rat \<Rightarrow> bool" where
  "escrow_duplicate s buyer seller amount \<longleftrightarrow> list_ex (\<lambda>e. e_buyer e = Some buyer
     \<and> e_seller e = Some seller \<and> of_int (e_amount e) = sql amount \<and> e_created e \<ge> now s - 60000) (escrows s)"

definition new_contract ::
  "nat \<Rightarrow> int \<Rightarrow> nat \<Rightarrow> escrow_dto \<Rightarrow> wallet \<Rightarrow> user \<Rightarrow> wallet \<Rightarrow> rat \<Rightarrow> rat \<Rightarrow> int \<Rightarrow> escrow" where
  "new_contract i t buyer_id dto bw seller sw amount charge auto_release_at =
     \<lparr>e_id = i, e_ref = i, e_buyer = Some buyer_id, e_seller = Some (u_id seller), e_arbiter = None,
      e_buyer_wallet = Some (w_id bw), e_seller_wallet = Some (w_id sw), e_amount = to_units amount,
      e_fee = to_units charge, e_status = EPending, e_title = trimmed (cd_title dto),
      e_description = cd_description dto, e_evidence = None, e_funded_at = None, e_released_at = None,
      e_disputed_at = None, e_resolved_at = None, e_auto_release_at = Some auto_release_at,
      e_note = None, e_released = 0, e_created = t\<rparr>"

definition fund_contract :: "int \<Rightarrow> escrow \<Rightarrow> escrow" where
  "fund_contract t e = e\<lparr>e_status := EActive, e_funded_at := Some t\<rparr>"

definition lock_funds :: "rat \<Rightarrow> rat \<Rightarrow> wallet \<Rightarrow> wallet" where
  "lock_funds charge amount w = inc_locked amount (dec_balance charge w)"

definition escrow_create_tx ::
  "nat \<Rightarrow> escrow_dto \<Rightarrow> wallet \<Rightarrow> user \<Rightarrow> wallet \<Rightarrow> rat \<Rightarrow> rat \<Rightarrow> int
    \<Rightarrow> ('a escrow_db_scheme, escrow \<times> rat \<times> nat) op" where
  "escrow_create_tx buyer_id dto bw seller sw amount charge auto_release_at = transaction
     (bnd (gets (\<lambda>s. wallet_by_id s (w_id bw))) (\<lambda>locked. case locked of
        None \<Rightarrow> throw (NotFound ''Buyer wallet not found'')
      | Some lw \<Rightarrow>
        if fl (num (w_balance lw) - num (w_locked lw)) < fl (amount + charge)
        then throw (BadRequest ''Insufficient balance'')
        else bnd fresh (\<lambda>i. bnd (gets now) (\<lambda>t.
          let c = new_contract i t buyer_id dto bw seller sw amount charge auto_release_at in
          thn (modify (\<lambda>s. s\<lparr>escrows := escrows s @ [c]\<rparr>))
          (bnd (wallet_update (w_id bw) (lock_funds charge amount)) (\<lambda>buyer_wallet.
           thn (escrow_update i (fund_contract t))
           (bnd (txn_create (\<lambda>j u. \<lparr>t_id = j, t_ref = j, t_sender = Some (w_id bw), t_receiver = None,
               t_type = EscrowLock, t_status = Completed, t_amount = to_units amount,
               t_fee = to_units charge, t_net = to_units amount, t_created = u,
               t_meta = [MUser buyer_id, MEscrow i]\<rparr>)) (\<lambda>tx.
            thn (charge_platform charge)
            (ret (fund_contract t c, num (w_balance buyer_wallet), t_ref tx))))))))))"

definition escrow_create_announce ::
  "nat \<Rightarrow> nat \<Rightarrow> escrow \<Rightarrow> rat \<Rightarrow> nat \<Rightarrow> ('a core_scheme, unit) op" where
  "escrow_create_announce buyer seller contract balance reference =
     thn (emit (BalanceUpdate buyer balance))
     (thn (emit (TransactionUpdate buyer reference))
     (thn (emit (Notification buyer ''escrow_created'' (Some (e_id contract))))
     (emit (Notification seller ''escrow_received'' (Some (e_id contract))))))"

definition escrow_create ::
  "ext \<Rightarrow> nat \<Rightarrow> escrow_dto \<Rightarrow> ('a escrow_db_scheme, escrow) op" where
  "escrow_create X buyer_id dto = (case create_validate dto of
     Some e \<Rightarrow> throw e
   | None \<Rightarrow> (let amount = the (cd_amount dto) in
     thn (escrow_authorize X buyer_id (cd_auth dto))
     (bnd (create_parties buyer_id (trimmed (cd_seller dto))) (\<lambda>(bw, seller, sw).
     bnd (gets (\<lambda>s. escrow_duplicate s buyer_id (u_id seller) amount)) (\<lambda>dup.
     if dup
     then throw (BadRequest ''You can only create one escrow with the same seller and amount once every minute'')
     else bnd (feeFor EscrowCreation amount 2) (\<lambda>fee.
     if fl (num (w_balance bw) - num (w_locked bw)) < fl (amount + fee)
     then throw (BadRequest ''Insufficient balance'')
     else bnd (gets (\<lambda>s. now s + (case cd_days dto of None \<Rightarrow> 7 | Some d \<Rightarrow> d) * 86400000)) (\<lambda>due.
     bnd (escrow_create_tx buyer_id dto bw seller sw amount fee due) (\<lambda>(contract, balance, reference).
     thn (escrow_create_announce buyer_id (u_id seller) contract balance reference)
     (ret contract)))))))))"

section \<open>Paying out\<close>

text \<open>\<open>resolution\<close> is the admin and the note when a dispute is resolved.\<close>

definition emit_to :: "nat option \<Rightarrow> (nat \<Rightarrow> event) \<Rightarrow> ('a core_scheme, unit) op" where
  "emit_to u f = (case u of None \<Rightarrow> ret () | Some i \<Rightarrow> emit (f i))"

definition wallet_update_opt :: "nat option \<Rightarrow> (wallet \<Rightarrow> wallet) \<Rightarrow> ('a core_scheme, wallet) op" where
  "wallet_update_opt i f = (case i of
     None \<Rightarrow> throw (Failure ''Argument id is missing'') | Some i \<Rightarrow> wallet_update i f)"

definition take_locked :: "rat \<Rightarrow> wallet \<Rightarrow> wallet" where
  "take_locked amount w = dec_balance amount (dec_locked amount w)"

definition complete_escrow :: "int \<Rightarrow> (nat \<times> string) option \<Rightarrow> escrow \<Rightarrow> escrow" where
  "complete_escrow t resolution e = (case resolution of
     None \<Rightarrow> e\<lparr>e_status := ECompleted, e_released_at := Some t\<rparr>
   | Some (admin, note) \<Rightarrow> e\<lparr>e_status := ECompleted, e_released_at := Some t, e_arbiter := Some admin,
       e_note := Some note, e_resolved_at := Some t\<rparr>)"

definition refund_escrow :: "int \<Rightarrow> (nat \<times> string) option \<Rightarrow> escrow \<Rightarrow> escrow" where
  "refund_escrow t resolution e = (case resolution of
     None \<Rightarrow> e\<lparr>e_status := ERefunded, e_resolved_at := Some t\<rparr>
   | Some (admin, note) \<Rightarrow> e\<lparr>e_status := ERefunded, e_resolved_at := Some t, e_arbiter := Some admin,
       e_note := Some note\<rparr>)"

definition claimable :: "(nat \<times> string) option \<Rightarrow> escrow_status" where
  "claimable resolution = (if resolution = None then EActive else EDisputed)"

definition no_longer :: "(nat \<times> string) option \<Rightarrow> err" where
  "no_longer resolution = (if resolution = None then BadRequest ''Escrow is no longer active''
     else BadRequest ''Escrow is no longer disputed'')"

definition simple_entry :: "nat option \<Rightarrow> nat \<Rightarrow> entry_type \<Rightarrow> rat \<Rightarrow> ledger_entry" where
  "simple_entry txn_id wid ty amount = \<lparr>l_txn = txn_id, l_wallet = wid, l_type = ty,
     l_amount = to_units amount, l_before = None, l_after = None, l_category = None\<rparr>"

text \<open>The money of a payout of \<open>amount\<close>, of which \<open>charge\<close> goes to the platform.\<close>

definition payout ::
  "escrow \<Rightarrow> rat \<Rightarrow> rat \<Rightarrow> rat \<Rightarrow> meta list \<Rightarrow> ('a core_scheme, rat \<times> rat \<times> nat) op" where
  "payout escrow amount charge to_seller metadata =
     bnd (wallet_update_opt (e_buyer_wallet escrow) (take_locked amount)) (\<lambda>bw.
     bnd (wallet_update_opt (e_seller_wallet escrow) (inc_balance to_seller)) (\<lambda>sw.
     bnd (txn_create (\<lambda>j u. \<lparr>t_id = j, t_ref = j, t_sender = Some (w_id bw), t_receiver = Some (w_id sw),
        t_type = EscrowRelease, t_status = Completed, t_amount = to_units amount,
        t_fee = to_units charge, t_net = to_units to_seller, t_created = u, t_meta = metadata\<rparr>)) (\<lambda>tx.
     thn (ledger_create (simple_entry (Some (t_id tx)) (w_id bw) Debit amount))
     (thn (ledger_create (simple_entry (Some (t_id tx)) (w_id sw) Credit to_seller))
     (thn (charge_platform charge)
     (ret (num (w_balance bw), num (w_balance sw), t_ref tx)))))))"

definition user_meta :: "escrow \<Rightarrow> meta list" where
  "user_meta e = (case e_buyer e of None \<Rightarrow> [] | Some u \<Rightarrow> [MUser u]) @ [MEscrow (e_id e)]"

definition release_tx ::
  "escrow \<Rightarrow> (nat \<times> string) option \<Rightarrow> fee_rule \<Rightarrow> ('a escrow_db_scheme, (rat \<times> rat \<times> nat) option) op" where
  "release_tx escrow resolution release_rule = transaction
     (bnd (gets now) (\<lambda>t.
      bnd (escrow_claim (e_id escrow) [claimable resolution] (complete_escrow t resolution)) (\<lambda>count.
      if count \<noteq> 1 then throw (no_longer resolution)
      else bnd (gets (\<lambda>s. escrow_by_id s (e_id escrow))) (\<lambda>row.
        let amount_locked = remainingAmount (case row of Some e \<Rightarrow> e | None \<Rightarrow> escrow);
            release_fee = computeFee release_rule amount_locked 2;
            to_seller = toFixed 8 (fl (amount_locked - release_fee)) in
        if amount_locked \<le> 0 then ret None
        else bnd (payout escrow amount_locked release_fee to_seller (user_meta escrow)) (\<lambda>r. ret (Some r))))))"

definition release_announce ::
  "escrow \<Rightarrow> (rat \<times> rat \<times> nat) option \<Rightarrow> ('a escrow_db_scheme, unit) op" where
  "release_announce escrow result = (case result of
     None \<Rightarrow> ret ()
   | Some (buyer_balance, seller_balance, reference) \<Rightarrow>
       thn (emit_to (e_buyer escrow) (\<lambda>u. BalanceUpdate u buyer_balance))
       (thn (emit_to (e_buyer escrow) (\<lambda>u. TransactionUpdate u reference))
       (thn (emit_to (e_seller escrow) (\<lambda>u. BalanceUpdate u seller_balance))
       (thn (emit_to (e_seller escrow) (\<lambda>u. TransactionUpdate u reference))
       (thn (emit_to (e_buyer escrow) (\<lambda>u. Notification u ''escrow_released'' (Some (e_id escrow))))
       (emit_to (e_seller escrow) (\<lambda>u. Notification u ''escrow_received'' (Some (e_id escrow)))))))))"

definition executeRelease ::
  "escrow \<Rightarrow> (nat \<times> string) option \<Rightarrow> ('a escrow_db_scheme, unit) op" where
  "executeRelease escrow resolution =
     (if e_buyer_wallet escrow = None \<or> e_seller_wallet escrow = None
      then throw (BadRequest ''Escrow is missing a buyer or seller wallet'')
      else if num (e_amount escrow) \<le> 0 then throw (BadRequest ''Escrow amount is invalid'')
      else bnd (ruleFor EscrowReleaseFee) (\<lambda>release_rule.
        bnd (release_tx escrow resolution release_rule) (release_announce escrow)))"

definition refund_tx ::
  "escrow \<Rightarrow> (nat \<times> string) option \<Rightarrow> ('a escrow_db_scheme, rat \<times> nat) op" where
  "refund_tx escrow resolution = transaction
     (bnd (gets now) (\<lambda>t.
      bnd (escrow_claim (e_id escrow) [claimable resolution] (refund_escrow t resolution)) (\<lambda>count.
      if count \<noteq> 1 then throw (no_longer resolution)
      else bnd (gets (\<lambda>s. escrow_by_id s (e_id escrow))) (\<lambda>row.
        let amount = remainingAmount (case row of Some e \<Rightarrow> e | None \<Rightarrow> escrow) in
        bnd (wallet_update_opt (e_buyer_wallet escrow) (dec_locked amount)) (\<lambda>w.
        bnd (txn_create (\<lambda>j u. \<lparr>t_id = j, t_ref = j, t_sender = None, t_receiver = Some (w_id w),
           t_type = EscrowRefund, t_status = Completed, t_amount = to_units amount, t_fee = 0,
           t_net = to_units amount, t_created = u, t_meta = user_meta escrow\<rparr>)) (\<lambda>tx.
        ret (num (w_balance w), t_ref tx)))))))"

definition refund_announce ::
  "escrow \<Rightarrow> (nat \<times> string) option \<Rightarrow> rat \<times> nat \<Rightarrow> ('a escrow_db_scheme, unit) op" where
  "refund_announce escrow resolution r =
     thn (emit_to (e_buyer escrow) (\<lambda>u. BalanceUpdate u (fst r)))
     (thn (emit_to (e_buyer escrow) (\<lambda>u. TransactionUpdate u (snd r)))
     (thn (emit_to (e_buyer escrow) (\<lambda>u. Notification u ''escrow_refunded'' (Some (e_id escrow))))
     (if resolution = None then ret ()
      else emit_to (e_seller escrow) (\<lambda>u. Notification u ''escrow_refunded'' (Some (e_id escrow))))))"

definition executeRefund ::
  "escrow \<Rightarrow> (nat \<times> string) option \<Rightarrow> ('a escrow_db_scheme, unit) op" where
  "executeRefund escrow resolution = bnd (refund_tx escrow resolution) (refund_announce escrow resolution)"

section \<open>Releasing\<close>

definition escrow_release ::
  "ext \<Rightarrow> nat \<Rightarrow> nat \<Rightarrow> auth_dto \<Rightarrow> ('a escrow_db_scheme, string) op" where
  "escrow_release X escrow_id buyer_id dto =
     bnd (getEscrowOrFail escrow_id) (\<lambda>escrow.
     if e_buyer escrow \<noteq> Some buyer_id then throw (Forbidden ''Only the buyer can release'')
     else if e_status escrow = ECompleted then ret ''Escrow has already been released''
     else if e_status escrow \<noteq> EActive then throw (BadRequest ''Cannot release escrow with this status'')
     else thn (escrow_authorize X buyer_id dto)
       (catch (thn (executeRelease escrow None) (ret ''Escrow released to seller''))
         (\<lambda>error. case error of
            BadRequest _ \<Rightarrow> bnd (getEscrowOrFail escrow_id) (\<lambda>latest.
              if e_buyer latest = Some buyer_id \<and> e_status latest = ECompleted
              then ret ''Escrow has already been released'' else throw error)
          | _ \<Rightarrow> throw error)))"

fun auto_release_each :: "escrow list \<Rightarrow> ('a escrow_db_scheme, nat) op" where
  "auto_release_each [] = ret 0"
| "auto_release_each (e # es) =
     bnd (catch (thn (executeRelease e None) (ret 1)) (\<lambda>_. ret 0)) (\<lambda>n.
     bnd (auto_release_each es) (\<lambda>m. ret (n + m)))"

definition processAutoReleases :: "('a escrow_db_scheme, nat) op" where
  "processAutoReleases = bnd (gets (\<lambda>s. filter (\<lambda>e. e_status e = EActive
     \<and> (case e_auto_release_at e of None \<Rightarrow> False | Some d \<Rightarrow> d \<le> now s)) (escrows s))) auto_release_each"

record partial_result =
  pr_reference :: nat
  pr_amount :: rat
  pr_fee :: rat
  pr_net :: rat
  pr_released :: rat
  pr_remaining :: rat
  pr_completed :: bool

text \<open>The guarded SQL update of \<open>released_amount\<close>: the updated row, if the guard holds.\<close>

definition claim_part :: "nat \<Rightarrow> rat \<Rightarrow> ('a escrow_db_scheme, escrow option) op" where
  "claim_part i part = (\<lambda>s. case escrow_by_id s i of
     Some e \<Rightarrow> if e_status e = EActive \<and> of_int (e_released e) + sql part \<le> of_int (e_amount e)
       then (Inr (Some (e\<lparr>e_released := dec_inc (e_released e) part\<rparr>)),
             s\<lparr>escrows := upd_row e_id i (\<lambda>e. e\<lparr>e_released := dec_inc (e_released e) part\<rparr>) (escrows s)\<rparr>)
       else (Inr None, s)
   | None \<Rightarrow> (Inr None, s))"

definition partial_tx ::
  "escrow \<Rightarrow> nat \<Rightarrow> rat \<Rightarrow> rat \<Rightarrow> rat \<Rightarrow> ('a escrow_db_scheme, escrow \<times> bool \<times> rat \<times> rat \<times> nat) op" where
  "partial_tx escrow buyer_id part charge to_seller = transaction
     (bnd (claim_part (e_id escrow) part) (\<lambda>row. case row of
        None \<Rightarrow> throw (BadRequest ''Escrow is no longer active or the amount exceeds what is still locked'')
      | Some e \<Rightarrow>
        let completed = (remainingAmount e \<le> 0) in
        bnd (gets now) (\<lambda>t.
        thn (if completed then escrow_update (e_id escrow) (complete_escrow t None) else ret ())
        (bnd (payout escrow part charge to_seller [MUser buyer_id, MEscrow (e_id escrow), MPartial])
          (\<lambda>(buyer_balance, seller_balance, reference).
            ret (e, completed, buyer_balance, seller_balance, reference))))))"

definition pay_part :: "escrow \<Rightarrow> nat \<Rightarrow> rat \<Rightarrow> ('a escrow_db_scheme, partial_result) op" where
  "pay_part escrow buyer_id part =
     bnd (feeFor EscrowReleaseFee part 2) (\<lambda>charge.
      let to_seller = toFixed 8 (fl (part - charge)) in
      bnd (partial_tx escrow buyer_id part charge to_seller)
        (\<lambda>(e, completed, buyer_balance, seller_balance, reference).
      thn (emit (BalanceUpdate buyer_id buyer_balance))
      (thn (emit_to (e_seller escrow) (\<lambda>u. BalanceUpdate u seller_balance))
      (thn (emit_to (e_seller escrow) (\<lambda>u. Notification u ''escrow_received'' (Some (e_id escrow))))
      (ret \<lparr>pr_reference = reference, pr_amount = part, pr_fee = charge, pr_net = to_seller,
            pr_released = num (e_released e), pr_remaining = remainingAmount e,
            pr_completed = completed\<rparr>)))))"

definition releasePartial ::
  "ext \<Rightarrow> nat \<Rightarrow> nat \<Rightarrow> rat option \<Rightarrow> string \<Rightarrow> ('a escrow_db_scheme, partial_result) op" where
  "releasePartial X escrow_id buyer_id amount pin = (case amount of
     None \<Rightarrow> throw (BadRequest ''Release amount must be positive'')
   | Some a \<Rightarrow> let part = toFixed 2 a in
     if part \<le> 0 then throw (BadRequest ''Release amount must be positive'')
     else bnd (getEscrowOrFail escrow_id) (\<lambda>escrow.
     if e_buyer escrow \<noteq> Some buyer_id then throw (Forbidden ''Only the buyer can release'')
     else if e_status escrow \<noteq> EActive then throw (BadRequest ''Cannot release escrow with this status'')
     else if e_buyer_wallet escrow = None \<or> e_seller_wallet escrow = None
     then throw (BadRequest ''Escrow is missing a buyer or seller wallet'')
     else thn (verifyPin X buyer_id pin) (pay_part escrow buyer_id part)))"

section \<open>Disputes\<close>

text \<open>The parts of a URL (protocol, host name, path) as the WHATWG parser gives them, and the file
  store of the evidence (\<open>None\<close>: not configured) are not code of the repository.\<close>

record evidence_store =
  url_parts :: "string \<Rightarrow> (string \<times> string \<times> string) option"
  upload_evidence :: "(string \<Rightarrow> string \<Rightarrow> nat \<Rightarrow> string) option"

record dispute_dto =
  dd_reason :: "string option"
  dd_base64 :: "string option"
  dd_mime :: "string option"
  dd_url :: "string option"

definition b64_alphabet :: string where
  "b64_alphabet = ''ABCDEFGHIJKLMNOPQRSTUVWXYZabcdefghijklmnopqrstuvwxyz0123456789+/''"

definition b64_char :: "char \<Rightarrow> bool" where
  "b64_char c \<longleftrightarrow> c \<in> set b64_alphabet"

definition b64_val :: "char \<Rightarrow> nat" where
  "b64_val c = length (takeWhile (\<lambda>d. d \<noteq> c) b64_alphabet)"

text \<open>Groups of four characters, the last one padded.\<close>

fun b64_shape :: "string \<Rightarrow> bool" where
  "b64_shape [] = True"
| "b64_shape (a # b # c # d # rest) = (b64_char a \<and> b64_char b \<and>
     (if b64_char c \<and> b64_char d then b64_shape rest
      else rest = [] \<and> d = CHR ''='' \<and> (b64_char c \<or> c = CHR ''='')))"
| "b64_shape _ = False"

fun b64_bytes :: "string \<Rightarrow> nat" where
  "b64_bytes (a # b # c # d # rest) =
     (if d = CHR ''='' then if c = CHR ''='' then 1 else 2 else 3 + b64_bytes rest)"
| "b64_bytes _ = 0"

text \<open>Encoding the decoded bytes gives the text back: no bits are set below the last byte.\<close>

fun b64_canonical :: "string \<Rightarrow> bool" where
  "b64_canonical (a # b # c # d # rest) =
     (if d = CHR ''='' then if c = CHR ''='' then b64_val b mod 16 = 0 else b64_val c mod 4 = 0
      else b64_canonical rest)"
| "b64_canonical _ = True"

definition evidence_types :: "string list" where
  "evidence_types = [''image/jpeg'', ''image/png'', ''image/webp'', ''image/gif'', ''image/heic'',
     ''image/heif'', ''video/mp4'', ''video/quicktime'', ''video/webm'', ''video/x-m4v'']"

definition uploadDisputeAttachment ::
  "evidence_store \<Rightarrow> nat \<Rightarrow> string \<Rightarrow> string \<Rightarrow> ('s, string) op" where
  "uploadDisputeAttachment S escrow_id mime data =
     (if mime \<notin> set evidence_types then throw (BadRequest ''Only photos and videos are supported'')
      else if \<not> b64_shape data then throw (BadRequest ''Invalid attachment data'')
      else if b64_bytes data = 0 \<or> b64_bytes data > 20 * 1024 * 1024 \<or> \<not> b64_canonical data
      then throw (BadRequest ''Attachments must be smaller than 20 MB'')
      else case upload_evidence S of
        None \<Rightarrow> throw (Failure ''Escrow evidence storage is not configured'')
      | Some up \<Rightarrow> ret (up mime data escrow_id))"

fun infix_at :: "string \<Rightarrow> string \<Rightarrow> bool" where
  "infix_at p [] = (p = [])"
| "infix_at p (c # s) = (take (length p) (c # s) = p \<or> infix_at p s)"

definition dispute_url_ok :: "evidence_store \<Rightarrow> string \<Rightarrow> string option \<Rightarrow> bool" where
  "dispute_url_ok S url mime = (case url_parts S url of
     None \<Rightarrow> False
   | Some (protocol, hostname, pathname) \<Rightarrow>
       truthy mime \<and> the mime \<in> {''image/jpeg'', ''image/png'', ''image/webp''}
       \<and> protocol = ''https:'' \<and> hostname = ''res.cloudinary.com'' \<and> infix_at ''/image/upload/'' pathname)"

definition dispute_validate :: "evidence_store \<Rightarrow> dispute_dto \<Rightarrow> err option" where
  "dispute_validate S dto =
     (if trimmed (dd_reason dto) = [] then Some (BadRequest ''Dispute reason is required'')
      else if length (trimmed (dd_reason dto)) > 2000
      then Some (BadRequest ''Dispute reason must be 2000 characters or fewer'')
      else if (if truthy (dd_url dto) then truthy (dd_base64 dto)
               else truthy (dd_base64 dto) \<noteq> truthy (dd_mime dto))
      then Some (BadRequest ''Provide either uploaded image URL or attachment data with its media type'')
      else if truthy (dd_url dto) \<and> \<not> dispute_url_ok S (the (dd_url dto)) (dd_mime dto)
      then Some (BadRequest ''Uploaded image URL is invalid'')
      else None)"

definition dispute_escrow :: "int \<Rightarrow> string \<Rightarrow> nat \<Rightarrow> string option \<Rightarrow> string option \<Rightarrow> escrow \<Rightarrow> escrow" where
  "dispute_escrow t reason by url mime e = e\<lparr>e_status := EDisputed, e_disputed_at := Some t,
     e_evidence := Some \<lparr>ev_reason = reason, ev_by = by,
       ev_attachment = (if truthy url then Some (the url, mime) else None)\<rparr>\<rparr>"

definition escrow_dispute ::
  "evidence_store \<Rightarrow> nat \<Rightarrow> nat \<Rightarrow> dispute_dto \<Rightarrow> ('a escrow_db_scheme, unit) op" where
  "escrow_dispute S escrow_id uid dto = (case dispute_validate S dto of
     Some e \<Rightarrow> throw e
   | None \<Rightarrow> (let reason = trimmed (dd_reason dto) in
     bnd (getEscrowOrFail escrow_id) (\<lambda>escrow.
     if e_buyer escrow \<noteq> Some uid \<and> e_seller escrow \<noteq> Some uid
     then throw (Forbidden ''Not a party to this escrow'')
     else if e_status escrow \<noteq> EActive then throw (BadRequest ''Can only dispute an active escrow'')
     else bnd (case dd_url dto of
            Some u \<Rightarrow> ret (Some u)
          | None \<Rightarrow> if truthy (dd_base64 dto)
              then bnd (uploadDisputeAttachment S escrow_id (the (dd_mime dto)) (the (dd_base64 dto))) (\<lambda>u. ret (Some u))
              else ret None) (\<lambda>url.
     let other = (if e_buyer escrow = Some uid then e_seller escrow else e_buyer escrow) in
     (case other of
        None \<Rightarrow> throw (BadRequest ''Escrow has no other party'')
      | Some other \<Rightarrow>
     thn (transaction
       (bnd (gets now) (\<lambda>t.
        bnd (escrow_claim escrow_id [EActive] (dispute_escrow t reason uid url (dd_mime dto))) (\<lambda>count.
        if count \<noteq> 1 then throw (BadRequest ''Can only dispute an active escrow'')
        else modify (\<lambda>s. s\<lparr>messages := messages s @ [\<lparr>em_escrow = escrow_id, em_sender = uid,
               em_text = ''DISPUTE RAISED: '' @ reason,
               em_attachment = (if truthy url then url else None)\<rparr>]\<rparr>)))))
     (thn (emit (Notification uid ''escrow_disputed'' (Some escrow_id)))
     (emit (Notification other ''escrow_disputed'' (Some escrow_id)))))))))"

definition resolveDispute ::
  "nat \<Rightarrow> nat \<Rightarrow> bool \<Rightarrow> string \<Rightarrow> ('a escrow_db_scheme, unit) op" where
  "resolveDispute escrow_id admin seller_wins note =
     bnd (gets (\<lambda>s. escrow_by_id s escrow_id)) (\<lambda>escrow. case escrow of
       None \<Rightarrow> throw (NotFound ''Escrow not found'')
     | Some e \<Rightarrow>
       if e_status e \<noteq> EDisputed then throw (BadRequest ''Only disputed escrows can be resolved'')
       else thn (if seller_wins then executeRelease e (Some (admin, note)) else executeRefund e (Some (admin, note)))
         (modify (\<lambda>s. s\<lparr>audit := audit s @ [(admin, ''RESOLVE_DISPUTE'', escrow_id)]\<rparr>)))"

section \<open>The rest\<close>

definition escrow_cancel :: "nat \<Rightarrow> nat \<Rightarrow> ('a escrow_db_scheme, unit) op" where
  "escrow_cancel escrow_id uid =
     bnd (getEscrowOrFail escrow_id) (\<lambda>escrow.
     if e_buyer escrow \<noteq> Some uid then throw (Forbidden ''Only buyer can cancel'')
     else if e_status escrow = EActive
     then throw (BadRequest ''Cannot cancel a funded escrow. Raise a dispute instead.'')
     else if e_status escrow \<noteq> EPending then throw (BadRequest ''Cannot cancel escrow with this status'')
     else thn (escrow_update escrow_id (\<lambda>e. e\<lparr>e_status := ECancelled\<rparr>))
       (case e_seller escrow of
          None \<Rightarrow> throw (BadRequest ''Escrow has no seller'')
        | Some u \<Rightarrow> emit (Notification u ''escrow_cancelled'' (Some escrow_id))))"

definition addMessage :: "nat \<Rightarrow> nat \<Rightarrow> string \<Rightarrow> ('a escrow_db_scheme, escrow_message) op" where
  "addMessage escrow_id sender message =
     bnd (getEscrowOrFail escrow_id) (\<lambda>escrow.
     if e_buyer escrow \<noteq> Some sender \<and> e_seller escrow \<noteq> Some sender
     then throw (Forbidden ''Not a party to this escrow'')
     else let m = \<lparr>em_escrow = escrow_id, em_sender = sender, em_text = message, em_attachment = None\<rparr> in
       thn (modify (\<lambda>s. s\<lparr>messages := messages s @ [m]\<rparr>)) (ret m))"

definition messages_of :: "'a escrow_db_scheme \<Rightarrow> nat \<Rightarrow> escrow_message list" where
  "messages_of s i = filter (\<lambda>m. em_escrow m = i) (messages s)"

definition escrow_list ::
  "nat \<Rightarrow> int option \<Rightarrow> int option \<Rightarrow> escrow_status option
    \<Rightarrow> ('a escrow_db_scheme, (escrow \<times> escrow_message list) list \<times> page_meta) op" where
  "escrow_list uid page limit st =
     (let p = paginationParams page limit in
      bnd (gets (\<lambda>s. filter (\<lambda>e. (e_buyer e = Some uid \<or> e_seller e = Some uid)
          \<and> (case st of None \<Rightarrow> True | Some y \<Rightarrow> e_status e = y)) (escrows s))) (\<lambda>rows.
      bnd (gets (\<lambda>s. map (\<lambda>e. (e, messages_of s (e_id e))) (page_of p (sort_key (\<lambda>e. - e_created e) rows)))) (\<lambda>items.
      ret (items, paginate (int (length rows)) (pg_page p) (pg_limit p)))))"

text \<open>The contract, its messages, and fee and reference of its release.\<close>

definition escrow_getOne ::
  "nat \<Rightarrow> nat \<Rightarrow> ('a escrow_db_scheme, escrow \<times> escrow_message list \<times> (rat \<times> nat) option) op" where
  "escrow_getOne escrow_id uid = bnd (gets (\<lambda>s. escrow_by_id s escrow_id)) (\<lambda>escrow. case escrow of
     None \<Rightarrow> throw (NotFound ''Escrow not found'')
   | Some e \<Rightarrow>
     if e_buyer e \<noteq> Some uid \<and> e_seller e \<noteq> Some uid then throw (Forbidden ''Access denied'')
     else bnd (gets (\<lambda>s. find (\<lambda>t. t_type t = EscrowRelease \<and> MEscrow escrow_id \<in> set (t_meta t)) (txns s))) (\<lambda>tx.
       bnd (gets (\<lambda>s. messages_of s escrow_id)) (\<lambda>ms.
       ret (e, ms, map_option (\<lambda>t. (num (t_fee t), t_ref t)) tx))))"

end
