(* ===== verification/Deals.thy ===== *)
theory Deals
  imports Accounts
begin

text \<open>
  The abstract escrow: what the contracts promise, without rows, requests or doubles.  A deal is
  an amount still locked in one account for another; \<open>deal_step\<close> is everything that may happen
  to the books and the deals.  By rule induction, every reachable state keeps the total, leaves no account
  in debt, and keeps locked at least what the open deals of an account hold; a closed deal never
  changes again.  Theory Escrow_Safety shows that the code refines it.
\<close>

section \<open>Deals\<close>

datatype deal_status = DPending | DActive | DDisputed | DCompleted | DRefunded | DCancelled

record deal =
  d_from :: "nat option"
  d_to :: "nat option"
  d_status :: deal_status
  d_left :: int

type_synonym deals = "nat \<rightharpoonup> deal"

definition open_deal :: "deal \<Rightarrow> bool" where
  "open_deal d \<longleftrightarrow> d_status d = DActive \<or> d_status d = DDisputed"

definition closed :: "deal_status \<Rightarrow> bool" where
  "closed st \<longleftrightarrow> st \<in> {DCompleted, DRefunded, DCancelled}"

text \<open>What the open deals hold in account \<open>w\<close>.\<close>

definition weight :: "nat \<Rightarrow> deal option \<Rightarrow> int" where
  "weight w x = (case x of None \<Rightarrow> 0 | Some d \<Rightarrow> if d_from d = Some w \<and> open_deal d then d_left d else 0)"

definition held :: "deals \<Rightarrow> nat \<Rightarrow> int" where
  "held D w = (\<Sum>i\<in>dom D. weight w (D i))"

section \<open>Steps\<close>

text \<open>\<open>p\<close> is the account of the platform.  \<open>move\<close> is a transfer of free money between accounts.\<close>

inductive deal_step :: "nat \<Rightarrow> books \<times> deals \<Rightarrow> books \<times> deals \<Rightarrow> bool" for p where
  fund: "D i = None \<Longrightarrow> 0 < k \<Longrightarrow> 0 \<le> f \<Longrightarrow> A w = Some (b, l) \<Longrightarrow> k + f \<le> b - l
    \<Longrightarrow> (f \<noteq> 0 \<Longrightarrow> p \<in> dom A)
    \<Longrightarrow> deal_step p (A, D) (post p f 0 (post w (- f) k A),
          D(i \<mapsto> \<lparr>d_from = Some w, d_to = v, d_status = DActive, d_left = k\<rparr>))"
| pay: "D i = Some d \<Longrightarrow> open_deal d \<Longrightarrow> d_from d = Some w \<Longrightarrow> d_to d = Some v
    \<Longrightarrow> w \<in> dom A \<Longrightarrow> v \<in> dom A \<Longrightarrow> 0 < r \<Longrightarrow> r \<le> d_left d \<Longrightarrow> 0 \<le> f \<Longrightarrow> f \<le> r
    \<Longrightarrow> (f \<noteq> 0 \<Longrightarrow> p \<in> dom A)
    \<Longrightarrow> (if r = d_left d then st = DCompleted else st = DActive \<and> d_status d = DActive)
    \<Longrightarrow> deal_step p (A, D) (post p f 0 (post v (r - f) 0 (post w (- r) (- r) A)),
          D(i \<mapsto> d\<lparr>d_status := st, d_left := d_left d - r\<rparr>))"
| close: "D i = Some d \<Longrightarrow> open_deal d \<Longrightarrow> d_left d = 0
    \<Longrightarrow> deal_step p (A, D) (A, D(i \<mapsto> d\<lparr>d_status := DCompleted\<rparr>))"
| refund: "D i = Some d \<Longrightarrow> open_deal d \<Longrightarrow> d_from d = Some w \<Longrightarrow> w \<in> dom A
    \<Longrightarrow> deal_step p (A, D) (post w 0 (- d_left d) A, D(i \<mapsto> d\<lparr>d_status := DRefunded, d_left := 0\<rparr>))"
| move: "A w = Some (b, l) \<Longrightarrow> v \<in> dom A \<Longrightarrow> 0 \<le> f \<Longrightarrow> 0 \<le> m \<Longrightarrow> m \<le> k \<Longrightarrow> k + f \<le> b - l
    \<Longrightarrow> (f \<noteq> 0 \<or> m \<noteq> 0 \<Longrightarrow> p \<in> dom A)
    \<Longrightarrow> deal_step p (A, D) (post p f 0 (post p m 0 (post v (k - m) 0 (post w (- (k + f)) 0 A))), D)"
| dispute: "D i = Some d \<Longrightarrow> d_status d = DActive
    \<Longrightarrow> deal_step p (A, D) (A, D(i \<mapsto> d\<lparr>d_status := DDisputed\<rparr>))"
| cancel: "D i = Some d \<Longrightarrow> d_status d = DPending
    \<Longrightarrow> deal_step p (A, D) (A, D(i \<mapsto> d\<lparr>d_status := DCancelled\<rparr>))"

inductive_cases deal_stepE: "deal_step p X Y"

abbreviation deal_steps :: "nat \<Rightarrow> books \<times> deals \<Rightarrow> books \<times> deals \<Rightarrow> bool" where
  "deal_steps p \<equiv> (deal_step p)\<^sup>*\<^sup>*"

section \<open>Invariants\<close>

definition deals_inv :: "books \<times> deals \<Rightarrow> bool" where
  "deals_inv X \<longleftrightarrow> (case X of (A, D) \<Rightarrow> finite (dom A) \<and> finite (dom D) \<and> ok A
     \<and> (\<forall>i d. D i = Some d \<longrightarrow> 0 \<le> d_left d)
     \<and> (\<forall>w b l. A w = Some (b, l) \<longrightarrow> held D w \<le> l))"

lemma held_update:
  assumes "finite (dom D)"
  shows "held (D(i \<mapsto> d)) w = held D w - weight w (D i) + weight w (Some d)"
proof (cases "i \<in> dom D")
  case True
  have rest: "(\<Sum>j\<in>dom D - {i}. weight w ((D(i \<mapsto> d)) j)) = (\<Sum>j\<in>dom D - {i}. weight w (D j))"
    by (rule sum.cong) auto
  have "dom (D(i \<mapsto> d)) = dom D" using True by auto
  then show ?thesis unfolding held_def using rest
    by (simp add: sum.remove[OF assms True] sum.remove[OF assms True, of "\<lambda>j. weight w ((D(i \<mapsto> d)) j)"])
next
  case False
  have rest: "(\<Sum>j\<in>dom D. weight w ((D(i \<mapsto> d)) j)) = (\<Sum>j\<in>dom D. weight w (D j))"
    using False by (intro sum.cong) auto
  have "dom (D(i \<mapsto> d)) = insert i (dom D)" by simp
  then show ?thesis unfolding held_def using False rest assms by (simp add: domIff weight_def)
qed

lemma weight_nonneg: "(\<And>d. x = Some d \<Longrightarrow> 0 \<le> d_left d) \<Longrightarrow> 0 \<le> weight w x"
  by (auto simp: weight_def split: option.split)

lemma weight_le_held:
  assumes "finite (dom D)" "\<And>i d. D i = Some d \<Longrightarrow> 0 \<le> d_left d" shows "weight w (D i) \<le> held D w"
proof (cases "i \<in> dom D")
  case True
  then show ?thesis unfolding held_def using assms by (intro member_le_sum weight_nonneg) auto
next
  case False
  then have "weight w (D i) = 0" by (simp add: domIff weight_def)
  moreover have "0 \<le> held D w" unfolding held_def using assms by (intro sum_nonneg weight_nonneg) auto
  ultimately show ?thesis by simp
qed

lemma deals_invD:
  assumes "deals_inv (A, D)"
  shows "finite (dom A)" "finite (dom D)" "ok A" "D i = Some d \<Longrightarrow> 0 \<le> d_left d"
    "A w = Some (b, l) \<Longrightarrow> held D w \<le> l"
  using assms by (auto simp: deals_inv_def)

lemma fee_tot: "finite (dom A) \<Longrightarrow> (f \<noteq> 0 \<Longrightarrow> p \<in> dom A) \<Longrightarrow> tot (post p f 0 A) = tot A + f"
  by (cases "f = 0") (simp_all add: tot_post del: post_apply)

lemma deal_step_tot:
  "deal_step p X Y \<Longrightarrow> finite (dom (fst X)) \<Longrightarrow> tot (fst Y) = tot (fst X) \<and> dom (fst Y) = dom (fst X)"
proof (induction rule: deal_step.induct)
  case (fund D i k f A w b l v)
  then have "w \<in> dom A" by auto
  with fund show ?case by (simp add: fee_tot tot_post del: post_apply)
next
  case (pay D i d w v A r f st)
  then show ?case by (simp add: fee_tot tot_post del: post_apply)
next
  case (refund D i d w A)
  then show ?case by (simp add: tot_post del: post_apply)
next
  case (move A w b l v f m k D)
  then have "w \<in> dom A" by auto
  with move show ?case by (simp add: fee_tot tot_post del: post_apply)
qed simp_all

lemma post_Some: "post i b l A u = Some (b', l')
    \<Longrightarrow> \<exists>b0 l0. A u = Some (b0, l0) \<and> b' = (if u = i then b0 + b else b0) \<and> l' = (if u = i then l0 + l else l0)"
  by (auto split: if_splits)

lemma deals_invI:
  assumes "deals_inv (A, D)" "dom B = dom A" "ok B" "0 \<le> d_left d"
    "\<And>w b l b' l'. A w = Some (b, l) \<Longrightarrow> B w = Some (b', l')
      \<Longrightarrow> l - weight w (D i) + weight w (Some d) \<le> l'"
  shows "deals_inv (B, D(i \<mapsto> d))"
proof -
  note D = deals_invD[OF assms(1)]
  have "held (D(i \<mapsto> d)) w \<le> l'" if B: "B w = Some (b', l')" for w b' l'
  proof -
    from B assms(2) have "w \<in> dom A" by auto
    then obtain b l where A: "A w = Some (b, l)" by auto
    from assms(5)[OF A B] D(5)[OF A] show ?thesis by (simp add: held_update[OF D(2)])
  qed
  then show ?thesis using assms(2-4) D(1,2,4) by (auto simp: deals_inv_def)
qed

lemma deals_inv_books:
  assumes "deals_inv (A, D)" "dom B = dom A" "ok B"
    "\<And>w b l b' l'. A w = Some (b, l) \<Longrightarrow> B w = Some (b', l') \<Longrightarrow> l \<le> l'"
  shows "deals_inv (B, D)"
proof -
  note D = deals_invD[OF assms(1)]
  have "held D w \<le> l'" if B: "B w = Some (b', l')" for w b' l'
  proof -
    from B assms(2) have "w \<in> dom A" by auto
    then obtain b l where A: "A w = Some (b, l)" by auto
    from assms(4)[OF A B] D(5)[OF A] show ?thesis by simp
  qed
  then show ?thesis using assms(2,3) D(1,2,4) by (auto simp: deals_inv_def)
qed

lemma deal_step_inv: "deal_step p X Y \<Longrightarrow> deals_inv X \<Longrightarrow> deals_inv Y"
proof (induction rule: deal_step.induct)
  case (fund D i k f A w b l v)
  note D = deals_invD[OF fund.prems]
  have "ok (post w (- f) k A)" using fund by (intro ok_post[OF D(3)]) auto
  then have o: "ok (post p f 0 (post w (- f) k A))" using fund by (intro ok_credit)
  show ?case
    by (rule deals_invI[OF fund.prems]) (use fund o in \<open>auto simp: weight_def open_deal_def dest!: post_Some simp del: post_apply\<close>)
next
  case (pay D i d w v A r f st)
  note D = deals_invD[OF pay.prems]
  obtain b l where A: "A w = Some (b, l)" using pay by auto
  have "weight w (D i) \<le> held D w" by (rule weight_le_held) (use D in auto)
  with pay D(5)[OF A] have "r \<le> l" by (simp add: weight_def)
  then have "ok (post w (- r) (- r) A)" using A by (intro ok_post[OF D(3)]) auto
  then have o: "ok (post p f 0 (post v (r - f) 0 (post w (- r) (- r) A)))" using pay by (intro ok_credit) auto
  show ?case
    by (rule deals_invI[OF pay.prems])
      (use pay o in \<open>auto simp: weight_def open_deal_def dest!: post_Some split: if_splits simp del: post_apply\<close>)
next
  case (refund D i d w A)
  note D = deals_invD[OF refund.prems]
  obtain b l where A: "A w = Some (b, l)" using refund by auto
  have "weight w (D i) \<le> held D w" by (rule weight_le_held) (use D in auto)
  with refund D(5)[OF A] have "d_left d \<le> l" by (simp add: weight_def)
  moreover have "0 \<le> d_left d" using D(4) refund by blast
  ultimately have o: "ok (post w 0 (- d_left d) A)" using A by (intro ok_post[OF D(3)]) auto
  show ?case
    by (rule deals_invI[OF refund.prems])
      (use refund o in \<open>auto simp: weight_def open_deal_def dest!: post_Some simp del: post_apply\<close>)
next
  case (move A w b l v f m k D)
  note D = deals_invD[OF move.prems]
  have w: "ok (post w (- (k + f)) 0 A)" using move okD[OF D(3) move(1)] by (intro ok_post[OF D(3)]) auto
  have o: "ok (post p f 0 (post p m 0 (post v (k - m) 0 (post w (- (k + f)) 0 A))))"
    by (rule ok_credit[OF ok_credit[OF ok_credit[OF w]]]) (use move in auto)
  show ?case
    by (rule deals_inv_books[OF move.prems _ o]) (auto dest!: post_Some simp del: post_apply)
next
  case (close D i d A)
  note D = deals_invD[OF close.prems]
  show ?case by (rule deals_invI[OF close.prems]) (use close D in \<open>auto simp: weight_def\<close>)
next
  case (dispute D i d A)
  note D = deals_invD[OF dispute.prems]
  show ?case by (rule deals_invI[OF dispute.prems]) (use dispute D in \<open>auto simp: weight_def open_deal_def\<close>)
next
  case (cancel D i d A)
  note D = deals_invD[OF cancel.prems]
  show ?case by (rule deals_invI[OF cancel.prems]) (use cancel D in \<open>auto simp: weight_def open_deal_def\<close>)
qed

lemma deal_step_closed:
  "deal_step p X Y \<Longrightarrow> snd X i = Some d \<Longrightarrow> closed (d_status d) \<Longrightarrow> snd Y i = Some d"
  by (induction rule: deal_step.induct) (auto simp: closed_def open_deal_def)

section \<open>Reachable states\<close>

lemma deal_steps_inv: "deal_steps p X Y \<Longrightarrow> deals_inv X \<Longrightarrow> deals_inv Y"
  by (induction rule: rtranclp_induct) (auto intro: deal_step_inv)

lemma deal_steps_tot: "deal_steps p X Y \<Longrightarrow> deals_inv X \<Longrightarrow> tot (fst Y) = tot (fst X)"
proof (induction rule: rtranclp_induct)
  case (step Y Z)
  then have "deals_inv Y" by (auto intro: deal_steps_inv)
  then have "finite (dom (fst Y))" by (cases Y) (auto dest: deals_invD)
  with step show ?case using deal_step_tot by fastforce
qed simp

lemma deal_steps_closed:
  "deal_steps p X Y \<Longrightarrow> snd X i = Some d \<Longrightarrow> closed (d_status d) \<Longrightarrow> snd Y i = Some d"
  by (induction rule: rtranclp_induct) (auto intro: deal_step_closed)

end
