(* ===== verification/Wallet_Safety.thy ===== *)
theory Wallet_Safety
  imports Transfers
begin

text \<open>
  The wallet routes as a system: any sequence of transfers, balance reads and clock ticks keeps
  the solvency of every wallet and, up to one unit for each amount that is not a whole number of
  units, the money.  The last two sections state where the code falls short of more: two requests
  that check before either commits overdraw a wallet, and an amount below one unit credits more than
  it debits, so the one unit is not slack of the proof.
\<close>

section \<open>Any sequence of requests\<close>

text \<open>The transfer fee is a percentage, the merchant fee one of at most a half.\<close>

definition fees_ok :: "'a core_scheme \<Rightarrow> bool" where
  "fees_ok s \<longleftrightarrow> rules_ok percent_only {TransferFee} s \<and> rules_ok half_percent {Merchant} s"

lemma fees_ok_rule:
  "fees_ok s \<Longrightarrow> percent_only (rule_in s TransferFee) \<and> half_percent (rule_in s Merchant)"
  unfolding fees_ok_def by (auto intro: rules_ok_rule)

lemma fees_ok_cong: "fees_ok s \<Longrightarrow> same_fees s t \<Longrightarrow> fee_cache t = fee_cache s \<Longrightarrow> fees_ok t"
  unfolding fees_ok_def using rules_ok_cong by blast

lemma rules_ok_modifies [pres]:
  "preserves (rules_ok P K) (user_update i h)" "preserves (rules_ok P K) (biometric_update i b)"
  "preserves (rules_ok P K) (txn_complete i)"
  unfolding user_update_def biometric_update_def txn_complete_def
  by (rule rules_ok_modify; simp add: same_fees_def)+

lemma rules_ok_send: "preserves (rules_ok P K) (sendFunds X u dto mf)"
  unfolding sendFunds_def send_authorize_def verifyDevice_def verifyPin_def send_recipient_def
    send_tx_def send_check_def send_commit_def send_fees_def Let_def
  by (intro pres rules_ok_cache rules_ok_quiet[OF quiet_send_announce])

lemma fees_ok_send: "preserves fees_ok (sendFunds X u dto mf)"
  using rules_ok_send unfolding preserves_def fees_ok_def by blast

text \<open>Requests to the wallet routes, one after the other, with time passing in between.\<close>

datatype wallet_request =
    Send nat send_dto bool
  | Balance nat
  | Tick nat

definition wallet_exec :: "ext \<Rightarrow> wallet_request \<Rightarrow> 'a core_scheme \<Rightarrow> 'a core_scheme" where
  "wallet_exec X q s = (case q of
     Send u dto mf \<Rightarrow> snd (sendFunds X u dto mf s)
   | Balance u \<Rightarrow> snd (getMyWallet u s)
   | Tick d \<Rightarrow> s\<lparr>now := now s + int d\<rparr>)"

text \<open>A transfer of an amount that is not a whole number of units.\<close>

fun fractional :: "wallet_request \<Rightarrow> bool" where
  "fractional (Send u dto mf) = (\<not> whole (sd_amount dto))"
| "fractional (Balance u) = False"
| "fractional (Tick d) = False"

definition books_inv :: "'a core_scheme \<Rightarrow> bool" where
  "books_inv s \<longleftrightarrow> wallet_keys s \<and> solvent s \<and> fees_ok s"

lemma solvent_bound: "solvent s \<Longrightarrow> w \<in> set (wallets s) \<Longrightarrow> w_balance w \<le> total s"
proof -
  assume s: "solvent s" and w: "w \<in> set (wallets s)"
  have "0 \<le> w_balance v" if "v \<in> set (wallets s)" for v
    using s that by (auto simp: solvent_def list_all_iff available_def)
  then show ?thesis unfolding total_def using w
    by (intro member_le_sum_list) auto
qed

lemma books_inv_send:
  assumes inv: "books_inv s" and bound: "total s \<le> MAXU"
  shows "books_inv (snd (sendFunds X u dto mf s))
    \<and> \<bar>total (snd (sendFunds X u dto mf s)) - total s\<bar> \<le> (if whole (sd_amount dto) then 0 else 1)"
proof -
  let ?m = "sendFunds X u dto mf" and ?d = "if whole (sd_amount dto) then 0 else 1 :: int"
  from inv have s: "wallet_keys s" "solvent s" and f: "fees_ok s" by (simp_all add: books_inv_def)
  have p: "fees_percent s mf" and h: "half_percent (rule_in s Merchant)"
    using fees_ok_rule[OF f] by (simp_all add: fees_percent_def half_percent_def)
  have b: "w_balance w \<le> MAXU" if "w \<in> set (wallets s)" for w
    using solvent_bound[OF s(2) that] bound by simp
  have "wp ?m (\<lambda>_ t. wallet_keys t \<and> solvent t \<and> \<bar>total t - total s\<bar> \<le> ?d)
      (\<lambda>_ t. wallet_keys t \<and> solvent t \<and> \<bar>total t - total s\<bar> \<le> ?d) s"
  proof (rule wp_mono[OF sendFunds_moved[OF s(1) p]])
    fix r t assume "0 < sd_amount dto \<and> sent_to X s u mf (sd_amount dto) (sd_recipient dto) t"
    then have t: "sent_to X s u mf (sd_amount dto) (sd_recipient dto) t" by blast
    then have "wallet_keys t" by (auto simp: sent_to_def moved_outcome_def moved_def committed_def)
    with sent_solvent[OF t s h b] sent_drift[OF t s(1) p]
    show "wallet_keys t \<and> solvent t \<and> \<bar>total t - total s\<bar> \<le> ?d" by blast
  next
    fix e t assume "untouched s t"
    with s show "wallet_keys t \<and> solvent t \<and> \<bar>total t - total s\<bar> \<le> ?d"
      by (simp add: untouched_def solvent_def wallet_keys_def total_def)
  qed
  from wpD_snd[OF this] preservesD[OF fees_ok_send f] show ?thesis by (simp add: books_inv_def)
qed

lemma books_inv_same:
  "books_inv s \<Longrightarrow> wallets t = wallets s \<Longrightarrow> same_fees s t \<Longrightarrow> fee_cache t = fee_cache s \<Longrightarrow> books_inv t \<and> total t = total s"
  by (auto simp: books_inv_def solvent_def wallet_keys_def total_def intro: fees_ok_cong)

lemma books_inv_balance: "books_inv s \<Longrightarrow> books_inv (snd (getMyWallet u s)) \<and> total (snd (getMyWallet u s)) = total s"
proof -
  have q: "snd (getMyWallet u s) = s \<or> (\<exists>c. snd (getMyWallet u s) = s\<lparr>cache := c\<rparr>)"
    by (auto simp: getMyWallet_def bnd_def gets_def throw_def thn_def cacheSet_def modify_def ret_def
      split: option.split cache_val.split)
  assume "books_inv s"
  then show ?thesis using q books_inv_same[of s "snd (getMyWallet u s)"] by (auto simp: same_fees_def)
qed

lemma books_inv_exec:
  "books_inv s \<Longrightarrow> total s \<le> MAXU \<Longrightarrow> books_inv (wallet_exec X q s)
    \<and> \<bar>total (wallet_exec X q s) - total s\<bar> \<le> (if fractional q then 1 else 0)"
proof (cases q)
  case (Send u dto mf)
  assume "books_inv s" "total s \<le> MAXU"
  from books_inv_send[OF this, of X u dto mf] show ?thesis by (simp add: Send wallet_exec_def split: if_splits)
qed (use books_inv_balance[of s] books_inv_same[of s "s\<lparr>now := _\<rparr>"] in \<open>simp_all add: wallet_exec_def same_fees_def\<close>)

text \<open>C3: From unique, solvent wallets, with a transfer fee that is a percentage and a
  merchant fee of at most one half, any sequence of transfers of any amounts, balance reads and
  clock ticks keeps every wallet solvent and changes the total of all balances by at most one unit
  (1e-8 FARM) for each requested transfer whose amount is not a whole number of units, so not at all
  when all amounts are whole; the total plus these units is at most 10^15 units.\<close>

theorem wallet_run:
  assumes "wallet_keys s" "solvent s" "fees_ok s" "total s + int (length (filter fractional qs)) \<le> MAXU"
  shows "solvent (fold (wallet_exec X) qs s)
    \<and> \<bar>total (fold (wallet_exec X) qs s) - total s\<bar> \<le> int (length (filter fractional qs))"
proof -
  have "books_inv s" using assms by (simp add: books_inv_def)
  then have "books_inv (fold (wallet_exec X) qs s)
      \<and> \<bar>total (fold (wallet_exec X) qs s) - total s\<bar> \<le> int (length (filter fractional qs))"
    using assms(4)
  proof (induction qs arbitrary: s)
    case (Cons q qs)
    let ?t = "wallet_exec X q s"
    have t: "books_inv ?t" "\<bar>total ?t - total s\<bar> \<le> (if fractional q then 1 else 0)"
      using books_inv_exec[OF Cons.prems(1)] Cons.prems(2) by auto
    moreover from this have "total ?t + int (length (filter fractional qs)) \<le> MAXU"
      using Cons.prems(2) by (auto split: if_splits)
    ultimately show ?case using Cons.IH[of ?t] by (auto split: if_splits)
  qed simp
  then show ?thesis by (simp add: books_inv_def)
qed

theorem wallet_run_witness:
  "solvent (fold (wallet_exec sample_ext) [Send 1 (sample_send (num 4000000000)) True, Tick 90000, Balance 2,
     Send 2 (sample_send (1/3)) False] sample)"
proof -
  have "fees_ok sample" unfolding fees_ok_def rules_ok_def
    by (simp add: half_percent_def percent_only_def default_rule_def defaultPercent_def loaded_rule_def configured_def sample_def)
  moreover have "solvent sample" "total sample = 70000000000"
    by (simp_all add: solvent_def available_def total_def sample_defs)
  ultimately show ?thesis
    using wallet_run[of sample "[Send 1 (sample_send (num 4000000000)) True, Tick 90000, Balance 2,
      Send 2 (sample_send (1/3)) False]" sample_ext] sample_keys by (simp add: MAXU_def)
qed

section \<open>Two transfers at once\<close>

text \<open>
  PostgreSQL runs each transfer at read committed, and its checks read the wallet without locking the
  row; so the checks of two requests can both come before the writes of either.  The steps in that
  order, from any state:
\<close>

text \<open>C13: Two transfers of whole units by one user, with unique wallet ids and percentage
  fees, whose checks (send_check) both pass before the writes (send_commit) of either, and whose
  amounts plus fees together exceed the available balance of a wallet other than the platform's: if
  both writes succeed, the sender's wallet ends with less than it has locked, below solvency. The
  checks take no lock, so this order of the four steps can occur; the witness runs it.\<close>

theorem send_race:
  assumes keys: "wallet_keys s" and w: "active_wallet s u = Some w" "platform s \<noteq> w_id w"
    and k1: "0 < num k1" "fees_percent s mf1" "send_check X u (num k1) mf1 r1 s = (Inr p1, s1)"
    and k2: "0 < num k2" "fees_percent s1 mf2" "send_check X u (num k2) mf2 r2 s1 = (Inr p2, s2)"
    and c1: "send_commit u v1 p1 s2 = (Inr x1, s3)"
    and c2: "send_commit u v2 p2 s3 = (Inr x2, s4)"
    and over: "available w < (k1 + transfer_fee s k1) + (k2 + transfer_fee s1 k2)"
  shows "(\<exists>b l. accounts s4 (w_id w) = Some (b, l) \<and> b < l) \<and> \<not> solvent s4"
proof -
  let ?f1 = "transfer_fee s k1" and ?f2 = "transfer_fee s1 k2" and ?m1 = "merchant_cut s mf1 k1" and ?m2 = "merchant_cut s1 mf2 k2"
  obtain c where h1: "sp_sender p1 = w" "sp_receiver p1 = r1" "w_id w \<noteq> r1" "plan_of p1 (num k1) ?f1 ?m1"
      and s1: "s1 = s\<lparr>fee_cache := c\<rparr>"
    using send_checked[OF k1] w(1) unfolding fee_of_units by auto
  have w1: "active_wallet s1 u = Some w" using w(1) by (simp add: s1 active_wallet_def)
  obtain d where h2: "sp_sender p2 = w" "sp_receiver p2 = r2" "w_id w \<noteq> r2" "plan_of p2 (num k2) ?f2 ?m2"
      and s2: "s2 = s\<lparr>fee_cache := d\<rparr>"
    using send_checked[OF k2] w1 unfolding fee_of_units by (auto simp: s1)
  have u1: "0 < k1" "k1 \<le> 10 ^ 13" and u2: "0 < k2" "k2 \<le> 10 ^ 13"
    using h1(4) h2(4) by (auto simp: plan_of_def dest!: range_units)
  note f1 = fees_units[OF u1 k1(2)] and f2 = fees_units[OF u2 k2(2)]
  have keys2: "wallet_keys s2" using keys by (simp add: s2 wallet_keys_def)
  obtain b l where b: "accounts s2 (w_id w) = Some (b, l)" "committed s2 (w_id w) r1 b (num k1) ?f1 ?m1 s3"
    using wpD_ok[OF send_commit_books[OF keys2 h1(4)] c1] h1 by auto
  have bl: "b = w_balance w" "l = w_locked w" using b(1) active_books[OF keys w(1)] by (simp_all add: s2)
  have B3: "accounts s3 = transfer_books (w_id w) r1 (platform s2) k1 ?f1 ?m1 (accounts s2)"
    using committed_whole[OF b(2) u1] f1 by (simp del: post_apply)
  have P: "platform s3 \<noteq> w_id w" "platform s2 \<noteq> w_id w" and keys3: "wallet_keys s3"
    using b(2) w(2) by (simp_all add: committed_def s2 platform_def)
  have A3: "accounts s3 (w_id w) = Some (b - (k1 + ?f1), l)"
    unfolding B3 using b(1) h1(3) P(2) by (simp add: transfer_books_def)
  obtain b' l' where b': "accounts s3 (w_id w) = Some (b', l')" "committed s3 (w_id w) r2 b' (num k2) ?f2 ?m2 s4"
    using wpD_ok[OF send_commit_books[OF keys3 h2(4)] c2] h2 by auto
  have B4: "accounts s4 = transfer_books (w_id w) r2 (platform s3) k2 ?f2 ?m2 (accounts s3)"
    using committed_whole[OF b'(2) u2] f2 by (simp del: post_apply)
  have A4: "accounts s4 (w_id w) = Some (b - (k1 + ?f1) - (k2 + ?f2), l)"
    unfolding B4 using A3 h2(3) P(1) by (simp add: transfer_books_def)
  have keys4: "wallet_keys s4" using b'(2) by (simp add: committed_def)
  have debt: "b - (k1 + ?f1) - (k2 + ?f2) < l" using over by (simp add: bl available_def)
  moreover have "\<not> solvent s4" using okD[of "accounts s4", OF _ A4] debt keys4 by (auto simp: solvent_ok)
  ultimately show ?thesis using A4 by blast
qed

lemma num_300: "num 30000000000 = 300" by (simp add: num_def)

lemma sample_check300:
  "wid \<noteq> 11 \<Longrightarrow> send_check sample_ext 1 300 False wid sample =
    (Inr \<lparr>sp_sender = sample_wallet 11 1 50000000000, sp_receiver = wid, sp_amount = 300, sp_fee = 0, sp_merchant_fee = 0\<rparr>, sample)"
  by (simp add: send_check_def bnd_def gets_def active_wallet_def sample_tables sample_wallet_def
     MAX_SINGLE_TX_def sent_today_def MAX_DAILY_def sample_ruleFor ret_def sample_free_transfer Let_def sp_total_out_def recent_duplicate_def num_def)

lemma units_300: "dec_dec n 300 = n - 30000000000" "dec_inc n 300 = n + 30000000000"
  "to_units 300 = 30000000000" "toFixed 8 300 = 300"
  using dec_dec_num[of 30000000000 n] dec_inc_num[of 30000000000 n] to_units_num[of 30000000000] toFixed8_num[of 30000000000]
  by (simp_all add: MAXU_def num_300)

text \<open>Alice sends 300 of her 500 to each of two wallets.\<close>

theorem send_race_witness:
  "solvent sample \<and> (\<exists>p1 p2 x1 x2 s3 s4. send_check sample_ext 1 300 False 12 sample = (Inr p1, sample)
    \<and> send_check sample_ext 1 300 False 19 sample = (Inr p2, sample)
    \<and> send_commit 1 None p1 sample = (Inr x1, s3) \<and> send_commit 1 None p2 s3 = (Inr x2, s4) \<and> \<not> solvent s4)"
proof -
  let ?p = "\<lambda>r. \<lparr>sp_sender = sample_wallet 11 1 50000000000, sp_receiver = r, sp_amount = 300, sp_fee = 0, sp_merchant_fee = 0\<rparr>"
  have c: "send_check sample_ext 1 300 False 12 sample = (Inr (?p 12), sample)"
      "send_check sample_ext 1 300 False 19 sample = (Inr (?p 19), sample)"
    by (rule sample_check300; simp)+
  have "wp (send_commit 1 None (?p 12)) (\<lambda>_. wp (send_commit 1 None (?p 19)) (\<lambda>_ _. True) (\<lambda>_ _. False)) (\<lambda>_ _. False) sample"
    by (simp add: send_commit_def wp_simps wallet_by_id_def sample_tables sample_wallet_def send_fees_def
      txn_complete_def sp_total_out_def sp_credit_def units_300)
  from wp_ok[OF this] obtain x1 s3 where c1: "send_commit 1 None (?p 12) sample = (Inr x1, s3)"
      "wp (send_commit 1 None (?p 19)) (\<lambda>_ _. True) (\<lambda>_ _. False) s3" by blast
  from wp_ok[OF c1(2)] obtain x2 s4 where c2: "send_commit 1 None (?p 19) s3 = (Inr x2, s4)" by blast
  note r = c1(1) c2
  have w: "active_wallet sample 1 = Some (sample_wallet 11 1 50000000000)"
    by (simp add: active_wallet_def sample_tables sample_wallet_def)
  have "\<not> solvent s4"
  proof (rule send_race[THEN conjunct2, OF sample_keys w _ _ _ _ _ _ _ r])
    show "send_check sample_ext 1 (num 30000000000) False 12 sample = (Inr (?p 12), sample)"
      "send_check sample_ext 1 (num 30000000000) False 19 sample = (Inr (?p 19), sample)"
      using c by (simp_all add: num_300)
    show "platform sample \<noteq> w_id (sample_wallet 11 1 50000000000)"
      by (simp add: platform_def platform_id_def sample_defs)
    show "available (sample_wallet 11 1 50000000000) < 30000000000 + transfer_fee sample 30000000000
        + (30000000000 + transfer_fee sample 30000000000)"
      by (simp add: available_def sample_wallet_def transfer_fee_def sample_free_units)
  qed (simp_all add: num_300 fees_percent_def sample_percent_only)
  moreover have "solvent sample" by (simp add: solvent_def sample_defs available_def)
  ultimately show ?thesis using c r by blast
qed

section \<open>Amounts below one unit\<close>

text \<open>The double 5e-9: half a unit, and a little more.\<close>

definition tiny :: rat where "tiny = 3022314549036573 / 2 ^ 79"

lemma tiny_fl: "fl (5 / 10 ^ 9) = tiny"
  unfolding tiny_def by (subst fl_small[of 28 _ 6044629098073146]) simp_all

lemma cent_fl: "fl (1 / 10 ^ 8) = 3022314549036573 / 2 ^ 78"
  by (subst fl_small[of 27 _ 6044629098073146]) simp_all

lemma js_dec_tiny: "js_dec tiny = 5 / 10 ^ 9"
proof -
  have r: "rne (tiny * 10 ^ 8) = 1" "rne (tiny * 10 ^ 9) = 5"
    by (rule rne_near, simp add: tiny_def)+
  have "js_dec tiny = dec_search (Suc 31) 8 tiny" unfolding js_dec_def
    using dec_search_small[of tiny 0 7 32] by (simp add: tiny_def del: dec_search.simps)
  also have "\<dots> = dec_search (Suc 30) 9 tiny"
    using cent_fl by (subst dec_search_miss) (simp only: r, simp_all add: tiny_def del: dec_search.simps)
  also have "\<dots> = of_int 5 / 10 ^ 9"
    using tiny_fl by (subst dec_search_hit) (simp_all only: r, simp)
  finally show ?thesis by simp
qed
lemma fl_tiny: "fl tiny = tiny"
  unfolding tiny_def by (subst fl_small[of 28 _ 6044629098073146]) simp_all

lemma tiny_credit: "toFixed 8 (fl (tiny - 0)) = num 1"
proof -
  have "rhaz (tiny * 10 ^ 8) = 1" by (rule rhaz_near) (simp add: tiny_def)
  moreover have "\<bar>tiny\<bar> < 10 ^ 21" by (simp add: tiny_def)
  ultimately show ?thesis by (simp add: fl_tiny toFixed_def num_def)
qed

lemma tiny_moves: "dec_dec 50000000000 (fl (tiny + 0)) = 50000000000"
    "dec_inc 20000000000 (num 1) = 20000000001"
  by (simp_all add: fl_tiny dec_dec_def js_dec_tiny rhaz_def MAXU_def)

lemma tiny_limits: "fl (num 0 + tiny) \<le> 500000" "0 < tiny" "tiny \<le> 100000"
    "fl (tiny + 0) \<le> fl (num 50000000000 - num 0)"
  by (simp_all add: fl_tiny) (simp_all add: tiny_def num_def)

lemma sample_check_tiny: "send_check sample_ext 1 tiny False 12 sample =
  (Inr \<lparr>sp_sender = sample_wallet 11 1 50000000000, sp_receiver = 12, sp_amount = tiny, sp_fee = 0,
     sp_merchant_fee = 0\<rparr>, sample)"
  using tiny_limits by (simp add: send_check_def bnd_def gets_def active_wallet_def
     sample_tables sample_wallet_def MAX_SINGLE_TX_def sent_today_def MAX_DAILY_def sample_ruleFor ret_def
     sample_free_transfer Let_def sp_total_out_def recent_duplicate_def)

theorem send_mints: "\<exists>r t. send_tx sample_ext 1 tiny False (Some 2, 12) sample = (Inr r, t)
  \<and> total t = total sample + 1"
proof (rule wp_ok)
  show "wp (send_tx sample_ext 1 tiny False (Some 2, 12)) (\<lambda>_ t. total t = total sample + 1) (\<lambda>_ _. False) sample"
    unfolding send_tx_def wp_transaction wp_bnd wp_def[of "send_check _ _ _ _ _"] snd_conv fst_conv
      sample_check_tiny prod.case sum.case
    using tiny_moves tiny_credit by (simp add: send_commit_def wp_simps wallet_by_id_def sample_tables
      sample_wallet_def send_fees_def txn_complete_def total_def sp_total_out_def sp_credit_def)
qed

end
