(* ===== verification/Escrow_Books.thy ===== *)
theory Escrow_Books
  imports Escrow Deals Wallet_Safety
begin

text \<open>
  The escrow updates on the books.  \<open>abs\<close> reads the abstract deals off the database, and
  \<open>refines\<close> says that an operation went from one database to another through steps of
  the abstract escrow (theory Deals), keeping the rows well formed.  The lemmas on doubles show that the
  balance check is exact, and that what is left of a contract is a whole number of units.
\<close>

section \<open>Doubles and units\<close>

lemma fl_lower: "0 \<le> v \<Longrightarrow> v - v / 2 ^ 53 \<le> fl v"
  using fl_error[of v] by (simp only: abs_le_iff abs_of_nonneg) linarith

lemma scale_lower: "(z - z / 2 ^ 53) * 10 ^ 8 = z * 10 ^ 8 * (1 - 1 / 2 ^ 53 :: rat)"
  by (simp add: field_simps)

lemma near_num_lower: "0 \<le> x \<Longrightarrow> of_int x * (1 - 1 / 2 ^ 53) \<le> num x * 10 ^ 8"
proof -
  assume x: "0 \<le> x"
  let ?v = "of_int x / 10 ^ 8 :: rat"
  have "?v - ?v / 2 ^ 53 \<le> fl ?v" using x by (intro fl_lower) simp
  from mult_right_mono[OF this, of "10 ^ 8"] show ?thesis unfolding num_def by (simp add: right_diff_distrib)
qed

text \<open>The balance check, for any amounts.\<close>

lemma covered_check:
  assumes "0 \<le> b" "b \<le> MAXU" "0 \<le> l" "l \<le> b" "0 \<le> x" "0 \<le> y"
    "fl (num x + num y) \<le> fl (num b - num l)"
  shows "x + y \<le> b - l"
proof (cases "x + y \<le> MAXU")
  case True
  with assms show ?thesis by (intro available_check) auto
next
  case False
  have av: "near (ulp + ulp + ulp) (fl (num b - num l)) (b - l)"
    by (rule js.near_minus[OF near_num near_num]) (use assms in \<open>auto simp: ulp_def\<close>)
  have bl: "of_int (b - l) \<le> (10 ^ 15 :: rat)"
    using abs_of_int_le[of "b - l"] assms by simp
  let ?z = "num x + num y"
  have z: "0 \<le> ?z" using assms by simp
  have "of_int (x + y) * (1 - 1 / 2 ^ 53) \<le> ?z * 10 ^ 8"
    using near_num_lower[of x] near_num_lower[of y] assms by (simp add: distrib_right)
  moreover have "(10 ^ 15 + 1) \<le> (of_int (x + y) :: rat)"
  proof -
    have "10 ^ 15 + 1 \<le> x + y" using False by (simp add: MAXU_def)
    then have "of_int (10 ^ 15 + 1) \<le> (of_int (x + y) :: rat)" by (simp only: of_int_le_iff)
    then show ?thesis by simp
  qed
  ultimately have lo: "10 ^ 15 + 3 / 4 \<le> ?z * 10 ^ 8" by simp
  have "?z - ?z / 2 ^ 53 \<le> fl ?z" using z by (rule fl_lower)
  from mult_right_mono[OF this, of "10 ^ 8"] have "?z * 10 ^ 8 * (1 - 1 / 2 ^ 53) \<le> fl ?z * 10 ^ 8"
    unfolding scale_lower by simp
  moreover have "fl ?z * 10 ^ 8 \<le> fl (num b - num l) * 10 ^ 8" using assms(7) by (rule mult_right_mono) simp
  ultimately have "?z * 10 ^ 8 * (1 - 1 / 2 ^ 53) \<le> 10 ^ 15 + 27 / 80"
    using av bl unfolding near_def ulp_def abs_le_iff by linarith
  with lo have False by simp
  then show ?thesis ..
qed

lemma remaining_units:
  assumes "0 \<le> e_released e" "e_released e \<le> e_amount e" "e_amount e \<le> MAXU"
  shows "remainingAmount e = num (e_amount e - e_released e)"
proof -
  let ?r = "e_amount e - e_released e"
  have t: "toFixed 8 (fl (num (e_amount e) - num (e_released e))) = num ?r"
    by (rule toFixed8_diff) (use assms in auto)
  have pos: "fl (num (e_amount e) - num (e_released e)) > 0 \<longleftrightarrow> 0 < ?r"
    using assms num_less_iff[of "e_released e" "e_amount e"] by (simp add: fl_pos_iff)
  show ?thesis
  proof (cases "0 < ?r")
    case True
    with pos t show ?thesis by (simp add: remainingAmount_def)
  next
    case False
    with pos assms have "?r = 0" by simp
    then show ?thesis by (simp add: remainingAmount_def)
  qed
qed

section \<open>The books of the escrow updates\<close>

lemma acct_lock_funds [simp]:
  "\<bar>f\<bar> \<le> MAXU \<Longrightarrow> \<bar>k\<bar> \<le> MAXU \<Longrightarrow> acct (upd_row w_id i (lock_funds (num f) (num k)) ws) = post i (- f) k (acct ws)"
  by (rule acct_upd) (simp add: lock_funds_def)

lemma acct_take_locked [simp]:
  "\<bar>k\<bar> \<le> MAXU \<Longrightarrow> acct (upd_row w_id i (take_locked (num k)) ws) = post i (- k) (- k) (acct ws)"
  by (rule acct_upd) (simp add: take_locked_def)

lemma escrow_wallet_keys [simp]:
  "w_id (lock_funds f k w) = w_id w" "w_id (take_locked k w) = w_id w"
  by (simp_all add: lock_funds_def take_locked_def)

lemma platform_id_escrow [simp]:
  "platform_id us (upd_row w_id i (lock_funds x y) ws) = platform_id us ws"
  "platform_id us (upd_row w_id i (take_locked x) ws) = platform_id us ws"
  by (rule platform_id_upd; simp add: lock_funds_def take_locked_def)+

lemma superadmin_credit:
  fixes s :: "'a core_scheme"
  assumes keys: "distinct (map w_id (wallets s))" and k: "0 \<le> k" "k \<le> MAXU"
    and Q: "\<And>ws es. distinct (map w_id ws) \<Longrightarrow> platform_id (users s) ws = platform_id (users s) (wallets s)
      \<Longrightarrow> acct ws = post (platform s) k 0 (accounts s)
      \<Longrightarrow> (k \<noteq> 0 \<longrightarrow> platform s \<in> dom (accounts s)) \<Longrightarrow> sum_list (map signed es) = k
      \<Longrightarrow> Q () (s\<lparr>wallets := ws, ledger := ledger s @ es\<rparr>)"
    and E: "\<And>e. E e s"
  shows "wp (charge_platform (num k)) Q E s"
proof (cases "k = 0")
  case True
  with Q[of "wallets s" "[]"] keys show ?thesis by (simp add: charge_platform_def wp_simps)
next
  case False
  then have k': "0 < k" "\<bar>k\<bar> \<le> MAXU" using k by auto
  show ?thesis
  proof (cases "platform_wallet s")
    case None
    with E k' show ?thesis
      by (simp add: charge_platform_def creditSuperadminWalletInTx_def getSuperadminWalletInTx_def wp_simps)
  next
    case (Some w)
    then have p: "platform_id (users s) (wallets s) = Some (w_id w)" by (simp add: platform_id_wallet)
    then have d: "platform s = w_id w" "w_id w \<in> dom (accounts s)"
      using platform_id_known[OF p] by (simp_all add: platform_def dom_acct)
    have f: "find_row w_id (w_id w) (wallets s) = Some w"
      using platform_wallet_by_id[OF Some] keys by (simp add: wallet_keys_def wallet_by_id_def)
    from k' Some f d keys show ?thesis
      by (simp add: charge_platform_def creditSuperadminWalletInTx_def getSuperadminWalletInTx_def wp_simps wallet_by_id_def)
        (rule Q, simp_all add: signed_def)
  qed
qed


lemma payout_books:
  fixes s :: "'a escrow_db_scheme"
  assumes keys: "distinct (map w_id (wallets s))" and f: "0 \<le> f" "f \<le> r" "r \<le> MAXU"
    and parties: "e_buyer_wallet e = Some w" "e_seller_wallet e = Some v"
  shows "wp (payout e (num r) (num f) (num (r - f)) md)
    (\<lambda>_ t. accounts t = post (platform s) f 0 (post v (r - f) 0 (post w (- r) (- r) (accounts s)))
      \<and> w \<in> dom (accounts s) \<and> v \<in> dom (accounts s) \<and> (f \<noteq> 0 \<longrightarrow> platform s \<in> dom (accounts s))
      \<and> distinct (map w_id (wallets t)) \<and> platform t = platform s \<and> escrows t = escrows s \<and> seq t = Suc (seq s)
      \<and> (\<exists>es. ledger t = ledger s @ es \<and> balanced es)) (\<lambda>_ _. True) s"
proof (cases "w \<in> dom (accounts s) \<and> v \<in> dom (accounts s)")
  case False
  then show ?thesis unfolding payout_def wallet_update_opt_def parties
    by (auto simp: wp_simps wallet_by_id_def acct_def split: option.split)
next
  case True
  then obtain bw sw where w: "find_row w_id w (wallets s) = Some bw" "find_row w_id v (wallets s) = Some sw"
    by (auto simp: acct_def)
  then have i: "w_id bw = w" "w_id sw = v" by (auto dest: find_row_Some)
  have b: "\<bar>r\<bar> \<le> MAXU" "\<bar>f\<bar> \<le> MAXU" "\<bar>r - f\<bar> \<le> MAXU" "f \<le> MAXU" using f by auto
  show ?thesis
  proof (cases "v = w")
    case eq: True
    show ?thesis unfolding payout_def wallet_update_opt_def parties
      by (simp add: wp_simps wallet_by_id_def w i eq split del: if_split)
        (rule superadmin_credit, use keys b f True eq in \<open>simp_all add: platform_def balanced_def simple_entry_def wp_simps\<close>)
  next
    case neq: False
    show ?thesis unfolding payout_def wallet_update_opt_def parties
      by (simp add: wp_simps wallet_by_id_def w i neq split del: if_split)
        (rule superadmin_credit, use keys b f True in \<open>simp_all add: platform_def balanced_def simple_entry_def wp_simps\<close>)
  qed
qed

section \<open>The database as deals\<close>

fun dstat :: "escrow_status \<Rightarrow> deal_status" where
  "dstat EPending = DPending"
| "dstat EActive = DActive"
| "dstat ECompleted = DCompleted"
| "dstat EDisputed = DDisputed"
| "dstat ECancelled = DCancelled"
| "dstat ERefunded = DRefunded"

definition deal_of :: "escrow \<Rightarrow> deal" where
  "deal_of e = \<lparr>d_from = e_buyer_wallet e, d_to = e_seller_wallet e, d_status = dstat (e_status e),
     d_left = (if e_status e = EActive \<or> e_status e = EDisputed then e_amount e - e_released e else 0)\<rparr>"

definition deals_of :: "escrow list \<Rightarrow> deals" where
  "deals_of es = (\<lambda>i. map_option deal_of (find_row e_id i es))"

definition abs :: "'a escrow_db_scheme \<Rightarrow> books \<times> deals" where
  "abs s = (accounts s, deals_of (escrows s))"

definition rows_ok :: "'a escrow_db_scheme \<Rightarrow> bool" where
  "rows_ok s \<longleftrightarrow> distinct (map w_id (wallets s)) \<and> distinct (map e_id (escrows s)) \<and> list_all (\<lambda>e. e_id e < seq s \<and> 0 \<le> e_released e
     \<and> e_released e \<le> e_amount e \<and> 0 < e_amount e \<and> e_amount e \<le> MAXU) (escrows s)"

definition parties :: "'a escrow_db_scheme \<Rightarrow> nat \<Rightarrow> (nat option \<times> nat option \<times> int) option" where
  "parties s i = map_option (\<lambda>e. (e_buyer_wallet e, e_seller_wallet e, e_amount e)) (escrow_by_id s i)"

definition refines :: "'a escrow_db_scheme \<Rightarrow> 'a escrow_db_scheme \<Rightarrow> bool" where
  "refines s t \<longleftrightarrow> rows_ok t \<and> platform t = platform s
     \<and> (\<forall>i x. parties s i = Some x \<longrightarrow> parties t i = Some x)
     \<and> deal_steps (platform s) (abs s) (abs t)"

lemma refines_refl: "rows_ok s \<Longrightarrow> refines s s"
  by (simp add: refines_def)

lemma refines_trans: "refines s t \<Longrightarrow> refines t u \<Longrightarrow> refines s u"
  unfolding refines_def by (auto intro: rtranclp_trans)

lemma deals_of_update:
  assumes "find_row e_id i es = Some e" "\<And>e. e_id (g e) = e_id e"
  shows "deals_of (upd_row e_id i g es) = (deals_of es)(i \<mapsto> deal_of (g e))"
  using assms by (auto simp: deals_of_def fun_eq_iff)

lemma deals_of_append:
  "find_row e_id (e_id c) es = None \<Longrightarrow> deals_of (es @ [c]) = (deals_of es)(e_id c \<mapsto> deal_of c)"
  by (auto simp: deals_of_def fun_eq_iff find_row_append split: option.split)

lemma rows_ok_row: "rows_ok s \<Longrightarrow> escrow_by_id s i = Some e
    \<Longrightarrow> e_id e = i \<and> i < seq s \<and> 0 \<le> e_released e \<and> e_released e \<le> e_amount e \<and> 0 < e_amount e \<and> e_amount e \<le> MAXU"
  by (auto simp: rows_ok_def escrow_by_id_def list_all_iff dest!: find_row_Some)

text \<open>An operation on one contract, seen on the books.\<close>

lemma refines_row:
  assumes ok: "rows_ok s" and row: "escrow_by_id s i = Some e" and keys: "distinct (map w_id (wallets t))"
    and g: "escrows t = upd_row e_id i g (escrows s)" "seq s \<le> seq t" "platform t = platform s"
    and same: "\<And>e. e_id (g e) = e_id e \<and> e_buyer_wallet (g e) = e_buyer_wallet e
        \<and> e_seller_wallet (g e) = e_seller_wallet e \<and> e_amount (g e) = e_amount e"
    and rel: "0 \<le> e_released (g e)" "e_released (g e) \<le> e_amount e"
    and step: "deal_step (platform s) (abs s) (accounts t, (deals_of (escrows s))(i \<mapsto> deal_of (g e)))"
  shows "refines s t"
proof -
  have "rows_ok t"
  proof -
    have "e_id x < seq t \<and> 0 \<le> e_released x \<and> e_released x \<le> e_amount x \<and> 0 < e_amount x \<and> e_amount x \<le> MAXU"
      if x: "x \<in> set (escrows t)" for x
    proof -
      obtain y where y: "y \<in> set (escrows s)" "x = (if e_id y = i then g y else y)"
        using x unfolding g upd_row_def by auto
      have find: "escrow_by_id s (e_id y) = Some y"
        using ok y(1) by (simp add: rows_ok_def escrow_by_id_def find_row_in)
      note yok = rows_ok_row[OF ok find]
      show ?thesis
      proof (cases "e_id y = i")
        case True
        with find row have "y = e" by simp
        with yok rel same[of e] y True g(2) show ?thesis by simp
      next
        case False
        with yok y g(2) show ?thesis by simp
      qed
    qed
    moreover have "distinct (map e_id (escrows t))" using ok same by (simp add: g rows_ok_def)
    ultimately show ?thesis using keys by (simp add: rows_ok_def list_all_iff)
  qed
  moreover have "parties t j = Some x" if "parties s j = Some x" for j x
    using that row same unfolding parties_def escrow_by_id_def g by auto
  moreover have "abs t = (accounts t, (deals_of (escrows s))(i \<mapsto> deal_of (g e)))"
    using row same unfolding abs_def g escrow_by_id_def by (simp add: deals_of_update)
  ultimately show ?thesis using step g by (auto simp: refines_def)
qed


section \<open>Payouts\<close>

definition db_inv :: "'a escrow_db_scheme \<Rightarrow> bool" where
  "db_inv s \<longleftrightarrow> rows_ok s \<and> deals_inv (abs s) \<and> tot (accounts s) \<le> MAXU
     \<and> rules_ok half_percent {EscrowCreation, EscrowReleaseFee, TransferFee, Merchant} s"

lemma db_invD:
  "db_inv s \<Longrightarrow> rows_ok s" "db_inv s \<Longrightarrow> deals_inv (abs s)" "db_inv s \<Longrightarrow> half_percent (rule_in s EscrowCreation)"
  "db_inv s \<Longrightarrow> half_percent (rule_in s EscrowReleaseFee)" "db_inv s \<Longrightarrow> distinct (map w_id (wallets s))"
  by (auto simp: db_inv_def rows_ok_def intro: rules_ok_rule)

lemma rows_ok_cong: "escrows t = escrows s \<Longrightarrow> wallets t = wallets s \<Longrightarrow> seq t = seq s \<Longrightarrow> rows_ok t = rows_ok s"
  by (simp add: rows_ok_def)

lemma refines_same:
  "rows_ok s \<Longrightarrow> escrows t = escrows s \<Longrightarrow> wallets t = wallets s \<Longrightarrow> seq t = seq s
    \<Longrightarrow> platform_id (users t) (wallets t) = platform_id (users s) (wallets s) \<Longrightarrow> refines s t"
  by (simp add: refines_def rows_ok_cong[of t s] parties_def escrow_by_id_def abs_def platform_def)

lemma wp_escrow_claim [wp_simps]:
  "wp (escrow_claim i sts g) Q E s = (case escrow_by_id s i of
     Some e \<Rightarrow> if e_status e \<in> set sts then Q 1 (s\<lparr>escrows := upd_row e_id i g (escrows s)\<rparr>) else Q 0 s
   | None \<Rightarrow> Q 0 s)"
  by (simp add: escrow_claim_def wp_def split: option.split)

lemma complete_escrow_simps [simp]:
  "e_id (complete_escrow t r e) = e_id e" "e_buyer_wallet (complete_escrow t r e) = e_buyer_wallet e"
  "e_seller_wallet (complete_escrow t r e) = e_seller_wallet e" "e_amount (complete_escrow t r e) = e_amount e"
  "e_released (complete_escrow t r e) = e_released e" "e_status (complete_escrow t r e) = ECompleted"
  by (simp_all add: complete_escrow_def split: option.split)

lemma refund_escrow_simps [simp]:
  "e_id (refund_escrow t r e) = e_id e" "e_buyer_wallet (refund_escrow t r e) = e_buyer_wallet e"
  "e_seller_wallet (refund_escrow t r e) = e_seller_wallet e" "e_amount (refund_escrow t r e) = e_amount e"
  "e_released (refund_escrow t r e) = e_released e" "e_status (refund_escrow t r e) = ERefunded"
  by (simp_all add: refund_escrow_def split: option.split)

text \<open>A row read earlier still names the wallets and the amount of its contract.\<close>

definition tracks :: "'a escrow_db_scheme \<Rightarrow> escrow \<Rightarrow> bool" where
  "tracks s e \<longleftrightarrow> parties s (e_id e) = Some (e_buyer_wallet e, e_seller_wallet e, e_amount e)"

lemma tracks_refines: "tracks s e \<Longrightarrow> refines s t \<Longrightarrow> tracks t e"
  by (simp add: tracks_def refines_def)

lemma deal_of_row: "escrow_by_id s i = Some e \<Longrightarrow> deals_of (escrows s) i = Some (deal_of e)"
  by (simp add: deals_of_def escrow_by_id_def)

lemma deal_of_open:
  "e_status e = EActive \<or> e_status e = EDisputed \<Longrightarrow> open_deal (deal_of e) \<and> d_left (deal_of e) = e_amount e - e_released e"
  by (auto simp: open_deal_def deal_of_def)

lemma deal_of_parties [simp]: "d_from (deal_of e) = e_buyer_wallet e" "d_to (deal_of e) = e_seller_wallet e"
  by (simp_all add: deal_of_def)

text \<open>The books after paying out \<open>r\<close> units of a contract, \<open>f\<close> of them to the platform.\<close>

definition payout_of :: "nat \<Rightarrow> nat \<Rightarrow> nat \<Rightarrow> int \<Rightarrow> int \<Rightarrow> books \<Rightarrow> books" where
  "payout_of p w v r f A = post p f 0 (post v (r - f) 0 (post w (- r) (- r) A))"

text \<open>What a payout leaves: the abstract step, the books, the rows (updated by \<open>g\<close>) and the ledger.\<close>

definition paid :: "'a escrow_db_scheme \<Rightarrow> nat \<Rightarrow> (escrow \<Rightarrow> escrow) \<Rightarrow> nat \<Rightarrow> nat \<Rightarrow> int \<Rightarrow> int
    \<Rightarrow> 'a escrow_db_scheme \<Rightarrow> bool" where
  "paid s i g w v r f t \<longleftrightarrow> refines s t \<and> escrows t = upd_row e_id i g (escrows s)
     \<and> accounts t = payout_of (platform s) w v r f (accounts s)
     \<and> (\<exists>es. ledger t = ledger s @ es \<and> balanced es)"

lemma payout_paid:
  fixes s :: "'a escrow_db_scheme"
  assumes inv: "db_inv s" and e: "escrow_by_id s i = Some e" and st: "e_status e = EActive \<or> e_status e = EDisputed"
    and w: "e_buyer_wallet e0 = Some w" "e_seller_wallet e0 = Some v" "e_buyer_wallet e = Some w" "e_seller_wallet e = Some v"
    and r: "0 < r" "r \<le> e_amount e - e_released e" and f: "0 \<le> f" "f \<le> r"
    and same: "\<And>e. e_id (g e) = e_id e \<and> e_buyer_wallet (g e) = e_buyer_wallet e
        \<and> e_seller_wallet (g e) = e_seller_wallet e \<and> e_amount (g e) = e_amount e"
    and rel: "0 \<le> e_released (g e)" "e_released (g e) \<le> e_amount e"
    and ge: "deal_of (g e) = (deal_of e)\<lparr>d_status := q, d_left := e_amount e - e_released e - r\<rparr>"
    and q: "if r = e_amount e - e_released e then q = DCompleted else q = DActive \<and> e_status e = EActive"
  shows "wp (payout e0 (num r) (num f) (num (r - f)) md) (\<lambda>_. paid s i g w v r f) (\<lambda>_ _. True)
    (s\<lparr>escrows := upd_row e_id i g (escrows s)\<rparr>)"
proof -
  let ?s = "s\<lparr>escrows := upd_row e_id i g (escrows s)\<rparr>"
  have same_books: "platform ?s = platform s" "wallets ?s = wallets s" by (simp_all add: platform_def)
  have "e_amount e \<le> MAXU \<and> 0 \<le> e_released e" using rows_ok_row[OF db_invD(1)[OF inv] e] by blast
  then have "r \<le> MAXU" using r by linarith
  have keys: "distinct (map w_id (wallets ?s))" using db_invD(5)[OF inv] by simp
  show ?thesis
  proof (rule wp_mono[OF payout_books[OF keys f \<open>r \<le> MAXU\<close> w(1,2)]])
    fix x and t :: "'a escrow_db_scheme"
    assume "accounts t = post (platform ?s) f 0 (post v (r - f) 0 (post w (- r) (- r) (accounts ?s)))
        \<and> w \<in> dom (accounts ?s) \<and> v \<in> dom (accounts ?s) \<and> (f \<noteq> 0 \<longrightarrow> platform ?s \<in> dom (accounts ?s))
        \<and> distinct (map w_id (wallets t)) \<and> platform t = platform ?s \<and> escrows t = escrows ?s
        \<and> seq t = Suc (seq ?s) \<and> (\<exists>es. ledger t = ledger ?s @ es \<and> balanced es)"
    note t = this[unfolded same_books]
    have "deal_step (platform s) (accounts s, deals_of (escrows s))
        (post (platform s) f 0 (post v (r - f) 0 (post w (- r) (- r) (accounts s))),
         (deals_of (escrows s))(i \<mapsto> (deal_of e)\<lparr>d_status := q, d_left := d_left (deal_of e) - r\<rparr>))"
      by (rule pay) (use t r f w q st deal_of_row[OF e] deal_of_open[OF st] in
          \<open>auto simp: deal_of_def split: if_splits simp del: post_apply\<close>)
    then have "deal_step (platform s) (abs s) (accounts t, (deals_of (escrows s))(i \<mapsto> deal_of (g e)))"
      using t deal_of_open[OF st] unfolding abs_def ge by simp
    with t have "refines s t"
      by (intro refines_row[OF db_invD(1)[OF inv] e _ _ _ _ same rel]) simp_all
    with t show "paid s i g w v r f t" by (simp add: paid_def payout_of_def del: post_apply)
  qed simp
qed

lemma refines_cache: "rows_ok s \<Longrightarrow> refines s (s\<lparr>fee_cache := c\<rparr>)"
  by (rule refines_same) simp_all

text \<open>A release of the contract of \<open>e0\<close>, whose row is \<open>e\<close> by now.\<close>

lemma release_tx_spec:
  fixes s :: "'a escrow_db_scheme"
  assumes inv: "db_inv s" and tr: "tracks s e0" and e: "escrow_by_id s (e_id e0) = Some e"
    and w: "e_buyer_wallet e0 = Some w" "e_seller_wallet e0 = Some v" and rl: "half_percent rl"
    and r: "r = e_amount e - e_released e"
  shows "wp (release_tx e0 res rl) (\<lambda>_. paid s (e_id e0) (complete_escrow (now s) res) w v r (fee_units rl (num r) 2))
    (\<lambda>_ t. refines s t \<and> (\<exists>c. t = s\<lparr>fee_cache := c\<rparr>)) s"
proof -
  note ok = db_invD(1)[OF inv]
  have e': "e_buyer_wallet e = Some w" "e_seller_wallet e = Some v"
    using tr w e by (auto simp: tracks_def parties_def)
  note row = rows_ok_row[OF ok e]
  let ?g = "complete_escrow (now s) res" and ?f = "fee_units rl (num r) 2"
  let ?s = "s\<lparr>escrows := upd_row e_id (e_id e0) ?g (escrows s)\<rparr>"
  have rem: "remainingAmount (?g e) = num r" using row by (simp add: remaining_units r)
  have look: "escrow_by_id ?s (e_id e0) = Some (?g e)" using e by (simp add: escrow_by_id_def)
  have f: "0 \<le> ?f" "?f \<le> r" using fee_units_half[OF rl, of r] row r by auto
  have net: "toFixed 8 (fl (num r - num ?f)) = num (r - ?f)"
    by (rule toFixed8_diff) (use f row r in linarith)+
  show ?thesis
  proof (cases "e_status e = claimable res")
    case False
    have "\<exists>c. s = s\<lparr>fee_cache := c\<rparr>" by (rule exI[of _ "fee_cache s"]) simp
    with False show ?thesis using e refines_refl[OF ok] unfolding release_tx_def by (simp add: wp_simps)
  next
    case True
    then have st: "e_status e = EActive \<or> e_status e = EDisputed" by (simp add: claimable_def split: if_splits)
    show ?thesis
    proof (cases "r = 0")
      case zero: True
      have "deal_of (?g e) = (deal_of e)\<lparr>d_status := DCompleted\<rparr>" using zero st r by (auto simp: deal_of_def)
      then have "deal_step (platform s) (abs s) (accounts ?s, (deals_of (escrows s))(e_id e0 \<mapsto> deal_of (?g e)))"
        unfolding abs_def using deal_of_row[OF e] deal_of_open[OF st] zero r by (auto intro: close)
      then have "refines s ?s" using ok row db_invD(5)[OF inv]
        by (intro refines_row[OF ok e, where g = "?g"]) (simp_all add: platform_def)
      moreover have "?f = 0" using zero by (simp add: fee_units_def)
      ultimately have "paid s (e_id e0) ?g w v r ?f ?s"
        using zero by (simp add: paid_def payout_of_def balanced_def)
      with True zero e rem look show ?thesis unfolding release_tx_def by (simp add: wp_simps)
    next
      case False
      then have pos: "0 < r" using row r by simp
      have "wp (payout e0 (num r) (num ?f) (num (r - ?f)) (user_meta e0)) (\<lambda>_. paid s (e_id e0) ?g w v r ?f)
          (\<lambda>e t. refines s (s\<lparr>fee_cache := fee_cache t\<rparr>) \<and> (\<exists>c. s\<lparr>fee_cache := fee_cache t\<rparr> = s\<lparr>fee_cache := c\<rparr>)) ?s"
        by (rule wp_mono[OF payout_paid[where g = "?g" and q = DCompleted, OF inv e st w e' pos _ f]])
          (use row r in \<open>auto simp: refines_cache[OF ok] deal_of_def\<close>)
      then show ?thesis using True pos e rem look net unfolding release_tx_def
        by (simp add: wp_simps computeFee_units)
    qed
  qed
qed

lemma release_tx_refines:
  assumes "db_inv s" "tracks s e0" "e_buyer_wallet e0 = Some w" "e_seller_wallet e0 = Some v" "half_percent rl"
  shows "wp (release_tx e0 res rl) (\<lambda>_. refines s) (\<lambda>_. refines s) s"
proof -
  obtain e where "escrow_by_id s (e_id e0) = Some e" using assms(2) by (auto simp: tracks_def parties_def)
  from release_tx_spec[OF assms(1,2) this assms(3-5) refl] show ?thesis
    by (rule wp_mono) (auto simp: paid_def)
qed

end
