(* ===== verification/Escrow_Safety.thy ===== *)
theory Escrow_Safety
  imports Escrow_Books
begin

text \<open>
  Every escrow operation refines the abstract escrow.  \<open>safe\<close> is the contract of an operation
  (an instance of \<open>step_contract\<close>): from a database in order it takes abstract steps to a
  database in order, whether it returns or throws.  \<open>safe_with e\<close> is the same contract for
  an operation on a row that was read earlier.
\<close>

section \<open>Operations that keep the database in order\<close>

abbreviation half_rules :: "'a core_scheme \<Rightarrow> bool" where
  "half_rules \<equiv> rules_ok half_percent {EscrowCreation, EscrowReleaseFee, TransferFee, Merchant}"

definition good :: "'a escrow_db_scheme \<Rightarrow> 'a escrow_db_scheme \<Rightarrow> bool" where
  "good s t \<longleftrightarrow> refines s t \<and> half_rules t"

lemma good_inv: "db_inv s \<Longrightarrow> good s t \<Longrightarrow> db_inv t"
  unfolding db_inv_def good_def refines_def
  using deal_steps_inv[of "platform s" "abs s" "abs t"] deal_steps_tot[of "platform s" "abs s" "abs t"]
  by (auto simp: abs_def)

lemma good_refl: "db_inv s \<Longrightarrow> good s s"
  by (simp add: good_def db_inv_def refines_refl)

lemma good_trans: "good s t \<Longrightarrow> good t u \<Longrightarrow> good s u"
  unfolding good_def using refines_trans by blast

lemma good_same:
  "db_inv s \<Longrightarrow> escrows t = escrows s \<Longrightarrow> wallets t = wallets s \<Longrightarrow> seq t = seq s
    \<Longrightarrow> platform_id (users t) (wallets t) = platform_id (users s) (wallets s) \<Longrightarrow> half_rules t \<Longrightarrow> good s t"
  by (simp add: good_def refines_same db_invD)

lemma good_quiet:
  assumes "good s t" shows "good s (t\<lparr>outbox := x, cache := c\<rparr>)"
proof -
  have "half_rules (t\<lparr>outbox := x, cache := c\<rparr>)"
    using assms unfolding good_def by (auto elim!: rules_ok_cong simp: same_fees_def)
  moreover have "refines t (t\<lparr>outbox := x, cache := c\<rparr>)"
    using assms by (intro refines_same) (simp_all add: good_def refines_def)
  ultimately show ?thesis using assms refines_trans unfolding good_def by blast
qed

abbreviation safe :: "('a escrow_db_scheme, 'b) op \<Rightarrow> bool" where
  "safe \<equiv> safe_op db_inv good"

interpretation escrow_contract: step_contract db_inv good
  by unfold_locales (auto intro: good_refl good_trans good_inv)

named_theorems safe_intros

lemmas [safe_intros] = escrow_contract.safe_rules

lemma wp_good:
  "wp m (\<lambda>_. refines s) (\<lambda>_. refines s) s \<Longrightarrow> preserves half_rules m \<Longrightarrow> db_inv s
    \<Longrightarrow> wp m (\<lambda>_. good s) (\<lambda>_. good s) s"
  unfolding good_def by (rule wp_conj) (auto simp: db_inv_def intro: preserves_wp)

lemma safe_quiet: "quiet m \<Longrightarrow> safe m"
  by (rule escrow_contract.safeI, erule wp_quiet) (auto intro: good_quiet good_refl)

lemma safe_emit [safe_intros]: "safe (emit e)"
  by (rule safe_quiet[OF quiet_emit])

lemma safe_emit_to [safe_intros]: "safe (emit_to u f)"
  unfolding emit_to_def by (intro safe_intros)

text \<open>Operations that only touch other tables.\<close>

lemma safe_other:
  assumes "\<And>s. wp m (\<lambda>_ t. escrows t = escrows s \<and> wallets t = wallets s \<and> seq t = seq s
      \<and> platform_id (users t) (wallets t) = platform_id (users s) (wallets s))
    (\<lambda>_ t. escrows t = escrows s \<and> wallets t = wallets s \<and> seq t = seq s
      \<and> platform_id (users t) (wallets t) = platform_id (users s) (wallets s)) s"
    and "preserves half_rules m"
  shows "safe m"
proof (rule escrow_contract.safeI)
  fix s :: "'a escrow_db_scheme"
  assume s: "db_inv s"
  show "wp m (\<lambda>_. good s) (\<lambda>_. good s) s"
    by (rule wp_good[OF wp_mono[OF assms(1)] assms(2) s]) (auto intro: refines_same db_invD(1)[OF s])
qed

lemma safe_authorize [safe_intros]: "safe (escrow_authorize X u dto)"
proof (rule safe_other)
  fix s :: "'a escrow_db_scheme"
  show "wp (escrow_authorize X u dto) (\<lambda>_ t. escrows t = escrows s \<and> wallets t = wallets s \<and> seq t = seq s
      \<and> platform_id (users t) (wallets t) = platform_id (users s) (wallets s))
    (\<lambda>_ t. escrows t = escrows s \<and> wallets t = wallets s \<and> seq t = seq s
      \<and> platform_id (users t) (wallets t) = platform_id (users s) (wallets s)) s"
    unfolding escrow_authorize_def
    by (auto simp: wp_simps intro!: verifyPin_frame verifyDevice_frame)
next
  show "preserves half_rules (escrow_authorize X u dto :: ('a escrow_db_scheme, unit) op)"
    unfolding escrow_authorize_def verifyDevice_def verifyPin_def Let_def by (intro pres)
qed

lemma safe_verifyPin [safe_intros]: "safe (verifyPin X u pin)"
proof (rule safe_other)
  fix s :: "'a escrow_db_scheme"
  show "wp (verifyPin X u pin) (\<lambda>_ t. escrows t = escrows s \<and> wallets t = wallets s \<and> seq t = seq s
      \<and> platform_id (users t) (wallets t) = platform_id (users s) (wallets s))
    (\<lambda>_ t. escrows t = escrows s \<and> wallets t = wallets s \<and> seq t = seq s
      \<and> platform_id (users t) (wallets t) = platform_id (users s) (wallets s)) s"
    by (rule verifyPin_frame) simp_all
next
  show "preserves half_rules (verifyPin X u pin :: ('a escrow_db_scheme, unit) op)"
    unfolding verifyPin_def Let_def by (intro pres)
qed

lemma safe_rules [safe_intros]: "safe (ruleFor k)" "safe (feeFor k a dp)"
  by (rule safe_other; simp add: wp_simps pres)+

lemma safe_getEscrow [safe_intros]: "safe (getEscrowOrFail i)"
  unfolding getEscrowOrFail_def by (intro safe_intros)


section \<open>Operations on a row read before\<close>

abbreviation safe_with :: "escrow \<Rightarrow> ('a escrow_db_scheme, 'b) op \<Rightarrow> bool" where
  "safe_with e \<equiv> safe_op (\<lambda>s. db_inv s \<and> tracks s e) good"

lemma good_tracks: "good s t \<Longrightarrow> tracks s e \<Longrightarrow> tracks t e"
  unfolding good_def using tracks_refines by blast

interpretation tracked: step_contract "\<lambda>s. db_inv s \<and> tracks s e" good
  by unfold_locales (auto intro: good_refl good_trans good_inv good_tracks)

lemma safe_weaken: "safe m \<Longrightarrow> safe_with e m"
  by (simp add: safe_op_def)

lemma tracks_self: "rows_ok s \<Longrightarrow> escrow_by_id s i = Some e \<Longrightarrow> tracks s e"
  using rows_ok_row[of s i e] by (auto simp: tracks_def parties_def)

lemma safe_read:
  assumes "\<And>e. safe_with e (f e)" shows "safe (bnd (getEscrowOrFail i) f)"
proof (rule escrow_contract.safeI)
  fix s :: "'a escrow_db_scheme"
  assume s: "db_inv s"
  have "wp (f e) (\<lambda>_. good s) (\<lambda>_. good s) s" if "escrow_by_id s i = Some e" for e
    using tracked.safeD[OF assms] s tracks_self[OF db_invD(1)[OF s] that] by blast
  then show "wp (bnd (getEscrowOrFail i) f) (\<lambda>_. good s) (\<lambda>_. good s) s"
    using good_refl[OF s] by (auto simp: getEscrowOrFail_def wp_simps split: option.split)
qed

section \<open>Releases\<close>

lemma wp_transaction_good:
  assumes "wp m (\<lambda>_. refines s) (\<lambda>_ _. True) s" "db_inv s"
    "preserves half_rules m"
  shows "wp (transaction m) (\<lambda>_. good s) (\<lambda>_. good s) s"
proof (rule wp_good[OF _ _ assms(2)])
  show "wp (transaction m) (\<lambda>_. refines s) (\<lambda>_. refines s) s"
    unfolding wp_transaction by (rule wp_mono[OF assms(1)]) (auto intro: refines_cache db_invD(1)[OF assms(2)])
  show "preserves half_rules (transaction m)" by (intro pres assms rules_ok_cache)
qed

lemma pres_escrow [pres]:
  "preserves (rules_ok P K) (escrow_update i f)" "preserves (rules_ok P K) (escrow_claim i sts f)"
  "preserves (rules_ok P K) (claim_part i part)"
proof -
  show "preserves (rules_ok P K) (escrow_update i f)"
    unfolding escrow_update_def by (rule rules_ok_modify) (simp add: same_fees_def)
  show "preserves (rules_ok P K) (escrow_claim i sts f)"
    by (rule preservesI) (auto simp: wp_simps same_fees_def elim!: rules_ok_cong split: option.split)
  show "preserves (rules_ok P K) (claim_part i part)"
    by (rule preservesI) (auto simp: claim_part_def wp_def same_fees_def elim!: rules_ok_cong split: option.split)
qed

lemma pres_charge [pres]: "preserves (rules_ok P K) (charge_platform x)"
  unfolding charge_platform_def creditSuperadminWalletInTx_def getSuperadminWalletInTx_def by (intro pres)

lemma pres_payout [pres]: "preserves (rules_ok P K) (payout e a c n md)"
  unfolding payout_def wallet_update_opt_def by (intro pres)

lemma release_tx_safe:
  assumes "e_buyer_wallet e0 = Some w" "e_seller_wallet e0 = Some v" "half_percent rl"
  shows "safe_with e0 (release_tx e0 res rl)"
proof (rule tracked.safeI, elim conjE)
  fix s :: "'a escrow_db_scheme"
  assume s: "db_inv s" "tracks s e0"
  show "wp (release_tx e0 res rl) (\<lambda>_. good s) (\<lambda>_. good s) s"
    by (rule wp_good[OF release_tx_refines[OF s assms] _ s(1)])
      (unfold release_tx_def Let_def, intro pres rules_ok_cache)
qed

lemma executeRelease_safe: "safe_with e0 (executeRelease e0 res)"
proof (cases "e_buyer_wallet e0 = None \<or> e_seller_wallet e0 = None \<or> num (e_amount e0) \<le> 0")
  case True
  then show ?thesis unfolding executeRelease_def by (auto intro!: tracked.safe_rules)
next
  case False
  then obtain w v where w: "e_buyer_wallet e0 = Some w" "e_seller_wallet e0 = Some v" by auto
  let ?tail = "release_announce e0"
  have tail: "safe_with e0 (release_announce e0 result)" for result
    unfolding release_announce_def by (rule safe_weaken) (intro safe_intros)
  have body: "half_percent rl \<Longrightarrow> safe_with e0 (bnd (release_tx e0 res rl) ?tail)" for rl
    by (intro tracked.safe_bnd release_tx_safe[OF w] tail)
  show ?thesis
  proof (rule tracked.safeI, elim conjE)
    fix s :: "'a escrow_db_scheme"
    assume s: "db_inv s" "tracks s e0"
    have g: "good s (s\<lparr>fee_cache := next_cache s\<rparr>)"
      using escrow_contract.safeD[OF safe_rules(1)[of EscrowReleaseFee] s(1)] by (simp add: wp_simps)
    have "wp (bnd (release_tx e0 res (rule_in s EscrowReleaseFee)) ?tail) (\<lambda>_. good s) (\<lambda>_. good s)
        (s\<lparr>fee_cache := next_cache s\<rparr>)"
      by (rule tracked.safe_from[OF body _ g]) (use s db_invD(4)[OF s(1)] in auto)
    moreover have "(executeRelease e0 res :: ('a escrow_db_scheme, unit) op) = bnd (ruleFor EscrowReleaseFee) (\<lambda>rl. bnd (release_tx e0 res rl) ?tail)"
      using False by (auto simp: executeRelease_def)
    ultimately show "wp (executeRelease e0 res) (\<lambda>_. good s) (\<lambda>_. good s) s"
      by (simp only: wp_bnd wp_ruleFor)
  qed
qed

section \<open>Refunds\<close>

text \<open>A refund unlocks what is left of the contract.\<close>

definition refunded :: "'a escrow_db_scheme \<Rightarrow> nat \<Rightarrow> (escrow \<Rightarrow> escrow) \<Rightarrow> nat option \<Rightarrow> int \<Rightarrow> 'a escrow_db_scheme \<Rightarrow> bool" where
  "refunded s i g w r t \<longleftrightarrow> refines s t \<and> escrows t = upd_row e_id i g (escrows s)
     \<and> (\<exists>w'. w = Some w' \<and> accounts t = post w' 0 (- r) (accounts s))"

lemma refund_tx_spec:
  fixes s :: "'a escrow_db_scheme"
  assumes inv: "db_inv s" and tr: "tracks s e0" and row: "escrow_by_id s (e_id e0) = Some e"
  shows "wp (refund_tx e0 res) (\<lambda>_. refunded s (e_id e0) (refund_escrow (now s) res) (e_buyer_wallet e0) (e_amount e - e_released e))
    (\<lambda>_. refines s) s"
proof -
  note ok = db_invD(1)[OF inv]
  have e: "escrow_by_id s (e_id e0) = Some e" "e_buyer_wallet e = e_buyer_wallet e0"
    using tr row by (auto simp: tracks_def parties_def)
  note row = rows_ok_row[OF ok e(1)]
  let ?r = "e_amount e - e_released e" and ?g = "refund_escrow (now s) res"
  let ?s = "s\<lparr>escrows := upd_row e_id (e_id e0) ?g (escrows s)\<rparr>"
  have rem: "remainingAmount (?g e) = num ?r" using row by (simp add: remaining_units)
  have look: "escrow_by_id ?s (e_id e0) = Some (?g e)" using e(1) by (simp add: escrow_by_id_def)
  have u: "\<bar>?r\<bar> \<le> MAXU" using row by auto
  show ?thesis
  proof (cases "e_status e = claimable res")
    case False
    then show ?thesis using e refines_refl[OF ok] refines_cache[OF ok]
      unfolding refund_tx_def by (simp add: wp_simps)
  next
    case st: True
    then have op: "e_status e = EActive \<or> e_status e = EDisputed" by (simp add: claimable_def split: if_splits)
    show ?thesis
    proof (cases "Option.bind (e_buyer_wallet e0) (wallet_by_id s)")
      case None
      with st e rem look refines_cache[OF ok] show ?thesis unfolding refund_tx_def wallet_update_opt_def
        by (auto simp: wp_simps wallet_by_id_def Option.bind_eq_None_conv split: option.split)
    next
      case (Some w)
      then obtain i where i: "e_buyer_wallet e0 = Some i" "wallet_by_id s i = Some w" "w_id w = i"
        by (auto simp: Option.bind_eq_Some_conv dest: wallet_by_id_Some)
      have "deal_step (platform s) (accounts s, deals_of (escrows s)) (post i 0 (- d_left (deal_of e)) (accounts s),
          (deals_of (escrows s))(e_id e0 \<mapsto> (deal_of e)\<lparr>d_status := DRefunded, d_left := 0\<rparr>))"
        by (rule refund) (use deal_of_row[OF e(1)] deal_of_open[OF op] e i accounts_wallet[OF i(2)] in auto)
      then have step: "deal_step (platform s) (abs s) (post i 0 (- ?r) (accounts s), (deals_of (escrows s))(e_id e0 \<mapsto> deal_of (?g e)))"
        using deal_of_open[OF op] by (simp add: abs_def deal_of_def)
      have fin: "refunded s (e_id e0) ?g (Some i) ?r t"
        if t: "escrows t = upd_row e_id (e_id e0) ?g (escrows s)" "wallets t = upd_row w_id i (dec_locked (num ?r)) (wallets s)"
          "users t = users s" "seq t = Suc (seq s)" for t :: "'a escrow_db_scheme"
      proof -
        have "refines s t" by (rule refines_row[OF ok e(1), where g = ?g])
          (use t db_invD(5)[OF inv] row u step in \<open>simp_all add: platform_def del: post_apply\<close>)
        with t u i show ?thesis by (simp add: refunded_def del: post_apply)
      qed
      from i st e rem look show ?thesis unfolding refund_tx_def wallet_update_opt_def
        by (simp add: wp_simps wallet_by_id_def) (rule fin; simp)
    qed
  qed
qed

lemma refund_tx_refines:
  assumes "db_inv s" "tracks s e0" shows "wp (refund_tx e0 res) (\<lambda>_. refines s) (\<lambda>_. refines s) s"
proof -
  obtain e where "escrow_by_id s (e_id e0) = Some e" using assms(2) by (auto simp: tracks_def parties_def)
  from refund_tx_spec[OF assms this] show ?thesis by (rule wp_mono) (auto simp: refunded_def)
qed

lemma refund_tx_safe: "safe_with e0 (refund_tx e0 res)"
proof (rule tracked.safeI, elim conjE)
  fix s :: "'a escrow_db_scheme"
  assume s: "db_inv s" "tracks s e0"
  show "wp (refund_tx e0 res) (\<lambda>_. good s) (\<lambda>_. good s) s"
    by (rule wp_good[OF refund_tx_refines[OF s] _ s(1)])
      (unfold refund_tx_def Let_def wallet_update_opt_def, intro pres rules_ok_cache)
qed

lemma executeRefund_safe: "safe_with e0 (executeRefund e0 res)"
proof -
  have "safe (refund_announce e0 res r)" for r unfolding refund_announce_def by (intro safe_intros)
  then show ?thesis unfolding executeRefund_def by (intro tracked.safe_bnd refund_tx_safe safe_weaken)
qed

section \<open>Other operations on one contract\<close>

text \<open>An update that only changes the status of a contract, with no money moved.\<close>

lemma refines_status:
  assumes ok: "rows_ok s" and row: "escrow_by_id s i = Some e"
    and t: "escrows t = upd_row e_id i g (escrows s)" "wallets t = wallets s" "users t = users s" "seq t = seq s"
    and same: "\<And>e. e_id (g e) = e_id e \<and> e_buyer_wallet (g e) = e_buyer_wallet e
        \<and> e_seller_wallet (g e) = e_seller_wallet e \<and> e_amount (g e) = e_amount e \<and> e_released (g e) = e_released e"
    and step: "e_status e = EActive \<and> e_status (g e) = EDisputed \<or> e_status e = EPending \<and> e_status (g e) = ECancelled"
  shows "refines s t"
proof -
  note r = rows_ok_row[OF ok row] and d = deal_of_row[OF row]
  have st: "deal_step (platform s) (abs s) (accounts s, (deals_of (escrows s))(i \<mapsto> deal_of (g e)))"
    using step
  proof
    assume "e_status e = EActive \<and> e_status (g e) = EDisputed"
    then have "deal_of (g e) = (deal_of e)\<lparr>d_status := DDisputed\<rparr>" "d_status (deal_of e) = DActive"
      by (simp_all add: deal_of_def same)
    then show ?thesis unfolding abs_def by (auto intro: dispute d)
  next
    assume "e_status e = EPending \<and> e_status (g e) = ECancelled"
    then have "deal_of (g e) = (deal_of e)\<lparr>d_status := DCancelled\<rparr>" "d_status (deal_of e) = DPending"
      by (simp_all add: deal_of_def same)
    then show ?thesis unfolding abs_def by (auto intro: cancel d)
  qed
  show ?thesis
    by (rule refines_row[OF ok row _ t(1)]) (use ok t r st same[of e] same in \<open>auto simp: rows_ok_def platform_def\<close>)
qed

lemma getEscrow_status:
  assumes "\<And>s e. db_inv s \<Longrightarrow> escrow_by_id s i = Some e \<Longrightarrow> wp (f e) (\<lambda>_. good s) (\<lambda>_. good s) s"
  shows "safe (bnd (getEscrowOrFail i) f)"
  by (rule escrow_contract.safeI)
    (use assms good_refl in \<open>auto simp: getEscrowOrFail_def wp_simps split: option.split\<close>)

lemma half_rules_same: "half_rules s \<Longrightarrow> same_fees s t \<Longrightarrow> fee_cache t = fee_cache s \<Longrightarrow> half_rules t"
  by (rule rules_ok_cong)

lemma db_inv_rules: "db_inv s \<Longrightarrow> half_rules s"
  by (simp add: db_inv_def)

lemma escrow_cancel_safe: "safe (escrow_cancel i u)"
  unfolding escrow_cancel_def
proof (rule getEscrow_status)
  fix s :: "'a escrow_db_scheme" and e
  assume s: "db_inv s" "escrow_by_id s i = Some e"
  let ?t = "s\<lparr>escrows := upd_row e_id i (\<lambda>e. e\<lparr>e_status := ECancelled\<rparr>) (escrows s)\<rparr>"
  have g: "good s ?t" if "e_status e = EPending" unfolding good_def
    by (rule conjI, rule refines_status[OF db_invD(1)[OF s(1)] s(2), where g = "\<lambda>e. e\<lparr>e_status := ECancelled\<rparr>"])
      (use that half_rules_same[OF db_inv_rules[OF s(1)], of ?t] in \<open>simp_all add: same_fees_def\<close>)
  have "good s (?t\<lparr>outbox := x\<rparr>)" if "e_status e = EPending" for x
    using good_quiet[OF g[OF that], where x = x and c = "cache ?t"] by simp
  with g good_refl[OF s(1)]
  show "wp (if e_buyer e \<noteq> Some u then throw (Forbidden ''Only buyer can cancel'')
     else if e_status e = EActive
     then throw (BadRequest ''Cannot cancel a funded escrow. Raise a dispute instead.'')
     else if e_status e \<noteq> EPending then throw (BadRequest ''Cannot cancel escrow with this status'')
     else thn (escrow_update i (\<lambda>e. e\<lparr>e_status := ECancelled\<rparr>))
       (case e_seller e of
          None \<Rightarrow> throw (BadRequest ''Escrow has no seller'')
        | Some u \<Rightarrow> emit (Notification u ''escrow_cancelled'' (Some i)))) (\<lambda>_. good s) (\<lambda>_. good s) s"
    by (auto simp: wp_simps escrow_update_def split: option.split)
qed

lemma addMessage_safe: "safe (addMessage i u m)"
  unfolding addMessage_def Let_def
proof (rule getEscrow_status)
  fix s :: "'a escrow_db_scheme" and e
  assume s: "db_inv s"
  have "good s (s\<lparr>messages := x\<rparr>)" for x
    by (rule good_same[OF s])
      (use half_rules_same[OF db_inv_rules[OF s], of "s\<lparr>messages := x\<rparr>"] in \<open>simp_all add: same_fees_def\<close>)
  then show "wp (if e_buyer e \<noteq> Some u \<and> e_seller e \<noteq> Some u then throw (Forbidden ''Not a party to this escrow'')
     else thn (modify (\<lambda>s. s\<lparr>messages := messages s @ [\<lparr>em_escrow = i, em_sender = u, em_text = m, em_attachment = None\<rparr>]\<rparr>))
       (ret \<lparr>em_escrow = i, em_sender = u, em_text = m, em_attachment = None\<rparr>)) (\<lambda>_. good s) (\<lambda>_. good s) s"
    using good_refl[OF s] by (simp add: wp_simps)
qed

lemma safe_transaction:
  assumes "\<And>s. db_inv s \<Longrightarrow> wp m (\<lambda>_. refines s) (\<lambda>_ _. True) s" "preserves half_rules m"
  shows "safe (transaction m)"
  by (rule escrow_contract.safeI) (intro wp_transaction_good assms)

lemma dispute_escrow_simps [simp]:
  "e_id (dispute_escrow t r b u m e) = e_id e" "e_buyer_wallet (dispute_escrow t r b u m e) = e_buyer_wallet e"
  "e_seller_wallet (dispute_escrow t r b u m e) = e_seller_wallet e" "e_amount (dispute_escrow t r b u m e) = e_amount e"
  "e_released (dispute_escrow t r b u m e) = e_released e" "e_status (dispute_escrow t r b u m e) = EDisputed"
  by (simp_all add: dispute_escrow_def)

lemma rules_ok_messages [pres]: "preserves (rules_ok P K) (modify (\<lambda>s. s\<lparr>messages := f s\<rparr>))"
    "preserves (rules_ok P K) (modify (\<lambda>s. s\<lparr>audit := g s\<rparr>))"
  by (rule rules_ok_modify; simp add: same_fees_def)+

lemma dispute_tx_safe:
  "safe (transaction
       (bnd (gets now) (\<lambda>t.
        bnd (escrow_claim i [EActive] (dispute_escrow t reason uid url mime)) (\<lambda>count.
        if count \<noteq> 1 then throw (BadRequest ''Can only dispute an active escrow'')
        else modify (\<lambda>s. s\<lparr>messages := messages s @ f s\<rparr>)))))"
proof (rule safe_transaction)
  fix s :: "'a escrow_db_scheme"
  assume s: "db_inv s"
  note ok = db_invD(1)[OF s]
  have "refines s (s\<lparr>escrows := upd_row e_id i (dispute_escrow (now s) reason uid url mime) (escrows s), messages := x\<rparr>)"
    if "escrow_by_id s i = Some e" "e_status e = EActive" for e x
    by (rule refines_status[OF ok that(1), where g = "dispute_escrow (now s) reason uid url mime"]) (use that in simp_all)
  with refines_refl[OF ok] show "wp (bnd (gets now) (\<lambda>t.
        bnd (escrow_claim i [EActive] (dispute_escrow t reason uid url mime)) (\<lambda>count.
        if count \<noteq> 1 then throw (BadRequest ''Can only dispute an active escrow'')
        else modify (\<lambda>s. s\<lparr>messages := messages s @ f s\<rparr>)))) (\<lambda>_. refines s) (\<lambda>_ _. True) s"
    by (auto simp: wp_simps split: option.split)
qed (intro pres)

lemma safe_upload [safe_intros]: "safe (uploadDisputeAttachment S i m d)"
  unfolding uploadDisputeAttachment_def by (intro safe_intros)

lemma escrow_dispute_safe: "safe (escrow_dispute S i u dto)"
  unfolding escrow_dispute_def Let_def by (intro safe_intros dispute_tx_safe)

lemma safe_audit: "safe (modify (\<lambda>s. s\<lparr>audit := f s\<rparr>))"
proof (rule safe_other)
  fix s :: "'a escrow_db_scheme"
  show "wp (modify (\<lambda>s. s\<lparr>audit := f s\<rparr>)) (\<lambda>_ t. escrows t = escrows s \<and> wallets t = wallets s \<and> seq t = seq s
      \<and> platform_id (users t) (wallets t) = platform_id (users s) (wallets s))
    (\<lambda>_ t. escrows t = escrows s \<and> wallets t = wallets s \<and> seq t = seq s
      \<and> platform_id (users t) (wallets t) = platform_id (users s) (wallets s)) s" by (simp add: wp_simps)
qed (intro pres)


lemma safe_found:
  assumes "\<And>e. safe_with e (f e)" "safe g"
  shows "safe (bnd (gets (\<lambda>s. escrow_by_id s i)) (\<lambda>x. case x of None \<Rightarrow> g | Some e \<Rightarrow> f e))"
proof (rule escrow_contract.safeI)
  fix s :: "'a escrow_db_scheme"
  assume s: "db_inv s"
  have "wp (f e) (\<lambda>_. good s) (\<lambda>_. good s) s" if "escrow_by_id s i = Some e" for e
    using tracked.safeD[OF assms(1)] s tracks_self[OF db_invD(1)[OF s] that] by blast
  with escrow_contract.safeD[OF assms(2) s]
  show "wp (bnd (gets (\<lambda>s. escrow_by_id s i)) (\<lambda>x. case x of None \<Rightarrow> g | Some e \<Rightarrow> f e)) (\<lambda>_. good s) (\<lambda>_. good s) s"
    by (auto simp: wp_bnd wp_gets split: option.split)
qed

lemma resolveDispute_safe: "safe (resolveDispute i adm b note)"
  unfolding resolveDispute_def
  by (rule safe_found) (intro tracked.safe_rules executeRelease_safe executeRefund_safe
      safe_weaken[OF safe_audit] escrow_contract.safe_throw)+

lemma escrow_release_safe: "safe (escrow_release X i u dto)"
  unfolding escrow_release_def
proof (rule safe_read)
  fix e
  have h: "safe (case x of BadRequest _ \<Rightarrow> bnd (getEscrowOrFail i) (\<lambda>latest.
              if e_buyer latest = Some u \<and> e_status latest = ECompleted
              then ret ''Escrow has already been released'' else throw x)
          | _ \<Rightarrow> throw x)" for x
  proof (cases x)
    case (BadRequest m)
    show ?thesis unfolding BadRequest err.case by (intro safe_intros)
  qed (simp_all add: escrow_contract.safe_throw)
  show "safe_with e (if e_buyer e \<noteq> Some u then throw (Forbidden ''Only the buyer can release'')
     else if e_status e = ECompleted then ret ''Escrow has already been released''
     else if e_status e \<noteq> EActive then throw (BadRequest ''Cannot release escrow with this status'')
     else thn (escrow_authorize X u dto)
       (catch (thn (executeRelease e None) (ret ''Escrow released to seller''))
         (\<lambda>error. case error of
            BadRequest _ \<Rightarrow> bnd (getEscrowOrFail i) (\<lambda>latest.
              if e_buyer latest = Some u \<and> e_status latest = ECompleted
              then ret ''Escrow has already been released'' else throw error)
          | _ \<Rightarrow> throw error)))"
    by (intro tracked.safe_rules safe_weaken[OF h] safe_weaken[OF safe_authorize] executeRelease_safe)
qed

end
