(* ===== verification/Escrow_Payments.thy ===== *)
theory Escrow_Payments
  imports Escrow_Safety
begin

text \<open>
  The escrow operations that create contracts and pay in parts, and the scheduler: each keeps the
  contract \<open>safe\<close> of theory Escrow_Safety.
\<close>

section \<open>The scheduler\<close>

lemma auto_release_wp:
  "db_inv s \<Longrightarrow> (\<forall>e\<in>set es. tracks s e) \<Longrightarrow> wp (auto_release_each es) (\<lambda>_. good s) (\<lambda>_. good s) s"
proof (induction es arbitrary: s)
  case Nil
  then show ?case by (simp add: wp_simps good_refl)
next
  case (Cons e es)
  have one: "safe_with e (catch (thn (executeRelease e None) (ret 1)) (\<lambda>_. ret (0::nat)))"
    by (intro tracked.safe_rules executeRelease_safe)
  show ?case unfolding auto_release_each.simps wp_bnd
  proof (rule wp_mono[OF tracked.safeD[OF one]])
    fix n t
    assume g: "good s t"
    have "wp (auto_release_each es) (\<lambda>_. good t) (\<lambda>_. good t) t"
      using Cons g by (intro Cons.IH) (auto intro: good_inv good_tracks)
    then show "wp (auto_release_each es) (\<lambda>m. wp (ret (n + m)) (\<lambda>_. good s) (\<lambda>_. good s)) (\<lambda>_. good s) t"
      by (rule wp_mono) (use g in \<open>auto simp: wp_simps intro: good_trans\<close>)
  qed (use Cons in auto)
qed

lemma tracks_row: "rows_ok s \<Longrightarrow> e \<in> set (escrows s) \<Longrightarrow> tracks s e"
  by (rule tracks_self[of s "e_id e"]) (auto simp: rows_ok_def escrow_by_id_def find_row_in)

lemma processAutoReleases_safe: "safe processAutoReleases"
proof (rule escrow_contract.safeI)
  fix s :: "'a escrow_db_scheme"
  assume s: "db_inv s"
  show "wp processAutoReleases (\<lambda>_. good s) (\<lambda>_. good s) s"
    unfolding processAutoReleases_def wp_bnd wp_gets
    by (rule auto_release_wp[OF s]) (use tracks_row[OF db_invD(1)[OF s]] in auto)
qed

section \<open>Partial releases\<close>

lemma js_dec_le: "js_dec x \<le> 10 ^ 7 \<Longrightarrow> x \<le> 10 ^ 7"
  using js_dec_cases[of x] fl_mono[of "js_dec x" "10 ^ 7"] by auto

lemma fixed2_units:
  assumes pos: "0 < toFixed 2 a" and le: "sql (toFixed 2 a) \<le> of_int MAXU"
  shows "\<exists>k. toFixed 2 a = num k \<and> 0 < k \<and> k \<le> MAXU"
proof -
  let ?p = "toFixed 2 a" and ?j = "rhaz (a * 10 ^ 2)"
  have "js_dec ?p \<le> 10 ^ 7" using le by (simp add: sql_def MAXU_def)
  then have p: "?p \<le> 10 ^ 7" by (rule js_dec_le)
  have "\<not> \<bar>a\<bar> \<ge> 10 ^ 21"
  proof
    assume "\<bar>a\<bar> \<ge> 10 ^ 21"
    then have a: "?p = a" by (simp only: toFixed_def if_True)
    from \<open>\<bar>a\<bar> \<ge> 10 ^ 21\<close> pos have "a \<ge> 10 ^ 21" unfolding a by linarith
    then show False using p unfolding a by simp
  qed
  then have "?p = fl (of_int ?j / 10 ^ 2)" by (simp only: toFixed_def if_False)
  then have j: "?p = fl (of_int ?j / 100)" by simp
  moreover have "(of_int (?j * 10 ^ 6) / 10 ^ 8 :: rat) = of_int ?j / 100" by simp
  ultimately have k: "?p = num (?j * 10 ^ 6)" by (simp only: num_def)
  have "?j * 10 ^ 6 \<le> MAXU"
  proof (rule ccontr)
    assume "\<not> ?j * 10 ^ 6 \<le> MAXU"
    then have "10 ^ 9 + 1 \<le> ?j" by (simp add: MAXU_def)
    then have "of_int (10 ^ 9 + 1) \<le> (of_int ?j :: rat)" by (simp only: of_int_le_iff)
    then have "fl (10 ^ 7 + 1 / 100) \<le> ?p" unfolding j by (intro fl_mono) simp
    with p fl_lower[of "10 ^ 7 + 1 / 100"] show False by simp
  qed
  moreover have "0 < ?j * 10 ^ 6" using pos k num_pos_iff by metis
  ultimately show ?thesis using k by blast
qed

lemma wp_claim_part [wp_simps]:
  "wp (claim_part i part) Q E s = (case escrow_by_id s i of
     Some e \<Rightarrow> if e_status e = EActive \<and> of_int (e_released e) + sql part \<le> of_int (e_amount e)
       then Q (Some (e\<lparr>e_released := dec_inc (e_released e) part\<rparr>))
         (s\<lparr>escrows := upd_row e_id i (\<lambda>e. e\<lparr>e_released := dec_inc (e_released e) part\<rparr>) (escrows s)\<rparr>)
       else Q None s
   | None \<Rightarrow> Q None s)"
  by (auto simp: claim_part_def wp_def split: option.splits if_splits)

lemma wp_escrow_update [wp_simps]:
  "wp (escrow_update i f) Q E s = Q () (s\<lparr>escrows := upd_row e_id i f (escrows s)\<rparr>)"
  by (simp add: escrow_update_def wp_simps)

text \<open>The row after a part of \<open>k\<close> units, the last one or not.\<close>

definition take_part :: "int \<Rightarrow> bool \<Rightarrow> int \<Rightarrow> escrow \<Rightarrow> escrow" where
  "take_part t done k e = (if done then complete_escrow t None (e\<lparr>e_released := e_released e + k\<rparr>)
     else e\<lparr>e_released := e_released e + k\<rparr>)"

lemma take_part_simps [simp]:
  "e_id (take_part t b k e) = e_id e" "e_buyer_wallet (take_part t b k e) = e_buyer_wallet e"
  "e_seller_wallet (take_part t b k e) = e_seller_wallet e" "e_amount (take_part t b k e) = e_amount e"
  "e_released (take_part t b k e) = e_released e + k"
  "e_status (take_part t b k e) = (if b then ECompleted else e_status e)"
  by (simp_all add: take_part_def)

text \<open>What is paid is a whole number of units, and no more than is left.\<close>

lemma part_units:
  assumes "rows_ok s" "escrow_by_id s i = Some e" "part = toFixed 2 a" "0 < part"
    and le: "of_int (e_released e) + sql part \<le> of_int (e_amount e)"
  shows "\<exists>k. part = num k \<and> 0 < k \<and> k \<le> MAXU \<and> e_released e + k \<le> e_amount e"
proof -
  note row = rows_ok_row[OF assms(1,2)]
  have "of_int (e_amount e) \<le> (of_int MAXU :: rat)" "0 \<le> (of_int (e_released e) :: rat)"
    using row by (simp_all only: of_int_le_iff of_int_0_le_iff)
  with le have "sql part \<le> of_int MAXU" by linarith
  then obtain k where k: "part = num k" "0 < k" "k \<le> MAXU" using fixed2_units assms by blast
  with le have "of_int (e_released e + k) \<le> (of_int (e_amount e) :: rat)" by simp
  then have "e_released e + k \<le> e_amount e" by (simp only: of_int_le_iff)
  with k show ?thesis by blast
qed

lemma partial_tx_spec:
  fixes s :: "'a escrow_db_scheme"
  assumes inv: "db_inv s" and tr: "tracks s e0" and e: "escrow_by_id s (e_id e0) = Some e"
    and w: "e_buyer_wallet e0 = Some w" "e_seller_wallet e0 = Some v" and rl: "half_percent rl"
    and part: "part = toFixed 2 a" "0 < part"
  shows "wp (partial_tx e0 uid part (computeFee rl part 2) (toFixed 8 (fl (part - computeFee rl part 2))))
    (\<lambda>(e', completed, _) t. \<exists>k. part = num k \<and> 0 < k \<and> e_released e + k \<le> e_amount e
      \<and> e' = e\<lparr>e_released := e_released e + k\<rparr> \<and> completed = (e_released e + k = e_amount e)
      \<and> paid s (e_id e0) (take_part (now s) completed k) w v k (fee_units rl (num k) 2) t)
    (\<lambda>_. refines s) s"
proof (cases "e_status e = EActive \<and> of_int (e_released e) + sql part \<le> of_int (e_amount e)")
  case False
  show ?thesis unfolding partial_tx_def using e refines_cache[OF db_invD(1)[OF inv]] by (simp add: wp_simps False)
next
  case True
  note ok = db_invD(1)[OF inv]
  note row = rows_ok_row[OF ok e]
  have e': "e_buyer_wallet e = Some w" "e_seller_wallet e = Some v"
    using tr w e by (auto simp: tracks_def parties_def)
  obtain k where k: "part = num k" "0 < k" "k \<le> MAXU" and le: "e_released e + k \<le> e_amount e"
    using part_units[OF ok e part] True by blast
  then have u: "\<bar>k\<bar> \<le> MAXU" by simp
  define b where "b \<longleftrightarrow> e_released e + k = e_amount e"
  let ?f = "fee_units rl (num k) 2"
  have f: "0 \<le> ?f" "?f \<le> k" using fee_units_half[OF rl, of k] k by auto
  have net: "toFixed 8 (fl (num k - num ?f)) = num (k - ?f)"
    by (rule toFixed8_diff) (use f k in linarith)+
  have rem: "remainingAmount (e\<lparr>e_released := e_released e + k\<rparr>) = num (e_amount e - e_released e - k)"
    using row le k by (subst remaining_units) (simp_all add: algebra_simps)
  have d: "remainingAmount (e\<lparr>e_released := e_released e + k\<rparr>) \<le> 0 \<longleftrightarrow> b"
    unfolding rem num_nonpos_iff b_def using le by auto
  have "wp (payout e0 (num k) (num ?f) (num (k - ?f)) md) (\<lambda>_. paid s (e_id e0) (take_part (now s) b k) w v k ?f)
        (\<lambda>e t. refines s (s\<lparr>fee_cache := fee_cache t\<rparr>))
        (s\<lparr>escrows := upd_row e_id (e_id e0) (take_part (now s) b k) (escrows s)\<rparr>)" for md
    by (rule wp_mono[OF payout_paid[where g = "take_part (now s) b k" and q = "if b then DCompleted else DActive",
            OF inv e disjI1[OF conjunct1[OF True]] w e' k(2) _ f]])
      (use row le k True b_def in \<open>auto simp: refines_cache[OF ok] deal_of_def\<close>)
  then have pay: "wp (payout e0 part (num ?f) (num (k - ?f)) md) (\<lambda>_. paid s (e_id e0) (take_part (now s) b k) w v k ?f)
      (\<lambda>e t. refines s (s\<lparr>fee_cache := fee_cache t\<rparr>))
      (s\<lparr>escrows := upd_row e_id (e_id e0) (take_part (now s) b k) (escrows s)\<rparr>)" for md by (simp only: k(1))
  have eqs: "dec_inc n part = n + k" "computeFee rl part 2 = num ?f" "toFixed 8 (fl (part - num ?f)) = num (k - ?f)" for n
    using u net by (simp_all add: k(1) computeFee_units)
  have g: "take_part t True k = (\<lambda>e. complete_escrow t None (e\<lparr>e_released := e_released e + k\<rparr>))"
    "take_part t False k = (\<lambda>e. e\<lparr>e_released := e_released e + k\<rparr>)" for t
    by (simp_all add: take_part_def fun_eq_iff)
  let ?Q = "\<lambda>(e', completed, _) t. \<exists>k. part = num k \<and> 0 < k \<and> e_released e + k \<le> e_amount e
      \<and> e' = e\<lparr>e_released := e_released e + k\<rparr> \<and> completed = (e_released e + k = e_amount e)
      \<and> paid s (e_id e0) (take_part (now s) completed k) w v k (fee_units rl (num k) 2) t"
  have post: "wp (payout e0 part (num ?f) (num (k - ?f)) md)
      (\<lambda>a. wp (case a of (b1, b2, ref) \<Rightarrow> ret (e\<lparr>e_released := e_released e + k\<rparr>, b, b1, b2, ref)) ?Q
        (\<lambda>e t. refines s (s\<lparr>fee_cache := fee_cache t\<rparr>)))
      (\<lambda>e t. refines s (s\<lparr>fee_cache := fee_cache t\<rparr>))
      (s\<lparr>escrows := upd_row e_id (e_id e0) (take_part (now s) b k) (escrows s)\<rparr>)" for md
    by (rule wp_mono[OF pay]) (use k le b_def in \<open>auto simp: wp_ret split: prod.split intro!: exI[of _ k]\<close>)
  show ?thesis
  proof (cases b)
    case b: True
    from post show ?thesis
      by (simp only: partial_tx_def wp_transaction wp_bnd wp_claim_part e option.case if_P[OF True] Let_def wp_gets wp_thn
          d eqs b if_True wp_escrow_update g) (simp add: upd_row_upd_row)
  next
    case b: False
    from post show ?thesis
      by (simp only: partial_tx_def wp_transaction wp_bnd wp_claim_part e option.case if_P[OF True] Let_def wp_gets wp_thn
          d eqs b if_False wp_ret g)
  qed
qed

lemma partial_tx_refines:
  assumes "db_inv s" "tracks s e0" "e_buyer_wallet e0 = Some w" "e_seller_wallet e0 = Some v" "half_percent rl"
    "part = toFixed 2 a" "0 < part"
  shows "wp (partial_tx e0 uid part (computeFee rl part 2) (toFixed 8 (fl (part - computeFee rl part 2))))
    (\<lambda>_. refines s) (\<lambda>_. refines s) s"
proof -
  obtain e where "escrow_by_id s (e_id e0) = Some e" using assms(2) by (auto simp: tracks_def parties_def)
  from partial_tx_spec[OF assms(1,2) this assms(3-7)] show ?thesis
    by (rule wp_mono) (auto simp: paid_def)
qed

lemma partial_tx_safe:
  assumes "e_buyer_wallet e0 \<noteq> None" "e_seller_wallet e0 \<noteq> None" "half_percent rl"
    "part = toFixed 2 a" "0 < part"
  shows "safe_with e0 (partial_tx e0 uid part (computeFee rl part 2) (toFixed 8 (fl (part - computeFee rl part 2))))"
proof (rule tracked.safeI, elim conjE)
  fix s :: "'a escrow_db_scheme"
  assume s: "db_inv s" "tracks s e0"
  from assms obtain w v where w: "e_buyer_wallet e0 = Some w" "e_seller_wallet e0 = Some v" by auto
  show "wp (partial_tx e0 uid part (computeFee rl part 2) (toFixed 8 (fl (part - computeFee rl part 2))))
      (\<lambda>_. good s) (\<lambda>_. good s) s"
    by (rule wp_good[OF partial_tx_refines[OF s w assms(3-5)] _ s(1)])
      (unfold partial_tx_def Let_def, intro pres rules_ok_cache)
qed

text \<open>The fee read in between is one of a rule in force.\<close>

lemma tracked_fee:
  assumes "\<And>r. half_percent r \<Longrightarrow> safe_with e (g (computeFee r a dp))" "k \<in> {EscrowCreation, EscrowReleaseFee}"
  shows "safe_with e (bnd (feeFor k a dp) g)"
proof (rule tracked.safeI, elim conjE)
  fix s :: "'a escrow_db_scheme"
  assume s: "db_inv s" "tracks s e"
  have h: "half_percent (rule_in s k)" using db_invD[OF s(1)] assms(2) by auto
  have "good s (s\<lparr>fee_cache := next_cache s\<rparr>)"
    using escrow_contract.safeD[OF safe_rules(1)[of k] s(1)] by (simp add: wp_simps)
  then show "wp (bnd (feeFor k a dp) g) (\<lambda>_. good s) (\<lambda>_. good s) s"
    unfolding wp_bnd wp_feeFor by (intro tracked.safe_from[OF assms(1)[OF h]] conjI s)
qed

lemma pay_part_safe:
  assumes "\<not> (e_buyer_wallet e = None \<or> e_seller_wallet e = None)" "\<not> toFixed 2 a \<le> 0"
  shows "safe_with e (pay_part e u (toFixed 2 a))"
  unfolding pay_part_def Let_def
  by (rule tracked_fee, intro tracked.safe_bnd partial_tx_safe tracked.safe_case_prod)
    (use assms in \<open>auto intro!: safe_weaken safe_intros\<close>)

lemma releasePartial_safe: "safe (releasePartial X i u amount pin)"
proof (cases amount)
  case (Some a)
  show ?thesis unfolding releasePartial_def Some option.case Let_def
    by (cases "toFixed 2 a \<le> 0")
      (auto intro!: escrow_contract.safe_throw safe_read tracked.safe_throw tracked.safe_thn pay_part_safe
        safe_weaken[OF safe_verifyPin])
qed (simp add: releasePartial_def escrow_contract.safe_throw)

section \<open>Creation\<close>

lemma balance_bounds:
  assumes "db_inv s" "accounts s w = Some (b, l)"
  shows "0 \<le> l \<and> l \<le> b \<and> b \<le> MAXU"
proof -
  have o: "ok (accounts s)" and t: "tot (accounts s) \<le> MAXU"
    using assms(1) by (auto simp: db_inv_def abs_def dest: deals_invD)
  have "fst (the (accounts s w)) \<le> tot (accounts s)" unfolding tot_def
    using assms(2) o by (intro member_le_sum) (auto dest: okD)
  with okD[OF o assms(2)] t assms(2) show ?thesis by simp
qed

lemma refines_append:
  assumes ok: "rows_ok s" and keys: "distinct (map w_id (wallets t))"
    and t: "escrows t = escrows s @ [c]" "seq s < seq t" "platform t = platform s"
    and c: "e_id c = seq s" "e_released c = 0" "0 < e_amount c" "e_amount c \<le> MAXU"
    and step: "deal_step (platform s) (abs s) (accounts t, (deals_of (escrows s))(e_id c \<mapsto> deal_of c))"
  shows "refines s t"
proof -
  have new: "seq s \<notin> e_id ` set (escrows s)" using ok by (auto simp: rows_ok_def list_all_iff)
  have "rows_ok t" using ok keys new t(2) c by (auto simp: rows_ok_def t(1) list_all_iff)
  moreover have "parties t j = Some x" if "parties s j = Some x" for j x
    using that by (auto simp: parties_def escrow_by_id_def t(1) find_row_append)
  moreover have "abs t = (accounts t, (deals_of (escrows s))(e_id c \<mapsto> deal_of c))"
    using new c(1) unfolding abs_def t(1) by (simp add: deals_of_append find_row_None)
  ultimately show ?thesis using step t(3) by (auto simp: refines_def)
qed

text \<open>The new contract, and what creating it did.\<close>

definition created :: "'a escrow_db_scheme \<Rightarrow> nat \<Rightarrow> int \<Rightarrow> int \<Rightarrow> escrow \<Rightarrow> 'a escrow_db_scheme \<Rightarrow> bool" where
  "created s w k f c t \<longleftrightarrow> refines s t \<and> escrows t = escrows s @ [c] \<and> e_id c = seq s \<and> e_status c = EActive
     \<and> e_amount c = k \<and> e_released c = 0 \<and> e_fee c = f \<and> e_buyer_wallet c = Some w
     \<and> accounts t = post (platform s) f 0 (post w (- f) k (accounts s))
     \<and> (\<exists>b l. accounts s w = Some (b, l) \<and> k + f \<le> b - l)"

lemma create_tx_spec:
  fixes s :: "'a escrow_db_scheme"
  assumes inv: "db_inv s" and k: "0 < k" and f: "0 \<le> f"
  shows "wp (escrow_create_tx u dto bw seller sw (num k) (num f) due)
    (\<lambda>(c, _). created s (w_id bw) k f c) (\<lambda>_. refines s) s"
proof (cases "wallet_by_id s (w_id bw)")
  case None
  then show ?thesis using refines_cache[OF db_invD(1)[OF inv]]
    unfolding escrow_create_tx_def by (simp add: wp_simps)
next
  case (Some lw)
  note ok = db_invD(1)[OF inv] and keys = db_invD(5)[OF inv]
  let ?b = "w_balance lw" and ?l = "w_locked lw" and ?w = "w_id bw"
  have A: "accounts s ?w = Some (?b, ?l)" by (rule accounts_wallet[OF Some])
  note b = balance_bounds[OF inv A]
  show ?thesis
  proof (cases "fl (num ?b - num ?l) < fl (num k + num f)")
    case True
    with Some refines_cache[OF ok] show ?thesis unfolding escrow_create_tx_def by (simp add: wp_simps)
  next
    case False
    have le: "k + f \<le> ?b - ?l" by (rule covered_check) (use b k f False in auto)
    then have u: "\<bar>k\<bar> \<le> MAXU" "\<bar>f\<bar> \<le> MAXU" "f \<le> MAXU" using b k f by auto
    let ?c = "fund_contract (now s) (new_contract (seq s) (now s) u dto bw seller sw (num k) (num f) due)"
    have new: "seq s \<notin> e_id ` set (escrows s)" using ok by (auto simp: rows_ok_def list_all_iff)
    have fin: "created s ?w k f ?c t" if t: "escrows t = escrows s @ [?c]" "seq t = Suc (Suc (seq s))"
        "accounts t = post (platform s) f 0 (post ?w (- f) k (accounts s))" "distinct (map w_id (wallets t))"
        "platform t = platform s" "f \<noteq> 0 \<longrightarrow> platform s \<in> dom (accounts s)" for t :: "'a escrow_db_scheme"
    proof -
      have "(deals_of (escrows s)) (seq s) = None" using new by (simp add: deals_of_def find_row_None)
      then have "deal_step (platform s) (accounts s, deals_of (escrows s))
          (post (platform s) f 0 (post ?w (- f) k (accounts s)), (deals_of (escrows s))(seq s \<mapsto>
            \<lparr>d_from = Some ?w, d_to = Some (w_id sw), d_status = DActive, d_left = k\<rparr>))"
        by (rule fund) (use k f A le t(6) in auto)
      then have "refines s t" using t(2) k u
        by (intro refines_append[OF ok t(4,1) _ t(5)])
          (simp_all add: fund_contract_def new_contract_def t(3) abs_def deal_of_def del: post_apply)
      with t(1,3) A le u show ?thesis
        by (simp add: created_def fund_contract_def new_contract_def del: post_apply)
    qed
    have i: "w_id lw = ?w" using Some by (auto dest: wallet_by_id_Some)
    from Some False show ?thesis unfolding escrow_create_tx_def Let_def
      by (simp add: wp_simps wallet_by_id_def split del: if_split)
        (rule superadmin_credit, use keys u f in simp, use f in simp, use u in simp, rule fin,
          use new i u keys refines_refl[OF ok] in \<open>simp_all add: platform_def new_contract_def upd_row_absent
            del: post_apply\<close>)
  qed
qed

lemma create_tx_refines:
  assumes "db_inv s" "0 < k" "0 \<le> f"
  shows "wp (escrow_create_tx u dto bw seller sw (num k) (num f) due) (\<lambda>_. refines s) (\<lambda>_. refines s) s"
  by (rule wp_mono[OF create_tx_spec[OF assms]]) (auto simp: created_def)

lemma create_tx_safe: "0 < k \<Longrightarrow> 0 \<le> f \<Longrightarrow> safe (escrow_create_tx u dto bw seller sw (num k) (num f) due)"
proof (rule escrow_contract.safeI)
  fix s :: "'a escrow_db_scheme"
  assume k: "0 < k" "0 \<le> f" and s: "db_inv s"
  have p: "preserves half_rules (modify (\<lambda>s. s\<lparr>escrows := g s\<rparr>))" for g
    by (rule rules_ok_modify) (simp add: same_fees_def)
  show "wp (escrow_create_tx u dto bw seller sw (num k) (num f) due) (\<lambda>_. good s) (\<lambda>_. good s) s"
    by (rule wp_good[OF create_tx_refines[OF s k] _ s])
      (unfold escrow_create_tx_def Let_def, intro pres p rules_ok_cache)
qed

lemma safe_feeFor_bnd:
  assumes "\<And>f. 0 \<le> f \<Longrightarrow> safe (g (num f))" "dp \<le> 8" shows "safe (bnd (feeFor k a dp) g)"
proof (rule escrow_contract.safeI)
  fix s :: "'a escrow_db_scheme"
  assume s: "db_inv s"
  have "good s (s\<lparr>fee_cache := next_cache s\<rparr>)"
    using escrow_contract.safeD[OF safe_rules(1)[of k] s] by (simp add: wp_simps)
  then show "wp (bnd (feeFor k a dp) g) (\<lambda>_. good s) (\<lambda>_. good s) s"
    unfolding wp_bnd wp_feeFor computeFee_units[OF assms(2)]
    by (intro escrow_contract.safe_from[OF assms(1) s]) simp_all
qed

lemma escrow_create_safe: "safe (escrow_create X u (dto\<lparr>cd_amount := Some (num k)\<rparr>))"
proof (cases "0 < k")
  case True
  have parties: "safe (create_parties u i)" for i unfolding create_parties_def by (intro safe_intros)
  have announce: "safe (escrow_create_announce u v c b r)" for v c b r
    unfolding escrow_create_announce_def by (intro safe_intros)
  show ?thesis unfolding escrow_create_def Let_def
    by (intro safe_intros parties announce safe_feeFor_bnd) (simp_all, intro safe_intros announce create_tx_safe True)
next
  case False
  then show ?thesis by (simp add: escrow_create_def create_validate_def escrow_contract.safe_throw)
qed

end
