(* ===== verification/Escrow_System.thy ===== *)
theory Escrow_System
  imports Escrow_Payments
begin

text \<open>
  The wallet and escrow routes as one system (\<open>escrow_ops\<close>, an instance of
  \<open>invariant_ops\<close>): any sequence of transfers, escrow requests, scheduler runs and clock
  ticks refines the abstract escrow, keeps the money, leaves no wallet in debt and keeps locked what the open
  contracts hold.  Transfers and creations are those of whole units: what other amounts can do to
  the total is in theory Wallet_Safety (\<open>wallet_run\<close>, \<open>send_mints\<close>).
\<close>

section \<open>Transfers beside the contracts\<close>

text \<open>What a transfer leaves alone: the tables it does not know, the ids already given, and who
  the platform is.\<close>

definition beside :: "'a core_scheme \<Rightarrow> 'a core_scheme \<Rightarrow> bool" where
  "beside s t \<longleftrightarrow> core.more t = core.more s \<and> seq s \<le> seq t
     \<and> platform_id (users t) (wallets t) = platform_id (users s) (wallets s)"

lemma beside_cache: "beside s t \<Longrightarrow> beside s u \<Longrightarrow> beside s (t\<lparr>fee_cache := fee_cache u\<rparr>)"
  by (simp add: beside_def)

lemma beside_pins: "preserves (beside s) (verifyPin X u pin)"
  by (rule preservesI, rule verifyPin_frame) (simp_all add: beside_def)

lemma beside_device: "preserves (beside s) (verifyDevice X u fp)"
  by (rule preservesI, rule verifyDevice_frame) (simp_all add: beside_def)

lemma beside_modify: "(\<And>t. beside s t \<Longrightarrow> beside s (f t)) \<Longrightarrow> preserves (beside s) (modify f)"
  by (rule preserves_modify)

lemma beside_core [pres]:
  "preserves (beside s) (txn_create mk)" "preserves (beside s) (ledger_create e)"
  "preserves (beside s) (wallet_update i (inc_balance x))" "preserves (beside s) (wallet_update i (dec_balance x))"
  "preserves (beside s) (ruleFor k)" "preserves (beside s) (txn_complete i)"
  by (rule preservesI; simp add: wp_simps beside_def txn_complete_def split: option.split)+

lemma beside_credit [pres]: "preserves (beside s) (creditPlatformInTx x i c)"
  unfolding creditPlatformInTx_def creditWalletInTx_def by (intro pres)

lemma beside_quiet: "quiet m \<Longrightarrow> preserves (beside s) m"
  by (rule preservesI, erule wp_quiet) (simp add: beside_def)

lemma beside_send: "preserves (beside s) (sendFunds X u dto mf)"
  unfolding sendFunds_def send_authorize_def send_recipient_def
    send_tx_def send_check_def send_commit_def send_fees_def Let_def
  by (intro pres beside_pins beside_device beside_cache beside_quiet[OF quiet_send_announce])

lemma beside_tables: "core.more t = core.more s \<Longrightarrow> escrows t = escrows s"
  for s t :: "'a escrow_db_scheme"
  by (cases s, cases t) simp

lemma sendFunds_good:
  fixes s :: "'a escrow_db_scheme"
  assumes s: "db_inv s"
  shows "good s (snd (sendFunds X u (dto\<lparr>sd_amount := num k\<rparr>) mf s))"
proof -
  let ?m = "sendFunds X u (dto\<lparr>sd_amount := num k\<rparr>) mf"
  note ok = db_invD(1)[OF s]
  have p: "percent_only (rule_in s TransferFee)" "percent_only (rule_in s Merchant)"
    using rules_ok_rule[OF db_inv_rules[OF s]] by (auto simp: half_percent_def)
  have keys: "wallet_keys s" using db_invD(5)[OF s] by (simp add: wallet_keys_def)
  have frame: "beside s (snd (?m s))"
    by (rule preservesD[OF beside_send]) (simp add: beside_def)
  have rules: "half_rules (snd (?m s))"
    by (rule preservesD[OF rules_ok_send db_inv_rules[OF s]])
  have fin: "refines s t" if t: "beside s t" "distinct (map w_id (wallets t))"
      "accounts t = accounts s \<or> deal_step (platform s) (abs s) (accounts t, deals_of (escrows s))" for t
  proof -
    have e: "escrows t = escrows s" using t(1) by (intro beside_tables) (simp add: beside_def)
    have "rows_ok t" using ok t(1,2) by (auto simp: rows_ok_def e beside_def list_all_iff)
    then show ?thesis using t by (auto simp: refines_def parties_def escrow_by_id_def e abs_def beside_def platform_def)
  qed
  have "wp ?m (\<lambda>_ t. beside s t \<longrightarrow> refines s t) (\<lambda>_ t. beside s t \<longrightarrow> refines s t) s"
  proof (rule wp_mono[OF sendFunds_spec[OF keys _ p]])
    fix r and t :: "'a escrow_db_scheme"
    assume "transfer_outcome X s u mf k t"
    then obtain sw to where t: "transferred X s u k (transfer_fee s k) (merchant_cut s mf k) sw to t"
      unfolding transfer_outcome_def by blast
    then have A: "accounts s (w_id sw) = Some (w_balance sw, w_locked sw)"
      using keys by (auto simp: transferred_def intro!: accounts_wallet active_wallet_by_id)
    note b = balance_bounds[OF s A]
    let ?f = "transfer_fee s k" and ?m = "merchant_cut s mf k"
    have f: "0 \<le> ?f" "0 \<le> ?m" by (simp_all add: transfer_fee_def merchant_cut_def)
    have free: "k + ?f \<le> w_balance sw - w_locked sw"
      by (rule covered_check) (use t b f in \<open>auto simp: transferred_def\<close>)
    have "deal_step (platform s) (accounts s, deals_of (escrows s))
        (transfer_books (w_id sw) to (platform s) k ?f ?m (accounts s), deals_of (escrows s))"
      unfolding transfer_books_def by (rule move) (use t A f free in \<open>auto simp: transferred_def\<close>)
    then have "deal_step (platform s) (abs s) (accounts t, deals_of (escrows s))"
      using t by (simp add: transferred_def abs_def)
    with t show "beside s t \<longrightarrow> refines s t" by (auto simp: transferred_def wallet_keys_def intro: fin)
  next
    fix e and t :: "'a escrow_db_scheme"
    assume "untouched s t"
    with keys show "beside s t \<longrightarrow> refines s t" by (auto simp: untouched_def wallet_keys_def intro: fin)
  qed simp
  from wpD_snd[OF this] frame rules show ?thesis by (simp add: good_def)
qed

section \<open>Any sequence of requests\<close>

text \<open>The amount of a transfer or of a new contract is a number of whole units (1e-8 FARM).\<close>

datatype escrow_request =
    SendReq nat send_dto int bool
  | CreateReq nat escrow_dto int
  | ReleaseReq nat nat auth_dto
  | PartReq nat nat "rat option" string
  | DisputeReq nat nat dispute_dto
  | ResolveReq nat nat bool string
  | CancelReq nat nat
  | MessageReq nat nat string
  | AutoReleaseReq
  | TickReq nat

definition escrow_exec :: "ext \<Rightarrow> evidence_store \<Rightarrow> escrow_request \<Rightarrow> 'a escrow_db_scheme \<Rightarrow> 'a escrow_db_scheme" where
  "escrow_exec X S q s = (case q of
     SendReq u dto k mf \<Rightarrow> snd (sendFunds X u (dto\<lparr>sd_amount := num k\<rparr>) mf s)
   | CreateReq u dto k \<Rightarrow> snd (escrow_create X u (dto\<lparr>cd_amount := Some (num k)\<rparr>) s)
   | ReleaseReq i u dto \<Rightarrow> snd (escrow_release X i u dto s)
   | PartReq i u amount pin \<Rightarrow> snd (releasePartial X i u amount pin s)
   | DisputeReq i u dto \<Rightarrow> snd (escrow_dispute S i u dto s)
   | ResolveReq i a w note \<Rightarrow> snd (resolveDispute i a w note s)
   | CancelReq i u \<Rightarrow> snd (escrow_cancel i u s)
   | MessageReq i u m \<Rightarrow> snd (addMessage i u m s)
   | AutoReleaseReq \<Rightarrow> snd (processAutoReleases s)
   | TickReq d \<Rightarrow> s\<lparr>now := now s + int d\<rparr>)"

lemma escrow_exec_good: "db_inv s \<Longrightarrow> good s (escrow_exec X S q s)"
proof (cases q)
  case (TickReq d)
  assume s: "db_inv s"
  show ?thesis unfolding TickReq escrow_exec_def escrow_request.case
    by (rule good_same[OF s])
      (use half_rules_same[OF db_inv_rules[OF s], of "s\<lparr>now := now s + int d\<rparr>"] in \<open>simp_all add: same_fees_def\<close>)
qed (simp_all add: escrow_exec_def sendFunds_good escrow_contract.safe_snd escrow_create_safe escrow_release_safe
    releasePartial_safe escrow_dispute_safe resolveDispute_safe escrow_cancel_safe addMessage_safe processAutoReleases_safe)

interpretation escrow_ops: invariant_ops "escrow_exec X S" "\<lambda>t. db_inv s \<and> good s t"
  by unfold_locales (auto intro: good_trans escrow_exec_good good_inv)

lemma escrow_run_good: "db_inv s \<Longrightarrow> good s (fold (escrow_exec X S) qs s)"
  using escrow_ops.run_inv[of s s X S qs] by (simp add: good_refl)

section \<open>A database with a contract\<close>

definition sample_contract :: escrow where
  "sample_contract = \<lparr>e_id = 50, e_ref = 50, e_buyer = Some 1, e_seller = Some 2, e_arbiter = None,
      e_buyer_wallet = Some 11, e_seller_wallet = Some 12, e_amount = 10000000000,
      e_fee = 150000000, e_status = EActive, e_title = ''maize'',
      e_description = None, e_evidence = None, e_funded_at = None, e_released_at = None,
      e_disputed_at = None, e_resolved_at = None, e_auto_release_at = Some 1000000000000,
      e_note = None, e_released = 0, e_created = 0\<rparr>"

definition sample_db :: escrow_db where
  "sample_db = core.extend (sample\<lparr>wallets := [sample_wallet 11 1 50000000000\<lparr>w_locked := 10000000000\<rparr>,
     sample_wallet 12 2 20000000000, sample_wallet 19 9 0]\<rparr>) (escrow_db.fields [sample_contract] [] [])"

lemma sample_db_tables [simp]:
  "escrows sample_db = [sample_contract]" "users sample_db = users sample" "seq sample_db = 100"
  "wallets sample_db = [sample_wallet 11 1 50000000000\<lparr>w_locked := 10000000000\<rparr>,
     sample_wallet 12 2 20000000000, sample_wallet 19 9 0]"
  "fee_rows sample_db = Some []" "fee_env sample_db = (\<lambda>_. None)" "fee_wallet_env sample_db = None"
  "fee_cache sample_db = None" "fees_injected sample_db = False" "now sample_db = 1000000000000"
  by (simp_all add: sample_db_def sample_def core.defs escrow_db.defs)

text \<open>In order whatever the status of the contract is.\<close>

abbreviation sample_in :: "escrow_status \<Rightarrow> escrow_db" where
  "sample_in st \<equiv> sample_db\<lparr>escrows := [sample_contract\<lparr>e_status := st\<rparr>]\<rparr>"

lemma sample_db_in: "sample_db = sample_in EActive"
  by (simp add: sample_db_def sample_def core.defs escrow_db.defs sample_contract_def)

lemma sample_in_inv: "db_inv (sample_in st)"
proof -
  let ?s = "sample_in st"
  have o: "solvent ?s" "wallet_keys ?s" "total ?s = 70000000000"
    by (simp_all add: solvent_def wallet_keys_def total_def available_def sample_wallet_def)
  let ?d = "\<lparr>d_from = Some 11, d_to = Some 12, d_status = dstat st,
    d_left = (if st = EActive \<or> st = EDisputed then 10000000000 else 0)\<rparr>"
  have D: "deals_of [sample_contract\<lparr>e_status := st\<rparr>] = [50 \<mapsto> ?d]"
    by (auto simp: deals_of_def sample_contract_def deal_of_def fun_eq_iff)
  have "l \<ge> held [50 \<mapsto> ?d] w" if "accounts sample_db w = Some (b, l)" for w b l
    using that by (auto simp: held_def weight_def acct_def sample_wallet_def split: if_splits)
  then have "deals_inv (abs ?s)"
    using o by (auto simp: deals_inv_def abs_def D solvent_ok simp del: sample_db_tables(4) split: if_splits)
  moreover have "rows_ok ?s"
    by (simp add: rows_ok_def sample_contract_def sample_wallet_def MAXU_def)
  moreover have "half_rules ?s"
    by (simp add: rules_ok_def half_percent_def percent_only_def default_rule_def defaultPercent_def loaded_rule_def configured_def)
  ultimately show ?thesis using o total_tot[OF o(2)] by (simp add: db_inv_def MAXU_def del: sample_db_tables(4))
qed

lemma sample_db_inv: "db_inv sample_db"
  by (subst sample_db_in) (rule sample_in_inv)

section \<open>The properties\<close>

text \<open>C1: From a database in order (wallet and contract ids unique, every wallet solvent and
  its lock covering what its open contracts hold, the total at most 10^15 units, the escrow and
  transfer fees percentages of at most one half), any sequence of transfers and contract creations
  of whole units (1e-8 FARM), releases, partial releases, disputes, admin resolutions, cancels,
  messages, scheduler runs and clock ticks keeps the total of all balances, leaves no wallet in
  debt, and keeps locked in every wallet at least what its open escrow contracts still hold. Amounts
  that are not whole units are excluded: send_mints shows that a transfer of 5e-9 changes the
  total.\<close>

theorem escrow_run:
  assumes "db_inv s" and "t = fold (escrow_exec X S) qs s"
  shows "total t = total s \<and> solvent t \<and> (\<forall>w\<in>set (wallets t). held (deals_of (escrows t)) (w_id w) \<le> w_locked w)"
proof -
  have g: "good s t" using assms escrow_run_good by blast
  have i: "db_inv t" by (rule good_inv[OF assms(1) g])
  have k: "wallet_keys s" "wallet_keys t" using db_invD(5)[OF assms(1)] db_invD(5)[OF i] by (simp_all add: wallet_keys_def)
  have "tot (accounts t) = tot (accounts s)"
    using deal_steps_tot[of "platform s" "abs s" "abs t"] g db_invD(2)[OF assms(1)]
    by (simp add: good_def refines_def abs_def)
  moreover have "ok (accounts t)" and h: "\<And>w b l. accounts t w = Some (b, l) \<Longrightarrow> held (deals_of (escrows t)) w \<le> l"
    using db_invD(2)[OF i] by (auto simp: abs_def dest: deals_invD)
  moreover have "held (deals_of (escrows t)) (w_id w) \<le> w_locked w" if "w \<in> set (wallets t)" for w
    using that k(2) by (intro h[of _ "w_balance w"]) (simp add: acct_def find_row_in wallet_keys_def)
  ultimately show ?thesis using k by (simp add: total_tot solvent_ok)
qed

definition sample_auth :: auth_dto where
  "sample_auth = \<lparr>ad_pin = Some ''1234'', ad_biometric = False, ad_fingerprint = None\<rparr>"

definition sample_store :: evidence_store where
  "sample_store = \<lparr>url_parts = (\<lambda>_. None), upload_evidence = None\<rparr>"

definition sample_requests :: "escrow_request list" where
  "sample_requests = [PartReq 50 1 (Some 20) ''1234'', SendReq 1 (sample_send 0) 4000000000 True, TickReq 90000,
     AutoReleaseReq, ReleaseReq 50 1 sample_auth]"

theorem escrow_run_witness:
  "total (fold (escrow_exec sample_ext sample_store) sample_requests sample_db) = 70000000000"
  using escrow_run[OF sample_db_inv refl] by (simp add: total_def sample_wallet_def)

text \<open>C2: From a database in order, as for the run invariant, whatever requests are served
  with transfers and contract creations of whole units (1e-8 FARM), the books and the contracts move
  only by steps of the abstract escrow: fund, pay, close, refund, dispute, cancel, and transfers of
  free money. A transfer of an amount that is not a whole number of units need not be such a step
  and is not among the requests.\<close>

theorem escrow_refinement:
  assumes "db_inv s"
  shows "deal_steps (platform s) (abs s) (abs (fold (escrow_exec X S) qs s))"
  using escrow_run_good[OF assms] by (simp add: good_def refines_def)

theorem escrow_refinement_witness:
  "deal_steps (platform sample_db) (abs sample_db) (abs (fold (escrow_exec sample_ext sample_store) sample_requests sample_db))"
  by (rule escrow_refinement[OF sample_db_inv])




end
