(* ===== verification/Escrow_Results.thy ===== *)
theory Escrow_Results
  imports Escrow_System
begin

text \<open>
  What single escrow operations do to the books: a release pays the seller and the platform out of
  the buyer's locked money and happens once, a refund unlocks the buyer's money, a partial release
  pays its part, and creating a contract locks its amount and takes the creation fee.
\<close>

section \<open>What a payment does not touch\<close>

lemma rows_kept [pres]:
  "preserves (\<lambda>t. escrows t = E) (wallet_update i f)" "preserves (\<lambda>t. escrows t = E) (txn_create mk)"
  "preserves (\<lambda>t. escrows t = E) (ledger_create en)" "preserves (\<lambda>t. escrows t = E) (emit ev)"
  "preserves (\<lambda>t. escrows t = E) (ruleFor k)"
  by (rule preservesI; simp add: wp_simps split: option.split)+

lemma rows_kept_payout: "preserves (\<lambda>t. escrows t = E) (payout e a c n md)"
  unfolding payout_def wallet_update_opt_def charge_platform_def creditSuperadminWalletInTx_def
    getSuperadminWalletInTx_def by (intro pres)

lemma quiet_emit_to [quiet_intros]: "quiet (emit_to u f)"
  by (simp add: emit_to_def quiet_intros split: option.split)

lemma quiet_release_announce: "quiet (release_announce e r)"
  unfolding release_announce_def
  by (cases r) (auto intro!: quiet_intros split: prod.split)

lemma quiet_refund_announce: "quiet (refund_announce e res r)"
  unfolding refund_announce_def by (intro quiet_intros)

section \<open>A release completes the contract\<close>

lemma release_tx_completes:
  assumes "escrow_by_id s (e_id e0) = Some e"
  shows "wp (release_tx e0 res rl)
    (\<lambda>_ t. escrows t = upd_row e_id (e_id e0) (complete_escrow (now s) res) (escrows s)) (\<lambda>_ t. escrows t = escrows s) s"
proof -
  have pay: "wp (payout e0 a c n md)
      (\<lambda>_ t. escrows t = upd_row e_id (e_id e0) (complete_escrow (now s) res) (escrows s)) (\<lambda>_ _. True)
      (s\<lparr>escrows := upd_row e_id (e_id e0) (complete_escrow (now s) res) (escrows s)\<rparr>)" for a c n md
    by (rule wp_mono[OF preserves_wp[OF rows_kept_payout]]) simp_all
  show ?thesis unfolding release_tx_def Let_def using assms by (simp add: wp_simps pay)
qed

lemma executeRelease_completes:
  assumes "escrow_by_id s (e_id e0) = Some e"
  shows "wp (executeRelease e0 res)
    (\<lambda>_ t. escrows t = upd_row e_id (e_id e0) (complete_escrow (now s) res) (escrows s)) (\<lambda>_ t. escrows t = escrows s) s"
proof -
  have "wp (release_tx e0 res rl) (\<lambda>r. wp (release_announce e0 r)
     (\<lambda>_ t. escrows t = upd_row e_id (e_id e0) (complete_escrow (now s) res) (escrows s)) (\<lambda>_ t. escrows t = escrows s))
     (\<lambda>_ t. escrows t = escrows s) (s\<lparr>fee_cache := c\<rparr>)" for rl c
  proof (rule wp_mono[OF release_tx_completes[where e = e]])
    show "escrow_by_id (s\<lparr>fee_cache := c\<rparr>) (e_id e0) = Some e" using assms by (simp add: escrow_by_id_def)
  qed (auto intro!: wp_quiet[OF quiet_release_announce])
  then show ?thesis unfolding executeRelease_def by (simp add: wp_simps)
qed

lemma wp_authorize:
  assumes Q: "\<And>n bs. Q () (s\<lparr>users := pins_of u n (users s), biometrics := bs\<rparr>)"
    and E: "\<And>e n bs. E e (s\<lparr>users := pins_of u n (users s), biometrics := bs\<rparr>)"
  shows "wp (escrow_authorize X u dto) Q E s"
proof -
  have "Q () (s\<lparr>users := pins_of u n (users s)\<rparr>)" "E e (s\<lparr>users := pins_of u n (users s)\<rparr>)" for n e
    using Q[where n = n and bs = "biometrics s"] E[where n = n and bs = "biometrics s"] by simp_all
  moreover have "Q () (s\<lparr>biometrics := bs\<rparr>)" "E e (s\<lparr>biometrics := bs\<rparr>)" for bs e
    using Q[where n = "\<lambda>x. x" and bs = bs] E[where n = "\<lambda>x. x" and bs = bs] by (simp_all add: pins_of_id)
  moreover have "E e s" for e
    using E[where n = "\<lambda>x. x" and bs = "biometrics s"] by (simp add: pins_of_id)
  ultimately show ?thesis unfolding escrow_authorize_def
    by (auto simp: wp_simps intro!: verifyPin_frame verifyDevice_frame)
qed

lemma wp_getEscrow [wp_simps]: "wp (getEscrowOrFail i) Q E s = (case escrow_by_id s i of
    None \<Rightarrow> E (NotFound ''Escrow contract not found'') s | Some e \<Rightarrow> Q e s)"
  by (simp add: getEscrowOrFail_def wp_simps)

definition released :: "'a escrow_db_scheme \<Rightarrow> nat \<Rightarrow> nat \<Rightarrow> bool" where
  "released s i u \<longleftrightarrow> (\<exists>e. escrow_by_id s i = Some e \<and> e_buyer e = Some u \<and> e_status e = ECompleted)"

lemma complete_escrow_buyer [simp]: "e_buyer (complete_escrow t r e) = e_buyer e"
  by (simp add: complete_escrow_def split: option.split)

lemma escrow_release_released:
  "wp (escrow_release X i u dto) (\<lambda>_ t. released t i u) (\<lambda>_ _. True) s"
proof (cases "escrow_by_id s i")
  case None
  then show ?thesis by (simp add: escrow_release_def getEscrowOrFail_def wp_simps)
next
  case (Some e)
  then have i: "e_id e = i" by (auto simp: escrow_by_id_def dest: find_row_Some)
  let ?h = "\<lambda>error. case error of
            BadRequest _ \<Rightarrow> bnd (getEscrowOrFail i) (\<lambda>latest.
              if e_buyer latest = Some u \<and> e_status latest = ECompleted
              then ret ''Escrow has already been released'' else throw error)
          | _ \<Rightarrow> throw error"
  have again: "wp (?h x) (\<lambda>_ t. released t i u) (\<lambda>_ _. True) t" for x and t :: "'a escrow_db_scheme"
    by (cases x) (auto simp: wp_simps getEscrowOrFail_def released_def split: option.split)
  have paid: "wp (executeRelease e None) (\<lambda>_ t. released t i u) (\<lambda>_ _. True) (s\<lparr>users := us, biometrics := bs\<rparr>)"
    if "e_buyer e = Some u" for us bs
  proof (rule wp_mono[OF executeRelease_completes])
    show "escrow_by_id (s\<lparr>users := us, biometrics := bs\<rparr>) (e_id e) = Some e" using Some i by (simp add: escrow_by_id_def)
  qed (use Some i that in \<open>simp_all add: released_def escrow_by_id_def\<close>)
  have run: "wp (catch (thn (executeRelease e None) (ret m)) ?h) (\<lambda>_ t. released t i u) (\<lambda>_ _. True)
      (s\<lparr>users := us, biometrics := bs\<rparr>)" if "e_buyer e = Some u" for us bs m
    unfolding wp_catch wp_thn wp_ret by (rule wp_mono[OF paid[OF that]]) (auto intro: again)
  have c: "e_buyer e = Some u \<Longrightarrow> e_status e = ECompleted \<Longrightarrow> released s i u"
    using Some by (simp add: released_def)
  show ?thesis unfolding escrow_release_def wp_bnd wp_getEscrow Some option.case
    by (auto simp: wp_if wp_throw wp_ret wp_thn intro!: wp_authorize run c)
qed

theorem release_once:
  assumes "escrow_release X i u dto s = (Inr m, t)"
  shows "escrow_release X i u dto' t = (Inr ''Escrow has already been released'', t)"
proof -
  have "released t i u" using wpD_ok[OF escrow_release_released assms] .
  then obtain e where "escrow_by_id t i = Some e" "e_buyer e = Some u" "e_status e = ECompleted"
    unfolding released_def by blast
  then show ?thesis
    by (simp add: escrow_release_def getEscrowOrFail_def bnd_def gets_def or_throw_def ret_def)
qed

section \<open>What a release pays\<close>


section \<open>Refunds, creation and parts\<close>

text \<open>C15: An admin decision for the buyer applies to a disputed contract only, unlocks
  exactly what remains of it, moves no other money and records the arbiter.\<close>

theorem refund_returns:
  assumes inv: "db_inv s" and e: "escrow_by_id s i = Some e" "e_buyer_wallet e = Some w"
    and run: "resolveDispute i adm False note s = (Inr (), t)"
  shows "e_status e = EDisputed \<and> accounts t = post w 0 (- (e_amount e - e_released e)) (accounts s)
    \<and> (\<exists>e'. escrow_by_id t i = Some e' \<and> e_status e' = ERefunded \<and> e_arbiter e' = Some adm)"
proof -
  have i: "e_id e = i" using e(1) by (auto simp: escrow_by_id_def dest: find_row_Some)
  have st: "e_status e = EDisputed"
    using run e(1) by (auto simp: resolveDispute_def bnd_def gets_def throw_def split: if_splits)
  have tr: "tracks s e" by (rule tracks_self[OF db_invD(1)[OF inv] e(1)])
  have "wp (resolveDispute i adm False note) (\<lambda>_ t. accounts t = post w 0 (- (e_amount e - e_released e)) (accounts s)
      \<and> escrows t = upd_row e_id i (refund_escrow (now s) (Some (adm, note))) (escrows s)) (\<lambda>_ _. True) s"
    unfolding resolveDispute_def executeRefund_def wp_bnd wp_gets e(1) option.case
    by (simp add: st wp_thn wp_modify wp_bnd) (rule wp_mono[OF refund_tx_spec[OF inv tr]],
      use e i in \<open>auto intro!: wp_quiet[OF quiet_refund_announce] simp: wp_modify refunded_def\<close>)
  from wpD_ok[OF this run] e(1) i st show ?thesis
    by (simp add: escrow_by_id_def refund_escrow_def)
qed

lemma db_inv_cong:
  "db_inv s \<Longrightarrow> escrows t = escrows s \<Longrightarrow> wallets t = wallets s \<Longrightarrow> seq t = seq s \<Longrightarrow> half_rules t \<Longrightarrow> db_inv t"
  by (simp add: db_inv_def abs_def rows_ok_cong[of t s])

lemma db_inv_users [simp]: "db_inv s \<Longrightarrow> db_inv (s\<lparr>users := us\<rparr>)"
  by (rule db_inv_cong) (simp_all add: half_rules_same[OF db_inv_rules] same_fees_def)

lemma db_inv_refresh: "db_inv s \<Longrightarrow> db_inv (s\<lparr>fee_cache := next_cache s\<rparr>)"
  using escrow_contract.safeD[OF safe_rules(1)[of EscrowReleaseFee], of s] good_inv[of s] by (simp add: wp_simps)

text \<open>A part of \<open>k\<close> units of contract \<open>e\<close> was paid between \<open>s\<close> and \<open>t\<close>.\<close>

definition part_paid :: "'a escrow_db_scheme \<Rightarrow> escrow \<Rightarrow> nat \<Rightarrow> nat \<Rightarrow> partial_result \<Rightarrow> int \<Rightarrow> 'a escrow_db_scheme \<Rightarrow> bool" where
  "part_paid s e w v r k t \<longleftrightarrow> pr_amount r = num k \<and> 0 < k \<and> e_released e + k \<le> e_amount e
     \<and> pr_fee r = num (fee_units (rule_in s EscrowReleaseFee) (num k) 2)
     \<and> pr_net r = num (k - fee_units (rule_in s EscrowReleaseFee) (num k) 2) \<and> pr_released r = num (e_released e + k)
     \<and> pr_remaining r = num (e_amount e - e_released e - k) \<and> pr_completed r = (e_released e + k = e_amount e)
     \<and> accounts t = payout_of (platform s) w v k (fee_units (rule_in s EscrowReleaseFee) (num k) 2) (accounts s)
     \<and> map_option (\<lambda>x. (e_released x, e_status x)) (escrow_by_id t (e_id e))
          = Some (e_released e + k, if pr_completed r then ECompleted else e_status e)"

lemma pay_part_paid:
  fixes s :: "'a escrow_db_scheme"
  assumes inv: "db_inv s" and e: "escrow_by_id s (e_id e) = Some e"
    and w: "e_buyer_wallet e = Some w" "e_seller_wallet e = Some v" and a: "0 < toFixed 2 a"
  shows "wp (pay_part e u (toFixed 2 a)) (\<lambda>r t. \<exists>k. toFixed 2 a = num k \<and> part_paid s e w v r k t) (\<lambda>_ _. True) s"
proof -
  let ?s = "s\<lparr>fee_cache := next_cache s\<rparr>" and ?p = "toFixed 2 a" and ?rl = "rule_in s EscrowReleaseFee"
  note row = rows_ok_row[OF db_invD(1)[OF inv] e]
  have e': "escrow_by_id ?s (e_id e) = Some e" using e by (simp add: escrow_by_id_def)
  have p: "platform ?s = platform s" by (simp add: platform_def)
  have tr: "tracks ?s e" by (rule tracks_self[OF db_invD(1)[OF db_inv_refresh[OF inv]] e'])
  show ?thesis unfolding pay_part_def Let_def wp_bnd wp_feeFor
  proof (rule wp_mono[OF partial_tx_spec[OF db_inv_refresh[OF inv] tr e' w db_invD(4)[OF inv] refl a]])
    fix x :: "escrow \<times> bool \<times> rat \<times> rat \<times> nat" and t :: "'a escrow_db_scheme"
    let ?P = "\<lambda>k c. paid ?s (e_id e) (take_part (now ?s) c k) w v k (fee_units ?rl (num k) 2) t"
    assume h: "(case x of (e', completed, _) \<Rightarrow> \<lambda>t. \<exists>k. ?p = num k \<and> 0 < k \<and> e_released e + k \<le> e_amount e
      \<and> e' = e\<lparr>e_released := e_released e + k\<rparr> \<and> completed = (e_released e + k = e_amount e)
      \<and> paid ?s (e_id e) (take_part (now ?s) completed k) w v k (fee_units ?rl (num k) 2) t) t"
    obtain e1 c b1 b2 ref where x: "x = (e1, c, b1, b2, ref)" by (cases x) auto
    from h obtain k where k: "?p = num k" "0 < k" "e_released e + k \<le> e_amount e" "e_released e1 = e_released e + k"
      "e_amount e1 = e_amount e" "c = (e_released e + k = e_amount e)" and P: "?P k c" unfolding x prod.case by auto
    have k': "accounts t = payout_of (platform s) w v k (fee_units ?rl (num k) 2) (accounts s)"
      "map_option (\<lambda>x. (e_released x, e_status x)) (escrow_by_id t (e_id e))
          = Some (e_released e + k, if c then ECompleted else e_status e)"
      using P e by (simp_all add: paid_def p escrow_by_id_def)
    have "remainingAmount e1 = num (e_amount e - e_released e - k)"
      using row k by (subst remaining_units) (simp_all add: algebra_simps)
    moreover have "toFixed 8 (fl (num k - num f)) = num (k - f)" if "0 \<le> f" "f \<le> k" for f
      using row k that by (intro toFixed8_diff) simp_all
    from this[OF fee_units_nonneg fee_units_half[OF db_invD(4)[OF inv]]]
    have "toFixed 8 (fl (num k - num (fee_units ?rl (num k) 2))) = num (k - fee_units ?rl (num k) 2)"
      using row k by simp
    ultimately have paid: "\<exists>k. ?p = num k \<and> part_paid s e w v \<lparr>pr_reference = ref, pr_amount = ?p, pr_fee = computeFee ?rl ?p 2,
        pr_net = toFixed 8 (fl (?p - computeFee ?rl ?p 2)), pr_released = num (e_released e1), pr_remaining = remainingAmount e1,
        pr_completed = c\<rparr> k (t\<lparr>outbox := ob\<rparr>)" for ob
      using k(1-4) k(6) k' by (intro exI[of _ k]) (simp add: part_paid_def k(1,4) computeFee_units escrow_by_id_def)
    have out: "wp (emit_to y f) Q E t'" if "\<And>ob. Q () (t'\<lparr>outbox := ob\<rparr>)" for y f Q E and t' :: "'a escrow_db_scheme"
      using that[of "outbox t'"] that by (cases y) (simp_all add: emit_to_def wp_simps)
    show "wp (case x of (r, completed, buyer_balance, seller_balance, reference) \<Rightarrow>
        thn (emit (BalanceUpdate u buyer_balance))
      (thn (emit_to (e_seller e) (\<lambda>u. BalanceUpdate u seller_balance))
      (thn (emit_to (e_seller e) (\<lambda>u. Notification u ''escrow_received'' (Some (e_id e))))
      (ret \<lparr>pr_reference = reference, pr_amount = ?p, pr_fee = computeFee ?rl ?p 2,
            pr_net = toFixed 8 (fl (?p - computeFee ?rl ?p 2)), pr_released = num (e_released r), pr_remaining = remainingAmount r,
            pr_completed = completed\<rparr>)))) (\<lambda>r t. \<exists>k. toFixed 2 a = num k \<and> part_paid s e w v r k t) (\<lambda>_ _. True) t"
      unfolding x prod.case by (simp only: wp_thn wp_emit, rule out, simp only: wp_thn, rule out, simp add: wp_ret paid)
  qed simp
qed

lemma part_paid_users: "part_paid (s\<lparr>users := pins_of u n (users s)\<rparr>) e w v r k t = part_paid s e w v r k t"
  by (simp add: part_paid_def platform_def)

text \<open>C16: From a database in order a successful partial release is by the buyer of an active
  contract and pays exactly the requested amount rounded to two decimals, a whole number of units
  within what remains, to the seller less the release fee and the fee to the platform; the amount,
  fee, net, released and remaining amounts and completion it reports are those of the stored
  contract, which is completed exactly when nothing remains.\<close>

theorem part_released:
  assumes inv: "db_inv s" and run: "releasePartial X i u (Some a) pin s = (Inr r, t)"
  shows "\<exists>e w v k. escrow_by_id s i = Some e \<and> e_buyer e = Some u \<and> e_status e = EActive
    \<and> e_buyer_wallet e = Some w \<and> e_seller_wallet e = Some v \<and> toFixed 2 a = num k \<and> part_paid s e w v r k t"
proof -
  have "wp (releasePartial X i u (Some a) pin) (\<lambda>r t. \<exists>e w v k. escrow_by_id s i = Some e \<and> e_buyer e = Some u \<and> e_status e = EActive
    \<and> e_buyer_wallet e = Some w \<and> e_seller_wallet e = Some v \<and> toFixed 2 a = num k \<and> part_paid s e w v r k t) (\<lambda>_ _. True) s"
  proof (cases "toFixed 2 a \<le> 0 \<or> escrow_by_id s i = None")
    case True
    then show ?thesis by (auto simp: releasePartial_def Let_def wp_simps)
  next
    case False
    then obtain e where e: "escrow_by_id s i = Some e" by auto
    then have i: "e_id e = i" by (auto simp: escrow_by_id_def dest: find_row_Some)
    have "wp (thn (verifyPin X u pin) (pay_part e u (toFixed 2 a))) (\<lambda>r t. \<exists>k. toFixed 2 a = num k \<and> part_paid s e w v r k t) (\<lambda>_ _. True) s"
      if w: "e_buyer_wallet e = Some w" "e_seller_wallet e = Some v" for w v
      unfolding wp_thn
    proof (rule verifyPin_frame)
      fix n
      let ?s = "s\<lparr>users := pins_of u n (users s)\<rparr>"
      have "escrow_by_id ?s (e_id e) = Some e" using e i by (simp add: escrow_by_id_def)
      from pay_part_paid[OF db_inv_users[OF inv] this w] False
      show "wp (pay_part e u (toFixed 2 a)) (\<lambda>r t. \<exists>k. toFixed 2 a = num k \<and> part_paid s e w v r k t) (\<lambda>_ _. True) ?s"
        by (simp add: part_paid_users)
    qed simp
    then have "wp (thn (verifyPin X u pin) (pay_part e u (toFixed 2 a)))
        (\<lambda>r t. \<exists>w v k. e_buyer_wallet e = Some w \<and> e_seller_wallet e = Some v \<and> toFixed 2 a = num k \<and> part_paid s e w v r k t) (\<lambda>_ _. True) s"
      if "e_buyer_wallet e = Some w" "e_seller_wallet e = Some v" for w v
      using that by (auto elim!: wp_mono)
    with False e show ?thesis unfolding releasePartial_def Let_def
      by (auto simp: wp_simps not_le)
  qed
  from wpD_ok[OF this run] show ?thesis .
qed

section \<open>Creation\<close>






section \<open>The results on a concrete contract\<close>

lemma charge_ok: "platform_wallet t = Some w \<Longrightarrow> wallet_by_id t (w_id w) \<noteq> None \<Longrightarrow>
   wp (charge_platform x) (\<lambda>_ _. True) (\<lambda>_ _. False) t"
  by (auto simp: charge_platform_def creditSuperadminWalletInTx_def getSuperadminWalletInTx_def wp_simps)

lemma sample_fields [simp]:
  "e_id sample_contract = 50" "e_buyer_wallet sample_contract = Some 11" "e_seller_wallet sample_contract = Some 12"
  "e_amount sample_contract = 10000000000" "e_released sample_contract = 0" "e_status sample_contract = EActive"
  "e_buyer sample_contract = Some 1" "e_seller sample_contract = Some 2"
  by (simp_all add: sample_contract_def)

lemma sample_payout:
  fixes t :: escrow_db
  assumes "e_buyer_wallet e = Some 11" "e_seller_wallet e = Some 12" "users t = users sample" "wallets t = wallets sample_db"
  shows "wp (payout e a c p m) (\<lambda>_ _. True) (\<lambda>_ _. False) t"
  unfolding payout_def
  by (simp add: assms wp_simps wallet_update_opt_def wallet_by_id_def sample_wallet_def take_locked_def)
    (rule charge_ok[of _ "sample_wallet 19 9 0"],
      simp_all add: platform_wallet_def sample_defs active_wallet_def wallet_by_id_def assms)

lemma sample_same: "sample_contract\<lparr>e_status := EActive\<rparr> = sample_contract"
    "sample_db\<lparr>escrows := [sample_contract]\<rparr> = sample_db"
  by (simp_all add: sample_contract_def sample_db_def core.defs escrow_db.defs)

lemma sample_claim: "wp (escrow_claim 50 [claimable res] g) (\<lambda>n t. n = 1 \<and> users t = users sample \<and> wallets t = wallets sample_db
   \<and> escrow_by_id t 50 = Some (g (sample_contract\<lparr>e_status := claimable res\<rparr>))) (\<lambda>_ _. False) (sample_in (claimable res)\<lparr>fee_cache := c\<rparr>)"
 if "e_id (g (sample_contract\<lparr>e_status := claimable res\<rparr>)) = 50"
  using that by (simp add: escrow_claim_def wp_def escrow_by_id_def)

lemma sample_pays:
  "wp (executeRelease (sample_contract\<lparr>e_status := claimable res\<rparr>) res) (\<lambda>_ _. True) (\<lambda>_ _. False) (sample_in (claimable res))"
proof -
  have a: "wp (release_announce e x) (\<lambda>_ _. True) (\<lambda>_ _. False) t" for e x t
    by (rule wp_quiet[OF quiet_release_announce]) simp
  have c: "e_id (complete_escrow t res e) = e_id e" for t e by (simp add: complete_escrow_def split: option.split)
  have "wp (release_tx (sample_contract\<lparr>e_status := claimable res\<rparr>) res rl) (\<lambda>_ _. True) (\<lambda>_ _. False) (sample_in (claimable res)\<lparr>fee_cache := ch\<rparr>)" for rl ch
    unfolding release_tx_def wp_transaction wp_bnd wp_gets
    by (simp add: c, rule wp_mono[OF sample_claim])
      (auto simp: c wp_simps Let_def intro!: sample_payout)
  then show ?thesis unfolding executeRelease_def
    by (simp add: wp_simps) (rule wp_mono, assumption, simp_all add: a)
qed


lemma sample_authorized: "escrow_authorize sample_ext 1 sample_auth sample_db = (Inr (), sample_db)"
  by (simp add: escrow_authorize_def sample_auth_def truthy_def verifyPin_def bnd_def thn_def gets_def
    user_by_id_def user_update_def modify_def sample_defs MAX_PIN_ATTEMPTS_def Let_def)

lemma sample_release: "\<exists>m t. escrow_release sample_ext 50 1 sample_auth sample_db = (Inr m, t)"
proof -
  have pay: "wp (executeRelease sample_contract None) (\<lambda>_ _. True) (\<lambda>_ _. False) sample_db"
    using sample_pays[of None] by (simp add: claimable_def sample_same)
  have "wp (escrow_release sample_ext 50 1 sample_auth) (\<lambda>_ _. True) (\<lambda>_ _. False) sample_db"
    unfolding escrow_release_def wp_bnd getEscrowOrFail_def
    by (simp add: wp_simps escrow_by_id_def wp_def[of "escrow_authorize _ _ _"] sample_authorized[simplified])
       (rule wp_mono[OF pay], simp_all)
  then show ?thesis by (auto dest: wp_ok)
qed

theorem release_once_witness:
  "\<exists>m t. escrow_release sample_ext 50 1 sample_auth sample_db = (Inr m, t)
    \<and> escrow_release sample_ext 50 1 sample_auth t = (Inr ''Escrow has already been released'', t)"
  using sample_release release_once by blast


theorem refund_returns_witness:
  "\<exists>t. resolveDispute 50 9 False ''ok'' (sample_in EDisputed) = (Inr (), t)
    \<and> accounts t = post 11 0 (- 10000000000) (accounts (sample_in EDisputed))"
proof -
  let ?e = "sample_contract\<lparr>e_status := EDisputed\<rparr>"
  have e: "escrow_by_id (sample_in EDisputed) 50 = Some ?e" by (simp add: escrow_by_id_def)
  have c: "escrow_claim 50 [EDisputed] g (sample_in EDisputed) =
      (Inr 1, sample_in EDisputed\<lparr>escrows := [g ?e]\<rparr>)" for g
    by (simp add: escrow_claim_def escrow_by_id_def)
  have "wp (resolveDispute 50 9 False ''ok'') (\<lambda>_ _. True) (\<lambda>_ _. False) (sample_in EDisputed)"
    by (simp add: resolveDispute_def executeRefund_def refund_tx_def refund_announce_def emit_to_def wp_def[of "escrow_claim _ _ _"] c
        claimable_def wallet_update_opt_def wallet_by_id_def escrow_by_id_def sample_wallet_def refund_escrow_def Let_def wp_simps)
  then obtain t where run: "resolveDispute 50 9 False ''ok'' (sample_in EDisputed) = (Inr (), t)"
    by (auto dest: wp_ok)
  from refund_returns[OF sample_in_inv e _ this, of 11] run show ?thesis by simp
qed

lemma sample_pin_ok: "verifyPin sample_ext 1 ''1234'' sample_db = (Inr (), sample_db)"
  by (simp add: verifyPin_def bnd_def thn_def gets_def user_by_id_def user_update_def modify_def sample_defs
    MAX_PIN_ATTEMPTS_def Let_def ret_def)

lemma sample_part: "wp (partial_tx sample_contract 1 20 c p) (\<lambda>_ _. True) (\<lambda>_ _. False) (sample_db\<lparr>fee_cache := ch\<rparr>)"
proof -
  have row: "claim_part 50 20 (sample_db\<lparr>fee_cache := ch\<rparr>) = (Inr (Some (sample_contract\<lparr>e_released := dec_inc 0 20\<rparr>)),
      sample_db\<lparr>escrows := [sample_contract\<lparr>e_released := dec_inc 0 20\<rparr>], fee_cache := ch\<rparr>)"
    by (simp add: claim_part_def escrow_by_id_def sql_def js_dec_of_int[of 20, simplified])
  show ?thesis unfolding partial_tx_def wp_transaction wp_bnd sample_fields
    apply (simp add: wp_def[of "claim_part _ _"] row[simplified] Let_def)
    apply (simp add: wp_simps if_distrib)
    by (auto simp: wp_simps intro!: wp_mono[OF sample_payout])
qed

theorem part_released_witness:
  "\<exists>r t k. releasePartial sample_ext 50 1 (Some 20) ''1234'' sample_db = (Inr r, t)
    \<and> part_paid sample_db sample_contract 11 12 r k t"
proof -
  have p: "toFixed 2 20 = 20" using fl_of_int[of 20] rhaz_of_int[of 2000] by (simp add: toFixed_def)
  have "wp (releasePartial sample_ext 50 1 (Some 20) ''1234'') (\<lambda>_ _. True) (\<lambda>_ _. False) sample_db"
    apply (simp add: releasePartial_def p wp_simps escrow_by_id_def getEscrowOrFail_def wp_def[of "verifyPin _ _ _"] sample_pin_ok[simplified])
    apply (simp add: pay_part_def wp_simps Let_def)
    apply (rule wp_mono[OF sample_part[simplified]])
    by (auto simp: wp_simps emit_to_def split: option.split)
  then obtain r t where "releasePartial sample_ext 50 1 (Some 20) ''1234'' sample_db = (Inr r, t)"
    by (auto dest: wp_ok)
  with part_released[OF sample_db_inv this] show ?thesis by (auto simp: escrow_by_id_def)
qed




lemma sample_wallet_fields [simp]:
  "w_id (sample_wallet i u b) = i" "w_user (sample_wallet i u b) = Some u" "w_active (sample_wallet i u b)"
  "\<not> w_frozen (sample_wallet i u b)" "w_balance (sample_wallet i u b) = b" "w_locked (sample_wallet i u b) = 0"
  by (simp_all add: sample_wallet_def)




end
