(* ===== verification/Business.thy ===== *)
theory Business
  imports Escrow "HOL-Library.Product_Lexorder"
begin

text \<open>
  Business accounts: src/business/business.service.ts (the application of a merchant, its
  submission and the review by an admin), src/business-ops/permissions.ts and
  src/business-ops/business-access.service.ts (who acts for a business, and with which rights).
\<close>

section \<open>Tables\<close>

datatype business_status = BDraft | BUnderReview | BMoreInfo | BApproved | BRejected

datatype merchant_status = MPending | MApproved | MRejected | MSuspended

record merchant =
  mr_id :: nat
  mr_user :: "nat option"
  mr_name :: string
  mr_email :: "string option"
  mr_phone :: "string option"
  mr_type :: "string option"
  mr_reg_number :: "string option"
  mr_country :: "string option"
  mr_city :: "string option"
  mr_address :: "string option"
  mr_status :: merchant_status

text \<open>The result of the advisory check of the KYB provider.\<close>

record kyb_advice =
  ka_session :: "string option"
  ka_status :: "string option"
  ka_entity :: "string option"
  ka_result :: "string option"
  ka_updated :: "int option"

record business =
  b_id :: nat
  b_owner :: nat
  b_merchant :: "nat option"
  b_legal_name :: "string option"
  b_trading_name :: "string option"
  b_reg_number :: "string option"
  b_reg_country :: "string option"
  b_incorporated :: "int option"
  b_type :: "string option"
  b_sector :: "string option"
  b_tax :: "string option"
  b_country :: "string option"
  b_city :: "string option"
  b_address :: "string option"
  b_postal :: "string option"
  b_email :: "string option"
  b_phone :: "string option"
  b_website :: "string option"
  b_description :: "string option"
  b_status :: business_status
  b_submitted :: "int option"
  b_reviewer :: "nat option"
  b_reviewed :: "int option"
  b_approved :: "int option"
  b_notes :: "string option"
  b_kyb :: kyb_advice
  b_created :: int

datatype person_role = Director | BeneficialOwner

record person =
  bp_business :: nat
  bp_role :: person_role
  bp_name :: string
  bp_nationality :: "string option"
  bp_born :: "int option"
  bp_id_number :: "string option"
  bp_email :: "string option"
  bp_phone :: "string option"
  bp_percent :: "rat option"

record business_doc =
  bd_business :: nat
  bd_type :: string
  bd_url :: string
  bd_name :: "string option"

record verification =
  bv_id :: nat
  bv_business :: nat
  bv_status :: business_status
  bv_snapshot :: "(business \<times> person list \<times> business_doc list) option"
  bv_submitted :: int
  bv_reviewer :: "nat option"
  bv_reviewed :: "int option"
  bv_notes :: "string option"

datatype business_role = BOwner | BAdmin | BFinance | BAccountant | BOperations | BDeveloper

record member =
  mb_id :: nat
  mb_business :: nat
  mb_user :: nat
  mb_role :: business_role
  mb_active :: bool
  mb_invited_by :: "nat option"
  mb_created :: int

record business_db = escrow_db +
  merchants :: "merchant list"
  businesses :: "business list"
  persons :: "person list"
  business_docs :: "business_doc list"
  verifications :: "verification list"
  members :: "member list"
  audit_logs :: "(nat \<times> string \<times> nat) list"

definition business_of :: "'a business_db_scheme \<Rightarrow> nat \<Rightarrow> business option" where
  "business_of s u = find (\<lambda>b. b_owner b = u) (businesses s)"

definition business_by_id :: "'a business_db_scheme \<Rightarrow> nat \<Rightarrow> business option" where
  "business_by_id s i = find_row b_id i (businesses s)"

definition persons_of :: "'a business_db_scheme \<Rightarrow> nat \<Rightarrow> person list" where
  "persons_of s i = filter (\<lambda>p. bp_business p = i) (persons s)"

definition docs_of :: "'a business_db_scheme \<Rightarrow> nat \<Rightarrow> business_doc list" where
  "docs_of s i = filter (\<lambda>d. bd_business d = i) (business_docs s)"

definition audit_log :: "nat \<Rightarrow> string \<Rightarrow> nat \<Rightarrow> ('a business_db_scheme, unit) op" where
  "audit_log u action i = insert_row audit_logs_update (u, action, i)"

text \<open>A field of a request body: missing, \<open>null\<close>, or a value.\<close>

datatype 'a field = Undef | Null | Val 'a

fun put_field :: "'a field \<Rightarrow> 'a option \<Rightarrow> 'a option" where
  "put_field Undef old = old"
| "put_field Null old = None"
| "put_field (Val a) old = Some a"

section \<open>Requirements and views\<close>

definition EDITABLE :: "business_status list" where
  "EDITABLE = [BDraft, BMoreInfo, BRejected]"

definition REQUIRED_DOCUMENT_TYPES :: "string list" where
  "REQUIRED_DOCUMENT_TYPES = [''certificate_of_incorporation'', ''proof_of_address'']"

definition required_fields :: "(string \<times> (business \<Rightarrow> string option)) list" where
  "required_fields = [(''legal_name'', b_legal_name), (''registration_number'', b_reg_number),
     (''registration_country'', b_reg_country), (''sector'', b_sector), (''country'', b_country),
     (''address'', b_address), (''business_email'', b_email), (''business_phone'', b_phone)]"

definition missingRequirements :: "business \<Rightarrow> person list \<Rightarrow> business_doc list \<Rightarrow> string list" where
  "missingRequirements b ps ds =
     map fst (filter (\<lambda>(_, f). blank (f b)) required_fields)
     @ (if \<not> list_ex (\<lambda>p. bp_role p = Director) ps then [''directors''] else [])
     @ (if \<not> list_ex (\<lambda>p. bp_role p = BeneficialOwner) ps then [''beneficial_owners''] else [])
     @ map (\<lambda>t. ''document:'' @ t) (filter (\<lambda>t. t \<notin> set (map bd_type ds)) REQUIRED_DOCUMENT_TYPES)"

record business_view =
  vw_business :: business
  vw_persons :: "person list"
  vw_docs :: "business_doc list"
  vw_verifications :: "verification list"
  vw_missing :: "string list option"

text \<open>\<open>include: DETAIL_INCLUDE\<close> and \<open>serialize\<close>.\<close>

definition detail :: "'a business_db_scheme \<Rightarrow> business \<Rightarrow> business_view" where
  "detail s b = \<lparr>vw_business = b, vw_persons = persons_of s (b_id b), vw_docs = docs_of s (b_id b),
     vw_verifications = map (\<lambda>v. v\<lparr>bv_snapshot := None\<rparr>)
       (take 10 (sort_key (\<lambda>v. - bv_submitted v) (filter (\<lambda>v. bv_business v = b_id b) (verifications s)))),
     vw_missing = (if b_status b \<in> set EDITABLE
       then Some (missingRequirements b (persons_of s (b_id b)) (docs_of s (b_id b))) else None)\<rparr>"

definition ownerView :: "business_view \<Rightarrow> business_view" where
  "ownerView v = v\<lparr>vw_business := (vw_business v)\<lparr>b_kyb := (b_kyb (vw_business v))\<lparr>ka_result := None\<rparr>\<rparr>\<rparr>"

definition business_eligibility :: "merchant option \<Rightarrow> bool \<Rightarrow> bool \<times> string option" where
  "business_eligibility m has_business =
     (if has_business then (False, Some ''exists'')
      else case m of
        None \<Rightarrow> (False, Some ''merchant_required'')
      | Some m \<Rightarrow> if mr_status m \<noteq> MApproved then (False, Some ''merchant_not_approved'') else (True, None))"

definition merchant_of :: "'a business_db_scheme \<Rightarrow> nat \<Rightarrow> merchant option" where
  "merchant_of s u = find (\<lambda>m. mr_user m = Some u) (merchants s)"

definition business_getMine ::
  "nat \<Rightarrow> ('a business_db_scheme, business_view option \<times> bool \<times> string option) op" where
  "business_getMine u = gets (\<lambda>s. (map_option (\<lambda>b. ownerView (detail s b)) (business_of s u),
     business_eligibility (merchant_of s u) (business_of s u \<noteq> None)))"

text \<open>\<open>None\<close>: not started.\<close>

definition business_getStatus :: "nat \<Rightarrow> ('a business_db_scheme, (business \<times> bool) option) op" where
  "business_getStatus u = gets (\<lambda>s. map_option (\<lambda>b. (b, b_status b = BApproved)) (business_of s u))"

section \<open>The application\<close>

definition no_advice :: kyb_advice where
  "no_advice = \<lparr>ka_session = None, ka_status = None, ka_entity = None, ka_result = None, ka_updated = None\<rparr>"

definition new_business :: "nat \<Rightarrow> int \<Rightarrow> nat \<Rightarrow> merchant \<Rightarrow> business" where
  "new_business i t u m = \<lparr>b_id = i, b_owner = u, b_merchant = Some (mr_id m),
     b_legal_name = Some (mr_name m), b_trading_name = Some (mr_name m), b_reg_number = mr_reg_number m,
     b_reg_country = None, b_incorporated = None, b_type = mr_type m, b_sector = None, b_tax = None,
     b_country = mr_country m, b_city = mr_city m, b_address = mr_address m, b_postal = None,
     b_email = mr_email m, b_phone = mr_phone m, b_website = None, b_description = None,
     b_status = BDraft, b_submitted = None, b_reviewer = None, b_reviewed = None, b_approved = None,
     b_notes = None, b_kyb = no_advice, b_created = t\<rparr>"

definition upgradeFromMerchant :: "nat \<Rightarrow> ('a business_db_scheme, business_view) op" where
  "upgradeFromMerchant u = bnd (gets (\<lambda>s. business_of s u)) (\<lambda>existing. case existing of
     Some b \<Rightarrow> gets (\<lambda>s. ownerView (detail s b))
   | None \<Rightarrow> bnd (gets (\<lambda>s. merchant_of s u)) (\<lambda>m. case m of
       None \<Rightarrow> throw (BadRequest ''Set up a merchant account before upgrading to a business account.'')
     | Some m \<Rightarrow>
       if mr_status m \<noteq> MApproved
       then throw (Forbidden ''Your merchant account must be approved before upgrading to a business account.'')
       else bnd fresh (\<lambda>i. bnd (gets now) (\<lambda>t.
         let b = new_business i t u m in
         thn (insert_row businesses_update b)
         (thn (audit_log u ''business.upgrade_started'' i)
         (gets (\<lambda>s. ownerView (detail s b))))))))"

record draft_dto =
  dr_legal_name :: "string field"
  dr_trading_name :: "string field"
  dr_reg_number :: "string field"
  dr_reg_country :: "string field"
  dr_incorporated :: "int field"
  dr_type :: "string field"
  dr_sector :: "string field"
  dr_tax :: "string field"
  dr_country :: "string field"
  dr_city :: "string field"
  dr_address :: "string field"
  dr_postal :: "string field"
  dr_email :: "string field"
  dr_phone :: "string field"
  dr_website :: "string field"
  dr_description :: "string field"
  dr_persons :: "person list option"
  dr_docs :: "business_doc list option"

definition apply_draft :: "draft_dto \<Rightarrow> business \<Rightarrow> business" where
  "apply_draft d b = b\<lparr>
     b_legal_name := put_field (dr_legal_name d) (b_legal_name b),
     b_trading_name := put_field (dr_trading_name d) (b_trading_name b),
     b_reg_number := put_field (dr_reg_number d) (b_reg_number b),
     b_reg_country := put_field (dr_reg_country d) (b_reg_country b),
     b_incorporated := put_field (dr_incorporated d) (b_incorporated b),
     b_type := put_field (dr_type d) (b_type b), b_sector := put_field (dr_sector d) (b_sector b),
     b_tax := put_field (dr_tax d) (b_tax b), b_country := put_field (dr_country d) (b_country b),
     b_city := put_field (dr_city d) (b_city b), b_address := put_field (dr_address d) (b_address b),
     b_postal := put_field (dr_postal d) (b_postal b), b_email := put_field (dr_email d) (b_email b),
     b_phone := put_field (dr_phone d) (b_phone b), b_website := put_field (dr_website d) (b_website b),
     b_description := put_field (dr_description d) (b_description b)\<rparr>"

text \<open>The rows of a list in the body replace those of the business; a missing list leaves them.\<close>

definition replaced :: "('r \<Rightarrow> bool) \<Rightarrow> 'r list option \<Rightarrow> 'r list \<Rightarrow> 'r list" where
  "replaced mine rows old = (case rows of None \<Rightarrow> old | Some rs \<Rightarrow> filter (\<lambda>r. \<not> mine r) old @ rs)"

definition replace_rows ::
  "(('r list \<Rightarrow> 'r list) \<Rightarrow> 's \<Rightarrow> 's) \<Rightarrow> ('r \<Rightarrow> bool) \<Rightarrow> 'r list option \<Rightarrow> ('s, unit) op" where
  "replace_rows upd mine rows = modify (upd (replaced mine rows))"

definition requireOwned :: "nat \<Rightarrow> ('a business_db_scheme, business) op" where
  "requireOwned u = bnd (gets (\<lambda>s. business_of s u))
     (or_throw (NotFound ''No business application found. Start the upgrade first.''))"

text \<open>\<open>businesses.update\<close> by id: the updated row.\<close>

definition business_update :: "nat \<Rightarrow> (business \<Rightarrow> business) \<Rightarrow> ('a business_db_scheme, business) op" where
  "business_update i f = bnd (gets (\<lambda>s. business_by_id s i)) (\<lambda>b. case b of
     None \<Rightarrow> throw (Failure ''Record to update not found'')
   | Some b \<Rightarrow> thn (modify (businesses_update (upd_row b_id i f))) (ret (f b)))"

definition saveDraft :: "nat \<Rightarrow> draft_dto \<Rightarrow> ('a business_db_scheme, business_view) op" where
  "saveDraft u dto = bnd (requireOwned u) (\<lambda>business.
     if b_status business \<notin> set EDITABLE
     then throw (Conflict (if b_status business = BApproved
       then ''Approved business details can no longer be edited here.''
       else ''This application is under review and cannot be edited.''))
     else let i = b_id business in
       transaction
         (thn (replace_rows persons_update (\<lambda>p. bp_business p = i)
            (map_option (map (\<lambda>p. p\<lparr>bp_business := i, bp_name := trim (bp_name p)\<rparr>)) (dr_persons dto)))
         (thn (replace_rows business_docs_update (\<lambda>d. bd_business d = i)
            (map_option (map (\<lambda>d. d\<lparr>bd_business := i\<rparr>)) (dr_docs dto)))
         (bnd (business_update i (\<lambda>b. (apply_draft dto b)\<lparr>b_status :=
              (if b_status business = BRejected then BDraft else b_status b)\<rparr>)) (\<lambda>b.
          gets (\<lambda>s. ownerView (detail s b)))))))"

definition submit_business :: "int \<Rightarrow> business \<Rightarrow> business" where
  "submit_business t b = b\<lparr>b_status := BUnderReview, b_submitted := Some t, b_notes := None\<rparr>"

definition business_submit :: "nat \<Rightarrow> ('a business_db_scheme, business_view) op" where
  "business_submit u = bnd (gets (\<lambda>s. business_of s u)) (\<lambda>b. case b of
     None \<Rightarrow> throw (NotFound ''No business application found.'')
   | Some business \<Rightarrow>
     if b_status business \<notin> set EDITABLE
     then throw (Conflict ''This application has already been submitted.'')
     else let i = b_id business in
       bnd (gets (\<lambda>s. missingRequirements business (persons_of s i) (docs_of s i))) (\<lambda>missing.
       if missing \<noteq> [] then throw (Incomplete ''Business application is incomplete.'' missing)
       else bnd (gets now) (\<lambda>t.
         bnd (gets (\<lambda>s. (persons_of s i, docs_of s i))) (\<lambda>(ps, ds).
         bnd (transaction
           (bnd (update_many businesses businesses_update
              (\<lambda>b. b_id b = i \<and> b_status b \<in> set EDITABLE) (submit_business t)) (\<lambda>count.
            if count \<noteq> 1 then throw (Conflict ''This application has already been submitted.'')
            else bnd fresh (\<lambda>v.
              thn (insert_row verifications_update \<lparr>bv_id = v, bv_business = i, bv_status = BUnderReview,
                bv_snapshot = Some (business, ps, ds), bv_submitted = t, bv_reviewer = None,
                bv_reviewed = None, bv_notes = None\<rparr>)
              (bnd (gets (\<lambda>s. business_by_id s i)) (or_throw (Failure ''No business found'')))))))
          (\<lambda>updated.
         thn (audit_log u ''business.submitted'' i)
         (gets (\<lambda>s. ownerView (detail s updated))))))))"

section \<open>Review\<close>

definition business_adminList ::
  "business_status option \<Rightarrow> int option \<Rightarrow> int option \<Rightarrow> ('a business_db_scheme, business list \<times> page_meta) op" where
  "business_adminList st page limit =
     (let p = paginationParams page limit in
      bnd (gets (\<lambda>s. filter (\<lambda>b. st = None \<or> st = Some (b_status b)) (businesses s))) (\<lambda>rows.
      ret (page_of p (sort_key (\<lambda>b. case b_submitted b of None \<Rightarrow> (0, 0, - b_created b)
             | Some t \<Rightarrow> (1, - t, - b_created b)) rows),
           paginate (int (length rows)) (pg_page p) (pg_limit p))))"

definition business_adminGet ::
  "nat \<Rightarrow> ('a business_db_scheme, business_view \<times> user option \<times> merchant option) op" where
  "business_adminGet i = bnd (gets (\<lambda>s. business_by_id s i)) (\<lambda>b. case b of
     None \<Rightarrow> throw (NotFound ''Business not found.'')
   | Some b \<Rightarrow> gets (\<lambda>s. ((detail s b)\<lparr>vw_business := b\<lparr>b_kyb := (b_kyb b)
          \<lparr>ka_status := Some (case ka_status (b_kyb b) of None \<Rightarrow> ''none'' | Some x \<Rightarrow> x)\<rparr>\<rparr>\<rparr>,
        user_by_id s (b_owner b), Option.bind (b_merchant b) (\<lambda>m. find_row mr_id m (merchants s)))))"

datatype decision = Approve | RequestInfo | Reject

fun decided :: "decision \<Rightarrow> business_status" where
  "decided Approve = BApproved"
| "decided Reject = BRejected"
| "decided RequestInfo = BMoreInfo"

fun decision_name :: "decision \<Rightarrow> string" where
  "decision_name Approve = ''approve''"
| "decision_name Reject = ''reject''"
| "decision_name RequestInfo = ''request_info''"

definition note_of :: "string option \<Rightarrow> string option" where
  "note_of notes = (if blank notes then None else map_option trim notes)"

definition review_business :: "business_status \<Rightarrow> nat \<Rightarrow> int \<Rightarrow> string option \<Rightarrow> business \<Rightarrow> business" where
  "review_business st admin t notes b = b\<lparr>b_status := st, b_reviewer := Some admin, b_reviewed := Some t,
     b_notes := notes, b_approved := (if st = BApproved then Some t else b_approved b)\<rparr>"

definition adminReview ::
  "nat \<Rightarrow> nat \<Rightarrow> decision \<Rightarrow> string option \<Rightarrow> ('a business_db_scheme, business_view) op" where
  "adminReview admin i decision notes = bnd (gets (\<lambda>s. business_by_id s i)) (\<lambda>b. case b of
     None \<Rightarrow> throw (NotFound ''Business not found.'')
   | Some business \<Rightarrow>
     if b_status business \<noteq> BUnderReview
     then throw (Conflict ''Only applications under review can be decided.'')
     else if b_owner business = admin then throw (Forbidden ''You cannot review your own business.'')
     else if decision \<noteq> Approve \<and> blank notes
     then throw (BadRequest ''A reason is required when requesting information or rejecting.'')
     else let next = decided decision; note = note_of notes in
     bnd (gets now) (\<lambda>t.
     bnd (transaction
       (bnd (update_many businesses businesses_update
          (\<lambda>b. b_id b = i \<and> b_status b = BUnderReview) (review_business next admin t note)) (\<lambda>count.
        if count \<noteq> 1 then throw (Conflict ''This application was already decided.'')
        else bnd (gets (\<lambda>s. sort_key (\<lambda>v. - bv_submitted v)
            (filter (\<lambda>v. bv_business v = i \<and> bv_reviewed v = None) (verifications s)))) (\<lambda>pending.
          thn (case pending of
              [] \<Rightarrow> ret ()
            | latest # _ \<Rightarrow> modify (verifications_update (upd_row bv_id (bv_id latest)
                (\<lambda>v. v\<lparr>bv_status := next, bv_reviewer := Some admin, bv_reviewed := Some t, bv_notes := note\<rparr>))))
          (thn (emit (Notification (b_owner business) ''merchant'' (Some i)))
          (bnd (gets (\<lambda>s. business_by_id s i)) (or_throw (Failure ''No business found''))))))))
      (\<lambda>updated.
     thn (audit_log admin (''business.review.'' @ decision_name decision) i)
     (gets (\<lambda>s. detail s updated)))))"

end
