(* ===== verification/Business_Team.thy ===== *)
theory Business_Team
  imports Business
begin

text \<open>
  Who acts for a business and with which rights: src/business-ops/permissions.ts,
  src/business-ops/business-access.service.ts and src/business-ops/business-team.service.ts.  The roles are ordered as the list
  \<open>BUSINESS_ROLES\<close> has them, the owner on top, and an actor assigns lower roles only.
\<close>

section \<open>Roles\<close>

definition BUSINESS_ROLES :: "business_role list" where
  "BUSINESS_ROLES = [BOwner, BAdmin, BFinance, BAccountant, BOperations, BDeveloper]"

fun role_name :: "business_role \<Rightarrow> string" where
  "role_name BOwner = ''owner''"
| "role_name BAdmin = ''admin''"
| "role_name BFinance = ''finance''"
| "role_name BAccountant = ''accountant''"
| "role_name BOperations = ''operations''"
| "role_name BDeveloper = ''developer''"

fun role_rank :: "business_role \<Rightarrow> nat" where
  "role_rank BOwner = 5"
| "role_rank BAdmin = 4"
| "role_rank BFinance = 3"
| "role_rank BAccountant = 2"
| "role_rank BOperations = 1"
| "role_rank BDeveloper = 0"

lemma role_rank_inj: "role_rank a = role_rank b \<Longrightarrow> a = b"
  by (cases a; cases b) simp_all

instantiation business_role :: linorder
begin

definition less_eq_business_role :: "business_role \<Rightarrow> business_role \<Rightarrow> bool" where
  "less_eq_business_role a b \<longleftrightarrow> role_rank a \<le> role_rank b"

definition less_business_role :: "business_role \<Rightarrow> business_role \<Rightarrow> bool" where
  "less_business_role a b \<longleftrightarrow> role_rank a < role_rank b"

instance
  by intro_classes (auto simp: less_eq_business_role_def less_business_role_def intro: role_rank_inj)

end

lemma BUSINESS_ROLES_all [simp]: "set BUSINESS_ROLES = UNIV"
proof -
  have "r \<in> set BUSINESS_ROLES" for r by (cases r) (simp_all add: BUSINESS_ROLES_def)
  then show ?thesis by blast
qed

lemma BUSINESS_ROLES_sorted: "sorted (rev BUSINESS_ROLES)"
  by (simp add: BUSINESS_ROLES_def less_eq_business_role_def)

section \<open>Permissions\<close>

datatype permission =
    DashboardRead | WalletRead | TeamRead | TeamManage | TransactionsRead | CustomersRead
  | CustomersManage | InvoicesRead | InvoicesManage | LinksRead | LinksManage | PayoutsRead
  | PayoutsCreate | EscrowRead | EscrowManage | AnalyticsRead | ProfileRead | ProfileManage
  | DevelopersRead | DevelopersManage | ProjectsRead | ProjectsManage

fun PERMISSION_MATRIX :: "permission \<Rightarrow> business_role list" where
  "PERMISSION_MATRIX DashboardRead = BUSINESS_ROLES"
| "PERMISSION_MATRIX WalletRead = [BOwner, BAdmin, BFinance, BAccountant]"
| "PERMISSION_MATRIX TeamRead = BUSINESS_ROLES"
| "PERMISSION_MATRIX TeamManage = [BOwner, BAdmin]"
| "PERMISSION_MATRIX TransactionsRead = [BOwner, BAdmin, BFinance, BAccountant, BOperations]"
| "PERMISSION_MATRIX CustomersRead = [BOwner, BAdmin, BFinance, BAccountant, BOperations]"
| "PERMISSION_MATRIX CustomersManage = [BOwner, BAdmin, BFinance, BOperations]"
| "PERMISSION_MATRIX InvoicesRead = [BOwner, BAdmin, BFinance, BAccountant, BOperations]"
| "PERMISSION_MATRIX InvoicesManage = [BOwner, BAdmin, BFinance]"
| "PERMISSION_MATRIX LinksRead = BUSINESS_ROLES"
| "PERMISSION_MATRIX LinksManage = [BOwner, BAdmin, BFinance, BOperations]"
| "PERMISSION_MATRIX PayoutsRead = [BOwner, BAdmin, BFinance, BAccountant]"
| "PERMISSION_MATRIX PayoutsCreate = [BOwner, BFinance]"
| "PERMISSION_MATRIX EscrowRead = [BOwner, BAdmin, BFinance, BOperations]"
| "PERMISSION_MATRIX EscrowManage = [BOwner, BAdmin, BOperations]"
| "PERMISSION_MATRIX AnalyticsRead = [BOwner, BAdmin, BFinance, BAccountant]"
| "PERMISSION_MATRIX ProfileRead = BUSINESS_ROLES"
| "PERMISSION_MATRIX ProfileManage = [BOwner, BAdmin]"
| "PERMISSION_MATRIX DevelopersRead = [BOwner, BAdmin, BDeveloper]"
| "PERMISSION_MATRIX DevelopersManage = [BOwner, BAdmin, BDeveloper]"
| "PERMISSION_MATRIX ProjectsRead = [BOwner, BAdmin, BFinance, BAccountant, BOperations]"
| "PERMISSION_MATRIX ProjectsManage = [BOwner, BAdmin]"

definition can :: "business_role \<Rightarrow> permission \<Rightarrow> bool" where
  "can r p \<longleftrightarrow> r \<in> set (PERMISSION_MATRIX p)"

text \<open>The keys of the matrix in the order of the code.\<close>

definition PERMISSIONS :: "permission list" where
  "PERMISSIONS = [DashboardRead, WalletRead, TeamRead, TeamManage, TransactionsRead, CustomersRead,
     CustomersManage, InvoicesRead, InvoicesManage, LinksRead, LinksManage, PayoutsRead,
     PayoutsCreate, EscrowRead, EscrowManage, AnalyticsRead, ProfileRead, ProfileManage,
     DevelopersRead, DevelopersManage, ProjectsRead, ProjectsManage]"

definition permissionsFor :: "business_role \<Rightarrow> permission list" where
  "permissionsFor r = filter (can r) PERMISSIONS"

fun assignableRoles :: "business_role \<Rightarrow> business_role list" where
  "assignableRoles BOwner = [BAdmin, BFinance, BAccountant, BOperations, BDeveloper]"
| "assignableRoles BAdmin = [BFinance, BAccountant, BOperations, BDeveloper]"
| "assignableRoles _ = []"

fun_cases assignable_elim: "assignableRoles r = x # xs"

section \<open>The actor\<close>

record actor =
  ac_user :: nat
  ac_role :: business_role
  ac_business :: business

definition approved_business :: "'a business_db_scheme \<Rightarrow> nat \<Rightarrow> business option" where
  "approved_business s i = (case business_by_id s i of
     None \<Rightarrow> None | Some b \<Rightarrow> if b_status b = BApproved then Some b else None)"

definition membership :: "'a business_db_scheme \<Rightarrow> nat \<Rightarrow> member option" where
  "membership s u = (case sort_key mb_created (filter (\<lambda>m. mb_user m = u \<and> mb_active m
       \<and> approved_business s (mb_business m) \<noteq> None) (members s)) of
     [] \<Rightarrow> None | m # _ \<Rightarrow> Some m)"

definition actor_of :: "'a business_db_scheme \<Rightarrow> nat \<Rightarrow> actor option" where
  "actor_of s u =
     (case business_of s u of
        Some b \<Rightarrow> if b_status b = BApproved then Some \<lparr>ac_user = u, ac_role = BOwner, ac_business = b\<rparr>
          else map_option (\<lambda>m. \<lparr>ac_user = u, ac_role = mb_role m,
            ac_business = the (approved_business s (mb_business m))\<rparr>) (membership s u)
      | None \<Rightarrow> map_option (\<lambda>m. \<lparr>ac_user = u, ac_role = mb_role m,
            ac_business = the (approved_business s (mb_business m))\<rparr>) (membership s u))"

definition resolve :: "nat \<Rightarrow> permission option \<Rightarrow> ('a business_db_scheme, actor) op" where
  "resolve u perm = bnd (gets (\<lambda>s. actor_of s u)) (\<lambda>a. case a of
     None \<Rightarrow> throw (NotFound ''No approved business account found'')
   | Some a \<Rightarrow>
     if perm \<noteq> None \<and> \<not> can (ac_role a) (the perm)
     then throw (Forbidden ''Your business role does not allow this action'')
     else ret a)"

lemma wp_resolve:
  "(\<And>a. actor_of s u = Some a \<Longrightarrow> can (ac_role a) p \<Longrightarrow> Q a s) \<Longrightarrow> (\<And>e. E e s) \<Longrightarrow> wp (resolve u (Some p)) Q E s"
  by (auto simp: resolve_def wp_simps split: option.split)

definition business_name :: "business \<Rightarrow> string option" where
  "business_name b = (if truthy (b_trading_name b) then b_trading_name b else b_legal_name b)"

definition business_context ::
  "nat \<Rightarrow> ('a business_db_scheme, nat \<times> string option \<times> business_role \<times> permission list) op" where
  "business_context u = bnd (resolve u None) (\<lambda>a.
     ret (b_id (ac_business a), business_name (ac_business a), ac_role a, permissionsFor (ac_role a)))"

section \<open>The team\<close>

record team_entry =
  te_id :: "nat option"
  te_role :: business_role
  te_user :: "user option"
  te_created :: "int option"
  te_permissions :: "permission list"

definition team_list ::
  "nat \<Rightarrow> ('a business_db_scheme, team_entry list \<times> business_role \<times> business_role list) op" where
  "team_list u = bnd (resolve u (Some TeamRead)) (\<lambda>a. gets (\<lambda>s.
     (\<lparr>te_id = None, te_role = BOwner, te_user = user_by_id s (b_owner (ac_business a)),
        te_created = None, te_permissions = permissionsFor BOwner\<rparr> #
      map (\<lambda>m. \<lparr>te_id = Some (mb_id m), te_role = mb_role m, te_user = user_by_id s (mb_user m),
          te_created = Some (mb_created m), te_permissions = permissionsFor (mb_role m)\<rparr>)
        (sort_key mb_created (filter (\<lambda>m. mb_business m = b_id (ac_business a) \<and> mb_active m) (members s))),
      ac_role a, assignableRoles (ac_role a))))"

definition assertAssignable :: "business_role \<Rightarrow> business_role \<Rightarrow> ('s, unit) op" where
  "assertAssignable actor r = (if r \<notin> set (assignableRoles actor)
     then throw (Forbidden (''Your role cannot manage '' @ role_name r @ '' members'')) else ret ())"

definition memberOf :: "nat \<Rightarrow> nat \<Rightarrow> ('a business_db_scheme, member) op" where
  "memberOf business i = bnd (gets (\<lambda>s. find (\<lambda>m. mb_id m = i \<and> mb_business m = business \<and> mb_active m) (members s)))
     (or_throw (NotFound ''Team member not found''))"

definition member_update :: "nat \<Rightarrow> (member \<Rightarrow> member) \<Rightarrow> ('a business_db_scheme, unit) op" where
  "member_update i f = modify (members_update (upd_row mb_id i f))"

text \<open>A former member is activated again with the new role; others get a row.\<close>

definition put_member ::
  "nat \<Rightarrow> nat \<Rightarrow> nat \<Rightarrow> business_role \<Rightarrow> member option \<Rightarrow> ('a business_db_scheme, member) op" where
  "put_member u business target r existing = (case existing of
     Some m \<Rightarrow> let f = (\<lambda>m. m\<lparr>mb_active := True, mb_role := r, mb_invited_by := Some u\<rparr>) in
       thn (member_update (mb_id m) f) (ret (f m))
   | None \<Rightarrow> bnd fresh (\<lambda>i. bnd (gets now) (\<lambda>t.
       let m = \<lparr>mb_id = i, mb_business = business, mb_user = target, mb_role = r, mb_active = True,
                mb_invited_by = Some u, mb_created = t\<rparr> in
       thn (insert_row members_update m) (ret m))))"

definition team_add ::
  "ext \<Rightarrow> nat \<Rightarrow> string \<Rightarrow> business_role \<Rightarrow> string \<Rightarrow> ('a business_db_scheme, member) op" where
  "team_add X u identifier r pin = bnd (resolve u (Some TeamManage)) (\<lambda>a.
     thn (assertAssignable (ac_role a) r)
     (thn (verifyPin X u pin)
     (let ident = trim identifier; b = ac_business a in
     bnd (gets (\<lambda>s. find (\<lambda>t. (u_username t = ident \<or> u_phone t = ident \<or> u_email t = Some ident)
            \<and> \<not> u_deleted t \<and> u_active t) (users s))) (\<lambda>target. case target of
       None \<Rightarrow> throw (NotFound ''No Farm user found with that username, phone or email'')
     | Some target \<Rightarrow>
       if u_id target = b_owner b then throw (BadRequest ''The owner is already on the team'')
       else bnd (gets (\<lambda>s. find (\<lambda>m. mb_business m = b_id b \<and> mb_user m = u_id target) (members s))) (\<lambda>existing.
       if (case existing of None \<Rightarrow> False | Some m \<Rightarrow> mb_active m)
       then throw (Conflict ''This user is already a team member'')
       else bnd (put_member u (b_id b) (u_id target) r existing) (\<lambda>m.
       thn (emit (Notification (u_id target) ''merchant'' None))
       (thn (audit_log u ''business.member_added'' (b_id b)) (ret m))))))))"

definition team_update ::
  "ext \<Rightarrow> nat \<Rightarrow> nat \<Rightarrow> business_role \<Rightarrow> string \<Rightarrow> ('a business_db_scheme, member) op" where
  "team_update X u i r pin = bnd (resolve u (Some TeamManage)) (\<lambda>a.
     bnd (memberOf (b_id (ac_business a)) i) (\<lambda>m.
     thn (assertAssignable (ac_role a) (mb_role m))
     (thn (assertAssignable (ac_role a) r)
     (if mb_user m = u then throw (Forbidden ''You cannot change your own role'')
      else thn (verifyPin X u pin)
        (thn (member_update (mb_id m) (\<lambda>m. m\<lparr>mb_role := r\<rparr>))
        (thn (audit_log u ''business.member_role_changed'' (b_id (ac_business a)))
        (ret (m\<lparr>mb_role := r\<rparr>))))))))"

definition team_remove :: "ext \<Rightarrow> nat \<Rightarrow> nat \<Rightarrow> string \<Rightarrow> ('a business_db_scheme, unit) op" where
  "team_remove X u i pin = bnd (resolve u (Some TeamManage)) (\<lambda>a.
     bnd (memberOf (b_id (ac_business a)) i) (\<lambda>m.
     if mb_user m = u then throw (Forbidden ''You cannot remove yourself'')
     else thn (assertAssignable (ac_role a) (mb_role m))
       (thn (verifyPin X u pin)
       (thn (member_update (mb_id m) (\<lambda>m. m\<lparr>mb_active := False\<rparr>))
       (audit_log u ''business.member_removed'' (b_id (ac_business a)))))))"

section \<open>The profile\<close>

definition getProfile :: "nat \<Rightarrow> ('a business_db_scheme, business option \<times> bool) op" where
  "getProfile u = bnd (resolve u (Some ProfileRead)) (\<lambda>a.
     gets (\<lambda>s. (business_by_id s (b_id (ac_business a)), ac_role a = BOwner \<or> ac_role a = BAdmin)))"

record profile_dto =
  pf_trading_name :: "string field"
  pf_email :: "string field"
  pf_phone :: "string field"
  pf_website :: "string field"
  pf_description :: "string field"
  pf_address :: "string field"

definition profile_fields :: "profile_dto \<Rightarrow> string field list" where
  "profile_fields d = [pf_trading_name d, pf_email d, pf_phone d, pf_website d, pf_description d, pf_address d]"

fun trim_field :: "string field \<Rightarrow> string field" where
  "trim_field (Val x) = Val (trim x)"
| "trim_field f = f"

definition apply_profile :: "profile_dto \<Rightarrow> business \<Rightarrow> business" where
  "apply_profile d b = b\<lparr>
     b_trading_name := put_field (trim_field (pf_trading_name d)) (b_trading_name b),
     b_email := put_field (trim_field (pf_email d)) (b_email b),
     b_phone := put_field (trim_field (pf_phone d)) (b_phone b),
     b_website := put_field (trim_field (pf_website d)) (b_website b),
     b_description := put_field (trim_field (pf_description d)) (b_description b),
     b_address := put_field (trim_field (pf_address d)) (b_address b)\<rparr>"

text \<open>\<open>null.trim()\<close> is a type error.\<close>

definition updateProfile :: "nat \<Rightarrow> profile_dto \<Rightarrow> ('a business_db_scheme, business) op" where
  "updateProfile u dto = bnd (resolve u (Some ProfileManage)) (\<lambda>a.
     if Null \<in> set (profile_fields dto) then throw (Failure ''TypeError'')
     else bnd (business_update (b_id (ac_business a)) (apply_profile dto)) (\<lambda>b.
       thn (audit_log u ''business.profile_updated'' (b_id (ac_business a))) (ret b)))"

end
