(* ===== verification/Projects.thy ===== *)
theory Projects
  imports Business_Team
begin

text \<open>
  Investment projects: the tables, the rules of src/project-marketplace/project-rules.ts and the
  consolidation fund of src/project-marketplace/consolidation.ts.  Money invested leaves the
  investor's wallet and is then recorded on the project row only, as \<open>raised\<close>; the consolidation
  fee of a closed round and the releases to the business are taken from it.
\<close>

section \<open>Tables\<close>

datatype project_status =
    PDraft | PSubmitted | PMoreInfo | PApproved | PRejected | PListed | PFunded | PClosed | PCancelled | POpen

text \<open>What a project says of itself.\<close>

record project_info =
  i_name :: "string option"
  i_category :: "string option"
  i_sector :: "string option"
  i_summary :: "string option"
  i_description :: "string option"
  i_location :: "string option"
  i_country :: "string option"
  i_banner :: "string option"
  i_instrument :: "string option"
  i_duration :: "int option"
  i_use :: "string option"
  i_risks :: "string option"
  i_team :: "string option"
  i_starts :: "int option"
  i_ends :: "int option"

record project =
  p_id :: nat
  p_business :: "nat option"
  p_info :: project_info
  p_target :: "int option"
  p_raised :: int
  p_min :: "int option"
  p_max :: "int option"
  p_backers :: int
  p_status :: project_status
  p_created_by :: "nat option"
  p_created :: int
  p_notes :: "string option"
  p_submitted :: "int option"
  p_approved :: "int option"
  p_listed :: "int option"
  p_reviewer :: "nat option"
  p_released :: int
  p_cons_fee :: int
  p_cons_at :: "int option"
  p_cons_refunded :: int
  p_cons_released :: int

datatype milestone_status = Planned | Requested | Returned | Released

record milestone =
  ms_id :: nat
  ms_project :: nat
  ms_position :: nat
  ms_title :: string
  ms_description :: "string option"
  ms_amount :: int
  ms_status :: milestone_status
  ms_evidence :: "string option"
  ms_evidence_url :: "string option"
  ms_requested_at :: "int option"
  ms_requested_by :: "nat option"
  ms_released :: "int option"
  ms_released_at :: "int option"
  ms_released_by :: "nat option"
  ms_notes :: "string option"
  ms_txn :: "nat option"

datatype investment_status = Committed | Active | Refunded | PartiallyRefunded

record investment =
  iv_id :: nat
  iv_user :: nat
  iv_project :: nat
  iv_amount :: int
  iv_txn :: nat
  iv_status :: investment_status
  iv_acceptance :: nat
  iv_at :: int

record acceptance =
  ra_id :: nat
  ra_user :: nat
  ra_project :: nat
  ra_version :: string
  ra_ip :: "string option"

datatype eligibility_status = ElPending | ElEligible | ElRestricted

record investor_profile =
  ip_user :: nat
  ip_status :: eligibility_status
  ip_category :: "string option"
  ip_notes :: "string option"
  ip_reviewer :: "nat option"
  ip_at :: "int option"
  ip_updated :: int

record project_doc =
  pd_id :: nat
  pd_project :: nat
  pd_kind :: string
  pd_title :: string
  pd_url :: string
  pd_visibility :: string
  pd_by :: nat
  pd_created :: int

record project_update =
  pu_project :: nat
  pu_author :: nat
  pu_title :: string
  pu_body :: string
  pu_at :: int

section \<open>Rules (project-rules.ts)\<close>

definition SECTORS :: "string list" where
  "SECTORS = [''agriculture'', ''energy'', ''real_estate'', ''infrastructure'', ''technology'',
     ''manufacturing'', ''other'']"

definition INSTRUMENT_TYPES :: "string list" where
  "INSTRUMENT_TYPES = [''equity'', ''debt'', ''revenue_share'', ''asset_backed'', ''other'']"

definition DOCUMENT_KINDS :: "string list" where
  "DOCUMENT_KINDS = [''business_plan'', ''financial_statements'', ''financial_projections'',
     ''licence_permit'', ''land_title_lease'', ''pitch_deck'', ''valuation_report'',
     ''legal_agreement'', ''environmental_assessment'', ''other'']"

definition REQUIRED_DOCUMENTS :: "string list" where
  "REQUIRED_DOCUMENTS = [''business_plan'', ''financial_statements'']"

definition DOCUMENT_VISIBILITY :: "string list" where
  "DOCUMENT_VISIBILITY = [''public'', ''investors'', ''admin'']"

definition PROJECT_EDITABLE :: "project_status list" where
  "PROJECT_EDITABLE = [PDraft, PMoreInfo]"

definition INVESTABLE :: "project_status list" where
  "INVESTABLE = [PListed, POpen]"

definition MARKET_VISIBLE :: "project_status list" where
  "MARKET_VISIBLE = [PListed, POpen, PFunded, PClosed]"

definition RELEASABLE :: "project_status list" where
  "RELEASABLE = [PFunded, PClosed]"

definition MAX_MILESTONES :: nat where "MAX_MILESTONES = 12"

definition RISK_DISCLOSURE_VERSION :: string where
  "RISK_DISCLOSURE_VERSION = ''2026-10-v2''"

datatype project_action =
    StartReview | RequestProjectInfo | ApproveProject | RejectProject | ListProject | UnlistProject
  | CloseProject | CancelProject

fun ADMIN_TRANSITIONS :: "project_action \<Rightarrow> project_status list \<times> project_status" where
  "ADMIN_TRANSITIONS StartReview = ([PSubmitted], PSubmitted)"
| "ADMIN_TRANSITIONS RequestProjectInfo = ([PSubmitted], PMoreInfo)"
| "ADMIN_TRANSITIONS ApproveProject = ([PSubmitted], PApproved)"
| "ADMIN_TRANSITIONS RejectProject = ([PSubmitted, PMoreInfo, PApproved], PRejected)"
| "ADMIN_TRANSITIONS ListProject = ([PApproved], PListed)"
| "ADMIN_TRANSITIONS UnlistProject = ([PListed], PApproved)"
| "ADMIN_TRANSITIONS CloseProject = ([PListed, PFunded, POpen], PClosed)"
| "ADMIN_TRANSITIONS CancelProject = ([PApproved, PListed, PFunded, POpen], PCancelled)"

section \<open>What leaves the API\<close>

text \<open>The record has no return or ROI column: \<open>stripReturns\<close> removes those before anything leaves.\<close>

record project_view =
  pv_project :: project
  pv_target :: rat
  pv_raised :: rat
  pv_min :: "rat option"
  pv_max :: "rat option"
  pv_progress :: rat
  pv_sector :: string
  pv_legacy :: bool

definition sector_of :: "project_info \<Rightarrow> string" where
  "sector_of p = (case i_sector p of
     Some x \<Rightarrow> x
   | None \<Rightarrow> if truthy (i_category p) then map lower_char (the (i_category p)) else ''other'')"

definition presentProject :: "project \<Rightarrow> project_view" where
  "presentProject p = (let target = (case p_target p of None \<Rightarrow> 0 | Some t \<Rightarrow> num t); raised = num (p_raised p) in
     \<lparr>pv_project = p\<lparr>p_status := (if p_status p = POpen then PListed else p_status p),
        p_notes := None, p_reviewer := None\<rparr>,
      pv_target = target, pv_raised = raised, pv_min = map_option num (p_min p),
      pv_max = map_option num (p_max p),
      pv_progress = (if target > 0 then min 100 (fl (fl (raised / target) * 100)) else 0),
      pv_sector = sector_of (p_info p), pv_legacy = (p_business p = None)\<rparr>)"

record project_review =
  rv_project :: nat
  rv_actor :: nat
  rv_action :: string
  rv_from :: "project_status option"
  rv_to :: project_status
  rv_notes :: "string option"
  rv_snapshot :: "project_view option"

record market_db = business_db +
  projects :: "project list"
  milestones :: "milestone list"
  investments :: "investment list"
  acceptances :: "acceptance list"
  profiles :: "investor_profile list"
  project_docs :: "project_doc list"
  project_updates :: "project_update list"
  project_reviews :: "project_review list"

definition project_by_id :: "'a market_db_scheme \<Rightarrow> nat \<Rightarrow> project option" where
  "project_by_id s i = find_row p_id i (projects s)"

definition milestones_of :: "'a market_db_scheme \<Rightarrow> nat \<Rightarrow> milestone list" where
  "milestones_of s i = sort_key ms_position (filter (\<lambda>m. ms_project m = i) (milestones s))"

section \<open>Consolidation fund (consolidation.ts)\<close>

definition CONSOLIDATION_CATEGORY :: string where
  "CONSOLIDATION_CATEGORY = ''consolidation_fund''"

definition FARM_REVENUE_CATEGORY :: string where
  "FARM_REVENUE_CATEGORY = ''fee_revenue''"

definition take_fee :: "rat \<Rightarrow> int \<Rightarrow> project \<Rightarrow> project" where
  "take_fee charge t p = p\<lparr>p_cons_fee := to_units charge, p_cons_at := Some t\<rparr>"

definition chargeConsolidationInTx :: "nat \<Rightarrow> nat option \<Rightarrow> ('a market_db_scheme, rat) op" where
  "chargeConsolidationInTx project_id by_user = bnd (gets (\<lambda>s. project_by_id s project_id)) (\<lambda>p. case p of
     None \<Rightarrow> ret 0
   | Some p \<Rightarrow>
     if p_cons_at p \<noteq> None then ret 0
     else let raised = num (p_raised p) in
       bnd (if raised > 0 then feeFor ProjectListing raised 2 else ret 0) (\<lambda>charge.
       bnd (gets now) (\<lambda>t.
       bnd (update_many projects projects_update
          (\<lambda>p. p_id p = project_id \<and> p_cons_at p = None) (take_fee charge t)) (\<lambda>count.
       if count = 0 \<or> \<not> charge > 0 then ret 0
       else bnd (txn_create (\<lambda>j u. \<lparr>t_id = j, t_ref = j, t_sender = None, t_receiver = None, t_type = Fee,
              t_status = Completed, t_amount = to_units charge, t_fee = 0, t_net = to_units charge, t_created = u,
              t_meta = [MProject project_id, MRaised raised, MCategory CONSOLIDATION_CATEGORY, MBy by_user]\<rparr>)) (\<lambda>tx.
         thn (creditPlatformInTx charge (Some (t_id tx)) (Some CONSOLIDATION_CATEGORY)) (ret charge))))))"

definition heldFunds :: "int \<Rightarrow> int \<Rightarrow> rat \<Rightarrow> rat" where
  "heldFunds raised released cons_fee = max 0 (fl (fl (num raised - cons_fee) - num released))"

definition reserveLeft :: "project \<Rightarrow> rat" where
  "reserveLeft p = max 0 (fl (fl (num (p_cons_fee p) - num (p_cons_refunded p)) - num (p_cons_released p)))"

text \<open>The guarded SQL updates on the project row: never more than the reserve of that project.\<close>

definition reserve_covers :: "nat \<Rightarrow> rat \<Rightarrow> project \<Rightarrow> bool" where
  "reserve_covers i amount p \<longleftrightarrow> p_id p = i
     \<and> of_int (p_cons_refunded p) + of_int (p_cons_released p) + sql amount \<le> of_int (p_cons_fee p)"

definition reserve_entry :: "nat \<Rightarrow> nat \<Rightarrow> entry_type \<Rightarrow> rat \<Rightarrow> rat \<Rightarrow> rat \<Rightarrow> string \<Rightarrow> ledger_entry" where
  "reserve_entry txn_id wid ty amount before after category = \<lparr>l_txn = Some txn_id, l_wallet = wid, l_type = ty,
     l_amount = to_units amount, l_before = Some (to_units before), l_after = Some (to_units after),
     l_category = Some category\<rparr>"

definition payFromReserveInTx :: "nat \<Rightarrow> rat \<Rightarrow> nat \<Rightarrow> ('a market_db_scheme, unit) op" where
  "payFromReserveInTx project_id amount txn_id =
     (if \<not> amount > 0 then ret ()
      else bnd (update_many projects projects_update (reserve_covers project_id amount)
          (\<lambda>p. p\<lparr>p_cons_refunded := dec_inc (p_cons_refunded p) amount\<rparr>)) (\<lambda>claimed.
        if claimed \<noteq> 1 then throw (Failure ''Consolidation reserve exhausted'')
        else bnd (gets platform_wallet) (\<lambda>w. case w of
          None \<Rightarrow> throw (Failure ''Platform wallet not found'')
        | Some w \<Rightarrow> let before = num (w_balance w) in
            thn (wallet_update (w_id w) (dec_balance amount))
              (ledger_create (reserve_entry txn_id (w_id w) Debit amount before (fl (before - amount))
                 CONSOLIDATION_CATEGORY)))))"

definition releaseReserveToFarmInTx :: "nat \<Rightarrow> rat \<Rightarrow> nat \<Rightarrow> ('a market_db_scheme, unit) op" where
  "releaseReserveToFarmInTx project_id amount txn_id =
     (if \<not> amount > 0 then ret ()
      else bnd (update_many projects projects_update (reserve_covers project_id amount)
          (\<lambda>p. p\<lparr>p_cons_released := dec_inc (p_cons_released p) amount\<rparr>)) (\<lambda>claimed.
        if claimed \<noteq> 1 then throw (Failure ''Consolidation reserve exhausted'')
        else bnd (gets platform_wallet) (\<lambda>w. case w of
          None \<Rightarrow> throw (Failure ''Platform wallet not found'')
        | Some w \<Rightarrow> let bal = num (w_balance w) in
            thn (ledger_create (reserve_entry txn_id (w_id w) Debit amount bal bal CONSOLIDATION_CATEGORY))
              (ledger_create (reserve_entry txn_id (w_id w) Credit amount bal bal FARM_REVENUE_CATEGORY)))))"

end
