(* ===== verification/Project_Market.thy ===== *)
theory Project_Market
  imports Projects
begin

text \<open>
  The investors' side of the marketplace: src/project-marketplace/marketplace.service.ts.
  Listing and detail, eligibility, investing, portfolio and history.  The table of legacy
  projects is read only and not modelled.
\<close>

section \<open>Browsing\<close>

definition market_statuses :: "string \<Rightarrow> project_status list" where
  "market_statuses q = (if q = ''all'' then MARKET_VISIBLE else if q = ''funded'' then [PFunded] else INVESTABLE)"

fun contains :: "string \<Rightarrow> string \<Rightarrow> bool" where
  "contains t [] = (t = [])"
| "contains t (c # cs) = (take (length t) (c # cs) = t \<or> contains t cs)"

definition contains_i :: "string \<Rightarrow> string option \<Rightarrow> bool" where
  "contains_i t x = (case x of None \<Rightarrow> False | Some y \<Rightarrow> contains (map lower_char t) (map lower_char y))"

definition market_matches :: "string \<Rightarrow> string option \<Rightarrow> string option \<Rightarrow> project \<Rightarrow> bool" where
  "market_matches status sector search p \<longleftrightarrow> p_status p \<in> set (market_statuses status)
     \<and> (\<not> truthy sector \<or> sector = Some ''all'' \<or> i_sector (p_info p) = sector)
     \<and> (\<not> truthy search \<or> contains_i (the search) (i_name (p_info p))
        \<or> contains_i (the search) (i_summary (p_info p)) \<or> contains_i (the search) (i_location (p_info p)))"

text \<open>\<open>desc\<close> puts missing dates first.\<close>

definition newest_first :: "int option \<Rightarrow> int \<Rightarrow> int \<times> int \<times> int" where
  "newest_first d created = (case d of None \<Rightarrow> (0, 0, - created) | Some t \<Rightarrow> (1, - t, - created))"

definition owner_name :: "'a market_db_scheme \<Rightarrow> project \<Rightarrow> string option" where
  "owner_name s p = Option.bind (Option.bind (p_business p) (business_by_id s)) (\<lambda>b.
     if truthy (b_trading_name b) then b_trading_name b
     else if truthy (b_legal_name b) then b_legal_name b else None)"

definition market_list ::
  "string \<Rightarrow> string option \<Rightarrow> string option \<Rightarrow> int option \<Rightarrow> int option
    \<Rightarrow> ('a market_db_scheme, (project_view \<times> string option) list \<times> page_meta) op" where
  "market_list status sector search page limit =
     (let g = paginationParams page limit in
      bnd (gets (\<lambda>s. filter (market_matches status sector search) (projects s))) (\<lambda>rows.
      gets (\<lambda>s. (map (\<lambda>p. (presentProject p, owner_name s p))
            (page_of g (sort_key (\<lambda>p. newest_first (p_listed p) (p_created p)) rows)),
          paginate (int (length rows)) (pg_page g) (pg_limit g)))))"

record project_detail =
  dt_project :: project_view
  dt_owner :: "string option"
  dt_docs :: "project_doc list"
  dt_updates :: "project_update list"
  dt_released :: rat
  dt_cons_fee :: rat
  dt_reserve :: rat
  dt_milestones :: "(nat \<times> string \<times> string option \<times> rat \<times> milestone_status \<times> rat option \<times> int option) list"
  dt_investable :: bool
  dt_fees :: "rat \<times> rat"

text \<open>Investment and consolidation percentages in force.\<close>

definition investorFees :: "('a core_scheme, rat \<times> rat) op" where
  "investorFees = bnd (ruleFor InvestmentFee) (\<lambda>inv. bnd (ruleFor ProjectListing) (\<lambda>cons.
     ret (r_percent inv, r_percent cons)))"

definition market_detail ::
  "nat \<Rightarrow> nat option \<Rightarrow> ('a market_db_scheme, project_detail) op" where
  "market_detail i user_id = bnd (gets (\<lambda>s. project_by_id s i)) (\<lambda>p. case p of
     None \<Rightarrow> throw (NotFound ''Project not found'')
   | Some p \<Rightarrow>
     if p_status p \<notin> set MARKET_VISIBLE then throw (NotFound ''Project not found'')
     else bnd (gets (\<lambda>s. case user_id of
          None \<Rightarrow> False
        | Some u \<Rightarrow> list_ex (\<lambda>v. iv_user v = u \<and> iv_project v = i) (investments s))) (\<lambda>is_investor.
     bnd (gets (\<lambda>s. filter (\<lambda>d. pd_visibility d = ''public''
          \<or> (pd_visibility d = ''investors'' \<and> (is_investor \<or> user_id \<noteq> None)))
        (sort_key pd_created (filter (\<lambda>d. pd_project d = i) (project_docs s))))) (\<lambda>docs.
     bnd (gets (\<lambda>s. take 20 (sort_key (\<lambda>u. - pu_at u) (filter (\<lambda>u. pu_project u = i) (project_updates s))))) (\<lambda>ups.
     bnd investorFees (\<lambda>fees. gets (\<lambda>s.
       \<lparr>dt_project = presentProject p, dt_owner = owner_name s p, dt_docs = docs, dt_updates = ups,
        dt_released = num (p_released p), dt_cons_fee = num (p_cons_fee p),
        dt_reserve = fl (fl (num (p_cons_fee p) - num (p_cons_refunded p)) - num (p_cons_released p)),
        dt_milestones = map (\<lambda>m. (ms_position m, ms_title m, ms_description m, num (ms_amount m), ms_status m,
            map_option num (ms_released m), ms_released_at m)) (milestones_of s i),
        dt_investable = (p_status p \<in> set INVESTABLE
          \<and> (case i_ends (p_info p) of None \<Rightarrow> True | Some t \<Rightarrow> t > now s)),
        dt_fees = fees\<rparr>))))))"

section \<open>Eligibility\<close>

definition profile_of :: "'a market_db_scheme \<Rightarrow> nat \<Rightarrow> investor_profile option" where
  "profile_of s u = find_row ip_user u (profiles s)"

record eligibility =
  el_status :: eligibility_status
  el_reason :: "string option"
  el_category :: "string option"
  el_kyc :: "kyc_status option"

definition eligibility_of :: "'a market_db_scheme \<Rightarrow> nat \<Rightarrow> eligibility" where
  "eligibility_of s u = (let profile = profile_of s u; user = user_by_id s u;
       (st, reason) =
         (if (case profile of None \<Rightarrow> False | Some p \<Rightarrow> ip_status p = ElRestricted)
          then (ElRestricted, Some ''Your account cannot invest right now. Contact support.'')
          else if (case user of None \<Rightarrow> False | Some v \<Rightarrow> u_kyc v = KycVerified) then (ElEligible, None)
          else (ElPending, Some ''Verify your identity (KYC) before investing.''))
     in \<lparr>el_status = st, el_reason = reason, el_category = Option.bind profile ip_category,
         el_kyc = map_option u_kyc user\<rparr>)"

definition requestEligibility :: "nat \<Rightarrow> ('a market_db_scheme, eligibility) op" where
  "requestEligibility u =
     thn (modify (\<lambda>s. if profile_of s u = None
       then s\<lparr>profiles := profiles s @ [\<lparr>ip_user = u, ip_status = ElPending, ip_category = None,
              ip_notes = None, ip_reviewer = None, ip_at = None, ip_updated = now s\<rparr>]\<rparr> else s))
     (gets (\<lambda>s. eligibility_of s u))"

section \<open>Investing\<close>

text \<open>\<open>amount\<close> is \<open>None\<close> when the request's number is not finite.\<close>

record invest_dto =
  vd_amount :: "rat option"
  vd_pin :: string
  vd_accept :: bool
  vd_version :: "string option"

text \<open>The stake of a user in a project, \<open>Number(null ?? 0)\<close> when there is none.\<close>

definition invested_before :: "'a market_db_scheme \<Rightarrow> nat \<Rightarrow> nat \<Rightarrow> rat" where
  "invested_before s u i = num (sum_list (map iv_amount
     (filter (\<lambda>v. iv_user v = u \<and> iv_project v = i \<and> iv_status v \<in> {Committed, Active}) (investments s))))"

definition invest_checks ::
  "ext \<Rightarrow> nat \<Rightarrow> nat \<Rightarrow> invest_dto \<Rightarrow> ('a market_db_scheme, rat \<times> project \<times> rat \<times> wallet) op" where
  "invest_checks X u i dto = (case vd_amount dto of
     None \<Rightarrow> throw (BadRequest ''Amount must be positive'')
   | Some amount \<Rightarrow>
     if amount \<le> 0 then throw (BadRequest ''Amount must be positive'')
     else bnd (gets (\<lambda>s. eligibility_of s u)) (\<lambda>el.
     if el_status el \<noteq> ElEligible
     then throw (Forbidden (case el_reason el of Some r \<Rightarrow> r | None \<Rightarrow> ''You are not eligible to invest yet''))
     else if \<not> vd_accept dto \<or> vd_version dto \<noteq> Some RISK_DISCLOSURE_VERSION
     then throw (BadRequest ''Please read and accept the latest risk disclosure before investing'')
     else thn (verifyPin X u (vd_pin dto))
     (bnd (gets (\<lambda>s. (project_by_id s i, now s))) (\<lambda>(p, t). case p of
       None \<Rightarrow> throw (NotFound ''Project not found'')
     | Some p \<Rightarrow>
       if p_status p \<notin> set INVESTABLE then throw (BadRequest ''Project is not open for investment'')
       else if (case i_ends (p_info p) of None \<Rightarrow> False | Some e \<Rightarrow> t > e)
       then throw (BadRequest ''Investment period has ended'')
       else if (case p_min p of None \<Rightarrow> False | Some m \<Rightarrow> amount < num m)
       then throw (BadRequest ''Minimum investment not reached'')
       else bnd (gets (\<lambda>s. invested_before s u i)) (\<lambda>already.
       if (case p_max p of None \<Rightarrow> False | Some m \<Rightarrow> fl (already + amount) > num m)
       then throw (BadRequest ''Maximum per investor exceeded'')
       else bnd (gets (\<lambda>s. active_wallet s u)) (\<lambda>w. case w of
         None \<Rightarrow> throw (NotFound ''Wallet not found'')
       | Some w \<Rightarrow> ret (amount, p, already, w)))))))"

text \<open>The capacity claim and the debit are single guarded SQL updates.\<close>

definition has_room :: "nat \<Rightarrow> rat \<Rightarrow> project \<Rightarrow> bool" where
  "has_room i amount p \<longleftrightarrow> p_id p = i \<and> p_status p \<in> set INVESTABLE
     \<and> (case p_target p of None \<Rightarrow> False | Some t \<Rightarrow> of_int (p_raised p) + sql amount \<le> of_int t)"

definition add_stake :: "rat \<Rightarrow> bool \<Rightarrow> project \<Rightarrow> project" where
  "add_stake amount first p = p\<lparr>p_raised := dec_inc (p_raised p) amount,
     p_backers := p_backers p + (if first then 1 else 0)\<rparr>"

definition covers_debit :: "nat \<Rightarrow> rat \<Rightarrow> wallet \<Rightarrow> bool" where
  "covers_debit i x w \<longleftrightarrow> w_id w = i \<and> of_int (w_balance w - w_locked w) \<ge> sql x"

text \<open>The round closes by reaching its target.\<close>

definition close_if_funded :: "nat \<Rightarrow> ('a market_db_scheme, unit) op" where
  "close_if_funded i = bnd (gets (\<lambda>s. project_by_id s i)) (\<lambda>after. case after of
     None \<Rightarrow> ret ()
   | Some p \<Rightarrow>
     if num (p_raised p) \<ge> (case p_target p of None \<Rightarrow> 0 | Some t \<Rightarrow> num t)
     then thn (modify (projects_update (upd_row p_id i (\<lambda>p. p\<lparr>p_status := PFunded\<rparr>))))
       (bnd (chargeConsolidationInTx i None) (\<lambda>_. ret ()))
     else ret ())"

definition invest_tx ::
  "nat \<Rightarrow> nat \<Rightarrow> rat \<Rightarrow> rat \<Rightarrow> rat \<Rightarrow> rat \<Rightarrow> wallet \<Rightarrow> nat \<Rightarrow> ('a market_db_scheme, investment) op" where
  "invest_tx u i amount charge total_debit already w acceptance = transaction
     (bnd (update_many projects projects_update (has_room i amount) (add_stake amount (\<not> already > 0))) (\<lambda>claimed.
      if claimed \<noteq> 1 then throw (Conflict ''Not enough room left in this project for that amount'')
      else bnd (update_many wallets wallets_update (covers_debit (w_id w) total_debit) (dec_balance total_debit)) (\<lambda>debited.
      if debited \<noteq> 1 then throw (BadRequest ''Insufficient balance'')
      else bnd (txn_create (\<lambda>j t. \<lparr>t_id = j, t_ref = j, t_sender = Some (w_id w), t_receiver = None,
          t_type = Investment, t_status = Completed, t_amount = to_units amount, t_fee = to_units charge,
          t_net = to_units amount, t_created = t, t_meta = [MUser u, MProject i, MDisclosure acceptance]\<rparr>)) (\<lambda>txn.
        thn (ledger_create \<lparr>l_txn = Some (t_id txn), l_wallet = w_id w, l_type = Debit,
               l_amount = to_units total_debit, l_before = None, l_after = None, l_category = None\<rparr>)
        (thn (if charge > 0 then creditPlatformInTx charge (Some (t_id txn)) None else ret ())
        (bnd fresh (\<lambda>j. bnd (gets now) (\<lambda>t.
          let v = \<lparr>iv_id = j, iv_user = u, iv_project = i, iv_amount = to_units amount, iv_txn = t_id txn,
                   iv_status = Committed, iv_acceptance = acceptance, iv_at = t\<rparr> in
          thn (insert_row investments_update v) (thn (close_if_funded i) (ret v))))))))))"

definition invest ::
  "ext \<Rightarrow> nat \<Rightarrow> nat \<Rightarrow> invest_dto \<Rightarrow> string option \<Rightarrow> ('a market_db_scheme, investment) op" where
  "invest X u i dto ip = bnd (invest_checks X u i dto) (\<lambda>(amount, p, already, w).
     bnd fresh (\<lambda>a.
     thn (insert_row acceptances_update \<lparr>ra_id = a, ra_user = u, ra_project = i,
            ra_version = RISK_DISCLOSURE_VERSION, ra_ip = map_option (take 64) ip\<rparr>)
     (bnd (feeFor InvestmentFee amount 2) (\<lambda>charge.
      let total_debit = toFixed 2 (fl (amount + charge)) in
      bnd (invest_tx u i amount charge total_debit already w a) (\<lambda>v.
      thn (emit (Notification u ''investment_made'' (Some (iv_id v)))) (ret v))))))"

section \<open>Portfolio\<close>

record holding =
  hd_project :: "project_view option"
  hd_invested :: rat
  hd_count :: nat
  hd_status :: investment_status

text \<open>A map from projects to holdings, in the order of their first rows.\<close>

fun add_holding :: "nat \<Rightarrow> (holding option \<Rightarrow> holding) \<Rightarrow> (nat \<times> holding) list \<Rightarrow> (nat \<times> holding) list" where
  "add_holding i f [] = [(i, f None)]"
| "add_holding i f ((j, h) # hs) = (if i = j then (j, f (Some h)) # hs else (j, h) # add_holding i f hs)"

definition hold :: "'a market_db_scheme \<Rightarrow> investment \<Rightarrow> (nat \<times> holding) list \<Rightarrow> (nat \<times> holding) list" where
  "hold s r hs = (if iv_status r = Refunded then hs
     else add_holding (iv_project r) (\<lambda>h.
       let h = (case h of Some h \<Rightarrow> h | None \<Rightarrow>
         \<lparr>hd_project = map_option presentProject (project_by_id s (iv_project r)), hd_invested = 0,
          hd_count = 0, hd_status = iv_status r\<rparr>) in
       h\<lparr>hd_invested := fl (hd_invested h + num (iv_amount r)), hd_count := hd_count h + 1\<rparr>) hs)"

definition my_investments :: "'a market_db_scheme \<Rightarrow> nat \<Rightarrow> investment list" where
  "my_investments s u = sort_key (\<lambda>v. - iv_at v) (filter (\<lambda>v. iv_user v = u) (investments s))"

definition portfolio :: "nat \<Rightarrow> ('a market_db_scheme, rat \<times> holding list) op" where
  "portfolio u = gets (\<lambda>s. let holdings = map snd (fold (hold s) (my_investments s u) []) in
     (foldl (\<lambda>a h. fl (a + hd_invested h)) 0 holdings, holdings))"

definition invest_history ::
  "nat \<Rightarrow> int option \<Rightarrow> int option \<Rightarrow> ('a market_db_scheme, (investment \<times> rat) list \<times> page_meta) op" where
  "invest_history u page limit = (let g = paginationParams page limit in
     gets (\<lambda>s. (map (\<lambda>v. (v, num (iv_amount v))) (page_of g (my_investments s u)),
       paginate (int (length (my_investments s u))) (pg_page g) (pg_limit g))))"

definition invested_in :: "'a market_db_scheme \<Rightarrow> nat \<Rightarrow> nat set" where
  "invested_in s u = iv_project ` {v \<in> set (investments s). iv_user v = u}"

definition investorDocuments :: "nat \<Rightarrow> ('a market_db_scheme, project_doc list) op" where
  "investorDocuments u = gets (\<lambda>s. sort_key (\<lambda>d. - pd_created d) (filter (\<lambda>d. pd_project d \<in> invested_in s u
     \<and> pd_visibility d \<in> {''public'', ''investors''}) (project_docs s)))"

definition investorUpdates :: "nat \<Rightarrow> ('a market_db_scheme, project_update list) op" where
  "investorUpdates u = gets (\<lambda>s. take 100 (sort_key (\<lambda>d. - pu_at d)
     (filter (\<lambda>d. pu_project d \<in> invested_in s u) (project_updates s))))"

end
