(* ===== verification/Project_Owner.thy ===== *)
theory Project_Owner
  imports Project_Market
begin

text \<open>
  The business' side of the marketplace: src/project-marketplace/business-projects.service.ts.
  Cleaning the input, drafts, documents, submission, the milestone plan, requests for release and
  updates to investors.
\<close>

section \<open>Input\<close>

text \<open>
  \<open>None\<close> inside a value stands for what the code rejects as not a text, not a finite number, or
  not a date.
\<close>

record project_input =
  in_name :: "string option field"
  in_summary :: "string option field"
  in_location :: "string option field"
  in_banner :: "string option field"
  in_description :: "string option field"
  in_use :: "string option field"
  in_risks :: "string option field"
  in_team :: "string option field"
  in_sector :: "string field"
  in_instrument :: "string field"
  in_country :: "string field"
  in_target :: "rat option field"
  in_min :: "rat option field"
  in_max :: "rat option field"
  in_duration :: "rat option field"
  in_starts :: "int option field"
  in_ends :: "int option field"

definition clean_text :: "string \<Rightarrow> nat \<Rightarrow> string option field \<Rightarrow> err + string field" where
  "clean_text k limit v = (case v of
     Undef \<Rightarrow> Inr Undef
   | Null \<Rightarrow> Inr Null
   | Val None \<Rightarrow> Inl (BadRequest (k @ '' must be text''))
   | Val (Some t) \<Rightarrow>
       if length t > limit then Inl (BadRequest (k @ '' is too long''))
       else Inr (if trim t = [] then Null else Val (trim t)))"

definition clean_choice :: "string list \<Rightarrow> string \<Rightarrow> string field \<Rightarrow> err + string field" where
  "clean_choice allowed e v = (case v of
     Undef \<Rightarrow> Inr Undef
   | Null \<Rightarrow> Inl (BadRequest e)
   | Val x \<Rightarrow> if x \<in> set allowed then Inr (Val x) else Inl (BadRequest e))"

definition upper :: "char \<Rightarrow> bool" where
  "upper c \<longleftrightarrow> 65 \<le> (of_char c :: nat) \<and> (of_char c :: nat) \<le> 90"

definition clean_country :: "string field \<Rightarrow> err + string field" where
  "clean_country v = (case v of
     Undef \<Rightarrow> Inr Undef
   | Null \<Rightarrow> Inr Null
   | Val c \<Rightarrow> if c \<noteq> [] \<and> \<not> (length c = 2 \<and> list_all upper c)
       then Inl (BadRequest ''country must be ISO-2'') else Inr (if c = [] then Null else Val c))"

text \<open>\<open>Number(null)\<close> is 0, which is not positive.\<close>

definition clean_number :: "string \<Rightarrow> bool \<Rightarrow> rat option field \<Rightarrow> err + rat field" where
  "clean_number k nullable v = (case v of
     Undef \<Rightarrow> Inr Undef
   | Null \<Rightarrow> if nullable then Inr Null else Inl (BadRequest (k @ '' must be a positive number''))
   | Val None \<Rightarrow> Inl (BadRequest (k @ '' must be a positive number''))
   | Val (Some x) \<Rightarrow> if x \<le> 0 \<or> x > 10 ^ 12 then Inl (BadRequest (k @ '' must be a positive number''))
       else Inr (Val x))"

definition clean_duration :: "rat option field \<Rightarrow> err + int field" where
  "clean_duration v = (case v of
     Undef \<Rightarrow> Inr Undef
   | Val (Some x) \<Rightarrow> if of_int \<lfloor>x\<rfloor> \<noteq> x \<or> x < 1 \<or> x > 360
       then Inl (BadRequest ''duration_months must be 1-360'') else Inr (Val \<lfloor>x\<rfloor>)
   | _ \<Rightarrow> Inl (BadRequest ''duration_months must be 1-360''))"

definition clean_date :: "string \<Rightarrow> int option field \<Rightarrow> err + int field" where
  "clean_date k v = (case v of
     Undef \<Rightarrow> Inr Undef
   | Null \<Rightarrow> Inr Null
   | Val None \<Rightarrow> Inl (BadRequest (k @ '' is not a valid date''))
   | Val (Some t) \<Rightarrow> Inr (Val t))"

text \<open>The accepted fields, applied to a project; the first field in the order of the code that fails wins.\<close>

record project_patch =
  pt_info :: "project_info \<Rightarrow> project_info"
  pt_target :: "rat field"
  pt_min :: "rat field"
  pt_max :: "rat field"

definition ebind :: "(err + 'a) \<Rightarrow> ('a \<Rightarrow> err + 'b) \<Rightarrow> err + 'b" where
  "ebind x f = (case x of Inl e \<Rightarrow> Inl e | Inr a \<Rightarrow> f a)"

definition cleanProjectInput :: "project_input \<Rightarrow> err + project_patch" where
  "cleanProjectInput d =
     ebind (clean_text ''project_name'' 255 (in_name d)) (\<lambda>name.
     ebind (clean_text ''summary'' 500 (in_summary d)) (\<lambda>summary.
     ebind (clean_text ''location'' 255 (in_location d)) (\<lambda>location.
     ebind (clean_text ''banner_image'' 2000 (in_banner d)) (\<lambda>banner.
     ebind (clean_text ''description'' 20000 (in_description d)) (\<lambda>description.
     ebind (clean_text ''use_of_funds'' 20000 (in_use d)) (\<lambda>use.
     ebind (clean_text ''risk_factors'' 20000 (in_risks d)) (\<lambda>risks.
     ebind (clean_text ''team'' 20000 (in_team d)) (\<lambda>team.
     ebind (clean_choice SECTORS ''Unknown sector'' (in_sector d)) (\<lambda>sector.
     ebind (clean_choice INSTRUMENT_TYPES ''Unknown instrument type'' (in_instrument d)) (\<lambda>instrument.
     ebind (clean_country (in_country d)) (\<lambda>country.
     ebind (clean_number ''target_amount'' False (in_target d)) (\<lambda>target.
     ebind (clean_number ''minimum_investment'' False (in_min d)) (\<lambda>minimum.
     ebind (clean_number ''maximum_investment'' True (in_max d)) (\<lambda>maximum.
     ebind (clean_duration (in_duration d)) (\<lambda>duration.
     ebind (clean_date ''starts_at'' (in_starts d)) (\<lambda>starts.
     ebind (clean_date ''ends_at'' (in_ends d)) (\<lambda>ends.
     Inr \<lparr>pt_info = (\<lambda>i. i\<lparr>i_name := put_field name (i_name i), i_summary := put_field summary (i_summary i),
            i_location := put_field location (i_location i), i_banner := put_field banner (i_banner i),
            i_description := put_field description (i_description i), i_use := put_field use (i_use i),
            i_risks := put_field risks (i_risks i), i_team := put_field team (i_team i),
            i_sector := put_field sector (i_sector i), i_category := put_field sector (i_category i),
            i_instrument := put_field instrument (i_instrument i), i_country := put_field country (i_country i),
            i_duration := put_field duration (i_duration i), i_starts := put_field starts (i_starts i),
            i_ends := put_field ends (i_ends i)\<rparr>),
          pt_target = target, pt_min = minimum, pt_max = maximum\<rparr>)))))))))))))))))"

fun put_amount :: "rat field \<Rightarrow> int option \<Rightarrow> int option" where
  "put_amount Undef old = old"
| "put_amount Null old = None"
| "put_amount (Val x) old = Some (to_units x)"

definition apply_patch :: "project_patch \<Rightarrow> project \<Rightarrow> project" where
  "apply_patch d p = p\<lparr>p_info := pt_info d (p_info p), p_target := put_amount (pt_target d) (p_target p),
     p_min := put_amount (pt_min d) (p_min p), p_max := put_amount (pt_max d) (p_max p)\<rparr>"

section \<open>Own projects\<close>

definition own_project :: "nat \<Rightarrow> nat \<Rightarrow> permission \<Rightarrow> ('a market_db_scheme, actor \<times> project) op" where
  "own_project u i perm = bnd (resolve u (Some perm)) (\<lambda>a.
     bnd (gets (\<lambda>s. find (\<lambda>p. p_id p = i \<and> p_business p = Some (b_id (ac_business a))) (projects s))) (\<lambda>p. case p of
       None \<Rightarrow> throw (NotFound ''Project not found'')
     | Some p \<Rightarrow> ret (a, p)))"

definition shape :: "project \<Rightarrow> project_view \<times> string option" where
  "shape p = ((presentProject p)\<lparr>pv_legacy := False\<rparr>, p_notes p)"

definition my_projects :: "nat \<Rightarrow> ('a market_db_scheme, (project_view \<times> string option) list) op" where
  "my_projects u = bnd (resolve u (Some ProjectsRead)) (\<lambda>a. gets (\<lambda>s.
     map shape (sort_key (\<lambda>p. - p_created p)
       (filter (\<lambda>p. p_business p = Some (b_id (ac_business a))) (projects s)))))"

text \<open>Number of investments and amount invested by status.\<close>

definition investment_summary ::
  "'a market_db_scheme \<Rightarrow> nat \<Rightarrow> (investment_status \<times> nat \<times> rat) list" where
  "investment_summary s i = map (\<lambda>st. let vs = filter (\<lambda>v. iv_project v = i \<and> iv_status v = st) (investments s) in
       (st, length vs, num (sum_list (map iv_amount vs))))
     (remdups (map iv_status (filter (\<lambda>v. iv_project v = i) (investments s))))"

record my_project =
  my_shape :: "project_view \<times> string option"
  my_docs :: "project_doc list"
  my_updates :: "project_update list"
  my_reviews :: "project_review list"
  my_released :: rat
  my_milestones :: "milestone list"
  my_summary :: "(investment_status \<times> nat \<times> rat) list"
  my_required :: "string list"

definition project_get :: "nat \<Rightarrow> nat \<Rightarrow> ('a market_db_scheme, my_project) op" where
  "project_get u i = bnd (own_project u i ProjectsRead) (\<lambda>(a, p). gets (\<lambda>s.
     \<lparr>my_shape = shape p, my_docs = sort_key pd_created (filter (\<lambda>d. pd_project d = i) (project_docs s)),
      my_updates = sort_key (\<lambda>x. - pu_at x) (filter (\<lambda>x. pu_project x = i) (project_updates s)),
      my_reviews = rev (filter (\<lambda>r. rv_project r = i) (project_reviews s)), my_released = num (p_released p),
      my_milestones = milestones_of s i, my_summary = investment_summary s i,
      my_required = REQUIRED_DOCUMENTS\<rparr>))"

text \<open>The public API of a business, read only: its projects, and one with its documents.\<close>

definition listForBusiness :: "nat \<Rightarrow> ('a market_db_scheme, project_view list) op" where
  "listForBusiness b = gets (\<lambda>s. map presentProject
     (sort_key (\<lambda>p. - p_created p) (filter (\<lambda>p. p_business p = Some b) (projects s))))"

definition getForBusiness :: "nat \<Rightarrow> nat \<Rightarrow> ('a market_db_scheme, project_view \<times> project_doc list) op" where
  "getForBusiness b i = bnd (gets (\<lambda>s. find (\<lambda>p. p_id p = i \<and> p_business p = Some b) (projects s))) (\<lambda>p. case p of
     None \<Rightarrow> throw (NotFound ''Project not found'')
   | Some p \<Rightarrow> gets (\<lambda>s. (presentProject p, filter (\<lambda>d. pd_project d = i) (project_docs s))))"

definition new_project :: "nat \<Rightarrow> int \<Rightarrow> nat \<Rightarrow> nat \<Rightarrow> project_patch \<Rightarrow> project" where
  "new_project i t u b d = apply_patch d \<lparr>p_id = i, p_business = Some b,
     p_info = \<lparr>i_name = None, i_category = None, i_sector = None, i_summary = None, i_description = None,
       i_location = None, i_country = None, i_banner = None, i_instrument = None, i_duration = None,
       i_use = None, i_risks = None, i_team = None, i_starts = None, i_ends = None\<rparr>,
     p_target = None, p_raised = 0, p_min = None, p_max = None, p_backers = 0, p_status = PDraft,
     p_created_by = Some u, p_created = t, p_notes = None, p_submitted = None, p_approved = None,
     p_listed = None, p_reviewer = None, p_released = 0, p_cons_fee = 0, p_cons_at = None,
     p_cons_refunded = 0, p_cons_released = 0\<rparr>"

definition project_create :: "nat \<Rightarrow> project_input \<Rightarrow> ('a market_db_scheme, project_view \<times> string option) op" where
  "project_create u dto = bnd (resolve u (Some ProjectsManage)) (\<lambda>a.
     bnd (of_sum (cleanProjectInput dto)) (\<lambda>d.
     let mk = (\<lambda>i t. new_project i t u (b_id (ac_business a)) d) in
     if i_name (p_info (mk 0 0)) = None then throw (BadRequest ''project_name is required'')
     else if i_sector (p_info (mk 0 0)) = None then throw (BadRequest ''sector is required'')
     else if p_target (mk 0 0) = None then throw (BadRequest ''target_amount is required'')
     else bnd fresh (\<lambda>i. bnd (gets now) (\<lambda>t. thn (insert_row projects_update (mk i t)) (ret (shape (mk i t)))))))"

definition project_edit ::
  "nat \<Rightarrow> nat \<Rightarrow> project_input \<Rightarrow> ('a market_db_scheme, project_view \<times> string option) op" where
  "project_edit u i dto = bnd (own_project u i ProjectsManage) (\<lambda>(a, p).
     if p_status p \<notin> set PROJECT_EDITABLE
     then throw (BadRequest ''Only draft projects (or ones needing more info) can be edited'')
     else bnd (of_sum (cleanProjectInput dto)) (\<lambda>d.
       thn (modify (projects_update (upd_row p_id i (apply_patch d)))) (ret (shape (apply_patch d p)))))"

section \<open>Documents\<close>

text \<open>The pattern \<open>https://\<close> followed by 4 to 1990 characters that are not spaces.\<close>

definition https_link :: "string \<Rightarrow> bool" where
  "https_link url \<longleftrightarrow> take 8 url = ''https://'' \<and> (let rest = drop 8 url in
     4 \<le> length rest \<and> length rest \<le> 1990 \<and> list_all (\<lambda>c. \<not> is_space c) rest)"

definition addDocument ::
  "nat \<Rightarrow> nat \<Rightarrow> string \<Rightarrow> string \<Rightarrow> string \<Rightarrow> string option \<Rightarrow> ('a market_db_scheme, project_doc) op" where
  "addDocument u i kind title url visibility = bnd (own_project u i ProjectsManage) (\<lambda>(a, p).
     if p_status p \<in> {PRejected, PClosed, PCancelled} then throw (BadRequest ''Project is closed'')
     else if kind \<notin> set DOCUMENT_KINDS then throw (BadRequest ''Unknown document kind'')
     else let vis = (case visibility of None \<Rightarrow> ''investors'' | Some v \<Rightarrow> v) in
     if vis \<notin> set DOCUMENT_VISIBILITY then throw (BadRequest ''Unknown visibility'')
     else if trim title = [] \<or> length title > 255 then throw (BadRequest ''title is required'')
     else if \<not> https_link url then throw (BadRequest ''url must be an https link (upload the file first)'')
     else bnd fresh (\<lambda>j. bnd (gets now) (\<lambda>t.
       let d = \<lparr>pd_id = j, pd_project = i, pd_kind = kind, pd_title = trim title, pd_url = url,
                pd_visibility = vis, pd_by = u, pd_created = t\<rparr> in
       thn (insert_row project_docs_update d) (ret d))))"

definition removeDocument :: "nat \<Rightarrow> nat \<Rightarrow> nat \<Rightarrow> ('a market_db_scheme, unit) op" where
  "removeDocument u i doc = bnd (own_project u i ProjectsManage) (\<lambda>(a, p).
     if p_status p \<notin> set PROJECT_EDITABLE
     then throw (BadRequest ''Documents are locked once the project is submitted'')
     else bnd (delete_many project_docs project_docs_update (\<lambda>d. pd_id d = doc \<and> pd_project d = i)) (\<lambda>count.
       if count = 0 then throw (NotFound ''Document not found'') else ret ()))"

section \<open>Submission\<close>

definition submit_fields :: "(string \<times> (project_info \<Rightarrow> string option)) list" where
  "submit_fields = [(''project_name'', i_name), (''sector'', i_sector), (''summary'', i_summary),
     (''description'', i_description), (''use_of_funds'', i_use), (''risk_factors'', i_risks),
     (''instrument_type'', i_instrument), (''location'', i_location)]"

definition number_or_0 :: "int option \<Rightarrow> rat" where
  "number_or_0 x = (case x of None \<Rightarrow> 0 | Some k \<Rightarrow> num k)"

definition project_missing :: "project \<Rightarrow> milestone list \<Rightarrow> project_doc list \<Rightarrow> string list" where
  "project_missing p ms ds =
     map fst (filter (\<lambda>(_, f). \<not> truthy (f (p_info p))) submit_fields)
     @ (if number_or_0 (p_target p) \<le> 0 then [''target_amount''] else [])
     @ (if number_or_0 (p_min p) \<le> 0 then [''minimum_investment''] else [])
     @ (if p_max p \<noteq> None \<and> number_or_0 (p_max p) < number_or_0 (p_min p)
        then [''maximum_investment (below minimum)''] else [])
     @ (if number_or_0 (p_min p) > number_or_0 (p_target p) then [''minimum_investment (above target)''] else [])
     @ (if ms = [] then [''milestones'']
        else if \<bar>fl (foldl (\<lambda>t m. fl (t + num (ms_amount m))) 0 ms - number_or_0 (p_target p))\<bar> > fl (5 / 1000)
        then [''milestones (amounts must add up to the target)''] else [])
     @ map (\<lambda>k. ''document:'' @ k) (filter (\<lambda>k. k \<notin> set (map pd_kind ds)) REQUIRED_DOCUMENTS)"

definition project_submit :: "nat \<Rightarrow> nat \<Rightarrow> ('a market_db_scheme, unit) op" where
  "project_submit u i = bnd (own_project u i ProjectsManage) (\<lambda>(a, p).
     if p_status p \<notin> set PROJECT_EDITABLE then throw (BadRequest ''Project has already been submitted'')
     else bnd (gets (\<lambda>s. project_missing p (milestones_of s i) (filter (\<lambda>d. pd_project d = i) (project_docs s)))) (\<lambda>missing.
     if missing \<noteq> [] then throw (Incomplete ''Project is incomplete'' missing)
     else bnd (gets now) (\<lambda>t.
     bnd (update_many projects projects_update (\<lambda>p. p_id p = i \<and> p_status p \<in> set PROJECT_EDITABLE)
       (\<lambda>p. p\<lparr>p_status := PSubmitted, p_submitted := Some t\<rparr>)) (\<lambda>claimed.
     if claimed = 0 then throw (BadRequest ''Project has already been submitted'')
     else insert_row project_reviews_update \<lparr>rv_project = i, rv_actor = u, rv_action = ''submit'',
            rv_from = Some (p_status p), rv_to = PSubmitted, rv_notes = None, rv_snapshot = None\<rparr>))))"

section \<open>Milestones\<close>

text \<open>Title, description and amount of a planned milestone; \<open>None\<close> is not a number.\<close>

type_synonym plan_item = "string \<times> string option \<times> rat option"

definition plan_error :: "plan_item \<Rightarrow> err option" where
  "plan_error m = (case m of (title, _, amount) \<Rightarrow>
     if trim title = [] \<or> length title > 255 then Some (BadRequest ''Each milestone needs a title'')
     else if \<not> (case amount of None \<Rightarrow> False | Some x \<Rightarrow> x > 0)
     then Some (BadRequest ''Each milestone needs a positive amount'')
     else None)"

definition planned_rows :: "nat \<Rightarrow> nat \<Rightarrow> plan_item list \<Rightarrow> milestone list" where
  "planned_rows n i items = map (\<lambda>(k, title, description, amount). \<lparr>ms_id = n + k, ms_project = i,
     ms_position = k + 1, ms_title = trim title,
     ms_description = (if blank description then None else map_option trim description),
     ms_amount = to_units (the amount), ms_status = Planned, ms_evidence = None, ms_evidence_url = None,
     ms_requested_at = None, ms_requested_by = None, ms_released = None, ms_released_at = None,
     ms_released_by = None, ms_notes = None, ms_txn = None\<rparr>) (enumerate 0 items)"

definition setMilestones :: "nat \<Rightarrow> nat \<Rightarrow> plan_item list \<Rightarrow> ('a market_db_scheme, my_project) op" where
  "setMilestones u i items = bnd (own_project u i ProjectsManage) (\<lambda>(a, p).
     if p_status p \<notin> set PROJECT_EDITABLE
     then throw (BadRequest ''Milestones are locked once the project is submitted'')
     else if items = [] \<or> length items > MAX_MILESTONES then throw (BadRequest ''Add 1-12 milestones'')
     else (case List.map_filter plan_error items of
       e # _ \<Rightarrow> throw e
     | [] \<Rightarrow>
       thn (transaction (modify (\<lambda>s. s\<lparr>seq := seq s + length items,
            milestones := filter (\<lambda>m. ms_project m \<noteq> i) (milestones s) @ planned_rows (seq s) i items\<rparr>)))
         (project_get u i)))"

definition request_row :: "string \<Rightarrow> string option \<Rightarrow> int \<Rightarrow> nat \<Rightarrow> milestone \<Rightarrow> milestone" where
  "request_row evidence url t u m = m\<lparr>ms_status := Requested, ms_evidence := Some (trim evidence),
     ms_evidence_url := url, ms_requested_at := Some t, ms_requested_by := Some u\<rparr>"

definition requestMilestone ::
  "nat \<Rightarrow> nat \<Rightarrow> nat \<Rightarrow> string \<Rightarrow> string option \<Rightarrow> ('a market_db_scheme, unit) op" where
  "requestMilestone u i mid evidence url = bnd (own_project u i ProjectsManage) (\<lambda>(a, p).
     if p_status p \<notin> set RELEASABLE
     then throw (BadRequest ''Milestones can be requested once the funding round has ended'')
     else bnd (gets (\<lambda>s. milestones_of s i)) (\<lambda>ms. case find (\<lambda>m. ms_id m = mid) ms of
       None \<Rightarrow> throw (NotFound ''Milestone not found'')
     | Some m \<Rightarrow>
       if list_ex (\<lambda>x. ms_position x < ms_position m \<and> ms_status x \<noteq> Released) ms
       then throw (BadRequest ''Earlier milestones must be released first'')
       else if trim evidence = [] \<or> length evidence > 5000
       then throw (BadRequest ''Describe the progress for this milestone'')
       else if truthy url \<and> \<not> https_link (the url) then throw (BadRequest ''evidence_url must be an https link'')
       else bnd (gets now) (\<lambda>t.
       bnd (update_many milestones milestones_update (\<lambda>m. ms_id m = mid \<and> ms_status m \<in> {Planned, Returned})
         (request_row evidence url t u)) (\<lambda>count.
       if count = 0 then throw (BadRequest ''This milestone was already requested'')
       else insert_row project_reviews_update \<lparr>rv_project = i, rv_actor = u, rv_action = ''milestone_requested'',
              rv_from = Some (p_status p), rv_to = p_status p, rv_notes = Some (ms_title m), rv_snapshot = None\<rparr>))))"

definition postUpdate :: "nat \<Rightarrow> nat \<Rightarrow> string \<Rightarrow> string \<Rightarrow> ('a market_db_scheme, project_update) op" where
  "postUpdate u i title body = bnd (own_project u i ProjectsManage) (\<lambda>(a, p).
     if p_status p \<notin> {PListed, PFunded, PClosed, POpen}
     then throw (BadRequest ''Updates can be posted once the project is listed'')
     else if trim title = [] \<or> length title > 255 then throw (BadRequest ''title is required'')
     else if trim body = [] \<or> length body > 20000 then throw (BadRequest ''body is required'')
     else bnd (gets now) (\<lambda>t.
       let x = \<lparr>pu_project = i, pu_author = u, pu_title = trim title, pu_body = trim body, pu_at = t\<rparr> in
       thn (insert_row project_updates_update x) (ret x)))"

end
