(* ===== verification/Project_Review.thy ===== *)
theory Project_Review
  imports Project_Market
begin

text \<open>
  The admin's side of the marketplace: src/project-marketplace/project-review.service.ts.
  Transitions of a project, closing a round, refunds of a cancelled or failed project, release of
  the reserve, milestones, and the eligibility of investors.
\<close>

section \<open>Reading\<close>

definition review_list ::
  "project_status option \<Rightarrow> int option \<Rightarrow> int option
    \<Rightarrow> ('a market_db_scheme, (project_view \<times> business option \<times> string option) list \<times> page_meta) op" where
  "review_list st page limit = (let g = paginationParams page limit in
     bnd (gets (\<lambda>s. filter (\<lambda>p. case st of None \<Rightarrow> p_business p \<noteq> None | Some x \<Rightarrow> p_status p = x) (projects s))) (\<lambda>rows.
     gets (\<lambda>s. (map (\<lambda>p. (presentProject p, Option.bind (p_business p) (business_by_id s), p_notes p))
           (page_of g (sort_key (\<lambda>p. newest_first (p_submitted p) (p_created p)) rows)),
         paginate (int (length rows)) (pg_page g) (pg_limit g)))))"

definition reviews_of :: "'a market_db_scheme \<Rightarrow> nat \<Rightarrow> project_review list" where
  "reviews_of s i = rev (filter (\<lambda>r. rv_project r = i) (project_reviews s))"

definition review_get ::
  "nat \<Rightarrow> ('a market_db_scheme, project_view \<times> business option \<times> project_doc list \<times> milestone list
     \<times> project_review list \<times> string option) op" where
  "review_get i = bnd (gets (\<lambda>s. project_by_id s i)) (\<lambda>p. case p of
     None \<Rightarrow> throw (NotFound ''Project not found'')
   | Some p \<Rightarrow> gets (\<lambda>s. (presentProject p, Option.bind (p_business p) (business_by_id s),
       filter (\<lambda>d. pd_project d = i) (project_docs s), milestones_of s i, reviews_of s i, p_notes p)))"

definition review_create ::
  "nat \<Rightarrow> nat \<Rightarrow> string \<Rightarrow> project_status option \<Rightarrow> project_status \<Rightarrow> string option \<Rightarrow> project_view option
    \<Rightarrow> ('a market_db_scheme, unit) op" where
  "review_create i actor action from to notes snapshot = insert_row project_reviews_update
     \<lparr>rv_project = i, rv_actor = actor, rv_action = action, rv_from = from, rv_to = to, rv_notes = notes,
      rv_snapshot = snapshot\<rparr>"

section \<open>Paying investors back\<close>

definition creditInvestor :: "investment \<Rightarrow> rat \<Rightarrow> nat \<Rightarrow> meta list \<Rightarrow> ('a market_db_scheme, nat) op" where
  "creditInvestor v amount project_id metadata =
     bnd (gets (\<lambda>s. active_wallet s (iv_user v))) (\<lambda>w. case w of
       None \<Rightarrow> throw (BadRequest ''Investor wallet missing'')
     | Some w \<Rightarrow>
       bnd (wallet_update (w_id w) (inc_balance amount)) (\<lambda>_.
       bnd (txn_create (\<lambda>j u. \<lparr>t_id = j, t_ref = j, t_sender = None, t_receiver = Some (w_id w),
          t_type = InvestmentRefund, t_status = Completed, t_amount = to_units amount, t_fee = 0,
          t_net = to_units amount, t_created = u,
          t_meta = [MInvestment (iv_id v), MProject project_id] @ metadata\<rparr>)) (\<lambda>tx.
       thn (ledger_create \<lparr>l_txn = Some (t_id tx), l_wallet = w_id w, l_type = Credit,
              l_amount = to_units amount, l_before = None, l_after = None, l_category = None\<rparr>)
         (ret (t_id tx)))))"

definition floor_cents :: "rat \<Rightarrow> rat" where
  "floor_cents x = fl (of_int \<lfloor>fl (x * 100)\<rfloor> / 100)"

text \<open>The claim sets the status whatever the refund is.\<close>

definition refund_one ::
  "nat \<Rightarrow> nat \<Rightarrow> rat \<Rightarrow> rat \<Rightarrow> rat \<Rightarrow> investment \<Rightarrow> ('a market_db_scheme, (rat \<times> rat) option) op" where
  "refund_one admin i held_share reserve_share share v =
     (let amt = num (iv_amount v);
          held_part = floor_cents (fl (amt * held_share));
          reserve_part = floor_cents (fl (amt * reserve_share));
          refund = toFixed 2 (fl (held_part + reserve_part)) in
      transaction
        (bnd (update_many investments investments_update
           (\<lambda>r. iv_id r = iv_id v \<and> iv_status r = iv_status v)
           (\<lambda>r. r\<lparr>iv_status := (if share \<ge> 1 then Refunded else PartiallyRefunded)\<rparr>)) (\<lambda>count.
         if count = 0 \<or> refund \<le> 0 then ret None
         else bnd (creditInvestor v refund i [MHeldPart held_part, MReservePart reserve_part, MBy (Some admin)]) (\<lambda>t.
           thn (payFromReserveInTx i reserve_part t) (ret (Some (refund, reserve_part)))))))"

fun refund_each ::
  "nat \<Rightarrow> nat \<Rightarrow> rat \<Rightarrow> rat \<Rightarrow> rat \<Rightarrow> investment list \<Rightarrow> nat \<Rightarrow> rat \<Rightarrow> rat
    \<Rightarrow> ('a market_db_scheme, nat \<times> rat \<times> rat) op" where
  "refund_each admin i hs rs sh [] n acc from_reserve = ret (n, acc, from_reserve)"
| "refund_each admin i hs rs sh (v # vs) n acc from_reserve =
     bnd (refund_one admin i hs rs sh v) (\<lambda>r. case r of
       None \<Rightarrow> refund_each admin i hs rs sh vs n acc from_reserve
     | Some (refund, part) \<Rightarrow>
         refund_each admin i hs rs sh vs (n + 1) (fl (acc + refund)) (fl (from_reserve + part)))"

text \<open>Shares of what is held and of the reserve, per unit raised.\<close>

definition refund_shares :: "project \<Rightarrow> rat \<times> rat \<times> rat" where
  "refund_shares p = (let raised = num (p_raised p);
       held = (if raised > 0 then min 1 (fl (heldFunds (p_raised p) (p_released p) (num (p_cons_fee p)) / raised)) else 1);
       reserve = (if raised > 0 then fl (reserveLeft p / raised) else 0)
     in (held, reserve, min 1 (fl (held + reserve))))"

definition refundAll :: "nat \<Rightarrow> nat \<Rightarrow> ('a market_db_scheme, nat \<times> rat \<times> rat \<times> rat) op" where
  "refundAll admin i = bnd (gets (\<lambda>s. project_by_id s i)) (\<lambda>p.
     let (held, reserve, share) = (case p of None \<Rightarrow> (1, 0, 1) | Some p \<Rightarrow> refund_shares p) in
     bnd (gets (\<lambda>s. filter (\<lambda>v. iv_project v = i \<and> iv_status v \<in> {Committed, Active}) (investments s))) (\<lambda>rows.
     bnd (refund_each admin i held reserve share rows 0 0 0) (\<lambda>(n, total, from_reserve).
     ret (n, toFixed 2 total, toFixed 2 from_reserve, share))))"

section \<open>Transitions\<close>

fun action_name :: "project_action \<Rightarrow> string" where
  "action_name StartReview = ''start_review''"
| "action_name RequestProjectInfo = ''request_info''"
| "action_name ApproveProject = ''approve''"
| "action_name RejectProject = ''reject''"
| "action_name ListProject = ''list''"
| "action_name UnlistProject = ''unlist''"
| "action_name CloseProject = ''close''"
| "action_name CancelProject = ''cancel''"

definition closeRound :: "nat \<Rightarrow> nat \<Rightarrow> ('a market_db_scheme, rat) op" where
  "closeRound i by_user = transaction (chargeConsolidationInTx i (Some by_user))"

definition move_project :: "project_action \<Rightarrow> nat \<Rightarrow> string option \<Rightarrow> int \<Rightarrow> project \<Rightarrow> project" where
  "move_project action admin notes t p = p\<lparr>p_status := snd (ADMIN_TRANSITIONS action), p_reviewer := Some admin,
     p_notes := notes, p_approved := (if action = ApproveProject then Some t else p_approved p),
     p_listed := (if action = ListProject then Some t else p_listed p)\<rparr>"

definition transition ::
  "nat \<Rightarrow> nat \<Rightarrow> project_action option \<Rightarrow> string option
    \<Rightarrow> ('a market_db_scheme, project_status \<times> (nat \<times> rat \<times> rat \<times> rat) option \<times> rat option) op" where
  "transition admin i act notes = (case act of
     None \<Rightarrow> throw (BadRequest ''Unknown action'')
   | Some action \<Rightarrow>
     if action \<in> {RequestProjectInfo, RejectProject} \<and> blank notes
     then throw (BadRequest ''Notes are required for this action'')
     else bnd (gets (\<lambda>s. project_by_id s i)) (\<lambda>p. case p of
       None \<Rightarrow> throw (NotFound ''Project not found'')
     | Some p \<Rightarrow>
       if p_status p \<notin> set (fst (ADMIN_TRANSITIONS action))
       then throw (BadRequest (''Cannot '' @ action_name action @ '' a project in this status''))
       else bnd (gets (\<lambda>s. Option.bind (p_business p) (business_by_id s))) (\<lambda>b.
       if action \<in> {ApproveProject, ListProject} \<and> p_business p \<noteq> None
          \<and> (case b of None \<Rightarrow> True | Some b \<Rightarrow> b_status b \<noteq> BApproved)
       then throw (BadRequest ''The business must pass KYB before its project can be approved or listed'')
       else bnd (gets now) (\<lambda>t.
       bnd (update_many projects projects_update (\<lambda>r. p_id r = i \<and> p_status r = p_status p)
          (move_project action admin (case note_of notes of Some x \<Rightarrow> Some x | None \<Rightarrow> p_notes p) t)) (\<lambda>count.
       if count = 0 then throw (BadRequest ''Project changed, refresh and try again'')
       else thn (review_create i admin (action_name action) (Some (p_status p)) (snd (ADMIN_TRANSITIONS action))
            (note_of notes) (Some (presentProject p)))
       (bnd (if action = CloseProject then bnd (closeRound i admin) (\<lambda>c. ret (Some c)) else ret None) (\<lambda>charge.
        bnd (if action = CancelProject then bnd (refundAll admin i) (\<lambda>r. ret (Some r)) else ret None) (\<lambda>refunds.
        ret (snd (ADMIN_TRANSITIONS action), refunds, charge)))))))))"

section \<open>The reserve\<close>

text \<open>Cents of the reserve that fall to an investment.\<close>

definition loss_part :: "rat \<Rightarrow> rat \<Rightarrow> investment \<Rightarrow> rat" where
  "loss_part reserve raised v =
     fl (of_int \<lfloor>fl (fl (fl (num (iv_amount v) * reserve) * 100) / raised)\<rfloor> / 100)"

fun pay_loss :: "nat \<Rightarrow> nat \<Rightarrow> (investment \<times> rat) list \<Rightarrow> rat \<Rightarrow> ('a market_db_scheme, rat) op" where
  "pay_loss admin i [] acc = ret acc"
| "pay_loss admin i ((v, amount) # parts) acc =
     bnd (creditInvestor v amount i [MReservePart amount, MBy (Some admin)]) (\<lambda>t.
     thn (payFromReserveInTx i amount t) (pay_loss admin i parts (fl (acc + amount))))"

definition refundReserveForLoss ::
  "nat \<Rightarrow> nat \<Rightarrow> string option \<Rightarrow> ('a market_db_scheme, nat \<times> rat \<times> rat) op" where
  "refundReserveForLoss admin i notes =
     (if blank notes then throw (BadRequest ''Notes are required (describe the loss)'')
      else bnd (gets (\<lambda>s. project_by_id s i)) (\<lambda>p. case p of
        None \<Rightarrow> throw (NotFound ''Project not found'')
      | Some p \<Rightarrow>
        if p_cons_at p = None then throw (BadRequest ''The funding round has not closed'')
        else if num (p_cons_released p) > 0
        then throw (BadRequest ''The reserve was already released to FARM (project completed)'')
        else if num (p_cons_refunded p) > 0
        then throw (BadRequest ''The consolidation reserve was already refunded'')
        else let raised = num (p_raised p); reserve = reserveLeft p in
        if \<not> reserve > 0 \<or> \<not> raised > 0 then throw (BadRequest ''No consolidation reserve to refund'')
        else bnd (gets (\<lambda>s. filter (\<lambda>v. iv_project v = i \<and> iv_status v \<in> {Committed, Active, PartiallyRefunded})
            (investments s))) (\<lambda>rows.
          let parts = filter (\<lambda>(_, amount). amount > 0) (map (\<lambda>v. (v, loss_part reserve raised v)) rows) in
          bnd (transaction (bnd (pay_loss admin i parts 0) (\<lambda>total. ret (toFixed 2 total)))) (\<lambda>total.
          thn (review_create i admin ''consolidation_refund_loss'' (Some (p_status p)) (p_status p) (note_of notes) None)
            (ret (length parts, total, reserve))))))"

definition releaseReserveToFarm ::
  "nat \<Rightarrow> nat \<Rightarrow> string option \<Rightarrow> ('a market_db_scheme, rat \<times> nat) op" where
  "releaseReserveToFarm admin i notes =
     (if blank notes then throw (BadRequest ''Notes are required (confirm completion)'')
      else bnd (gets (\<lambda>s. project_by_id s i)) (\<lambda>p. case p of
        None \<Rightarrow> throw (NotFound ''Project not found'')
      | Some p \<Rightarrow>
        if p_cons_at p = None \<or> p_status p \<notin> set RELEASABLE
        then throw (BadRequest ''The funding round has not closed'')
        else if heldFunds (p_raised p) (p_released p) (num (p_cons_fee p)) > fl (5 / 1000)
        then throw (BadRequest ''All milestones must be released before the project is completed'')
        else if num (p_cons_refunded p) > 0
        then throw (BadRequest ''Investors were already refunded from this reserve'')
        else let amount = toFixed 8 (reserveLeft p) in
        if \<not> amount > 0 then throw (BadRequest ''No consolidation reserve left'')
        else bnd (transaction
          (bnd (txn_create (\<lambda>j u. \<lparr>t_id = j, t_ref = j, t_sender = None, t_receiver = None, t_type = Fee,
             t_status = Completed, t_amount = to_units amount, t_fee = 0, t_net = to_units amount, t_created = u,
             t_meta = [MProject i, MCategory ''consolidation_release'', MBy (Some admin)]\<rparr>)) (\<lambda>tx.
           thn (releaseReserveToFarmInTx i amount (t_id tx)) (ret (t_id tx))))) (\<lambda>tx.
          thn (review_create i admin ''consolidation_release_farm'' (Some (p_status p)) (p_status p) (note_of notes) None)
            (ret (amount, tx)))))"

section \<open>Milestones\<close>

text \<open>\<open>Math.min(1, net / target)\<close>; a target of zero, which a project of a business never has, is an
  infinite quotient.\<close>

definition paid_share :: "rat \<Rightarrow> rat \<Rightarrow> rat" where
  "paid_share net target = (if target = 0 then if net > 0 then 1 else 0 else min 1 (fl (net / target)))"

definition release_amount :: "rat \<Rightarrow> rat \<Rightarrow> rat \<Rightarrow> bool \<Rightarrow> milestone \<Rightarrow> rat" where
  "release_amount net target held is_last m = (let amount =
       (if is_last then held else floor_cents (fl (num (ms_amount m) * paid_share net target)))
     in min amount held)"

definition release_room :: "nat \<Rightarrow> rat \<Rightarrow> project \<Rightarrow> bool" where
  "release_room i amount p \<longleftrightarrow> p_id p = i
     \<and> of_int (p_released p) + sql amount \<le> of_int (p_raised p - p_cons_fee p)"

definition mark_released :: "rat \<Rightarrow> int \<Rightarrow> nat \<Rightarrow> string option \<Rightarrow> milestone \<Rightarrow> milestone" where
  "mark_released amount t admin notes m = m\<lparr>ms_status := Released, ms_released := Some (to_units amount),
     ms_released_at := Some t, ms_released_by := Some admin, ms_notes := notes\<rparr>"

definition release_milestone_tx ::
  "nat \<Rightarrow> nat \<Rightarrow> milestone \<Rightarrow> wallet \<Rightarrow> rat \<Rightarrow> string option \<Rightarrow> ('a market_db_scheme, nat) op" where
  "release_milestone_tx admin i m w amount notes = transaction
     (bnd (gets now) (\<lambda>t.
      bnd (update_many milestones milestones_update (\<lambda>r. ms_id r = ms_id m \<and> ms_status r = Requested)
        (mark_released amount t admin (note_of notes))) (\<lambda>claim_m.
      if claim_m = 0 then throw (BadRequest ''Milestone was already handled'')
      else bnd (update_many projects projects_update (release_room i amount)
        (\<lambda>p. p\<lparr>p_released := dec_inc (p_released p) amount\<rparr>)) (\<lambda>claim_p.
      if claim_p \<noteq> 1 then throw (BadRequest ''Release would exceed the funds held'')
      else bnd (wallet_update (w_id w) (inc_balance amount)) (\<lambda>_.
      bnd (txn_create (\<lambda>j u. \<lparr>t_id = j, t_ref = j, t_sender = None, t_receiver = Some (w_id w),
         t_type = InvestmentSettlement, t_status = Completed, t_amount = to_units amount, t_fee = 0,
         t_net = to_units amount, t_created = u,
         t_meta = [MProject i, MMilestone (ms_id m), MBy (Some admin)]\<rparr>)) (\<lambda>tx.
      thn (ledger_create \<lparr>l_txn = Some (t_id tx), l_wallet = w_id w, l_type = Credit,
             l_amount = to_units amount, l_before = None, l_after = None, l_category = None\<rparr>)
      (thn (modify (milestones_update (upd_row ms_id (ms_id m) (\<lambda>r. r\<lparr>ms_txn := Some (t_id tx)\<rparr>))))
      (bnd (update_many investments investments_update (\<lambda>v. iv_project v = i \<and> iv_status v = Committed)
         (\<lambda>v. v\<lparr>iv_status := Active\<rparr>)) (\<lambda>_. ret (t_id tx))))))))))"

definition releaseMilestone ::
  "nat \<Rightarrow> nat \<Rightarrow> nat \<Rightarrow> string option \<Rightarrow> ('a market_db_scheme, rat \<times> nat) op" where
  "releaseMilestone admin i mid notes = bnd (gets (\<lambda>s. project_by_id s i)) (\<lambda>p. case p of
     None \<Rightarrow> throw (NotFound ''Project not found'')
   | Some p \<Rightarrow>
     if p_status p \<notin> set RELEASABLE
     then throw (BadRequest ''Milestones can only be released after the funding round has ended'')
     else bnd (gets (\<lambda>s. (Option.bind (p_business p) (business_by_id s), milestones_of s i))) (\<lambda>(b, ms). case b of
       None \<Rightarrow> throw (BadRequest ''Legacy projects have no milestones'')
     | Some b \<Rightarrow>
       if b_status b \<noteq> BApproved then throw (BadRequest ''Business is not in good standing (KYB)'')
       else (case find (\<lambda>m. ms_id m = mid) ms of
         None \<Rightarrow> throw (NotFound ''Milestone not found'')
       | Some m \<Rightarrow>
         if ms_status m \<noteq> Requested then throw (BadRequest ''The business has not requested this milestone'')
         else if list_ex (\<lambda>x. ms_position x < ms_position m \<and> ms_status x \<noteq> Released) ms
         then throw (BadRequest ''Earlier milestones must be released first'')
         else bnd (if p_cons_at p = None
             then bnd (closeRound i admin) (\<lambda>_. gets (\<lambda>s. case project_by_id s i of None \<Rightarrow> 0 | Some r \<Rightarrow> num (p_cons_fee r)))
             else ret (num (p_cons_fee p))) (\<lambda>cfee.
           let raised = num (p_raised p); target = (case p_target p of None \<Rightarrow> 0 | Some t \<Rightarrow> num t);
               held = heldFunds (p_raised p) (p_released p) cfee;
               is_last = (\<not> list_ex (\<lambda>x. ms_position x > ms_position m) ms);
               amount = release_amount (fl (raised - cfee)) target held is_last m in
           if \<not> amount > 0 then throw (BadRequest ''No funds left to release'')
           else bnd (gets (\<lambda>s. active_wallet s (b_owner b))) (\<lambda>w. case w of
             None \<Rightarrow> throw (BadRequest ''Business owner wallet not found'')
           | Some w \<Rightarrow>
             bnd (release_milestone_tx admin i m w amount notes) (\<lambda>tx.
             thn (review_create i admin ''milestone_released'' (Some (p_status p)) (p_status p) notes None)
               (ret (amount, tx))))))))"

definition returnMilestone :: "nat \<Rightarrow> nat \<Rightarrow> nat \<Rightarrow> string \<Rightarrow> ('a market_db_scheme, unit) op" where
  "returnMilestone admin i mid notes =
     (if trim notes = [] then throw (BadRequest ''Notes are required'')
      else bnd (update_many milestones milestones_update
          (\<lambda>m. ms_id m = mid \<and> ms_project m = i \<and> ms_status m = Requested)
          (\<lambda>m. m\<lparr>ms_status := Returned, ms_notes := Some (trim notes)\<rparr>)) (\<lambda>count.
        if count = 0 then throw (BadRequest ''Milestone is not awaiting release'')
        else review_create i admin ''milestone_returned'' None PFunded (Some (trim notes)) None))"

section \<open>Eligibility of investors\<close>

definition listInvestors ::
  "eligibility_status option \<Rightarrow> int option \<Rightarrow> int option
    \<Rightarrow> ('a market_db_scheme, investor_profile list \<times> page_meta) op" where
  "listInvestors st page limit = (let g = paginationParams page limit in
     bnd (gets (\<lambda>s. filter (\<lambda>p. st = None \<or> st = Some (ip_status p)) (profiles s))) (\<lambda>rows.
     ret (page_of g (sort_key (\<lambda>p. - ip_updated p) rows),
       paginate (int (length rows)) (pg_page g) (pg_limit g))))"

definition setEligibility ::
  "nat \<Rightarrow> nat \<Rightarrow> eligibility_status option \<Rightarrow> string option \<Rightarrow> string option
    \<Rightarrow> ('a market_db_scheme, investor_profile) op" where
  "setEligibility admin u st category notes = (case st of
     None \<Rightarrow> throw (BadRequest ''Unknown status'')
   | Some st \<Rightarrow>
     if truthy category \<and> the category \<notin> {''retail'', ''sophisticated'', ''institutional''}
     then throw (BadRequest ''Unknown category'')
     else bnd (gets (\<lambda>s. user_by_id s u)) (\<lambda>user. case user of
       None \<Rightarrow> throw (NotFound ''User not found'')
     | Some _ \<Rightarrow> bnd (gets now) (\<lambda>t.
       let r = \<lparr>ip_user = u, ip_status = st, ip_category = category, ip_notes = notes,
                ip_reviewer = Some admin, ip_at = Some t, ip_updated = t\<rparr> in
       thn (modify (\<lambda>s. if profile_of s u = None then s\<lparr>profiles := profiles s @ [r]\<rparr>
              else s\<lparr>profiles := upd_row ip_user u (\<lambda>_. r) (profiles s)\<rparr>))
         (ret r))))"

end
