(* ===== verification/Project_Safety.thy ===== *)
theory Project_Safety
  imports Project_Owner Project_Review
begin

text \<open>
  What holds of investment projects over any sequence of requests: what is raised never exceeds the
  target, the fee of a closed round is taken once, releases and refunds stay within what is held
  and what is in reserve, a project moves along the life cycle only, and milestones are released in
  the order of the plan.
\<close>

section \<open>What a project promises\<close>

inductive project_edge :: "project_status \<Rightarrow> project_status \<Rightarrow> bool" where
  submitted: "st \<in> set PROJECT_EDITABLE \<Longrightarrow> project_edge st PSubmitted"
| moved: "st \<in> set (fst (ADMIN_TRANSITIONS a)) \<Longrightarrow> project_edge st (snd (ADMIN_TRANSITIONS a))"
| funded: "st \<in> set INVESTABLE \<Longrightarrow> project_edge st PFunded"

inductive_cases funded_edge: "project_edge PFunded st"

definition target_ok :: "project \<Rightarrow> bool" where
  "target_ok p \<longleftrightarrow> 0 \<le> p_raised p \<and> (case p_target p of None \<Rightarrow> p_raised p = 0 | Some t \<Rightarrow> p_raised p \<le> t \<and> t \<le> MAXU)"

definition fund_ok :: "project \<Rightarrow> bool" where
  "fund_ok p \<longleftrightarrow> 0 \<le> p_cons_fee p \<and> 0 \<le> p_released p \<and> p_cons_fee p + p_released p \<le> p_raised p
     \<and> 0 \<le> p_cons_refunded p \<and> 0 \<le> p_cons_released p \<and> p_cons_refunded p + p_cons_released p \<le> p_cons_fee p"

definition stage_ok :: "project \<Rightarrow> bool" where
  "stage_ok p \<longleftrightarrow> (p_status p \<in> {PDraft, PSubmitted, PMoreInfo} \<longrightarrow> p_raised p = 0)
     \<and> (if p_cons_at p = None then p_cons_fee p = 0 \<and> p_released p = 0
        else p_status p \<in> {PFunded, PClosed, PCancelled})"

definition project_ok :: "project \<Rightarrow> bool" where
  "project_ok p \<longleftrightarrow> target_ok p \<and> fund_ok p \<and> stage_ok p"

text \<open>Milestones are requested and released in the order of the plan.\<close>

definition in_order :: "milestone list \<Rightarrow> bool" where
  "in_order ms \<longleftrightarrow> (\<forall>m\<in>set ms. \<forall>x\<in>set ms. ms_project x = ms_project m \<and> ms_position x < ms_position m
     \<and> ms_status m \<noteq> Planned \<longrightarrow> ms_status x = Released)"

abbreviation market_rules :: "'a core_scheme \<Rightarrow> bool" where
  "market_rules \<equiv> rules_ok half_percent {ProjectListing}"

definition market_inv :: "'a market_db_scheme \<Rightarrow> bool" where
  "market_inv s \<longleftrightarrow> distinct (map p_id (projects s)) \<and> list_all (\<lambda>p. p_id p < seq s \<and> project_ok p) (projects s)
     \<and> distinct (map ms_id (milestones s)) \<and> list_all (\<lambda>m. ms_id m < seq s) (milestones s)
     \<and> in_order (milestones s) \<and> market_rules s"

text \<open>What never changes back: money raised, a fee taken, a status left behind.\<close>

definition later :: "project \<Rightarrow> project \<Rightarrow> bool" where
  "later p q \<longleftrightarrow> p_business q = p_business p \<and> project_edge\<^sup>*\<^sup>* (p_status p) (p_status q) \<and> p_raised p \<le> p_raised q
     \<and> (\<forall>t. p_cons_at p = Some t \<longrightarrow> p_cons_at q = Some t \<and> p_cons_fee q = p_cons_fee p \<and> p_raised q = p_raised p)"

definition market_rel :: "'a market_db_scheme \<Rightarrow> 'a market_db_scheme \<Rightarrow> bool" where
  "market_rel s t \<longleftrightarrow> market_inv t \<and> (\<forall>i p. project_by_id s i = Some p \<longrightarrow>
     (\<exists>q. project_by_id t i = Some q \<and> later p q))"

lemma later_refl: "later p p"
  by (simp add: later_def)

lemma later_trans: "later p q \<Longrightarrow> later q r \<Longrightarrow> later p r"
  unfolding later_def by (auto intro: rtranclp_trans)

interpretation market: step_contract market_inv market_rel
proof
  fix s t u :: "'a market_db_scheme"
  show "market_inv s \<Longrightarrow> market_rel s s" by (auto simp: market_rel_def intro: later_refl)
  show "market_rel s t \<Longrightarrow> market_rel t u \<Longrightarrow> market_rel s u"
    unfolding market_rel_def by (metis later_trans)
  show "market_inv s \<Longrightarrow> market_rel s t \<Longrightarrow> market_inv t" by (simp add: market_rel_def)
qed

lemma market_same:
  assumes "market_inv s" "projects t = projects s" "milestones t = milestones s" "seq s \<le> seq t" "market_rules t"
  shows "market_rel s t"
  using assms by (fastforce simp: market_rel_def market_inv_def project_by_id_def list_all_iff intro: later_refl)

lemma market_projects:
  assumes inv: "market_inv s" and t: "projects t = upd_where P f (projects s)" "milestones t = milestones s" "seq s \<le> seq t"
      "market_rules t"
    and k: "\<And>p. p_id (f p) = p_id p"
    and e: "\<And>p. p \<in> set (projects s) \<Longrightarrow> P p \<Longrightarrow> project_ok p \<Longrightarrow> project_ok (f p) \<and> later p (f p)"
  shows "market_rel s t"
proof -
  have ok: "\<forall>p\<in>set (projects s). p_id p < seq s \<and> project_ok p" using inv by (auto simp: market_inv_def list_all_iff)
  then have "list_all (\<lambda>p. p_id p < seq t \<and> project_ok p) (projects t)"
    using e t(3) by (fastforce simp: t(1) list_all_iff in_upd_where k)
  then have "market_inv t" using inv t(2-) by (force simp: market_inv_def t(1) k list_all_iff)
  moreover have "\<exists>q. project_by_id t i = Some q \<and> later p q" if "project_by_id s i = Some p" for i p
  proof -
    have "p \<in> set (projects s)" using that by (auto simp: project_by_id_def dest: find_row_Some)
    with that e ok show ?thesis
      by (auto simp: project_by_id_def t(1) find_row_upd_where k intro: later_refl)
  qed
  ultimately show ?thesis by (simp add: market_rel_def)
qed

lemma market_milestones:
  assumes "market_inv s" "projects t = projects s" "seq s \<le> seq t" "market_rules t"
    "distinct (map ms_id (milestones t))" "list_all (\<lambda>m. ms_id m < seq t) (milestones t)" "in_order (milestones t)"
  shows "market_rel s t"
  using assms by (fastforce simp: market_rel_def market_inv_def project_by_id_def list_all_iff intro: later_refl)

section \<open>Operations that leave projects alone\<close>

definition market_calm :: "'a market_db_scheme \<Rightarrow> 'a market_db_scheme \<Rightarrow> bool" where
  "market_calm s t \<longleftrightarrow> market_rel s t \<and> projects t = projects s"

interpretation market: viewed_contract market_inv market_rel projects market_calm
  by unfold_locales (simp add: market_calm_def)

lemma market_rulesI: "market_inv s \<Longrightarrow> market_rules s"
  by (simp add: market_inv_def)

lemma calm_same:
  assumes "market_inv s" "projects t = projects s" "milestones t = milestones s" "seq s \<le> seq t"
    "same_fees s t" "fee_cache t = fee_cache s"
  shows "market_calm s t"
  using assms by (auto simp: market_calm_def intro!: market_same intro: rules_ok_cong[OF market_rulesI])

lemma calm_core:
  "safe_op market_inv market_calm fresh" "safe_op market_inv market_calm (emit e)"
  "safe_op market_inv market_calm (txn_create mk)" "safe_op market_inv market_calm (ledger_create l)"
  "safe_op market_inv market_calm (wallet_update j f)" "safe_op market_inv market_calm (update_many wallets wallets_update W f)"
  by (rule market.calm.safeI, auto simp: wp_simps intro!: calm_same market.calm.rel_refl simp: same_fees_def split: option.split)+

lemma calm_rows:
  "safe_op market_inv market_calm (insert_row acceptances_update a)" "safe_op market_inv market_calm (insert_row investments_update v)"
  "safe_op market_inv market_calm (insert_row project_docs_update d)" "safe_op market_inv market_calm (insert_row project_updates_update u)"
  "safe_op market_inv market_calm (insert_row project_reviews_update r)"
  "safe_op market_inv market_calm (update_many investments investments_update I g)"
  "safe_op market_inv market_calm (delete_many project_docs project_docs_update D)"
  "safe_op market_inv market_calm (modify (profiles_update h))"
  by (rule market.calm.safeI, auto simp: wp_simps intro!: calm_same simp: same_fees_def)+

lemma calm_fee: "safe_op market_inv market_calm (feeFor k x dp)"
proof (rule market.calm.safeI)
  fix s :: "'a market_db_scheme"
  assume inv: "market_inv s"
  from preserves_wp[OF rules_ok_feeFor market_rulesI[OF inv], of k x dp]
  have "market_rules (s\<lparr>fee_cache := next_cache s\<rparr>)" by (simp add: wp_simps)
  then show "wp (feeFor k x dp) (\<lambda>_. market_calm s) (\<lambda>_. market_calm s) s"
    by (simp add: wp_simps market_calm_def market_same[OF inv])
qed

lemma calm_pin: "safe_op market_inv market_calm (verifyPin X u pin)"
  by (rule market.calm.safeI, rule verifyPin_frame) (auto intro!: calm_same simp: same_fees_def)

lemma calm_credit: "safe_op market_inv market_calm (creditPlatformInTx x j c)"
  unfolding creditPlatformInTx_def creditWalletInTx_def by (intro market.calm.safe_rules calm_core)

lemma calm_resolve: "safe_op market_inv market_calm (resolve u p)"
  unfolding resolve_def by (intro market.calm.safe_rules)

text \<open>A rolled back transaction leaves the fee cache it loaded, and nothing else.\<close>

lemma rolled_back: "market_inv s \<Longrightarrow> market_inv t \<Longrightarrow> market_calm s (s\<lparr>fee_cache := fee_cache t\<rparr>)"
  unfolding market_calm_def using rules_ok_cache[OF market_rulesI market_rulesI]
  by (intro conjI market_same) simp_all

lemma safe_tx: "safe_op (\<lambda>s. market_inv s \<and> G (projects s)) market_rel m
    \<Longrightarrow> safe_op (\<lambda>s. market_inv s \<and> G (projects s)) market_rel (transaction m)"
  unfolding safe_op_def wp_transaction
  by (blast intro: wp_mono market.rel_inv rolled_back[unfolded market_calm_def, THEN conjunct1])

section \<open>Guarded updates of a project\<close>

lemma market_update:
  assumes k: "\<And>p. p_id (f p) = p_id p" and e: "\<And>p. P p \<Longrightarrow> project_ok p \<Longrightarrow> project_ok (f p) \<and> later p (f p)"
  shows "safe_op market_inv market_rel (update_many projects projects_update P f)"
  by (rule market.safeI, simp add: wp_simps, rule market_projects[where P = P and f = f])
    (simp_all add: k e, auto intro: rules_ok_cong[OF market_rulesI] simp: same_fees_def)

lemma add_stake_safe:
  assumes "0 < amount"
  shows "safe_op market_inv market_rel (update_many projects projects_update (has_room i amount) (add_stake amount first))"
proof (rule market_update)
  fix p
  assume p: "has_room i amount p" "project_ok p"
  then have "p_raised p \<le> dec_inc (p_raised p) amount" "p_cons_at p = None" "\<exists>t. p_target p = Some t \<and> dec_inc (p_raised p) amount \<le> t"
    using assms by (auto simp: has_room_def project_ok_def stage_ok_def INVESTABLE_def intro!: dec_inc_ge dec_inc_le split: option.splits if_splits)
  with p show "project_ok (add_stake amount first p) \<and> later p (add_stake amount first p)"
    by (auto simp: add_stake_def project_ok_def target_ok_def fund_ok_def stage_ok_def later_def has_room_def INVESTABLE_def split: option.splits)
qed (simp add: add_stake_def)

lemma reserve_refund_safe:
  assumes "0 < amount"
  shows "safe_op market_inv market_rel (update_many projects projects_update (reserve_covers i amount)
    (\<lambda>p. p\<lparr>p_cons_refunded := dec_inc (p_cons_refunded p) amount\<rparr>))"
proof (rule market_update)
  fix p
  assume p: "reserve_covers i amount p" "project_ok p"
  then have "dec_inc (p_cons_refunded p) amount \<le> p_cons_fee p - p_cons_released p" "p_cons_refunded p \<le> dec_inc (p_cons_refunded p) amount"
    using assms by (auto simp: reserve_covers_def intro!: dec_inc_ge dec_inc_le)
  with p(2) show "project_ok (p\<lparr>p_cons_refunded := dec_inc (p_cons_refunded p) amount\<rparr>) \<and> later p (p\<lparr>p_cons_refunded := dec_inc (p_cons_refunded p) amount\<rparr>)"
    by (auto simp: project_ok_def target_ok_def fund_ok_def stage_ok_def later_def split: option.splits)
qed simp

lemma reserve_release_safe:
  assumes "0 < amount"
  shows "safe_op market_inv market_rel (update_many projects projects_update (reserve_covers i amount)
    (\<lambda>p. p\<lparr>p_cons_released := dec_inc (p_cons_released p) amount\<rparr>))"
proof (rule market_update)
  fix p
  assume p: "reserve_covers i amount p" "project_ok p"
  then have "dec_inc (p_cons_released p) amount \<le> p_cons_fee p - p_cons_refunded p" "p_cons_released p \<le> dec_inc (p_cons_released p) amount"
    using assms by (auto simp: reserve_covers_def intro!: dec_inc_ge dec_inc_le)
  with p(2) show "project_ok (p\<lparr>p_cons_released := dec_inc (p_cons_released p) amount\<rparr>) \<and> later p (p\<lparr>p_cons_released := dec_inc (p_cons_released p) amount\<rparr>)"
    by (auto simp: project_ok_def target_ok_def fund_ok_def stage_ok_def later_def split: option.splits)
qed simp

lemma move_safe:
  assumes "st \<in> set (fst (ADMIN_TRANSITIONS action))"
  shows "safe_op market_inv market_rel (update_many projects projects_update (\<lambda>r. p_id r = i \<and> p_status r = st)
    (move_project action a n t))"
proof (rule market_update)
  fix p
  assume p: "p_id p = i \<and> p_status p = st" "project_ok p"
  from project_edge.moved[OF assms] have "project_edge\<^sup>*\<^sup>* (p_status p) (p_status (move_project action a n t p))"
    using p(1) by (simp add: move_project_def)
  moreover have "stage_ok (move_project action a n t p)"
    using assms p by (cases action) (auto simp: project_ok_def stage_ok_def move_project_def split: if_splits)
  ultimately show "project_ok (move_project action a n t p) \<and> later p (move_project action a n t p)"
    using p(2) by (auto simp: project_ok_def target_ok_def fund_ok_def later_def move_project_def split: option.splits)
qed (simp add: move_project_def)

lemma submit_project_safe:
  "safe_op market_inv market_rel (update_many projects projects_update (\<lambda>p. p_id p = i \<and> p_status p \<in> set PROJECT_EDITABLE)
     (\<lambda>p. p\<lparr>p_status := PSubmitted, p_submitted := Some t\<rparr>))"
proof (rule market_update)
  fix p
  assume p: "p_id p = i \<and> p_status p \<in> set PROJECT_EDITABLE" "project_ok p"
  then show "project_ok (p\<lparr>p_status := PSubmitted, p_submitted := Some t\<rparr>) \<and> later p (p\<lparr>p_status := PSubmitted, p_submitted := Some t\<rparr>)"
    by (auto simp: project_ok_def target_ok_def fund_ok_def stage_ok_def later_def PROJECT_EDITABLE_def
        intro!: r_into_rtranclp project_edge.submitted split: if_splits option.splits)
qed simp

section \<open>The consolidation fee\<close>

definition closable :: "nat \<Rightarrow> project list \<Rightarrow> bool" where
  "closable i ps \<longleftrightarrow> (\<forall>p\<in>set ps. p_id p = i \<longrightarrow> p_cons_at p = None \<longrightarrow> p_status p \<in> {PFunded, PClosed, PCancelled})"

definition charged :: "nat \<Rightarrow> project list \<Rightarrow> bool" where
  "charged i ps \<longleftrightarrow> (\<forall>p\<in>set ps. p_id p = i \<longrightarrow> p_cons_at p \<noteq> None)"

lemma fee_fits:
  assumes "market_inv s" "0 \<le> k" "k \<le> MAXU"
  shows "\<exists>j. computeFee (rule_in s ProjectListing) (num k) 2 = num j \<and> 0 \<le> j \<and> j \<le> k"
proof -
  have "half_percent (rule_in s ProjectListing)" using rules_ok_rule[OF market_rulesI[OF assms(1)]] by simp
  then show ?thesis using fee_units_half[OF _ assms(2,3)] computeFee_units[of 2 "rule_in s ProjectListing" "num k"]
     fee_units_nonneg[of "rule_in s ProjectListing" "num k" 2] by auto
qed


lemma take_fee_id [simp]: "p_id (take_fee x t p) = p_id p"
  by (simp add: take_fee_def)

lemma take_fee_rel:
  assumes inv: "market_inv s" and c: "closable i (projects s)" and p: "project_by_id s i = Some p" "p_cons_at p = None"
    and j: "0 \<le> j" "j \<le> p_raised p"
  shows "market_rel s (projects_update (upd_where (\<lambda>p. p_id p = i \<and> p_cons_at p = None) (take_fee (num j) t)) s)"
proof (rule market_projects[OF inv])
  fix q
  assume q: "q \<in> set (projects s)" "p_id q = i \<and> p_cons_at q = None" "project_ok q"
  have "p \<in> set (projects s)" "p_id p = i" using p(1) by (auto simp: project_by_id_def dest: find_row_Some)
  then have "q = p" using q(1,2) inv by (auto simp: market_inv_def distinct_map inj_on_def)
  moreover have "p_raised p \<le> MAXU"
    using q(3) \<open>q = p\<close> by (auto simp: project_ok_def target_ok_def MAXU_def split: option.splits)
  moreover have "p_status p \<in> {PFunded, PClosed, PCancelled}" using c q(2) \<open>p \<in> _\<close> \<open>q = p\<close> by (auto simp: closable_def)
  ultimately show "project_ok (take_fee (num j) t q) \<and> later q (take_fee (num j) t q)"
    using q(3) p(2) j by (auto simp: take_fee_def project_ok_def target_ok_def fund_ok_def stage_ok_def later_def split: option.splits)
qed (use market_rulesI[OF inv] in \<open>simp_all, auto intro: rules_ok_cong simp: same_fees_def\<close>)

lemma charged_take: "charged i (upd_where (\<lambda>p. p_id p = i \<and> p_cons_at p = None) (take_fee x t) ps)"
  unfolding charged_def ball_upd_where by (simp add: take_fee_def)

lemma wp_calm: "safe_op market_inv market_calm m \<Longrightarrow> market_inv s \<Longrightarrow> market_rel s t \<Longrightarrow> G (projects t)
    \<Longrightarrow> wp m (\<lambda>_ u. market_rel s u \<and> G (projects u)) (\<lambda>_. market_rel s) t"
proof -
  assume m: "safe_op market_inv market_calm m" and s: "market_inv s" and t: "market_rel s t" "G (projects t)"
  have "wp m (\<lambda>_. market_calm t) (\<lambda>_. market_calm t) t"
    using market.calm.safeD[OF m market.rel_inv[OF s t(1)]] .
  then show ?thesis using t by (auto elim!: wp_mono intro: market.rel_trans simp: market_calm_def)
qed

lemma charge_wp:
  assumes inv: "market_inv s" and c: "closable i (projects s)"
  shows "wp (chargeConsolidationInTx i by_user) (\<lambda>_ t. market_rel s t \<and> charged i (projects t)) (\<lambda>_. market_rel s) s"
proof -
  have rest: "wp (bnd (update_many projects projects_update (\<lambda>p. p_id p = i \<and> p_cons_at p = None) (take_fee (num j) u)) (\<lambda>count.
       if count = 0 \<or> \<not> num j > 0 then ret 0
       else bnd (txn_create mk) (\<lambda>tx. thn (creditPlatformInTx (num j) (Some (t_id tx)) C) (ret (num j)))))
      (\<lambda>_ t. market_rel s t \<and> charged i (projects t)) (\<lambda>_. market_rel s) t"
    if t: "market_calm s t" and p: "project_by_id s i = Some p" "p_cons_at p = None" "0 \<le> j" "j \<le> p_raised p" for t j p mk u C
  proof -
    let ?u = "projects_update (upd_where (\<lambda>p. p_id p = i \<and> p_cons_at p = None) (take_fee (num j) u)) t"
    have t': "market_inv t" "projects t = projects s" "market_rel s t"
      using t market.rel_inv[OF inv] by (auto simp: market_calm_def)
    have "market_rel s ?u"
      by (rule market.rel_trans[OF t'(3) take_fee_rel[OF t'(1)]]) (use c p in \<open>simp_all add: t'(2) project_by_id_def\<close>)
    moreover have "charged i (projects ?u)" by (simp add: charged_take)
    moreover have "safe_op market_inv market_calm (bnd (txn_create mk) (\<lambda>tx. thn (creditPlatformInTx (num j) (Some (t_id tx)) C) (ret (num j))))"
      by (intro market.calm.safe_rules calm_core calm_credit)
    ultimately show ?thesis
      unfolding wp_bnd[of "update_many _ _ _ _"] wp_update_many wp_if wp_ret by (auto intro!: wp_calm[OF _ inv])
  qed
  show ?thesis
  proof (cases "project_by_id s i")
    case None
    moreover have "charged i (projects s)" using None by (auto simp: charged_def project_by_id_def find_row_None)
    ultimately show ?thesis using market.rel_refl[OF inv] by (simp add: chargeConsolidationInTx_def wp_simps)
  next
    case (Some p)
    have p: "p \<in> set (projects s)" "p_id p = i" using Some by (auto simp: project_by_id_def dest: find_row_Some)
    have ok: "project_ok p" using p inv by (auto simp: market_inv_def list_all_iff)
    then have r: "0 \<le> p_raised p" "p_raised p \<le> MAXU"
      by (auto simp: project_ok_def target_ok_def MAXU_def split: option.splits)
    show ?thesis
    proof (cases "p_cons_at p")
      case None
      have "market_calm s (s\<lparr>fee_cache := next_cache s\<rparr>)"
        using market.calm.safeD[OF calm_fee inv, of ProjectListing "num (p_raised p)" 2] by (simp add: wp_feeFor)
      moreover obtain j where j: "computeFee (rule_in s ProjectListing) (num (p_raised p)) 2 = num j" "0 \<le> j" "j \<le> p_raised p"
        using fee_fits[OF inv r] by blast
      ultimately show ?thesis
        using rest[OF _ Some None] rest[OF market.calm.rel_refl[OF inv] Some None, of 0] r
        by (simp add: chargeConsolidationInTx_def Some None Let_def wp_gets wp_feeFor wp_ret wp_if
            wp_bnd[of "gets _"] wp_bnd[of "if _ then _ else _"] j(1) cong: if_cong)
    next
      case (Some t)
      then have "charged i (projects s)" using p inv by (auto simp: charged_def market_inv_def distinct_map inj_on_def)
      then show ?thesis using Some \<open>project_by_id s i = Some p\<close> market.rel_refl[OF inv]
        by (simp add: chargeConsolidationInTx_def wp_simps)
    qed
  qed
qed


lemma charge_safe: "safe_op (\<lambda>s. market_inv s \<and> closable i (projects s)) market_rel (chargeConsolidationInTx i by_user)"
  unfolding safe_op_def by (blast intro: wp_mono[OF charge_wp])

lemma closeRound_safe: "safe_op (\<lambda>s. market_inv s \<and> closable i (projects s)) market_rel (closeRound i by_user)"
  unfolding closeRound_def by (intro safe_tx charge_safe)

lemma closeRound_wp: "market_inv s \<Longrightarrow> closable i (projects s) \<Longrightarrow>
    wp (closeRound i by_user) (\<lambda>_ t. market_rel s t \<and> charged i (projects t)) (\<lambda>_. market_rel s) s"
  unfolding closeRound_def wp_transaction
  by (rule wp_mono[OF charge_wp])
    (auto intro: market.rel_inv rolled_back[unfolded market_calm_def, THEN conjunct1])

lemma safe_tx_top: "safe_op market_inv market_rel m \<Longrightarrow> safe_op market_inv market_rel (transaction m)"
  using safe_tx[where G = "\<lambda>_. True"] by simp

section \<open>Investing\<close>

definition open_round :: "nat \<Rightarrow> project list \<Rightarrow> bool" where
  "open_round i ps \<longleftrightarrow> (\<forall>p\<in>set ps. p_id p = i \<longrightarrow> p_status p \<in> set INVESTABLE)"

lemma fund_rel:
  assumes inv: "market_inv s" and o: "open_round i (projects s)"
  shows "market_rel s (projects_update (upd_row p_id i (\<lambda>p. p\<lparr>p_status := PFunded\<rparr>)) s)"
proof (rule market_projects[OF inv])
  fix p
  assume p: "p \<in> set (projects s)" "p_id p = i" "project_ok p"
  then have st: "p_status p \<in> set INVESTABLE" using o by (simp add: open_round_def)
  then have "project_edge\<^sup>*\<^sup>* (p_status p) PFunded" by (intro r_into_rtranclp project_edge.funded)
  then show "project_ok (p\<lparr>p_status := PFunded\<rparr>) \<and> later p (p\<lparr>p_status := PFunded\<rparr>)"
    using p(3) st by (auto simp: project_ok_def target_ok_def fund_ok_def stage_ok_def later_def split: option.splits)
qed (use market_rulesI[OF inv] in \<open>simp_all add: upd_row_where, auto intro: rules_ok_cong simp: same_fees_def\<close>)

lemma funded_closable: "closable i (upd_row p_id i (\<lambda>p. p\<lparr>p_status := PFunded\<rparr>) ps)"
  unfolding closable_def upd_row_where ball_upd_where by simp

lemma close_if_funded_safe: "safe_op (\<lambda>s. market_inv s \<and> open_round i (projects s)) market_rel (close_if_funded i)"
  unfolding safe_op_def
proof (intro allI impI, elim conjE)
  fix s :: "'a market_db_scheme"
  assume s: "market_inv s" "open_round i (projects s)"
  have "wp (chargeConsolidationInTx i None) (\<lambda>_. market_rel s) (\<lambda>_. market_rel s)
      (projects_update (upd_row p_id i (\<lambda>p. p\<lparr>p_status := PFunded\<rparr>)) s)"
    by (rule market.underD[OF charge_safe s(1) fund_rel[OF s]]) (simp add: funded_closable)
  then show "wp (close_if_funded i) (\<lambda>_. market_rel s) (\<lambda>_. market_rel s) s"
    by (simp add: close_if_funded_def wp_simps market.rel_refl[OF s(1)] split: option.split)
qed

lemma one_open:
  assumes inv: "market_inv s" and c: "length (filter (has_room i amount) (projects s)) = 1"
  shows "open_round i (upd_where (has_room i amount) (add_stake amount first) (projects s))"
proof -
  from c obtain p where p: "p \<in> set (projects s)" "has_room i amount p"
    by (metis filter_empty_conv length_0_conv zero_neq_one)
  have "q = p" if "q \<in> set (projects s)" "p_id q = i" for q
    using that p inv by (auto simp: market_inv_def distinct_map inj_on_def has_room_def)
  with p show ?thesis unfolding open_round_def ball_upd_where by (auto simp: add_stake_def has_room_def)
qed

lemma invest_tx_safe:
  assumes "0 < amount"
  shows "safe_op market_inv market_rel (invest_tx u i amount charge debit already w a)"
  unfolding invest_tx_def
proof (rule safe_tx_top, rule market.safeI, goal_cases)
  case (1 s)
  let ?t = "projects_update (upd_where (has_room i amount) (add_stake amount (\<not> already > 0))) s"
  have t: "market_rel s ?t" using market.safeD[OF add_stake_safe[OF assms] 1] by (simp add: wp_update_many)
  show ?case
    unfolding wp_bnd[of "update_many projects _ _ _"] wp_update_many
  proof (cases "length (filter (has_room i amount) (projects s)) = 1", simp_all add: wp_throw t, goal_cases)
    case 1
    then have o: "open_round i (projects ?t)" using one_open[OF \<open>market_inv s\<close>] by simp
    show ?case
      unfolding Let_def
      by (rule market.underD[where G = "open_round i", OF _ \<open>market_inv s\<close> t o], intro market.under_thn[OF close_if_funded_safe market.safe_ret]
        safe_op_if market.under_weaken[OF market.safe_throw] market.calm_bnd market.calm_thn calm_core calm_rows
        market.calm.safe_if market.calm.safe_ret market.calm.safe_gets calm_credit)
  qed
qed

end
