(* ===== verification/Business_Safety.thy ===== *)
theory Business_Safety
  imports Business_Team
begin

text \<open>
  What holds of business accounts over any sequence of requests: the status of an application
  moves along the review process only, an approved business has been approved by someone other
  than its owner and stays approved, an application under review is complete, and nobody but the
  owner of a business decides who its administrators are.
\<close>

section \<open>The life of an application\<close>

inductive kyb_edge :: "business_status \<Rightarrow> business_status \<Rightarrow> bool" where
  submit: "st \<in> set EDITABLE \<Longrightarrow> kyb_edge st BUnderReview"
| redraft: "kyb_edge BRejected BDraft"
| decide: "kyb_edge BUnderReview (decided d)"

inductive_cases approved_edge: "kyb_edge BApproved st"
inductive_simps to_approved: "kyb_edge st BApproved"

definition reviewed :: "business \<Rightarrow> bool" where
  "reviewed b \<longleftrightarrow> (\<exists>a. b_reviewer b = Some a \<and> a \<noteq> b_owner b) \<and> b_approved b \<noteq> None"

definition row_ok :: "'a business_db_scheme \<Rightarrow> business \<Rightarrow> bool" where
  "row_ok s b \<longleftrightarrow> b_id b < seq s
    \<and> (b_status b = BUnderReview \<longrightarrow> missingRequirements b (persons_of s (b_id b)) (docs_of s (b_id b)) = [])
    \<and> (b_status b = BApproved \<longrightarrow> reviewed b)"

definition member_rows :: "nat \<Rightarrow> member list \<Rightarrow> bool" where
  "member_rows n ms \<longleftrightarrow> distinct (map mb_id ms) \<and> list_all (\<lambda>m. mb_id m < n \<and> mb_role m \<noteq> BOwner) ms"

lemma member_rows_mono: "member_rows n ms \<Longrightarrow> n \<le> k \<Longrightarrow> member_rows k ms"
  by (auto simp: member_rows_def list_all_iff)

lemma member_rows_append: "member_rows n ms \<Longrightarrow> mb_role m \<noteq> BOwner \<Longrightarrow> mb_id m = n \<Longrightarrow> n < k \<Longrightarrow> member_rows k (ms @ [m])"
  by (auto simp: member_rows_def list_all_iff)

lemma member_rows_update:
  assumes "member_rows n ms" "\<And>m. mb_id (f m) = mb_id m" "\<And>m. mb_role m \<noteq> BOwner \<Longrightarrow> mb_role (f m) \<noteq> BOwner"
  shows "member_rows n (upd_row mb_id i f ms)"
  using assms(1) list_all_upd_row[of "\<lambda>m. mb_id m < n \<and> mb_role m \<noteq> BOwner" ms mb_id i f] assms(2,3)
  by (auto simp: member_rows_def)

definition business_inv :: "'a business_db_scheme \<Rightarrow> bool" where
  "business_inv s \<longleftrightarrow> distinct (map b_id (businesses s)) \<and> list_all (row_ok s) (businesses s)
    \<and> member_rows (seq s) (members s)"

definition business_rel :: "'a business_db_scheme \<Rightarrow> 'a business_db_scheme \<Rightarrow> bool" where
  "business_rel s t \<longleftrightarrow> business_inv t \<and> (\<forall>i b. business_by_id s i = Some b \<longrightarrow>
     (\<exists>b'. business_by_id t i = Some b' \<and> b_owner b' = b_owner b \<and> kyb_edge\<^sup>*\<^sup>* (b_status b) (b_status b')))"

interpretation kyb: step_contract business_inv business_rel
proof
  fix s t u :: "'a business_db_scheme"
  show "business_inv s \<Longrightarrow> business_rel s s" by (simp add: business_rel_def)
  show "business_rel s t \<Longrightarrow> business_rel t u \<Longrightarrow> business_rel s u"
    unfolding business_rel_def by (metis rtranclp_trans)
  show "business_inv s \<Longrightarrow> business_rel s t \<Longrightarrow> business_inv t" by (simp add: business_rel_def)
qed

lemma rel_same:
  assumes "business_inv s" "businesses t = businesses s" "persons t = persons s" "business_docs t = business_docs s"
    "member_rows (seq t) (members t)" "seq s \<le> seq t"
  shows "business_rel s t"
  using assms by (auto simp: business_rel_def business_inv_def row_ok_def persons_of_def docs_of_def business_by_id_def list_all_iff)

lemma rel_update:
  assumes inv: "business_inv s" and b: "businesses t = upd_where P f (businesses s)"
    and k: "\<And>b. b_id (f b) = b_id b" "\<And>b. b_owner (f b) = b_owner b"
    and e: "\<And>b. b \<in> set (businesses s) \<Longrightarrow> P b \<Longrightarrow> kyb_edge\<^sup>*\<^sup>* (b_status b) (b_status (f b)) \<and> row_ok t (f b)"
    and p: "\<And>b. b \<in> set (businesses s) \<Longrightarrow> \<not> P b \<Longrightarrow> persons_of t (b_id b) = persons_of s (b_id b) \<and> docs_of t (b_id b) = docs_of s (b_id b)"
    and m: "members t = members s" "seq s \<le> seq t"
  shows "business_rel s t"
proof -
  have d: "distinct (map b_id (businesses s))" and ok: "\<forall>b\<in>set (businesses s). row_ok s b"
    using inv by (auto simp: business_inv_def list_all_iff)
  have "row_ok t b" if "b \<in> set (businesses s)" "\<not> P b" for b
    using ok[rule_format, OF that(1)] p[OF that] m(2) by (auto simp: row_ok_def)
  then have "list_all (row_ok t) (businesses t)"
    using e by (auto simp: b list_all_iff in_upd_where)
  then have "business_inv t" using inv d m member_rows_mono by (auto simp: business_inv_def b k)
  moreover have "\<exists>b'. business_by_id t i = Some b' \<and> b_owner b' = b_owner x \<and> kyb_edge\<^sup>*\<^sup>* (b_status x) (b_status b')"
    if "business_by_id s i = Some x" for i x
    using that e find_row_Some[of b_id i "businesses s" x]
    by (auto simp: business_by_id_def b find_row_upd_where k)
  ultimately show ?thesis by (simp add: business_rel_def)
qed

lemma rel_append:
  assumes inv: "business_inv s" and b: "businesses t = businesses s @ [b]" "b_id b = seq s" "seq t = Suc (seq s)"
    and ok: "b_status b = BDraft" and r: "persons t = persons s" "business_docs t = business_docs s" "members t = members s"
  shows "business_rel s t"
proof -
  have d: "distinct (map b_id (businesses s))" "\<forall>x\<in>set (businesses s). row_ok s x"
    using inv by (auto simp: business_inv_def list_all_iff)
  then have "seq s \<notin> b_id ` set (businesses s)" by (auto simp: row_ok_def)
  then have "business_inv t" using inv d b ok r
    by (auto simp: business_inv_def list_all_iff row_ok_def persons_of_def docs_of_def intro: member_rows_mono)
  then show ?thesis by (auto simp: business_rel_def business_by_id_def b find_row_append)
qed

lemma safe_verifyPin_kyb: "safe_op business_inv business_rel (verifyPin X u pin)"
  by (rule kyb.safeI, rule verifyPin_frame) (rule rel_same; simp add: business_inv_def)+

lemma safe_log_kyb:
  "safe_op business_inv business_rel (audit_log u a i)" "safe_op business_inv business_rel (emit ev)"
  by (rule kyb.safeI, simp add: audit_log_def wp_simps, rule rel_same; simp add: business_inv_def)+

lemma safe_resolve_kyb: "safe_op business_inv business_rel (resolve u p)"
  unfolding resolve_def by (intro kyb.safe_rules)

lemma upgrade_safe: "safe_op business_inv business_rel (upgradeFromMerchant u)"
proof (rule kyb.safeI)
  fix s :: "'a business_db_scheme"
  assume inv: "business_inv s"
  show "wp (upgradeFromMerchant u) (\<lambda>_. business_rel s) (\<lambda>_. business_rel s) s"
    by (auto simp: upgradeFromMerchant_def wp_simps Let_def audit_log_def kyb.rel_refl[OF inv] new_business_def
        intro!: rel_append[OF inv, where b = "new_business (seq s) (now s) u _", unfolded new_business_def] split: option.split)
qed

lemma business_in: "business_of s u = Some b \<Longrightarrow> b \<in> set (businesses s)" "business_by_id s i = Some b \<Longrightarrow> b \<in> set (businesses s) \<and> b_id b = i"
  by (auto simp: business_of_def business_by_id_def dest: find_Some find_row_Some)

lemma inv_unique: "business_inv s \<Longrightarrow> b \<in> set (businesses s) \<Longrightarrow> c \<in> set (businesses s) \<Longrightarrow> b_id b = b_id c \<Longrightarrow> b = c"
  by (auto simp: business_inv_def distinct_map inj_on_def)

lemma replaced_others:
  assumes "\<And>r. r \<in> set (the rows) \<Longrightarrow> rows \<noteq> None \<Longrightarrow> mine r" "\<And>r. mine r \<Longrightarrow> \<not> yours r"
  shows "filter yours (replaced mine rows old) = filter yours old"
  using assms by (auto simp: replaced_def filter_empty_conv intro!: filter_cong split: option.split)

lemma draft_rel:
  fixes s :: "'a business_db_scheme"
  assumes inv: "business_inv s" and b: "b \<in> set (businesses s)" "b_status b \<in> set EDITABLE"
    and t: "businesses t = upd_where (\<lambda>r. b_id r = b_id b) (\<lambda>r. (apply_draft dto r)\<lparr>b_status := st r\<rparr>) (businesses s)"
      "persons t = replaced (\<lambda>p. bp_business p = b_id b) (map_option (map (\<lambda>p. p\<lparr>bp_business := b_id b, bp_name := trim (bp_name p)\<rparr>)) ps) (persons s)"
      "business_docs t = replaced (\<lambda>d. bd_business d = b_id b) (map_option (map (\<lambda>d. d\<lparr>bd_business := b_id b\<rparr>)) ds) (business_docs s)"
    and m: "members t = members s" "seq s \<le> seq t"
    and st: "st b = (if b_status b = BRejected then BDraft else b_status b)"
  shows "business_rel s t"
proof (rule rel_update[OF inv t(1) _ _ _ _ m])
  fix c
  assume c: "c \<in> set (businesses s)"
  { assume "b_id c = b_id b"
    then have cb: "c = b" using inv_unique[OF inv c b(1)] by blast
    have "kyb_edge\<^sup>*\<^sup>* (b_status b) (st b)" using kyb_edge.redraft by (auto simp: st)
    moreover have "b_id b < seq t" using inv b(1) m(2) by (force simp: business_inv_def list_all_iff row_ok_def)
    moreover have "st b \<noteq> BUnderReview" "st b \<noteq> BApproved" using b(2) by (auto simp: st EDITABLE_def)
    ultimately show "kyb_edge\<^sup>*\<^sup>* (b_status c) (b_status ((apply_draft dto c)\<lparr>b_status := st c\<rparr>)) \<and> row_ok t ((apply_draft dto c)\<lparr>b_status := st c\<rparr>)"
      by (simp add: cb row_ok_def apply_draft_def) }
  assume "b_id c \<noteq> b_id b"
  then show "persons_of t (b_id c) = persons_of s (b_id c) \<and> docs_of t (b_id c) = docs_of s (b_id c)"
    unfolding persons_of_def docs_of_def t by (intro conjI replaced_others) (auto split: option.split)
qed (simp_all add: apply_draft_def)

lemma saveDraft_safe: "safe_op business_inv business_rel (saveDraft u dto)"
proof (rule kyb.safeI)
  fix s :: "'a business_db_scheme"
  assume inv: "business_inv s"
  have undo: "business_rel s (s\<lparr>fee_cache := c\<rparr>)" for c by (rule rel_same[OF inv]) (use inv in \<open>simp_all add: business_inv_def\<close>)
  show "wp (saveDraft u dto) (\<lambda>_. business_rel s) (\<lambda>_. business_rel s) s"
    by (auto simp: saveDraft_def requireOwned_def wp_simps replace_rows_def business_update_def Let_def undo kyb.rel_refl[OF inv]
        upd_row_where dest!: business_in(1) intro!: draft_rel[OF inv, where dto = dto and ps = "dr_persons dto" and ds = "dr_docs dto"] split: option.split)
qed

text \<open>A guarded change of one row that keeps its key and its owner.\<close>

lemma claim_rel:
  fixes s :: "'a business_db_scheme"
  assumes inv: "business_inv s" and b: "b \<in> set (businesses s)" "b_id b = i"
    and t: "businesses t = upd_where (\<lambda>r. b_id r = i \<and> b_status r \<in> A) f (businesses s)"
      "persons t = persons s" "business_docs t = business_docs s" "members t = members s" "seq s \<le> seq t"
    and f: "\<And>b. b_id (f b) = b_id b" "\<And>b. b_owner (f b) = b_owner b"
    and e: "b_status b \<in> A \<Longrightarrow> kyb_edge (b_status b) (b_status (f b))"
      "b_status (f b) = BUnderReview \<Longrightarrow> missingRequirements (f b) (persons_of s i) (docs_of s i) = []"
      "b_status (f b) = BApproved \<Longrightarrow> reviewed (f b)"
  shows "business_rel s t"
proof (rule rel_update[OF inv t(1) f _ _ t(4,5)])
  have d: "persons_of t j = persons_of s j" "docs_of t j = docs_of s j" for j
    by (simp_all add: persons_of_def docs_of_def t)
  fix c
  assume c: "c \<in> set (businesses s)"
  { assume P: "b_id c = i \<and> b_status c \<in> A"
    then have "c = b" using inv_unique[OF inv c b(1)] b(2) by simp
    moreover have "b_id b < seq t" using inv b(1) t(5) by (force simp: business_inv_def list_all_iff row_ok_def)
    ultimately show "kyb_edge\<^sup>*\<^sup>* (b_status c) (b_status (f c)) \<and> row_ok t (f c)"
      using P e b(2) by (auto simp: row_ok_def d f) }
  show "persons_of t (b_id c) = persons_of s (b_id c) \<and> docs_of t (b_id c) = docs_of s (b_id c)" by (simp add: d)
qed

lemma submit_simps [simp]: "b_id (submit_business t b) = b_id b" "b_owner (submit_business t b) = b_owner b"
   "b_status (submit_business t b) = BUnderReview" "missingRequirements (submit_business t b) = missingRequirements b"
  by (simp_all add: fun_eq_iff missingRequirements_def required_fields_def submit_business_def)

lemma submit_safe: "safe_op business_inv business_rel (business_submit u)"
proof (rule kyb.safeI)
  fix s :: "'a business_db_scheme"
  assume inv: "business_inv s"
  have undo: "business_rel s (s\<lparr>fee_cache := c\<rparr>)" for c by (rule rel_same[OF inv]) (use inv in \<open>simp_all add: business_inv_def\<close>)
  show "wp (business_submit u) (\<lambda>_. business_rel s) (\<lambda>_. business_rel s) s"
    by (auto simp: business_submit_def wp_simps Let_def undo kyb.rel_refl[OF inv] audit_log_def intro: kyb_edge.submit
        dest!: business_in(1) intro!: claim_rel[OF inv _ refl, where f = "submit_business (now s)" and A = "set EDITABLE"]
        split: option.split)
qed

lemma note_simps [simp]: "b_id (review_business st a t n b) = b_id b" "b_owner (review_business st a t n b) = b_owner b"
   "b_status (review_business st a t n b) = st"
  by (simp_all add: review_business_def)

lemma review_safe: "safe_op business_inv business_rel (adminReview admin i d notes)"
proof (rule kyb.safeI)
  fix s :: "'a business_db_scheme"
  assume inv: "business_inv s"
  have undo: "business_rel s (s\<lparr>fee_cache := c\<rparr>)" for c by (rule rel_same[OF inv]) (use inv in \<open>simp_all add: business_inv_def\<close>)
  have "b_owner b \<noteq> admin \<Longrightarrow> reviewed (review_business BApproved admin t n b)" for b t n
    by (simp add: reviewed_def review_business_def)
  moreover have "decided d \<noteq> BUnderReview" "kyb_edge BUnderReview (decided d)" by (cases d) (simp_all add: kyb_edge.decide)
  ultimately show "wp (adminReview admin i d notes) (\<lambda>_. business_rel s) (\<lambda>_. business_rel s) s"
    by (auto simp: adminReview_def wp_simps Let_def undo kyb.rel_refl[OF inv] audit_log_def
        dest!: business_in(2) intro!: claim_rel[OF inv _ refl, where f = "review_business (decided d) admin (now s) (note_of notes)" and A = "{BUnderReview}"]
        split: option.split list.split)
qed


section \<open>The team\<close>

lemma assignable_not_owner: "r \<in> set (assignableRoles a) \<Longrightarrow> r \<noteq> BOwner"
  by (cases a) auto

lemma thn_assert: "thn (assertAssignable a r) k = (if r \<in> set (assignableRoles a) then k
    else throw (Forbidden (''Your role cannot manage '' @ role_name r @ '' members'')))"
  by (simp add: fun_eq_iff assertAssignable_def thn_def bnd_def ret_def throw_def)

lemma put_member_safe:
  assumes "r \<noteq> BOwner" shows "safe_op business_inv business_rel (put_member u b v r m)"
  by (rule kyb.safeI, cases m) (auto simp: put_member_def wp_simps member_update_def Let_def assms business_inv_def
      intro!: rel_same member_rows_update member_rows_append)

lemma member_update_safe:
  assumes "\<And>m. mb_id (f m) = mb_id m" "\<And>m. mb_role m \<noteq> BOwner \<Longrightarrow> mb_role (f m) \<noteq> BOwner"
  shows "safe_op business_inv business_rel (member_update i f)"
  by (rule kyb.safeI) (auto simp: wp_simps member_update_def business_inv_def intro!: rel_same member_rows_update assms)

lemmas team_rules = kyb.safe_ret kyb.safe_throw kyb.safe_gets kyb.safe_bnd kyb.safe_thn kyb.safe_if_cond kyb.safe_or_throw
  kyb.safe_case_option safe_resolve_kyb safe_verifyPin_kyb safe_log_kyb put_member_safe member_update_safe

lemma team_add_safe: "safe_op business_inv business_rel (team_add X u ident r pin)"
  unfolding team_add_def thn_assert Let_def by (intro team_rules) (auto dest: assignable_not_owner)

lemma team_update_safe: "safe_op business_inv business_rel (team_update X u i r pin)"
  unfolding team_update_def thn_assert memberOf_def by (intro team_rules) (auto dest: assignable_not_owner)

lemma team_remove_safe: "safe_op business_inv business_rel (team_remove X u i pin)"
  unfolding team_remove_def thn_assert memberOf_def by (intro team_rules) auto


lemma approved_business_Some:
  "approved_business s i = Some b \<Longrightarrow> b \<in> set (businesses s) \<and> b_status b = BApproved \<and> b_id b = i"
  by (auto simp: approved_business_def dest: business_in split: option.splits if_splits)

lemma membership_Some: "membership s u = Some m \<Longrightarrow> m \<in> set (members s) \<and> mb_user m = u \<and> mb_active m
    \<and> (\<exists>b. approved_business s (mb_business m) = Some b)"
proof -
  assume m: "membership s u = Some m"
  let ?ms = "filter (\<lambda>m. mb_user m = u \<and> mb_active m \<and> approved_business s (mb_business m) \<noteq> None) (members s)"
  from m obtain rest where "sort_key mb_created ?ms = m # rest"
    unfolding membership_def by (auto simp del: filter.simps split: list.splits)
  then have "m \<in> set (sort_key mb_created ?ms)" by (simp only: list.set_intros)
  then show ?thesis by auto
qed

text \<open>An actor is the owner of an approved business, or an active member of one.\<close>

lemma actor_of_Some:
  assumes "actor_of s u = Some a"
  shows "ac_user a = u" "ac_business a \<in> set (businesses s)" "b_status (ac_business a) = BApproved"
    "(ac_role a = BOwner \<and> b_owner (ac_business a) = u)
     \<or> (\<exists>m\<in>set (members s). mb_user m = u \<and> mb_active m \<and> mb_business m = b_id (ac_business a) \<and> mb_role m = ac_role a)"
proof -
  have mem: "ac_user a = u \<and> ac_business a \<in> set (businesses s) \<and> b_status (ac_business a) = BApproved
      \<and> (\<exists>m\<in>set (members s). mb_user m = u \<and> mb_active m \<and> mb_business m = b_id (ac_business a) \<and> mb_role m = ac_role a)"
    if "map_option (\<lambda>m. \<lparr>ac_user = u, ac_role = mb_role m, ac_business = the (approved_business s (mb_business m))\<rparr>) (membership s u) = Some a"
    using that by (fastforce dest!: membership_Some dest: approved_business_Some)
  have b: "b_owner b = u \<and> b \<in> set (businesses s)" if "business_of s u = Some b" for b
    using that by (auto simp: business_of_def dest: find_Some)
  from assms mem b show "ac_user a = u" "ac_business a \<in> set (businesses s)" "b_status (ac_business a) = BApproved"
    "(ac_role a = BOwner \<and> b_owner (ac_business a) = u)
     \<or> (\<exists>m\<in>set (members s). mb_user m = u \<and> mb_active m \<and> mb_business m = b_id (ac_business a) \<and> mb_role m = ac_role a)"
    unfolding actor_of_def by (force split: option.splits if_splits)+
qed

lemma profile_simps [simp]: "b_id (apply_profile d b) = b_id b" "b_owner (apply_profile d b) = b_owner b"
   "b_status (apply_profile d b) = b_status b" "reviewed (apply_profile d b) = reviewed b"
  by (simp_all add: apply_profile_def reviewed_def)

lemma updateProfile_safe: "safe_op business_inv business_rel (updateProfile u dto)"
proof (rule kyb.safeI)
  fix s :: "'a business_db_scheme"
  assume inv: "business_inv s"
  have "business_rel s t" if a: "actor_of s u = Some a" and t: "businesses t = upd_where (\<lambda>r. b_id r = b_id (ac_business a)) (apply_profile dto) (businesses s)"
      "persons t = persons s" "business_docs t = business_docs s" "members t = members s" "seq t = seq s" for a t
  proof (rule rel_update[OF inv t(1) _ _ _ _ t(4)])
    fix c
    assume c: "c \<in> set (businesses s)" "b_id c = b_id (ac_business a)"
    then have "c = ac_business a" using inv_unique[OF inv _ actor_of_Some(2)[OF a]] by blast
    then have "b_status c = BApproved" using actor_of_Some(3)[OF a] by simp
    moreover have "row_ok s c" using inv c(1) by (simp add: business_inv_def list_all_iff)
    ultimately show "kyb_edge\<^sup>*\<^sup>* (b_status c) (b_status (apply_profile dto c)) \<and> row_ok t (apply_profile dto c)"
      by (simp add: row_ok_def t)
  qed (simp_all add: persons_of_def docs_of_def t)
  then show "wp (updateProfile u dto) (\<lambda>_. business_rel s) (\<lambda>_. business_rel s) s"
    by (auto simp: updateProfile_def resolve_def wp_simps business_update_def upd_row_where audit_log_def kyb.rel_refl[OF inv]
        split: option.split)
qed


section \<open>Requests\<close>

datatype business_request =
    Upgrade nat
  | SaveDraft nat draft_dto
  | Submit nat
  | Review nat nat decision "string option"
  | AddMember nat string business_role string
  | ChangeRole nat nat business_role string
  | RemoveMember nat nat string
  | EditProfile nat profile_dto

fun requester :: "business_request \<Rightarrow> nat" where
  "requester (Upgrade u) = u"
| "requester (SaveDraft u dto) = u"
| "requester (Submit u) = u"
| "requester (Review u i d notes) = u"
| "requester (AddMember u ident r pin) = u"
| "requester (ChangeRole u i r pin) = u"
| "requester (RemoveMember u i pin) = u"
| "requester (EditProfile u dto) = u"

fun business_exec :: "ext \<Rightarrow> business_request \<Rightarrow> 'a business_db_scheme \<Rightarrow> 'a business_db_scheme" where
  "business_exec X (Upgrade u) s = snd (upgradeFromMerchant u s)"
| "business_exec X (SaveDraft u dto) s = snd (saveDraft u dto s)"
| "business_exec X (Submit u) s = snd (business_submit u s)"
| "business_exec X (Review u i d notes) s = snd (adminReview u i d notes s)"
| "business_exec X (AddMember u ident r pin) s = snd (team_add X u ident r pin s)"
| "business_exec X (ChangeRole u i r pin) s = snd (team_update X u i r pin s)"
| "business_exec X (RemoveMember u i pin) s = snd (team_remove X u i pin s)"
| "business_exec X (EditProfile u dto) s = snd (updateProfile u dto s)"

lemma business_exec_rel: "business_inv s \<Longrightarrow> business_rel s (business_exec X q s)"
  by (cases q) (simp_all add: kyb.safe_snd upgrade_safe saveDraft_safe submit_safe review_safe team_add_safe
      team_update_safe team_remove_safe updateProfile_safe)

interpretation kyb_run: step_run business_inv business_rel "business_exec X"
  by unfold_locales (rule business_exec_rel)

section \<open>Administrators\<close>

definition admins :: "'a business_db_scheme \<Rightarrow> nat \<Rightarrow> nat set" where
  "admins s i = mb_user ` {m \<in> set (members s). mb_business m = i \<and> mb_active m \<and> mb_role m = BAdmin}"

lemma admins_same: "members t = members s \<Longrightarrow> admins t i = admins s i"
  by (simp add: admins_def)

text \<open>Changing a row that is no administrator's, and does not become one.\<close>

lemma admins_update:
  assumes "member_rows n (members s)" "members t = upd_row mb_id (mb_id m) f (members s)" "m \<in> set (members s)"
    and "mb_business m = i \<Longrightarrow> mb_active m \<Longrightarrow> mb_role m \<noteq> BAdmin" "mb_business (f m) = mb_business m"
    and "mb_business m = i \<Longrightarrow> mb_active (f m) \<Longrightarrow> mb_role (f m) \<noteq> BAdmin"
  shows "admins t i = admins s i"
proof -
  have "x = m" if "x \<in> set (members s)" "mb_id x = mb_id m" for x
    using assms(1,3) that by (auto simp: member_rows_def distinct_map inj_on_def)
  then have "upd_row mb_id (mb_id m) f (members s) = map (\<lambda>x. if x = m then f m else x) (members s)"
    by (auto simp: upd_row_def)
  then have "{x \<in> set (members t). mb_business x = i \<and> mb_active x \<and> mb_role x = BAdmin}
      = {x \<in> set (members s). mb_business x = i \<and> mb_active x \<and> mb_role x = BAdmin}"
    using assms(3-6) by (auto simp: assms(2) split: if_splits)
  then show ?thesis by (simp add: admins_def)
qed

lemma actor_below:
  assumes "business_inv s" "business_by_id s i = Some b" "b_owner b \<noteq> u" "actor_of s u = Some a" "b_id (ac_business a) = i"
  shows "ac_role a \<noteq> BOwner"
proof
  assume o: "ac_role a = BOwner"
  have "ac_business a = b"
    using inv_unique[OF assms(1) actor_of_Some(2)[OF assms(4)]] business_in(2)[OF assms(2)] assms(5) by blast
  with o assms(3) actor_of_Some(4)[OF assms(4)] member_rows_def assms(1) show False
    by (auto simp: business_inv_def list_all_iff)
qed

lemma assignable_not_admin: "r \<in> set (assignableRoles a) \<Longrightarrow> a \<noteq> BOwner \<Longrightarrow> r \<noteq> BAdmin"
  by (cases a) auto


definition admin_inv :: "nat \<Rightarrow> nat \<Rightarrow> 'a business_db_scheme \<Rightarrow> bool" where
  "admin_inv i own s \<longleftrightarrow> business_inv s \<and> (\<exists>b. business_by_id s i = Some b \<and> b_owner b = own)"

lemma wp_memberOf:
  "(\<And>m. m \<in> set (members s) \<Longrightarrow> mb_id m = j \<Longrightarrow> mb_business m = b \<Longrightarrow> mb_active m \<Longrightarrow> Q m s) \<Longrightarrow> (\<And>e. E e s)
    \<Longrightarrow> wp (memberOf b j) Q E s"
  by (auto simp: memberOf_def wp_simps dest: find_Some split: option.split)

lemma admins_put:
  assumes rows: "member_rows (seq s) (members s)" and m: "\<And>m. x = Some m \<Longrightarrow> m \<in> set (members s) \<and> mb_business m = b \<and> \<not> mb_active m"
    and r: "b = i \<Longrightarrow> r \<noteq> BAdmin"
  shows "wp (put_member u b v r x) (\<lambda>_ t. admins t i = admins s i) (\<lambda>_ t. admins t i = admins s i) s"
proof (cases x)
  case None
  have add: "admins t i = admins s i" if "members t = members s @ [m]" "mb_business m = b" "mb_role m = r" for t m
    using that r by (auto simp: admins_def)
  show ?thesis by (simp add: put_member_def None wp_simps Let_def) (rule add, simp, simp_all)
next
  case (Some y)
  show ?thesis using m[OF Some] r unfolding Some put_member_def option.case Let_def
    by (simp add: wp_simps member_update_def) (rule admins_update[OF rows, where m = y
        and f = "\<lambda>m. m\<lparr>mb_active := True, mb_role := r, mb_invited_by := Some u\<rparr>"], auto)
qed

lemma wp_admins_quiet:
  "admins s i = A \<Longrightarrow> wp (thn (emit e) (thn (audit_log u a j) (ret m))) (\<lambda>_ t. admins t i = A) E s"
  by (simp add: wp_simps audit_log_def admins_def)

lemma members_kept: "preserves (\<lambda>t. members t = ms) (upgradeFromMerchant u)" "preserves (\<lambda>t. members t = ms) (saveDraft u dto)"
  "preserves (\<lambda>t. members t = ms) (business_submit u)" "preserves (\<lambda>t. members t = ms) (adminReview u j d notes)"
  "preserves (\<lambda>t. members t = ms) (updateProfile u pd)"
  by (rule preservesI; auto simp: upgradeFromMerchant_def saveDraft_def requireOwned_def business_submit_def adminReview_def
      updateProfile_def resolve_def replace_rows_def business_update_def audit_log_def wp_simps Let_def split: option.split list.split)+

lemmas kept = preservesD[OF members_kept(1) refl] preservesD[OF members_kept(2) refl] preservesD[OF members_kept(3) refl]
  preservesD[OF members_kept(4) refl] preservesD[OF members_kept(5) refl]

text \<open>What a request of anyone but the owner does to the administrators of a business: nothing.\<close>

lemma exec_admins:
  assumes J: "admin_inv i own s" and u: "requester q \<noteq> own"
  shows "admins (business_exec X q s) i = admins s i"
proof -
  have inv: "business_inv s" and rows: "member_rows (seq s) (members s)" using J by (auto simp: admin_inv_def business_inv_def)
  have low: "r \<noteq> BAdmin" if "actor_of s (requester q) = Some a" "b_id (ac_business a) = i" "r \<in> set (assignableRoles (ac_role a))" for a r
    using J u that actor_below[OF inv _ _ that(1,2)] by (auto simp: admin_inv_def dest: assignable_not_admin)
  let ?K = "\<lambda>t. admins t i = admins s i"
  have pins: "admins (s\<lparr>users := us\<rparr>) j = admins s j" for us j by (simp add: admins_def)
  have upd: "admins (audit_logs_update g (members_update (upd_row mb_id (mb_id m) f) (s\<lparr>users := us\<rparr>))) i = admins s i"
    if "m \<in> set (members s)" "mb_business (f m) = mb_business m" "mb_business m = i \<Longrightarrow> mb_role m \<noteq> BAdmin"
      "mb_business m = i \<Longrightarrow> mb_active (f m) \<Longrightarrow> mb_role (f m) \<noteq> BAdmin" for m f g us
    by (rule admins_update[OF rows, where m = m and f = f]) (use that in auto)
  show ?thesis
  proof (cases q)
    case (AddMember u ident r pin)
    have put: "wp (put_member u b v r x) (\<lambda>_. ?K) (\<lambda>_. ?K) (s\<lparr>users := us\<rparr>)"
      if "\<And>m. x = Some m \<Longrightarrow> m \<in> set (members s) \<and> mb_business m = b \<and> \<not> mb_active m" "b = i \<Longrightarrow> r \<noteq> BAdmin"
      for x b v us
      using admins_put[of "s\<lparr>users := us\<rparr>" x b i r u v] rows that by (simp add: pins)
    have r: "b_id (ac_business a) = i \<Longrightarrow> r \<noteq> BAdmin"
      if "actor_of s u = Some a" "r \<in> set (assignableRoles (ac_role a))" for a using low that AddMember by simp
    have "wp (team_add X u ident r pin) (\<lambda>_. ?K) (\<lambda>_. ?K) s"
      unfolding team_add_def thn_assert wp_bnd Let_def wp_if wp_thn[of "verifyPin _ _ _"]
      by (rule wp_resolve) (auto simp: wp_if wp_throw pins wp_bnd wp_gets wp_case_option intro!: verifyPin_frame wp_mono[OF put] wp_admins_quiet
          split: option.split dest: r find_Some)
    then show ?thesis using wpD_snd[of "team_add X u ident r pin" ?K s] by (simp add: AddMember)
  next
    case (ChangeRole u j r pin)
    have r: "i \<noteq> b_id (ac_business a)"
      if "actor_of s u = Some a" "BAdmin \<in> set (assignableRoles (ac_role a))" for a using low that ChangeRole by auto
    have "wp (team_update X u j r pin) (\<lambda>_. ?K) (\<lambda>_. ?K) s"
      unfolding team_update_def thn_assert wp_bnd
      by (rule wp_resolve, rule wp_memberOf) ((auto simp: wp_simps member_update_def audit_log_def
        pins intro!: verifyPin_frame upd del: equalityI; use r in blast), simp_all)
    then show ?thesis using wpD_snd[of "team_update X u j r pin" ?K s] by (simp add: ChangeRole)
  next
    case (RemoveMember u j pin)
    have r: "i \<noteq> b_id (ac_business a)"
      if "actor_of s u = Some a" "BAdmin \<in> set (assignableRoles (ac_role a))" for a using low that RemoveMember by auto
    have "wp (team_remove X u j pin) (\<lambda>_. ?K) (\<lambda>_. ?K) s"
      unfolding team_remove_def thn_assert wp_bnd
      by (rule wp_resolve, rule wp_memberOf) ((auto simp: wp_simps member_update_def audit_log_def
        pins intro!: verifyPin_frame upd del: equalityI; use r in blast), simp_all)
    then show ?thesis using wpD_snd[of "team_remove X u j pin" ?K s] by (simp add: RemoveMember)
  qed (simp_all only: business_exec.simps, (rule admins_same, rule kept)+)
qed

interpretation admin_run: step_run "admin_inv i own" "\<lambda>s t. admin_inv i own t \<and> admins t i = admins s i"
    "\<lambda>q s. if requester q = own then s else business_exec X q s"
proof unfold_locales
  fix s :: "'a business_db_scheme" and q
  assume J: "admin_inv i own s"
  show "admin_inv i own (if requester q = own then s else business_exec X q s)
      \<and> admins (if requester q = own then s else business_exec X q s) i = admins s i"
  proof (cases "requester q = own")
    case False
    have "business_rel s (business_exec X q s)" using J by (simp add: admin_inv_def business_exec_rel)
    with J have "admin_inv i own (business_exec X q s)" by (auto simp: admin_inv_def business_rel_def)
    with exec_admins[OF J False] False show ?thesis by simp
  qed (use J in simp)
qed auto

section \<open>A business\<close>

definition sample_merchant :: merchant where
  "sample_merchant = \<lparr>mr_id = 40, mr_user = Some 1, mr_name = ''Ada Farms'', mr_email = None, mr_phone = None,
     mr_type = None, mr_reg_number = None, mr_country = Some ''KE'', mr_city = None, mr_address = None,
     mr_status = MApproved\<rparr>"

definition sample_business :: business where
  "sample_business = (new_business 60 0 1 sample_merchant)\<lparr>b_status := BApproved, b_reviewer := Some 9,
     b_reviewed := Some 0, b_approved := Some 0\<rparr>"

definition sample_member :: member where
  "sample_member = \<lparr>mb_id = 71, mb_business = 60, mb_user = 2, mb_role = BAdmin, mb_active = True,
     mb_invited_by = Some 1, mb_created = 0\<rparr>"

definition sample_businesses :: business_db where
  "sample_businesses = escrow_db.extend (core.extend sample (escrow_db.fields [] [] []))
     (business_db.fields [sample_merchant] [sample_business] [] [] [] [sample_member] [])"

lemma sample_businesses_tables [simp]:
  "businesses sample_businesses = [sample_business]" "members sample_businesses = [sample_member]"
  "seq sample_businesses = 100" "users sample_businesses = users sample"
  by (simp_all add: sample_businesses_def sample_def core.defs escrow_db.defs business_db.defs)

lemma sample_business_row [simp]:
  "b_id sample_business = 60" "b_owner sample_business = 1" "b_status sample_business = BApproved" "reviewed sample_business"
  by (simp_all add: sample_business_def new_business_def reviewed_def)

lemma sample_member_row:
  "mb_business sample_member = 60" "mb_user sample_member = 2" "mb_role sample_member = BAdmin" "mb_active sample_member"
  by (simp_all add: sample_member_def)

lemma sample_businesses_inv: "business_inv sample_businesses"
  by (simp add: business_inv_def row_ok_def member_rows_def sample_member_def)

lemma sample_business_found: "business_by_id sample_businesses 60 = Some sample_business"
  by (simp add: business_by_id_def)

text \<open>C18: Over any sequence of owner, team and admin requests a business keeps its owner and
  its status moves along the review process only: under review it is complete, approved it has been
  approved by someone other than its owner, and approved it stays.\<close>

theorem kyb_run:
  assumes "business_inv s" "business_by_id s i = Some b" "t = fold (business_exec X) qs s"
  shows "\<exists>b'. business_by_id t i = Some b' \<and> b_owner b' = b_owner b \<and> kyb_edge\<^sup>*\<^sup>* (b_status b) (b_status b')
    \<and> (b_status b = BApproved \<longrightarrow> b_status b' = BApproved)
    \<and> (b_status b' = BUnderReview \<longrightarrow> missingRequirements b' (persons_of t i) (docs_of t i) = [])
    \<and> (b_status b' = BApproved \<longrightarrow> (\<exists>a. b_reviewer b' = Some a \<and> a \<noteq> b_owner b'))"
proof -
  have r: "business_rel s t" using kyb_run.run_rel assms(1,3) by blast
  then obtain b' where b': "business_by_id t i = Some b'" "b_owner b' = b_owner b" "kyb_edge\<^sup>*\<^sup>* (b_status b) (b_status b')"
    using assms(2) by (auto simp: business_rel_def)
  have "b_status b' = BApproved" if "b_status b = BApproved"
    using b'(3) that by (cases rule: converse_rtranclpE) (auto elim: approved_edge simp: EDITABLE_def)
  moreover have "row_ok t b'" using r business_in(2)[OF b'(1)] by (auto simp: business_rel_def business_inv_def list_all_iff)
  ultimately show ?thesis using b' business_in(2)[OF b'(1)] by (auto simp: row_ok_def reviewed_def)
qed

text \<open>C19: No sequence of requests by users other than the owner of a business changes who its
  administrators are: the roles a non-owner assigns, changes or removes are all below
  administrator.\<close>

theorem admins_by_owner:
  assumes "business_inv s" "business_by_id s i = Some b" "\<forall>q\<in>set qs. requester q \<noteq> b_owner b"
  shows "admins (fold (business_exec X) qs s) i = admins s i"
proof -
  have "fold (business_exec X) qs s = fold (\<lambda>q s. if requester q = b_owner b then s else business_exec X q s) qs s"
    by (rule fold_cong) (use assms(3) in auto)
  moreover have "admin_inv i (b_owner b) s" using assms by (simp add: admin_inv_def)
  ultimately show ?thesis using admin_run.run_rel[of i "b_owner b" s X qs] by simp
qed

text \<open>C20: Access granted for a permission means an approved business the user owns or is an
  active member of, with a role the matrix gives the permission, and reads only.\<close>

theorem access_sound:
  assumes "resolve u (Some p) s = (Inr a, t)"
  shows "t = s \<and> can (ac_role a) p \<and> ac_business a \<in> set (businesses s) \<and> b_status (ac_business a) = BApproved
    \<and> (ac_role a = BOwner \<and> b_owner (ac_business a) = u
      \<or> (\<exists>m\<in>set (members s). mb_user m = u \<and> mb_active m \<and> mb_business m = b_id (ac_business a) \<and> mb_role m = ac_role a))"
proof -
  have "wp (resolve u (Some p)) (\<lambda>a t. t = s \<and> actor_of s u = Some a \<and> can (ac_role a) p) (\<lambda>_ _. True) s"
    by (rule wp_resolve) auto
  from wpD_ok[OF this assms] actor_of_Some[of s u a] show ?thesis by blast
qed

lemma assigns_below: "r \<in> set (assignableRoles a) \<Longrightarrow> r < a \<and> TeamManage \<in> set (permissionsFor a)"
  by (cases a) (auto simp: less_business_role_def permissionsFor_def can_def PERMISSIONS_def)



definition sample_team_requests :: "business_request list" where
  "sample_team_requests = [AddMember 2 ''ada'' BAdmin ''1234'', RemoveMember 2 71 ''1234'', Upgrade 2]"

theorem kyb_run_witness:
  "\<exists>b. business_by_id (fold (business_exec sample_ext) sample_team_requests sample_businesses) 60 = Some b
    \<and> b_status b = BApproved \<and> b_owner b = 1"
  using kyb_run[OF sample_businesses_inv sample_business_found refl, of sample_ext sample_team_requests] by auto

theorem admins_by_owner_witness:
  "admins (fold (business_exec sample_ext) sample_team_requests sample_businesses) 60 = {2}"
proof -
  have "admins sample_businesses 60 = {2}"
    by (simp add: admins_def Collect_conv_if sample_member_row)
  moreover have "\<forall>q\<in>set sample_team_requests. requester q \<noteq> b_owner sample_business" by (simp add: sample_team_requests_def)
  ultimately show ?thesis using admins_by_owner[OF sample_businesses_inv sample_business_found, of sample_team_requests sample_ext] by simp
qed

theorem access_sound_witness:
  "\<exists>a. resolve 2 (Some ProjectsManage) sample_businesses = (Inr a, sample_businesses) \<and> ac_role a = BAdmin
    \<and> b_status (ac_business a) = BApproved"
proof -
  let ?a = "\<lparr>ac_user = 2, ac_role = BAdmin, ac_business = sample_business\<rparr>"
  have "resolve 2 (Some ProjectsManage) sample_businesses = (Inr ?a, sample_businesses)"
    by (simp add: resolve_def bnd_def gets_def ret_def actor_of_def business_of_def membership_def approved_business_def
        sample_business_found sample_member_def can_def)
  with access_sound[OF this] show ?thesis by auto
qed

end
