(* ===== verification/Project_Runs.thy ===== *)
theory Project_Runs
  imports Project_Safety Business_Safety
begin

text \<open>
  Every request of the marketplace keeps the contract of a project (theory \<open>Project_Safety\<close>), and
  what any sequence of requests then guarantees.
\<close>

section \<open>Investors\<close>

lemmas market_rules_of = market.safe_ret market.safe_throw market.safe_gets market.safe_bnd market.safe_thn
  market.safe_case_option market.safe_case_prod

lemmas calm_all = market.calm.safe_ret market.calm.safe_throw market.calm.safe_gets market.calm.safe_bnd market.calm.safe_thn
  market.calm.safe_case_option market.calm.safe_case_prod safe_op_if market.calm.safe_let calm_core calm_rows calm_fee calm_pin calm_credit calm_resolve

lemma checks_calm: "safe_op market_inv market_calm (invest_checks X u i dto)"
  unfolding invest_checks_def by (intro calm_all)

lemma checks_positive: "wp (invest_checks X u i dto) (\<lambda>a _. 0 < fst a) (\<lambda>_ _. True) s"
  by (simp add: invest_checks_def wp_simps split: option.split, intro allI impI, rule wp_mono[OF wp_True])
    (auto simp: wp_simps split: option.split)

lemma invest_safe: "safe_op market_inv market_rel (invest X u i dto ip)"
  unfolding invest_def Let_def
  by (rule market.safe_bnd_value[OF market.calm_safe[OF checks_calm] checks_positive], clarsimp)
    (intro market.safe_bnd market.safe_thn market.calm_safe[OF calm_fee] calm_core[THEN market.calm_safe]
      calm_rows[THEN market.calm_safe] market.safe_ret invest_tx_safe)

lemma requestEligibility_safe: "safe_op market_inv market_rel (requestEligibility u)"
proof -
  have "safe_op market_inv market_calm (modify (\<lambda>s. if profile_of s u = None
       then s\<lparr>profiles := profiles s @ [\<lparr>ip_user = u, ip_status = ElPending, ip_category = None,
              ip_notes = None, ip_reviewer = None, ip_at = None, ip_updated = now s\<rparr>]\<rparr> else s))"
    by (rule market.calm.safeI) (auto simp: wp_modify same_fees_def intro!: calm_same)
  then show ?thesis
    unfolding requestEligibility_def by (intro market.safe_thn market.safe_gets market.calm_safe)
qed

section \<open>Refunds and the reserve\<close>

lemma creditInvestor_calm: "safe_op market_inv market_calm (creditInvestor v x i m)"
  unfolding creditInvestor_def by (intro calm_all)

lemma payFromReserve_safe: "safe_op market_inv market_rel (payFromReserveInTx i x t)"
  unfolding payFromReserveInTx_def Let_def
  by (intro market.safe_if_cond market.safe_ret market.safe_bnd market.safe_throw market.safe_gets market.safe_case_option
      market.safe_thn calm_core[THEN market.calm_safe] reserve_refund_safe) simp_all

lemma releaseReserve_safe: "safe_op market_inv market_rel (releaseReserveToFarmInTx i x t)"
  unfolding releaseReserveToFarmInTx_def Let_def
  by (intro market.safe_if_cond market.safe_ret market.safe_bnd market.safe_throw market.safe_gets market.safe_case_option
      market.safe_thn calm_core[THEN market.calm_safe] reserve_release_safe) simp_all

lemma refund_one_safe: "safe_op market_inv market_rel (refund_one admin i hs rs sh v)"
  unfolding refund_one_def Let_def
  by (intro safe_tx_top safe_op_if market.safe_ret market.safe_bnd market.safe_thn payFromReserve_safe
      calm_rows[THEN market.calm_safe] creditInvestor_calm[THEN market.calm_safe])

lemma refund_each_safe: "safe_op market_inv market_rel (refund_each admin i hs rs sh vs n acc res)"
proof (induction vs arbitrary: n acc res)
  case (Cons v vs)
  then show ?case by (auto intro!: market.safe_bnd refund_one_safe market.safe_case_option market.safe_case_prod)
qed (simp add: market.safe_ret)

lemma refundAll_safe: "safe_op market_inv market_rel (refundAll admin i)"
  unfolding refundAll_def Let_def by (intro market_rules_of refund_each_safe)

lemma pay_loss_safe: "safe_op market_inv market_rel (pay_loss admin i parts acc)"
proof (induction parts arbitrary: acc)
  case (Cons p parts)
  then show ?case
    by (cases p) (auto intro!: market.safe_bnd market.safe_thn payFromReserve_safe creditInvestor_calm[THEN market.calm_safe])
qed (simp add: market.safe_ret)

lemma review_calm: "safe_op market_inv market_calm (review_create i a act f t n sn)"
  unfolding review_create_def by (rule calm_rows)

lemma refundReserveForLoss_safe: "safe_op market_inv market_rel (refundReserveForLoss admin i notes)"
  unfolding refundReserveForLoss_def Let_def
  by (intro market_rules_of safe_op_if pay_loss_safe review_calm[THEN market.calm_safe] safe_tx_top)

lemma releaseReserveToFarm_safe: "safe_op market_inv market_rel (releaseReserveToFarm admin i notes)"
  unfolding releaseReserveToFarm_def Let_def
  by (intro market_rules_of safe_op_if releaseReserve_safe calm_core[THEN market.calm_safe] review_calm[THEN market.calm_safe] safe_tx_top)

section \<open>Transitions\<close>

lemma project_unique: "market_inv s \<Longrightarrow> p \<in> set (projects s) \<Longrightarrow> q \<in> set (projects s) \<Longrightarrow> p_id q = p_id p \<Longrightarrow> q = p"
  by (auto simp: market_inv_def distinct_map inj_on_def)

lemma moved_closable:
  assumes inv: "market_inv s" and c: "filter (\<lambda>r. p_id r = i \<and> p_status r = st) (projects s) \<noteq> []"
    and a: "snd (ADMIN_TRANSITIONS action) = PClosed"
  shows "closable i (upd_where (\<lambda>r. p_id r = i \<and> p_status r = st) (move_project action admin n t) (projects s))"
proof -
  obtain p where "p \<in> set (projects s)" "p_id p = i" "p_status p = st" using c by (auto simp: filter_empty_conv)
  then have "p_status q = st" if "q \<in> set (projects s)" "p_id q = i" for q
    using project_unique[OF inv, of p q] that by auto
  then show ?thesis unfolding closable_def ball_upd_where by (auto simp: move_project_def a)
qed

lemma transition_safe: "safe_op market_inv market_rel (transition admin i act notes)"
proof -
  have core: "safe_op market_inv market_rel (bnd (update_many projects projects_update (\<lambda>r. p_id r = i \<and> p_status r = st)
          (move_project action admin n t)) (\<lambda>count.
       if count = 0 then throw e
       else thn (review_create i admin x f g nn snap)
       (bnd (if action = CloseProject then bnd (closeRound i admin) (\<lambda>c. ret (Some c)) else ret None) (\<lambda>charge.
        bnd (if action = CancelProject then bnd (refundAll admin i) (\<lambda>r. ret (Some r)) else ret None) (\<lambda>refunds.
        ret (res, refunds, charge))))))"
    if st: "st \<in> set (fst (ADMIN_TRANSITIONS action))" for action st n t e x f g nn snap res
  proof (rule market.safeI, goal_cases)
    case (1 s)
    let ?P = "\<lambda>r. p_id r = i \<and> p_status r = st"
    let ?t = "projects_update (upd_where ?P (move_project action admin n t)) s"
    have t: "market_rel s ?t" using market.safeD[OF move_safe[OF st] 1] by (simp add: wp_update_many)
    have rest: "safe_op market_inv market_rel (bnd (if action = CancelProject then bnd (refundAll admin i) (\<lambda>r. ret (Some r)) else ret None)
        (\<lambda>refunds. ret (res, refunds, charge)))" for charge
      by (intro safe_op_if market_rules_of refundAll_safe)
    show ?case
    proof (cases "action = CloseProject \<and> filter ?P (projects s) \<noteq> []")
      case True
      then have c: "closable i (projects ?t)" using moved_closable[OF 1] by simp
      show ?thesis unfolding wp_bnd[of "update_many _ _ _ _"] wp_update_many wp_if
        by (split if_split, intro conjI impI, simp add: wp_throw t, rule market.underD[where G = "closable i", OF _ 1 t c])
          (intro market.under_bnd market.calm_thn review_calm safe_op_if closeRound_safe market.safe_ret
            market.under_weaken[OF market.safe_ret] rest)
    next
      case False
      have "safe_op market_inv market_rel (thn (review_create i admin x f g nn snap)
         (bnd (if action = CloseProject then bnd (closeRound i admin) (\<lambda>c. ret (Some c)) else ret None) (\<lambda>charge.
          bnd (if action = CancelProject then bnd (refundAll admin i) (\<lambda>r. ret (Some r)) else ret None) (\<lambda>refunds.
          ret (res, refunds, charge)))))" if "action \<noteq> CloseProject"
        using that by (simp add: market.safe_thn market.safe_bnd market.safe_ret rest review_calm[THEN market.calm_safe])
      with False show ?thesis unfolding wp_bnd[of "update_many _ _ _ _"] wp_update_many wp_if
        by (split if_split, intro conjI impI, simp add: wp_throw t, intro market.safe_from[OF _ 1 t], auto)
    qed
  qed
  show ?thesis
    unfolding transition_def Let_def
    by (intro core market.safe_case_option market.safe_if_cond market.safe_throw market.safe_bnd market.safe_gets) auto
qed

section \<open>Milestones\<close>

lemma milestone_calm:
  assumes k: "\<And>m. ms_id (f m) = ms_id m" "\<And>m. ms_project (f m) = ms_project m" "\<And>m. ms_position (f m) = ms_position m"
    and e: "\<And>m. P m \<Longrightarrow> (ms_status (f m) \<noteq> Planned \<longrightarrow> ms_status m \<noteq> Planned) \<and> (ms_status m = Released \<longrightarrow> ms_status (f m) = Released)"
  shows "safe_op market_inv market_calm (update_many milestones milestones_update P f)"
proof (rule market.calm.safeI)
  fix s :: "'a market_db_scheme"
  assume inv: "market_inv s"
  define g where "g m = (if P m then f m else m)" for m
  have g: "ms_id (g m) = ms_id m" "ms_project (g m) = ms_project m" "ms_position (g m) = ms_position m"
     "ms_status (g m) \<noteq> Planned \<Longrightarrow> ms_status m \<noteq> Planned" "ms_status m = Released \<Longrightarrow> ms_status (g m) = Released" for m
    by (cases "P m"; use e in \<open>auto simp: g_def k\<close>)+
  have u: "upd_where P f ms = map g ms" for ms by (simp add: upd_where_def g_def)
  have "in_order (milestones s)" using inv by (simp add: market_inv_def)
  then have "in_order (upd_where P f (milestones s))" 
    unfolding in_order_def u set_map ball_simps g(1-3) using g(4,5) by blast
  with inv show "wp (update_many milestones milestones_update P f) (\<lambda>_. market_calm s) (\<lambda>_. market_calm s) s"
    by (auto simp: wp_update_many market_calm_def u g(1) market_inv_def list_all_iff comp_def same_fees_def
        intro!: market_milestones rules_ok_cong[OF market_rulesI[OF inv]])
qed

lemma mark_released_calm: "safe_op market_inv market_calm
    (update_many milestones milestones_update (\<lambda>r. ms_id r = j \<and> ms_status r = Requested) (mark_released x t a n))"
  by (rule milestone_calm) (simp_all add: mark_released_def)

lemma upd_row_many: "modify (upd (upd_row key k f)) = bnd (update_many tab upd (\<lambda>r. key r = k) f) (\<lambda>_. ret ())"
  by (simp add: fun_eq_iff modify_def update_many_def bnd_def ret_def upd_row_where)

lemma paid_calm: "safe_op market_inv market_calm (modify (milestones_update (upd_row ms_id j (\<lambda>r. r\<lparr>ms_txn := x\<rparr>))))"
  unfolding upd_row_many[where tab = milestones] by (intro market.calm.safe_bnd milestone_calm market.calm.safe_ret) simp_all

lemma returnMilestone_safe: "safe_op market_inv market_rel (returnMilestone admin i j notes)"
  unfolding returnMilestone_def
  by (intro market.calm_safe safe_op_if market.calm.safe_bnd market.calm.safe_throw review_calm milestone_calm) simp_all

text \<open>A release stays within what the project holds; its fee has been taken before.\<close>

lemma release_room_safe:
  assumes "0 < amount"
  shows "safe_op (\<lambda>s. market_inv s \<and> charged i (projects s)) market_rel
    (update_many projects projects_update (release_room i amount) (\<lambda>p. p\<lparr>p_released := dec_inc (p_released p) amount\<rparr>))"
  unfolding safe_op_def wp_update_many
proof (intro allI impI, elim conjE)
  fix s :: "'a market_db_scheme"
  assume inv: "market_inv s" and c: "charged i (projects s)"
  show "market_rel s (projects_update (upd_where (release_room i amount) (\<lambda>p. p\<lparr>p_released := dec_inc (p_released p) amount\<rparr>)) s)"
  proof (rule market_projects[OF inv])
    fix p
    assume p: "p \<in> set (projects s)" "release_room i amount p" "project_ok p"
    then have "p_cons_at p \<noteq> None" using c by (auto simp: charged_def release_room_def)
    moreover have "dec_inc (p_released p) amount \<le> p_raised p - p_cons_fee p" "p_released p \<le> dec_inc (p_released p) amount"
      using p(2) assms by (auto simp: release_room_def intro!: dec_inc_ge dec_inc_le)
    ultimately show "project_ok (p\<lparr>p_released := dec_inc (p_released p) amount\<rparr>) \<and> later p (p\<lparr>p_released := dec_inc (p_released p) amount\<rparr>)"
      using p(3) by (auto simp: project_ok_def target_ok_def fund_ok_def stage_ok_def later_def split: option.splits)
  qed (use market_rulesI[OF inv] in \<open>simp_all, auto intro: rules_ok_cong simp: same_fees_def\<close>)
qed

lemma release_milestone_tx_safe:
  assumes "0 < amount"
  shows "safe_op (\<lambda>s. market_inv s \<and> charged i (projects s)) market_rel (release_milestone_tx admin i m w amount notes)"
  unfolding release_milestone_tx_def
  by (intro safe_tx market.under_bnd[OF release_room_safe[OF assms]] market.calm_bnd market.calm.safe_gets safe_op_if
      market.under_weaken[OF market.safe_throw] mark_released_calm market.safe_throw market.calm_safe[OF paid_calm]
      calm_core[THEN market.calm_safe] calm_rows[THEN market.calm_safe] market.safe_bnd market.safe_thn market.safe_ret)

lemma charge_before_release:
  assumes inv: "market_inv s" and p: "project_by_id s i = Some p" "p_status p \<in> set RELEASABLE"
  shows "wp (if p_cons_at p = None then bnd (closeRound i admin) (\<lambda>_. gets g) else ret x)
    (\<lambda>_ t. market_rel s t \<and> charged i (projects t)) (\<lambda>_. market_rel s) s"
proof -
  have "p \<in> set (projects s)" "p_id p = i" using p(1) by (auto simp: project_by_id_def dest: find_row_Some)
  then have u: "q = p" if "q \<in> set (projects s)" "p_id q = i" for q using project_unique[OF inv] that by auto
  then have "closable i (projects s)" using p(2) by (auto simp: closable_def RELEASABLE_def)
  moreover have "p_cons_at p \<noteq> None \<Longrightarrow> charged i (projects s)" using u by (auto simp: charged_def)
  ultimately show ?thesis
    using market.rel_refl[OF inv] by (auto simp: wp_bnd wp_ret wp_gets intro!: wp_mono[OF closeRound_wp[OF inv]])
qed

lemma releaseMilestone_safe: "safe_op market_inv market_rel (releaseMilestone admin i j notes)"
proof -
  have rest: "safe_op (\<lambda>s. market_inv s \<and> find_row p_id i (projects s) = Some p) market_rel
       (bnd (if p_cons_at p = None then bnd (closeRound i admin) (\<lambda>_. gets g) else ret x) K)"
    if p: "p_status p \<in> set RELEASABLE"
      and K: "\<And>a. safe_op (\<lambda>s. market_inv s \<and> charged i (projects s)) market_rel (K a)"
    for p g x and K :: "rat \<Rightarrow> ('b market_db_scheme, rat \<times> nat) op"
    unfolding safe_op_def wp_bnd[of _ K]
    by (intro allI impI, elim conjE, rule wp_mono[OF charge_before_release])
      (auto intro: market.underD[where G = "charged i", OF K] simp: project_by_id_def p)
  show ?thesis
    unfolding releaseMilestone_def project_by_id_def Let_def
  proof (rule market.gets_view, goal_cases)
    case (1 p)
    show ?case
      by (cases p, simp add: safe_op_def wp_throw market.rel_refl, simp only: option.case,
        intro rest market.under_bnd[OF release_milestone_tx_safe] safe_op_case_option
        market.under_weaken[OF market.safe_throw] safe_op_if_cond market.calm_bnd
        market.calm.safe_gets safe_op_case_prod market.safe_thn market.safe_ret review_calm[THEN market.calm_safe]) simp_all
  qed
qed

section \<open>The owner\<close>

lemma of_sum_calm: "safe_op market_inv market_calm (of_sum x)"
  by (cases x) (simp_all add: of_sum_def market.calm.safe_ret market.calm.safe_throw)

lemma own_calm: "safe_op market_inv market_calm (own_project u i perm)"
  unfolding own_project_def by (intro calm_all)

lemma own_wp: "(\<And>a p. p \<in> set (projects s) \<Longrightarrow> p_id p = i \<Longrightarrow> Q (a, p) s) \<Longrightarrow> (\<And>e. E e s) \<Longrightarrow> wp (own_project u i perm) Q E s"
  by (auto simp: own_project_def wp_bnd wp_gets wp_throw wp_ret intro!: wp_resolve split: option.split, drule find_Some, simp)

lemma owner_calm:
  "safe_op market_inv market_calm (project_get u i)" "safe_op market_inv market_calm (addDocument u i k ti ur vi)"
  "safe_op market_inv market_calm (removeDocument u i d)" "safe_op market_inv market_calm (postUpdate u i ti bo)"
  unfolding project_get_def addDocument_def removeDocument_def postUpdate_def Let_def by (intro own_calm calm_all)+

lemma project_submit_safe: "safe_op market_inv market_rel (project_submit u i)"
  unfolding project_submit_def
  by (intro market.safe_bnd market.calm_safe[OF own_calm] market.safe_case_prod market.safe_if market.safe_throw market.safe_gets
      submit_project_safe calm_rows[THEN market.calm_safe])

lemma planned_ids: "map ms_id (planned_rows n i items) = [n..<n + length items]"
  by (rule nth_equalityI) (auto simp: planned_rows_def nth_enumerate_eq split: prod.split)

lemma planned_rows: "m \<in> set (planned_rows n i items) \<Longrightarrow> ms_project m = i \<and> ms_status m = Planned"
  by (auto simp: planned_rows_def)

lemma plan_safe: "safe_op market_inv market_rel (modify (\<lambda>s. s\<lparr>seq := seq s + length items,
            milestones := filter (\<lambda>m. ms_project m \<noteq> i) (milestones s) @ planned_rows (seq s) i items\<rparr>))"
proof (rule market.safeI)
  fix s :: "'a market_db_scheme"
  assume inv: "market_inv s"
  let ?ms = "filter (\<lambda>m. ms_project m \<noteq> i) (milestones s)"
  have old: "distinct (map ms_id ?ms)" "\<forall>m\<in>set ?ms. ms_id m < seq s" "in_order ?ms"
    using inv by (auto simp: market_inv_def distinct_map_filter list_all_iff in_order_def)
  have new: "ms_id m \<in> {seq s..<seq s + length items}" if "m \<in> set (planned_rows (seq s) i items)" for m
    using that imageI[OF that, of ms_id] by (simp add: planned_ids flip: set_map)
  have "in_order (?ms @ planned_rows (seq s) i items)"
  proof (unfold in_order_def, intro ballI impI, elim conjE)
    fix m x
    assume mx: "m \<in> set (?ms @ planned_rows (seq s) i items)" "x \<in> set (?ms @ planned_rows (seq s) i items)"
      "ms_project x = ms_project m" "ms_position x < ms_position m" "ms_status m \<noteq> Planned"
    then have "m \<in> set ?ms" using planned_rows by auto
    then have "x \<in> set ?ms" using mx(2,3) planned_rows by fastforce
    with \<open>m \<in> set ?ms\<close> show "ms_status x = Released" using old(3) mx(3-) unfolding in_order_def by blast
  qed
  then show "wp (modify (\<lambda>s. s\<lparr>seq := seq s + length items,
            milestones := filter (\<lambda>m. ms_project m \<noteq> i) (milestones s) @ planned_rows (seq s) i items\<rparr>))
      (\<lambda>_. market_rel s) (\<lambda>_. market_rel s) s"
    unfolding wp_modify using old new
    by (intro market_milestones[OF inv] rules_ok_cong[OF market_rulesI[OF inv]])
      (fastforce simp: same_fees_def planned_ids list_all_iff)+
qed

lemma setMilestones_safe: "safe_op market_inv market_rel (setMilestones u i items)"
  unfolding setMilestones_def
  by (intro market.safe_bnd market.calm_safe[OF own_calm] market.safe_case_prod market.safe_if market.safe_throw)
    (simp add: market.safe_throw market.safe_thn safe_tx_top plan_safe owner_calm[THEN market.calm_safe] split: list.split)

text \<open>A milestone is requested when the earlier ones of its project have been released.\<close>

lemma request_order:
  assumes o: "in_order ms" and d: "distinct (map ms_id ms)" and m: "m \<in> set ms" "ms_id m = j"
    and e: "\<forall>x\<in>set ms. ms_project x = ms_project m \<longrightarrow> ms_position x < ms_position m \<longrightarrow> ms_status x = Released"
  shows "in_order (upd_where (\<lambda>m. ms_id m = j \<and> ms_status m \<in> {Planned, Returned}) (request_row ev url t u) ms)"
proof -
  have u: "x = m" if "x \<in> set ms" "ms_id x = j" for x
    using that m d by (auto simp: distinct_map inj_on_def)
  let ?g = "\<lambda>m. if ms_id m = j \<and> ms_status m \<in> {Planned, Returned} then request_row ev url t u m else m"
  have g: "ms_project (?g x) = ms_project x" "ms_position (?g x) = ms_position x"
    "ms_status (?g x) \<noteq> Planned \<Longrightarrow> ms_id x \<noteq> j \<Longrightarrow> ms_status x \<noteq> Planned" "ms_status x = Released \<Longrightarrow> ms_status (?g x) = Released" for x
    by (auto simp: request_row_def)
  have "ms_status (?g x) = Released" if x: "x \<in> set ms" "n \<in> set ms" "ms_project x = ms_project n" "ms_position x < ms_position n"
     "ms_status (?g n) \<noteq> Planned" for n x
  proof (rule g(4), cases "ms_id n = j")
    case True
    then show "ms_status x = Released" using e x u by auto
  next
    case False
    then show "ms_status x = Released" using o g(3)[OF x(5)] x unfolding in_order_def by blast
  qed
  then show ?thesis unfolding in_order_def upd_where_def set_map ball_simps g(1,2) by blast
qed

lemma requestMilestone_safe: "safe_op market_inv market_rel (requestMilestone u i j ev url)"
proof (rule market.safeI)
  fix s :: "'a market_db_scheme"
  assume inv: "market_inv s"
  have rel: "market_rel s t"
    if f: "find (\<lambda>m. ms_id m = j) (milestones_of s i) = Some m"
      and e: "\<not> list_ex (\<lambda>x. ms_position x < ms_position m \<and> ms_status x \<noteq> Released) (milestones_of s i)"
      and t: "milestones t = upd_where (\<lambda>m. ms_id m = j \<and> ms_status m \<in> {Planned, Returned}) (request_row ev url v u) (milestones s)"
        "projects t = projects s" "seq t = seq s" "same_fees s t" "fee_cache t = fee_cache s" for m t v
  proof (rule market_milestones[OF inv])
    have m: "m \<in> set (milestones s)" "ms_id m = j" "ms_project m = i"
      using find_Some[OF f] by (auto simp: milestones_of_def)
    show "in_order (milestones t)" unfolding t(1)
      by (rule request_order[OF _ _ m(1,2)]) (use inv e m(3) in \<open>auto simp: market_inv_def milestones_of_def list_ex_iff\<close>)
    show "market_rules t" using market_rulesI[OF inv] t(4,5) by (rule rules_ok_cong)
  qed (use inv in \<open>auto simp: market_inv_def list_all_iff in_upd_where request_row_def t\<close>)
  show "wp (requestMilestone u i j ev url) (\<lambda>_. market_rel s) (\<lambda>_. market_rel s) s"
    unfolding requestMilestone_def wp_bnd[of "own_project _ _ _"]
    by (rule own_wp) (auto simp: wp_simps market.rel_refl[OF inv] same_fees_def intro!: rel split: option.split)
qed

section \<open>Targets\<close>

text \<open>The range in which a number of the language holds an amount exactly.\<close>

definition target_in_range :: "project_input \<Rightarrow> bool" where
  "target_in_range d \<longleftrightarrow> (case in_target d of Val (Some x) \<Rightarrow> x \<le> 10 ^ 7 | _ \<Rightarrow> True)"

lemma ebind_Inr: "ebind x f = Inr b \<longleftrightarrow> (\<exists>a. x = Inr a \<and> f a = Inr b)"
  by (simp add: ebind_def split: sum.split)

lemma clean_target:
  assumes "cleanProjectInput dto = Inr d"
  shows "pt_target d \<noteq> Null \<and> (\<forall>x. pt_target d = Val x \<longrightarrow> 0 < x \<and> in_target dto = Val (Some x))"
proof -
  have "clean_number ''target_amount'' False (in_target dto) = Inr (pt_target d)"
    using assms unfolding cleanProjectInput_def ebind_Inr by auto
  then show ?thesis by (auto simp: clean_number_def split: field.splits option.splits if_splits)
qed

lemma to_units_range: "0 \<le> x \<Longrightarrow> x \<le> 10 ^ 7 \<Longrightarrow> 0 \<le> to_units x \<and> to_units x \<le> MAXU"
proof -
  assume x: "0 \<le> x" "x \<le> 10 ^ 7"
  then have "0 \<le> js_dec x" by (simp add: js_dec_nonneg_iff)
  then have "js_dec x - x \<le> js_dec x / 9007199254740992"
    using js_dec_error[of x] abs_ge_self[of "js_dec x - x"] by simp
  with x(2) have "js_dec x * 10 ^ 8 < 10 ^ 15 + 1 / 2" by simp
  moreover have "of_int (rhaz (js_dec x * 10 ^ 8)) - js_dec x * 10 ^ 8 \<le> 1 / 2" by (rule abs_le_D1[OF rhaz_bounds])
  ultimately have "of_int (rhaz (js_dec x * 10 ^ 8)) < (10 ^ 15 + 1 :: rat)" by linarith
  then have "of_int (rhaz (js_dec x * 10 ^ 8)) < (of_int (10 ^ 15 + 1) :: rat)" by simp
  then have "to_units x < 10 ^ 15 + 1" unfolding to_units_def of_int_less_iff .
  moreover have "0 \<le> to_units x" using \<open>0 \<le> js_dec x\<close> by (simp add: to_units_def rhaz_nonneg)
  ultimately show ?thesis by (simp add: MAXU_def)
qed

lemma patched_ok:
  assumes c: "cleanProjectInput dto = Inr d" and r: "target_in_range dto"
    and p: "project_ok p" "p_status p \<in> set PROJECT_EDITABLE"
  shows "project_ok (apply_patch d p)"
proof -
  have "p_raised p = 0" using p by (auto simp: project_ok_def stage_ok_def PROJECT_EDITABLE_def)
  moreover have "\<forall>k. put_amount (pt_target d) (p_target p) = Some k \<longrightarrow> 0 \<le> k \<and> k \<le> MAXU"
    using clean_target[OF c] r p(1) to_units_range
    by (cases "pt_target d") (auto simp: target_in_range_def project_ok_def target_ok_def)
  ultimately show ?thesis using p(1)
    by (auto simp: project_ok_def target_ok_def fund_ok_def stage_ok_def apply_patch_def split: option.split)
qed

lemma apply_patch_id [simp]: "p_id (apply_patch d p) = p_id p"
  by (simp add: apply_patch_def)

lemma project_edit_safe:
  assumes r: "target_in_range dto" shows "safe_op market_inv market_rel (project_edit u i dto)"
proof (rule market.safeI)
  fix s :: "'a market_db_scheme"
  assume inv: "market_inv s"
  have "market_rel s (projects_update (upd_row p_id i (apply_patch d)) s)"
    if p: "p \<in> set (projects s)" "p_id p = i" "p_status p \<in> set PROJECT_EDITABLE" and c: "cleanProjectInput dto = Inr d" for p d
  proof (rule market_projects[OF inv])
    fix q
    assume q: "q \<in> set (projects s)" "p_id q = i" "project_ok q"
    then have "q = p" using project_unique[OF inv p(1)] p(2) by simp
    then have "p_cons_at q = None" using q(3) p(3) by (auto simp: project_ok_def stage_ok_def PROJECT_EDITABLE_def split: if_splits)
    then show "project_ok (apply_patch d q) \<and> later q (apply_patch d q)"
      using patched_ok[OF c r q(3)] p(3) \<open>q = p\<close> by (simp add: later_def apply_patch_def)
  qed (use market_rulesI[OF inv] in \<open>simp_all add: upd_row_where, auto intro: rules_ok_cong simp: same_fees_def\<close>)
  then show "wp (project_edit u i dto) (\<lambda>_. market_rel s) (\<lambda>_. market_rel s) s"
    unfolding project_edit_def wp_bnd[of "own_project _ _ _"]
    by (intro own_wp) (auto simp: wp_simps market.rel_refl[OF inv] intro!: of_sum_wp)
qed

lemma market_append:
  assumes inv: "market_inv s" and t: "projects t = projects s @ [p]" "milestones t = milestones s" "p_id p = seq s" "seq s < seq t"
      "market_rules t" "project_ok p"
  shows "market_rel s t"
  using assms by (fastforce simp: market_rel_def market_inv_def project_by_id_def list_all_iff find_row_append intro: later_refl)

lemma project_create_safe:
  assumes r: "target_in_range dto" shows "safe_op market_inv market_rel (project_create u dto)"
proof (rule market.safeI)
  fix s :: "'a market_db_scheme"
  assume inv: "market_inv s"
  have "market_rel s (projects_update (\<lambda>ps. ps @ [new_project (seq s) (now s) u b d]) (s\<lparr>seq := Suc (seq s)\<rparr>))"
    if c: "cleanProjectInput dto = Inr d" for d b
  proof (rule market_append[OF inv, where p = "new_project (seq s) (now s) u b d"])
    show "project_ok (new_project (seq s) (now s) u b d)"
      unfolding new_project_def
      by (rule patched_ok[OF c r]) (simp_all add: project_ok_def target_ok_def fund_ok_def stage_ok_def PROJECT_EDITABLE_def)
    show "market_rules (projects_update (\<lambda>ps. ps @ [new_project (seq s) (now s) u b d]) (s\<lparr>seq := Suc (seq s)\<rparr>))"
      by (rule rules_ok_cong[OF market_rulesI[OF inv]]) (simp_all add: same_fees_def)
  qed (simp_all add: new_project_def)
  then show "wp (project_create u dto) (\<lambda>_. market_rel s) (\<lambda>_. market_rel s) s"
    unfolding project_create_def wp_bnd[of "resolve _ _"]
    by (intro wp_resolve) (auto simp: wp_simps Let_def market.rel_refl[OF inv] intro!: of_sum_wp)
qed

lemma setEligibility_safe: "safe_op market_inv market_rel (setEligibility admin u st cat notes)"
proof -
  have "safe_op market_inv market_calm (modify (\<lambda>s. if profile_of s u = None then s\<lparr>profiles := profiles s @ [r]\<rparr>
              else s\<lparr>profiles := upd_row ip_user u (\<lambda>_. r) (profiles s)\<rparr>))" for r
    by (rule market.calm.safeI) (auto simp: wp_modify same_fees_def intro!: calm_same)
  note this[THEN market.calm_safe]
  then show ?thesis unfolding setEligibility_def Let_def
    by (intro market.safe_case_option market.safe_throw market.safe_if market.safe_bnd market.safe_gets market.safe_thn market.safe_ret)
qed

section \<open>Requests\<close>

datatype market_request =
    Invest nat nat invest_dto "string option"
  | AskEligibility nat
  | SetEligibility nat nat "eligibility_status option" "string option" "string option"
  | MoveProject nat nat "project_action option" "string option"
  | RefundLoss nat nat "string option"
  | ReleaseReserve nat nat "string option"
  | ReleaseMilestone nat nat nat "string option"
  | ReturnMilestone nat nat nat string
  | CreateProject nat project_input
  | EditProject nat nat project_input
  | AddProjectDoc nat nat string string string "string option"
  | RemoveProjectDoc nat nat nat
  | SubmitProject nat nat
  | PlanMilestones nat nat "plan_item list"
  | RequestMilestone nat nat nat string "string option"
  | PostUpdate nat nat string string
  | PassTime nat

fun market_request_ok :: "market_request \<Rightarrow> bool" where
  "market_request_ok (CreateProject u dto) = target_in_range dto"
| "market_request_ok (EditProject u i dto) = target_in_range dto"
| "market_request_ok _ = True"

fun market_exec :: "ext \<Rightarrow> market_request \<Rightarrow> 'a market_db_scheme \<Rightarrow> 'a market_db_scheme" where
  "market_exec X (Invest u i dto ip) s = snd (invest X u i dto ip s)"
| "market_exec X (AskEligibility u) s = snd (requestEligibility u s)"
| "market_exec X (SetEligibility a u st cat notes) s = snd (setEligibility a u st cat notes s)"
| "market_exec X (MoveProject a i act notes) s = snd (transition a i act notes s)"
| "market_exec X (RefundLoss a i notes) s = snd (refundReserveForLoss a i notes s)"
| "market_exec X (ReleaseReserve a i notes) s = snd (releaseReserveToFarm a i notes s)"
| "market_exec X (ReleaseMilestone a i j notes) s = snd (releaseMilestone a i j notes s)"
| "market_exec X (ReturnMilestone a i j notes) s = snd (returnMilestone a i j notes s)"
| "market_exec X (CreateProject u dto) s = snd (project_create u dto s)"
| "market_exec X (EditProject u i dto) s = snd (project_edit u i dto s)"
| "market_exec X (AddProjectDoc u i k ti url vi) s = snd (addDocument u i k ti url vi s)"
| "market_exec X (RemoveProjectDoc u i d) s = snd (removeDocument u i d s)"
| "market_exec X (SubmitProject u i) s = snd (project_submit u i s)"
| "market_exec X (PlanMilestones u i items) s = snd (setMilestones u i items s)"
| "market_exec X (RequestMilestone u i j ev url) s = snd (requestMilestone u i j ev url s)"
| "market_exec X (PostUpdate u i ti bo) s = snd (postUpdate u i ti bo s)"
| "market_exec X (PassTime d) s = s\<lparr>now := now s + int d\<rparr>"

lemma market_exec_rel: "market_request_ok q \<Longrightarrow> market_inv s \<Longrightarrow> market_rel s (market_exec X q s)"
proof (cases q)
  case (PassTime d)
  moreover assume "market_inv s"
  moreover from this have "market_rules (s\<lparr>now := now s + int d\<rparr>)"
    by (intro rules_ok_cong[OF market_rulesI]) (simp_all add: same_fees_def)
  ultimately show ?thesis by (simp add: market_same)
qed (simp_all add: market.safe_snd invest_safe requestEligibility_safe setEligibility_safe transition_safe refundReserveForLoss_safe
    releaseReserveToFarm_safe releaseMilestone_safe returnMilestone_safe project_create_safe project_edit_safe
    owner_calm[THEN market.calm_safe] project_submit_safe setMilestones_safe requestMilestone_safe)

interpretation market_run: guarded_run market_inv market_rel "market_exec X" market_request_ok
  by unfold_locales (rule market_exec_rel)

lemma run_project:
  assumes "market_inv s" "list_all market_request_ok rs" "project_by_id s i = Some p"
  shows "\<exists>q. project_by_id (fold (market_exec X) rs s) i = Some q \<and> later p q \<and> project_ok q"
proof -
  have r: "market_rel s (fold (market_exec X) rs s)" using market_run.run_ok assms(1,2) by blast
  then obtain q where q: "project_by_id (fold (market_exec X) rs s) i = Some q" "later p q"
    using assms(3) unfolding market_rel_def by blast
  moreover have "project_ok q" using market.rel_inv[OF assms(1) r] q(1)
    by (auto simp: market_inv_def list_all_iff project_by_id_def dest: find_row_Some)
  ultimately show ?thesis by blast
qed

lemma no_exit: "st \<in> {PRejected, PClosed, PCancelled} \<Longrightarrow> st \<notin> set (fst (ADMIN_TRANSITIONS a))"
  by (cases a) auto

lemma final_stays: "project_edge\<^sup>*\<^sup>* st st' \<Longrightarrow> st \<in> {PRejected, PClosed, PCancelled} \<Longrightarrow> st' = st"
proof (induction rule: converse_rtranclp_induct)
  case (step a b)
  from step(1) have False
    by (cases rule: project_edge.cases) (use step(4) no_exit in \<open>auto simp: PROJECT_EDITABLE_def INVESTABLE_def\<close>)
  then show ?case ..
qed simp

lemma funded_move: "PFunded \<in> set (fst (ADMIN_TRANSITIONS a)) \<Longrightarrow> snd (ADMIN_TRANSITIONS a) \<in> {PClosed, PCancelled}"
  by (cases a) auto

lemma funded_exit: "project_edge PFunded st \<Longrightarrow> st \<in> {PClosed, PCancelled}"
  by (rule funded_edge) (auto simp: PROJECT_EDITABLE_def INVESTABLE_def dest: funded_move)

section \<open>A sample market\<close>

definition sample_project :: project where
  "sample_project = (new_project 70 0 1 60 \<lparr>pt_info = \<lambda>x. x, pt_target = Val 1000, pt_min = Undef, pt_max = Undef\<rparr>)
     \<lparr>p_status := PListed, p_target := Some 100000000000, p_raised := 20000000000\<rparr>"

definition sample_market :: market_db where
  "sample_market = business_db.extend sample_businesses (market_db.fields [sample_project] [] [] [] [] [] [] [])"

lemma sample_market_tables [simp]:
  "projects sample_market = [sample_project]" "milestones sample_market = []" "seq sample_market = 100"
  by (simp_all add: sample_market_def sample_businesses_def sample_def core.defs escrow_db.defs business_db.defs market_db.defs)

lemma sample_project_row [simp]:
  "p_id sample_project = 70" "p_status sample_project = PListed" "p_target sample_project = Some 100000000000"
  "p_raised sample_project = 20000000000" "p_cons_at sample_project = None" "p_cons_fee sample_project = 0"
  "p_released sample_project = 0" "p_cons_refunded sample_project = 0" "p_cons_released sample_project = 0"
  by (simp_all add: sample_project_def new_project_def apply_patch_def)

lemma sample_market_inv: "market_inv sample_market"
proof -
  have "market_rules sample_market"
    by (simp add: rules_ok_def half_percent_def percent_only_def default_rule_def defaultPercent_def loaded_rule_def configured_def
        sample_market_def sample_businesses_def sample_def core.defs escrow_db.defs business_db.defs market_db.defs)
  then show ?thesis
    by (simp add: market_inv_def project_ok_def target_ok_def fund_ok_def stage_ok_def in_order_def MAXU_def)
qed

end
