(* ===== verification/Project_Results.thy ===== *)
theory Project_Results
  imports Project_Runs
begin

text \<open>
  What any sequence of marketplace requests guarantees, on the projects and their milestones.
\<close>

section \<open>The properties\<close>

text \<open>C21: Over any sequence of marketplace requests a project moves along its life cycle
  only, never raises less than before nor more than its target, pays its fee and its milestones out
  of what it raised, and pays refunds and releases of the reserve out of that fee.\<close>

theorem project_run:
  assumes "market_inv s" "list_all market_request_ok rs" "project_by_id s i = Some p" "t = fold (market_exec X) rs s"
  shows "\<exists>q. project_by_id t i = Some q \<and> project_edge\<^sup>*\<^sup>* (p_status p) (p_status q)
    \<and> p_raised p \<le> p_raised q \<and> (\<forall>x. p_target q = Some x \<longrightarrow> p_raised q \<le> x)
    \<and> 0 \<le> p_released q \<and> p_cons_fee q + p_released q \<le> p_raised q
    \<and> p_cons_refunded q + p_cons_released q \<le> p_cons_fee q"
  using run_project[OF assms(1-3), of X]
  by (auto simp: assms(4) later_def project_ok_def target_ok_def fund_ok_def)

text \<open>C22: Once the consolidation fee of a round has been taken, no sequence of requests takes
  it again, changes it, or raises more money for the project.\<close>

theorem round_charged_once:
  assumes "market_inv s" "list_all market_request_ok rs" "project_by_id s i = Some p" "p_cons_at p = Some c"
    "t = fold (market_exec X) rs s"
  shows "\<exists>q. project_by_id t i = Some q \<and> p_cons_at q = Some c \<and> p_cons_fee q = p_cons_fee p \<and> p_raised q = p_raised p"
  using run_project[OF assms(1-3), of X] by (auto simp: assms(4,5) later_def)

theorem project_final:
  assumes "market_inv s" "list_all market_request_ok rs" "project_by_id s i = Some p" "p_status p \<in> {PRejected, PClosed, PCancelled}"
  shows "\<exists>q. project_by_id (fold (market_exec X) rs s) i = Some q \<and> p_status q = p_status p"
  using run_project[OF assms(1-3), of X] final_stays[OF _ assms(4)] by (auto simp: later_def)

text \<open>C23: In every state that requests reach, a milestone that was requested, returned or
  released has all earlier milestones of its project released.\<close>

theorem milestones_in_order:
  assumes "market_inv s" "list_all market_request_ok rs" "t = fold (market_exec X) rs s"
    and "m \<in> set (milestones t)" "x \<in> set (milestones t)" "ms_project x = ms_project m" "ms_position x < ms_position m"
    and "ms_status m \<in> {Requested, Returned, Released}"
  shows "ms_status x = Released"
proof -
  have "market_inv t" using market.rel_inv[OF assms(1) market_run.run_ok[OF assms(2,1)]] by (simp add: assms(3))
  then have "in_order (milestones t)" by (simp add: market_inv_def)
  with assms(4-) show ?thesis unfolding in_order_def by (metis insertE milestone_status.distinct(1,3,5) singletonD)
qed

theorem rejected_stuck:
  assumes "project_by_id s i = Some p" "p_status p = PRejected"
  shows "(\<exists>e. transition admin i act notes s = (Inl e, s)) \<and> (\<exists>e. releaseMilestone admin i j notes s = (Inl e, s))"
  using assms no_exit[of PRejected]
  by (auto simp: transition_def releaseMilestone_def bnd_def gets_def throw_def RELEASABLE_def split: option.split)

text \<open>A closed round, its fee taken, with two milestones.\<close>

definition sample_milestone :: "nat \<Rightarrow> nat \<Rightarrow> milestone_status \<Rightarrow> milestone" where
  "sample_milestone j k st = \<lparr>ms_id = j, ms_project = 70, ms_position = k, ms_title = ''Wells'', ms_description = None,
     ms_amount = 10000000000, ms_status = st, ms_evidence = None, ms_evidence_url = None, ms_requested_at = None,
     ms_requested_by = None, ms_released = None, ms_released_at = None, ms_released_by = None, ms_notes = None, ms_txn = None\<rparr>"

definition sample_closed :: market_db where
  "sample_closed = sample_market\<lparr>projects := [sample_project\<lparr>p_status := PClosed, p_cons_at := Some 5, p_cons_fee := 1000000000\<rparr>],
     milestones := [sample_milestone 80 1 Released, sample_milestone 81 2 Requested]\<rparr>"

lemma sample_closed_inv: "market_inv sample_closed"
proof -
  have "market_rules sample_closed"
    by (rule rules_ok_cong[OF market_rulesI[OF sample_market_inv]]) (simp_all add: sample_closed_def same_fees_def)
  then show ?thesis
    by (simp add: sample_closed_def market_inv_def project_ok_def target_ok_def fund_ok_def stage_ok_def in_order_def MAXU_def
        sample_milestone_def)
qed

lemma sample_found:
  "project_by_id sample_market 70 = Some sample_project"
  "project_by_id sample_closed 70 = Some (sample_project\<lparr>p_status := PClosed, p_cons_at := Some 5, p_cons_fee := 1000000000\<rparr>)"
  by (simp_all add: project_by_id_def sample_closed_def)

definition sample_requests :: "market_request list" where
  "sample_requests = [MoveProject 9 70 (Some CloseProject) None, PassTime 60, ReleaseMilestone 9 70 80 None]"

theorem project_run_witness:
  "\<exists>q. project_by_id (fold (market_exec sample_ext) sample_requests sample_market) 70 = Some q \<and> 20000000000 \<le> p_raised q"
  using project_run[OF sample_market_inv _ sample_found(1) refl, of sample_requests sample_ext]
  by (auto simp: sample_requests_def)

theorem round_charged_once_witness:
  "\<exists>q. project_by_id (fold (market_exec sample_ext) sample_requests sample_closed) 70 = Some q \<and> p_cons_fee q = 1000000000"
  using round_charged_once[OF sample_closed_inv _ sample_found(2) _ refl, of sample_requests 5 sample_ext]
  by (auto simp: sample_requests_def)

theorem project_final_witness:
  "\<exists>q. project_by_id (fold (market_exec sample_ext) sample_requests sample_closed) 70 = Some q \<and> p_status q = PClosed"
  using project_final[OF sample_closed_inv _ sample_found(2), of sample_requests sample_ext]
  by (auto simp: sample_requests_def)

theorem milestones_in_order_witness: "ms_status (sample_milestone 80 1 Released) = Released"
  by (rule milestones_in_order[OF sample_closed_inv _ refl, where rs = "[PassTime 5]" and X = sample_ext and m = "sample_milestone 81 2 Requested"])
    (simp_all add: sample_closed_def sample_milestone_def)

theorem rejected_stuck_witness:
  "\<exists>e. transition 9 70 (Some ApproveProject) None (sample_market\<lparr>projects := [sample_project\<lparr>p_status := PRejected\<rparr>]\<rparr>)
     = (Inl e, sample_market\<lparr>projects := [sample_project\<lparr>p_status := PRejected\<rparr>]\<rparr>)"
  using rejected_stuck[of "sample_market\<lparr>projects := [sample_project\<lparr>p_status := PRejected\<rparr>]\<rparr>" 70 "sample_project\<lparr>p_status := PRejected\<rparr>"]
  by (simp add: project_by_id_def)

end
