(* ===== verification/Withdraw.thy ===== *)
theory Withdraw
  imports Fees Auth
begin

text \<open>
  Withdrawals: src/withdraw/withdraw.service.ts, the requests of users.  A request locks the
  amount on the wallet in one guarded UPDATE, under the daily limits, and stores a pending
  withdrawal with its transaction; the payout is theory \<open>Withdraw_Payout\<close>, the settlement theory
  \<open>Withdraw_Settle\<close>.  The amounts of the table \<open>Withdrawal\<close> are doubles, not decimals.  What a
  provider (Paystack, NOWPayments, the exchange rates) answers is an argument of the operation.
\<close>

section \<open>Tables\<close>

datatype withdraw_method = BankTransfer | MobileMoney | CryptoPayout | OtherMethod string

datatype withdraw_status = WPending | WProcessing | WCompleted | WFailed

record withdrawal =
  wd_id :: nat
  wd_ref :: nat
  wd_user :: nat
  wd_amount :: rat
  wd_fee :: rat
  wd_settlement :: rat
  wd_method :: withdraw_method
  wd_account_name :: "string option"
  wd_account :: "string option"
  wd_bank :: "string option"
  wd_phone :: "string option"
  wd_address :: "string option"
  wd_asset :: string
  wd_network :: string
  wd_status :: withdraw_status
  wd_reason :: "string option"
  wd_created :: int
  wd_updated :: int

text \<open>
  The metadata of the transaction of a withdrawal, by its reference.  Timestamps of attempts and
  raw responses of the provider, which the code stores and never reads, are left out.
\<close>

datatype payout_provider = Paystack | Nowpayments | LegacyProvider

datatype payout_approval = AwaitingApproval | PayoutApproved

record payout_meta =
  wm_ref :: nat
  wm_provider :: payout_provider
  wm_snapshot :: "(rat \<times> rat) option"
  wm_currency :: string
  wm_address :: string
  wm_extra :: "string option"
  wm_payout_amount :: rat
  wm_network_fee :: rat
  wm_approval :: "payout_approval option"
  wm_approved_by :: "string option"
  wm_payout_id :: "string option"
  wm_payout_status :: "string option"
  wm_verified_by :: "string option"
  wm_transfer_code :: "string option"
  wm_transfer_status :: "string option"
  wm_needs_otp :: bool
  wm_failure :: "string option"

text \<open>Requests that ask a provider to send money, in order: a history the code does not keep.\<close>

datatype payout_call = InitiateTransfer nat rat | CreatePayout nat rat

record withdraw_db = core +
  withdrawals :: "withdrawal list"
  payout_metas :: "payout_meta list"
  payout_calls :: "payout_call list"
  env_max_count :: "rat option"
  env_max_amount :: "rat option"
  reconciling_paystack :: bool
  reconciling_nowpayments :: bool

definition withdrawal_by_ref :: "'a withdraw_db_scheme \<Rightarrow> nat \<Rightarrow> withdrawal option" where
  "withdrawal_by_ref s r = find_row wd_ref r (withdrawals s)"

text \<open>\<open>transaction?.metadata ?? {}\<close>.\<close>

definition meta_by_ref :: "'a withdraw_db_scheme \<Rightarrow> nat \<Rightarrow> payout_meta option" where
  "meta_by_ref s r = (case txn_by_ref s r of None \<Rightarrow> None | Some t \<Rightarrow> find_row wm_ref r (payout_metas s))"

definition meta_update :: "nat \<Rightarrow> (payout_meta \<Rightarrow> payout_meta) \<Rightarrow> ('a withdraw_db_scheme, unit) op" where
  "meta_update r f = modify (\<lambda>s. s\<lparr>payout_metas := upd_row wm_ref r f (payout_metas s)\<rparr>)"

section \<open>Limits and the lock\<close>

text \<open>\<open>None\<close> is a variable that is unset, blank or not a number.\<close>

definition envNumber :: "rat option \<Rightarrow> rat \<Rightarrow> rat" where
  "envNumber raw fallback = (case raw of None \<Rightarrow> fallback | Some v \<Rightarrow> if v \<ge> 0 then v else fallback)"

definition withdrawalDailyLimits :: "'a withdraw_db_scheme \<Rightarrow> rat \<times> rat" where
  "withdrawalDailyLimits s = (envNumber (env_max_count s) 5, envNumber (env_max_amount s) 1000000)"

definition lockable :: "nat \<Rightarrow> rat \<Rightarrow> wallet \<Rightarrow> bool" where
  "lockable i amount w \<longleftrightarrow> w_id w = i \<and> \<not> w_frozen w \<and> of_int (w_balance w - w_locked w) \<ge> sql amount"

text \<open>Withdrawals of the last 24 hours that have not failed.  The sum is a sum of doubles.\<close>

definition recent_withdrawals :: "'a withdraw_db_scheme \<Rightarrow> nat \<Rightarrow> withdrawal list" where
  "recent_withdrawals s u = filter (\<lambda>w. wd_user w = u \<and> wd_created w \<ge> now s - 24 * 60 * 60 * 1000
     \<and> wd_status w \<noteq> WFailed) (withdrawals s)"

definition recent_amount :: "'a withdraw_db_scheme \<Rightarrow> nat \<Rightarrow> rat" where
  "recent_amount s u = foldl (\<lambda>a w. fl (a + wd_amount w)) 0 (recent_withdrawals s u)"

definition lockFundsInTx :: "nat \<Rightarrow> nat \<Rightarrow> rat \<Rightarrow> ('a withdraw_db_scheme, unit) op" where
  "lockFundsInTx wid u amount =
     bnd (update_many wallets wallets_update (lockable wid amount) (inc_locked amount)) (\<lambda>locked.
     if locked \<noteq> 1 then throw (BadRequest ''Insufficient balance for this withdrawal'')
     else bnd (gets withdrawalDailyLimits) (\<lambda>(max_count, max_amount).
     if max_count > 0 \<or> max_amount > 0
     then bnd (gets (\<lambda>s. (of_nat (length (recent_withdrawals s u)), recent_amount s u))) (\<lambda>(count, so_far).
       if max_count > 0 \<and> count + 1 > max_count then throw (BadRequest ''Daily withdrawal limit reached'')
       else if max_amount > 0 \<and> fl (so_far + amount) > max_amount
       then throw (BadRequest ''Daily withdrawal amount limit'')
       else ret ())
     else ret ()))"

section \<open>Bank and mobile money\<close>

record withdraw_dto =
  wr_amount :: "rat option"
  wr_method :: withdraw_method
  wr_pin :: "string option"
  wr_biometric :: bool
  wr_fingerprint :: "string option"
  wr_fingerprint_alias :: "string option"
  wr_account_name :: "string option"
  wr_account :: "string option"
  wr_bank :: "string option"
  wr_phone :: "string option"
  wr_address :: "string option"
  wr_asset :: "string option"
  wr_network :: "string option"
  wr_extra :: "string option"

text \<open>A request authorized elsewhere (a business key) skips the PIN or the device, nothing else.\<close>

definition withdraw_authorize ::
  "ext \<Rightarrow> nat \<Rightarrow> withdraw_dto \<Rightarrow> string option \<Rightarrow> ('a core_scheme, unit) op" where
  "withdraw_authorize X u dto pre =
     (if truthy pre then ret ()
      else if wr_biometric dto then
        let fingerprint = or_string (wr_fingerprint dto) (wr_fingerprint_alias dto) in
        if \<not> truthy fingerprint
        then throw (BadRequest ''Device fingerprint required for biometric authorization'')
        else bnd (verifyDevice X u (the fingerprint)) (\<lambda>v.
          if \<not> ds_trusted v then throw (BadRequest ''Biometric device verification failed'') else ret ())
      else if \<not> truthy (wr_pin dto) then throw (BadRequest ''Transaction PIN is required'')
      else verifyPin X u (the (wr_pin dto)))"

text \<open>\<open>Number(balance) - Number(locked_balance)\<close>, in doubles.\<close>

definition available_num :: "wallet \<Rightarrow> rat" where
  "available_num w = fl (num (w_balance w) - num (w_locked w))"

definition method_limit :: "withdraw_method \<Rightarrow> rat \<Rightarrow> err option" where
  "method_limit m amount = (case m of
     BankTransfer \<Rightarrow>
       if amount < 4999 then Some (BadRequest ''Minimum withdrawal amount for bank transfer is 4,999 FARM'')
       else if amount > 999999 then Some (BadRequest ''Maximum withdrawal amount for bank transfer is 999,999 FARM'')
       else None
   | MobileMoney \<Rightarrow>
       if amount < 1499 then Some (BadRequest ''Minimum withdrawal amount for mobile money is 1,499 FARM'')
       else if amount > 249999 then Some (BadRequest ''Maximum withdrawal amount for mobile money is 249,999 FARM'')
       else None
   | _ \<Rightarrow> None)"

definition destination_error :: "withdraw_dto \<Rightarrow> err option" where
  "destination_error dto = (case wr_method dto of
     MobileMoney \<Rightarrow> if truthy (wr_phone dto) then None
       else Some (BadRequest ''Phone number is required for mobile money withdrawals'')
   | BankTransfer \<Rightarrow> if truthy (wr_account dto) \<and> truthy (wr_bank dto) then None
       else Some (BadRequest ''Account number and bank name are required for bank transfer withdrawals'')
   | _ \<Rightarrow> Some (BadRequest ''Unsupported withdrawal method''))"

text \<open>\<open>Math.round((x + Number.EPSILON) * 100) / 100\<close> of a product.\<close>

definition kes_of :: "rat \<Rightarrow> rat \<Rightarrow> rat" where
  "kes_of farm rate = round_dp 2 (fl (farm * rate))"

definition new_withdrawal ::
  "nat \<Rightarrow> nat \<Rightarrow> nat \<Rightarrow> rat \<Rightarrow> rat \<Rightarrow> rat \<Rightarrow> withdraw_dto \<Rightarrow> int \<Rightarrow> withdrawal" where
  "new_withdrawal i r u amount charge settlement dto t =
     \<lparr>wd_id = i, wd_ref = r, wd_user = u, wd_amount = amount, wd_fee = charge, wd_settlement = settlement,
      wd_method = wr_method dto, wd_account_name = wr_account_name dto, wd_account = wr_account dto,
      wd_bank = wr_bank dto, wd_phone = wr_phone dto, wd_address = wr_address dto,
      wd_asset = (case wr_asset dto of None \<Rightarrow> [] | Some a \<Rightarrow> a),
      wd_network = (case wr_network dto of None \<Rightarrow> [] | Some n \<Rightarrow> n),
      wd_status = WPending, wd_reason = None, wd_created = t, wd_updated = t\<rparr>"

definition withdrawal_txn :: "nat \<Rightarrow> nat \<Rightarrow> nat \<Rightarrow> rat \<Rightarrow> rat \<Rightarrow> rat \<Rightarrow> nat \<Rightarrow> int \<Rightarrow> txn" where
  "withdrawal_txn r wid u amount charge settlement i t =
     \<lparr>t_id = i, t_ref = r, t_sender = Some wid, t_receiver = None, t_type = WithdrawalTxn, t_status = Pending,
      t_amount = to_units amount, t_fee = to_units charge, t_net = to_units settlement, t_created = t,
      t_meta = [MUser u]\<rparr>"

text \<open>The rows of a new withdrawal, with the money locked first.\<close>

definition reserve_tx ::
  "nat \<Rightarrow> nat \<Rightarrow> rat \<Rightarrow> nat \<Rightarrow> (nat \<Rightarrow> int \<Rightarrow> withdrawal) \<Rightarrow> (nat \<Rightarrow> int \<Rightarrow> txn) \<Rightarrow> payout_meta
    \<Rightarrow> ('a withdraw_db_scheme, withdrawal) op" where
  "reserve_tx wid u amount r mk mk_txn m = transaction
     (thn (lockFundsInTx wid u amount)
     (bnd fresh (\<lambda>i. bnd (gets now) (\<lambda>t.
      thn (insert_row withdrawals_update (mk i t))
      (bnd (txn_create mk_txn) (\<lambda>_.
      thn (insert_row payout_metas_update m) (ret (mk i t))))))))"

definition withdraw_announce :: "nat \<Rightarrow> rat \<Rightarrow> ('a core_scheme, unit) op" where
  "withdraw_announce u balance = thn (cacheDelete (KWallet u)) (thn (cacheDelete (KDashboard u))
     (thn (cacheInvalidateHistory u) (emit (BalanceUpdate u balance))))"

definition paystack_meta :: "nat \<Rightarrow> (rat \<times> rat) option \<Rightarrow> payout_meta" where
  "paystack_meta r snapshot = \<lparr>wm_ref = r, wm_provider = Paystack, wm_snapshot = snapshot, wm_currency = [],
     wm_address = [], wm_extra = None, wm_payout_amount = 0, wm_network_fee = 0, wm_approval = None,
     wm_approved_by = None, wm_payout_id = None, wm_payout_status = None, wm_verified_by = None,
     wm_transfer_code = None, wm_transfer_status = None, wm_needs_otp = False, wm_failure = None\<rparr>"

text \<open>\<open>kes\<close> is the FARM to KES rate that the rate service answers, 0 when it has none.\<close>

definition createBankWithdrawal ::
  "ext \<Rightarrow> nat \<Rightarrow> withdraw_dto \<Rightarrow> string option \<Rightarrow> err + rat \<Rightarrow> ('a withdraw_db_scheme, withdrawal) op" where
  "createBankWithdrawal X u dto pre kes = thn (withdraw_authorize X u dto pre)
     (case wr_amount dto of
        None \<Rightarrow> throw (BadRequest ''Invalid withdrawal amount'')
      | Some amount \<Rightarrow>
        if amount \<le> 0 then throw (BadRequest ''Invalid withdrawal amount'')
        else (case method_limit (wr_method dto) amount of Some e \<Rightarrow> throw e | None \<Rightarrow>
        bnd (gets (\<lambda>s. active_wallet s u)) (\<lambda>w. case w of
          None \<Rightarrow> throw (BadRequest ''Active wallet not found'')
        | Some w \<Rightarrow>
          if available_num w < amount then throw (BadRequest ''Insufficient balance for this withdrawal'')
          else (case destination_error dto of Some e \<Rightarrow> throw e | None \<Rightarrow>
          bnd (feeFor Withdrawal amount 8) (\<lambda>charge.
          let settlement = toFixed 8 (fl (amount - charge)) in
          bnd fresh (\<lambda>r.
          bnd (of_sum kes) (\<lambda>rate.
          if rate \<le> 0 then throw (BadRequest ''A valid FARM to KES exchange rate is unavailable'')
          else bnd (reserve_tx (w_id w) u amount r (\<lambda>i t. new_withdrawal i r u amount charge settlement dto t)
              (withdrawal_txn r (w_id w) u amount charge settlement) (paystack_meta r (Some (rate, kes_of settlement rate)))) (\<lambda>created.
            thn (withdraw_announce u (fl (available_num w - amount))) (ret created)))))))))"

section \<open>Crypto\<close>

text \<open>What NOWPayments answers.\<close>

record payout_api =
  np_currencies :: "err + string list"
  np_estimate :: "rat \<Rightarrow> string \<Rightarrow> err + rat"
  np_minimum :: "string \<Rightarrow> err + rat"
  np_network_fee :: "string \<Rightarrow> rat \<Rightarrow> err + rat"
  np_valid :: "string \<Rightarrow> string \<Rightarrow> string option \<Rightarrow> err + bool"

definition MIN_CRYPTO_USD :: rat where "MIN_CRYPTO_USD = 2"

definition crypto_meta ::
  "nat \<Rightarrow> string \<Rightarrow> string \<Rightarrow> string option \<Rightarrow> rat \<Rightarrow> rat \<Rightarrow> payout_meta" where
  "crypto_meta r currency address extra amount network_fee = \<lparr>wm_ref = r, wm_provider = Nowpayments, wm_snapshot = None,
     wm_currency = currency, wm_address = address, wm_extra = extra, wm_payout_amount = amount,
     wm_network_fee = network_fee, wm_approval = Some AwaitingApproval, wm_approved_by = None, wm_payout_id = None,
     wm_payout_status = Some ''queued'', wm_verified_by = None, wm_transfer_code = None,
     wm_transfer_status = None, wm_needs_otp = False, wm_failure = None\<rparr>"

record crypto_quote =
  cq_wallet :: wallet
  cq_amount :: rat
  cq_fee :: rat
  cq_settlement :: rat
  cq_currency :: string
  cq_address :: string
  cq_payout :: rat
  cq_network_fee :: rat

text \<open>Everything that is checked before the money is locked; \<open>usd\<close> is the FARM to USD rate, 0 when there is none.\<close>

definition crypto_checks ::
  "payout_api \<Rightarrow> nat \<Rightarrow> withdraw_dto \<Rightarrow> err + rat \<Rightarrow> ('a withdraw_db_scheme, crypto_quote) op" where
  "crypto_checks A u dto usd =
     (let address = trim (case wr_address dto of None \<Rightarrow> [] | Some a \<Rightarrow> a);
          currency = map lower_char (trim (case wr_asset dto of None \<Rightarrow> [] | Some a \<Rightarrow> a)) in
      case wr_amount dto of
        None \<Rightarrow> throw (BadRequest ''Enter a valid crypto withdrawal amount'')
      | Some amount \<Rightarrow>
        if amount \<le> 0 then throw (BadRequest ''Enter a valid crypto withdrawal amount'')
        else if wr_method dto \<noteq> CryptoPayout \<or> address = [] \<or> \<not> asset_ok currency
        then throw (BadRequest ''A valid crypto currency and destination address are required'')
        else bnd (of_sum (np_currencies A)) (\<lambda>supported.
        if currency \<notin> set supported then throw (BadRequest ''The selected cryptocurrency is not currently available'')
        else bnd (gets (\<lambda>s. active_wallet s u)) (\<lambda>w. case w of
          None \<Rightarrow> throw (BadRequest ''Active wallet not found'')
        | Some w \<Rightarrow>
          if available_num w < amount then throw (BadRequest ''Insufficient balance for this withdrawal'')
          else bnd (feeFor Withdrawal amount 8) (\<lambda>charge.
          let settlement = toFixed 8 (fl (amount - charge)) in
          bnd (of_sum usd) (\<lambda>rate.
          if toFixed 8 (fl (amount * rate)) < MIN_CRYPTO_USD
          then throw (BadRequest ''Minimum crypto withdrawal is USD 2.00 before the 1.5% withdrawal fee'')
          else let settlement_usd = toFixed 2 (fl (settlement * rate)) in
          if settlement_usd \<le> 0
          then throw (BadRequest ''The crypto withdrawal amount is too small after the withdrawal fee'')
          else bnd (of_sum (np_estimate A settlement_usd currency)) (\<lambda>payout.
          bnd (of_sum (np_minimum A currency)) (\<lambda>least.
          if payout < least then throw (BadRequest ''NOWPayments minimum payout'')
          else bnd (of_sum (np_network_fee A currency payout)) (\<lambda>network_fee.
          bnd (of_sum (np_valid A address currency (wr_extra dto))) (\<lambda>valid.
          if \<not> valid then throw (BadRequest ''The destination address is not a valid address'')
          else ret \<lparr>cq_wallet = w, cq_amount = amount, cq_fee = charge, cq_settlement = settlement,
                    cq_currency = currency, cq_address = address, cq_payout = payout,
                    cq_network_fee = network_fee\<rparr>)))))))))"

definition crypto_withdrawal :: "nat \<Rightarrow> nat \<Rightarrow> nat \<Rightarrow> crypto_quote \<Rightarrow> withdraw_dto \<Rightarrow> int \<Rightarrow> withdrawal" where
  "crypto_withdrawal i r u q dto t =
     \<lparr>wd_id = i, wd_ref = r, wd_user = u, wd_amount = cq_amount q, wd_fee = cq_fee q, wd_settlement = cq_settlement q,
      wd_method = CryptoPayout, wd_account_name = None, wd_account = None, wd_bank = None, wd_phone = None,
      wd_address = Some (cq_address q), wd_asset = map upper_char (cq_currency q),
      wd_network = (case wr_network dto of Some n \<Rightarrow> if trim n \<noteq> [] then trim n else map upper_char (cq_currency q)
         | None \<Rightarrow> map upper_char (cq_currency q)),
      wd_status = WPending, wd_reason = None, wd_created = t, wd_updated = t\<rparr>"

definition createNowpaymentsCryptoWithdrawal ::
  "ext \<Rightarrow> payout_api \<Rightarrow> nat \<Rightarrow> withdraw_dto \<Rightarrow> string option \<Rightarrow> err + rat \<Rightarrow> ('a withdraw_db_scheme, withdrawal) op" where
  "createNowpaymentsCryptoWithdrawal X A u dto pre usd = thn (withdraw_authorize X u dto pre)
     (bnd (crypto_checks A u dto usd) (\<lambda>q.
      bnd fresh (\<lambda>r.
      bnd (reserve_tx (w_id (cq_wallet q)) u (cq_amount q) r (\<lambda>i t. crypto_withdrawal i r u q dto t)
          (withdrawal_txn r (w_id (cq_wallet q)) u (cq_amount q) (cq_fee q) (cq_settlement q))
          (crypto_meta r (cq_currency q) (cq_address q) (wr_extra dto) (cq_payout q) (cq_network_fee q))) (\<lambda>created.
      thn (withdraw_announce u (fl (available_num (cq_wallet q) - cq_amount q))) (ret created)))))"

definition createWithdrawal ::
  "ext \<Rightarrow> payout_api \<Rightarrow> nat \<Rightarrow> withdraw_dto \<Rightarrow> string option \<Rightarrow> err + rat \<Rightarrow> err + rat
    \<Rightarrow> ('a withdraw_db_scheme, withdrawal) op" where
  "createWithdrawal X A u dto pre kes usd =
     (if wr_method dto = CryptoPayout then createNowpaymentsCryptoWithdrawal X A u dto pre usd
      else createBankWithdrawal X u dto pre kes)"

definition getNowpaymentsCryptoMinimum :: "err + rat \<Rightarrow> ('s, rat \<times> rat \<times> rat) op" where
  "getNowpaymentsCryptoMinimum usd = bnd (of_sum usd) (\<lambda>rate.
     if rate \<le> 0 then throw (BadRequest ''The FARM/USD exchange rate is unavailable'')
     else ret (MIN_CRYPTO_USD, rate, fl (of_int \<lceil>fl (fl (MIN_CRYPTO_USD / rate) * 10 ^ 8)\<rceil> / 10 ^ 8)))"

definition getProviderNetworks :: "payout_api \<Rightarrow> string option \<Rightarrow> ('s, (string \<times> string \<times> string) list) op" where
  "getProviderNetworks A token = bnd (of_sum (np_currencies A)) (\<lambda>currencies.
     let prefix = map_option (\<lambda>t. map lower_char (trim t)) token in
     ret (map (\<lambda>c. (map upper_char c, c, map upper_char c))
       (filter (\<lambda>c. \<not> truthy prefix \<or> take (length (the prefix)) c = the prefix) currencies)))"

section \<open>Views\<close>

definition getUserWithdrawals :: "nat \<Rightarrow> ('a withdraw_db_scheme, withdrawal list) op" where
  "getUserWithdrawals u = gets (\<lambda>s. sort_key (\<lambda>w. - wd_created w)
     (filter (\<lambda>w. wd_user w = u \<and> wd_status w \<noteq> WFailed) (withdrawals s)))"

definition getWithdrawal :: "nat \<Rightarrow> nat option \<Rightarrow> ('a withdraw_db_scheme, withdrawal option) op" where
  "getWithdrawal i user = bnd (gets (\<lambda>s. find_row wd_id i (withdrawals s))) (\<lambda>w. case w of
     None \<Rightarrow> ret None
   | Some w \<Rightarrow> (case user of
       None \<Rightarrow> throw (Unauthorized ''Authentication required'')
     | Some u \<Rightarrow> if wd_user w \<noteq> u then throw (Forbidden ''You do not have permission to access this withdrawal'')
         else ret (Some w)))"

end
