(* ===== verification/Withdraw_Settle.thy ===== *)
theory Withdraw_Settle
  imports Withdraw
begin

text \<open>
  How a withdrawal ends: src/withdraw/withdraw.service.ts, \<open>markAsSuccess\<close>, \<open>rejectWithdrawal\<close> and
  what calls them for an admin, and the fees of completed withdrawals.  Both ends claim the row
  with a guarded update first; the keys of the admin dashboards in the cache are not modelled.
\<close>

section \<open>Fees\<close>

definition creditPlatformFeeInTx :: "rat \<Rightarrow> nat option \<Rightarrow> ('a core_scheme, unit) op" where
  "creditPlatformFeeInTx platform_fee txn_id =
     (if platform_fee \<le> 0 then ret ()
      else bnd (gets platform_wallet) (\<lambda>w. case w of
        None \<Rightarrow> throw (BadRequest ''Superadmin wallet not found'')
      | Some w \<Rightarrow>
          bnd (wallet_update (w_id w) (inc_balance platform_fee)) (\<lambda>_.
          ledger_create \<lparr>l_txn = txn_id, l_wallet = w_id w, l_type = Credit, l_amount = to_units platform_fee,
            l_before = Some (to_units (num (w_balance w))),
            l_after = Some (to_units (fl (num (w_balance w) + platform_fee))), l_category = None\<rparr>)))"

definition fee_entry_exists :: "'a core_scheme \<Rightarrow> nat \<Rightarrow> nat \<Rightarrow> bool" where
  "fee_entry_exists s tid wid \<longleftrightarrow> list_ex (\<lambda>l. l_txn l = Some tid \<and> l_wallet l = wid \<and> l_type l = Credit) (ledger s)"

text \<open>The loop over completed transactions; \<open>current\<close> is the balance it has reached.\<close>

fun credit_missing :: "nat \<Rightarrow> txn list \<Rightarrow> rat \<Rightarrow> ('a core_scheme, unit) op" where
  "credit_missing wid [] current = ret ()"
| "credit_missing wid (t # ts) current =
     (let charge = num (t_fee t) in
      if charge \<le> 0 then credit_missing wid ts current
      else bnd (gets (\<lambda>s. fee_entry_exists s (t_id t) wid)) (\<lambda>existing.
        if existing then credit_missing wid ts current
        else bnd (wallet_update wid (inc_balance charge)) (\<lambda>_.
          thn (ledger_create \<lparr>l_txn = Some (t_id t), l_wallet = wid, l_type = Credit, l_amount = to_units charge,
            l_before = Some (to_units current), l_after = Some (to_units (fl (current + charge))), l_category = None\<rparr>)
          (credit_missing wid ts (fl (current + charge))))))"

definition fee_due :: "'a withdraw_db_scheme \<Rightarrow> txn \<Rightarrow> bool" where
  "fee_due s t \<longleftrightarrow> t_type t = WithdrawalTxn \<and> t_status t = Completed \<and> t_fee t > 0
     \<and> (case meta_by_ref s (t_ref t) of None \<Rightarrow> False | Some m \<Rightarrow> wm_provider m = Paystack)"

definition reconcileCompletedPlatformFees :: "('a withdraw_db_scheme, unit) op" where
  "reconcileCompletedPlatformFees = transaction
     (bnd (gets platform_wallet) (\<lambda>w. case w of
        None \<Rightarrow> ret ()
      | Some w \<Rightarrow> bnd (gets (\<lambda>s. filter (fee_due s) (txns s))) (\<lambda>completed.
          credit_missing (w_id w) completed (num (w_balance w)))))"

section \<open>Completion\<close>

definition open_withdrawal :: "nat \<Rightarrow> withdrawal \<Rightarrow> bool" where
  "open_withdrawal r w \<longleftrightarrow> wd_ref w = r \<and> wd_status w \<in> {WPending, WProcessing}"

text \<open>The SQL of the debit; the lock is released down to zero at most.\<close>

definition covers :: "nat \<Rightarrow> rat \<Rightarrow> wallet \<Rightarrow> bool" where
  "covers i amount w \<longleftrightarrow> w_id w = i \<and> of_int (w_balance w) \<ge> sql amount"

definition release_lock :: "rat \<Rightarrow> wallet \<Rightarrow> wallet" where
  "release_lock amount w = w\<lparr>w_locked := max (dec_dec (w_locked w) amount) 0\<rparr>"

definition settle_debit :: "rat \<Rightarrow> wallet \<Rightarrow> wallet" where
  "settle_debit amount w = dec_balance amount (release_lock amount w)"

definition success_meta :: "withdrawal \<Rightarrow> payout_meta \<Rightarrow> payout_meta" where
  "success_meta w m = (if wd_method w = CryptoPayout
     then (if wm_provider m = Nowpayments then m\<lparr>wm_payout_status := Some ''finished''\<rparr> else m)
     else m\<lparr>wm_provider := Paystack, wm_transfer_status := Some ''success''\<rparr>)"

definition complete_tx ::
  "withdrawal \<Rightarrow> txn option \<Rightarrow> wallet \<Rightarrow> ('a withdraw_db_scheme, bool) op" where
  "complete_tx wd txn w = transaction
     (bnd (gets now) (\<lambda>t.
      bnd (update_many withdrawals withdrawals_update (open_withdrawal (wd_ref wd))
        (\<lambda>r. r\<lparr>wd_status := WCompleted, wd_updated := t\<rparr>)) (\<lambda>claim.
      if claim \<noteq> 1 then ret False
      else bnd (update_many wallets wallets_update (covers (w_id w) (wd_amount wd)) (settle_debit (wd_amount wd))) (\<lambda>debited.
      if debited \<noteq> 1 then throw (BadRequest ''Wallet balance is insufficient to finalize withdrawal'')
      else thn (case txn of
          None \<Rightarrow> ret ()
        | Some x \<Rightarrow> thn (txn_status_update (t_id x) Completed)
            (thn (meta_update (wd_ref wd) (success_meta wd))
            (ledger_create \<lparr>l_txn = Some (t_id x), l_wallet = w_id w, l_type = Debit,
               l_amount = to_units (wd_amount wd), l_before = Some (to_units (num (w_balance w))),
               l_after = Some (to_units (fl (num (w_balance w) - wd_amount wd))), l_category = None\<rparr>)))
        (thn (creditPlatformFeeInTx (wd_fee wd) (map_option t_id txn)) (ret True))))))"

text \<open>\<open>previousLocked - Math.min(previousLocked, amount)\<close>: what stays locked.\<close>

definition still_locked :: "wallet \<Rightarrow> rat \<Rightarrow> rat" where
  "still_locked w amount = fl (num (w_locked w) - min (num (w_locked w)) amount)"

definition markAsSuccess :: "nat \<Rightarrow> ('a withdraw_db_scheme, bool) op" where
  "markAsSuccess r = bnd (gets (\<lambda>s. withdrawal_by_ref s r)) (\<lambda>wd. case wd of
     None \<Rightarrow> ret False
   | Some wd \<Rightarrow>
     if wd_status wd = WCompleted then ret True
     else if wd_status wd = WFailed then ret False
     else bnd (gets (\<lambda>s. (txn_by_ref s r, active_wallet s (wd_user wd)))) (\<lambda>(txn, w). case w of
       None \<Rightarrow> ret False
     | Some w \<Rightarrow> bnd (complete_tx wd txn w) (\<lambda>finalized.
         if \<not> finalized then ret False
         else thn (withdraw_announce (wd_user wd)
             (fl (fl (num (w_balance w) - wd_amount wd) - still_locked w (wd_amount wd))))
           (thn (emit (Notification (wd_user wd) ''withdrawal_completed'' (Some (wd_id wd)))) (ret True)))))"

section \<open>Rejection\<close>

definition failure_meta :: "withdrawal \<Rightarrow> string \<Rightarrow> payout_meta \<Rightarrow> payout_meta" where
  "failure_meta w reason m = (if wd_method w = CryptoPayout
     then (if wm_provider m = Nowpayments
       then m\<lparr>wm_failure := Some reason, wm_payout_status := Some ''failed''\<rparr> else m\<lparr>wm_failure := Some reason\<rparr>)
     else m\<lparr>wm_provider := Paystack, wm_failure := Some reason, wm_transfer_status := Some ''failed''\<rparr>)"

definition reject_tx ::
  "withdrawal \<Rightarrow> txn option \<Rightarrow> wallet \<Rightarrow> string \<Rightarrow> ('a withdraw_db_scheme, bool) op" where
  "reject_tx wd txn w reason = transaction
     (bnd (gets now) (\<lambda>t.
      bnd (update_many withdrawals withdrawals_update (open_withdrawal (wd_ref wd))
        (\<lambda>r. r\<lparr>wd_status := WFailed, wd_reason := Some reason, wd_updated := t\<rparr>)) (\<lambda>claim.
      if claim \<noteq> 1 then ret False
      else bnd (update_many wallets wallets_update (\<lambda>r. w_id r = w_id w) (release_lock (wd_amount wd))) (\<lambda>_.
        thn (case txn of
            None \<Rightarrow> ret ()
          | Some x \<Rightarrow> thn (txn_status_update (t_id x) Failed) (meta_update (wd_ref wd) (failure_meta wd reason)))
          (ret True)))))"

definition rejectWithdrawal :: "nat \<Rightarrow> string \<Rightarrow> ('a withdraw_db_scheme, bool) op" where
  "rejectWithdrawal r reason = bnd (gets (\<lambda>s. withdrawal_by_ref s r)) (\<lambda>wd. case wd of
     None \<Rightarrow> ret False
   | Some wd \<Rightarrow>
     if wd_status wd = WFailed then ret True
     else if wd_status wd = WCompleted then ret False
     else bnd (gets (\<lambda>s. (txn_by_ref s r, active_wallet s (wd_user wd)))) (\<lambda>(txn, w). case w of
       None \<Rightarrow> ret False
     | Some w \<Rightarrow> bnd (reject_tx wd txn w reason) (\<lambda>rejected.
         if \<not> rejected then ret False
         else thn (withdraw_announce (wd_user wd) (fl (num (w_balance w) - still_locked w (wd_amount wd))))
           (thn (emit (Notification (wd_user wd) ''transaction'' (Some (wd_id wd)))) (ret True)))))"

section \<open>Admins\<close>

definition withdrawal_by_any :: "'a withdraw_db_scheme \<Rightarrow> nat \<Rightarrow> withdrawal option" where
  "withdrawal_by_any s i = find (\<lambda>w. wd_id w = i \<or> wd_ref w = i) (withdrawals s)"

definition adminApproveWithdrawal :: "nat \<Rightarrow> ('a withdraw_db_scheme, bool) op" where
  "adminApproveWithdrawal i = bnd (gets (\<lambda>s. withdrawal_by_any s i)) (\<lambda>wd. case wd of
     None \<Rightarrow> throw (BadRequest ''Withdrawal not found'')
   | Some wd \<Rightarrow>
     if wd_status wd = WCompleted then ret True
     else if wd_status wd = WFailed then throw (BadRequest ''A rejected withdrawal cannot be approved'')
     else markAsSuccess (wd_ref wd))"

definition adminRejectWithdrawal :: "nat \<Rightarrow> string \<Rightarrow> ('a withdraw_db_scheme, bool) op" where
  "adminRejectWithdrawal i reason = bnd (gets (\<lambda>s. withdrawal_by_any s i)) (\<lambda>wd. case wd of
     None \<Rightarrow> throw (BadRequest ''Withdrawal not found'')
   | Some wd \<Rightarrow> rejectWithdrawal (wd_ref wd) reason)"

text \<open>Crypto withdrawals of the retired provider.\<close>

definition listStuckLegacyWithdrawals :: "('a withdraw_db_scheme, (withdrawal \<times> payout_provider) list) op" where
  "listStuckLegacyWithdrawals = gets (\<lambda>s.
     filter (\<lambda>(w, p). p \<noteq> Nowpayments)
       (map (\<lambda>w. (w, case meta_by_ref s (wd_ref w) of None \<Rightarrow> LegacyProvider | Some m \<Rightarrow> wm_provider m))
         (take 200 (sort_key wd_created (filter (\<lambda>w. wd_method w = CryptoPayout
            \<and> wd_status w \<in> {WPending, WProcessing}) (withdrawals s))))))"

definition refundLegacyWithdrawal :: "nat \<Rightarrow> string option \<Rightarrow> ('a withdraw_db_scheme, bool) op" where
  "refundLegacyWithdrawal i reason = bnd (gets (\<lambda>s. withdrawal_by_any s i)) (\<lambda>wd. case wd of
     None \<Rightarrow> throw (BadRequest ''Legacy crypto withdrawal not found'')
   | Some wd \<Rightarrow>
     if wd_method wd \<noteq> CryptoPayout then throw (BadRequest ''Legacy crypto withdrawal not found'')
     else bnd (gets (\<lambda>s. meta_by_ref s (wd_ref wd))) (\<lambda>m.
     if (case m of None \<Rightarrow> False | Some m \<Rightarrow> wm_provider m = Nowpayments)
     then throw (BadRequest ''Only legacy (IvoryPay) withdrawals can be closed here'')
     else if wd_status wd \<notin> {WPending, WProcessing} then throw (BadRequest ''This withdrawal is already closed'')
     else rejectWithdrawal (wd_ref wd) (case reason of Some r \<Rightarrow> r
        | None \<Rightarrow> ''IvoryPay retired: legacy withdrawal refunded and closed'')))"

end
