(* ===== verification/Withdraw_Payout.thy ===== *)
theory Withdraw_Payout
  imports Withdraw_Settle
begin

text \<open>
  The way of a withdrawal to its provider: src/withdraw/withdraw.service.ts, the payout workers, the
  admin actions of NOWPayments payouts, the status route and the two reconcilers.  The answers of
  the providers are arguments; \<open>payout_calls\<close> records the requests that ask one to send money.
\<close>

section \<open>Paystack\<close>

definition formatMpesaNumber :: "string option \<Rightarrow> string" where
  "formatMpesaNumber phone = (case phone of
     None \<Rightarrow> []
   | Some p \<Rightarrow> if take 4 p = ''+254'' then CHR ''0'' # drop 4 p else p)"

text \<open>How \<open>initiateTransfer\<close> ends: accepted with a code and a status, refused, or unknown.\<close>

datatype transfer_answer =
    TransferSent "string option" "string option"
  | TransferRefused string
  | TransferUnknown string

definition call_provider :: "payout_call \<Rightarrow> ('a withdraw_db_scheme, unit) op" where
  "call_provider c = modify (\<lambda>s. s\<lparr>payout_calls := payout_calls s @ [c]\<rparr>)"

text \<open>The settlement in KES of the snapshot, or converted now.\<close>

definition kes_amount :: "withdrawal \<Rightarrow> payout_meta option \<Rightarrow> (rat \<Rightarrow> err + rat) \<Rightarrow> err + rat" where
  "kes_amount wd m farmToKes = (case Option.bind m wm_snapshot of
     Some (_, settlement_kes) \<Rightarrow> if settlement_kes > 0 then Inr settlement_kes else farmToKes (wd_settlement wd)
   | None \<Rightarrow> farmToKes (wd_settlement wd))"

definition sent_meta :: "string option \<Rightarrow> string option \<Rightarrow> payout_meta \<Rightarrow> payout_meta" where
  "sent_meta code st m = m\<lparr>wm_transfer_code := or_string code (wm_transfer_code m),
     wm_transfer_status := or_string st (or_string (wm_transfer_status m) (Some ''pending'')),
     wm_needs_otp := (map_option (map lower_char) st = Some ''otp'')\<rparr>"

text \<open>The claimed withdrawal: recipient, amount, transfer.  \<open>recipient\<close> is what creating the
  recipient (and finding the bank) answers; an error message of the provider ends as a rejection.\<close>

definition err_text :: "err \<Rightarrow> string" where
  "err_text e = (case e of BadRequest x \<Rightarrow> x | Incomplete x _ \<Rightarrow> x | Unauthorized x \<Rightarrow> x | Forbidden x \<Rightarrow> x
     | NotFound x \<Rightarrow> x | Conflict x \<Rightarrow> x | Gone x \<Rightarrow> x | Failure x \<Rightarrow> x)"

definition payout_account :: "withdrawal \<Rightarrow> string" where
  "payout_account wd = (if wd_method wd = MobileMoney then formatMpesaNumber (wd_phone wd)
     else case wd_account wd of None \<Rightarrow> [] | Some a \<Rightarrow> a)"

definition transfer_withdrawal ::
  "withdrawal \<Rightarrow> (string \<Rightarrow> err + unit) \<Rightarrow> (rat \<Rightarrow> err + rat) \<Rightarrow> transfer_answer \<Rightarrow> ('a withdraw_db_scheme, unit) op" where
  "transfer_withdrawal wd recipient farmToKes answer =
     (let reject = (\<lambda>m. bnd (rejectWithdrawal (wd_ref wd) (if m = [] then ''Withdrawal transfer failed'' else m)) (\<lambda>_. ret ())) in
      if wd_method wd \<notin> {MobileMoney, BankTransfer}
      then reject ''Unsupported withdrawal method for transfer processing''
      else (case recipient (payout_account wd) of
        Inl e \<Rightarrow> reject (err_text e)
      | Inr _ \<Rightarrow> bnd (gets (\<lambda>s. meta_by_ref s (wd_ref wd))) (\<lambda>m. case kes_amount wd m farmToKes of
          Inl e \<Rightarrow> reject (err_text e)
        | Inr kes \<Rightarrow>
            if kes \<le> 0 then reject ''Invalid KES payout amount''
            else thn (call_provider (InitiateTransfer (wd_ref wd) kes))
              (case answer of
                TransferSent code st \<Rightarrow> meta_update (wd_ref wd) (sent_meta code st)
              | TransferUnknown _ \<Rightarrow> meta_update (wd_ref wd) (\<lambda>m. m\<lparr>wm_transfer_status := Some ''unknown''\<rparr>)
              | TransferRefused x \<Rightarrow> reject x))))"

definition processWithdrawal ::
  "nat \<Rightarrow> (string \<Rightarrow> err + unit) \<Rightarrow> (rat \<Rightarrow> err + rat) \<Rightarrow> transfer_answer \<Rightarrow> ('a withdraw_db_scheme, unit) op" where
  "processWithdrawal r recipient farmToKes answer = bnd (gets (\<lambda>s. withdrawal_by_ref s r)) (\<lambda>wd. case wd of
     None \<Rightarrow> ret ()
   | Some wd \<Rightarrow>
     if wd_status wd \<noteq> WPending then ret ()
     else bnd (gets now) (\<lambda>t.
     bnd (update_many withdrawals withdrawals_update (\<lambda>w. wd_ref w = r \<and> wd_status w = WPending)
       (\<lambda>w. w\<lparr>wd_status := WProcessing, wd_updated := t\<rparr>)) (\<lambda>claim.
     if claim \<noteq> 1 then ret () else transfer_withdrawal wd recipient farmToKes answer)))"

section \<open>NOWPayments\<close>

text \<open>A payout as the provider reports it: its id (of the payout, the batch or its first
  withdrawal), its status, and the reason of a failure.\<close>

record payout_report =
  py_id :: string
  py_status :: "string option"
  py_failure :: "string option"

definition status_of :: "payout_report \<Rightarrow> string \<Rightarrow> string" where
  "status_of p d = map lower_char (case py_status p of Some x \<Rightarrow> x | None \<Rightarrow> d)"

definition payout_unclear :: "payout_meta \<Rightarrow> bool" where
  "payout_unclear m \<longleftrightarrow> map_option (map lower_char) (wm_payout_status m) \<in> {Some ''creating'', Some ''unknown''}"

text \<open>The two open states of a payout that an admin sees.\<close>

definition getPendingNowpaymentsCryptoWithdrawals ::
  "('a withdraw_db_scheme, (txn \<times> payout_meta \<times> withdrawal option) list) op" where
  "getPendingNowpaymentsCryptoWithdrawals = gets (\<lambda>s. List.map_filter (\<lambda>t. case meta_by_ref s (t_ref t) of
       None \<Rightarrow> None
     | Some m \<Rightarrow>
        if wm_provider m = Nowpayments \<and> wm_approval m \<noteq> None
           \<and> (\<not> truthy (wm_payout_id m) \<or> payout_unclear m \<or> wm_approval m = Some AwaitingApproval)
        then Some (t, m, withdrawal_by_ref s (t_ref t)) else None)
     (take 100 (sort_key t_created (filter (\<lambda>t. t_type t = WithdrawalTxn
        \<and> t_status t \<in> {Pending, Processing}) (txns s)))))"

record payout_reply =
  pr_id :: string
  pr_status :: "string option"
  pr_verify :: bool

definition reply_of :: "string \<Rightarrow> string option \<Rightarrow> payout_reply" where
  "reply_of i st = \<lparr>pr_id = i, pr_status = st, pr_verify = (st = Some ''creating'')\<rparr>"

definition verifyNowpaymentsCryptoWithdrawal ::
  "nat \<Rightarrow> string \<Rightarrow> err + payout_report \<Rightarrow> ('a withdraw_db_scheme, payout_reply) op" where
  "verifyNowpaymentsCryptoWithdrawal r admin answer = bnd (gets (\<lambda>s. meta_by_ref s r)) (\<lambda>m. case m of
     None \<Rightarrow> throw (BadRequest ''An approved NOWPayments payout is required before verification'')
   | Some m \<Rightarrow>
     if wm_provider m \<noteq> Nowpayments \<or> wm_approval m \<noteq> Some PayoutApproved \<or> \<not> truthy (wm_payout_id m)
     then throw (BadRequest ''An approved NOWPayments payout is required before verification'')
     else bnd (of_sum answer) (\<lambda>p.
       thn (meta_update r (\<lambda>_. m\<lparr>wm_payout_status := Some (status_of p ''creating''), wm_verified_by := Some admin\<rparr>))
         (ret (reply_of (the (wm_payout_id m)) (Some (status_of p ''creating''))))))"

text \<open>\<open>code\<close> tells whether a verification code can be generated, \<open>verified\<close> what verifying answers.\<close>

definition recordPayoutCreated ::
  "nat \<Rightarrow> payout_report \<Rightarrow> string \<Rightarrow> bool \<Rightarrow> err + payout_report \<Rightarrow> ('a withdraw_db_scheme, payout_reply) op" where
  "recordPayoutCreated r p admin code verified =
     (if py_id p = [] then throw (BadRequest ''NOWPayments payout was submitted but did not return a payout ID'')
      else thn (meta_update r (\<lambda>m. m\<lparr>wm_approval := Some PayoutApproved,
           wm_approved_by := (case wm_approved_by m of None \<Rightarrow> Some admin | Some a \<Rightarrow> Some a),
           wm_payout_id := Some (py_id p), wm_payout_status := Some (status_of p ''creating'')\<rparr>))
       (bnd (if status_of p ''creating'' = ''creating'' \<and> code
             then catch (bnd (verifyNowpaymentsCryptoWithdrawal r ''system:auto'' verified) (\<lambda>v. ret (pr_status v)))
                    (\<lambda>_. ret (Some (status_of p ''creating'')))
             else ret (Some (status_of p ''creating''))) (\<lambda>st.
        ret (reply_of (py_id p) st))))"

text \<open>What the provider answers to a lookup by our reference and to the creation of a payout.\<close>

record payout_answers =
  pa_found :: "err + payout_report option"
  pa_created :: "err + payout_report"
  pa_code :: bool
  pa_verified :: "err + payout_report"
  pa_status :: "err + payout_report"

text \<open>An earlier submission whose outcome is unknown is looked up, never submitted again.\<close>

definition retry_payout ::
  "nat \<Rightarrow> string \<Rightarrow> payout_answers \<Rightarrow> ('a withdraw_db_scheme, payout_reply) op" where
  "retry_payout r admin A = bnd (of_sum (pa_found A)) (\<lambda>found. case found of
     None \<Rightarrow> throw (BadRequest ''No NOWPayments payout exists for this reference yet'')
   | Some p \<Rightarrow> recordPayoutCreated r p admin (pa_code A) (pa_verified A))"

definition create_payout ::
  "nat \<Rightarrow> payout_meta \<Rightarrow> string \<Rightarrow> payout_answers \<Rightarrow> ('a withdraw_db_scheme, payout_reply) op" where
  "create_payout r m admin A = thn (call_provider (CreatePayout r (wm_payout_amount m)))
     (case pa_created A of
        Inr p \<Rightarrow> recordPayoutCreated r p admin (pa_code A) (pa_verified A)
      | Inl _ \<Rightarrow> thn (meta_update r (\<lambda>m. m\<lparr>wm_approval := Some PayoutApproved,
            wm_payout_status := Some ''unknown''\<rparr>))
          (throw (Failure ''NOWPayments payout status is not yet known'')))"

definition submitNowpaymentsPayout ::
  "nat \<Rightarrow> string \<Rightarrow> payout_answers \<Rightarrow> ('a withdraw_db_scheme, payout_reply) op" where
  "submitNowpaymentsPayout r admin A = bnd (gets (\<lambda>s. (withdrawal_by_ref s r, meta_by_ref s r, now s))) (\<lambda>(wd, m, t).
     case (wd, m) of
       (Some wd, Some m) \<Rightarrow>
         if wm_provider m \<noteq> Nowpayments \<or> wd_method wd \<noteq> CryptoPayout
         then throw (BadRequest ''NOWPayments withdrawal was not found'')
         else if truthy (wm_payout_id m) then ret (reply_of (the (wm_payout_id m)) (wm_payout_status m))
         else if wd_status wd = WProcessing \<and> wm_approval m = Some PayoutApproved \<and> payout_unclear m
         then retry_payout r admin A
         else if wd_status wd \<noteq> WPending \<or> wm_approval m \<noteq> Some AwaitingApproval
         then throw (BadRequest ''This crypto withdrawal is no longer awaiting approval'')
         else bnd (transaction
             (bnd (update_many withdrawals withdrawals_update (\<lambda>w. wd_ref w = r \<and> wd_status w = WPending)
                (\<lambda>w. w\<lparr>wd_status := WProcessing, wd_updated := t\<rparr>)) (\<lambda>count.
              if count \<noteq> 1 then ret False
              else thn (meta_update r (\<lambda>_. m\<lparr>wm_approval := Some PayoutApproved, wm_approved_by := Some admin,
                  wm_payout_status := Some ''creating''\<rparr>)) (ret True)))) (\<lambda>claimed.
           if \<not> claimed then throw (BadRequest ''This crypto withdrawal was already approved'')
           else create_payout r m admin A)
     | _ \<Rightarrow> throw (BadRequest ''NOWPayments withdrawal was not found''))"

definition PAID_STATUSES :: "string list" where
  "PAID_STATUSES = [''finished'', ''success'', ''completed'']"

definition FAILED_STATUSES :: "string list" where
  "FAILED_STATUSES = [''failed'', ''rejected'', ''cancelled'', ''canceled'']"

definition failure_of :: "payout_report \<Rightarrow> string" where
  "failure_of p = (case py_failure p of Some x \<Rightarrow> x | None \<Rightarrow> ''NOWPayments payout failed'')"

text \<open>The payload is only a hint: the payout is asked for its status again.\<close>

definition reconcileNowpaymentsPayoutWebhook ::
  "string \<Rightarrow> err + payout_report \<Rightarrow> ('a withdraw_db_scheme, bool) op" where
  "reconcileNowpaymentsPayoutWebhook payout_id answer =
     (if payout_id = [] then ret False
      else bnd (gets (\<lambda>s. find (\<lambda>t. t_type t = WithdrawalTxn
          \<and> Option.bind (meta_by_ref s (t_ref t)) wm_payout_id = Some payout_id) (txns s))) (\<lambda>txn. case txn of
        None \<Rightarrow> ret False
      | Some t \<Rightarrow> bnd (of_sum answer) (\<lambda>p.
          let st = status_of p [] in
          thn (meta_update (t_ref t) (\<lambda>m. m\<lparr>wm_payout_status := Some (if st = [] then ''unknown'' else st)\<rparr>))
            (if st \<in> set PAID_STATUSES then markAsSuccess (t_ref t)
             else if st \<in> set FAILED_STATUSES then rejectWithdrawal (t_ref t) (failure_of p)
             else ret False))))"

section \<open>The status route\<close>

record transfer_status =
  ts_code :: "string option"
  ts_status :: "string option"
  ts_reason :: "string option"

text \<open>Asking the provider of an open withdrawal; an error of the provider, or of the settlement, is
  reported and nothing more.\<close>

definition refresh_crypto :: "nat \<Rightarrow> err + payout_report \<Rightarrow> ('a withdraw_db_scheme, unit) op" where
  "refresh_crypto r answer = catch
     (bnd (of_sum answer) (\<lambda>p.
      let st = status_of p [] in
      thn (meta_update r (\<lambda>m. m\<lparr>wm_payout_status := (if st = [] then wm_payout_status m else Some st)\<rparr>))
      (if st \<in> set PAID_STATUSES then bnd (markAsSuccess r) (\<lambda>_. ret ())
       else if st \<in> set FAILED_STATUSES then bnd (rejectWithdrawal r (failure_of p)) (\<lambda>_. ret ())
       else ret ())))
     (\<lambda>_. ret ())"

definition refresh_transfer :: "nat \<Rightarrow> err + transfer_status \<Rightarrow> ('a withdraw_db_scheme, unit) op" where
  "refresh_transfer r answer = catch
     (bnd (of_sum answer) (\<lambda>x.
      let st = map lower_char (case ts_status x of None \<Rightarrow> [] | Some y \<Rightarrow> y) in
      if st = ''success'' then bnd (markAsSuccess r) (\<lambda>_. ret ())
      else if st \<in> {''failed'', ''reversed''}
      then bnd (rejectWithdrawal r (case ts_reason x of Some y \<Rightarrow> y | None \<Rightarrow> ''Paystack transfer failed'')) (\<lambda>_. ret ())
      else meta_update r (\<lambda>m. m\<lparr>wm_provider := Paystack,
          wm_transfer_code := (case ts_code x of None \<Rightarrow> wm_transfer_code m | Some c \<Rightarrow> Some c),
          wm_transfer_status := (case ts_status x of None \<Rightarrow> Some ''pending'' | Some y \<Rightarrow> Some y),
          wm_needs_otp := (st = ''otp'')\<rparr>)))
     (\<lambda>_. ret ())"

record status_answers =
  sa_payout :: "err + payout_report"
  sa_transfer :: "err + transfer_status"

text \<open>The status and the metadata that the reply is made of.\<close>

definition getWithdrawalStatus ::
  "nat \<Rightarrow> nat \<Rightarrow> status_answers \<Rightarrow> ('a withdraw_db_scheme, (withdraw_status \<times> payout_meta option) option) op" where
  "getWithdrawalStatus r u A = bnd (gets (\<lambda>s. find (\<lambda>w. wd_ref w = r \<and> wd_user w = u) (withdrawals s))) (\<lambda>wd. case wd of
     None \<Rightarrow> ret None
   | Some wd \<Rightarrow> bnd (gets (\<lambda>s. meta_by_ref s r)) (\<lambda>m.
       thn (if wd_method wd = CryptoPayout \<and> (case m of None \<Rightarrow> False | Some m \<Rightarrow> wm_provider m = Nowpayments)
            then (if truthy (Option.bind m wm_payout_id) \<and> wd_status wd = WProcessing then refresh_crypto r (sa_payout A)
                  else ret ())
            else if wd_status wd \<in> {WPending, WProcessing} then refresh_transfer r (sa_transfer A)
            else ret ())
       (gets (\<lambda>s. Some (case find (\<lambda>w. wd_ref w = r \<and> wd_user w = u) (withdrawals s) of
            None \<Rightarrow> wd_status wd | Some w \<Rightarrow> wd_status w, meta_by_ref s r)))))"

section \<open>The reconcilers\<close>

text \<open>Every minute: the oldest 50 transfers that have been processing for a minute.\<close>

definition stale_transfers :: "'a withdraw_db_scheme \<Rightarrow> withdrawal list" where
  "stale_transfers s = take 50 (sort_key wd_updated (filter (\<lambda>w. wd_status w = WProcessing
     \<and> wd_method w \<in> {MobileMoney, BankTransfer} \<and> wd_updated w < now s - 60000) (withdrawals s)))"

definition recheck_transfer :: "(nat \<Rightarrow> status_answers) \<Rightarrow> withdrawal \<Rightarrow> ('a withdraw_db_scheme, unit) op" where
  "recheck_transfer A w = catch
     (bnd (getWithdrawalStatus (wd_ref w) (wd_user w) (A (wd_ref w))) (\<lambda>st.
      if map_option fst st = Some WProcessing
      then bnd (gets now) (\<lambda>t. bnd (update_many withdrawals withdrawals_update
          (\<lambda>x. wd_ref x = wd_ref w \<and> wd_status x = WProcessing) (\<lambda>x. x\<lparr>wd_updated := t\<rparr>)) (\<lambda>_. ret ()))
      else ret ()))
     (\<lambda>_. ret ())"

definition reconcilePendingPaystackWithdrawals ::
  "(nat \<Rightarrow> status_answers) \<Rightarrow> ('a withdraw_db_scheme, unit) op" where
  "reconcilePendingPaystackWithdrawals A = bnd (gets reconciling_paystack) (\<lambda>busy.
     if busy then ret ()
     else thn (modify (\<lambda>s. s\<lparr>reconciling_paystack := True\<rparr>))
       (thn (catch (bnd (gets stale_transfers) (\<lambda>pending. each (recheck_transfer A) pending)) (\<lambda>_. ret ()))
       (modify (\<lambda>s. s\<lparr>reconciling_paystack := False\<rparr>))))"

text \<open>Every five minutes: the oldest 50 open payouts older than two minutes.\<close>

definition open_payouts :: "'a withdraw_db_scheme \<Rightarrow> (nat \<times> payout_meta) list" where
  "open_payouts s = List.map_filter (\<lambda>t. map_option (\<lambda>m. (t_ref t, m)) (meta_by_ref s (t_ref t)))
     (take 50 (sort_key t_created (filter (\<lambda>t. t_type t = WithdrawalTxn \<and> t_status t \<in> {Pending, Processing}
        \<and> t_created t < now s - 2 * 60000
        \<and> (case meta_by_ref s (t_ref t) of None \<Rightarrow> False | Some m \<Rightarrow> wm_provider m = Nowpayments)) (txns s))))"

definition recheck_payout :: "(nat \<Rightarrow> payout_answers) \<Rightarrow> nat \<times> payout_meta \<Rightarrow> ('a withdraw_db_scheme, unit) op" where
  "recheck_payout A = (\<lambda>(r, m). catch
     (if truthy (wm_payout_id m) then bnd (reconcileNowpaymentsPayoutWebhook (the (wm_payout_id m)) (pa_status (A r))) (\<lambda>_. ret ())
      else if wm_approval m = Some AwaitingApproval
      then bnd (submitNowpaymentsPayout r ''system:reconciler'' (A r)) (\<lambda>_. ret ())
      else bnd (of_sum (pa_found (A r))) (\<lambda>found. case found of
          None \<Rightarrow> ret ()
        | Some p \<Rightarrow> bnd (gets (\<lambda>s. txn_by_ref s r)) (\<lambda>t. case t of
            None \<Rightarrow> ret ()
          | Some _ \<Rightarrow> bnd (recordPayoutCreated r p ''system:reconciler'' (pa_code (A r)) (pa_verified (A r))) (\<lambda>_. ret ()))))
     (\<lambda>_. ret ()))"

definition reconcileNowpaymentsPayouts :: "(nat \<Rightarrow> payout_answers) \<Rightarrow> ('a withdraw_db_scheme, unit) op" where
  "reconcileNowpaymentsPayouts A = bnd (gets reconciling_nowpayments) (\<lambda>busy.
     if busy then ret ()
     else thn (modify (\<lambda>s. s\<lparr>reconciling_nowpayments := True\<rparr>))
       (thn (catch (bnd (gets open_payouts) (\<lambda>candidates. each (recheck_payout A) candidates)) (\<lambda>_. ret ()))
       (modify (\<lambda>s. s\<lparr>reconciling_nowpayments := False\<rparr>))))"

end
