(* ===== verification/Withdraw_Safety.thy ===== *)
theory Withdraw_Safety
  imports Withdraw_Payout
begin

text \<open>
  What withdrawals keep, whatever the providers answer: every wallet holds at least what is locked
  on it, the lock of a user's wallet covers the user's open withdrawals, money leaves the system
  with completed withdrawals only, the status of a withdrawal moves forward, and a provider is asked
  to pay a withdrawal once.
\<close>

section \<open>Amounts in units\<close>

text \<open>
  The amount of a withdrawal is any double.  Locking adds \<open>to_units\<close> of it to the column, and
  paying it takes \<open>debit_units\<close> of it, which is at most that.
\<close>

definition debit_units :: "rat \<Rightarrow> int" where
  "debit_units x = \<lceil>sql x - 1/2\<rceil>"

lemma debit_le: "0 \<le> x \<Longrightarrow> debit_units x \<le> to_units x"
  unfolding debit_units_def to_units_floor by linarith

lemma debit_units_num: "\<bar>k\<bar> \<le> MAXU \<Longrightarrow> debit_units (num k) = k"
  unfolding debit_units_def by (simp add: ceiling_eq_iff)

lemma dec_units: "sql x \<le> of_int n \<Longrightarrow> dec_dec n x = n - debit_units x"
proof -
  assume "sql x \<le> of_int n"
  then have "dec_dec n x = \<lfloor>of_int n - sql x + 1/2\<rfloor>" by (simp add: dec_dec_def sql_def rhaz_def)
  also have "\<dots> = n - \<lceil>sql x - 1/2\<rceil>" by linarith
  finally show ?thesis by (simp add: debit_units_def)
qed

lemma unlock_units: "0 \<le> x \<Longrightarrow> n - to_units x \<le> max (dec_dec n x) 0"
proof (cases "sql x \<le> of_int n")
  case True
  then show "0 \<le> x \<Longrightarrow> ?thesis" using debit_le[of x] by (simp add: dec_units)
next
  case False
  assume "0 \<le> x"
  then have "n \<le> to_units x" unfolding to_units_floor[OF \<open>0 \<le> x\<close>] using False by linarith
  then show ?thesis by simp
qed

lemma dec_dec_mono: "m \<le> n \<Longrightarrow> dec_dec m x \<le> dec_dec n x"
  unfolding dec_dec_def by (rule rhaz_mono) simp

lemma dec_dec_nonneg: "sql x \<le> of_int n \<Longrightarrow> 0 \<le> dec_dec n x"
  by (simp add: dec_dec_def sql_def rhaz_nonneg)

lemma dec_dec_le: "0 \<le> n \<Longrightarrow> 0 \<le> x \<Longrightarrow> max (dec_dec n x) 0 \<le> n"
  using rhaz_mono[of "of_int n - sql x" "of_int n"] sql_nonneg[of x] by (simp add: dec_dec_def sql_def)

section \<open>What a withdrawal promises\<close>

inductive withdraw_edge :: "withdraw_status \<Rightarrow> withdraw_status \<Rightarrow> bool" where
  claimed: "withdraw_edge WPending WProcessing"
| paid: "st \<in> {WPending, WProcessing} \<Longrightarrow> withdraw_edge st WCompleted"
| refused: "st \<in> {WPending, WProcessing} \<Longrightarrow> withdraw_edge st WFailed"

inductive_cases ended_edge: "withdraw_edge WCompleted st" "withdraw_edge WFailed st"

lemma ended_stays: "withdraw_edge\<^sup>*\<^sup>* st st' \<Longrightarrow> st \<in> {WCompleted, WFailed} \<Longrightarrow> st' = st"
proof (induction rule: converse_rtranclp_induct)
  case (step a b)
  from step(1) have False by (cases rule: withdraw_edge.cases) (use step(4) in auto)
  then show ?case ..
qed simp

text \<open>Units reserved for the open withdrawals of a user, and units that completed ones have taken
  out of the system: their amounts less the fees, which stay.\<close>

definition reserved :: "withdrawal list \<Rightarrow> nat \<Rightarrow> int" where
  "reserved wds u = sum_list (map (\<lambda>w. if wd_user w = u \<and> wd_status w \<in> {WPending, WProcessing}
     then to_units (wd_amount w) else 0) wds)"

definition paid_out :: "withdrawal list \<Rightarrow> int" where
  "paid_out wds = sum_list (map (\<lambda>w. if wd_status w = WCompleted
     then debit_units (wd_amount w) - to_units (wd_fee w) else 0) wds)"

fun call_ref :: "payout_call \<Rightarrow> nat" where
  "call_ref (InitiateTransfer r x) = r"
| "call_ref (CreatePayout r x) = r"

definition active_in :: "wallet list \<Rightarrow> nat \<Rightarrow> wallet option" where
  "active_in ws u = find (\<lambda>w. w_user w = Some u \<and> w_active w) ws"

definition wallets_ok :: "wallet list \<Rightarrow> bool" where
  "wallets_ok ws \<longleftrightarrow> distinct (map w_id ws) \<and> list_all (\<lambda>w. 0 \<le> w_locked w \<and> w_locked w \<le> w_balance w) ws"

definition wd_rows_ok :: "nat \<Rightarrow> withdrawal list \<Rightarrow> bool" where
  "wd_rows_ok n wds \<longleftrightarrow> distinct (map wd_ref wds) \<and> list_all (\<lambda>w. wd_ref w < n \<and> 0 < wd_amount w \<and> 0 \<le> wd_fee w) wds"

definition covered :: "wallet list \<Rightarrow> withdrawal list \<Rightarrow> bool" where
  "covered ws wds \<longleftrightarrow> (\<forall>u w. active_in ws u = Some w \<longrightarrow> reserved wds u \<le> w_locked w)"

definition calls_ok :: "nat \<Rightarrow> withdrawal list \<Rightarrow> nat list \<Rightarrow> bool" where
  "calls_ok n wds rs \<longleftrightarrow> distinct rs \<and> (\<forall>r\<in>set rs. r < n) \<and> (\<forall>w\<in>set wds. wd_ref w \<in> set rs \<longrightarrow> wd_status w \<noteq> WPending)"

text \<open>The daily limit on the number of withdrawals, when there is one.\<close>

definition few_recent :: "'a withdraw_db_scheme \<Rightarrow> bool" where
  "few_recent s \<longleftrightarrow> (case withdrawalDailyLimits s of (most, amount) \<Rightarrow>
     most > 0 \<longrightarrow> (\<forall>u. of_nat (length (recent_withdrawals s u)) \<le> most))"

definition withdraw_inv :: "'a withdraw_db_scheme \<Rightarrow> bool" where
  "withdraw_inv s \<longleftrightarrow> wallets_ok (wallets s) \<and> wd_rows_ok (seq s) (withdrawals s) \<and> covered (wallets s) (withdrawals s)
     \<and> calls_ok (seq s) (withdrawals s) (map call_ref (payout_calls s)) \<and> few_recent s"

definition rows_later :: "withdrawal list \<Rightarrow> withdrawal list \<Rightarrow> bool" where
  "rows_later old new \<longleftrightarrow> (\<forall>r w. find_row wd_ref r old = Some w \<longrightarrow> (\<exists>w'. find_row wd_ref r new = Some w'
     \<and> wd_user w' = wd_user w \<and> wd_amount w' = wd_amount w \<and> withdraw_edge\<^sup>*\<^sup>* (wd_status w) (wd_status w')))"

definition withdraw_rel :: "'a withdraw_db_scheme \<Rightarrow> 'a withdraw_db_scheme \<Rightarrow> bool" where
  "withdraw_rel s t \<longleftrightarrow> withdraw_inv t \<and> rows_later (withdrawals s) (withdrawals t)
     \<and> total t + paid_out (withdrawals t) = total s + paid_out (withdrawals s)"

lemma rows_later_refl: "rows_later wds wds"
  by (auto simp: rows_later_def)

lemma rows_later_trans:
  assumes "rows_later a b" "rows_later b c" shows "rows_later a c"
  unfolding rows_later_def
proof (intro allI impI)
  fix r w
  assume "find_row wd_ref r a = Some w"
  then obtain v where v: "find_row wd_ref r b = Some v" "wd_user v = wd_user w" "wd_amount v = wd_amount w"
      "withdraw_edge\<^sup>*\<^sup>* (wd_status w) (wd_status v)"
    using assms(1) unfolding rows_later_def by blast
  then obtain x where "find_row wd_ref r c = Some x" "wd_user x = wd_user v" "wd_amount x = wd_amount v"
      "withdraw_edge\<^sup>*\<^sup>* (wd_status v) (wd_status x)"
    using assms(2) unfolding rows_later_def by blast
  with v show "\<exists>x. find_row wd_ref r c = Some x \<and> wd_user x = wd_user w \<and> wd_amount x = wd_amount w
      \<and> withdraw_edge\<^sup>*\<^sup>* (wd_status w) (wd_status x)" by (auto intro: rtranclp_trans)
qed

text \<open>What the neutral operations leave alone.\<close>

definition wview :: "'a withdraw_db_scheme \<Rightarrow> wallet list \<times> withdrawal list \<times> payout_call list" where
  "wview s = (wallets s, withdrawals s, payout_calls s)"

definition withdraw_calm :: "'a withdraw_db_scheme \<Rightarrow> 'a withdraw_db_scheme \<Rightarrow> bool" where
  "withdraw_calm s t \<longleftrightarrow> withdraw_rel s t \<and> wview t = wview s"

interpretation wdr: viewed_contract withdraw_inv withdraw_rel wview withdraw_calm
proof
  fix s t u :: "'a withdraw_db_scheme"
  show "withdraw_inv s \<Longrightarrow> withdraw_rel s s" by (simp add: withdraw_rel_def rows_later_refl)
  show "withdraw_rel s t \<Longrightarrow> withdraw_rel t u \<Longrightarrow> withdraw_rel s u"
    unfolding withdraw_rel_def using rows_later_trans[of "withdrawals s" "withdrawals t" "withdrawals u"] by simp
  show "withdraw_inv s \<Longrightarrow> withdraw_rel s t \<Longrightarrow> withdraw_inv t" by (simp add: withdraw_rel_def)
qed (simp add: withdraw_calm_def)

lemma wd_rows_ok_mono: "wd_rows_ok m wds \<Longrightarrow> m \<le> n \<Longrightarrow> wd_rows_ok n wds"
  unfolding wd_rows_ok_def list_all_iff by (meson less_le_trans)

lemma calls_ok_mono: "calls_ok m wds rs \<Longrightarrow> m \<le> n \<Longrightarrow> calls_ok n wds rs"
  unfolding calls_ok_def by (meson less_le_trans)

lemma few_recent_later:
  assumes "few_recent s" "\<And>u. length (recent_withdrawals t u) \<le> length (recent_withdrawals s u)" "env_max_count t = env_max_count s"
  shows "few_recent t"
  using assms(1) of_nat_mono[OF assms(2), where 'a = rat]
  unfolding few_recent_def withdrawalDailyLimits_def assms(3) case_prod_conv by (blast intro: order_trans)

lemma length_filter_weaken: "(\<And>x. x \<in> set xs \<Longrightarrow> Q x \<Longrightarrow> P x) \<Longrightarrow> length (filter Q xs) \<le> length (filter P xs)"
  by (induction xs) (auto intro: le_SucI)

lemma few_recent_upd:
  assumes "few_recent s" "\<And>w. P w \<Longrightarrow> wd_user (f w) = wd_user w \<and> wd_created (f w) = wd_created w \<and> (wd_status w = WFailed \<longrightarrow> wd_status (f w) = WFailed)"
    "withdrawals t = upd_where P f (withdrawals s)" "now s \<le> now t" "env_max_count t = env_max_count s"
  shows "few_recent t"
proof (rule few_recent_later[OF assms(1) _ assms(5)])
  show "length (recent_withdrawals t u) \<le> length (recent_withdrawals s u)" for u
    unfolding recent_withdrawals_def assms(3) upd_where_def filter_map length_map
    by (rule length_filter_weaken) (use assms(2,4) in \<open>fastforce simp: o_def split: if_splits\<close>)
qed

lemma few_recent_same:
  "few_recent s \<Longrightarrow> withdrawals t = withdrawals s \<Longrightarrow> now s \<le> now t \<Longrightarrow> env_max_count t = env_max_count s \<Longrightarrow> few_recent t"
  by (rule few_recent_upd[where P = "\<lambda>_. False" and f = id]) (simp_all add: upd_where_def)

lemma withdraw_same:
  assumes "withdraw_inv s" "wallets t = wallets s" "withdrawals t = withdrawals s" "payout_calls t = payout_calls s" "seq s \<le> seq t"
    "now s \<le> now t" "env_max_count t = env_max_count s"
  shows "withdraw_calm s t"
proof -
  have "wd_rows_ok (seq t) (withdrawals s)" "calls_ok (seq t) (withdrawals s) (map call_ref (payout_calls s))"
    using assms(1,5) unfolding withdraw_inv_def by (blast intro: wd_rows_ok_mono calls_ok_mono)+
  moreover have "few_recent t" using assms(1) few_recent_same[OF _ assms(3,6,7)] by (simp add: withdraw_inv_def)
  ultimately show ?thesis
    using assms(1) total_cong[OF assms(2)]
    by (simp add: withdraw_calm_def withdraw_rel_def withdraw_inv_def rows_later_refl wview_def assms(2-4))
qed

lemma withdraw_calm_core:
  "safe_op withdraw_inv withdraw_calm fresh" "safe_op withdraw_inv withdraw_calm (emit e)"
  "safe_op withdraw_inv withdraw_calm (txn_create mk)" "safe_op withdraw_inv withdraw_calm (ledger_create l)"
  "safe_op withdraw_inv withdraw_calm (meta_update r f)" "safe_op withdraw_inv withdraw_calm (insert_row payout_metas_update m)"
  "safe_op withdraw_inv withdraw_calm (txn_status_update i st)" "safe_op withdraw_inv withdraw_calm (feeFor k x dp)"
  "safe_op withdraw_inv withdraw_calm (modify (reconciling_paystack_update g))"
  "safe_op withdraw_inv withdraw_calm (modify (reconciling_nowpayments_update g))"
  by (rule wdr.calm.safeI, auto simp: wp_simps meta_update_def txn_status_update_def intro!: withdraw_same)+

lemma withdraw_calm_quiet: "quiet m \<Longrightarrow> safe_op withdraw_inv withdraw_calm m"
  by (rule wdr.calm.safeI, erule wp_quiet) (auto intro: withdraw_same)

lemma withdraw_calm_sum: "safe_op withdraw_inv withdraw_calm (of_sum x)"
  by (cases x) (simp_all add: of_sum_def wdr.calm.safe_ret wdr.calm.safe_throw)

lemma withdraw_calm_pin: "safe_op withdraw_inv withdraw_calm (withdraw_authorize X u dto pre)"
proof -
  have "safe_op withdraw_inv withdraw_calm (verifyPin X u p)" "safe_op withdraw_inv withdraw_calm (verifyDevice X u f)" for p f
    by (rule wdr.calm.safeI, rule verifyPin_frame verifyDevice_frame; auto intro: withdraw_same)+
  then show ?thesis unfolding withdraw_authorize_def Let_def
    by (intro wdr.calm.safe_rules)
qed

lemma withdraw_calm_announce: "safe_op withdraw_inv withdraw_calm (withdraw_announce u b)"
  unfolding withdraw_announce_def by (intro withdraw_calm_quiet quiet_intros)

lemmas withdraw_calms = wdr.calm.safe_rules withdraw_calm_core withdraw_calm_sum withdraw_calm_pin withdraw_calm_announce

lemma withdraw_tx:
  "safe_op (\<lambda>s. withdraw_inv s \<and> G (wview s)) withdraw_rel m \<Longrightarrow> safe_op (\<lambda>s. withdraw_inv s \<and> G (wview s)) withdraw_rel (transaction m)"
proof -
  have "withdraw_inv s \<Longrightarrow> withdraw_rel s (s\<lparr>fee_cache := c\<rparr>)" for s :: "'a withdraw_db_scheme" and c
    using withdraw_same[of s "s\<lparr>fee_cache := c\<rparr>"] by (simp add: withdraw_calm_def)
  then show "safe_op (\<lambda>s. withdraw_inv s \<and> G (wview s)) withdraw_rel m \<Longrightarrow> ?thesis"
    unfolding safe_op_def wp_transaction by (blast intro: wp_mono)
qed

section \<open>One row\<close>

text \<open>A change of the status of the one withdrawal that a guard selects.\<close>

locale status_change =
  fixes P :: "withdrawal \<Rightarrow> bool" and f :: "withdrawal \<Rightarrow> withdrawal" and st :: withdraw_status and r :: nat
  assumes kept: "wd_ref (f w) = wd_ref w" "wd_user (f w) = wd_user w" "wd_amount (f w) = wd_amount w" "wd_fee (f w) = wd_fee w"
    and new: "wd_status (f w) = st" and guard: "P w \<Longrightarrow> wd_ref w = r"
begin

lemma change_rows: "wd_rows_ok n wds \<Longrightarrow> wd_rows_ok n (upd_where P f wds)"
  unfolding wd_rows_ok_def list_all_iff ball_upd_where by (simp add: kept)

lemma change_later:
  assumes "wd_rows_ok n wds" "wd \<in> set wds" "wd_ref wd = r" "withdraw_edge\<^sup>*\<^sup>* (wd_status wd) st"
  shows "rows_later wds (upd_where P f wds)"
proof -
  have "w = wd" if "w \<in> set wds" "P w" for w
    using that assms(1-3) guard[of w] by (auto simp: wd_rows_ok_def distinct_map inj_on_def)
  then show ?thesis using assms(4)
    by (auto simp: rows_later_def find_row_upd_where kept new dest!: find_row_Some)
qed

lemma change_calls: "calls_ok n wds rs \<Longrightarrow> st \<noteq> WPending \<Longrightarrow> calls_ok n (upd_where P f wds) rs"
  unfolding calls_ok_def ball_upd_where by (simp add: kept new)

lemma change_sum:
  fixes g :: "withdrawal \<Rightarrow> int"
  assumes "wd_rows_ok n wds" "wd \<in> set wds" "P wd"
  shows "sum_list (map g (upd_where P f wds)) = sum_list (map g wds) + (g (f wd) - g wd)"
  by (rule sum_upd_one[where key = wd_ref]) (use assms guard in \<open>auto simp: wd_rows_ok_def\<close>)

lemma change_count: "wd_rows_ok n wds \<Longrightarrow> wd \<in> set wds \<Longrightarrow> P wd \<Longrightarrow> length (filter P wds) = 1"
  using filter_one[of wd_ref wds wd P] guard by (auto simp: wd_rows_ok_def)

lemma change_reserved:
  assumes "wd_rows_ok n wds" "wd \<in> set wds" "P wd" "wd_status wd \<in> {WPending, WProcessing}"
  shows "reserved (upd_where P f wds) u = reserved wds u
    - (if wd_user wd = u \<and> st \<notin> {WPending, WProcessing} then to_units (wd_amount wd) else 0)"
  unfolding reserved_def change_sum[OF assms(1-3)] using assms(4) by (simp add: kept new)

lemma change_paid:
  assumes "wd_rows_ok n wds" "wd \<in> set wds" "P wd" "wd_status wd \<in> {WPending, WProcessing}"
  shows "paid_out (upd_where P f wds) = paid_out wds + (if st = WCompleted then debit_units (wd_amount wd) - to_units (wd_fee wd) else 0)"
  unfolding paid_out_def change_sum[OF assms(1-3)] using assms(4) by (auto simp: kept new)

end

interpretation claim_change: status_change "\<lambda>w. wd_ref w = r \<and> wd_status w = WPending" "\<lambda>w. w\<lparr>wd_status := WProcessing, wd_updated := t\<rparr>" WProcessing r
  by unfold_locales simp_all

interpretation paid_change: status_change "open_withdrawal r" "\<lambda>w. w\<lparr>wd_status := WCompleted, wd_updated := t\<rparr>" WCompleted r
  by unfold_locales (simp_all add: open_withdrawal_def)

interpretation refused_change: status_change "open_withdrawal r" "\<lambda>w. w\<lparr>wd_status := WFailed, wd_reason := reason, wd_updated := t\<rparr>" WFailed r
  by unfold_locales (simp_all add: open_withdrawal_def)

text \<open>A change of one wallet.\<close>

lemma active_upd_where:
  "(\<And>w. w_user (g w) = w_user w) \<Longrightarrow> (\<And>w. w_active (g w) = w_active w) \<Longrightarrow>
    active_in (upd_where Q g ws) u = map_option (\<lambda>w. if Q w then g w else w) (active_in ws u)"
  unfolding active_in_def upd_where_def by (rule find_map_keep) simp

lemma wallets_ok_upd:
  assumes "wallets_ok ws" "\<And>w. w_id (g w) = w_id w"
    "\<And>w. w \<in> set ws \<Longrightarrow> Q w \<Longrightarrow> 0 \<le> w_locked w \<Longrightarrow> w_locked w \<le> w_balance w \<Longrightarrow> 0 \<le> w_locked (g w) \<and> w_locked (g w) \<le> w_balance (g w)"
  shows "wallets_ok (upd_where Q g ws)"
  using assms unfolding wallets_ok_def list_all_iff ball_upd_where by simp

lemma active_in_Some: "active_in ws u = Some w \<Longrightarrow> w \<in> set ws \<and> w_user w = Some u \<and> w_active w"
  unfolding active_in_def by (drule find_Some) simp

lemma settle_simps [simp]:
  "w_id (settle_debit x w) = w_id w" "w_user (settle_debit x w) = w_user w" "w_active (settle_debit x w) = w_active w"
  "w_balance (settle_debit x w) = dec_dec (w_balance w) x" "w_locked (settle_debit x w) = max (dec_dec (w_locked w) x) 0"
  "w_id (release_lock x w) = w_id w" "w_user (release_lock x w) = w_user w" "w_active (release_lock x w) = w_active w"
  "w_balance (release_lock x w) = w_balance w" "w_locked (release_lock x w) = max (dec_dec (w_locked w) x) 0"
  by (simp_all add: settle_debit_def release_lock_def dec_balance_def)

end
