(* ===== verification/Withdraw_Runs.thy ===== *)
theory Withdraw_Runs
  imports Withdraw_Safety
begin

text \<open>
  The requests of users and admins, the payout workers, the provider's messages and the reconcilers
  keep what withdrawals promise, and so does every sequence of them.
\<close>

section \<open>The end of a withdrawal\<close>

lemma total_wallets: "total s = sum_list (map w_balance (wallets s))"
  by (simp add: total_def)

lemma active_wallet_in: "active_wallet s u = active_in (wallets s) u"
  by (simp add: active_wallet_def active_in_def)

lemma wallet_unique: "wallets_ok ws \<Longrightarrow> v \<in> set ws \<Longrightarrow> w \<in> set ws \<Longrightarrow> w_id v = w_id w \<Longrightarrow> v = w"
  by (auto simp: wallets_ok_def distinct_map inj_on_def)

lemma withdraw_invD:
  "withdraw_inv s \<Longrightarrow> wallets_ok (wallets s)" "withdraw_inv s \<Longrightarrow> wd_rows_ok (seq s) (withdrawals s)"
  "withdraw_inv s \<Longrightarrow> covered (wallets s) (withdrawals s)"
  "withdraw_inv s \<Longrightarrow> calls_ok (seq s) (withdrawals s) (map call_ref (payout_calls s))" "withdraw_inv s \<Longrightarrow> few_recent s"
  by (simp_all add: withdraw_inv_def)

lemma withdrawal_found: "withdrawal_by_ref s r = Some wd \<Longrightarrow> wd \<in> set (withdrawals s) \<and> wd_ref wd = r"
  unfolding withdrawal_by_ref_def by (auto dest: find_row_Some)

text \<open>One wallet releases the lock of a withdrawal that is no longer open.\<close>

lemma covered_settle:
  assumes c: "covered ws wds" and ok: "wd_rows_ok n wds" "wallets_ok ws" and w: "active_in ws (wd_user wd) = Some w"
    and wd: "wd \<in> set wds"
    and g: "\<And>v. w_user (g v) = w_user v" "\<And>v. w_active (g v) = w_active v" "\<And>v. w_locked (g v) = max (dec_dec (w_locked v) (wd_amount wd)) 0"
    and Q: "\<And>v. Q v \<Longrightarrow> w_id v = w_id w"
    and r: "\<And>u. reserved wds' u = reserved wds u - (if wd_user wd = u then to_units (wd_amount wd) else 0)"
  shows "covered (upd_where Q g ws) wds'"
  unfolding covered_def
proof (intro allI impI)
  fix u v
  assume "active_in (upd_where Q g ws) u = Some v"
  then obtain v0 where v0: "active_in ws u = Some v0" "v = (if Q v0 then g v0 else v0)"
    by (auto simp: active_upd_where g(1,2))
  have le: "reserved wds u \<le> w_locked v0" using c v0(1) by (simp add: covered_def)
  have pos: "0 < wd_amount wd" using ok(1) wd by (auto simp: wd_rows_ok_def list_all_iff)
  show "reserved wds' u \<le> w_locked v"
  proof (cases "Q v0")
    case True
    then have "v0 = w" using Q[OF True] wallet_unique[OF ok(2)] active_in_Some[OF v0(1)] active_in_Some[OF w] by blast
    then have "u = wd_user wd" using active_in_Some[OF v0(1)] active_in_Some[OF w] by simp
    then show ?thesis using True le unlock_units[of "wd_amount wd" "w_locked v0"] pos by (simp add: v0(2) g(3) r)
  next
    case False
    then show ?thesis using le to_units_nonneg[of "wd_amount wd"] pos by (auto simp: v0(2) r)
  qed
qed

lemma fee_credit_wp:
  assumes inv: "withdraw_inv s" and f: "0 \<le> f"
  shows "wp (creditPlatformFeeInTx f i) (\<lambda>_ t. withdraw_inv t \<and> withdrawals t = withdrawals s \<and> total t = total s + to_units f) (\<lambda>_ _. True) s"
proof (cases "f \<le> 0")
  case True
  with f have "f = 0" by simp
  moreover have "to_units 0 = 0" using to_units_num[of 0] by (simp add: MAXU_def)
  ultimately show ?thesis using inv by (simp add: creditPlatformFeeInTx_def wp_simps)
next
  case False
  have fin: "withdraw_inv t \<and> withdrawals t = withdrawals s \<and> total t = total s + to_units f"
    if p: "wallet_by_id s p = Some w" and t: "wallets t = upd_row w_id p (inc_balance f) (wallets s)"
      "withdrawals t = withdrawals s" "payout_calls t = payout_calls s" "seq t = seq s" "now t = now s"
      "env_max_count t = env_max_count s" for t p w
  proof -
    have b: "0 \<le> w_balance v \<Longrightarrow> dec_inc (w_balance v) f = w_balance v + to_units f" for v using inc_units f by blast
    have ok: "wallets_ok (upd_where (\<lambda>r. w_id r = p) (inc_balance f) (wallets s))"
      by (rule wallets_ok_upd[OF withdraw_invD(1)[OF inv]]) (use f in \<open>auto intro: order_trans[OF _ dec_inc_ge]\<close>)
    have "covered (wallets t) (withdrawals s)"
      using withdraw_invD(3)[OF inv] by (auto simp: covered_def t(1) upd_row_where active_upd_where)
    moreover have "total t = total s + to_units f"
    proof -
      have "w \<in> set (wallets s)" "w_id w = p" using wallet_by_id_Some[OF p] by auto
      moreover from this have "0 \<le> w_balance w" using withdraw_invD(1)[OF inv] by (auto simp: wallets_ok_def list_all_iff)
      moreover have "distinct (map w_id (wallets s))" using withdraw_invD(1)[OF inv] by (simp add: wallets_ok_def)
      ultimately show ?thesis
        using sum_upd_row[of w_id p "wallets s" w w_balance "inc_balance f"] p b[of w]
        by (simp add: total_wallets t(1) wallet_by_id_def)
    qed
    moreover have "few_recent t" using few_recent_same[OF withdraw_invD(5)[OF inv] t(2)] by (simp add: t(5,6))
    ultimately show ?thesis using inv ok by (simp add: withdraw_inv_def t(1-4) upd_row_where)
  qed
  show ?thesis using False
    by (auto simp: creditPlatformFeeInTx_def wp_simps intro!: fin[THEN conjunct1] fin[THEN conjunct2, THEN conjunct2] split: option.split)
qed

lemma withdraw_calm_wp:
  assumes "safe_op withdraw_inv withdraw_calm m" "withdraw_inv s"
  shows "wp m (\<lambda>_ t. withdraw_inv t \<and> wallets t = wallets s \<and> withdrawals t = withdrawals s) (\<lambda>_ t. withdraw_inv t \<and> wallets t = wallets s \<and> withdrawals t = withdrawals s) s"
  by (rule wp_mono[OF wdr.calm.safeD[OF assms]]) (auto simp: withdraw_calm_def withdraw_rel_def wview_def)

lemma settle_total:
  assumes "wallets_ok ws" "w \<in> set ws" "Q w" "\<And>v. Q v \<Longrightarrow> w_id v = w_id w"
  shows "sum_list (map w_balance (upd_where Q g ws)) = sum_list (map w_balance ws) + (w_balance (g w) - w_balance w)"
  using assms(1) by (intro sum_upd_one[where key = w_id] assms(2,3)) (simp add: wallets_ok_def, rule assms(4))

lemma fee_after_wp:
  assumes m: "safe_op withdraw_inv withdraw_calm m" and s: "withdraw_inv s" and f: "0 \<le> f"
  shows "wp (thn m (thn (creditPlatformFeeInTx f i) (ret a)))
    (\<lambda>_ t. withdraw_inv t \<and> withdrawals t = withdrawals s \<and> total t = total s + to_units f) (\<lambda>_ _. True) s"
  unfolding wp_thn wp_ret_eta
  by (rule wp_mono[OF withdraw_calm_wp[OF m s]], rule wp_mono[OF fee_credit_wp]) (use f in \<open>simp_all add: total_wallets\<close>)

lemma one_row: "length [x] \<noteq> 1 \<longleftrightarrow> False"
  by simp

lemma complete_rel:
  assumes inv: "withdraw_inv s" and wd: "withdrawal_by_ref s r = Some wd" "wd_status wd \<in> {WPending, WProcessing}"
    and w: "active_wallet s (wd_user wd) = Some w"
  shows "wp (complete_tx wd txn w) (\<lambda>_. withdraw_rel s) (\<lambda>_. withdraw_rel s) s"
proof -
  let ?P = "open_withdrawal (wd_ref wd)" and ?Q = "covers (w_id w) (wd_amount wd)"
  let ?f = "\<lambda>x. x\<lparr>wd_status := WCompleted, wd_updated := now s\<rparr>" and ?g = "settle_debit (wd_amount wd)"
  let ?t1 = "withdrawals_update (upd_where ?P ?f) s"
  let ?t2 = "wallets_update (upd_where ?Q ?g) ?t1"
  have row: "wd \<in> set (withdrawals s)" "?P wd" using withdrawal_found[OF wd(1)] wd(2) by (auto simp: open_withdrawal_def)
  have rows: "wd_rows_ok (seq s) (withdrawals s)" and ws: "wallets_ok (wallets s)" using inv by (simp_all add: withdraw_invD)
  have amt: "0 < wd_amount wd" "0 \<le> wd_fee wd" using rows row(1) by (auto simp: wd_rows_ok_def list_all_iff)
  have win: "w \<in> set (wallets s)" "active_in (wallets s) (wd_user wd) = Some w"
    using w active_in_Some[of "wallets s" "wd_user wd" w] by (auto simp: active_wallet_in)
  have roll: "withdraw_rel s (s\<lparr>fee_cache := c\<rparr>)" for c using withdraw_same[OF inv] by (simp add: withdraw_calm_def)
  have "wp (if length (filter ?Q (wallets s)) \<noteq> 1 then throw e else thn (case txn of
          None \<Rightarrow> ret ()
        | Some x \<Rightarrow> thn (txn_status_update (t_id x) Completed)
            (thn (meta_update (wd_ref wd) (success_meta wd)) (ledger_create (le x))))
        (thn (creditPlatformFeeInTx (wd_fee wd) (map_option t_id txn)) (ret True)))
      (\<lambda>_. withdraw_rel s) (\<lambda>_ _. True) ?t2" for e le
  proof (cases "?Q w")
    case False
    have "\<not> ?Q v" if "v \<in> set (wallets s)" for v
      using False wallet_unique[OF ws that win(1)] unfolding covers_def by blast
    then have "filter ?Q (wallets s) = []" by (simp add: filter_empty_conv)
    then show ?thesis by (simp add: wp_simps)
  next
    case True
    have Q: "\<And>v. ?Q v \<Longrightarrow> w_id v = w_id w" by (simp add: covers_def)
    have one: "filter ?Q (wallets s) = [w]"
      using ws by (intro filter_one[where key = w_id] win(1) True) (simp add: wallets_ok_def, rule Q)
    have ok: "wallets_ok (upd_where ?Q ?g (wallets s))"
      by (rule wallets_ok_upd[OF ws]) (auto simp: covers_def intro: dec_dec_mono dec_dec_nonneg)
    have cov: "covered (upd_where ?Q ?g (wallets s)) (upd_where ?P ?f (withdrawals s))"
      by (rule covered_settle[OF withdraw_invD(3)[OF inv] rows ws win(2) row(1)])
        (simp_all add: Q paid_change.change_reserved[OF rows row wd(2)])
    have "few_recent ?t2"
      by (rule few_recent_upd[OF withdraw_invD(5)[OF inv], of ?P ?f]) (auto simp: open_withdrawal_def)
    then have inv2: "withdraw_inv ?t2"
      using ok cov inv by (simp add: withdraw_inv_def paid_change.change_rows paid_change.change_calls)
    have tot: "total ?t2 = total s - debit_units (wd_amount wd)"
      using settle_total[where Q = ?Q and w = w and g = ?g, OF ws win(1) True Q] True by (simp add: total_wallets covers_def dec_units)
    have later: "rows_later (withdrawals s) (withdrawals ?t2)"
      using paid_change.change_later[OF rows row(1) refl, of "now s"] withdraw_edge.paid[OF wd(2)] by (auto simp: r_into_rtranclp)
    have paid: "paid_out (withdrawals ?t2) = paid_out (withdrawals s) + (debit_units (wd_amount wd) - to_units (wd_fee wd))"
      using paid_change.change_paid[OF rows row wd(2)] by simp
    have calm: "safe_op withdraw_inv withdraw_calm (case txn of
          None \<Rightarrow> ret ()
        | Some x \<Rightarrow> thn (txn_status_update (t_id x) Completed)
            (thn (meta_update (wd_ref wd) (success_meta wd)) (ledger_create (le x))))"
      by (intro withdraw_calms)
    show ?thesis
      unfolding one one_row if_False
      by (rule wp_mono[OF fee_after_wp[OF calm inv2 amt(2)]]) (use later paid tot in \<open>simp_all add: withdraw_rel_def\<close>)
  qed
  moreover have "length (filter ?P (withdrawals s)) = 1" by (rule paid_change.change_count[OF rows row])
  ultimately show ?thesis
    unfolding complete_tx_def by (simp add: wp_transaction wp_bnd wp_gets wp_update_many roll)
qed

lemma dec_dec_shrinks: "0 \<le> n \<Longrightarrow> 0 \<le> x \<Longrightarrow> dec_dec n x \<le> n"
  using dec_dec_le[of n x] by simp

lemma reject_rel:
  assumes inv: "withdraw_inv s" and wd: "withdrawal_by_ref s r = Some wd" "wd_status wd \<in> {WPending, WProcessing}"
    and w: "active_wallet s (wd_user wd) = Some w"
  shows "wp (reject_tx wd txn w reason) (\<lambda>_. withdraw_rel s) (\<lambda>_. withdraw_rel s) s"
proof -
  let ?P = "open_withdrawal (wd_ref wd)" and ?Q = "\<lambda>x. w_id x = w_id w"
  let ?f = "\<lambda>x. x\<lparr>wd_status := WFailed, wd_reason := Some reason, wd_updated := now s\<rparr>" and ?g = "release_lock (wd_amount wd)"
  let ?t1 = "withdrawals_update (upd_where ?P ?f) s"
  let ?t2 = "wallets_update (upd_where ?Q ?g) ?t1"
  have row: "wd \<in> set (withdrawals s)" "?P wd" using withdrawal_found[OF wd(1)] wd(2) by (auto simp: open_withdrawal_def)
  have rows: "wd_rows_ok (seq s) (withdrawals s)" and ws: "wallets_ok (wallets s)" using inv by (simp_all add: withdraw_invD)
  have amt: "0 \<le> wd_amount wd" using rows row(1) by (auto simp: wd_rows_ok_def list_all_iff)
  have win: "w \<in> set (wallets s)" "active_in (wallets s) (wd_user wd) = Some w"
    using w active_in_Some[of "wallets s" "wd_user wd" w] by (auto simp: active_wallet_in)
  have roll: "withdraw_rel s (s\<lparr>fee_cache := c\<rparr>)" for c using withdraw_same[OF inv] by (simp add: withdraw_calm_def)
  have Q: "\<And>v. ?Q v \<Longrightarrow> w_id v = w_id w" by simp
  have ok: "wallets_ok (upd_where ?Q ?g (wallets s))"
    by (rule wallets_ok_upd[OF ws]) (use amt in \<open>auto intro: order_trans[OF dec_dec_shrinks]\<close>)
  have cov: "covered (upd_where ?Q ?g (wallets s)) (upd_where ?P ?f (withdrawals s))"
    by (rule covered_settle[OF withdraw_invD(3)[OF inv] rows ws win(2) row(1)])
      (simp_all add: refused_change.change_reserved[OF rows row wd(2)])
  have "few_recent ?t2"
    by (rule few_recent_upd[OF withdraw_invD(5)[OF inv], of ?P ?f]) (auto simp: open_withdrawal_def)
  then have inv2: "withdraw_inv ?t2"
    using ok cov inv by (simp add: withdraw_inv_def refused_change.change_rows refused_change.change_calls)
  have tot: "total ?t2 = total s"
    using settle_total[where Q = ?Q and w = w and g = ?g, OF ws win(1) refl Q] by (simp add: total_wallets)
  have later: "rows_later (withdrawals s) (withdrawals ?t2)"
    using refused_change.change_later[OF rows row(1) refl, of "now s"] withdraw_edge.refused[OF wd(2)] by (auto simp: r_into_rtranclp)
  have "paid_out (withdrawals ?t2) = paid_out (withdrawals s)"
    using refused_change.change_paid[OF rows row wd(2)] by simp
  with inv2 later tot have rel: "withdraw_rel s ?t2" by (simp add: withdraw_rel_def)
  have calm: "safe_op withdraw_inv withdraw_calm (thn (case txn of
        None \<Rightarrow> ret ()
      | Some x \<Rightarrow> thn (txn_status_update (t_id x) Failed) (meta_update (wd_ref wd) (failure_meta wd reason))) (ret True))"
    by (intro withdraw_calms)
  have "wp (thn (case txn of
        None \<Rightarrow> ret ()
      | Some x \<Rightarrow> thn (txn_status_update (t_id x) Failed) (meta_update (wd_ref wd) (failure_meta wd reason))) (ret True))
      (\<lambda>_. withdraw_rel s) (\<lambda>_ _. True) ?t2"
    by (rule wp_mono[OF wdr.safe_from[OF wdr.calm_safe[OF calm] inv rel]]) simp_all
  moreover have "length (filter ?P (withdrawals s)) = 1" by (rule refused_change.change_count[OF rows row])
  ultimately show ?thesis
    unfolding reject_tx_def by (simp add: wp_transaction wp_bnd wp_gets wp_update_many roll)
qed

text \<open>What follows a settlement touches neither wallets nor withdrawals.\<close>

lemma markAsSuccess_safe: "safe_op withdraw_inv withdraw_rel (markAsSuccess r)"
proof (rule wdr.safeI)
  fix s :: "'a withdraw_db_scheme"
  assume s: "withdraw_inv s"
  have rest: "safe_op withdraw_inv withdraw_rel (if \<not> d then ret False
      else thn (withdraw_announce u x) (thn (emit e) (ret True)))" for d u x e
    by (intro wdr.calm_safe withdraw_calms)
  show "wp (markAsSuccess r) (\<lambda>_. withdraw_rel s) (\<lambda>_. withdraw_rel s) s"
    unfolding markAsSuccess_def wp_bnd[of "gets _"] wp_gets
    using s by (auto simp: wp_ret wp_bnd[of "gets _"] wp_gets wdr.rel_refl
        intro!: wdr.safe_after complete_rel rest split: option.splits)
      (metis withdraw_status.exhaust)+
qed

lemma rejectWithdrawal_safe: "safe_op withdraw_inv withdraw_rel (rejectWithdrawal r reason)"
proof (rule wdr.safeI)
  fix s :: "'a withdraw_db_scheme"
  assume s: "withdraw_inv s"
  have rest: "safe_op withdraw_inv withdraw_rel (if \<not> d then ret False
      else thn (withdraw_announce u x) (thn (emit e) (ret True)))" for d u x e
    by (intro wdr.calm_safe withdraw_calms)
  show "wp (rejectWithdrawal r reason) (\<lambda>_. withdraw_rel s) (\<lambda>_. withdraw_rel s) s"
    unfolding rejectWithdrawal_def wp_bnd[of "gets _"] wp_gets
    using s by (auto simp: wp_ret wp_bnd[of "gets _"] wp_gets wdr.rel_refl
        intro!: wdr.safe_after reject_rel rest split: option.splits)
      (metis withdraw_status.exhaust)+
qed

lemmas withdraw_safes = wdr.safe_rules markAsSuccess_safe rejectWithdrawal_safe withdraw_calms[THEN wdr.calm_safe]

lemma admin_withdrawal_safe:
  "safe_op withdraw_inv withdraw_rel (adminApproveWithdrawal i)"
  "safe_op withdraw_inv withdraw_rel (adminRejectWithdrawal i reason)"
  "safe_op withdraw_inv withdraw_rel (refundLegacyWithdrawal i note)"
  unfolding adminApproveWithdrawal_def adminRejectWithdrawal_def refundLegacyWithdrawal_def
  by (intro withdraw_safes)+

lemma verify_calm: "safe_op withdraw_inv withdraw_calm (verifyNowpaymentsCryptoWithdrawal r admin answer)"
  unfolding verifyNowpaymentsCryptoWithdrawal_def by (intro withdraw_calms)

lemma recordPayoutCreated_calm: "safe_op withdraw_inv withdraw_calm (recordPayoutCreated r p admin code verified)"
  unfolding recordPayoutCreated_def by (intro withdraw_calms verify_calm)

lemma reconcileNowpaymentsPayoutWebhook_safe:
  "safe_op withdraw_inv withdraw_rel (reconcileNowpaymentsPayoutWebhook i answer)"
  unfolding reconcileNowpaymentsPayoutWebhook_def by (intro withdraw_safes)

lemma refresh_safe:
  "safe_op withdraw_inv withdraw_rel (refresh_crypto r a)" "safe_op withdraw_inv withdraw_rel (refresh_transfer r x)"
  unfolding refresh_crypto_def refresh_transfer_def by (intro withdraw_safes)+

lemma getWithdrawalStatus_safe: "safe_op withdraw_inv withdraw_rel (getWithdrawalStatus r u A)"
  unfolding getWithdrawalStatus_def by (intro withdraw_safes refresh_safe)

section \<open>One call to the provider\<close>

lemma touch_safe: "safe_op withdraw_inv withdraw_rel
  (update_many withdrawals withdrawals_update P (\<lambda>x. x\<lparr>wd_updated := t\<rparr>))"
proof (rule wdr.safeI)
  fix s :: "'a withdraw_db_scheme"
  assume s: "withdraw_inv s"
  let ?f = "\<lambda>x. x\<lparr>wd_updated := t\<rparr>"
  let ?t = "withdrawals_update (upd_where P ?f) s"
  have same: "map g (upd_where P ?f wds) = map g wds" if "\<And>w. g (?f w) = g w" for g :: "withdrawal \<Rightarrow> 'b" and wds
    using that by simp
  have "reserved (upd_where P ?f wds) u = reserved wds u" for wds u
    unfolding reserved_def by (rule arg_cong[of _ _ sum_list], rule same) auto
  moreover have "paid_out (upd_where P ?f wds) = paid_out wds" for wds
    unfolding paid_out_def by (rule arg_cong[of _ _ sum_list], rule same) auto
  moreover have "wd_rows_ok (seq s) (upd_where P ?f (withdrawals s))"
    using withdraw_invD(2)[OF s] unfolding wd_rows_ok_def list_all_iff ball_upd_where by simp
  moreover have "calls_ok (seq s) (upd_where P ?f (withdrawals s)) (map call_ref (payout_calls s))"
    using withdraw_invD(4)[OF s] unfolding calls_ok_def ball_upd_where by simp
  moreover have "rows_later (withdrawals s) (withdrawals ?t)"
    by (auto simp: rows_later_def find_row_upd_where)
  moreover have "few_recent ?t" by (rule few_recent_upd[OF withdraw_invD(5)[OF s], of P ?f]) simp_all
  ultimately have "withdraw_rel s ?t" using s by (simp add: withdraw_rel_def withdraw_inv_def covered_def total_wallets)
  then show "wp (update_many withdrawals withdrawals_update P ?f) (\<lambda>_. withdraw_rel s) (\<lambda>_. withdraw_rel s) s"
    by (simp add: wp_update_many)
qed

text \<open>A claimed withdrawal that no provider was asked to pay yet.\<close>

definition callable :: "nat \<Rightarrow> wallet list \<times> withdrawal list \<times> payout_call list \<Rightarrow> bool" where
  "callable r v \<longleftrightarrow> (case v of (ws, wds, calls) \<Rightarrow> (\<exists>w\<in>set wds. wd_ref w = r)
     \<and> (\<forall>w\<in>set wds. wd_ref w = r \<longrightarrow> wd_status w \<noteq> WPending) \<and> r \<notin> set (map call_ref calls))"

lemma claim_wp:
  assumes s: "withdraw_inv s"
  shows "wp (update_many withdrawals withdrawals_update (\<lambda>w. wd_ref w = r \<and> wd_status w = WPending)
      (\<lambda>w. w\<lparr>wd_status := WProcessing, wd_updated := t\<rparr>))
    (\<lambda>n u. withdraw_rel s u \<and> (n = 1 \<longrightarrow> callable r (wview u))) (\<lambda>_. withdraw_rel s) s"
proof -
  let ?P = "\<lambda>w. wd_ref w = r \<and> wd_status w = WPending" and ?f = "\<lambda>w. w\<lparr>wd_status := WProcessing, wd_updated := t\<rparr>"
  let ?t = "withdrawals_update (upd_where ?P ?f) s"
  have rows: "wd_rows_ok (seq s) (withdrawals s)" using s by (rule withdraw_invD)
  show ?thesis
  proof (cases "\<exists>wd\<in>set (withdrawals s). ?P wd")
    case False
    then have "filter ?P (withdrawals s) = []" by (simp add: filter_empty_conv)
    moreover have "upd_where ?P ?f (withdrawals s) = withdrawals s"
      using False unfolding upd_where_def by (intro map_idI) auto
    then have "?t = s" by simp
    ultimately show ?thesis using s by (simp add: wp_update_many wdr.rel_refl)
  next
    case True
    then obtain wd where wd: "wd \<in> set (withdrawals s)" "?P wd" by blast
    then have st: "wd_status wd \<in> {WPending, WProcessing}" by simp
    have "covered (wallets s) (upd_where ?P ?f (withdrawals s))"
      using withdraw_invD(3)[OF s] claim_change.change_reserved[OF rows wd st] by (simp add: covered_def)
    moreover have "few_recent ?t" by (rule few_recent_upd[OF withdraw_invD(5)[OF s], of ?P ?f]) auto
    ultimately have "withdraw_inv ?t"
      using s by (simp add: withdraw_inv_def claim_change.change_rows claim_change.change_calls)
    moreover have "rows_later (withdrawals s) (withdrawals ?t)"
      using claim_change.change_later[OF rows wd(1), of r t] wd(2) claimed by (simp add: r_into_rtranclp)
    moreover have "paid_out (withdrawals ?t) = paid_out (withdrawals s)"
      using claim_change.change_paid[OF rows wd st] by simp
    ultimately have "withdraw_rel s ?t" by (simp add: withdraw_rel_def total_wallets)
    moreover have "r \<notin> set (map call_ref (payout_calls s))"
      using withdraw_invD(4)[OF s] wd unfolding calls_ok_def by blast
    then have "callable r (wview ?t)"
      using wd by (auto simp: callable_def wview_def in_upd_where ball_upd_where split: if_splits)
    ultimately show ?thesis by (simp add: wp_update_many)
  qed
qed

lemma call_safe:
  assumes "call_ref c = r"
  shows "safe_op (\<lambda>s. withdraw_inv s \<and> callable r (wview s)) withdraw_rel (call_provider c)"
  unfolding safe_op_def
proof (intro allI impI, elim conjE)
  fix s :: "'a withdraw_db_scheme"
  assume s: "withdraw_inv s" "callable r (wview s)"
  let ?t = "s\<lparr>payout_calls := payout_calls s @ [c]\<rparr>"
  have "r < seq s" using withdraw_invD(2)[OF s(1)] s(2) by (auto simp: callable_def wview_def wd_rows_ok_def list_all_iff)
  then have "calls_ok (seq s) (withdrawals s) (map call_ref (payout_calls s) @ [r])"
    using withdraw_invD(4)[OF s(1)] s(2) by (auto simp: calls_ok_def callable_def wview_def)
  moreover have "few_recent ?t" by (rule few_recent_same[OF withdraw_invD(5)[OF s(1)]]) simp_all
  ultimately have "withdraw_rel s ?t" using s(1) assms by (simp add: withdraw_rel_def withdraw_inv_def rows_later_refl total_wallets)
  then show "wp (call_provider c) (\<lambda>_. withdraw_rel s) (\<lambda>_. withdraw_rel s) s" by (simp add: call_provider_def wp_modify)
qed

lemma safe_op_case_sum: "(\<And>e. safe_op J R (f e)) \<Longrightarrow> (\<And>a. safe_op J R (g a)) \<Longrightarrow> safe_op J R (case x of Inl e \<Rightarrow> f e | Inr a \<Rightarrow> g a)"
  by (simp split: sum.split)

lemma transfer_answer_safe: "safe_op withdraw_inv withdraw_rel (case answer of
    TransferSent code st \<Rightarrow> meta_update r (f code st)
  | TransferUnknown x \<Rightarrow> meta_update r g
  | TransferRefused x \<Rightarrow> bnd (rejectWithdrawal r (h x)) (\<lambda>_. ret ()))"
  by (cases answer) (auto intro: withdraw_safes)

lemma transfer_withdrawal_safe:
  "safe_op (\<lambda>s. withdraw_inv s \<and> callable (wd_ref wd) (wview s)) withdraw_rel (transfer_withdrawal wd recipient kes answer)"
  unfolding transfer_withdrawal_def Let_def
  by (intro safe_op_if safe_op_case_sum wdr.calm_bnd wdr.calm.safe_gets wdr.under_thn call_safe transfer_answer_safe
      wdr.under_weaken[OF wdr.safe_bnd] rejectWithdrawal_safe wdr.safe_ret) simp

lemma processWithdrawal_safe: "safe_op withdraw_inv withdraw_rel (processWithdrawal r recipient kes answer)"
proof (rule wdr.safeI)
  fix s :: "'a withdraw_db_scheme"
  assume s: "withdraw_inv s"
  show "wp (processWithdrawal r recipient kes answer) (\<lambda>_. withdraw_rel s) (\<lambda>_. withdraw_rel s) s"
    unfolding processWithdrawal_def wp_bnd[of "gets _"] wp_gets
    using s by (auto simp: wp_ret wdr.rel_refl wp_bnd wp_gets dest!: withdrawal_found intro!: wp_mono[OF claim_wp[OF s]] split: option.split)
      (rule wdr.underD[OF transfer_withdrawal_safe s]; assumption)
qed


lemma create_payout_safe:
  "safe_op (\<lambda>s. withdraw_inv s \<and> callable r (wview s)) withdraw_rel (create_payout r m admin A)"
proof -
  have "safe_op withdraw_inv withdraw_rel (case pa_created A of
      Inl e \<Rightarrow> thn (meta_update r f) (throw x) | Inr p \<Rightarrow> recordPayoutCreated r p admin (pa_code A) (pa_verified A))" for f x
    by (intro safe_op_case_sum withdraw_safes wdr.calm_safe[OF recordPayoutCreated_calm])
  then show ?thesis unfolding create_payout_def by (intro wdr.under_thn call_safe) simp_all
qed

lemma claim_tx_wp:
  assumes s: "withdraw_inv s"
  shows "wp (transaction (bnd (update_many withdrawals withdrawals_update (\<lambda>w. wd_ref w = r \<and> wd_status w = WPending)
      (\<lambda>w. w\<lparr>wd_status := WProcessing, wd_updated := t\<rparr>)) (\<lambda>count.
      if count \<noteq> 1 then ret False else thn (meta_update r f) (ret True))))
    (\<lambda>b u. withdraw_rel s u \<and> (b \<longrightarrow> callable r (wview u))) (\<lambda>_. withdraw_rel s) s"
proof -
  have "wp (thn (meta_update r f) (ret True)) (\<lambda>b u. withdraw_rel s u \<and> (b \<longrightarrow> callable r (wview u))) E u"
    if "withdraw_rel s u" "callable r (wview u)" for u E
  proof -
    have "withdraw_calm u (u\<lparr>payout_metas := upd_row wm_ref r f (payout_metas u)\<rparr>)"
      using wdr.rel_inv[OF s that(1)] by (rule withdraw_same) simp_all
    then show ?thesis using that wdr.rel_trans[OF that(1)] by (simp add: wp_simps meta_update_def withdraw_calm_def)
  qed
  moreover have "withdraw_rel s (s\<lparr>fee_cache := c\<rparr>)" for c using withdraw_same[OF s] by (simp add: withdraw_calm_def)
  ultimately show ?thesis
    unfolding wp_transaction wp_bnd by (auto simp: wp_ret intro!: wp_mono[OF claim_wp[OF s]])
qed

lemma submitNowpaymentsPayout_safe: "safe_op withdraw_inv withdraw_rel (submitNowpaymentsPayout r admin A)"
proof (rule wdr.safeI)
  fix s :: "'a withdraw_db_scheme"
  assume s: "withdraw_inv s"
  have retry: "safe_op withdraw_inv withdraw_rel (retry_payout r admin A)"
    unfolding retry_payout_def by (intro withdraw_safes wdr.calm_safe[OF recordPayoutCreated_calm])
  show "wp (submitNowpaymentsPayout r admin A) (\<lambda>_. withdraw_rel s) (\<lambda>_. withdraw_rel s) s"
    unfolding submitNowpaymentsPayout_def wp_bnd[of "gets _"] wp_gets
    using wdr.safeD[OF retry s] wdr.rel_refl[OF s] by (auto simp: wp_ret wp_throw wp_bnd[of "transaction _"] simp del: One_nat_def split: option.split
        intro!: wp_mono[OF claim_tx_wp[OF s]])
      (rule wdr.underD[OF create_payout_safe s]; assumption)
qed

lemma each_safe: "(\<And>x. safe_op withdraw_inv withdraw_rel (f x)) \<Longrightarrow> safe_op withdraw_inv withdraw_rel (each f xs)"
  by (induction xs) (auto intro: wdr.safe_ret wdr.safe_thn)

lemma recheck_safe:
  "safe_op withdraw_inv withdraw_rel (recheck_transfer A w)"
  "safe_op withdraw_inv withdraw_rel (recheck_payout B (r, m))"
  unfolding recheck_transfer_def recheck_payout_def prod.case
  by (intro withdraw_safes touch_safe getWithdrawalStatus_safe reconcileNowpaymentsPayoutWebhook_safe
      submitNowpaymentsPayout_safe wdr.calm_safe[OF recordPayoutCreated_calm])+

lemma reconcile_safe:
  "safe_op withdraw_inv withdraw_rel (reconcilePendingPaystackWithdrawals A)"
  "safe_op withdraw_inv withdraw_rel (reconcileNowpaymentsPayouts B)"
proof -
  have "safe_op withdraw_inv withdraw_rel (recheck_payout B x)" for x by (cases x) (simp add: recheck_safe)
  then show "safe_op withdraw_inv withdraw_rel (reconcileNowpaymentsPayouts B)"
    unfolding reconcileNowpaymentsPayouts_def by (intro withdraw_safes each_safe withdraw_calms)
  show "safe_op withdraw_inv withdraw_rel (reconcilePendingPaystackWithdrawals A)"
    unfolding reconcilePendingPaystackWithdrawals_def by (intro withdraw_safes each_safe withdraw_calms recheck_safe)
qed

section \<open>A new withdrawal\<close>

definition ready :: "nat \<Rightarrow> nat \<Rightarrow> wallet \<Rightarrow> 'a withdraw_db_scheme \<Rightarrow> bool" where
  "ready r u w s \<longleftrightarrow> active_in (wallets s) u = Some w \<and> r < seq s \<and> r \<notin> wd_ref ` set (withdrawals s)
     \<and> r \<notin> set (map call_ref (payout_calls s))"

lemma reserved_append: "reserved (wds @ [x]) u
    = reserved wds u + (if wd_user x = u \<and> wd_status x \<in> {WPending, WProcessing} then to_units (wd_amount x) else 0)"
  by (simp add: reserved_def)

lemma paid_append: "paid_out (wds @ [x])
    = paid_out wds + (if wd_status x = WCompleted then debit_units (wd_amount x) - to_units (wd_fee x) else 0)"
  by (simp add: paid_out_def)

lemma lock_wp:
  assumes s: "withdraw_inv s" and w: "active_in (wallets s) u = Some w" and amount: "0 < amount"
  shows "wp (lockFundsInTx (w_id w) u amount)
    (\<lambda>_ t. wallets_ok (wallets t) \<and> total t = total s \<and> withdrawals t = withdrawals s \<and> payout_calls t = payout_calls s
      \<and> seq t = seq s \<and> now t = now s \<and> env_max_count t = env_max_count s
      \<and> (fst (withdrawalDailyLimits s) > 0 \<longrightarrow> of_nat (length (recent_withdrawals s u)) + 1 \<le> fst (withdrawalDailyLimits s))
      \<and> (\<forall>v x. active_in (wallets t) v = Some x
          \<longrightarrow> reserved (withdrawals s) v + (if v = u then to_units amount else 0) \<le> w_locked x)) (\<lambda>_ _. True) s"
proof -
  let ?P = "lockable (w_id w) amount" and ?g = "inc_locked amount"
  let ?t = "wallets_update (upd_where ?P ?g) s"
  have ws: "wallets_ok (wallets s)" and pos: "0 \<le> amount" using s amount by (simp_all add: withdraw_invD)
  have win: "w \<in> set (wallets s)" using active_in_Some[OF w] by simp
  have only: "v = w" if "v \<in> set (wallets s)" "?P v" for v
    using that wallet_unique[OF ws _ win] by (simp add: lockable_def)
  have ok: "wallets_ok (upd_where ?P ?g (wallets s))"
    by (rule wallets_ok_upd[OF ws])
      (use pos in \<open>auto simp: inc_locked_def lockable_def intro: order_trans[OF _ dec_inc_ge] intro!: dec_inc_le\<close>)
  have grow: "dec_inc n amount = n + to_units amount" if "0 \<le> n" for n by (rule inc_units[OF that pos])
  have lock: "reserved (withdrawals s) v + (if v = u then to_units amount else 0) \<le> w_locked x"
    if one: "?P w" and x: "active_in (wallets ?t) v = Some x" for v x
  proof -
    obtain x0 where x0: "active_in (wallets s) v = Some x0" "x = (if ?P x0 then ?g x0 else x0)"
      using x by (auto simp: active_upd_where inc_locked_def)
    have le: "reserved (withdrawals s) v \<le> w_locked x0" "0 \<le> w_locked x0"
      using withdraw_invD(3)[OF s] ws x0(1) active_in_Some[OF x0(1)] by (auto simp: covered_def wallets_ok_def list_all_iff)
    show ?thesis
    proof (cases "v = u")
      case True
      then have "x0 = w" using x0(1) w by simp
      then show ?thesis using one True le grow[of "w_locked x0"] by (simp add: x0(2) inc_locked_def)
    next
      case False
      then have "x0 \<noteq> w" using active_in_Some[OF x0(1)] active_in_Some[OF w] by auto
      then have "\<not> ?P x0" using only active_in_Some[OF x0(1)] by blast
      then show ?thesis using False le by (simp add: x0(2))
    qed
  qed
  have tot: "total ?t = total s"
  proof -
    have "map w_balance (upd_where ?P ?g (wallets s)) = map w_balance (wallets s)" by (rule map_upd_where) (simp add: inc_locked_def)
    then show ?thesis by (simp only: total_wallets) simp
  qed
  have some: "?P w" if "length (filter ?P (wallets s)) = 1"
  proof -
    from that have "filter ?P (wallets s) \<noteq> []" by auto
    then obtain v where "v \<in> set (wallets s)" "?P v" by (auto simp: filter_empty_conv)
    then show ?thesis using only by blast
  qed
  show ?thesis
    unfolding lockFundsInTx_def wp_bnd wp_update_many
    using lock[OF some] ok tot by (auto simp: wp_simps withdrawalDailyLimits_def recent_withdrawals_def not_less)
qed

lemma reserve_wp:
  assumes s: "withdraw_inv s" and r: "ready r u w s" and amount: "0 < amount"
    and mk: "\<And>i t. wd_ref (mk i t) = r \<and> wd_user (mk i t) = u \<and> wd_amount (mk i t) = amount \<and> 0 \<le> wd_fee (mk i t) \<and> wd_status (mk i t) = WPending"
  shows "wp (reserve_tx (w_id w) u amount r mk mk_txn m) (\<lambda>_. withdraw_rel s) (\<lambda>_. withdraw_rel s) s"
proof -
  have roll: "withdraw_rel s (s\<lparr>fee_cache := c\<rparr>)" for c using withdraw_same[OF s] by (simp add: withdraw_calm_def)
  have new: "withdraw_rel s t'"
    if ok: "wallets_ok (wallets t)" and tot: "total t = total s" and same: "withdrawals t = withdrawals s" "payout_calls t = payout_calls s" "seq t = seq s"
        "now t = now s" "env_max_count t = env_max_count s"
      and few: "fst (withdrawalDailyLimits s) > 0 \<longrightarrow> of_nat (length (recent_withdrawals s u)) + 1 \<le> fst (withdrawalDailyLimits s)"
      and lock: "\<forall>v x. active_in (wallets t) v = Some x \<longrightarrow> reserved (withdrawals s) v + (if v = u then to_units amount else 0) \<le> w_locked x"
      and t': "wallets t' = wallets t" "withdrawals t' = withdrawals s @ [mk i x]" "payout_calls t' = payout_calls s" "seq s \<le> seq t'"
        "now t' = now s" "env_max_count t' = env_max_count s" for t t' i x
  proof -
    have "wd_rows_ok (seq t') (withdrawals t')"
      using wd_rows_ok_mono[OF withdraw_invD(2)[OF s] t'(4)] r mk[of i x] amount t'(4) by (auto simp: t'(2) wd_rows_ok_def ready_def)
    moreover have "reserved (withdrawals t') v \<le> w_locked y" if "active_in (wallets t) v = Some y" for v y
      using lock[rule_format, OF that] mk[of i x] by (auto simp: t'(2) reserved_append split: if_splits)
    then have "covered (wallets t') (withdrawals t')" by (simp add: covered_def t'(1))
    moreover have "calls_ok (seq t') (withdrawals t') (map call_ref (payout_calls t'))"
      using calls_ok_mono[OF withdraw_invD(4)[OF s] t'(4)] r mk[of i x] by (auto simp: t'(2,3) calls_ok_def ready_def)
    moreover have "rows_later (withdrawals s) (withdrawals t')"
      by (auto simp: rows_later_def t'(2) find_row_append)
    moreover have "few_recent t'"
      using few withdraw_invD(5)[OF s] mk[of i x] by (auto simp: few_recent_def recent_withdrawals_def withdrawalDailyLimits_def t'(2,5,6))
    ultimately show ?thesis
      using ok tot mk[of i x] by (simp add: withdraw_rel_def withdraw_inv_def t'(1) paid_append t'(2) total_wallets)
  qed
  have act: "active_in (wallets s) u = Some w" using r by (simp add: ready_def)
  show ?thesis
    unfolding reserve_tx_def wp_transaction wp_thn[of "lockFundsInTx _ _ _"]
    by (rule wp_mono[OF lock_wp[OF s act amount]]) (auto simp: wp_simps roll intro!: new)
qed


text \<open>Everything before the reference is drawn is neutral, or has found the wallet.\<close>

lemma fresh_ready:
  assumes "\<And>r s. withdraw_inv s \<Longrightarrow> ready r u w s \<Longrightarrow> wp (k r) (\<lambda>_. withdraw_rel s) (\<lambda>_. withdraw_rel s) s"
  shows "safe_op (\<lambda>s. withdraw_inv s \<and> active_in (fst (wview s)) u = Some w) withdraw_rel (bnd fresh k)"
  unfolding safe_op_def
proof (intro allI impI, elim conjE)
  fix s :: "'a withdraw_db_scheme"
  assume s: "withdraw_inv s" "active_in (fst (wview s)) u = Some w"
  let ?t = "s\<lparr>seq := Suc (seq s)\<rparr>"
  have "withdraw_calm s ?t" by (rule withdraw_same[OF s(1)]) simp_all
  then have rel: "withdraw_rel s ?t" by (simp add: withdraw_calm_def)
  have "ready (seq s) u w ?t"
    using s(2) withdraw_invD(2,4)[OF s(1)] by (auto simp: ready_def wview_def wd_rows_ok_def list_all_iff calls_ok_def)
  then have "wp (k (seq s)) (\<lambda>_. withdraw_rel ?t) (\<lambda>_. withdraw_rel ?t) ?t"
    using assms wdr.rel_inv[OF s(1) rel] by blast
  then have "wp (k (seq s)) (\<lambda>_. withdraw_rel s) (\<lambda>_. withdraw_rel s) ?t"
    by (rule wp_mono) (use wdr.rel_trans[OF rel] in blast)+
  then show "wp (bnd fresh k) (\<lambda>_. withdraw_rel s) (\<lambda>_. withdraw_rel s) s" by (simp add: wp_bnd wp_fresh)
qed

lemma active_wallet_view: "active_wallet s u = active_in (fst (wview s)) u"
  by (simp add: active_wallet_in wview_def)

lemma safe_op_case_option_eq:
  "(x = None \<Longrightarrow> safe_op (J None) R m) \<Longrightarrow> (\<And>a. x = Some a \<Longrightarrow> safe_op (J (Some a)) R (f a))
    \<Longrightarrow> safe_op (J x) R (case x of None \<Rightarrow> m | Some a \<Rightarrow> f a)"
  by (cases x) simp_all

lemma fee_then:
  assumes "\<And>rl. safe_op (\<lambda>s. withdraw_inv s \<and> G (wview s)) withdraw_rel (g (computeFee rl amount dp))"
  shows "safe_op (\<lambda>s. withdraw_inv s \<and> G (wview s)) withdraw_rel (bnd (feeFor f amount dp) g)"
  unfolding safe_op_def wp_bnd wp_feeFor
proof (intro allI impI, elim conjE)
  fix s :: "'a withdraw_db_scheme"
  assume s: "withdraw_inv s" "G (wview s)"
  have "withdraw_calm s (s\<lparr>fee_cache := next_cache s\<rparr>)" by (rule withdraw_same[OF s(1)]) simp_all
  then show "wp (g (computeFee (rule_in s f) amount dp)) (\<lambda>_. withdraw_rel s) (\<lambda>_. withdraw_rel s) (s\<lparr>fee_cache := next_cache s\<rparr>)"
    using s by (intro wdr.underD[OF assms s(1)]) (simp_all add: withdraw_calm_def)
qed

lemma createBankWithdrawal_safe:
  "safe_op withdraw_inv withdraw_rel (createBankWithdrawal X u dto pre kes :: ('a withdraw_db_scheme, withdrawal) op)"
proof -
  have k: "wp (bnd (of_sum kes) (\<lambda>rate. if rate \<le> 0 then throw e
      else bnd (reserve_tx (w_id w) u amount r (\<lambda>i t. new_withdrawal i r u amount (computeFee rl amount 8) net dto t)
        (mk rate) (m rate)) (\<lambda>c. thn (withdraw_announce u x) (ret c)))) (\<lambda>_. withdraw_rel s) (\<lambda>_. withdraw_rel s) s"
    if "withdraw_inv s" "ready r u w s" "0 < amount" for s :: "'a withdraw_db_scheme" and r w amount e rl net mk m x
    unfolding wp_bnd[of "of_sum _"]
    by (rule of_sum_wp, simp_all only: wp_if wp_throw if_split)
      (auto simp: wdr.rel_refl that(1) new_withdrawal_def computeFee_nonneg
        intro!: wdr.safe_after[OF that(1) reserve_wp[OF that]] wdr.calm_safe withdraw_calms)
  have found: "safe_op (\<lambda>s :: 'a withdraw_db_scheme. withdraw_inv s \<and> active_in (fst (wview s)) u = Some w) withdraw_rel
      (if b then throw e else (case c of Some e \<Rightarrow> throw e | None \<Rightarrow>
        bnd (feeFor Withdrawal amount 8) (\<lambda>charge. bnd fresh (\<lambda>r. bnd (of_sum kes) (\<lambda>rate. if rate \<le> 0 then throw e'
          else bnd (reserve_tx (w_id w) u amount r (\<lambda>i t. new_withdrawal i r u amount charge (net charge) dto t)
            (mk charge r rate) (m charge r rate)) (\<lambda>c. thn (withdraw_announce u x) (ret c)))))))"
    if "0 < amount" for w amount b e c e' net mk m x
    using that by (intro safe_op_if safe_op_case_option wdr.under_weaken[OF wdr.safe_throw]
        fee_then[where G = "\<lambda>v. active_in (fst v) u = Some w"] fresh_ready k)
  show ?thesis
    unfolding createBankWithdrawal_def active_wallet_view Let_def
    by (intro wdr.safe_thn wdr.safe_case_option wdr.safe_if_cond wdr.safe_throw withdraw_calm_pin[THEN wdr.calm_safe]
        wdr.gets_view safe_op_case_option_eq found wdr.under_weaken[OF wdr.safe_throw]) simp
qed

lemma crypto_checks_wp:
  assumes s: "withdraw_inv s"
  shows "wp (crypto_checks A u dto usd)
    (\<lambda>q t. withdraw_calm s t \<and> active_in (wallets s) u = Some (cq_wallet q) \<and> 0 < cq_amount q \<and> 0 \<le> cq_fee q)
    (\<lambda>_. withdraw_calm s) s"
proof -
  have "withdraw_calm s s" "withdraw_calm s (s\<lparr>fee_cache := c\<rparr>)" for c by (rule withdraw_same[OF s]; simp)+
  then show ?thesis
    unfolding crypto_checks_def Let_def
    by (auto simp: wp_simps active_wallet_in computeFee_nonneg not_le intro!: of_sum_wp split: option.split)
qed

lemma createNowpaymentsCryptoWithdrawal_safe:
  "safe_op withdraw_inv withdraw_rel (createNowpaymentsCryptoWithdrawal X A u dto pre usd :: ('a withdraw_db_scheme, withdrawal) op)"
proof -
  let ?k = "\<lambda>q r :: nat. (bnd (reserve_tx (w_id (cq_wallet q)) u (cq_amount q) r (\<lambda>i t. crypto_withdrawal i r u q dto t)
          (withdrawal_txn r (w_id (cq_wallet q)) u (cq_amount q) (cq_fee q) (cq_settlement q))
          (crypto_meta r (cq_currency q) (cq_address q) (wr_extra dto) (cq_payout q) (cq_network_fee q))) (\<lambda>created.
      thn (withdraw_announce u (fl (available_num (cq_wallet q) - cq_amount q))) (ret created))
      :: ('a withdraw_db_scheme, withdrawal) op)"
  have k: "wp (?k q r) (\<lambda>_. withdraw_rel s) (\<lambda>_. withdraw_rel s) s"
    if "withdraw_inv s" "ready r u (cq_wallet q) s" "0 < cq_amount q" "0 \<le> cq_fee q" for s :: "'a withdraw_db_scheme" and q r
    using that(4) by (intro wdr.safe_after[OF that(1) reserve_wp[OF that(1-3)]] wdr.calm_safe withdraw_calms)
      (simp add: crypto_withdrawal_def)
  have "safe_op withdraw_inv withdraw_rel (bnd (crypto_checks A u dto usd) (\<lambda>q. bnd fresh (?k q)))"
  proof (rule wdr.safeI)
    fix s :: "'a withdraw_db_scheme"
    assume s: "withdraw_inv s"
    have "wp (bnd fresh (?k q)) (\<lambda>_. withdraw_rel s) (\<lambda>_. withdraw_rel s) t"
      if "withdraw_calm s t \<and> active_in (wallets s) u = Some (cq_wallet q) \<and> 0 < cq_amount q \<and> 0 \<le> cq_fee q" for q t
      by (rule wdr.underD[where G = "\<lambda>v. active_in (fst v) u = Some (cq_wallet q)", OF fresh_ready[OF k] s])
        (use that in \<open>auto simp: withdraw_calm_def wview_def\<close>)
    moreover have "withdraw_calm s t \<Longrightarrow> withdraw_rel s t" for t by (simp add: withdraw_calm_def)
    ultimately show "wp (bnd (crypto_checks A u dto usd) (\<lambda>q. bnd fresh (?k q))) (\<lambda>_. withdraw_rel s) (\<lambda>_. withdraw_rel s) s"
      unfolding wp_bnd[of "crypto_checks _ _ _ _"]
      by (intro wp_mono[OF crypto_checks_wp[OF s, of A u dto usd]])
  qed
  then show ?thesis
    unfolding createNowpaymentsCryptoWithdrawal_def
    by (intro wdr.safe_thn withdraw_calm_pin[THEN wdr.calm_safe])
qed

lemma createWithdrawal_safe:
  "safe_op withdraw_inv withdraw_rel (createWithdrawal X A u dto pre kes usd)"
  unfolding createWithdrawal_def
  by (intro wdr.safe_if createBankWithdrawal_safe createNowpaymentsCryptoWithdrawal_safe)

section \<open>Requests\<close>

datatype withdraw_request =
    AskWithdrawal nat withdraw_dto "string option" "err + rat" "err + rat"
  | ApproveWithdrawal nat
  | RefuseWithdrawal nat string
  | RefundLegacy nat "string option"
  | RunPayout nat "string \<Rightarrow> err + unit" "rat \<Rightarrow> err + rat" transfer_answer
  | SubmitPayout nat string payout_answers
  | VerifyPayout nat string "err + payout_report"
  | PayoutMessage string "err + payout_report"
  | AskStatus nat nat status_answers
  | RecheckTransfers "nat \<Rightarrow> status_answers"
  | RecheckPayouts "nat \<Rightarrow> payout_answers"
  | ClockTick nat

fun withdraw_exec :: "ext \<Rightarrow> payout_api \<Rightarrow> withdraw_request \<Rightarrow> 'a withdraw_db_scheme \<Rightarrow> 'a withdraw_db_scheme" where
  "withdraw_exec X A (AskWithdrawal u dto pre kes usd) s = snd (createWithdrawal X A u dto pre kes usd s)"
| "withdraw_exec X A (ApproveWithdrawal i) s = snd (adminApproveWithdrawal i s)"
| "withdraw_exec X A (RefuseWithdrawal i reason) s = snd (adminRejectWithdrawal i reason s)"
| "withdraw_exec X A (RefundLegacy i reason) s = snd (refundLegacyWithdrawal i reason s)"
| "withdraw_exec X A (RunPayout r recipient kes answer) s = snd (processWithdrawal r recipient kes answer s)"
| "withdraw_exec X A (SubmitPayout r admin P) s = snd (submitNowpaymentsPayout r admin P s)"
| "withdraw_exec X A (VerifyPayout r admin answer) s = snd (verifyNowpaymentsCryptoWithdrawal r admin answer s)"
| "withdraw_exec X A (PayoutMessage i answer) s = snd (reconcileNowpaymentsPayoutWebhook i answer s)"
| "withdraw_exec X A (AskStatus r u S) s = snd (getWithdrawalStatus r u S s)"
| "withdraw_exec X A (RecheckTransfers S) s = snd (reconcilePendingPaystackWithdrawals S s)"
| "withdraw_exec X A (RecheckPayouts P) s = snd (reconcileNowpaymentsPayouts P s)"
| "withdraw_exec X A (ClockTick d) s = s\<lparr>now := now s + int d\<rparr>"

lemma withdraw_exec_rel: "withdraw_inv s \<Longrightarrow> withdraw_rel s (withdraw_exec X A q s)"
proof (cases q)
  case (ClockTick d)
  moreover assume "withdraw_inv s"
  then have "withdraw_calm s (s\<lparr>now := now s + int d\<rparr>)" by (rule withdraw_same) simp_all
  ultimately show ?thesis by (simp add: withdraw_calm_def)
qed (simp_all add: wdr.safe_snd createWithdrawal_safe admin_withdrawal_safe processWithdrawal_safe submitNowpaymentsPayout_safe
    wdr.calm_safe[OF verify_calm] reconcileNowpaymentsPayoutWebhook_safe getWithdrawalStatus_safe reconcile_safe)

interpretation withdraw_run: step_run withdraw_inv withdraw_rel "withdraw_exec X A"
  by unfold_locales (rule withdraw_exec_rel)

end
