(* ===== verification/Withdraw_Results.thy ===== *)
theory Withdraw_Results
  imports Withdraw_Runs
begin

text \<open>
  What any sequence of withdrawal requests guarantees: the books, one payout for each withdrawal,
  the daily limit; that a covered withdrawal can be completed; and that sweeping the fees of
  completed withdrawals twice credits nothing the second time.
\<close>

section \<open>A completion that cannot fail\<close>

lemma fee_credit_ok:
  assumes "platform_wallet s = Some p"
  shows "wp (creditPlatformFeeInTx f i) (\<lambda>_ t. withdrawals t = withdrawals s) (\<lambda>_ _. False) (s :: 'a withdraw_db_scheme)"
proof -
  obtain u where "active_wallet s u = Some p" using platform_wallet_active[OF assms] by blast
  then have "p \<in> set (wallets s)" unfolding active_wallet_def using find_Some by fastforce
  then have "wallet_by_id s (w_id p) \<noteq> None"
    unfolding wallet_by_id_def by (simp add: find_row_None)
  then show ?thesis using assms by (auto simp: creditPlatformFeeInTx_def wp_simps)
qed

lemma platform_settled:
  assumes "platform_wallet s \<noteq> None" "users t = users s" "wallets t = upd_where Q (settle_debit x) (wallets s)"
  shows "platform_wallet t \<noteq> None"
  using assms by (auto simp: platform_wallet_def active_wallet_in active_upd_where split: option.splits)

lemma covered_amount:
  assumes inv: "withdraw_inv s" and wd: "withdrawal_by_ref s r = Some wd" "wd_status wd \<in> {WPending, WProcessing}"
    and k: "wd_amount wd = num k" "k \<le> MAXU" and w: "active_wallet s (wd_user wd) = Some w"
  shows "k \<le> w_locked w"
proof -
  let ?h = "\<lambda>x. if wd_user x = wd_user wd \<and> wd_status x \<in> {WPending, WProcessing} then to_units (wd_amount x) else 0"
  have rows: "wd_rows_ok (seq s) (withdrawals s)" using inv by (rule withdraw_invD)
  have row: "wd \<in> set (withdrawals s)" using withdrawal_found[OF wd(1)] by simp
  have pos: "0 < k" using rows row k(1) by (auto simp: wd_rows_ok_def list_all_iff)
  have "?h wd \<le> sum_list (map ?h (withdrawals s))"
    by (rule member_le_sum_list) (use row rows in \<open>auto simp: wd_rows_ok_def list_all_iff intro: to_units_nonneg less_imp_le\<close>)
  then have "k \<le> reserved (withdrawals s) (wd_user wd)" using wd(2) k pos by (auto simp: reserved_def)
  also have "\<dots> \<le> w_locked w" using withdraw_invD(3)[OF inv] w by (simp add: covered_def active_wallet_in)
  finally show ?thesis .
qed

lemma complete_ok:
  assumes inv: "withdraw_inv s" and wd: "withdrawal_by_ref s r = Some wd" "wd_status wd \<in> {WPending, WProcessing}"
    and k: "wd_amount wd = num k" "k \<le> MAXU" and w: "active_wallet s (wd_user wd) = Some w" and p: "platform_wallet s \<noteq> None"
  shows "wp (complete_tx wd txn w)
    (\<lambda>b t. b \<and> withdrawals t = upd_where (open_withdrawal r) (\<lambda>x. x\<lparr>wd_status := WCompleted, wd_updated := now s\<rparr>) (withdrawals s))
    (\<lambda>_ _. False) s"
proof -
  let ?P = "open_withdrawal (wd_ref wd)" and ?Q = "covers (w_id w) (wd_amount wd)"
  let ?f = "\<lambda>x. x\<lparr>wd_status := WCompleted, wd_updated := now s\<rparr>" and ?g = "settle_debit (wd_amount wd)"
  let ?t = "wallets_update (upd_where ?Q ?g) (withdrawals_update (upd_where ?P ?f) s)"
  have row: "wd \<in> set (withdrawals s)" "?P wd" "wd_ref wd = r" using withdrawal_found[OF wd(1)] wd(2) by (auto simp: open_withdrawal_def)
  have rows: "wd_rows_ok (seq s) (withdrawals s)" and ws: "wallets_ok (wallets s)" using inv by (simp_all add: withdraw_invD)
  have pos: "0 < k" using rows row(1) k(1) by (auto simp: wd_rows_ok_def list_all_iff)
  have win: "w \<in> set (wallets s)" "active_in (wallets s) (wd_user wd) = Some w"
    using w active_in_Some[of "wallets s" "wd_user wd" w] by (auto simp: active_wallet_in)
  have "k \<le> w_locked w" by (rule covered_amount[OF inv wd k w])
  also have "\<dots> \<le> w_balance w" using ws win(1) by (simp add: wallets_ok_def list_all_iff)
  finally have Qw: "?Q w" using k pos by (simp add: covers_def)
  have "filter ?Q (wallets s) = [w]"
    by (rule filter_one[where key = w_id and P = ?Q, OF _ win(1) Qw]) (use ws in \<open>simp_all add: wallets_ok_def covers_def\<close>)
  moreover have "length (filter ?P (withdrawals s)) = 1" by (rule paid_change.change_count[OF rows row(1,2)])
  moreover have fee: "wp (creditPlatformFeeInTx f i) (\<lambda>_ u. withdrawals u = withdrawals t) (\<lambda>_ _. False) t"
    if "users t = users s" "wallets t = wallets ?t" for f i and t :: "'a withdraw_db_scheme"
  proof -
    have "platform_wallet t \<noteq> None" by (rule platform_settled[OF p that(1)]) (simp add: that(2))
    then show ?thesis using fee_credit_ok by blast
  qed
  moreover have "wp (creditPlatformFeeInTx f i) (\<lambda>_ u. withdrawals u = upd_where ?P ?f (withdrawals s)) (\<lambda>_ _. False) t"
    if "users t = users s" "wallets t = wallets ?t" "withdrawals t = withdrawals ?t" for f i and t :: "'a withdraw_db_scheme"
    using fee[OF that(1,2)] that(3) by simp
  ultimately show ?thesis
    unfolding complete_tx_def row(3)[symmetric]
    by (auto simp: wp_simps meta_update_def txn_status_update_def split: option.split)
qed


lemma reject_ok:
  assumes inv: "withdraw_inv s" and wd: "withdrawal_by_ref s r = Some wd" "wd_status wd \<in> {WPending, WProcessing}"
  shows "wp (reject_tx wd txn w reason)
    (\<lambda>b t. b \<and> wallets t = upd_where (\<lambda>x. w_id x = w_id w) (release_lock (wd_amount wd)) (wallets s)
      \<and> withdrawals t = upd_where (open_withdrawal r) (\<lambda>x. x\<lparr>wd_status := WFailed, wd_reason := Some reason, wd_updated := now s\<rparr>) (withdrawals s))
    (\<lambda>_ _. False) s"
proof -
  have row: "wd \<in> set (withdrawals s)" "open_withdrawal (wd_ref wd) wd" "wd_ref wd = r"
    using withdrawal_found[OF wd(1)] wd(2) by (auto simp: open_withdrawal_def)
  have "wd_rows_ok (seq s) (withdrawals s)" using inv by (rule withdraw_invD)
  then have "length (filter (open_withdrawal (wd_ref wd)) (withdrawals s)) = 1" by (rule refused_change.change_count[OF _ row(1,2)])
  then show ?thesis
    unfolding reject_tx_def row(3)[symmetric]
    by (auto simp: wp_simps meta_update_def txn_status_update_def split: option.split)
qed

section \<open>Fees swept twice\<close>

definition swept :: "nat \<Rightarrow> 'a core_scheme \<Rightarrow> 'a core_scheme \<Rightarrow> bool" where
  "swept i s t \<longleftrightarrow> (\<exists>f ls. t = s\<lparr>wallets := upd_row w_id i f (wallets s), ledger := ledger s @ ls\<rparr>
     \<and> (\<forall>w. w_id (f w) = w_id w \<and> w_user (f w) = w_user w \<and> w_active (f w) = w_active w))"

lemma swept_refl: "swept i s s"
  unfolding swept_def by (rule exI[of _ id], rule exI[of _ "[]"]) (simp add: upd_row_def cong: if_cong)

lemma swept_trans: "swept i s t \<Longrightarrow> swept i t u \<Longrightarrow> swept i s u"
proof -
  assume "swept i s t" "swept i t u"
  then obtain f g ls ms where f: "t = s\<lparr>wallets := upd_row w_id i f (wallets s), ledger := ledger s @ ls\<rparr>"
      "\<And>w. w_id (f w) = w_id w \<and> w_user (f w) = w_user w \<and> w_active (f w) = w_active w"
    and g: "u = t\<lparr>wallets := upd_row w_id i g (wallets t), ledger := ledger t @ ms\<rparr>"
      "\<And>w. w_id (g w) = w_id w \<and> w_user (g w) = w_user w \<and> w_active (g w) = w_active w"
    unfolding swept_def by blast
  then show ?thesis
    unfolding swept_def by (intro exI[of _ "\<lambda>w. g (f w)"] exI[of _ "ls @ ms"]) (simp add: upd_row_upd_row)
qed

lemma swept_entries: "swept i s t \<Longrightarrow> fee_entry_exists s j k \<Longrightarrow> fee_entry_exists t j k"
  by (auto simp: swept_def fee_entry_exists_def)

lemma swept_due: "swept i s t \<Longrightarrow> fee_due t = fee_due s \<and> txns t = txns (s :: 'a withdraw_db_scheme)"
  by (auto simp: swept_def fun_eq_iff fee_due_def meta_by_ref_def txn_by_ref_def split: option.splits)

lemma swept_platform: "swept i s t \<Longrightarrow> map_option w_id (platform_wallet t) = map_option w_id (platform_wallet s)"
  unfolding platform_id_wallet[symmetric] by (auto simp: swept_def platform_id_upd)

lemma credit_missing_wp:
  "wallet_by_id s i \<noteq> None \<Longrightarrow> wp (credit_missing i ts x)
    (\<lambda>_ t. swept i s t \<and> (\<forall>k\<in>set ts. num (t_fee k) > 0 \<longrightarrow> fee_entry_exists t (t_id k) i)) (\<lambda>_ _. False) s"
proof (induction ts arbitrary: s x)
  case (Cons k ts)
  show ?case
  proof (cases "num (t_fee k) > 0 \<and> \<not> fee_entry_exists s (t_id k) i")
    case False
    then show ?thesis using Cons by (auto simp: Let_def wp_simps intro!: wp_mono[OF Cons.IH] dest: swept_entries)
  next
    case True
    let ?c = "num (t_fee k)"
    let ?l = "\<lparr>l_txn = Some (t_id k), l_wallet = i, l_type = Credit, l_amount = to_units ?c,
            l_before = Some (to_units x), l_after = Some (to_units (fl (x + ?c))), l_category = None\<rparr>"
    let ?t = "s\<lparr>wallets := upd_row w_id i (inc_balance ?c) (wallets s), ledger := ledger s @ [?l]\<rparr>"
    have step: "swept i s ?t" unfolding swept_def by (intro exI[of _ "inc_balance ?c"] exI[of _ "[?l]"]) simp
    have entry: "fee_entry_exists ?t (t_id k) i" by (simp add: fee_entry_exists_def)
    have "wallet_by_id ?t i \<noteq> None" using Cons.prems by (simp add: wallet_by_id_def)
    from Cons.IH[OF this, of "fl (x + ?c)"]
    have "wp (credit_missing i ts (fl (x + ?c)))
        (\<lambda>_ t. swept i s t \<and> (\<forall>j\<in>set (k # ts). num (t_fee j) > 0 \<longrightarrow> fee_entry_exists t (t_id j) i)) (\<lambda>_ _. False) ?t"
      by (rule wp_mono) (use swept_trans[OF step] swept_entries[OF _ entry] in auto)
    then show ?thesis using True Cons.prems by (auto simp: Let_def wp_simps split: option.split)
  qed
qed (simp add: wp_ret swept_refl)

lemma credit_missing_none:
  "(\<And>k. k \<in> set ts \<Longrightarrow> num (t_fee k) > 0 \<Longrightarrow> fee_entry_exists s (t_id k) i) \<Longrightarrow> credit_missing i ts x s = (Inr (), s)"
  by (induction ts) (auto simp: Let_def ret_def bnd_def gets_def)


text \<open>C33: From any state whatsoever, running the sweep of unpaid withdrawal fees twice is the
  same as running it once: the second run finds every fee credited and changes nothing.\<close>

theorem fees_swept_once:
  "reconcileCompletedPlatformFees (snd (reconcileCompletedPlatformFees s)) = (Inr (), snd (reconcileCompletedPlatformFees s))"
proof (cases "platform_wallet s")
  case None
  then show ?thesis by (simp add: reconcileCompletedPlatformFees_def transaction_def bnd_def gets_def ret_def)
next
  case (Some w)
  let ?due = "filter (fee_due s) (txns s)" and ?m = "credit_missing (w_id w) (filter (fee_due s) (txns s)) (num (w_balance w))"
  obtain u where "active_wallet s u = Some w" using platform_wallet_active[OF Some] by blast
  then have "w \<in> set (wallets s)" unfolding active_wallet_def using find_Some by fastforce
  then have "wallet_by_id s (w_id w) \<noteq> None" by (simp add: wallet_by_id_def find_row_None)
  from wp_ok[OF credit_missing_wp[OF this, of ?due "num (w_balance w)"]] obtain t where t: "?m s = (Inr (), t)" "swept (w_id w) s t"
      "\<And>k. k \<in> set ?due \<Longrightarrow> num (t_fee k) > 0 \<Longrightarrow> fee_entry_exists t (t_id k) (w_id w)" by auto
  have first: "reconcileCompletedPlatformFees s = (Inr (), t)"
    using t(1) Some by (simp add: reconcileCompletedPlatformFees_def transaction_def bnd_def gets_def)
  obtain v where v: "platform_wallet t = Some v" "w_id v = w_id w" using swept_platform[OF t(2)] Some by auto
  have "credit_missing (w_id w) (filter (fee_due t) (txns t)) (num (w_balance v)) t = (Inr (), t)"
    by (rule credit_missing_none) (use t(3) swept_due[OF t(2)] in simp)
  then show ?thesis
    using v by (simp add: first) (simp add: reconcileCompletedPlatformFees_def transaction_def bnd_def gets_def)
qed

section \<open>The properties\<close>

text \<open>C24: Whatever the providers answer, over any sequence of withdrawal requests, payouts,
  messages, reconciler runs and admin decisions, money leaves the wallets with completed withdrawals
  only and by their amounts less the fees, and every user's wallet keeps the user's open withdrawals
  locked and covered by its balance.\<close>

theorem withdraw_run:
  assumes "withdraw_inv s" "t = fold (withdraw_exec X A) rs s"
  shows "total t + paid_out (withdrawals t) = total s + paid_out (withdrawals s)
    \<and> (\<forall>u w. active_wallet t u = Some w \<longrightarrow> 0 \<le> w_locked w \<and> reserved (withdrawals t) u \<le> w_locked w \<and> w_locked w \<le> w_balance w)"
proof -
  have rel: "withdraw_rel s t" using withdraw_run.run_rel[OF assms(1)] assms(2) by simp
  then have "withdraw_inv t" by (simp add: withdraw_rel_def)
  then show ?thesis
    using rel active_in_Some by (fastforce simp: withdraw_rel_def withdraw_inv_def wallets_ok_def list_all_iff covered_def active_wallet_in)
qed

text \<open>C25: Over any such sequence, unknown outcomes and retries included, the providers are
  asked to pay a withdrawal at most once, and only after it has left the pending state.\<close>

theorem payout_once:
  assumes "withdraw_inv s" "t = fold (withdraw_exec X A) rs s"
  shows "distinct (map call_ref (payout_calls t))
    \<and> (\<forall>c\<in>set (payout_calls t). \<forall>w\<in>set (withdrawals t). wd_ref w = call_ref c \<longrightarrow> wd_status w \<noteq> WPending)"
  using withdraw_invD(4)[OF withdraw_run.run_keeps[OF assms(1)], of X A rs] by (auto simp: assms(2) calls_ok_def)

text \<open>C26: A completed or failed withdrawal stays so, with its amount and user, over any
  sequence of requests: no withdrawal is settled twice.\<close>

theorem withdraw_ended:
  assumes "withdraw_inv s" "withdrawal_by_ref s r = Some w" "wd_status w \<in> {WCompleted, WFailed}"
  shows "\<exists>v. withdrawal_by_ref (fold (withdraw_exec X A) rs s) r = Some v \<and> wd_status v = wd_status w
    \<and> wd_amount v = wd_amount w \<and> wd_user v = wd_user w"
  using withdraw_run.run_rel[OF assms(1), of X A rs] assms(2) ended_stays[OF _ assms(3)]
  by (fastforce simp: withdraw_rel_def rows_later_def withdrawal_by_ref_def)

text \<open>C31: In every state that requests reach from a state within the daily limit, no user has
  more withdrawals of the last 24 hours that did not fail than the limit allows, when there is
  one.\<close>

theorem withdraw_daily:
  assumes "withdraw_inv s" "t = fold (withdraw_exec X A) rs s" "fst (withdrawalDailyLimits t) > 0"
  shows "of_nat (length (filter (\<lambda>w. wd_user w = u \<and> wd_created w \<ge> now t - 86400000 \<and> wd_status w \<noteq> WFailed) (withdrawals t)))
    \<le> fst (withdrawalDailyLimits t)"
proof -
  have "few_recent t" using withdraw_invD(5)[OF withdraw_run.run_keeps[OF assms(1)], of X A rs] assms(2) by simp
  then show ?thesis using assms(3) by (auto simp: few_recent_def recent_withdrawals_def split: prod.splits)
qed

lemma completes:
  assumes "withdraw_inv s" "withdrawal_by_ref s r = Some wd" "wd_status wd \<in> {WPending, WProcessing}"
    "wd_amount wd = num k" "k \<le> MAXU" "wd_fee wd = num f" "f \<le> MAXU"
    "active_wallet s (wd_user wd) = Some w" "platform_wallet s \<noteq> None"
  shows "\<exists>t. markAsSuccess r s = (Inr True, t) \<and> total t = total s - (k - f)
    \<and> map_option wd_status (withdrawal_by_ref t r) = Some WCompleted"
proof -
  let ?done = "upd_where (open_withdrawal r) (\<lambda>x. x\<lparr>wd_status := WCompleted, wd_updated := now s\<rparr>) (withdrawals s)"
  have row: "wd \<in> set (withdrawals s)" "open_withdrawal r wd" using withdrawal_found[OF assms(2)] assms(3) by (auto simp: open_withdrawal_def)
  have rows: "wd_rows_ok (seq s) (withdrawals s)" using assms(1) by (rule withdraw_invD)
  have kf: "0 < k" "0 \<le> f" using rows row(1) assms(4,6) by (auto simp: wd_rows_ok_def list_all_iff)
  have paid: "paid_out ?done = paid_out (withdrawals s) + (k - f)"
    using paid_change.change_paid[OF rows row assms(3), of "now s"] kf assms(4-7) by (simp add: debit_units_num)
  have "wp (markAsSuccess r) (\<lambda>b t. b \<and> withdrawals t = ?done) (\<lambda>_ _. False) s"
  proof -
    have "wp (thn (withdraw_announce u x) (thn (emit e) (ret True))) (\<lambda>b t. b \<and> withdrawals t = ?done) (\<lambda>_ _. False) t"
      if "withdrawals t = ?done" for t :: "'a withdraw_db_scheme" and u x e
    proof -
      have "quiet (withdraw_announce u x)" unfolding withdraw_announce_def by (intro quiet_intros)
      then show ?thesis using that by (auto simp: wp_simps intro: wp_quiet)
    qed
    then show ?thesis
      unfolding markAsSuccess_def wp_bnd[of "gets _"] wp_gets
      using assms(2,3,8) by (auto simp: wp_bnd wp_gets wp_ret intro!: wp_mono[OF complete_ok[OF assms(1-5,8,9)]])
  qed
  from wp_ok[OF this] obtain t where t: "markAsSuccess r s = (Inr True, t)" "withdrawals t = ?done" by auto
  have "withdraw_rel s t" using wdr.safe_snd[OF markAsSuccess_safe assms(1), of r] t(1) by simp
  then have "total t = total s - (k - f)" using paid t(2) by (simp add: withdraw_rel_def)
  moreover have "map_option wd_status (withdrawal_by_ref t r) = Some WCompleted"
    using assms(2) row(2) by (simp add: withdrawal_by_ref_def t(2) find_row_upd_where)
  ultimately show ?thesis using t(1) by blast
qed

text \<open>C32: In every state in order, completing an open withdrawal of a whole number of units
  cannot fail once user and platform have wallets: the lock has kept its money, the withdrawal
  becomes completed, and the amount less the fee leaves the wallets.\<close>

theorem withdraw_completes:
  assumes "withdraw_inv s" "withdrawal_by_ref s r = Some wd" "wd_status wd \<in> {WPending, WProcessing}"
    "wd_amount wd = num k" "k \<le> MAXU" "wd_fee wd = num f" "f \<le> MAXU"
    "active_wallet s (wd_user wd) = Some w" "platform_wallet s \<noteq> None"
  shows "\<exists>t. markAsSuccess r s = (Inr True, t) \<and> total t = total s - (k - f)
    \<and> map_option wd_status (withdrawal_by_ref t r) = Some WCompleted"
  using completes[OF assms] .

text \<open>C34: A withdrawal whose payout a provider was already asked for can still be rejected:
  the money is unlocked for the user and a later success of the payout is ignored.\<close>

theorem refused_after_payout:
  assumes "withdraw_inv s" "withdrawal_by_ref s r = Some wd" "wd_status wd = WProcessing" "r \<in> set (map call_ref (payout_calls s))"
    "active_wallet s (wd_user wd) = Some w" "wd_amount wd = num k" "k \<le> MAXU"
  shows "\<exists>t. rejectWithdrawal r reason s = (Inr True, t) \<and> markAsSuccess r t = (Inr False, t)
    \<and> active_wallet t (wd_user wd) = Some (w\<lparr>w_locked := w_locked w - k\<rparr>) \<and> total t = total s"
proof -
  have st: "wd_status wd \<in> {WPending, WProcessing}" using assms(3) by simp
  let ?done = "upd_where (open_withdrawal r) (\<lambda>x. x\<lparr>wd_status := WFailed, wd_reason := Some reason, wd_updated := now s\<rparr>) (withdrawals s)"
  let ?ws = "upd_where (\<lambda>x. w_id x = w_id w) (release_lock (wd_amount wd)) (wallets s)"
  have "wp (rejectWithdrawal r reason) (\<lambda>b t. b \<and> wallets t = ?ws \<and> withdrawals t = ?done) (\<lambda>_ _. False) s"
  proof -
    have "wp (thn (withdraw_announce u x) (thn (emit e) (ret True))) (\<lambda>b t. b \<and> wallets t = ?ws \<and> withdrawals t = ?done) (\<lambda>_ _. False) t"
      if "wallets t = ?ws" "withdrawals t = ?done" for t :: "'a withdraw_db_scheme" and u x e
    proof -
      have "quiet (withdraw_announce u x)" unfolding withdraw_announce_def by (intro quiet_intros)
      then show ?thesis using that by (auto simp: wp_simps intro: wp_quiet)
    qed
    then show ?thesis
      unfolding rejectWithdrawal_def wp_bnd[of "gets _"] wp_gets
      using assms(2,3,5) by (auto simp: wp_bnd wp_gets wp_ret intro!: wp_mono[OF reject_ok[OF assms(1,2) st]])
  qed
  from wp_ok[OF this] obtain t where t: "rejectWithdrawal r reason s = (Inr True, t)" "wallets t = ?ws" "withdrawals t = ?done" by auto
  have row: "wd_ref wd = r" "open_withdrawal r wd" using withdrawal_found[OF assms(2)] st by (auto simp: open_withdrawal_def)
  have "map_option wd_status (withdrawal_by_ref t r) = Some WFailed"
    using assms(2) row(2) by (simp add: withdrawal_by_ref_def t(3) find_row_upd_where)
  then have late: "markAsSuccess r t = (Inr False, t)" by (auto simp: markAsSuccess_def bnd_def gets_def ret_def)
  have pos: "0 < k" using withdraw_invD(2)[OF assms(1)] withdrawal_found[OF assms(2)] assms(6) by (auto simp: wd_rows_ok_def list_all_iff)
  have "k \<le> w_locked w"
    using covered_amount[OF assms(1,2) st assms(6,7)] assms(5) by simp
  then have "release_lock (wd_amount wd) w = w\<lparr>w_locked := w_locked w - k\<rparr>"
    using assms(6,7) pos by (simp add: release_lock_def)
  then have "active_wallet t (wd_user wd) = Some (w\<lparr>w_locked := w_locked w - k\<rparr>)"
    using assms(5) by (simp add: active_wallet_in t(2) active_upd_where)
  moreover have "total t = total s"
  proof -
    have "map w_balance ?ws = map w_balance (wallets s)" by (rule map_upd_where) simp
    then show ?thesis by (simp only: total_wallets t(2))
  qed
  ultimately show ?thesis using t(1) late by blast
qed

section \<open>A sample\<close>

text \<open>100 FARM of the first user are locked for a mobile payment that is under way.\<close>

definition sample_withdrawal :: withdrawal where
  "sample_withdrawal = \<lparr>wd_id = 90, wd_ref = 91, wd_user = 1, wd_amount = num 10000000000, wd_fee = num 150000000,
     wd_settlement = num 9850000000, wd_method = MobileMoney, wd_account_name = None, wd_account = None, wd_bank = None,
     wd_phone = Some ''0712345678'', wd_address = None, wd_asset = [], wd_network = [], wd_status = WProcessing,
     wd_reason = None, wd_created = 999999990000, wd_updated = 999999990000\<rparr>"

definition sample_withdrawals :: withdraw_db where
  "sample_withdrawals = core.extend (sample\<lparr>wallets := [(sample_wallet 11 1 50000000000)\<lparr>w_locked := 10000000000\<rparr>,
       sample_wallet 12 2 20000000000, sample_wallet 19 9 0]\<rparr>)
     (withdraw_db.fields [sample_withdrawal] [] [InitiateTransfer 91 12000] None None False False)"

definition sample_api :: payout_api where
  "sample_api = \<lparr>np_currencies = Inr [''usdttrc20''], np_estimate = (\<lambda>_ _. Inr 1), np_minimum = (\<lambda>_. Inr 1),
     np_network_fee = (\<lambda>_ _. Inr 0), np_valid = (\<lambda>_ _ _. Inr True)\<rparr>"

lemma sample_withdrawal_row [simp]:
  "wd_ref sample_withdrawal = 91" "wd_user sample_withdrawal = 1" "wd_status sample_withdrawal = WProcessing"
  "wd_amount sample_withdrawal = num 10000000000" "wd_fee sample_withdrawal = num 150000000"
  by (simp_all add: sample_withdrawal_def)

lemma sample_withdrawals_tables [simp]:
  "withdrawals sample_withdrawals = [sample_withdrawal]" "payout_calls sample_withdrawals = [InitiateTransfer 91 12000]"
  "seq sample_withdrawals = 100" "users sample_withdrawals = users sample"
  "wallets sample_withdrawals = [(sample_wallet 11 1 50000000000)\<lparr>w_locked := 10000000000\<rparr>, sample_wallet 12 2 20000000000, sample_wallet 19 9 0]"
  "env_max_count sample_withdrawals = None" "now sample_withdrawals = 1000000000000"
  by (simp_all add: sample_withdrawals_def sample_def core.defs withdraw_db.defs)

lemma sample_withdrawals_inv: "withdraw_inv sample_withdrawals"
proof -
  have "covered (wallets sample_withdrawals) [sample_withdrawal]"
    by (auto simp: covered_def active_in_def reserved_def sample_wallet_def MAXU_def split: if_splits)
  then show ?thesis
    by (simp add: withdraw_inv_def wallets_ok_def wd_rows_ok_def calls_ok_def few_recent_def withdrawalDailyLimits_def envNumber_def
        recent_withdrawals_def sample_wallet_def)
qed

lemma sample_withdrawals_rows:
  "withdrawal_by_ref sample_withdrawals 91 = Some sample_withdrawal"
  "active_wallet sample_withdrawals (wd_user sample_withdrawal) = Some ((sample_wallet 11 1 50000000000)\<lparr>w_locked := 10000000000\<rparr>)"
  "platform_wallet sample_withdrawals \<noteq> None"
  by (simp_all add: withdrawal_by_ref_def active_wallet_def platform_wallet_def sample_wallet_def sample_def sample_user_def)

lemma sample_completes:
  "\<exists>t. markAsSuccess 91 sample_withdrawals = (Inr True, t) \<and> map_option wd_status (withdrawal_by_ref t 91) = Some WCompleted"
  using completes[OF sample_withdrawals_inv sample_withdrawals_rows(1) _ _ _ _ _ sample_withdrawals_rows(2,3), of 10000000000 150000000]
  by (auto simp: MAXU_def)

definition sample_payouts :: "withdraw_request list" where
  "sample_payouts = [ClockTick 70000, RunPayout 91 (\<lambda>_. Inr ()) (\<lambda>_. Inr 1) (TransferUnknown []), ApproveWithdrawal 91]"

theorem withdraw_run_witness:
  "total (fold (withdraw_exec sample_ext sample_api) sample_payouts sample_withdrawals)
      + paid_out (withdrawals (fold (withdraw_exec sample_ext sample_api) sample_payouts sample_withdrawals))
    = total sample_withdrawals + paid_out [sample_withdrawal]"
  using withdraw_run[OF sample_withdrawals_inv refl, of sample_ext sample_api sample_payouts] by simp

theorem payout_once_witness:
  "distinct (map call_ref (payout_calls (fold (withdraw_exec sample_ext sample_api) sample_payouts sample_withdrawals)))"
  using payout_once[OF sample_withdrawals_inv refl, of sample_ext sample_api sample_payouts] by simp

theorem withdraw_ended_witness:
  "\<exists>v. withdrawal_by_ref (fold (withdraw_exec sample_ext sample_api) sample_payouts
      (snd (markAsSuccess 91 sample_withdrawals))) 91 = Some v \<and> wd_status v = WCompleted"
proof -
  obtain t w where t: "markAsSuccess 91 sample_withdrawals = (Inr True, t)" "withdrawal_by_ref t 91 = Some w" "wd_status w = WCompleted"
    using sample_completes by auto
  have "withdraw_inv t"
    using wdr.rel_inv[OF sample_withdrawals_inv wdr.safe_snd[OF markAsSuccess_safe sample_withdrawals_inv, of 91]] t(1) by simp
  from withdraw_ended[OF this t(2), of sample_ext sample_api sample_payouts] t(3) show ?thesis by (auto simp: t(1))
qed

theorem withdraw_daily_witness:
  "length (filter (\<lambda>w. wd_user w = 1 \<and> wd_created w \<ge> 1000000000000 - 86400000 \<and> wd_status w \<noteq> WFailed) [sample_withdrawal]) \<le> 5"
  using withdraw_daily[OF sample_withdrawals_inv refl, of sample_ext sample_api "[]" 1]
  by (simp add: withdrawalDailyLimits_def envNumber_def)

theorem withdraw_completes_witness:
  "\<exists>t. markAsSuccess 91 sample_withdrawals = (Inr True, t) \<and> total t = total sample_withdrawals - 9850000000"
  using withdraw_completes[OF sample_withdrawals_inv sample_withdrawals_rows(1) _ _ _ _ _ sample_withdrawals_rows(2,3), of 10000000000 150000000]
  by (auto simp: MAXU_def)

theorem refused_after_payout_witness:
  "\<exists>t. rejectWithdrawal 91 ''late'' sample_withdrawals = (Inr True, t) \<and> markAsSuccess 91 t = (Inr False, t)"
  using refused_after_payout[OF sample_withdrawals_inv sample_withdrawals_rows(1) _ _ sample_withdrawals_rows(2), of 10000000000 "''late''"]
  by (auto simp: MAXU_def)

end
