(* ===== verification/Deposits.thy ===== *)
theory Deposits
  imports Fees Auth
begin

text \<open>
  Deposits: src/deposit/deposit.service.ts and src/currency/currency-conversion.service.ts, the
  requests of users and what they read.  A request stores a pending deposit and a pending
  transaction; money arrives when the payment is settled, in theory \<open>Deposit_Settle\<close>.  What the
  payment providers answer is an argument.  The text of descriptions, audit logs and payment links
  are left out.
\<close>

section \<open>Tables\<close>

datatype deposit_status = DPending | DProcessing | DSuccess | DFailed

record deposit =
  dp_id :: nat
  dp_ref :: nat
  dp_user :: nat
  dp_amount :: rat
  dp_currency :: string
  dp_method :: string
  dp_provider :: "string option"
  dp_provider_ref :: "string option"
  dp_status :: deposit_status
  dp_created :: int

text \<open>The metadata of the transaction of a deposit, by its reference.  \<open>dm_sale\<close> is
  \<open>platform_fee_type === 'merchant_sale'\<close>, \<open>dm_guest\<close> is \<open>qr_guest_payment === true\<close>.\<close>

record deposit_meta =
  dm_ref :: nat
  dm_provider :: "string option"
  dm_user :: "nat option"
  dm_usd :: "rat option"
  dm_fiat :: "rat option"
  dm_pay_currency :: "string option"
  dm_payment :: "string option"
  dm_payment_status :: "string option"
  dm_guest :: bool
  dm_merchant :: "nat option"
  dm_sale :: bool
  dm_failure :: "string option"

record qr_row =
  qr_txn :: nat
  qr_status :: txn_status

record qr_merchant =
  qm_id :: nat
  qm_user :: "nat option"
  qm_sales :: int

record currency_rate =
  cr_usd_kes :: int
  cr_farm_kes :: int
  cr_active :: bool
  cr_effective :: int

record deposit_db = core +
  deposits :: "deposit list"
  deposit_metas :: "deposit_meta list"
  qr_rows :: "qr_row list"
  qr_merchants :: "qr_merchant list"
  currency_rates :: "currency_rate list"

definition deposit_by_ref :: "'a deposit_db_scheme \<Rightarrow> nat \<Rightarrow> deposit option" where
  "deposit_by_ref s r = find_row dp_ref r (deposits s)"

definition no_meta :: "nat \<Rightarrow> deposit_meta" where
  "no_meta r = \<lparr>dm_ref = r, dm_provider = None, dm_user = None, dm_usd = None, dm_fiat = None, dm_pay_currency = None,
     dm_payment = None, dm_payment_status = None, dm_guest = False, dm_merchant = None, dm_sale = False, dm_failure = None\<rparr>"

text \<open>\<open>transaction?.metadata ?? {}\<close>.\<close>

definition deposit_meta_of :: "'a deposit_db_scheme \<Rightarrow> nat \<Rightarrow> deposit_meta" where
  "deposit_meta_of s r = (case find_row dm_ref r (deposit_metas s) of None \<Rightarrow> no_meta r | Some m \<Rightarrow> m)"

definition deposit_meta_update :: "nat \<Rightarrow> (deposit_meta \<Rightarrow> deposit_meta) \<Rightarrow> ('a deposit_db_scheme, unit) op" where
  "deposit_meta_update r f = modify (\<lambda>s. s\<lparr>deposit_metas := upd_row dm_ref r f (deposit_metas s)\<rparr>)"

section \<open>Exchange rates\<close>

definition active_rates :: "'a deposit_db_scheme \<Rightarrow> currency_rate list" where
  "active_rates s = sort_key (\<lambda>r. - cr_effective r) (filter cr_active (currency_rates s))"

definition usd_kes_rate :: "'a deposit_db_scheme \<Rightarrow> rat" where
  "usd_kes_rate s = (case active_rates s of [] \<Rightarrow> 150 | r # _ \<Rightarrow> num (cr_usd_kes r))"

definition farm_kes_rate :: "'a deposit_db_scheme \<Rightarrow> rat" where
  "farm_kes_rate s = (case active_rates s of [] \<Rightarrow> 1 | r # _ \<Rightarrow> num (cr_farm_kes r))"

definition farm_usd_rate :: "'a deposit_db_scheme \<Rightarrow> rat" where
  "farm_usd_rate s = toFixed 8 (fl (farm_kes_rate s / usd_kes_rate s))"

definition getCurrentRate :: "('a deposit_db_scheme, rat \<times> rat \<times> rat) op" where
  "getCurrentRate = gets (\<lambda>s. (usd_kes_rate s, farm_kes_rate s, farm_usd_rate s))"

definition farmToKes :: "rat \<Rightarrow> ('a deposit_db_scheme, rat) op" where
  "farmToKes amount = gets (\<lambda>s. toFixed 8 (fl (amount * farm_kes_rate s)))"

definition farmToUsd :: "rat \<Rightarrow> ('a deposit_db_scheme, rat) op" where
  "farmToUsd amount = gets (\<lambda>s. toFixed 8 (fl (amount * farm_usd_rate s)))"

text \<open>A rate of zero makes the code's quotient infinite or not a number; here it is 0, and every
  caller refuses both.\<close>

definition usdToFarm :: "rat \<Rightarrow> ('a deposit_db_scheme, rat) op" where
  "usdToFarm amount = gets (\<lambda>s. toFixed 8 (fl (fl (amount * usd_kes_rate s) / farm_kes_rate s)))"

definition ensureRateExists :: "('a deposit_db_scheme, currency_rate) op" where
  "ensureRateExists = bnd (gets (\<lambda>s. (active_rates s, now s))) (\<lambda>(rates, t). case rates of
     r # _ \<Rightarrow> ret r
   | [] \<Rightarrow> let r = \<lparr>cr_usd_kes = 15000000000, cr_farm_kes = 100000000, cr_active = True, cr_effective = t\<rparr>
       in thn (insert_row currency_rates_update r) (ret r))"

definition updateActiveRate :: "rat option \<Rightarrow> ('a deposit_db_scheme, currency_rate) op" where
  "updateActiveRate usd_kes = (case usd_kes of
     None \<Rightarrow> throw (BadRequest ''USD/KES conversion rate must be a positive number'')
   | Some x \<Rightarrow>
     if x \<le> 0 then throw (BadRequest ''USD/KES conversion rate must be a positive number'')
     else bnd (update_many currency_rates currency_rates_update cr_active (\<lambda>r. r\<lparr>cr_active := False\<rparr>)) (\<lambda>_.
       bnd (gets now) (\<lambda>t.
       let r = \<lparr>cr_usd_kes = to_units x, cr_farm_kes = 100000000, cr_active = True, cr_effective = t\<rparr>
       in thn (insert_row currency_rates_update r) (ret r))))"

section \<open>What the crypto provider answers\<close>

record crypto_payment =
  cp_id :: string
  cp_status :: "string option"
  cp_order :: "nat option"
  cp_price_currency :: "string option"
  cp_pay_currency :: "string option"
  cp_price :: "rat option"

record deposit_api =
  da_currencies :: "err + string list"
  da_minimum :: "string \<Rightarrow> err + (rat \<times> rat)"
  da_estimate :: "rat \<Rightarrow> string \<Rightarrow> err + rat"
  da_create :: "nat \<Rightarrow> err + crypto_payment"

definition lower :: "string \<Rightarrow> string" where
  "lower = map lower_char"

definition MIN_CRYPTO_DEPOSIT_USD :: rat where "MIN_CRYPTO_DEPOSIT_USD = 2"

definition getNowpaymentsCurrencies :: "deposit_api \<Rightarrow> ('s, string list) op" where
  "getNowpaymentsCurrencies A = of_sum (da_currencies A)"

definition deposit_crypto_minimum :: "deposit_api \<Rightarrow> string \<Rightarrow> ('s, rat \<times> rat) op" where
  "deposit_crypto_minimum A currency = bnd (of_sum (da_currencies A)) (\<lambda>currencies.
     if lower (trim currency) \<notin> set currencies
     then throw (BadRequest ''The selected cryptocurrency is not currently available'')
     else of_sum (da_minimum A (lower (trim currency))))"

record crypto_estimate =
  ce_currency :: string
  ce_price :: rat
  ce_estimated :: rat
  ce_minimum :: rat
  ce_minimum_usd :: rat
  ce_minimum_deposit_usd :: rat

definition getNowpaymentsCryptoEstimate ::
  "deposit_api \<Rightarrow> string \<Rightarrow> rat option \<Rightarrow> ('s, crypto_estimate) op" where
  "getNowpaymentsCryptoEstimate A currency price = (case price of
     None \<Rightarrow> throw (BadRequest ''Enter a valid USD amount'')
   | Some x \<Rightarrow>
     if x \<le> 0 \<or> x > 100000 then throw (BadRequest ''Enter a valid USD amount'')
     else let c = lower (trim currency) in
       bnd (of_sum (da_currencies A)) (\<lambda>currencies.
       if c \<notin> set currencies then throw (BadRequest ''The selected cryptocurrency is not currently available'')
       else bnd (of_sum (da_estimate A x c)) (\<lambda>est. bnd (of_sum (da_minimum A c)) (\<lambda>(least, least_usd).
         ret \<lparr>ce_currency = c, ce_price = x, ce_estimated = est, ce_minimum = least, ce_minimum_usd = least_usd,
              ce_minimum_deposit_usd = max MIN_CRYPTO_DEPOSIT_USD least_usd\<rparr>))))"

section \<open>Requests\<close>

record crypto_deposit_dto =
  cd_price :: "rat option"
  cd_price_currency :: "string option"
  cd_pay_currency :: "string option"

definition new_deposit ::
  "nat \<Rightarrow> nat \<Rightarrow> nat \<Rightarrow> rat \<Rightarrow> string \<Rightarrow> string \<Rightarrow> string \<Rightarrow> string option \<Rightarrow> int \<Rightarrow> deposit" where
  "new_deposit i r u amount currency method provider pref t =
     \<lparr>dp_id = i, dp_ref = r, dp_user = u, dp_amount = amount, dp_currency = currency, dp_method = method,
      dp_provider = Some provider, dp_provider_ref = pref, dp_status = DPending, dp_created = t\<rparr>"

definition deposit_txn :: "nat \<Rightarrow> nat option \<Rightarrow> nat \<Rightarrow> rat \<Rightarrow> nat \<Rightarrow> int \<Rightarrow> txn" where
  "deposit_txn r receiver u amount i t =
     \<lparr>t_id = i, t_ref = r, t_sender = None, t_receiver = receiver, t_type = DepositTxn, t_status = Pending,
      t_amount = to_units amount, t_fee = 0, t_net = to_units amount, t_created = t, t_meta = [MUser u]\<rparr>"

text \<open>A deposit over Paystack stores its own reference as \<open>providerRef\<close>; here that is \<open>None\<close>.\<close>

text \<open>What is checked before the rows are stored: the price, the wallet and the amount in FARM.\<close>

definition crypto_deposit_checks ::
  "deposit_api \<Rightarrow> nat \<Rightarrow> crypto_deposit_dto \<Rightarrow> ('a deposit_db_scheme, rat \<times> string \<times> wallet \<times> rat) op" where
  "crypto_deposit_checks A u dto =
     (let cur = (case cd_pay_currency dto of None \<Rightarrow> [] | Some c \<Rightarrow> lower (trim c)) in
      case cd_price dto of
        None \<Rightarrow> throw (BadRequest ''Crypto deposits must be at least USD 2.00'')
      | Some price \<Rightarrow>
        if price < MIN_CRYPTO_DEPOSIT_USD \<or> map_option (\<lambda>c. lower (trim c)) (cd_price_currency dto) \<noteq> Some ''usd''
        then throw (BadRequest ''Crypto deposits must be at least USD 2.00'')
        else if \<not> asset_ok cur then throw (BadRequest ''Choose a valid NOWPayments currency'')
        else bnd (of_sum (da_currencies A)) (\<lambda>currencies.
        if cur \<notin> set currencies then throw (BadRequest ''The selected cryptocurrency is not currently available'')
        else bnd (of_sum (da_minimum A cur)) (\<lambda>(least, least_usd).
        bnd (of_sum (da_estimate A price cur)) (\<lambda>est.
        if est < least then throw (BadRequest ''NOWPayments requires a larger amount'')
        else bnd (gets (\<lambda>s. active_wallet s u)) (\<lambda>w. case w of
          None \<Rightarrow> throw (BadRequest ''Active wallet not found'')
        | Some w \<Rightarrow> bnd (usdToFarm price) (\<lambda>amount.
            if amount \<le> 0 then throw (BadRequest ''The USD/FARM exchange rate is unavailable'')
            else ret (price, cur, w, amount)))))))"

definition deposit_tx :: "(nat \<Rightarrow> int \<Rightarrow> deposit) \<Rightarrow> (nat \<Rightarrow> int \<Rightarrow> txn) \<Rightarrow> deposit_meta \<Rightarrow> ('a deposit_db_scheme, deposit) op" where
  "deposit_tx mk mk_txn m = transaction
     (bnd fresh (\<lambda>i. bnd (gets now) (\<lambda>t.
      thn (insert_row deposits_update (mk i t))
      (bnd (txn_create mk_txn) (\<lambda>_.
      thn (insert_row deposit_metas_update m) (ret (mk i t)))))))"

definition deposit_status_update :: "nat \<Rightarrow> deposit_status \<Rightarrow> ('a deposit_db_scheme, unit) op" where
  "deposit_status_update i st = modify (\<lambda>s. s\<lparr>deposits := upd_row dp_id i (\<lambda>d. d\<lparr>dp_status := st\<rparr>) (deposits s)\<rparr>)"

definition ref_status_update :: "nat \<Rightarrow> txn_status \<Rightarrow> ('a core_scheme, unit) op" where
  "ref_status_update r st = modify (\<lambda>s. s\<lparr>txns := upd_row t_ref r (\<lambda>t. t\<lparr>t_status := st\<rparr>) (txns s)\<rparr>)"

definition crypto_deposit_meta :: "nat \<Rightarrow> nat \<Rightarrow> rat \<Rightarrow> string \<Rightarrow> deposit_meta" where
  "crypto_deposit_meta r u price cur = (no_meta r)\<lparr>dm_provider := Some ''nowpayments'', dm_user := Some u, dm_usd := Some price,
     dm_pay_currency := Some cur\<rparr>"

definition createNowpaymentsCryptoDeposit ::
  "deposit_api \<Rightarrow> nat \<Rightarrow> crypto_deposit_dto \<Rightarrow> ('a deposit_db_scheme, nat \<times> crypto_payment \<times> rat) op" where
  "createNowpaymentsCryptoDeposit A u dto = bnd (crypto_deposit_checks A u dto) (\<lambda>(price, cur, w, amount).
     bnd fresh (\<lambda>r.
     bnd (deposit_tx (\<lambda>i t. new_deposit i r u amount ''FARM'' ''CRYPTO'' ''nowpayments'' None t)
         (deposit_txn r (Some (w_id w)) u amount) (crypto_deposit_meta r u price cur)) (\<lambda>d.
     case da_create A r of
       Inr p \<Rightarrow>
         thn (transaction (thn (modify (\<lambda>s. s\<lparr>deposits := upd_row dp_id (dp_id d) (\<lambda>x. x\<lparr>dp_provider_ref := Some (cp_id p)\<rparr>) (deposits s)\<rparr>))
           (deposit_meta_update r (\<lambda>m. m\<lparr>dm_payment := Some (cp_id p),
              dm_payment_status := Some (case cp_status p of None \<Rightarrow> ''waiting'' | Some x \<Rightarrow> x)\<rparr>))))
         (ret (r, p, amount))
     | Inl e \<Rightarrow>
         thn (transaction (thn (deposit_status_update (dp_id d) DFailed) (ref_status_update r Failed)))
         (throw e))))"

text \<open>\<open>a || b || ... || 'CARD'\<close>, in upper case.\<close>

fun first_truthy :: "string \<Rightarrow> string option list \<Rightarrow> string" where
  "first_truthy d [] = d"
| "first_truthy d (x # xs) = (if truthy x then the x else first_truthy d xs)"

record deposit_dto =
  dd_methods :: "string option list"
  dd_fiat :: "rat option"
  dd_currency :: "string option"
  dd_phone :: "string option"

definition payment_method :: "deposit_dto \<Rightarrow> string" where
  "payment_method dto = map upper_char (first_truthy ''CARD'' (dd_methods dto))"

text \<open>The values that the column of the database accepts.\<close>

definition known_methods :: "string list" where
  "known_methods = [''CARD'', ''MOBILE_MONEY'', ''CRYPTO'', ''APPLE_PAY'', ''BANK_TRANSFER'']"

definition deposit_currency :: "deposit_dto \<Rightarrow> string" where
  "deposit_currency dto = (if payment_method dto = ''BANK_TRANSFER'' then ''KES'' else first_truthy ''KES'' [dd_currency dto])"

text \<open>\<open>checkout\<close> is what initializing the payment at Paystack answers.  The two rows are stored
  one after the other, and stay when a later step throws.\<close>

definition createDeposit :: "nat \<Rightarrow> deposit_dto \<Rightarrow> err + unit \<Rightarrow> ('a deposit_db_scheme, deposit) op" where
  "createDeposit u dto checkout =
     (let method = payment_method dto in
      if method = ''CRYPTO''
      then throw (BadRequest ''Crypto deposits must use the NOWPayments endpoint'')
      else case dd_fiat dto of
        None \<Rightarrow> throw (BadRequest ''Invalid deposit amount'')
      | Some amount \<Rightarrow>
        if amount < 10 then throw (BadRequest ''Invalid deposit amount'')
        else if method = ''BANK_TRANSFER'' \<and> map upper_char (first_truthy ''KES'' [dd_currency dto]) \<noteq> ''KES''
        then throw (BadRequest ''Paystack Pesalink deposits must use KES.'')
        else bnd fresh (\<lambda>r.
        bnd (if method = ''BANK_TRANSFER'' then of_sum checkout else ret ()) (\<lambda>_.
        if method \<notin> set known_methods then throw (Failure ''Invalid value for argument paymentMethod'')
        else bnd fresh (\<lambda>i. bnd (gets now) (\<lambda>t.
        let d = new_deposit i r u amount (deposit_currency dto) method ''paystack'' None t in
        thn (insert_row deposits_update d)
        (bnd (txn_create (deposit_txn r None u amount)) (\<lambda>_.
        thn (insert_row deposit_metas_update ((no_meta r)\<lparr>dm_provider := Some ''paystack'', dm_user := Some u, dm_fiat := Some amount\<rparr>))
        (if method = ''MOBILE_MONEY'' then
           if \<not> truthy (dd_phone dto) then throw (BadRequest ''Phone number is required for mobile money deposits'')
           else thn (of_sum checkout) (ret d)
         else if method = ''CARD'' then thn (of_sum checkout) (ret d)
         else if method = ''BANK_TRANSFER'' then ret d
         else throw (BadRequest ''Unsupported payment method'')))))))))"

section \<open>Views\<close>

definition getUserDeposits :: "nat \<Rightarrow> ('a deposit_db_scheme, deposit list) op" where
  "getUserDeposits u = gets (\<lambda>s. sort_key (\<lambda>d. - dp_created d)
     (filter (\<lambda>d. dp_user d = u \<and> dp_status d = DSuccess) (deposits s)))"

definition getWalletBalance :: "nat \<Rightarrow> ('a core_scheme, int \<times> int) op" where
  "getWalletBalance u = gets (\<lambda>s. case active_wallet s u of None \<Rightarrow> (0, 0) | Some w \<Rightarrow> (w_balance w, w_locked w))"

definition assertDepositAccess :: "nat \<Rightarrow> nat option \<Rightarrow> ('s, unit) op" where
  "assertDepositAccess owner user = (case user of
     None \<Rightarrow> throw (Unauthorized ''Authentication required'')
   | Some u \<Rightarrow> if owner \<noteq> u then throw (Forbidden ''You do not have permission to access this deposit'') else ret ())"

definition getDepositById :: "nat \<Rightarrow> nat option \<Rightarrow> ('a deposit_db_scheme, deposit option) op" where
  "getDepositById i user = bnd (gets (\<lambda>s. find_row dp_id i (deposits s))) (\<lambda>d. case d of
     None \<Rightarrow> ret None
   | Some d \<Rightarrow> thn (assertDepositAccess (dp_user d) user) (ret (if dp_status d \<noteq> DSuccess then None else Some d)))"

text \<open>The deposit and the transaction that a user may ask about.\<close>

definition own_deposit :: "nat \<Rightarrow> nat \<Rightarrow> ('a deposit_db_scheme, deposit option \<times> txn option) op" where
  "own_deposit u r = bnd (gets (\<lambda>s. (deposit_by_ref s r, txn_by_ref s r, deposit_meta_of s r))) (\<lambda>(d, t, m).
     thn (case d of None \<Rightarrow> ret () | Some d \<Rightarrow> assertDepositAccess (dp_user d) (Some u))
     (if d = None \<and> (t = None \<or> dm_user m \<noteq> Some u) then throw (BadRequest ''Deposit not found'')
      else ret (d, t)))"

text \<open>The status of the reply: of the deposit, else of the transaction.\<close>

definition reply_status :: "deposit option \<Rightarrow> txn option \<Rightarrow> deposit_status + txn_status" where
  "reply_status d t = (case d of Some d \<Rightarrow> Inl (dp_status d)
     | None \<Rightarrow> (case t of Some t \<Rightarrow> Inr (t_status t) | None \<Rightarrow> Inl DPending))"

definition getDepositStatus ::
  "nat \<Rightarrow> nat \<Rightarrow> ('a deposit_db_scheme, (deposit_status + txn_status) \<times> rat \<times> string) op" where
  "getDepositStatus u r = bnd (own_deposit u r) (\<lambda>(d, t).
     ret (reply_status d t, (case d of None \<Rightarrow> 0 | Some d \<Rightarrow> dp_amount d), (case d of None \<Rightarrow> ''FARM'' | Some d \<Rightarrow> dp_currency d)))"

end
