(* ===== verification/Deposit_Settle.thy ===== *)
theory Deposit_Settle
  imports Deposits
begin

text \<open>
  How a deposit is settled: src/deposit/deposit.service.ts, \<open>finalizeSuccessfulDeposit\<close> and the
  four ways in which it credits a wallet, \<open>failDeposit\<close>, and the routes that ask the provider.
  Addresses and names of wallets created on the way are not kept.
\<close>

section \<open>Credits\<close>

text \<open>\<open>Math.round(n * 100) / 100\<close>.\<close>

definition normalizeAmount :: "rat \<Rightarrow> rat" where
  "normalizeAmount x = fl (of_int (math_round (fl (x * 100))) / 100)"

definition new_user_wallet :: "nat \<Rightarrow> nat \<Rightarrow> wallet" where
  "new_user_wallet i u = \<lparr>w_id = i, w_user = Some u, w_address = [], w_balance = 0, w_locked = 0, w_active = True, w_frozen = False,
     w_kind = UserWallet\<rparr>"

definition create_wallet :: "nat \<Rightarrow> ('a core_scheme, wallet) op" where
  "create_wallet u = bnd fresh (\<lambda>i. thn (insert_row wallets_update (new_user_wallet i u)) (ret (new_user_wallet i u)))"

definition wallet_for :: "nat \<Rightarrow> ('a core_scheme, wallet) op" where
  "wallet_for u = bnd (gets (\<lambda>s. active_wallet s u)) (\<lambda>w. case w of Some w \<Rightarrow> ret w | None \<Rightarrow> create_wallet u)"

text \<open>The increment of the balance and its ledger entry.\<close>

definition deposit_entry :: "nat \<Rightarrow> nat \<Rightarrow> rat \<Rightarrow> rat \<Rightarrow> ledger_entry" where
  "deposit_entry tid wid amount before =
     \<lparr>l_txn = Some tid, l_wallet = wid, l_type = Credit, l_amount = to_units amount,
      l_before = Some (to_units before), l_after = Some (to_units (fl (before + amount))), l_category = None\<rparr>"

definition deposit_credit :: "nat \<Rightarrow> wallet \<Rightarrow> rat \<Rightarrow> ('a core_scheme, unit) op" where
  "deposit_credit tid w amount = bnd (wallet_update (w_id w) (inc_balance amount)) (\<lambda>_.
     ledger_create (deposit_entry tid (w_id w) amount (normalizeAmount (num (w_balance w)))))"

definition invalidateFinancialCaches :: "nat option \<Rightarrow> ('a core_scheme, unit) op" where
  "invalidateFinancialCaches u = (case u of None \<Rightarrow> ret ()
   | Some u \<Rightarrow> thn (cacheDelete (KWallet u)) (thn (cacheDelete (KDashboard u)) (cacheInvalidateHistory u)))"

text \<open>\<open>deposit.updateMany({ id, status: 'PENDING' }, { status: 'SUCCESS' })\<close>.\<close>

definition claim_deposit :: "nat \<Rightarrow> ('a deposit_db_scheme, nat) op" where
  "claim_deposit i = update_many deposits deposits_update (\<lambda>d. dp_id d = i \<and> dp_status d = DPending) (\<lambda>d. d\<lparr>dp_status := DSuccess\<rparr>)"

text \<open>\<open>transactions.update\<close> of a settled transaction: completed, with its receiver.\<close>

definition txn_completed :: "nat \<Rightarrow> nat option \<Rightarrow> ('a core_scheme, unit) op" where
  "txn_completed i receiver = modify (\<lambda>s. s\<lparr>txns := upd_row t_id i (\<lambda>t. t\<lparr>t_status := Completed, t_receiver := receiver\<rparr>) (txns s)\<rparr>)"

definition finalizePendingDepositWithTransaction :: "deposit \<Rightarrow> txn \<Rightarrow> ('a deposit_db_scheme, bool) op" where
  "finalizePendingDepositWithTransaction d t = bnd (transaction
     (bnd (wallet_for (dp_user d)) (\<lambda>w.
      bnd (claim_deposit (dp_id d)) (\<lambda>n.
      if n = 0 then ret False
      else thn (deposit_credit (t_id t) w (normalizeAmount (dp_amount d)))
        (thn (if t_status t \<noteq> Completed
              then txn_completed (t_id t) (case t_receiver t of None \<Rightarrow> Some (w_id w) | Some r \<Rightarrow> Some r) else ret ())
        (ret True)))))) (\<lambda>ok.
     thn (if ok then invalidateFinancialCaches (Some (dp_user d)) else ret ()) (ret ok))"

definition completePendingTransaction :: "nat \<Rightarrow> txn \<Rightarrow> ('a deposit_db_scheme, bool) op" where
  "completePendingTransaction r t =
     (if t_status t = Completed then ret True
      else if t_status t \<notin> {Pending, Processing} then ret False
      else bnd (gets (\<lambda>s. (deposit_by_ref s r, deposit_meta_of s r))) (\<lambda>(d, m).
        bnd (gets (\<lambda>s. case d of None \<Rightarrow> None | Some d \<Rightarrow> map_option w_id (active_wallet s (dp_user d)))) (\<lambda>w.
        thn (txn_completed (t_id t) (case t_receiver t of Some x \<Rightarrow> Some x | None \<Rightarrow> w))
        (thn (invalidateFinancialCaches (dm_user m)) (ret True)))))"

text \<open>The wallet named in the transaction, else the user's, else a new one.\<close>

definition receiving_wallet :: "txn \<Rightarrow> nat option \<Rightarrow> ('a core_scheme, wallet option) op" where
  "receiving_wallet t u = bnd (gets (\<lambda>s. Option.bind (t_receiver t) (wallet_by_id s))) (\<lambda>w. case w of
     Some w \<Rightarrow> ret (Some w)
   | None \<Rightarrow> (case u of None \<Rightarrow> ret None | Some u \<Rightarrow> bnd (wallet_for u) (\<lambda>w. ret (Some w))))"

definition creditPendingTransactionDeposit :: "nat \<Rightarrow> ('a deposit_db_scheme, bool) op" where
  "creditPendingTransactionDeposit r = bnd (gets (\<lambda>s. (txn_by_ref s r, deposit_meta_of s r))) (\<lambda>(t, m). case t of
     None \<Rightarrow> ret False
   | Some t \<Rightarrow>
     if t_type t \<noteq> DepositTxn then ret False
     else if t_status t = Completed then ret True
     else if t_status t \<notin> {Pending, Processing} then ret False
     else bnd (transaction
       (bnd (receiving_wallet t (dm_user m)) (\<lambda>w. case w of
          None \<Rightarrow> ret False
        | Some w \<Rightarrow> bnd (update_many txns txns_update (\<lambda>x. t_id x = t_id t \<and> t_status x \<noteq> Completed)
              (\<lambda>x. x\<lparr>t_status := Completed, t_receiver := Some (w_id w)\<rparr>)) (\<lambda>n.
            if n = 0 then ret False
            else thn (deposit_credit (t_id t) w (normalizeAmount (num (t_amount t)))) (ret True))))) (\<lambda>ok.
       thn (if ok then thn (invalidateFinancialCaches (dm_user m))
              (case dm_user m of None \<Rightarrow> ret () | Some u \<Rightarrow> emit (Notification u ''deposit_completed'' (Some (t_id t))))
            else ret ()) (ret ok)))"

definition creditPendingDepositWithWallet :: "deposit \<Rightarrow> txn \<Rightarrow> ('a deposit_db_scheme, bool) op" where
  "creditPendingDepositWithWallet d t =
     (if dp_status d \<noteq> DPending \<or> t_status t \<noteq> Pending then ret False
      else bnd (transaction
        (bnd (claim_deposit (dp_id d)) (\<lambda>n.
         if n = 0 then ret False
         else bnd (wallet_for (dp_user d)) (\<lambda>w.
           thn (deposit_credit (t_id t) w (normalizeAmount (dp_amount d)))
           (thn (txn_completed (t_id t) (Some (w_id w))) (ret True)))))) (\<lambda>ok.
        thn (if ok then thn (invalidateFinancialCaches (Some (dp_user d)))
               (emit (Notification (dp_user d) ''deposit_completed'' (Some (dp_id d)))) else ret ()) (ret ok)))"

section \<open>Guest payments to a merchant\<close>

definition merchant_txn :: "nat \<Rightarrow> rat \<Rightarrow> rat \<Rightarrow> txn \<Rightarrow> txn" where
  "merchant_txn wid charge net t = t\<lparr>t_type := MerchantPayment, t_status := Completed, t_fee := to_units charge, t_net := to_units net,
     t_receiver := Some wid\<rparr>"

text \<open>\<open>wallets.findFirst({ user_id, wallet_type: 'user', is_active: true })\<close>.\<close>

definition user_wallet :: "'a core_scheme \<Rightarrow> nat \<Rightarrow> wallet option" where
  "user_wallet s u = find (\<lambda>w. w_user w = Some u \<and> w_kind w = UserWallet \<and> w_active w) (wallets s)"

text \<open>The wallets of the sale: of the merchant, who must own the deposit, and of the platform.\<close>

definition sale_wallets :: "deposit \<Rightarrow> nat \<Rightarrow> ('a deposit_db_scheme, wallet \<times> wallet) op" where
  "sale_wallets d mid = bnd (gets (\<lambda>s. find_row qm_id mid (qr_merchants s))) (\<lambda>q. case Option.bind q qm_user of
     None \<Rightarrow> throw (BadRequest ''Merchant QR payment does not match its merchant wallet'')
   | Some u \<Rightarrow>
     if u \<noteq> dp_user d then throw (BadRequest ''Merchant QR payment does not match its merchant wallet'')
     else bnd (gets (\<lambda>s. (user_wallet s u, platform_wallet s))) (\<lambda>(w, p). case (w, p) of
       (None, _) \<Rightarrow> throw (BadRequest ''Merchant wallet not found for QR payment'')
     | (Some w, None) \<Rightarrow> throw (BadRequest ''Superadmin wallet not found'')
     | (Some w, Some p) \<Rightarrow> ret (w, p)))"

text \<open>What the merchant gets and what the platform holds then, or nothing when the deposit was not pending.\<close>

definition settle_sale ::
  "deposit \<Rightarrow> txn \<Rightarrow> nat \<Rightarrow> fee_rule \<Rightarrow> wallet \<Rightarrow> wallet \<Rightarrow> ('a deposit_db_scheme, (rat \<times> rat) option) op" where
  "settle_sale d t mid rl w p =
     bnd (claim_deposit (dp_id d)) (\<lambda>n.
     if n = 0 then ret None
     else let amount = normalizeAmount (dp_amount d);
              charge = normalizeAmount (computeFee rl amount 8);
              net = normalizeAmount (fl (amount - charge)) in
       bnd (wallet_update (w_id w) (inc_balance net)) (\<lambda>_.
       bnd (wallet_update (w_id p) (inc_balance charge)) (\<lambda>updated.
       thn (modify (\<lambda>s. s\<lparr>txns := upd_row t_id (t_id t) (merchant_txn (w_id w) charge net) (txns s)\<rparr>))
       (thn (deposit_meta_update (t_ref t) (\<lambda>m. m\<lparr>dm_sale := True\<rparr>))
       (thn (modify (\<lambda>s. s\<lparr>qr_merchants := upd_row qm_id mid (\<lambda>q. q\<lparr>qm_sales := dec_inc (qm_sales q) amount\<rparr>) (qr_merchants s)\<rparr>))
       (bnd (update_many qr_rows qr_rows_update (\<lambda>q. qr_txn q = t_id t \<and> qr_status q \<noteq> Completed) (\<lambda>q. q\<lparr>qr_status := Completed\<rparr>)) (\<lambda>_.
        thn (ledger_create (deposit_entry (t_id t) (w_id w) net (normalizeAmount (num (w_balance w)))))
        (thn (ledger_create (deposit_entry (t_id t) (w_id p) charge (normalizeAmount (num (w_balance p)))))
        (ret (Some (net, num (w_balance updated))))))))))))"

definition finalizeMerchantQrDeposit :: "deposit \<Rightarrow> txn \<Rightarrow> deposit_meta \<Rightarrow> ('a deposit_db_scheme, bool) op" where
  "finalizeMerchantQrDeposit d t m = (case dm_merchant m of
     None \<Rightarrow> throw (BadRequest ''Merchant QR payment is missing its merchant'')
   | Some mid \<Rightarrow> bnd (ruleFor Merchant) (\<lambda>rl.
     bnd (transaction (bnd (sale_wallets d mid) (\<lambda>(w, p). bnd (settle_sale d t mid rl w p) (\<lambda>x. ret (x, w, p))))) (\<lambda>(x, w, p).
     case x of
       None \<Rightarrow> ret False
     | Some (net, platform) \<Rightarrow>
       thn (emit (BalanceUpdate (dp_user d) (fl (normalizeAmount (num (w_balance w)) + net))))
       (thn (case w_user p of None \<Rightarrow> ret () | Some a \<Rightarrow> emit (BalanceUpdate a platform))
       (thn (invalidateFinancialCaches (Some (dp_user d)))
       (thn (invalidateFinancialCaches (w_user p))
       (thn (emit (Notification (dp_user d) ''merchant'' (Some (t_ref t))))
       (ret True))))))))"

definition finalizeMerchantQrPayment :: "nat \<Rightarrow> ('a deposit_db_scheme, bool) op" where
  "finalizeMerchantQrPayment r = bnd (gets (\<lambda>s. (txn_by_ref s r, deposit_meta_of s r))) (\<lambda>(t, m). case t of
     None \<Rightarrow> ret False
   | Some t \<Rightarrow>
     if \<not> dm_guest m then ret False
     else if t_status t \<noteq> Completed then ret False
     else bnd (update_many qr_rows qr_rows_update (\<lambda>q. qr_txn q = t_id t \<and> qr_status q \<noteq> Completed) (\<lambda>q. q\<lparr>qr_status := Completed\<rparr>)) (\<lambda>n.
       if n > 0 then ret True
       else gets (\<lambda>s. list_ex (\<lambda>q. qr_txn q = t_id t \<and> qr_status q = Completed) (qr_rows s))))"

section \<open>Settlement\<close>

text \<open>What Paystack answers for the status of a transaction, and NOWPayments for the payment of an id.\<close>

record settle_answers =
  st_paystack :: "err + string option"
  st_payment :: "string \<Rightarrow> err + crypto_payment"

definition crypto_matches :: "nat \<Rightarrow> string \<Rightarrow> rat option \<Rightarrow> crypto_payment \<Rightarrow> bool" where
  "crypto_matches r cur usd p \<longleftrightarrow> cp_order p = Some r \<and> map_option lower (cp_price_currency p) = Some ''usd''
     \<and> map_option lower (cp_pay_currency p) = Some (lower cur)
     \<and> (case (usd, cp_price p) of (Some x, Some y) \<Rightarrow> \<not> \<bar>fl (x - y)\<bar> > fl (1/100) | _ \<Rightarrow> False)"

definition crypto_paid :: "crypto_payment \<Rightarrow> bool" where
  "crypto_paid p \<longleftrightarrow> map_option lower (cp_status p) \<in> {Some ''finished'', Some ''confirmed''}"

text \<open>\<open>metadata.provider || deposit.provider || 'unknown'\<close>.\<close>

definition provider_of :: "deposit_meta \<Rightarrow> deposit option \<Rightarrow> string" where
  "provider_of m d = trim (first_truthy ''unknown'' [map_option lower (dm_provider m), map_option lower (Option.bind d dp_provider)])"

text \<open>Of other providers than these two nothing is asked: the code goes on as if they had confirmed.\<close>

definition provider_confirms :: "settle_answers \<Rightarrow> nat \<Rightarrow> deposit_meta \<Rightarrow> deposit option \<Rightarrow> bool" where
  "provider_confirms A r m d =
     (if provider_of m d = ''paystack'' then
        (case st_paystack A of Inl _ \<Rightarrow> False | Inr st \<Rightarrow> map_option lower st = Some ''success'')
      else if provider_of m d = ''nowpayments'' then
        (case st_payment A (case dm_payment m of None \<Rightarrow> [] | Some x \<Rightarrow> x) of
           Inl _ \<Rightarrow> False
         | Inr p \<Rightarrow> crypto_paid p \<and> crypto_matches r (case dm_pay_currency m of None \<Rightarrow> [] | Some c \<Rightarrow> c) (dm_usd m) p)
      else True)"

text \<open>A deposit that is missing is made up from its transaction.\<close>

definition reconstruct_deposit :: "nat \<Rightarrow> txn \<Rightarrow> deposit_meta \<Rightarrow> deposit option \<Rightarrow> ('a deposit_db_scheme, deposit option) op" where
  "reconstruct_deposit r t m d = (case d of
     Some d \<Rightarrow> ret (Some d)
   | None \<Rightarrow> (case dm_user m of
       None \<Rightarrow> ret None
     | Some u \<Rightarrow> bnd fresh (\<lambda>i. bnd (gets now) (\<lambda>now.
         let crypto = map_option lower (dm_provider m) \<in> {Some ''ivorypay'', Some ''nowpayments''};
             x = new_deposit i r u (num (t_amount t)) ''FARM'' (if crypto then ''CRYPTO'' else ''CARD'')
               (if crypto then lower (the (dm_provider m)) else ''paystack'') None now
         in thn (insert_row deposits_update x) (ret (Some x))))))"

definition finalizeSuccessfulDeposit :: "nat \<Rightarrow> settle_answers \<Rightarrow> ('a deposit_db_scheme, bool) op" where
  "finalizeSuccessfulDeposit r A = bnd (gets (\<lambda>s. (deposit_by_ref s r, txn_by_ref s r, deposit_meta_of s r))) (\<lambda>(d, t, m).
     case t of
       None \<Rightarrow> throw (BadRequest ''Transaction not found for reference'')
     | Some t \<Rightarrow>
       if \<not> provider_confirms A r m d then ret False
       else bnd (reconstruct_deposit r t m d) (\<lambda>d.
         let pending = (map_option dp_status d = Some DPending); complete = (map_option dp_status d = Some DSuccess);
             tx_pending = (t_type t = DepositTxn \<and> t_status t \<in> {Pending, Processing});
             tx_complete = (t_type t = DepositTxn \<and> t_status t = Completed) in
         if t_type t = DepositTxn \<and> t_status t \<in> {Failed, Cancelled, Reversed} then ret False
         else if dm_guest m then
           (if t_status t = Completed \<and> (dm_sale m \<or> complete) then ret True
            else if \<not> pending \<or> \<not> tx_pending \<and> \<not> tx_complete then ret False
            else finalizeMerchantQrDeposit (the d) t m)
         else if complete \<and> tx_complete then ret True
         else if pending \<and> tx_pending then finalizePendingDepositWithTransaction (the d) t
         else if pending then creditPendingDepositWithWallet (the d) t
         else if complete \<and> tx_pending then completePendingTransaction r t
         else if tx_pending then creditPendingTransactionDeposit r
         else ret False))"

definition verifyDepositStatus ::
  "nat \<Rightarrow> nat \<Rightarrow> settle_answers \<Rightarrow> ('a deposit_db_scheme, bool \<times> (deposit_status + txn_status)) op" where
  "verifyDepositStatus u r A = bnd (own_deposit u r) (\<lambda>(d, t).
     bnd (finalizeSuccessfulDeposit r A) (\<lambda>completed.
     ret (completed, if completed then Inl DSuccess else reply_status d t)))"

definition failDeposit :: "nat \<Rightarrow> string option \<Rightarrow> ('a deposit_db_scheme, bool) op" where
  "failDeposit r reason = bnd (gets (\<lambda>s. (deposit_by_ref s r, txn_by_ref s r, deposit_meta_of s r))) (\<lambda>(d, t, m).
     if d = None \<and> t = None then ret False
     else thn (transaction
         (thn (case d of None \<Rightarrow> ret () | Some d \<Rightarrow> if dp_status d = DPending then deposit_status_update (dp_id d) DFailed else ret ())
         (case t of None \<Rightarrow> ret () | Some t \<Rightarrow>
            if t_status t \<notin> {Failed, Cancelled, Completed}
            then thn (txn_status_update (t_id t) Failed)
              (deposit_meta_update r (\<lambda>m. m\<lparr>dm_failure := (case reason of None \<Rightarrow> dm_failure m | Some x \<Rightarrow> Some x)\<rparr>))
            else ret ())))
       (thn (case (case d of Some d \<Rightarrow> Some (dp_user d) | None \<Rightarrow> if t = None then None else dm_user m) of
            None \<Rightarrow> ret ()
          | Some u \<Rightarrow> thn (emit (TransactionUpdate u r)) (emit (Notification u ''transaction'' (Some r))))
       (ret True)))"

text \<open>The id is digits only; \<open>payment\<close> is what the provider knows of it.\<close>

definition getNowpaymentsCryptoDepositStatus ::
  "nat \<Rightarrow> string \<Rightarrow> settle_answers \<Rightarrow> ('a deposit_db_scheme, nat \<times> string option \<times> bool) op" where
  "getNowpaymentsCryptoDepositStatus u payment_id A =
     (if payment_id = [] \<or> \<not> list_all is_digit payment_id then throw (BadRequest ''Invalid NOWPayments payment ID'')
      else bnd (gets (\<lambda>s. find (\<lambda>t. t_type t = DepositTxn \<and> dm_payment (deposit_meta_of s (t_ref t)) = Some payment_id) (txns s))) (\<lambda>t.
      case t of
        None \<Rightarrow> throw (BadRequest ''Crypto deposit was not found'')
      | Some t \<Rightarrow> bnd (gets (\<lambda>s. deposit_meta_of s (t_ref t))) (\<lambda>m.
        if dm_provider m \<noteq> Some ''nowpayments'' \<or> dm_user m \<noteq> Some u then throw (BadRequest ''Crypto deposit was not found'')
        else bnd (of_sum (st_payment A payment_id)) (\<lambda>p.
        if \<not> crypto_matches (t_ref t) (case dm_pay_currency m of None \<Rightarrow> ''undefined'' | Some c \<Rightarrow> c) (dm_usd m) p
        then throw (BadRequest ''NOWPayments status did not match the pending deposit'')
        else let st = map_option lower (cp_status p) in
          thn (deposit_meta_update (t_ref t) (\<lambda>m. m\<lparr>dm_payment_status := (case st of None \<Rightarrow> Some ''unknown'' | Some x \<Rightarrow> Some x)\<rparr>))
          (bnd (if crypto_paid p then finalizeSuccessfulDeposit (t_ref t) A
                else if st \<in> {Some ''failed'', Some ''refunded'', Some ''expired''} then
                  thn (transaction
                    (bnd (update_many deposits deposits_update (\<lambda>d. dp_ref d = t_ref t \<and> dp_status d = DPending) (\<lambda>d. d\<lparr>dp_status := DFailed\<rparr>)) (\<lambda>_.
                     bnd (update_many txns txns_update (\<lambda>x. t_id x = t_id t \<and> t_status x \<in> {Pending, Processing}) (\<lambda>x. x\<lparr>t_status := Failed\<rparr>)) (\<lambda>_.
                     ret ())))) (ret False)
                else ret False) (\<lambda>credited.
           ret (t_ref t, st, credited)))))))"

end
