(* ===== verification/Deposit_Safety.thy ===== *)
theory Deposit_Safety
  imports Deposit_Settle
begin

text \<open>
  What settling deposits keeps: money enters the wallets with ledger entries only, a transaction is
  credited once, by the settlement that completes it, and a transaction that is completed or failed
  stays so.
\<close>

section \<open>The contract\<close>

definition credits :: "ledger_entry list \<Rightarrow> nat \<Rightarrow> nat" where
  "credits ls i = length (filter (\<lambda>l. l_txn l = Some i \<and> l_type l = Credit) ls)"

definition credited :: "ledger_entry list \<Rightarrow> int" where
  "credited ls = sum_list (map (\<lambda>l. if l_type l = Credit then l_amount l else 0) ls)"

text \<open>The fee of a sale in cents never exceeds the sale.\<close>

definition fits :: "fee_rule \<Rightarrow> bool" where
  "fits r \<longleftrightarrow> (\<forall>x\<ge>0. normalizeAmount (computeFee r (normalizeAmount x) 8) \<le> normalizeAmount x)"

definition deposit_keys :: "nat \<Rightarrow> deposit list \<Rightarrow> bool" where
  "deposit_keys n ds \<longleftrightarrow> distinct (map dp_id ds) \<and> distinct (map dp_ref ds)
     \<and> list_all (\<lambda>d. dp_id d < n \<and> dp_ref d < n \<and> 0 \<le> dp_amount d) ds"

definition txn_keys :: "nat \<Rightarrow> txn list \<Rightarrow> bool" where
  "txn_keys n ts \<longleftrightarrow> distinct (map t_id ts) \<and> distinct (map t_ref ts) \<and> list_all (\<lambda>t. t_id t < n \<and> t_ref t < n \<and> 0 \<le> t_amount t) ts"

definition funds_ok :: "nat \<Rightarrow> wallet list \<Rightarrow> bool" where
  "funds_ok n ws \<longleftrightarrow> distinct (map w_id ws) \<and> list_all (\<lambda>w. w_id w < n \<and> 0 \<le> w_balance w) ws"

text \<open>A transaction that is not completed has no credit; a completed one at most one, or two when it
  is a sale, and a guest payment is completed as a sale only.\<close>

definition settled_ok :: "(nat \<Rightarrow> deposit_meta) \<Rightarrow> ledger_entry list \<Rightarrow> txn \<Rightarrow> bool" where
  "settled_ok M ls t \<longleftrightarrow> (t_status t \<noteq> Completed \<longrightarrow> credits ls (t_id t) = 0)
     \<and> credits ls (t_id t) \<le> (if dm_sale (M (t_ref t)) then 2 else 1)
     \<and> (dm_guest (M (t_ref t)) \<and> t_status t = Completed \<longrightarrow> dm_sale (M (t_ref t)))"

definition deposit_inv :: "'a deposit_db_scheme \<Rightarrow> bool" where
  "deposit_inv s \<longleftrightarrow> deposit_keys (seq s) (deposits s) \<and> txn_keys (seq s) (txns s) \<and> funds_ok (seq s) (wallets s)
     \<and> (\<forall>m\<in>set (deposit_metas s). dm_ref m < seq s) \<and> (\<forall>l\<in>set (ledger s). \<forall>i. l_txn l = Some i \<longrightarrow> i < seq s)
     \<and> (\<forall>t\<in>set (txns s). settled_ok (deposit_meta_of s) (ledger s) t) \<and> rules_ok fits {Merchant} s"

definition txn_stays :: "ledger_entry list \<Rightarrow> ledger_entry list \<Rightarrow> txn \<Rightarrow> txn \<Rightarrow> bool" where
  "txn_stays ls ls' t t' \<longleftrightarrow> t_id t' = t_id t \<and> t_amount t' = t_amount t
     \<and> (t_status t \<in> {Completed, Failed, Cancelled} \<longrightarrow> t_status t' = t_status t \<and> credits ls' (t_id t) = credits ls (t_id t))"

definition deposit_rel :: "'a deposit_db_scheme \<Rightarrow> 'a deposit_db_scheme \<Rightarrow> bool" where
  "deposit_rel s t \<longleftrightarrow> deposit_inv t \<and> total t - credited (ledger t) = total s - credited (ledger s)
     \<and> (\<forall>r x. txn_by_ref s r = Some x \<longrightarrow> (\<exists>y. txn_by_ref t r = Some y \<and> txn_stays (ledger s) (ledger t) x y))"

lemma txn_stays_trans: "txn_stays a b x y \<Longrightarrow> txn_stays b c y z \<Longrightarrow> txn_stays a c x z"
  unfolding txn_stays_def by auto

definition flags :: "'a deposit_db_scheme \<Rightarrow> nat \<Rightarrow> bool \<times> bool" where
  "flags s r = (dm_guest (deposit_meta_of s r), dm_sale (deposit_meta_of s r))"

type_synonym dview = "wallet list \<times> txn list \<times> ledger_entry list \<times> (nat \<Rightarrow> bool \<times> bool)"

definition dview :: "'a deposit_db_scheme \<Rightarrow> dview" where
  "dview s = (wallets s, txns s, ledger s, flags s)"

definition deposit_calm :: "'a deposit_db_scheme \<Rightarrow> 'a deposit_db_scheme \<Rightarrow> bool" where
  "deposit_calm s t \<longleftrightarrow> deposit_rel s t \<and> dview t = dview s"

interpretation dep: viewed_contract deposit_inv deposit_rel dview deposit_calm
proof
  fix s t u :: "'a deposit_db_scheme"
  show "deposit_inv s \<Longrightarrow> deposit_rel s s" by (simp add: deposit_rel_def txn_stays_def)
  show "deposit_rel s t \<Longrightarrow> deposit_rel t u \<Longrightarrow> deposit_rel s u"
    unfolding deposit_rel_def by (metis (no_types, lifting) txn_stays_trans)
  show "deposit_inv s \<Longrightarrow> deposit_rel s t \<Longrightarrow> deposit_inv t" by (simp add: deposit_rel_def)
qed (simp add: deposit_calm_def)

lemma settled_flags: "flags s = flags t \<Longrightarrow> settled_ok (deposit_meta_of s) = settled_ok (deposit_meta_of t)"
  by (auto simp: fun_eq_iff settled_ok_def flags_def)

lemma deposit_same:
  assumes "deposit_inv s" "wallets t = wallets s" "txns t = txns s" "ledger t = ledger s" "flags t = flags s" "seq s \<le> seq t"
    "deposit_keys (seq t) (deposits t)" "\<forall>m\<in>set (deposit_metas t). dm_ref m < seq t" "rules_ok fits {Merchant} t"
  shows "deposit_calm s t"
proof -
  have "txn_keys (seq t) (txns s)" "funds_ok (seq t) (wallets s)" "\<forall>l\<in>set (ledger s). \<forall>i. l_txn l = Some i \<longrightarrow> i < seq t"
    using assms(1,6) by (auto simp: deposit_inv_def txn_keys_def funds_ok_def list_all_iff intro: less_le_trans)
  then have "deposit_inv t"
    using assms(1,7-9) settled_flags[OF assms(5)] by (simp add: deposit_inv_def assms(2-4))
  then show ?thesis
    using assms(5) total_cong[OF assms(2)]
    by (simp add: deposit_calm_def deposit_rel_def dview_def txn_by_ref_def txn_stays_def assms(2-4))
qed

lemma deposit_keys_mono: "deposit_keys m ds \<Longrightarrow> m \<le> n \<Longrightarrow> deposit_keys n ds"
  unfolding deposit_keys_def list_all_iff by (meson less_le_trans)

lemma deposit_quiet:
  assumes "deposit_inv s" "wallets t = wallets s" "txns t = txns s" "ledger t = ledger s" "deposit_metas t = deposit_metas s"
    "deposits t = deposits s" "seq s \<le> seq t" "same_fees s t" "fee_cache t = fee_cache s"
  shows "deposit_calm s t"
proof (rule deposit_same[OF assms(1-4) _ assms(7)])
  show "flags t = flags s" by (simp add: fun_eq_iff flags_def deposit_meta_of_def assms(5))
  show "deposit_keys (seq t) (deposits t)" "\<forall>m\<in>set (deposit_metas t). dm_ref m < seq t"
    using assms(1,7) deposit_keys_mono by (auto simp: deposit_inv_def assms(5,6) intro: less_le_trans)
  show "rules_ok fits {Merchant} t" using assms(1) rules_ok_cong[OF _ assms(8,9)] by (simp add: deposit_inv_def)
qed

section \<open>Neutral operations\<close>

lemma deposit_invD:
  assumes "deposit_inv s"
  shows "deposit_keys (seq s) (deposits s)" "txn_keys (seq s) (txns s)" "funds_ok (seq s) (wallets s)"
    "m \<in> set (deposit_metas s) \<Longrightarrow> dm_ref m < seq s" "l \<in> set (ledger s) \<Longrightarrow> l_txn l = Some i \<Longrightarrow> i < seq s"
    "t \<in> set (txns s) \<Longrightarrow> settled_ok (deposit_meta_of s) (ledger s) t" "rules_ok fits {Merchant} s"
  using assms by (auto simp: deposit_inv_def)

lemma flags_update:
  assumes "\<And>m. dm_ref (f m) = dm_ref m \<and> dm_guest (f m) = dm_guest m \<and> dm_sale (f m) = dm_sale m"
  shows "flags (s\<lparr>deposit_metas := upd_row dm_ref r f (deposit_metas s)\<rparr>) = flags s"
  using assms by (auto simp: fun_eq_iff flags_def deposit_meta_of_def split: option.split)

lemma meta_update_calm:
  assumes "\<And>m. dm_ref (f m) = dm_ref m \<and> dm_guest (f m) = dm_guest m \<and> dm_sale (f m) = dm_sale m"
  shows "safe_op deposit_inv deposit_calm (deposit_meta_update r f)"
proof (rule dep.calm.safeI)
  fix s :: "'a deposit_db_scheme"
  assume s: "deposit_inv s"
  have "deposit_calm s (s\<lparr>deposit_metas := upd_row dm_ref r f (deposit_metas s)\<rparr>)"
    by (rule deposit_same[OF s])
      (use flags_update[OF assms] deposit_invD[OF s] in \<open>auto simp: upd_row_def assms same_fees_def intro: rules_ok_cong\<close>)
  then show "wp (deposit_meta_update r f) (\<lambda>_. deposit_calm s) (\<lambda>_. deposit_calm s) s"
    by (simp add: deposit_meta_update_def wp_modify)
qed

text \<open>Updates of deposits that keep their keys and amounts.\<close>

lemma flags_cong: "deposit_metas t = deposit_metas s \<Longrightarrow> flags t = flags s"
  by (simp add: fun_eq_iff flags_def deposit_meta_of_def)

lemma deposits_calm:
  assumes "\<And>d. dp_id (f d) = dp_id d \<and> dp_ref (f d) = dp_ref d \<and> dp_amount (f d) = dp_amount d" "deposit_inv s"
  shows "deposit_calm s (s\<lparr>deposits := upd_where P f (deposits s)\<rparr>)"
proof (rule deposit_same[OF assms(2)])
  let ?t = "s\<lparr>deposits := upd_where P f (deposits s)\<rparr>"
  show "deposit_keys (seq ?t) (deposits ?t)"
    using deposit_invD(1)[OF assms(2)] assms(1) by (simp add: deposit_keys_def list_all_iff ball_upd_where)
  show "flags ?t = flags s" by (rule flags_cong) simp
  show "rules_ok fits {Merchant} ?t" by (rule rules_ok_cong[OF deposit_invD(7)[OF assms(2)]]) (simp_all add: same_fees_def)
  show "\<forall>m\<in>set (deposit_metas ?t). dm_ref m < seq ?t" using deposit_invD(4)[OF assms(2)] by simp
qed simp_all

lemma claim_calm: "safe_op deposit_inv deposit_calm (claim_deposit i)"
proof (rule dep.calm.safeI)
  fix s :: "'a deposit_db_scheme"
  assume s: "deposit_inv s"
  let ?P = "\<lambda>d. dp_id d = i \<and> dp_status d = DPending" and ?f = "\<lambda>d. d\<lparr>dp_status := DSuccess\<rparr>"
  have eq: "deposits_update (upd_where ?P ?f) s = s\<lparr>deposits := upd_where ?P ?f (deposits s)\<rparr>" by simp
  show "wp (claim_deposit i) (\<lambda>_. deposit_calm s) (\<lambda>_. deposit_calm s) s"
    unfolding claim_deposit_def wp_update_many eq by (rule deposits_calm) (simp_all add: s)
qed

lemma deposit_status_calm: "safe_op deposit_inv deposit_calm (deposit_status_update i st)"
  by (rule dep.calm.safeI) (simp add: deposit_status_update_def wp_modify upd_row_where deposits_calm)

lemma deposit_calm_core:
  "safe_op deposit_inv deposit_calm fresh" "safe_op deposit_inv deposit_calm (emit e)"
  "safe_op deposit_inv deposit_calm (update_many qr_rows qr_rows_update P f)"
  "safe_op deposit_inv deposit_calm (insert_row currency_rates_update r)"
  "safe_op deposit_inv deposit_calm (update_many currency_rates currency_rates_update Q g)"
  by (rule dep.calm.safeI, auto simp: wp_simps same_fees_def intro!: deposit_quiet)+

lemma deposit_calm_quiet: "quiet m \<Longrightarrow> safe_op deposit_inv deposit_calm m"
  by (rule dep.calm.safeI, erule wp_quiet) (auto simp: same_fees_def intro: deposit_quiet)

lemma deposit_calm_sum: "safe_op deposit_inv deposit_calm (of_sum x)"
  by (cases x) (simp_all add: of_sum_def dep.calm.safe_ret dep.calm.safe_throw)

lemma caches_quiet: "quiet (invalidateFinancialCaches u)"
  unfolding invalidateFinancialCaches_def by (intro quiet_intros)

lemma cache_calm: "deposit_inv s \<Longrightarrow> rules_ok fits {Merchant} (s\<lparr>fee_cache := c\<rparr>) \<Longrightarrow> deposit_calm s (s\<lparr>fee_cache := c\<rparr>)"
proof (rule deposit_same)
  assume s: "deposit_inv s"
  show "flags (s\<lparr>fee_cache := c\<rparr>) = flags s" by (rule flags_cong) simp
  show "deposit_keys (seq (s\<lparr>fee_cache := c\<rparr>)) (deposits (s\<lparr>fee_cache := c\<rparr>))" using deposit_invD(1)[OF s] by simp
  show "\<forall>m\<in>set (deposit_metas (s\<lparr>fee_cache := c\<rparr>)). dm_ref m < seq (s\<lparr>fee_cache := c\<rparr>)" using deposit_invD(4)[OF s] by simp
qed simp_all

lemma deposit_calm_rule: "safe_op deposit_inv deposit_calm (ruleFor k)"
proof (rule dep.calm.safeI)
  fix s :: "'a deposit_db_scheme"
  assume s: "deposit_inv s"
  have "rules_ok fits {Merchant} (s\<lparr>fee_cache := next_cache s\<rparr>)"
    using preserves_wp[OF rules_ok_ruleFor deposit_invD(7)[OF s], of k] by (simp add: wp_simps)
  then show "wp (ruleFor k) (\<lambda>_. deposit_calm s) (\<lambda>_. deposit_calm s) s" using cache_calm[OF s] by (simp add: wp_simps)
qed

lemmas deposit_calms = dep.calm.safe_rules deposit_calm_core deposit_calm_rule deposit_calm_sum claim_calm deposit_status_calm
  caches_quiet[THEN deposit_calm_quiet]

lemma deposit_rollback: "deposit_inv s \<Longrightarrow> deposit_inv t \<Longrightarrow> deposit_rel s (s\<lparr>fee_cache := fee_cache t\<rparr>)"
  using cache_calm[of s "fee_cache t"] rules_ok_cache[OF deposit_invD(7) deposit_invD(7), of s t] by (simp add: deposit_calm_def)

lemma deposit_transaction: "safe_op deposit_inv deposit_rel m \<Longrightarrow> safe_op deposit_inv deposit_rel (transaction m)"
proof (rule dep.safeI)
  fix s :: "'a deposit_db_scheme"
  assume m: "safe_op deposit_inv deposit_rel m" and s: "deposit_inv s"
  show "wp (transaction m) (\<lambda>_. deposit_rel s) (\<lambda>_. deposit_rel s) s"
    unfolding wp_transaction by (rule wp_mono[OF dep.safeD[OF m s]]) (auto intro: deposit_rollback[OF s] dep.rel_inv[OF s])
qed

section \<open>One credit\<close>

lemma normalizeAmount_nonneg: "0 \<le> x \<Longrightarrow> 0 \<le> normalizeAmount x"
  by (simp add: normalizeAmount_def math_round_def fl_nonneg_iff)

lemma credits_append: "credits (ls @ ms) i = credits ls i + credits ms i"
  by (simp add: credits_def)

lemma credited_append: "credited (ls @ ms) = credited ls + credited ms"
  by (simp add: credited_def)

lemma credits_entry: "credits [deposit_entry j w x b] i = (if i = j then 1 else 0)" "credited [deposit_entry j w x b] = to_units x"
  by (auto simp: credits_def credited_def deposit_entry_def)

text \<open>The wallets before the credit: as they are, or with a new one.\<close>

definition grown :: "'a deposit_db_scheme \<Rightarrow> wallet list \<Rightarrow> nat \<Rightarrow> bool" where
  "grown s W n \<longleftrightarrow> seq s \<le> n \<and> funds_ok n W \<and> sum_list (map w_balance W) = total s"

lemma grown_same: "deposit_inv s \<Longrightarrow> grown s (wallets s) (seq s)"
  by (simp add: grown_def total_def deposit_invD)

lemma grown_new: "deposit_inv s \<Longrightarrow> grown s (wallets s @ [new_user_wallet (seq s) u]) (Suc (seq s))"
  using deposit_invD(3)[of s]
  by (auto simp: grown_def total_def funds_ok_def new_user_wallet_def list_all_iff)

lemma credit_balance:
  assumes g: "grown s W n" and w: "find_row w_id i W = Some w" and x: "0 \<le> x"
  shows "funds_ok n (upd_row w_id i (inc_balance x) W)"
    "sum_list (map w_balance (upd_row w_id i (inc_balance x) W)) = total s + to_units x"
proof -
  have W: "distinct (map w_id W)" "w \<in> set W" "0 \<le> w_balance w"
    using g w by (auto simp: grown_def funds_ok_def list_all_iff dest: find_row_Some)
  show "funds_ok n (upd_row w_id i (inc_balance x) W)"
    using g x by (auto simp: grown_def funds_ok_def inc_balance_def intro!: list_all_upd_row intro: order_trans[OF _ dec_inc_ge])
  show "sum_list (map w_balance (upd_row w_id i (inc_balance x) W)) = total s + to_units x"
    using sum_upd_row[OF w W(1), of w_balance "inc_balance x"] inc_units[OF W(3) x] g by (simp add: grown_def inc_balance_def)
qed

text \<open>A settlement of one open transaction: it is completed, with the credits \<open>es\<close>.\<close>

lemma settle_rel:
  assumes s: "deposit_inv s" and t: "t \<in> set (txns s)" "t_status t \<in> {Pending, Processing}"
    and w: "funds_ok (seq u) (wallets u)" "total u = total s + credited es" "seq s \<le> seq u"
    and u: "txns u = upd_where P f (txns s)" "ledger u = ledger s @ es"
    and P: "\<And>y. P y \<Longrightarrow> t_id y = t_id t" "P t"
    and f: "\<And>y. t_id (f y) = t_id y \<and> t_ref (f y) = t_ref y \<and> t_amount (f y) = t_amount y \<and> t_status (f y) = Completed"
    and es: "\<And>e. e \<in> set es \<Longrightarrow> l_txn e = Some (t_id t) \<and> l_type e = Credit"
      "length es \<le> (if snd (flags u (t_ref t)) then 2 else 1)" "fst (flags u (t_ref t)) \<Longrightarrow> snd (flags u (t_ref t))"
    and fl: "\<And>r. r \<noteq> t_ref t \<Longrightarrow> flags u r = flags s r" and m: "\<forall>m\<in>set (deposit_metas u). dm_ref m < seq u"
    and d: "deposit_keys (seq u) (deposits u)" and rules: "rules_ok fits {Merchant} u"
  shows "deposit_rel s u"
proof -
  have keyed: "distinct (map t_id (txns s))" "distinct (map t_ref (txns s))" using deposit_invD(2)[OF s] by (simp_all add: txn_keys_def)
  have one: "y = t" if "y \<in> set (txns s)" "t_id y = t_id t \<or> t_ref y = t_ref t" for y
    using that t(1) keyed by (auto simp: distinct_map inj_on_def)
  have ces: "credits es j = (if j = t_id t then length es else 0)" for j
    using es(1) by (auto simp: credits_def filter_empty_conv intro!: arg_cong[of _ _ length] filter_True)
  have c: "credits (ledger u) j = credits (ledger s) j + (if j = t_id t then length es else 0)" for j
    by (simp add: u(2) credits_append ces)
  have none: "credits (ledger s) (t_id t) = 0" using deposit_invD(6)[OF s t(1)] t(2) by (auto simp: settled_ok_def)
  have keys: "txn_keys (seq u) (txns u)"
    using deposit_invD(2)[OF s] w(3) f unfolding u(1) txn_keys_def list_all_iff ball_upd_where by (auto intro: less_le_trans)
  have settled: "settled_ok (deposit_meta_of u) (ledger u) y" if y: "y \<in> set (txns u)" for y
  proof -
    obtain y0 where y0: "y0 \<in> set (txns s)" "y = (if P y0 then f y0 else y0)" using y unfolding u(1) in_upd_where by blast
    show ?thesis
    proof (cases "y0 = t")
      case True
      then show ?thesis using y0(2) P(2) f[of t] none c[of "t_id t"] es(2,3) by (simp add: settled_ok_def flags_def)
    next
      case False
      then have "t_id y0 \<noteq> t_id t" "t_ref y0 \<noteq> t_ref t" using one[OF y0(1)] by auto
      moreover from this have "\<not> P y0" using P(1) by blast
      ultimately show ?thesis
        using deposit_invD(6)[OF s y0(1)] y0(2) c[of "t_id y0"] fl[of "t_ref y0"] by (simp add: settled_ok_def flags_def)
    qed
  qed
  have led: "\<forall>l\<in>set (ledger u). \<forall>j. l_txn l = Some j \<longrightarrow> j < seq u"
    using deposit_invD(2,5)[OF s] w(3) t(1) es(1) by (auto simp: u(2) txn_keys_def list_all_iff intro: less_le_trans)
  have "deposit_inv u" using w(1) keys settled led m d rules by (simp add: deposit_inv_def)
  moreover have "total u - credited (ledger u) = total s - credited (ledger s)"
    using w(2) by (simp add: u(2) credited_append)
  moreover have "\<exists>y. txn_by_ref u r = Some y \<and> txn_stays (ledger s) (ledger u) x y" if "txn_by_ref s r = Some x" for r x
  proof -
    have xin: "x \<in> set (txns s)" using that by (auto simp: txn_by_ref_def dest: find_row_Some)
    have "find_row t_ref r (txns u) = Some (if P x then f x else x)"
      using that f by (simp add: u(1) txn_by_ref_def find_row_upd_where)
    moreover have "txn_stays (ledger s) (ledger u) x (if P x then f x else x)"
    proof (cases "t_id x = t_id t")
      case True
      then have "x = t" using one[OF xin] by blast
      then show ?thesis using t(2) f[of t] by (auto simp: txn_stays_def)
    next
      case False
      then have "\<not> P x" using P(1) by blast
      then show ?thesis using c False by (simp add: txn_stays_def)
    qed
    ultimately show ?thesis by (simp add: txn_by_ref_def)
  qed
  ultimately show ?thesis by (simp add: deposit_rel_def)
qed

lemma credit_rel:
  assumes s: "deposit_inv s" and t: "t \<in> set (txns s)" "t_status t \<in> {Pending, Processing}" "\<not> dm_guest (deposit_meta_of s (t_ref t))"
    and g: "grown s W (seq u)" and w: "find_row w_id i W = Some w" and x: "0 \<le> x"
    and u: "wallets u = upd_row w_id i (inc_balance x) W" "txns u = upd_where P f (txns s)"
      "ledger u = ledger s @ [deposit_entry (t_id t) i x b]" "deposit_metas u = deposit_metas s"
    and P: "\<And>y. P y \<Longrightarrow> t_id y = t_id t" "P t"
    and f: "\<And>y. t_id (f y) = t_id y \<and> t_ref (f y) = t_ref y \<and> t_amount (f y) = t_amount y \<and> t_status (f y) = Completed"
    and d: "deposit_keys (seq u) (deposits u)" and rules: "rules_ok fits {Merchant} u"
  shows "deposit_rel s u"
proof (rule settle_rel[OF s t(1,2) _ _ _ u(2,3) P f _ _ _ _ _ d rules])
  note bal = credit_balance[OF g w x]
  show n: "seq s \<le> seq u" using g by (simp add: grown_def)
  show "funds_ok (seq u) (wallets u)" "total u = total s + credited [deposit_entry (t_id t) i x b]"
    using bal by (simp_all add: u(1) total_def credits_entry)
  show "flags u r = flags s r" for r using flags_cong[OF u(4)] by simp
  show "fst (flags u (t_ref t)) \<Longrightarrow> snd (flags u (t_ref t))" using flags_cong[OF u(4)] t(3) by (simp add: flags_def)
  show "\<forall>m\<in>set (deposit_metas u). dm_ref m < seq u" using deposit_invD(4)[OF s] n by (auto simp: u(4) intro: less_le_trans)
qed (simp_all add: deposit_entry_def)

section \<open>The four settlements\<close>

lemma wallet_for_wp:
  assumes s: "deposit_inv s"
    and Q: "\<And>w W n t. grown s W n \<Longrightarrow> find_row w_id (w_id w) W = Some w
      \<Longrightarrow> t = s\<lparr>wallets := W, seq := n\<rparr> \<Longrightarrow> Q w t"
  shows "wp (wallet_for u) Q E s"
proof (cases "active_wallet s u")
  case None
  have "find_row w_id (seq s) (wallets s) = None"
    using deposit_invD(3)[OF s] by (auto simp: find_row_None funds_ok_def list_all_iff)
  then have "find_row w_id (w_id (new_user_wallet (seq s) u)) (wallets s @ [new_user_wallet (seq s) u]) = Some (new_user_wallet (seq s) u)"
    by (simp add: find_row_append new_user_wallet_def)
  from Q[OF grown_new[OF s] this]
  have "Q (new_user_wallet (seq s) u) (wallets_update (\<lambda>rows. rows @ [new_user_wallet (seq s) u]) (s\<lparr>seq := Suc (seq s)\<rparr>))"
    by (cases s) simp
  then show ?thesis using None by (simp add: wallet_for_def create_wallet_def wp_simps)
next
  case (Some w)
  then have "w \<in> set (wallets s)" unfolding active_wallet_def using find_Some by fastforce
  then have "find_row w_id (w_id w) (wallets s) = Some w"
    using deposit_invD(3)[OF s] by (intro find_row_in) (simp_all add: funds_ok_def)
  from Q[OF grown_same[OF s] this, of s] show ?thesis using Some by (simp add: wallet_for_def wp_simps)
qed

lemma deposit_credit_wp:
  "wallet_by_id s (w_id w) \<noteq> None \<Longrightarrow> wp (deposit_credit i w x) Q E s
    = Q () (s\<lparr>wallets := upd_row w_id (w_id w) (inc_balance x) (wallets s),
        ledger := ledger s @ [deposit_entry i (w_id w) x (normalizeAmount (num (w_balance w)))]\<rparr>)"
  by (auto simp: deposit_credit_def wp_simps)

lemma grown_keys: "deposit_inv s \<Longrightarrow> grown s W n \<Longrightarrow> deposit_keys n (deposits s)"
  by (auto simp: grown_def intro: deposit_keys_mono[OF deposit_invD(1)])

lemma claimed_keys: "deposit_keys n ds \<Longrightarrow> deposit_keys n (upd_where P (\<lambda>d. d\<lparr>dp_status := st\<rparr>) ds)"
  by (simp add: deposit_keys_def list_all_iff ball_upd_where)

lemma same_rules: "deposit_inv s \<Longrightarrow> same_fees s t \<Longrightarrow> fee_cache t = fee_cache s \<Longrightarrow> rules_ok fits {Merchant} t"
  by (rule rules_ok_cong[OF deposit_invD(7)])

lemma grown_rel:
  assumes s: "deposit_inv s" and g: "grown s W (seq u)"
    and u: "wallets u = W" "txns u = txns s" "ledger u = ledger s" "deposit_metas u = deposit_metas s"
    and d: "deposit_keys (seq u) (deposits u)" and rules: "rules_ok fits {Merchant} u"
  shows "deposit_rel s u"
proof -
  have n: "seq s \<le> seq u" and W: "funds_ok (seq u) W" "sum_list (map w_balance W) = total s" using g by (auto simp: grown_def)
  have M: "deposit_meta_of u = deposit_meta_of s" by (simp add: fun_eq_iff deposit_meta_of_def u(4))
  have "txn_keys (seq u) (txns s)" "\<forall>l\<in>set (ledger s). \<forall>i. l_txn l = Some i \<longrightarrow> i < seq u" "\<forall>m\<in>set (deposit_metas s). dm_ref m < seq u"
    using deposit_invD[OF s] n by (auto simp: txn_keys_def list_all_iff intro: less_le_trans)
  then have "deposit_inv u" using W(1) d rules deposit_invD(6)[OF s] by (simp add: deposit_inv_def u M)
  then show ?thesis using W(2) by (simp add: deposit_rel_def total_def u txn_by_ref_def txn_stays_def)
qed

lemma finalizePending_safe:
  assumes s: "deposit_inv s" and t: "t \<in> set (txns s)" "t_status t \<in> {Pending, Processing}" "\<not> dm_guest (deposit_meta_of s (t_ref t))"
    and d: "0 \<le> dp_amount d"
  shows "wp (finalizePendingDepositWithTransaction d t) (\<lambda>_. deposit_rel s) (\<lambda>_. deposit_rel s) s"
proof -
  let ?x = "normalizeAmount (dp_amount d)"
  let ?P = "\<lambda>e. dp_id e = dp_id d \<and> dp_status e = DPending" and ?g = "\<lambda>e. e\<lparr>dp_status := DSuccess\<rparr>"
  have calm: "safe_op deposit_inv deposit_rel (thn (if ok then invalidateFinancialCaches (Some (dp_user d)) else ret ()) (ret ok))" for ok
    by (intro dep.calm_safe deposit_calms)
  have "wp (bnd (wallet_for (dp_user d)) (\<lambda>w. bnd (claim_deposit (dp_id d)) (\<lambda>n. if n = 0 then ret False
      else thn (deposit_credit (t_id t) w ?x) (thn (if t_status t \<noteq> Completed
        then txn_completed (t_id t) (r w) else ret ()) (ret True))))) (\<lambda>_. deposit_rel s) (\<lambda>_ _. False) s" for r
    unfolding wp_bnd
  proof (rule wallet_for_wp[OF s])
    fix w W n s1
    assume g: "grown s W n" and w: "find_row w_id (w_id w) W = Some w" and s1: "s1 = s\<lparr>wallets := W, seq := n\<rparr>"
    have keys: "deposit_keys n (upd_where ?P ?g (deposits s))" by (intro claimed_keys grown_keys[OF s g])
    have idle: "deposit_rel s u" if "wallets u = W" "seq u = n" "txns u = txns s" "ledger u = ledger s" "deposit_metas u = deposit_metas s"
        "deposits u = upd_where ?P ?g (deposits s)" "same_fees s u" "fee_cache u = fee_cache s" for u
      by (rule grown_rel[OF s, of W]) (simp_all add: that g keys same_rules[OF s that(7,8)])
    have paid: "deposit_rel s u" if "wallets u = upd_row w_id (w_id w) (inc_balance ?x) W" "seq u = n"
        "ledger u = ledger s @ [deposit_entry (t_id t) (w_id w) ?x b]"
        "txns u = upd_row t_id (t_id t) (\<lambda>y. y\<lparr>t_status := Completed, t_receiver := v\<rparr>) (txns s)" "deposit_metas u = deposit_metas s"
        "deposits u = upd_where ?P ?g (deposits s)" "same_fees s u" "fee_cache u = fee_cache s" for u b v
      by (rule credit_rel[OF s t _ w normalizeAmount_nonneg[OF d], where P = "\<lambda>y. t_id y = t_id t"
          and f = "\<lambda>y. y\<lparr>t_status := Completed, t_receiver := v\<rparr>"])
        (simp_all add: that g keys upd_row_where[of t_id] same_rules[OF s that(7,8)])
    show "wp (claim_deposit (dp_id d)) (\<lambda>n. wp (if n = 0 then ret False
        else thn (deposit_credit (t_id t) w ?x) (thn (if t_status t \<noteq> Completed
          then txn_completed (t_id t) (r w) else ret ()) (ret True))) (\<lambda>_. deposit_rel s) (\<lambda>_ _. False)) (\<lambda>_ _. False) s1"
      using t(2) w by (cases "filter ?P (deposits s) = []")
        (auto simp: s1 claim_deposit_def wp_simps same_fees_def intro!: idle,
         auto simp: s1 claim_deposit_def txn_completed_def wp_simps deposit_credit_wp wallet_by_id_def same_fees_def intro!: paid)
  qed
  then have "wp (transaction (bnd (wallet_for (dp_user d)) (\<lambda>w. bnd (claim_deposit (dp_id d)) (\<lambda>n. if n = 0 then ret False
      else thn (deposit_credit (t_id t) w ?x) (thn (if t_status t \<noteq> Completed
        then txn_completed (t_id t) (r w) else ret ()) (ret True)))))) (\<lambda>_. deposit_rel s) (\<lambda>_. deposit_rel s) s" for r
    unfolding wp_transaction by (rule wp_mono) simp_all
  then show ?thesis
    unfolding finalizePendingDepositWithTransaction_def by (intro dep.safe_after[OF s _ calm])
qed

end
