(* ===== verification/Deposit_Credits.thy ===== *)
theory Deposit_Credits
  imports Deposit_Safety
begin

text \<open>
  The other settlements of src/deposit/deposit.service.ts keep the contract of theory
  \<open>Deposit_Safety\<close>: credits without a deposit or to a wallet of the transaction, the sale of a
  merchant with its two credits, a completion without a credit, and failures.
\<close>

section \<open>Credits of a deposit without an open transaction, and of one without a deposit\<close>

lemma receiving_wallet_wp:
  assumes s: "deposit_inv s"
    and Q: "\<And>w W n t. grown s W n \<Longrightarrow> find_row w_id (w_id w) W = Some w
      \<Longrightarrow> t = s\<lparr>wallets := W, seq := n\<rparr> \<Longrightarrow> Q (Some w) t"
    and none: "Q None s"
  shows "wp (receiving_wallet t u) Q E s"
proof (cases "Option.bind (t_receiver t) (wallet_by_id s)")
  case None
  have "wp (bnd (wallet_for v) (\<lambda>w. ret (Some w))) Q E s" for v
    unfolding wp_bnd wp_ret_eta by (rule wallet_for_wp[OF s]) (rule Q)
  then show ?thesis using None none by (simp add: receiving_wallet_def wp_bnd wp_gets wp_ret split: option.split)
next
  case (Some w)
  then have "wallet_by_id s (w_id w) = Some w" by (auto simp: bind_eq_Some_conv dest: wallet_by_id_Some)
  then have "find_row w_id (w_id w) (wallets s) = Some w" by (simp add: wallet_by_id_def)
  from Q[OF grown_same[OF s] this, of s] show ?thesis using Some by (simp add: receiving_wallet_def wp_simps)
qed

lemma creditTransaction_safe:
  assumes s: "deposit_inv s" and t: "t \<in> set (txns s)" "t_status t \<in> {Pending, Processing}" "\<not> dm_guest (deposit_meta_of s (t_ref t))"
    and w: "grown s W n" "find_row w_id (w_id w) W = Some w" and s1: "s1 = s\<lparr>wallets := W, seq := n\<rparr>" and x: "0 \<le> x"
  shows "wp (bnd (update_many txns txns_update (\<lambda>y. t_id y = t_id t \<and> t_status y \<noteq> Completed)
              (\<lambda>y. y\<lparr>t_status := Completed, t_receiver := Some (w_id w)\<rparr>)) (\<lambda>n.
            if n = 0 then ret False
            else thn (deposit_credit (t_id t) w x) (ret True))) (\<lambda>_. deposit_rel s) (\<lambda>_ _. False) s1"
proof -
  let ?P = "\<lambda>y. t_id y = t_id t \<and> t_status y \<noteq> Completed"
  have "?P t" using t(2) by auto
  then have "filter ?P (txns s) \<noteq> []" using t(1) by (auto simp: filter_empty_conv)
  moreover have "deposit_rel s u" if "wallets u = upd_row w_id (w_id w) (inc_balance x) W" "seq u = n"
      "ledger u = ledger s @ [deposit_entry (t_id t) (w_id w) x b]"
      "txns u = upd_where ?P (\<lambda>y. y\<lparr>t_status := Completed, t_receiver := Some (w_id w)\<rparr>) (txns s)" "deposit_metas u = deposit_metas s"
      "deposits u = deposits s" "same_fees s u" "fee_cache u = fee_cache s" for u b
    by (rule credit_rel[OF s t _ w(2) x, where P = ?P and f = "\<lambda>y. y\<lparr>t_status := Completed, t_receiver := Some (w_id w)\<rparr>"])
      (use that w(1) \<open>?P t\<close> in \<open>simp_all add: grown_keys[OF s w(1)] same_rules[OF s that(7,8)]\<close>)
  ultimately show ?thesis using w(2)
    by (auto simp: s1 wp_simps deposit_credit_wp wallet_by_id_def same_fees_def)
qed

lemma creditPendingTransaction_safe:
  assumes s: "deposit_inv s" and g: "\<not> dm_guest (deposit_meta_of s r)"
  shows "wp (creditPendingTransactionDeposit r) (\<lambda>_. deposit_rel s) (\<lambda>_. deposit_rel s) s"
proof (cases "txn_by_ref s r")
  case None
  then show ?thesis by (simp add: creditPendingTransactionDeposit_def wp_simps dep.rel_refl[OF s])
next
  case (Some t)
  have t: "t \<in> set (txns s)" "t_ref t = r" using Some by (auto simp: txn_by_ref_def dest: find_row_Some)
  have x: "0 \<le> normalizeAmount (num (t_amount t))"
    using deposit_invD(2)[OF s] t(1) by (intro normalizeAmount_nonneg) (auto simp: txn_keys_def list_all_iff num_def fl_nonneg_iff)
  show ?thesis
  proof (cases "t_type t = DepositTxn \<and> t_status t \<in> {Pending, Processing}")
    case False
    then show ?thesis by (auto simp: creditPendingTransactionDeposit_def wp_bnd wp_gets wp_ret Some dep.rel_refl[OF s])
  next
    case True
    have calm: "safe_op deposit_inv deposit_rel (thn (if ok then thn (invalidateFinancialCaches v)
              (case v of None \<Rightarrow> ret () | Some u \<Rightarrow> emit (Notification u ''deposit_completed'' i))
            else ret ()) (ret ok))" for ok v i
      by (intro dep.calm_safe deposit_calms)
    have "wp (bnd (receiving_wallet t v) (\<lambda>w. case w of
          None \<Rightarrow> ret False
        | Some w \<Rightarrow> bnd (update_many txns txns_update (\<lambda>x. t_id x = t_id t \<and> t_status x \<noteq> Completed)
              (\<lambda>x. x\<lparr>t_status := Completed, t_receiver := Some (w_id w)\<rparr>)) (\<lambda>n.
            if n = 0 then ret False
            else thn (deposit_credit (t_id t) w (normalizeAmount (num (t_amount t)))) (ret True)))) (\<lambda>_. deposit_rel s) (\<lambda>_ _. False) s" for v
      unfolding wp_bnd[of "receiving_wallet t v"]
    proof (rule receiving_wallet_wp[OF s], goal_cases)
      case (1 w W n s1)
      then show ?case using creditTransaction_safe[OF s t(1) _ _ 1 x] True g by (simp add: t(2))
    next
      case 2
      show ?case by (simp add: wp_ret dep.rel_refl[OF s])
    qed
    from this[THEN wp_mono, of "\<lambda>_. deposit_rel s" "\<lambda>e t. deposit_rel s (s\<lparr>fee_cache := fee_cache t\<rparr>)"]
    have "wp (transaction (bnd (receiving_wallet t v) (\<lambda>w. case w of
          None \<Rightarrow> ret False
        | Some w \<Rightarrow> bnd (update_many txns txns_update (\<lambda>x. t_id x = t_id t \<and> t_status x \<noteq> Completed)
              (\<lambda>x. x\<lparr>t_status := Completed, t_receiver := Some (w_id w)\<rparr>)) (\<lambda>n.
            if n = 0 then ret False
            else thn (deposit_credit (t_id t) w (normalizeAmount (num (t_amount t)))) (ret True))))) (\<lambda>_. deposit_rel s) (\<lambda>_. deposit_rel s) s" for v
      by (simp add: wp_transaction)
    from dep.safe_after[OF s this calm] True show ?thesis
      by (simp add: creditPendingTransactionDeposit_def wp_bnd[of "gets _"] wp_gets Some) (auto simp: wp_ret)
  qed
qed

lemma creditWallet_safe:
  assumes s: "deposit_inv s" and t: "t \<in> set (txns s)" "t_status t \<in> {Pending, Processing}" "\<not> dm_guest (deposit_meta_of s (t_ref t))"
    and x: "0 \<le> x"
  shows "wp (bnd (wallet_for u) (\<lambda>w. thn (deposit_credit (t_id t) w x)
           (thn (txn_completed (t_id t) (Some (w_id w))) (ret True)))) (\<lambda>_. deposit_rel s) (\<lambda>_ _. False) s"
  unfolding wp_bnd
proof (rule wallet_for_wp[OF s])
  fix w W n s1
  assume g: "grown s W n" and w: "find_row w_id (w_id w) W = Some w" and s1: "s1 = s\<lparr>wallets := W, seq := n\<rparr>"
  have "deposit_rel s u" if "wallets u = upd_row w_id (w_id w) (inc_balance x) W" "seq u = n"
      "ledger u = ledger s @ [deposit_entry (t_id t) (w_id w) x b]"
      "txns u = upd_row t_id (t_id t) (\<lambda>y. y\<lparr>t_status := Completed, t_receiver := v\<rparr>) (txns s)" "deposit_metas u = deposit_metas s"
      "deposits u = deposits s" "same_fees s u" "fee_cache u = fee_cache s" for u b v
    by (rule credit_rel[OF s t _ w x, where P = "\<lambda>y. t_id y = t_id t" and f = "\<lambda>y. y\<lparr>t_status := Completed, t_receiver := v\<rparr>"])
      (simp_all add: that g upd_row_where[of t_id] grown_keys[OF s g] same_rules[OF s that(7,8)])
  then show "wp (thn (deposit_credit (t_id t) w x) (thn (txn_completed (t_id t) (Some (w_id w))) (ret True)))
      (\<lambda>_. deposit_rel s) (\<lambda>_ _. False) s1"
    using w by (simp add: s1 txn_completed_def wp_simps deposit_credit_wp wallet_by_id_def same_fees_def)
qed

lemma creditPendingDeposit_safe:
  fixes s :: "'a deposit_db_scheme"
  assumes s: "deposit_inv s" and t: "t \<in> set (txns s)" "\<not> dm_guest (deposit_meta_of s (t_ref t))" and d: "0 \<le> dp_amount d"
  shows "wp (creditPendingDepositWithWallet d t) (\<lambda>_. deposit_rel s) (\<lambda>_. deposit_rel s) s"
proof (cases "dp_status d = DPending \<and> t_status t = Pending")
  case False
  then show ?thesis by (auto simp: creditPendingDepositWithWallet_def wp_ret dep.rel_refl[OF s])
next
  case True
  let ?m = "\<lambda>n. if n = (0::nat) then ret False else bnd (wallet_for (dp_user d)) (\<lambda>w.
      thn (deposit_credit (t_id t) w (normalizeAmount (dp_amount d))) (thn (txn_completed (t_id t) (Some (w_id w))) (ret True)))"
  let ?G = "\<lambda>v :: dview. t \<in> set (fst (snd v)) \<and> \<not> fst (snd (snd (snd v)) (t_ref t))"
  have "safe_op (\<lambda>s :: 'a deposit_db_scheme. deposit_inv s \<and> ?G (dview s)) deposit_rel (?m n)" for n
    unfolding safe_op_def dview_def flags_def using True
    by (auto simp: wp_ret dep.rel_refl intro!: wp_mono[OF creditWallet_safe] normalizeAmount_nonneg[OF d])
  then have "safe_op (\<lambda>s :: 'a deposit_db_scheme. deposit_inv s \<and> ?G (dview s)) deposit_rel (bnd (claim_deposit (dp_id d)) ?m)"
    by (intro dep.calm_bnd claim_calm)
  then have "wp (bnd (claim_deposit (dp_id d)) ?m) (\<lambda>_. deposit_rel s) (\<lambda>_. deposit_rel s) s"
    using s t unfolding safe_op_def dview_def flags_def by simp
  then have *: "wp (transaction (bnd (claim_deposit (dp_id d)) ?m)) (\<lambda>_. deposit_rel s) (\<lambda>_. deposit_rel s) s"
    unfolding wp_transaction by (rule wp_mono) (auto intro: deposit_rollback[OF s] dep.rel_inv[OF s])
  have calm: "safe_op deposit_inv deposit_rel (thn (if ok then thn (invalidateFinancialCaches (Some (dp_user d)))
               (emit (Notification (dp_user d) ''deposit_completed'' (Some (dp_id d)))) else ret ()) (ret ok))" for ok
    by (intro dep.calm_safe deposit_calms)
  from dep.safe_after[OF s * calm] True show ?thesis by (simp add: creditPendingDepositWithWallet_def)
qed

section \<open>The sale of a merchant\<close>

lemma credit_two:
  assumes g: "grown s W n" and w: "find_row w_id i W = Some w" and p: "find_row w_id j W = Some p" and xy: "0 \<le> x" "0 \<le> y"
  shows "funds_ok n (upd_row w_id j (inc_balance y) (upd_row w_id i (inc_balance x) W))"
    "sum_list (map w_balance (upd_row w_id j (inc_balance y) (upd_row w_id i (inc_balance x) W))) = total s + to_units x + to_units y"
proof -
  let ?W = "upd_row w_id i (inc_balance x) W"
  let ?s = "s\<lparr>wallets := ?W\<rparr>"
  note one = credit_balance[OF g w xy(1)]
  have g': "grown ?s ?W n" using g one by (simp add: grown_def total_def)
  obtain p' where p': "find_row w_id j ?W = Some p'" using p by (cases "i = j") auto
  from credit_balance[OF g' p' xy(2)] one(2) show
    "funds_ok n (upd_row w_id j (inc_balance y) ?W)"
    "sum_list (map w_balance (upd_row w_id j (inc_balance y) ?W)) = total s + to_units x + to_units y"
    by (simp_all add: total_def)
qed

lemma flags_sale:
  assumes "dm_guest (deposit_meta_of s r)" and u: "deposit_metas u = upd_row dm_ref r (\<lambda>m. m\<lparr>dm_sale := True\<rparr>) (deposit_metas s)"
  shows "flags u r = (True, True)" "q \<noteq> r \<Longrightarrow> flags u q = flags s q"
proof -
  obtain m where "find_row dm_ref r (deposit_metas s) = Some m" "dm_guest m"
    using assms(1) by (auto simp: deposit_meta_of_def no_meta_def split: option.splits)
  then show "flags u r = (True, True)" by (simp add: flags_def deposit_meta_of_def u)
  show "q \<noteq> r \<Longrightarrow> flags u q = flags s q" by (simp add: flags_def deposit_meta_of_def u)
qed

definition claimed :: "deposit \<Rightarrow> deposit list \<Rightarrow> deposit list" where
  "claimed d = upd_where (\<lambda>e. dp_id e = dp_id d \<and> dp_status e = DPending) (\<lambda>e. e\<lparr>dp_status := DSuccess\<rparr>)"

lemma settle_sale_wp:
  assumes w: "find_row w_id (w_id w) (wallets s) = Some w" "find_row w_id (w_id p) (wallets s) = Some p"
    and a: "a = normalizeAmount (dp_amount d)" "c = normalizeAmount (computeFee rl a 8)" "net = normalizeAmount (fl (a - c))"
    and idle: "\<And>u. filter (\<lambda>e. dp_id e = dp_id d \<and> dp_status e = DPending) (deposits s) = [] \<Longrightarrow> wallets u = wallets s \<Longrightarrow> seq u = seq s \<Longrightarrow> txns u = txns s \<Longrightarrow> ledger u = ledger s \<Longrightarrow> deposit_metas u = deposit_metas s
      \<Longrightarrow> deposits u = claimed d (deposits s) \<Longrightarrow> same_fees s u \<Longrightarrow> fee_cache u = fee_cache s \<Longrightarrow> Q None u"
    and paid: "\<And>x u b b'. wallets u = upd_row w_id (w_id p) (inc_balance c) (upd_row w_id (w_id w) (inc_balance net) (wallets s))
      \<Longrightarrow> seq u = seq s \<Longrightarrow> ledger u = ledger s @ [deposit_entry (t_id t) (w_id w) net b, deposit_entry (t_id t) (w_id p) c b']
      \<Longrightarrow> txns u = upd_row t_id (t_id t) (merchant_txn (w_id w) c net) (txns s)
      \<Longrightarrow> deposit_metas u = upd_row dm_ref (t_ref t) (\<lambda>m. m\<lparr>dm_sale := True\<rparr>) (deposit_metas s)
      \<Longrightarrow> deposits u = claimed d (deposits s) \<Longrightarrow> same_fees s u \<Longrightarrow> fee_cache u = fee_cache s \<Longrightarrow> Q (Some x) u"
  shows "wp (settle_sale d t mid rl w p) Q E s"
proof -
  obtain p' where p': "find_row w_id (w_id p) (upd_row w_id (w_id w) (inc_balance net) (wallets s)) = Some p'"
    using w by (cases "w_id p = w_id w") simp_all
  show ?thesis
  proof (cases "filter (\<lambda>e. dp_id e = dp_id d \<and> dp_status e = DPending) (deposits s) = []")
    case True
    then show ?thesis
      by (simp add: settle_sale_def claim_deposit_def wp_bnd wp_update_many wp_ret) (rule idle, simp_all add: same_fees_def claimed_def)
  next
    case False
    then show ?thesis
      using w(1) p'
      by (simp add: settle_sale_def claim_deposit_def Let_def a(1)[symmetric] a(2)[symmetric] a(3)[symmetric]
          wp_bnd wp_thn wp_update_many wp_wallet_update wp_modify wp_ledger_create wp_ret deposit_meta_update_def wallet_by_id_def
          del: find_row_upd_row) (rule paid, simp_all add: same_fees_def claimed_def)
  qed
qed

lemma sale_parts:
  assumes "0 \<le> dp_amount d" "fits rl" "a = normalizeAmount (dp_amount d)" "c = normalizeAmount (computeFee rl a 8)"
  shows "0 \<le> c" "c \<le> a" "0 \<le> normalizeAmount (fl (a - c))"
proof -
  show "0 \<le> c" by (simp add: assms(4) normalizeAmount_nonneg computeFee_nonneg)
  show ca: "c \<le> a" using assms by (simp add: fits_def)
  show "0 \<le> normalizeAmount (fl (a - c))" using ca by (simp add: normalizeAmount_nonneg fl_nonneg_iff)
qed

lemma settle_sale_safe:
  assumes s: "deposit_inv s" and t: "t \<in> set (txns s)" "t_status t \<in> {Pending, Processing}" "dm_guest (deposit_meta_of s (t_ref t))"
    and w: "find_row w_id (w_id w) (wallets s) = Some w" "find_row w_id (w_id p) (wallets s) = Some p"
    and d: "0 \<le> dp_amount d" and rl: "fits rl"
  shows "wp (settle_sale d t mid rl w p) (\<lambda>_. deposit_rel s) (\<lambda>_ _. False) s"
proof (rule settle_sale_wp[OF w refl refl refl])
  let ?c = "normalizeAmount (computeFee rl (normalizeAmount (dp_amount d)) 8)"
  let ?net = "normalizeAmount (fl (normalizeAmount (dp_amount d) - ?c))"
  note parts = sale_parts[OF d rl refl refl]
  note two = credit_two[OF grown_same[OF s] w parts(3,1)]
  have keys: "deposit_keys (seq s) (claimed d (deposits s))" unfolding claimed_def by (intro claimed_keys deposit_invD(1)[OF s])
  show "deposit_rel s u" if "wallets u = wallets s" "seq u = seq s" "txns u = txns s" "ledger u = ledger s" "deposit_metas u = deposit_metas s"
      "deposits u = claimed d (deposits s)" "same_fees s u" "fee_cache u = fee_cache s" for u
    by (rule grown_rel[OF s]) (use grown_same[OF s] in \<open>simp_all add: that keys same_rules[OF s that(7,8)]\<close>)
  show "deposit_rel s u" if "wallets u = upd_row w_id (w_id p) (inc_balance ?c) (upd_row w_id (w_id w) (inc_balance ?net) (wallets s))"
      "seq u = seq s" "ledger u = ledger s @ [deposit_entry (t_id t) (w_id w) ?net b, deposit_entry (t_id t) (w_id p) ?c b']"
      "txns u = upd_row t_id (t_id t) (merchant_txn (w_id w) ?c ?net) (txns s)"
      "deposit_metas u = upd_row dm_ref (t_ref t) (\<lambda>m. m\<lparr>dm_sale := True\<rparr>) (deposit_metas s)"
      "deposits u = claimed d (deposits s)" "same_fees s u" "fee_cache u = fee_cache s" for u b b'
  proof (rule settle_rel[OF s t(1,2), where P = "\<lambda>y. t_id y = t_id t" and f = "merchant_txn (w_id w) ?c ?net"
        and es = "[deposit_entry (t_id t) (w_id w) ?net b, deposit_entry (t_id t) (w_id p) ?c b']"])
    show "funds_ok (seq u) (wallets u)" using two(1) by (simp add: that(1,2))
    show "total u = total s + credited [deposit_entry (t_id t) (w_id w) ?net b, deposit_entry (t_id t) (w_id p) ?c b']"
      using two(2) by (simp add: that(1) total_def credited_def deposit_entry_def)
    show "\<forall>m\<in>set (deposit_metas u). dm_ref m < seq u"
      by (auto simp: that(2,5) upd_row_def dest!: deposit_invD(4)[OF s])
    show "flags u q = flags s q" if "q \<noteq> t_ref t" for q using flags_sale(2)[OF t(3) \<open>deposit_metas u = _\<close> that] .
  qed (simp_all add: that keys upd_row_where[of t_id] same_rules[OF s that(7,8)] merchant_txn_def flags_sale(1)[OF t(3) that(5)],
      auto simp: deposit_entry_def)
qed

lemma sale_wallets_wp:
  assumes s: "deposit_inv s"
    and Q: "\<And>w p. find_row w_id (w_id w) (wallets s) = Some w \<Longrightarrow> find_row w_id (w_id p) (wallets s) = Some p \<Longrightarrow> Q (w, p) s"
    and E: "\<And>e. E e s"
  shows "wp (sale_wallets d mid) Q E s"
proof -
  have keyed: "wallet_keys s" using deposit_invD(3)[OF s] by (simp add: wallet_keys_def funds_ok_def)
  have "find_row w_id (w_id w) (wallets s) = Some w" if "active_wallet s u = Some w" for u w
    using active_wallet_by_id[OF that keyed] by (simp add: wallet_by_id_def)
  moreover have "find_row w_id (w_id p) (wallets s) = Some p" if "platform_wallet s = Some p" for p
    using platform_wallet_active[OF that] calculation by blast
  moreover have "find_row w_id (w_id w) (wallets s) = Some w" if "user_wallet s u = Some w" for u w
  proof -
    have "w \<in> set (wallets s)" using that unfolding user_wallet_def by (auto dest: find_Some)
    with keyed show ?thesis by (intro find_row_in) (simp_all add: wallet_keys_def)
  qed
  ultimately show ?thesis
    by (auto simp: sale_wallets_def wp_simps E split: option.split intro!: Q)
qed

lemma deposit_rollback_wp:
  assumes "deposit_inv s" "wp m (\<lambda>_. deposit_rel s) (\<lambda>_. deposit_rel s) s"
  shows "wp (transaction m) (\<lambda>_. deposit_rel s) (\<lambda>_. deposit_rel s) s"
  unfolding wp_transaction by (rule wp_mono[OF assms(2)]) (auto intro: deposit_rollback[OF assms(1)] dep.rel_inv[OF assms(1)])

lemma finalizeMerchant_safe:
  fixes s :: "'a deposit_db_scheme"
  assumes s: "deposit_inv s" and t: "t \<in> set (txns s)" "t_status t \<in> {Pending, Processing}" "dm_guest (deposit_meta_of s (t_ref t))"
    and d: "0 \<le> dp_amount d"
  shows "wp (finalizeMerchantQrDeposit d t m) (\<lambda>_. deposit_rel s) (\<lambda>_. deposit_rel s) s"
proof (cases "dm_merchant m")
  case None
  then show ?thesis by (simp add: finalizeMerchantQrDeposit_def wp_throw dep.rel_refl[OF s])
next
  case (Some mid)
  let ?s = "s\<lparr>fee_cache := next_cache s\<rparr>" and ?rl = "rule_in s Merchant"
  have rel: "deposit_rel s ?s"
    using dep.calm.safeD[OF deposit_calm_rule s, of Merchant] by (simp add: wp_ruleFor deposit_calm_def)
  have inv: "deposit_inv ?s" by (rule dep.rel_inv[OF s rel])
  have rl: "fits ?rl" by (rule rules_ok_rule[OF deposit_invD(7)[OF s]]) simp
  have meta: "deposit_meta_of ?s = deposit_meta_of s" by (simp add: fun_eq_iff deposit_meta_of_def)
  have "wp (bnd (sale_wallets d mid) (\<lambda>(w, p). bnd (settle_sale d t mid ?rl w p) (\<lambda>x. ret (x, w, p))))
      (\<lambda>_. deposit_rel ?s) (\<lambda>_. deposit_rel ?s) ?s"
    unfolding wp_bnd[of "sale_wallets d mid"]
  proof (rule sale_wallets_wp[OF inv], goal_cases)
    case (1 w p)
    have "wp (settle_sale d t mid ?rl w p) (\<lambda>_. deposit_rel ?s) (\<lambda>_ _. False) ?s"
      using t 1 by (intro settle_sale_safe[OF inv _ _ _ _ _ d rl]) (simp_all add: meta)
    then show ?case by (simp add: wp_bnd) (rule wp_mono, assumption, simp_all add: wp_ret)
  next
    case 2
    show ?case by (rule dep.rel_refl[OF inv])
  qed
  note this[THEN deposit_rollback_wp[OF inv]]
  moreover have calm: "safe_op deposit_inv deposit_rel (case y of (x, w, p) \<Rightarrow> case x of None \<Rightarrow> ret False
     | Some (net, platform) \<Rightarrow>
       thn (emit (BalanceUpdate (dp_user d) (fl (normalizeAmount (num (w_balance w)) + net))))
       (thn (case w_user p of None \<Rightarrow> ret () | Some a \<Rightarrow> emit (BalanceUpdate a platform))
       (thn (invalidateFinancialCaches (Some (dp_user d)))
       (thn (invalidateFinancialCaches (w_user p))
       (thn (emit (Notification (dp_user d) ''merchant'' (Some (t_ref t))))
       (ret True))))))" for y :: "(rat \<times> rat) option \<times> wallet \<times> wallet"
    by (intro dep.calm_safe deposit_calms)
  ultimately have "wp (bnd (transaction (bnd (sale_wallets d mid) (\<lambda>(w, p). bnd (settle_sale d t mid ?rl w p) (\<lambda>x. ret (x, w, p)))))
      (\<lambda>(x, w, p). case x of None \<Rightarrow> ret False
     | Some (net, platform) \<Rightarrow>
       thn (emit (BalanceUpdate (dp_user d) (fl (normalizeAmount (num (w_balance w)) + net))))
       (thn (case w_user p of None \<Rightarrow> ret () | Some a \<Rightarrow> emit (BalanceUpdate a platform))
       (thn (invalidateFinancialCaches (Some (dp_user d)))
       (thn (invalidateFinancialCaches (w_user p))
       (thn (emit (Notification (dp_user d) ''merchant'' (Some (t_ref t))))
       (ret True))))))) (\<lambda>_. deposit_rel ?s) (\<lambda>_. deposit_rel ?s) ?s"
    by (rule dep.safe_after[OF inv])
  then show ?thesis
    unfolding finalizeMerchantQrDeposit_def Some option.case wp_bnd[of "ruleFor Merchant"] wp_ruleFor
    by (rule wp_mono) (auto intro: dep.rel_trans[OF rel])
qed

section \<open>Without a credit\<close>

lemma completeTransaction_safe:
  assumes s: "deposit_inv s" and t: "t \<in> set (txns s)" "\<not> dm_guest (deposit_meta_of s (t_ref t))"
  shows "wp (completePendingTransaction r t) (\<lambda>_. deposit_rel s) (\<lambda>_. deposit_rel s) s"
proof (cases "t_status t \<in> {Pending, Processing}")
  case False
  then show ?thesis by (auto simp: completePendingTransaction_def wp_ret dep.rel_refl[OF s])
next
  case True
  have calm: "safe_op deposit_inv deposit_rel (thn (invalidateFinancialCaches v) (ret True))" for v
    by (intro dep.calm_safe deposit_calms)
  have "deposit_rel s (s\<lparr>txns := upd_row t_id (t_id t) (\<lambda>x. x\<lparr>t_status := Completed, t_receiver := v\<rparr>) (txns s)\<rparr>)" (is "deposit_rel s ?u") for v
  proof (rule settle_rel[OF s t(1) True, where P = "\<lambda>y. t_id y = t_id t" and f = "\<lambda>x. x\<lparr>t_status := Completed, t_receiver := v\<rparr>" and es = "[]"])
    show "flags ?u q = flags s q" for q by (simp add: flags_cong[of ?u s])
    show "fst (flags ?u (t_ref t)) \<Longrightarrow> snd (flags ?u (t_ref t))" using t(2) by (simp add: flags_cong[of ?u s]) (simp add: flags_def)
    show "\<forall>m\<in>set (deposit_metas ?u). dm_ref m < seq ?u" using deposit_invD(4)[OF s] by simp
    show "rules_ok fits {Merchant} ?u" by (rule same_rules[OF s]) (simp_all add: same_fees_def)
  qed (simp_all add: total_def credited_def deposit_invD[OF s] upd_row_where[of t_id])
  then have "wp (thn (txn_completed (t_id t) v) (thn (invalidateFinancialCaches x) (ret True))) (\<lambda>_. deposit_rel s) (\<lambda>_. deposit_rel s) s" for v x
    unfolding wp_thn[of "txn_completed (t_id t) v"] unfolding txn_completed_def wp_modify by (rule dep.safe_from[OF calm s])
  with True show ?thesis by (auto simp: completePendingTransaction_def wp_bnd wp_gets split: option.split)
qed

text \<open>Open transactions fail.\<close>

lemma fail_rel:
  assumes s: "deposit_inv s" and P: "\<And>t. P t \<Longrightarrow> t \<in> set (txns s) \<Longrightarrow> t_status t \<notin> {Completed, Failed, Cancelled}"
  shows "deposit_rel s (s\<lparr>txns := upd_where P (\<lambda>t. t\<lparr>t_status := Failed\<rparr>) (txns s)\<rparr>)" (is "deposit_rel s ?u")
proof -
  have M: "deposit_meta_of ?u = deposit_meta_of s" by (simp add: fun_eq_iff deposit_meta_of_def)
  have "txn_keys (seq s) (txns ?u)" using deposit_invD(2)[OF s] by (simp add: txn_keys_def list_all_iff ball_upd_where)
  moreover have "settled_ok (deposit_meta_of s) (ledger s) t" if y: "t \<in> set (txns ?u)" for t
  proof -
    obtain x where x: "x \<in> set (txns s)" "t = (if P x then x\<lparr>t_status := Failed\<rparr> else x)"
      using y by (auto simp: in_upd_where)
    then show ?thesis using deposit_invD(6)[OF s x(1)] P[OF _ x(1)] by (auto simp: settled_ok_def)
  qed
  moreover have "rules_ok fits {Merchant} ?u" by (rule same_rules[OF s]) (simp_all add: same_fees_def)
  ultimately have "deposit_inv ?u" using s by (simp add: deposit_inv_def M)
  moreover have "\<exists>y. txn_by_ref ?u r = Some y \<and> txn_stays (ledger s) (ledger s) x y" if "txn_by_ref s r = Some x" for r x
    using that P by (auto simp: txn_by_ref_def find_row_upd_where txn_stays_def dest: find_row_Some)
  ultimately show ?thesis by (simp add: deposit_rel_def total_def)
qed

lemma deposits_many_calm:
  assumes "\<And>d. dp_id (f d) = dp_id d \<and> dp_ref (f d) = dp_ref d \<and> dp_amount (f d) = dp_amount d"
  shows "safe_op deposit_inv deposit_calm (update_many deposits deposits_update P f)"
proof (rule dep.calm.safeI)
  fix s :: "'a deposit_db_scheme"
  assume s: "deposit_inv s"
  have eq: "deposits_update (upd_where P f) s = s\<lparr>deposits := upd_where P f (deposits s)\<rparr>" by simp
  show "wp (update_many deposits deposits_update P f) (\<lambda>_. deposit_calm s) (\<lambda>_. deposit_calm s) s"
    unfolding wp_update_many eq by (rule deposits_calm[OF assms s])
qed

lemma failDeposit_safe: "safe_op deposit_inv deposit_rel (failDeposit r reason)"
proof (rule dep.safeI)
  fix s :: "'a deposit_db_scheme"
  assume s: "deposit_inv s"
  let ?G = "\<lambda>t (v :: dview). case t of None \<Rightarrow> True | Some x \<Rightarrow> x \<in> set (fst (snd v))"
  have fail: "safe_op (\<lambda>s. deposit_inv s \<and> ?G (Some t) (dview s)) deposit_rel (txn_status_update (t_id t) Failed :: ('a deposit_db_scheme, unit) op)"
    if "t_status t \<notin> {Failed, Cancelled, Completed}" for t
  proof -
    have "deposit_rel u (u\<lparr>txns := upd_row t_id (t_id t) (\<lambda>t. t\<lparr>t_status := Failed\<rparr>) (txns u)\<rparr>)"
      if u: "deposit_inv u" "t \<in> set (txns u)" for u :: "'a deposit_db_scheme"
    proof -
      have "x = t" if "x \<in> set (txns u)" "t_id x = t_id t" for x
        using deposit_invD(2)[OF u(1)] u(2) that by (auto simp: txn_keys_def distinct_map inj_on_def)
      then show ?thesis using \<open>t_status t \<notin> _\<close> unfolding upd_row_where by (intro fail_rel[OF u(1)]) blast
    qed
    then show ?thesis by (simp add: safe_op_def txn_status_update_def wp_modify dview_def)
  qed
  have meta: "safe_op deposit_inv deposit_rel (deposit_meta_update r (\<lambda>m. m\<lparr>dm_failure := g m\<rparr>))" for g
    by (intro dep.calm_safe meta_update_calm) simp
  have "safe_op (\<lambda>s. deposit_inv s \<and> ?G t (dview s)) deposit_rel
      ((case t of None \<Rightarrow> ret () | Some t \<Rightarrow>
            if t_status t \<notin> {Failed, Cancelled, Completed}
            then thn (txn_status_update (t_id t) Failed)
              (deposit_meta_update r (\<lambda>m. m\<lparr>dm_failure := g m\<rparr>))
            else ret ()) :: ('a deposit_db_scheme, unit) op)" for t g
  proof (cases t)
    case None
    then show ?thesis by (simp add: dep.safe_ret)
  next
    case (Some x)
    have "safe_op (\<lambda>s. deposit_inv s \<and> ?G t (dview s)) deposit_rel ((if t_status x \<notin> {Failed, Cancelled, Completed}
            then thn (txn_status_update (t_id x) Failed) (deposit_meta_update r (\<lambda>m. m\<lparr>dm_failure := g m\<rparr>))
            else ret ()) :: ('a deposit_db_scheme, unit) op)"
      unfolding Some by (rule safe_op_if_cond) (rule dep.under_thn[where G = "?G (Some x)"], rule fail, assumption, rule meta,
        rule dep.under_weaken[where G = "?G (Some x)"], rule dep.safe_ret)
    then show ?thesis by (simp add: Some)
  qed
  then have tx: "wp (transaction
         (thn (case d of None \<Rightarrow> ret () | Some d \<Rightarrow> if dp_status d = DPending then deposit_status_update (dp_id d) DFailed else ret ())
         (case t of None \<Rightarrow> ret () | Some t \<Rightarrow>
            if t_status t \<notin> {Failed, Cancelled, Completed}
            then thn (txn_status_update (t_id t) Failed)
              (deposit_meta_update r (\<lambda>m. m\<lparr>dm_failure := g m\<rparr>))
            else ret ()))) (\<lambda>_. deposit_rel s) (\<lambda>_. deposit_rel s) s" if "?G t (dview s)" for d t g
    using that s by (intro deposit_rollback_wp[OF s] dep.underD[where G = "?G t" and t = s] dep.calm_thn deposit_calms dep.rel_refl)
  have t: "?G (txn_by_ref s r) (dview s)"
    by (auto simp: dview_def txn_by_ref_def split: option.split dest: find_row_Some)
  have calm: "safe_op deposit_inv deposit_rel (thn (case v of None \<Rightarrow> ret ()
      | Some u \<Rightarrow> thn (emit (TransactionUpdate u r)) (emit (Notification u ''transaction'' (Some r)))) (ret True))" for v
    by (intro dep.calm_safe deposit_calms)
  have go: "wp (thn (transaction
         (thn (case d of None \<Rightarrow> ret () | Some d \<Rightarrow> if dp_status d = DPending then deposit_status_update (dp_id d) DFailed else ret ())
         (case txn_by_ref s r of None \<Rightarrow> ret () | Some t \<Rightarrow>
            if t_status t \<notin> {Failed, Cancelled, Completed}
            then thn (txn_status_update (t_id t) Failed)
              (deposit_meta_update r (\<lambda>m. m\<lparr>dm_failure := g m\<rparr>))
            else ret ()))) (thn (case v of None \<Rightarrow> ret ()
      | Some u \<Rightarrow> thn (emit (TransactionUpdate u r)) (emit (Notification u ''transaction'' (Some r)))) (ret True)))
      (\<lambda>_. deposit_rel s) (\<lambda>_. deposit_rel s) s" for d g v
    unfolding thn_def[of "transaction _"] by (rule dep.safe_after[OF s tx[OF t] calm])
  show "wp (failDeposit r reason) (\<lambda>_. deposit_rel s) (\<lambda>_. deposit_rel s) s"
  proof (cases "deposit_by_ref s r = None \<and> txn_by_ref s r = None")
    case True
    then show ?thesis by (simp add: failDeposit_def wp_bnd wp_gets wp_ret dep.rel_refl[OF s])
  next
    case False
    then show ?thesis
      unfolding failDeposit_def wp_bnd[of "gets _"] wp_gets prod.case by (simp only: if_False) (rule go)
  qed
qed

end
