(* ===== verification/Deposit_Runs.thy ===== *)
theory Deposit_Runs
  imports Deposit_Credits
begin

text \<open>
  Every request of src/deposit/deposit.service.ts and of the exchange rates keeps the contract of
  theory \<open>Deposit_Safety\<close>, whatever the payment providers answer; a run is a list of requests.
\<close>

section \<open>Settlement\<close>

lemma deposit_calm_new:
  assumes s: "deposit_inv s" and r: "r < seq s" "deposit_by_ref s r = None" and x: "0 \<le> amount"
  shows "deposit_calm s (deposits_update (\<lambda>rows. rows @ [new_deposit (seq s) r u amount c m p pr t]) (s\<lparr>seq := Suc (seq s)\<rparr>))"
    (is "deposit_calm s ?u")
proof (rule deposit_same[OF s])
  show "flags ?u = flags s" by (rule flags_cong) simp
  show "deposit_keys (seq ?u) (deposits ?u)"
    using deposit_invD(1)[OF s] r x
    by (auto simp: deposit_keys_def new_deposit_def list_all_iff deposit_by_ref_def find_row_None intro: less_SucI)
  show "rules_ok fits {Merchant} ?u" by (rule same_rules[OF s]) (simp_all add: same_fees_def)
  show "\<forall>m\<in>set (deposit_metas ?u). dm_ref m < seq ?u" using deposit_invD(4)[OF s] by (auto intro: less_SucI)
qed simp_all

lemma reconstruct_wp:
  assumes s: "deposit_inv s" and t: "txn_by_ref s r = Some t"
  shows "wp (reconstruct_deposit r t m (deposit_by_ref s r))
    (\<lambda>d u. deposit_calm s u \<and> (\<forall>x. d = Some x \<longrightarrow> 0 \<le> dp_amount x)) (\<lambda>_ _. False) s"
proof (cases "deposit_by_ref s r")
  case (Some d)
  then have "0 \<le> dp_amount d"
    using deposit_invD(1)[OF s] by (auto simp: deposit_by_ref_def deposit_keys_def list_all_iff dest: find_row_Some)
  then show ?thesis by (simp add: Some reconstruct_deposit_def wp_ret dep.calm.rel_refl[OF s])
next
  case None
  have r: "r < seq s" "0 \<le> num (t_amount t)"
    using t deposit_invD(2)[OF s] by (auto simp: txn_by_ref_def txn_keys_def list_all_iff num_def fl_nonneg_iff dest!: find_row_Some)
  show ?thesis
  proof (cases "dm_user m")
    case None
    then show ?thesis by (simp add: \<open>deposit_by_ref s r = None\<close> reconstruct_deposit_def wp_ret dep.calm.rel_refl[OF s])
  next
    case (Some u)
    then show ?thesis using deposit_calm_new[OF s r(1) None r(2)] r(2)
      by (simp add: None reconstruct_deposit_def Let_def wp_bnd wp_fresh wp_gets wp_thn wp_insert_row wp_ret) (simp add: new_deposit_def)
  qed
qed

lemma finalizeSuccessful_wp:
  assumes s: "deposit_inv s"
  shows "wp (finalizeSuccessfulDeposit r A) (\<lambda>_. deposit_rel s) (\<lambda>_. deposit_rel s) s"
proof (cases "txn_by_ref s r")
  case None
  then show ?thesis by (simp add: finalizeSuccessfulDeposit_def wp_bnd wp_gets wp_throw dep.rel_refl[OF s])
next
  case (Some t)
  let ?m = "deposit_meta_of s r" and ?d = "deposit_by_ref s r"
  let ?go = "\<lambda>d. let pending = (map_option dp_status d = Some DPending); complete = (map_option dp_status d = Some DSuccess);
             tx_pending = (t_type t = DepositTxn \<and> t_status t \<in> {Pending, Processing});
             tx_complete = (t_type t = DepositTxn \<and> t_status t = Completed) in
         if t_type t = DepositTxn \<and> t_status t \<in> {Failed, Cancelled, Reversed} then ret False
         else if dm_guest ?m then
           (if t_status t = Completed \<and> (dm_sale ?m \<or> complete) then ret True
            else if \<not> pending \<or> \<not> tx_pending \<and> \<not> tx_complete then ret False
            else finalizeMerchantQrDeposit (the d) t ?m)
         else if complete \<and> tx_complete then ret True
         else if pending \<and> tx_pending then finalizePendingDepositWithTransaction (the d) t
         else if pending then creditPendingDepositWithWallet (the d) t
         else if complete \<and> tx_pending then completePendingTransaction r t
         else if tx_pending then creditPendingTransactionDeposit r
         else ret False"
  have go: "wp (?go d) (\<lambda>_. deposit_rel s) (\<lambda>_. deposit_rel s) u"
    if u: "deposit_calm s u" and d: "\<forall>x. d = Some x \<longrightarrow> 0 \<le> dp_amount x" for d u
  proof -
    have rel: "deposit_rel s u" and view: "dview u = dview s" using u by (auto simp: deposit_calm_def)
    have inv: "deposit_inv u" by (rule dep.rel_inv[OF s rel])
    have t: "t \<in> set (txns u)" "t_ref t = r" using Some view by (auto simp: txn_by_ref_def dview_def dest: find_row_Some)
    have g: "dm_guest (deposit_meta_of u r) = dm_guest ?m" "dm_sale (deposit_meta_of u r) = dm_sale ?m"
      using view by (auto simp: dview_def flags_def fun_eq_iff)
    have sale: "dm_guest ?m \<Longrightarrow> t_status t = Completed \<Longrightarrow> dm_sale ?m"
      using deposit_invD(6)[OF inv t(1)] g by (auto simp: settled_ok_def t(2))
    have "wp (?go d) (\<lambda>_. deposit_rel u) (\<lambda>_. deposit_rel u) u"
      using d sale g t
      by (auto simp: Let_def wp_ret dep.rel_refl[OF inv] intro!: finalizeMerchant_safe[OF inv] finalizePending_safe[OF inv]
          creditPendingDeposit_safe[OF inv] completeTransaction_safe[OF inv] creditPendingTransaction_safe[OF inv])
    then show ?thesis by (rule wp_mono) (auto intro: dep.rel_trans[OF rel])
  qed
  have "wp (bnd (reconstruct_deposit r t ?m ?d) ?go) (\<lambda>_. deposit_rel s) (\<lambda>_. deposit_rel s) s"
    unfolding wp_bnd by (rule wp_mono[OF reconstruct_wp[OF s Some]]) (blast intro: go)+
  then show ?thesis
    unfolding finalizeSuccessfulDeposit_def wp_bnd[of "gets _"] wp_gets prod.case Some option.case
    by (simp only: wp_if wp_ret dep.rel_refl[OF s] if_True if_False split: if_split) (simp add: wp_ret)
qed

lemma finalizeSuccessful_safe: "safe_op deposit_inv deposit_rel (finalizeSuccessfulDeposit r A)"
  by (rule dep.safeI) (rule finalizeSuccessful_wp)

section \<open>New deposits\<close>

lemma stored_rel:
  assumes s: "deposit_inv s" and n: "seq s \<le> r" "seq s \<le> dp_id d" "seq s \<le> t_id t" "r < seq u" "dp_id d < seq u" "t_id t < seq u" "seq s \<le> seq u"
    and u: "wallets u = wallets s" "ledger u = ledger s" "txns u = txns s @ [t]" "deposits u = deposits s @ [d]"
      "deposit_metas u = deposit_metas s @ [m]" "same_fees s u" "fee_cache u = fee_cache s"
    and new: "dp_ref d = r" "t_ref t = r" "dm_ref m = r" "0 \<le> dp_amount d" "0 \<le> t_amount t" "t_status t \<noteq> Completed"
  shows "deposit_rel s u" "x \<in> set (txns u) \<Longrightarrow> t_ref x = r \<Longrightarrow> x = t"
proof -
  have M: "deposit_meta_of u q = deposit_meta_of s q" if "q \<noteq> r" for q
    using that new(3) by (simp add: deposit_meta_of_def u(5) find_row_append split: option.split)
  have c: "credits (ledger s) i = 0" if i: "seq s \<le> i" for i
    using deposit_invD(5)[OF s] i by (fastforce simp: credits_def filter_empty_conv)
  note old = deposit_invD(1-3)[OF s, unfolded deposit_keys_def txn_keys_def funds_ok_def list_all_iff]
  have old_txn: "t_id x < seq s" "t_ref x < seq s" if "x \<in> set (txns s)" for x using old(2) that by blast+
  have old_dep: "dp_id x < seq s" "dp_ref x < seq s" if "x \<in> set (deposits s)" for x using old(1) that by blast+
  show one: "x \<in> set (txns u) \<Longrightarrow> t_ref x = r \<Longrightarrow> x = t" for x
    using old_txn(2)[of x] n(1) by (auto simp: u(3))
  have "deposit_keys (seq u) (deposits u)"
    using old(1) old_dep n new by (fastforce simp: deposit_keys_def list_all_iff u(4))
  moreover have "txn_keys (seq u) (txns u)"
    using old(2) old_txn n new by (fastforce simp: txn_keys_def list_all_iff u(3))
  moreover have "funds_ok (seq u) (wallets u)"
    using old(3) n(7) by (auto simp: funds_ok_def list_all_iff u(1))
  moreover have "settled_ok (deposit_meta_of u) (ledger u) x" if x: "x \<in> set (txns u)" for x
  proof (cases "x = t")
    case True
    then show ?thesis using c[OF n(3)] new(6) by (simp add: settled_ok_def u(2))
  next
    case False
    then have "x \<in> set (txns s)" using x by (simp add: u(3))
    then show ?thesis using deposit_invD(6)[OF s] M[of "t_ref x"] old_txn(2)[of x] n(1) by (simp add: settled_ok_def u(2))
  qed
  moreover have "\<forall>x\<in>set (deposit_metas u). dm_ref x < seq u"
    using deposit_invD(4)[OF s] n new(3) by (fastforce simp: u(5))
  moreover have "\<forall>l\<in>set (ledger u). \<forall>i. l_txn l = Some i \<longrightarrow> i < seq u"
    using deposit_invD(5)[OF s] n(7) by (fastforce simp: u(2))
  ultimately have "deposit_inv u" using same_rules[OF s u(6,7)] by (simp add: deposit_inv_def)
  then show "deposit_rel s u"
    using total_cong[OF u(1)] by (auto simp: deposit_rel_def u(2,3) txn_by_ref_def find_row_append txn_stays_def)
qed

definition awaiting :: "nat \<Rightarrow> txn list \<Rightarrow> bool" where
  "awaiting r ts \<longleftrightarrow> (\<forall>t\<in>set ts. t_ref t = r \<longrightarrow> t_status t = Pending)"

lemma deposit_tx_wp:
  assumes s: "deposit_inv s" and x: "0 \<le> amount" and m: "dm_ref m = seq s"
  shows "wp (deposit_tx (\<lambda>i t. new_deposit i (seq s) u amount c me p pr t) (deposit_txn (seq s) w v amount) m)
    (\<lambda>_ t. deposit_rel s t \<and> awaiting (seq s) (txns t)) (\<lambda>_ _. False) (s\<lparr>seq := Suc (seq s)\<rparr>)"
proof -
  have new: "deposit_rel s t \<and> awaiting (seq s) (txns s @ [deposit_txn (seq s) w v amount (Suc (Suc (seq s))) (now s)])" if t:
    "seq t = Suc (Suc (Suc (seq s)))" "wallets t = wallets s" "ledger t = ledger s"
    "txns t = txns s @ [deposit_txn (seq s) w v amount (Suc (Suc (seq s))) (now s)]"
    "deposits t = deposits s @ [new_deposit (Suc (seq s)) (seq s) u amount c me p pr (now s)]"
    "deposit_metas t = deposit_metas s @ [m]" "same_fees s t" "fee_cache t = fee_cache s" for t
  proof -
    note new = stored_rel[OF s _ _ _ _ _ _ _ t(2-8), of "seq s"]
    have "deposit_rel s t"
      by (rule new(1)) (simp_all add: t(1) x m new_deposit_def deposit_txn_def to_units_nonneg)
    moreover have "t_status y = Pending" if y: "y \<in> set (txns t)" "t_ref y = seq s" for y
    proof -
      have "y = deposit_txn (seq s) w v amount (Suc (Suc (seq s))) (now s)"
        by (rule new(2)) (simp_all add: t(1) x m y new_deposit_def deposit_txn_def to_units_nonneg)
      then show ?thesis by (simp add: deposit_txn_def)
    qed
    ultimately show ?thesis by (simp add: awaiting_def t(4))
  qed
  show ?thesis
    by (simp add: deposit_tx_def wp_transaction wp_bnd wp_thn wp_fresh wp_gets wp_insert_row wp_txn_create wp_ret)
      (rule new, simp_all add: same_fees_def)
qed

lemma checks_wp:
  assumes "\<And>price cur w amount. 0 < amount \<Longrightarrow> Q (price, cur, w, amount) s" "\<And>e. E e s"
  shows "wp (crypto_deposit_checks A u dto) Q E s"
  using assms
  by (auto simp: crypto_deposit_checks_def usdToFarm_def Let_def wp_simps intro!: of_sum_wp split: option.split)

lemma transaction_calm: "safe_op deposit_inv deposit_calm m \<Longrightarrow> safe_op deposit_inv deposit_rel (transaction m)"
  by (rule deposit_transaction[OF dep.calm_safe])

lemma ref_fail:
  "safe_op (\<lambda>s. deposit_inv s \<and> awaiting r (fst (snd (dview s)))) deposit_rel (ref_status_update r Failed)"
  by (auto simp: safe_op_def ref_status_update_def wp_modify dview_def awaiting_def upd_row_where intro!: fail_rel)

lemma provider_ref_calm:
  "safe_op deposit_inv deposit_calm (modify (\<lambda>s. s\<lparr>deposits := upd_row dp_id i (\<lambda>x. x\<lparr>dp_provider_ref := p\<rparr>) (deposits s)\<rparr>))"
  by (rule dep.calm.safeI) (simp add: wp_modify upd_row_where deposits_calm)

lemma createCrypto_safe: "safe_op deposit_inv deposit_rel (createNowpaymentsCryptoDeposit A u dto)"
proof (rule dep.safeI)
  fix s :: "'a deposit_db_scheme"
  assume s: "deposit_inv s"
  let ?G = "\<lambda>r (v :: dview). awaiting r (fst (snd v))"
  have rest: "wp (case da_create A r of
       Inr p \<Rightarrow>
         thn (transaction (thn (modify (\<lambda>s. s\<lparr>deposits := upd_row dp_id (dp_id d) (\<lambda>x. x\<lparr>dp_provider_ref := Some (cp_id p)\<rparr>) (deposits s)\<rparr>))
           (deposit_meta_update r (\<lambda>m. m\<lparr>dm_payment := Some (cp_id p),
              dm_payment_status := Some (case cp_status p of None \<Rightarrow> ''waiting'' | Some x \<Rightarrow> x)\<rparr>))))
         (ret (r, p, amount))
     | Inl e \<Rightarrow>
         thn (transaction (thn (deposit_status_update (dp_id d) DFailed) (ref_status_update r Failed)))
         (throw e)) (\<lambda>_. deposit_rel s) (\<lambda>_. deposit_rel s) t" if t: "deposit_rel s t \<and> awaiting r (txns t)" for r d t and amount :: rat
  proof -
    have inv: "deposit_inv t" using t dep.rel_inv[OF s] by blast
    have "wp (thn (deposit_status_update (dp_id d) DFailed) (ref_status_update r Failed)) (\<lambda>_. deposit_rel t) (\<lambda>_. deposit_rel t) t"
      by (rule dep.underD[where G = "?G r", OF dep.calm_thn[OF deposit_status_calm ref_fail] inv dep.rel_refl[OF inv]])
        (use t in \<open>simp add: dview_def\<close>)
    then have bad: "wp (thn (transaction (thn (deposit_status_update (dp_id d) DFailed) (ref_status_update r Failed))) (throw e))
        (\<lambda>_. deposit_rel t) (\<lambda>_. deposit_rel t) t" for e
      unfolding thn_def[of "transaction _"] by (intro dep.safe_after[OF inv] deposit_rollback_wp[OF inv] dep.safe_throw)
    have good: "safe_op deposit_inv deposit_rel (thn (transaction (thn (modify (\<lambda>s. s\<lparr>deposits := upd_row dp_id (dp_id d) (\<lambda>x. x\<lparr>dp_provider_ref := p\<rparr>) (deposits s)\<rparr>))
           (deposit_meta_update r (\<lambda>m. m\<lparr>dm_payment := p, dm_payment_status := st\<rparr>))))
         (ret x) :: ('a deposit_db_scheme, nat \<times> crypto_payment \<times> rat) op)" for p st x
      by (intro dep.safe_thn transaction_calm dep.calm.safe_thn provider_ref_calm meta_update_calm dep.safe_ret) simp
    have "wp (case da_create A r of
       Inr p \<Rightarrow>
         thn (transaction (thn (modify (\<lambda>s. s\<lparr>deposits := upd_row dp_id (dp_id d) (\<lambda>x. x\<lparr>dp_provider_ref := Some (cp_id p)\<rparr>) (deposits s)\<rparr>))
           (deposit_meta_update r (\<lambda>m. m\<lparr>dm_payment := Some (cp_id p),
              dm_payment_status := Some (case cp_status p of None \<Rightarrow> ''waiting'' | Some x \<Rightarrow> x)\<rparr>))))
         (ret (r, p, amount))
     | Inl e \<Rightarrow>
         thn (transaction (thn (deposit_status_update (dp_id d) DFailed) (ref_status_update r Failed)))
         (throw e)) (\<lambda>_. deposit_rel t) (\<lambda>_. deposit_rel t) t"
    proof (cases "da_create A r")
      case (Inl e)
      show ?thesis unfolding Inl sum.case by (rule bad)
    next
      case (Inr p)
      show ?thesis unfolding Inr sum.case by (rule dep.safeD[OF good inv])
    qed
    then show ?thesis using t by (elim wp_mono) (auto intro: dep.rel_trans)
  qed
  show "wp (createNowpaymentsCryptoDeposit A u dto) (\<lambda>_. deposit_rel s) (\<lambda>_. deposit_rel s) s"
    unfolding createNowpaymentsCryptoDeposit_def wp_bnd[of "crypto_deposit_checks _ _ _"]
  proof (rule checks_wp, goal_cases)
    case (1 price cur w amount)
    then show ?case
      by (simp add: wp_bnd wp_fresh)
        (rule wp_mono[OF deposit_tx_wp[OF s]], simp_all add: crypto_deposit_meta_def no_meta_def rest)
  next
    case 2
    show ?case by (rule dep.rel_refl[OF s])
  qed
qed

lemma createDeposit_safe: "safe_op deposit_inv deposit_rel (createDeposit u dto checkout)"
proof (rule dep.safeI)
  fix s :: "'a deposit_db_scheme"
  assume s: "deposit_inv s"
  have numbered: "deposit_rel s t" if "t = s\<lparr>seq := n\<rparr>" "seq s \<le> n" for t n
    using deposit_quiet[OF s, of t] that by (simp add: same_fees_def deposit_calm_def)
  have stored: "deposit_rel s t" if
    "seq t = Suc (Suc (Suc (seq s)))" "wallets t = wallets s" "ledger t = ledger s"
    "txns t = txns s @ [deposit_txn (seq s) None u x (Suc (Suc (seq s))) (now s)]"
    "deposits t = deposits s @ [new_deposit (Suc (seq s)) (seq s) u x c me p pr (now s)]"
    "deposit_metas t = deposit_metas s @ [(no_meta (seq s))\<lparr>dm_provider := q, dm_user := v, dm_fiat := f\<rparr>]"
    "same_fees s t" "fee_cache t = fee_cache s" "10 \<le> x" for t x c me p pr q v f
    using stored_rel(1)[OF s _ _ _ _ _ _ _ that(2-8), of "seq s"] that(9)
    by (simp add: that(1) new_deposit_def deposit_txn_def to_units_nonneg no_meta_def)
  show "wp (createDeposit u dto checkout) (\<lambda>_. deposit_rel s) (\<lambda>_. deposit_rel s) s"
  proof (cases "dd_fiat dto")
    case None
    then show ?thesis by (simp add: createDeposit_def Let_def wp_throw dep.rel_refl[OF s])
  next
    case (Some x)
    then show ?thesis
      by (cases checkout; cases "x < 10"; cases "payment_method dto = ''BANK_TRANSFER''")
        (simp_all add: createDeposit_def Let_def of_sum_def wp_simps dep.rel_refl[OF s] same_fees_def stored numbered)
  qed
qed

section \<open>Requests\<close>

lemma verifyDeposit_safe: "safe_op deposit_inv deposit_rel (verifyDepositStatus u r A)"
  unfolding verifyDepositStatus_def own_deposit_def assertDepositAccess_def
  by (intro dep.safe_rules finalizeSuccessful_safe)

text \<open>A payment that the provider gave up.\<close>

lemma fail_open: "safe_op deposit_inv deposit_rel
    (update_many txns txns_update (\<lambda>x. t_id x = i \<and> t_status x \<in> {Pending, Processing}) (\<lambda>x. x\<lparr>t_status := Failed\<rparr>))"
proof (rule dep.safeI)
  fix s :: "'a deposit_db_scheme"
  assume s: "deposit_inv s"
  let ?P = "\<lambda>x. t_id x = i \<and> t_status x \<in> {Pending, Processing}"
  have eq: "txns_update (upd_where ?P (\<lambda>x. x\<lparr>t_status := Failed\<rparr>)) s = s\<lparr>txns := upd_where ?P (\<lambda>x. x\<lparr>t_status := Failed\<rparr>) (txns s)\<rparr>" by simp
  show "wp (update_many txns txns_update ?P (\<lambda>x. x\<lparr>t_status := Failed\<rparr>)) (\<lambda>_. deposit_rel s) (\<lambda>_. deposit_rel s) s"
    unfolding wp_update_many eq by (rule fail_rel[OF s]) auto
qed

lemma cryptoStatus_safe: "safe_op deposit_inv deposit_rel (getNowpaymentsCryptoDepositStatus u i A)"
  unfolding getNowpaymentsCryptoDepositStatus_def
  by (intro dep.safe_rules finalizeSuccessful_safe dep.calm_safe[OF deposit_calm_sum] dep.calm_safe[OF meta_update_calm]
      deposit_transaction fail_open dep.calm_safe[OF deposits_many_calm]) simp_all

lemma qrPayment_safe: "safe_op deposit_inv deposit_rel (finalizeMerchantQrPayment r)"
  unfolding finalizeMerchantQrPayment_def by (intro dep.calm_safe deposit_calms)

lemma ensureRate_safe: "safe_op deposit_inv deposit_rel ensureRateExists"
  unfolding ensureRateExists_def Let_def
  by (intro dep.calm_safe dep.calm.safe_bnd dep.calm.safe_case_prod deposit_calms, simp split: list.split,
      intro conjI allI impI deposit_calms)

lemma updateRate_safe: "safe_op deposit_inv deposit_rel (updateActiveRate x)"
  unfolding updateActiveRate_def Let_def by (intro dep.calm_safe deposit_calms)

datatype deposit_request =
    EnsureRate
  | UpdateRate "rat option"
  | CryptoDeposit deposit_api nat crypto_deposit_dto
  | NewDeposit nat deposit_dto "err + unit"
  | VerifyDeposit nat nat settle_answers
  | CryptoStatus nat string settle_answers
  | PaymentArrived nat settle_answers
  | PaymentFailed nat "string option"
  | QrSettled nat

fun deposit_exec :: "deposit_request \<Rightarrow> 'a deposit_db_scheme \<Rightarrow> 'a deposit_db_scheme" where
  "deposit_exec EnsureRate s = snd (ensureRateExists s)"
| "deposit_exec (UpdateRate x) s = snd (updateActiveRate x s)"
| "deposit_exec (CryptoDeposit A u dto) s = snd (createNowpaymentsCryptoDeposit A u dto s)"
| "deposit_exec (NewDeposit u dto checkout) s = snd (createDeposit u dto checkout s)"
| "deposit_exec (VerifyDeposit u r A) s = snd (verifyDepositStatus u r A s)"
| "deposit_exec (CryptoStatus u i A) s = snd (getNowpaymentsCryptoDepositStatus u i A s)"
| "deposit_exec (PaymentArrived r A) s = snd (finalizeSuccessfulDeposit r A s)"
| "deposit_exec (PaymentFailed r reason) s = snd (failDeposit r reason s)"
| "deposit_exec (QrSettled r) s = snd (finalizeMerchantQrPayment r s)"

interpretation dep_run: step_run deposit_inv deposit_rel deposit_exec
proof
  fix s :: "'a deposit_db_scheme" and q
  assume "deposit_inv s"
  then show "deposit_rel s (deposit_exec q s)"
    by (cases q) (simp_all add: dep.safe_snd ensureRate_safe updateRate_safe createCrypto_safe createDeposit_safe verifyDeposit_safe cryptoStatus_safe
      finalizeSuccessful_safe failDeposit_safe qrPayment_safe)
qed

end
