(* ===== verification/Deposit_Results.thy ===== *)
theory Deposit_Results
  imports Deposit_Runs
begin

text \<open>
  The results on deposits.  First the arithmetic of amounts in whole cents: the parts of a sale add
  up, and a fee rule of at most one half never takes more than the sale.  Then what a confirmed
  payment adds to the wallets, a sample, and the properties of runs.
\<close>

section \<open>Whole cents\<close>

lemma normalizeAmount_num: "normalizeAmount x = num (1000000 * math_round (fl (x * 100)))"
  by (simp add: normalizeAmount_def num_def)

lemma normalizeAmount_near:
  assumes "near e x (1000000 * k)" "\<bar>1000000 * k\<bar> \<le> MAXU" "e \<le> 1"
  shows "normalizeAmount x = num (1000000 * k)"
  unfolding normalizeAmount_def by (rule cents_near[OF assms])

lemma cents_diff:
  assumes "\<bar>1000000 * i\<bar> \<le> MAXU" "\<bar>1000000 * j\<bar> \<le> MAXU" "\<bar>1000000 * (i - j)\<bar> \<le> MAXU"
  shows "normalizeAmount (fl (num (1000000 * i) - num (1000000 * j))) = num (1000000 * (i - j))"
  by (rule normalizeAmount_near[OF js.near_minus[OF near_num near_num, of "1000000 * i" "1000000 * j", unfolded right_diff_distrib[symmetric]]])
    (use assms in \<open>auto simp: ulp_def right_diff_distrib\<close>)

text \<open>A percentage up to one half never takes more than the sale, whatever its size.\<close>

lemma fl_le: "0 \<le> x \<Longrightarrow> fl x \<le> x + x / 9007199254740992"
  using fl_error[of x] abs_ge_self[of "fl x - x"] by simp

lemma fl_ge: "0 \<le> x \<Longrightarrow> x - x / 9007199254740992 \<le> fl x"
  using fl_error[of x] abs_ge_minus_self[of "fl x - x"] by simp

lemma fl_loose: "0 \<le> x \<Longrightarrow> fl x \<le> 1001/1000 * x"
  using fl_le[of x] by simp

lemma round_dp_le:
  assumes "0 \<le> x" shows "round_dp 8 x \<le> 101/100 * x + 3/200000000"
proof -
  let ?y = "x + number_epsilon"
  have y: "0 \<le> ?y" "?y \<le> x + 1/1000000000" using assms by (simp_all add: number_epsilon_def)
  have a: "fl ?y \<le> 1001/1000 * ?y" by (rule fl_loose[OF y(1)])
  have p: "0 \<le> fl ?y * 10 ^ 8" using y(1) by (simp add: fl_nonneg_iff)
  have b: "fl (fl ?y * 10 ^ 8) \<le> 1001/1000 * (fl ?y * 10 ^ 8)" by (rule fl_loose[OF p])
  define k where "k = math_round (fl (fl ?y * 10 ^ 8))"
  have k: "of_int k \<le> fl (fl ?y * 10 ^ 8) + 1/2" unfolding k_def math_round_def by simp
  have "0 \<le> (of_int k / 10 ^ 8 :: rat)" using p by (simp add: k_def math_round_def fl_nonneg_iff)
  note fl_loose[OF this]
  moreover have "of_int k / 10 ^ 8 \<le> 1003/1000 * x + (1/100000000 :: rat)"
    using k b a y(2) assms by simp
  ultimately show ?thesis using assms unfolding round_dp_def k_def[symmetric] by simp
qed

lemma fits_half:
  assumes r: "percent_only r" "r_percent r \<le> 50"
  shows "fits r"
  unfolding fits_def
proof (intro allI impI)
  fix x :: rat
  assume "0 \<le> x"
  define k where "k = math_round (fl (x * 100))"
  have k: "0 \<le> k" using \<open>0 \<le> x\<close> by (simp add: k_def math_round_def fl_nonneg_iff)
  define a where "a = fl (of_int k / 100)"
  have a: "normalizeAmount x = a" by (simp add: normalizeAmount_def k_def a_def)
  show "normalizeAmount (computeFee r (normalizeAmount x) 8) \<le> normalizeAmount x"
  proof (cases "k = 0")
    case True
    then have "a = 0" by (simp add: a_def)
    moreover have "\<lfloor>1/2 :: rat\<rfloor> = 0" by (simp add: floor_eq_iff)
    ultimately show ?thesis unfolding a by (simp add: computeFee_def normalizeAmount_def math_round_def)
  next
    case False
    then have k1: "1 \<le> k" using k by simp
    have a_ge: "of_int k / 100 - of_int k / 100 / 9007199254740992 \<le> a" unfolding a_def by (rule fl_ge) (use k in simp)
    have a0: "0 < a" using k1 by (simp add: a_def fl_pos_iff)
    have raw: "0 \<le> raw_fee r a" "raw_fee r a \<le> 51/100 * a"
    proof -
      have p: "0 \<le> a * r_percent r" "a * r_percent r \<le> a * 50"
        using a0 r by (auto simp: percent_only_def intro: mult_left_mono)
      have 1: "fl (a * r_percent r) \<le> a * 50 + a * 50 / 9007199254740992"
        using fl_mono[OF p(2)] fl_le[of "a * 50"] a0 by simp
      have 2: "0 \<le> fl (a * r_percent r) / 100" using p by (simp add: fl_nonneg_iff)
      have 3: "fl (fl (a * r_percent r) / 100) \<le> fl (a * r_percent r) / 100 + fl (a * r_percent r) / 100 / 9007199254740992"
        by (rule fl_le[OF 2])
      have 4: "0 \<le> fl (fl (a * r_percent r) / 100)" using 2 by (simp only: fl_nonneg_iff)
      show "0 \<le> raw_fee r a" using 4 r by (simp add: raw_fee_def percent_only_def fl_nonneg_iff)
      show "raw_fee r a \<le> 51/100 * a"
        using fl_le[OF 4] 1 3 a0 r by (simp add: raw_fee_def percent_only_def)
    qed
    define c where "c = computeFee r a 8"
    have c0: "0 \<le> c" by (simp add: c_def computeFee_nonneg)
    have c: "c \<le> 52/100 * a + 3/200000000"
    proof -
      define f where "f = (if r_max r > 0 then min (r_max r) (raw_fee r a) else raw_fee r a)"
      have f: "0 \<le> f" "f \<le> 51/100 * a" using raw by (auto simp: f_def)
      have "c = max 0 (round_dp 8 f)"
        using a0 r by (auto simp: c_def computeFee_def f_def Let_def percent_only_def)
      then show ?thesis using round_dp_le[OF f(1)] f(2) a0 by simp
    qed
    have p: "0 \<le> c * 100" using c0 by simp
    define j where "j = math_round (fl (c * 100))"
    have j: "of_int j \<le> fl (c * 100) + 1/2" unfolding j_def math_round_def by simp
    have jf: "fl (c * 100) \<le> c * 100 + c * 100 / 9007199254740992" by (rule fl_le[OF p])
    have ak: "a \<le> of_int k / 100 + of_int k / 100 / 9007199254740992" unfolding a_def by (rule fl_le) (use k in simp)
    have "of_int j < (of_int (k + 1) :: rat)"
    proof -
      have "(1::rat) \<le> of_int k" using k1 by simp
      then show ?thesis using j jf c ak by simp
    qed
    then have "j \<le> k" by (simp only: of_int_less_iff)
    then have "fl (of_int j / 100) \<le> a" unfolding a_def by (intro fl_mono) simp
    then show ?thesis unfolding a c_def[symmetric] normalizeAmount_def[of c] j_def[symmetric] .
  qed
qed

section \<open>What a confirmed payment adds\<close>

text \<open>The money part: the user's wallet, or a new one when there is none, is credited.\<close>

definition paid_in :: "'a deposit_db_scheme \<Rightarrow> nat \<Rightarrow> nat \<Rightarrow> int \<Rightarrow> 'a deposit_db_scheme \<Rightarrow> bool" where
  "paid_in s owner i x u \<longleftrightarrow> (case active_wallet s owner of
       Some w \<Rightarrow> i = w_id w \<and> accounts u = post i x 0 (accounts s)
     | None \<Rightarrow> i \<notin> dom (accounts s) \<and> accounts u = (accounts s)(i \<mapsto> (x, 0))
         \<and> map_option w_id (active_wallet u owner) = Some i)"

definition closed_rows :: "nat \<Rightarrow> deposit \<Rightarrow> (txn \<Rightarrow> bool) \<Rightarrow> 'a deposit_db_scheme \<Rightarrow> bool" where
  "closed_rows r d P u \<longleftrightarrow> deposit_by_ref u r = Some (d\<lparr>dp_status := DSuccess\<rparr>)
     \<and> (\<exists>x. txn_by_ref u r = Some x \<and> t_status x = Completed \<and> P x)"

text \<open>An ordinary deposit \<open>d\<close> of transaction \<open>t\<close> with reference \<open>r\<close> was settled between \<open>s\<close> and \<open>u\<close>.\<close>

definition deposit_settled :: "'a deposit_db_scheme \<Rightarrow> nat \<Rightarrow> deposit \<Rightarrow> txn \<Rightarrow> 'a deposit_db_scheme \<Rightarrow> bool" where
  "deposit_settled s r d t u \<longleftrightarrow> (\<exists>i e. paid_in s (dp_user d) i (to_units (normalizeAmount (dp_amount d))) u
     \<and> ledger u = ledger s @ [e] \<and> entry e = (Some (t_id t), i, Credit, to_units (normalizeAmount (dp_amount d)))
     \<and> closed_rows r d (\<lambda>x. x = t\<lparr>t_status := Completed, t_receiver := Some (case t_receiver t of None \<Rightarrow> i | Some v \<Rightarrow> v)\<rparr>) u)"

text \<open>A guest's payment to a merchant was: the platform takes the merchant fee, in whole cents.\<close>

definition sale_charge :: "'a deposit_db_scheme \<Rightarrow> deposit \<Rightarrow> int" where
  "sale_charge s d = to_units (normalizeAmount (computeFee (rule_in s Merchant) (normalizeAmount (dp_amount d)) 8))"

definition sale_settled :: "'a deposit_db_scheme \<Rightarrow> nat \<Rightarrow> deposit \<Rightarrow> txn \<Rightarrow> 'a deposit_db_scheme \<Rightarrow> bool" where
  "sale_settled s r d t u \<longleftrightarrow> (\<exists>w p es. user_wallet s (dp_user d) = Some w \<and> platform_wallet s = Some p
     \<and> 0 \<le> sale_charge s d \<and> sale_charge s d \<le> to_units (normalizeAmount (dp_amount d))
     \<and> accounts u = post (w_id p) (sale_charge s d) 0
         (post (w_id w) (to_units (normalizeAmount (dp_amount d)) - sale_charge s d) 0 (accounts s))
     \<and> ledger u = ledger s @ es
     \<and> map entry es = [(Some (t_id t), w_id w, Credit, to_units (normalizeAmount (dp_amount d)) - sale_charge s d),
         (Some (t_id t), w_id p, Credit, sale_charge s d)]
     \<and> closed_rows r d (\<lambda>x. t_type x = MerchantPayment \<and> t_receiver x = Some (w_id w)) u)"

definition raised :: "'a deposit_db_scheme \<Rightarrow> deposit \<Rightarrow> 'a deposit_db_scheme \<Rightarrow> bool" where
  "raised s d u \<longleftrightarrow> total u = total s + to_units (normalizeAmount (dp_amount d))"

lemma closed_rows_quiet: "closed_rows r d P (u\<lparr>outbox := x, cache := c\<rparr>) = closed_rows r d P u"
  by (simp add: closed_rows_def deposit_by_ref_def txn_by_ref_def)

lemma settled_quiet:
  "raised s d (u\<lparr>outbox := x, cache := c\<rparr>) = raised s d u"
  "deposit_settled s r d t (u\<lparr>outbox := x, cache := c\<rparr>) = deposit_settled s r d t u"
  "sale_settled s r d t (u\<lparr>outbox := x, cache := c\<rparr>) = sale_settled s r d t u"
  by (simp_all add: raised_def total_def deposit_settled_def sale_settled_def paid_in_def closed_rows_quiet active_wallet_def cong: option.case_cong)

lemma quiet_then:
  assumes "quiet m" "\<And>x c. Q a (s\<lparr>outbox := x, cache := c\<rparr>)" shows "wp (thn m (ret a)) Q E s"
  unfolding wp_thn wp_ret by (rule wp_quiet) (rule assms)+

lemma quiet_seq:
  assumes "quiet m" "\<And>x c. wp k Q E (s\<lparr>outbox := x, cache := c\<rparr>)" shows "wp (thn m k) Q E s"
  unfolding wp_thn by (rule wp_quiet) (rule assms)+

text \<open>The pending deposit and the open transaction of a reference.\<close>

definition open_rows :: "'a deposit_db_scheme \<Rightarrow> nat \<Rightarrow> deposit \<Rightarrow> txn \<Rightarrow> bool" where
  "open_rows s r d t \<longleftrightarrow> deposit_by_ref s r = Some d \<and> dp_status d = DPending
     \<and> txn_by_ref s r = Some t \<and> t_status t \<in> {Pending, Processing}"

lemma open_claim: "open_rows s r d t \<Longrightarrow> filter (\<lambda>e. dp_id e = dp_id d \<and> dp_status e = DPending) (deposits s) \<noteq> []"
  by (auto simp: open_rows_def deposit_by_ref_def filter_empty_conv dest: find_row_Some)

lemma closed_rowsI:
  assumes "open_rows s r d t" "deposits u = claimed d (deposits s)" "txns u = upd_row t_id (t_id t) f (txns s)"
    and "\<And>x. t_ref (f x) = t_ref x" "t_status (f t) = Completed" "P (f t)"
  shows "closed_rows r d P u"
proof -
  have "deposit_by_ref u r = Some (d\<lparr>dp_status := DSuccess\<rparr>)"
    using assms(1) by (simp add: open_rows_def deposit_by_ref_def assms(2) claimed_def find_row_upd_where)
  moreover have "txn_by_ref u r = Some (f t)"
    using assms(1,4) by (simp add: open_rows_def txn_by_ref_def assms(3) upd_row_where find_row_upd_where)
  ultimately show ?thesis using assms(5,6) by (simp add: closed_rows_def)
qed

lemma active_funds:
  assumes "deposit_inv s" "active_wallet s v = Some w \<or> user_wallet s v = Some w"
  shows "find_row w_id (w_id w) (wallets s) = Some w \<and> 0 \<le> w_balance w"
proof -
  have f: "funds_ok (seq s) (wallets s)" by (rule deposit_invD(3)[OF assms(1)])
  have "w \<in> set (wallets s)" using assms(2) unfolding active_wallet_def user_wallet_def by (auto dest: find_Some)
  with f show ?thesis by (auto simp: funds_ok_def list_all_iff intro!: find_row_in)
qed

lemma find_snoc: "find P xs = None \<Longrightarrow> P y \<Longrightarrow> find P (xs @ [y]) = Some y"
  by (induction xs) (auto split: if_splits)

lemma acct_new: "i \<notin> dom (acct ws) \<Longrightarrow> acct (ws @ [new_user_wallet i v]) = (acct ws)(i \<mapsto> (0, 0))"
  by (rule ext) (auto simp: acct_def find_row_append new_user_wallet_def split: option.splits)

text \<open>The wallet that is credited, and what crediting it does to the books and the total.\<close>

lemma wallet_for_paid:
  assumes s: "deposit_inv s" and x: "0 \<le> x"
    and Q: "\<And>w W n t. grown s W n \<Longrightarrow> find_row w_id (w_id w) W = Some w \<Longrightarrow> t = s\<lparr>wallets := W, seq := n\<rparr>
      \<Longrightarrow> (\<And>u. wallets u = upd_row w_id (w_id w) (inc_balance x) W \<Longrightarrow> paid_in s v (w_id w) (to_units x) u
        \<and> total u = total s + to_units x) \<Longrightarrow> Q w t"
  shows "wp (wallet_for v) Q E s"
proof (cases "active_wallet s v")
  case None
  let ?w = "new_user_wallet (seq s) v" and ?W = "wallets s @ [new_user_wallet (seq s) v]"
  have n: "find_row w_id (seq s) (wallets s) = None"
    using deposit_invD(3)[OF s] by (auto simp: find_row_None funds_ok_def list_all_iff)
  then have no: "seq s \<notin> dom (accounts s)" by (auto simp: acct_def)
  have f: "find_row w_id (w_id ?w) ?W = Some ?w" using n by (simp add: find_row_append new_user_wallet_def)
  have "paid_in s v (w_id ?w) (to_units x) u \<and> total u = total s + to_units x"
    if u: "wallets u = upd_row w_id (w_id ?w) (inc_balance x) ?W" for u
  proof -
    have "accounts u = post (seq s) (to_units x) 0 ((accounts s)(seq s \<mapsto> (0, 0)))"
      using acct_credit[OF f _ x] by (simp add: u acct_new[OF no]) (simp add: new_user_wallet_def)
    then have "accounts u = (accounts s)(seq s \<mapsto> (to_units x, 0))" by (simp add: fun_eq_iff)
    moreover have "map_option w_id (active_wallet u v) = Some (seq s)"
      using None unfolding active_wallet_def u
      by (subst find_upd_row) (simp_all add: find_snoc new_user_wallet_def inc_balance_def)
    moreover have "total u = total s + to_units x"
      using credit_balance(2)[OF grown_new[OF s] f x] by (simp add: total_def u)
    ultimately show ?thesis using None no by (simp add: paid_in_def new_user_wallet_def)
  qed
  from Q[OF grown_new[OF s] f refl this]
  have "Q ?w (wallets_update (\<lambda>rows. rows @ [?w]) (s\<lparr>seq := Suc (seq s)\<rparr>))" by (cases s) simp
  then show ?thesis using None by (simp add: wallet_for_def create_wallet_def wp_simps)
next
  case (Some w)
  from active_funds[OF s] Some have f: "find_row w_id (w_id w) (wallets s) = Some w" "0 \<le> w_balance w" by auto
  have "paid_in s v (w_id w) (to_units x) u \<and> total u = total s + to_units x"
    if u: "wallets u = upd_row w_id (w_id w) (inc_balance x) (wallets s)" for u
    using acct_credit[OF f x] credit_balance(2)[OF grown_same[OF s] f(1) x] Some by (simp add: paid_in_def total_def u)
  from Q[OF grown_same[OF s] f(1) _ this, of s] show ?thesis using Some by (simp add: wallet_for_def wp_simps)
qed

lemma pending_raises:
  assumes s: "deposit_inv s" and d: "0 \<le> dp_amount d" and o: "open_rows s r d t"
  shows "wp (finalizePendingDepositWithTransaction d t) (\<lambda>ok u. ok \<and> deposit_settled s r d t u \<and> raised s d u) (\<lambda>_ _. False) s"
proof -
  let ?x = "normalizeAmount (dp_amount d)"
  let ?f = "\<lambda>i x. x\<lparr>t_status := Completed, t_receiver := Some (case t_receiver t of None \<Rightarrow> i | Some v \<Rightarrow> v)\<rparr>"
  have "wp (bnd (wallet_for (dp_user d)) (\<lambda>w. bnd (claim_deposit (dp_id d)) (\<lambda>n. if n = 0 then ret False
      else thn (deposit_credit (t_id t) w ?x) (thn (if t_status t \<noteq> Completed
        then txn_completed (t_id t) (case t_receiver t of None \<Rightarrow> Some (w_id w) | Some r \<Rightarrow> Some r) else ret ()) (ret True)))))
      (\<lambda>ok u. ok \<and> deposit_settled s r d t u \<and> raised s d u) (\<lambda>_ _. False) s"
    unfolding wp_bnd[of "wallet_for _"]
  proof (rule wallet_for_paid[OF s normalizeAmount_nonneg[OF d]])
    fix w W n s1
    assume w: "find_row w_id (w_id w) W = Some w" and s1: "s1 = s\<lparr>wallets := W, seq := n\<rparr>"
      and paid: "\<And>u. wallets u = upd_row w_id (w_id w) (inc_balance ?x) W \<Longrightarrow> paid_in s (dp_user d) (w_id w) (to_units ?x) u
        \<and> total u = total s + to_units ?x"
    have R: "(case t_receiver t of None \<Rightarrow> Some (w_id w) | Some r \<Rightarrow> Some r)
        = Some (case t_receiver t of None \<Rightarrow> w_id w | Some v \<Rightarrow> v)" by (simp split: option.split)
    have post: "deposit_settled s r d t u \<and> raised s d u"
      if u: "wallets u = upd_row w_id (w_id w) (inc_balance ?x) W" "ledger u = ledger s @ [deposit_entry (t_id t) (w_id w) ?x b]"
        "deposits u = claimed d (deposits s)" "txns u = upd_row t_id (t_id t) (?f (w_id w)) (txns s)" for u b
    proof -
      have "closed_rows r d (\<lambda>x. x = ?f (w_id w) t) u" by (rule closed_rowsI[OF o u(3,4)]) simp_all
      with paid[OF u(1)] show ?thesis
        unfolding deposit_settled_def raised_def
        by (intro conjI exI[of _ "w_id w"] exI[of _ "deposit_entry (t_id t) (w_id w) ?x b"])
          (simp_all add: u(2) entry_def deposit_entry_def)
    qed
    have st: "t_status t \<noteq> Completed" using o by (auto simp: open_rows_def)
    show "wp (bnd (claim_deposit (dp_id d)) (\<lambda>n. if n = 0 then ret False
        else thn (deposit_credit (t_id t) w ?x) (thn (if t_status t \<noteq> Completed
          then txn_completed (t_id t) (case t_receiver t of None \<Rightarrow> Some (w_id w) | Some r \<Rightarrow> Some r) else ret ()) (ret True))))
        (\<lambda>ok u. ok \<and> deposit_settled s r d t u \<and> raised s d u) (\<lambda>_ _. False) s1"
      unfolding R using w open_claim[OF o] st
      by (simp add: s1 claim_deposit_def txn_completed_def wp_simps deposit_credit_wp wallet_by_id_def)
        (rule post, simp_all add: claimed_def)
  qed
  then show ?thesis
    unfolding finalizePendingDepositWithTransaction_def wp_bnd[of "transaction _"] wp_transaction
    by (rule wp_mono) (auto simp: settled_quiet intro!: quiet_then caches_quiet quiet_ret)
qed

lemma cents_of:
  assumes "0 \<le> x" "x \<le> 9000000"
  obtains i where "normalizeAmount x = num (1000000 * i)" "0 \<le> i" "1000000 * i \<le> MAXU - 1000000"
proof
  let ?i = "math_round (fl (x * 100))"
  show "normalizeAmount x = num (1000000 * ?i)" by (rule normalizeAmount_num)
  show "0 \<le> ?i" using assms by (simp add: math_round_def fl_nonneg_iff)
  have "of_int ?i \<le> fl (x * 100) + 1/2" unfolding math_round_def by simp
  also have "\<dots> \<le> 900900001" using fl_loose[of "x * 100"] assms by simp
  finally have "?i \<le> 900900001" by simp
  then show "1000000 * ?i \<le> MAXU - 1000000" by (simp add: MAXU_def)
qed

lemma sale_units:
  assumes x: "0 \<le> x" "x \<le> 9000000" and a: "a = normalizeAmount x" "c = normalizeAmount y" "c \<le> a" "0 \<le> c"
  shows "to_units (normalizeAmount (fl (a - c))) + to_units c = to_units a"
proof -
  obtain i where i: "a = num (1000000 * i)" "0 \<le> i" "1000000 * i \<le> MAXU - 1000000" using cents_of[OF x] a(1) by blast
  define j where "j = math_round (fl (y * 100))"
  have c: "c = num (1000000 * j)" using a(2) normalizeAmount_num j_def by simp
  have j: "0 \<le> j" using a(4) unfolding c num_nonneg_iff by simp
  have "j \<le> i"
  proof (rule ccontr)
    assume "\<not> j \<le> i"
    then have "num (1000000 * (i + 1)) \<le> num (1000000 * j)" by (intro num_mono) simp
    also have "\<dots> \<le> num (1000000 * i)" using a(3) by (simp only: c i(1))
    finally show False using num_le_iff[of "1000000 * (i + 1)" "1000000 * i"] i by (simp add: MAXU_def)
  qed
  then have "normalizeAmount (fl (a - c)) = num (1000000 * (i - j))"
    unfolding i(1) c using i j by (intro cents_diff) (auto simp: MAXU_def)
  then show ?thesis using i j \<open>j \<le> i\<close> by (simp add: c i(1) MAXU_def)
qed

lemma credited_row:
  "find_row w_id j ws = Some p \<Longrightarrow> 0 \<le> w_balance p \<Longrightarrow> 0 \<le> x
    \<Longrightarrow> \<exists>q. find_row w_id j (upd_row w_id i (inc_balance x) ws) = Some q \<and> 0 \<le> w_balance q"
  by (cases "j = i") (auto simp: inc_units to_units_nonneg)

lemma sale_raises:
  fixes s :: "'a deposit_db_scheme"
  assumes s: "deposit_inv s" and w: "user_wallet s (dp_user d) = Some w" and p: "platform_wallet s = Some p"
    and d: "0 \<le> dp_amount d" "dp_amount d \<le> 9000000" and o: "open_rows s r d t" and rl: "fits (rule_in s Merchant)"
  shows "wp (settle_sale d t mid (rule_in s Merchant) w p) (\<lambda>x u. x \<noteq> None \<and> sale_settled s r d t u \<and> raised s d u) (\<lambda>_ _. False) s"
proof -
  let ?a = "normalizeAmount (dp_amount d)"
  let ?c = "normalizeAmount (computeFee (rule_in s Merchant) ?a 8)"
  let ?n = "normalizeAmount (fl (?a - ?c))"
  have fw: "find_row w_id (w_id w) (wallets s) = Some w" "0 \<le> w_balance w" using active_funds[OF s] w by auto
  have fp: "find_row w_id (w_id p) (wallets s) = Some p" "0 \<le> w_balance p"
    using active_funds[OF s] platform_wallet_active[OF p] by auto
  note parts = sale_parts[OF d(1) rl refl refl]
  note two = credit_two[OF grown_same[OF s] fw(1) fp(1) parts(3,1)]
  have units: "to_units ?n + sale_charge s d = to_units ?a"
    unfolding sale_charge_def by (rule sale_units[OF d refl refl parts(2,1)])
  have pos: "0 \<le> sale_charge s d" "0 \<le> to_units ?n"
    unfolding sale_charge_def using parts by (simp_all add: to_units_nonneg)
  show ?thesis
  proof (rule settle_sale_wp[OF fw(1) fp(1) refl refl refl])
    fix x b b' and u :: "'a deposit_db_scheme"
    assume u: "wallets u = upd_row w_id (w_id p) (inc_balance ?c) (upd_row w_id (w_id w) (inc_balance ?n) (wallets s))"
      "ledger u = ledger s @ [deposit_entry (t_id t) (w_id w) ?n b, deposit_entry (t_id t) (w_id p) ?c b']"
      "txns u = upd_row t_id (t_id t) (merchant_txn (w_id w) ?c ?n) (txns s)" "deposits u = claimed d (deposits s)"
    have "closed_rows r d (\<lambda>x. t_type x = MerchantPayment \<and> t_receiver x = Some (w_id w)) u"
      by (rule closed_rowsI[OF o u(4,3)]) (simp_all add: merchant_txn_def)
    moreover have "accounts u = post (w_id p) (sale_charge s d) 0 (post (w_id w) (to_units ?n) 0 (accounts s))"
    proof -
      obtain q where q: "find_row w_id (w_id p) (upd_row w_id (w_id w) (inc_balance ?n) (wallets s)) = Some q" "0 \<le> w_balance q"
        using credited_row[OF fp parts(3)] by blast
      show ?thesis unfolding u(1) sale_charge_def
        by (simp only: acct_credit[OF q parts(1)] acct_credit[OF fw parts(3)])
    qed
    moreover have "raised s d u"
      using two(2) units by (simp add: raised_def total_def u(1) sale_charge_def)
    moreover have "to_units ?n = to_units ?a - sale_charge s d" using units by simp
    ultimately show "Some x \<noteq> None \<and> sale_settled s r d t u \<and> raised s d u"
      unfolding sale_settled_def using w p pos units u(2)
      by (intro conjI exI[of _ w] exI[of _ p] exI[of _ "[deposit_entry (t_id t) (w_id w) ?n b, deposit_entry (t_id t) (w_id p) ?c b']"])
        (simp_all add: entry_def deposit_entry_def sale_charge_def)
  qed (use open_claim[OF o] in simp)
qed

text \<open>A guest's payment can be settled when the merchant owns the deposit and both wallets exist.\<close>

definition sale_ready :: "'a deposit_db_scheme \<Rightarrow> deposit \<Rightarrow> deposit_meta \<Rightarrow> bool" where
  "sale_ready s d m \<longleftrightarrow> Option.bind (dm_merchant m) (\<lambda>i. Option.bind (find_row qm_id i (qr_merchants s)) qm_user) = Some (dp_user d)
     \<and> user_wallet s (dp_user d) \<noteq> None \<and> platform_wallet s \<noteq> None"

lemma sale_wallets_ready:
  assumes "sale_ready s d m" "dm_merchant m = Some mid"
  obtains w p where "sale_wallets d mid s = (Inr (w, p), s)" "user_wallet s (dp_user d) = Some w" "platform_wallet s = Some p"
proof -
  obtain w p where w: "user_wallet s (dp_user d) = Some w" "platform_wallet s = Some p"
    using assms(1) by (auto simp: sale_ready_def)
  have "Option.bind (find_row qm_id mid (qr_merchants s)) qm_user = Some (dp_user d)"
    using assms by (simp add: sale_ready_def)
  then have "sale_wallets d mid s = (Inr (w, p), s)" using w by (simp add: sale_wallets_def bnd_def gets_def ret_def)
  then show ?thesis by (rule that[OF _ w])
qed

lemma merchant_raises:
  fixes s :: "'a deposit_db_scheme"
  assumes s: "deposit_inv s" and d: "0 \<le> dp_amount d" "dp_amount d \<le> 9000000" and o: "open_rows s r d t" and m: "sale_ready s d m"
  shows "wp (finalizeMerchantQrDeposit d t m) (\<lambda>ok u. ok \<and> sale_settled s r d t u \<and> raised s d u) (\<lambda>_ _. False) s"
proof -
  obtain mid where mid: "dm_merchant m = Some mid" using m by (auto simp: sale_ready_def bind_eq_Some_conv)
  let ?s = "s\<lparr>fee_cache := next_cache s\<rparr>" and ?rl = "rule_in s Merchant"
  have inv: "deposit_inv ?s"
    using dep.rel_inv[OF s] dep.calm.safeD[OF deposit_calm_rule s, of Merchant] by (simp add: wp_ruleFor deposit_calm_def)
  have rl: "fits ?rl" by (rule rules_ok_rule[OF deposit_invD(7)[OF s]]) simp
  have "active_wallet ?s = active_wallet s" by (simp add: fun_eq_iff active_wallet_def)
  then have same: "user_wallet ?s = user_wallet s" "platform_wallet ?s = platform_wallet s"
    by (simp_all add: platform_wallet_def user_wallet_def fun_eq_iff split: option.split)
  have m': "sale_ready ?s d m" and o': "open_rows ?s r d t"
    using m o by (simp_all add: sale_ready_def same open_rows_def deposit_by_ref_def txn_by_ref_def)
  have post: "raised ?s d u = raised s d u" "sale_settled ?s r d t u = sale_settled s r d t u" for u
    by (simp_all add: raised_def total_def sale_settled_def sale_charge_def same)
  obtain w p where w: "sale_wallets d mid ?s = (Inr (w, p), ?s)" "user_wallet ?s (dp_user d) = Some w" "platform_wallet ?s = Some p"
    by (rule sale_wallets_ready[OF m' mid])
  note settle = sale_raises[OF inv w(2,3) d o', unfolded rule_in_refresh, OF rl, unfolded post]
  have "wp (bnd (sale_wallets d mid) (\<lambda>(w, p). bnd (settle_sale d t mid ?rl w p) (\<lambda>x. ret (x, w, p))))
      (\<lambda>y u. fst y \<noteq> None \<and> sale_settled s r d t u \<and> raised s d u) (\<lambda>_ _. False) ?s"
    unfolding wp_bnd[of "sale_wallets d mid"] by (subst wp_def)
      (simp only: w(1) prod.case sum.case wp_bnd wp_ret_eta, rule wp_mono[OF settle], simp_all)
  then show ?thesis
    unfolding finalizeMerchantQrDeposit_def mid option.case wp_bnd[of "ruleFor Merchant"] wp_ruleFor wp_bnd[of "transaction _"] wp_transaction
    by (elim wp_mono) (auto simp: settled_quiet wp_ret split: option.splits prod.splits intro!: quiet_seq quiet_intros caches_quiet)
qed

lemma finalize_open:
  assumes "open_rows s r d t" "t_type t = DepositTxn" "provider_confirms A r (deposit_meta_of s r) (Some d)"
  shows "finalizeSuccessfulDeposit r A s
    = (if dm_guest (deposit_meta_of s r) then finalizeMerchantQrDeposit d t (deposit_meta_of s r)
       else finalizePendingDepositWithTransaction d t) s"
  using assms by (auto simp: open_rows_def finalizeSuccessfulDeposit_def reconstruct_deposit_def bnd_def gets_def ret_def)

text \<open>What a settled reference looks like: a sale when the payer was a guest, a deposit otherwise.\<close>

definition settled :: "'a deposit_db_scheme \<Rightarrow> nat \<Rightarrow> deposit \<Rightarrow> txn \<Rightarrow> 'a deposit_db_scheme \<Rightarrow> bool" where
  "settled s r d t u \<longleftrightarrow> raised s d u
     \<and> (if dm_guest (deposit_meta_of s r) then sale_settled s r d t u else deposit_settled s r d t u)"

lemma raises:
  assumes s: "deposit_inv s" and o: "open_rows s r d t" "dp_amount d \<le> 9000000" "t_type t = DepositTxn"
    and m: "dm_guest (deposit_meta_of s r) \<longrightarrow> sale_ready s d (deposit_meta_of s r)"
    and ok: "provider_confirms A r (deposit_meta_of s r) (Some d)"
  shows "\<exists>u. finalizeSuccessfulDeposit r A s = (Inr True, u) \<and> settled s r d t u"
proof -
  have d0: "0 \<le> dp_amount d"
    using deposit_invD(1)[OF s] o(1)
    by (auto simp: open_rows_def deposit_by_ref_def deposit_keys_def list_all_iff dest: find_row_Some)
  show ?thesis
  proof (cases "dm_guest (deposit_meta_of s r)")
    case True
    with m have "sale_ready s d (deposit_meta_of s r)" by simp
    from wp_ok[OF merchant_raises[OF s d0 o(2,1) this]] show ?thesis
      using finalize_open[OF o(1,3) ok] True by (auto simp: settled_def)
  next
    case False
    from wp_ok[OF pending_raises[OF s d0 o(1)]] show ?thesis
      using finalize_open[OF o(1,3) ok] False by (auto simp: settled_def)
  qed
qed

lemma unconfirmed:
  assumes "open_rows s r d t" "\<not> provider_confirms A r (deposit_meta_of s r) (Some d)"
  shows "finalizeSuccessfulDeposit r A s = (Inr False, s)"
  using assms by (simp add: open_rows_def finalizeSuccessfulDeposit_def bnd_def gets_def ret_def)

section \<open>A sample\<close>

text \<open>A pending card deposit of 125.50 by ada, and a guest's payment of 1000 for the shop of bob.\<close>

definition sample_deposit :: deposit where
  "sample_deposit = new_deposit 80 81 1 (251/2) ''KES'' ''CARD'' ''paystack'' None 0"

definition sample_sale :: deposit where
  "sample_sale = new_deposit 83 84 2 1000 ''KES'' ''CARD'' ''paystack'' None 0"

definition sample_deposits :: deposit_db where
  "sample_deposits = core.extend (sample\<lparr>txns := [deposit_txn 81 None 1 (num 12550000000) 82 0, deposit_txn 84 None 2 (num 100000000000) 85 0]\<rparr>)
     (deposit_db.fields [sample_deposit, sample_sale]
       [(no_meta 81)\<lparr>dm_provider := Some ''paystack'', dm_user := Some 1\<rparr>,
        (no_meta 84)\<lparr>dm_provider := Some ''paystack'', dm_user := Some 2, dm_guest := True, dm_merchant := Some 7\<rparr>]
       [\<lparr>qr_txn = 85, qr_status = Pending\<rparr>] [\<lparr>qm_id = 7, qm_user = Some 2, qm_sales = 0\<rparr>] [])"

definition sample_settle :: settle_answers where
  "sample_settle = \<lparr>st_paystack = Inr (Some ''success''), st_payment = (\<lambda>_. Inl (Failure ''offline''))\<rparr>"

lemma sample_deposits_tables [simp]:
  "deposits sample_deposits = [sample_deposit, sample_sale]" "seq sample_deposits = 100" "users sample_deposits = users sample"
  "txns sample_deposits = [deposit_txn 81 None 1 (num 12550000000) 82 0, deposit_txn 84 None 2 (num 100000000000) 85 0]"
  "wallets sample_deposits = wallets sample" "ledger sample_deposits = []"
  "qr_merchants sample_deposits = [\<lparr>qm_id = 7, qm_user = Some 2, qm_sales = 0\<rparr>]" "fee_cache sample_deposits = None"
  "deposit_metas sample_deposits = [(no_meta 81)\<lparr>dm_provider := Some ''paystack'', dm_user := Some 1\<rparr>,
        (no_meta 84)\<lparr>dm_provider := Some ''paystack'', dm_user := Some 2, dm_guest := True, dm_merchant := Some 7\<rparr>]"
  by (simp_all add: sample_deposits_def sample_def core.defs deposit_db.defs)

lemma sample_deposits_inv: "deposit_inv sample_deposits"
proof -
  have "loaded_rule sample_deposits Merchant = default_rule sample Merchant" "default_rule sample_deposits Merchant = default_rule sample Merchant"
    by (simp_all add: loaded_rule_def configured_def default_rule_def defaultPercent_def sample_deposits_def sample_def core.defs deposit_db.defs)
  moreover have "fits (default_rule sample Merchant)"
    by (rule fits_half) (simp_all add: percent_only_def default_rule_def defaultPercent_def sample_def)
  ultimately have "rules_ok fits {Merchant} sample_deposits" by (simp add: rules_ok_def)
  then show ?thesis
    by (simp add: deposit_inv_def deposit_keys_def txn_keys_def funds_ok_def settled_ok_def credits_def no_meta_def
        sample_deposit_def sample_sale_def new_deposit_def deposit_txn_def to_units_nonneg sample_tables sample_wallet_def)
qed

lemma sample_deposits_rows:
  "deposit_by_ref sample_deposits 81 = Some sample_deposit" "deposit_by_ref sample_deposits 84 = Some sample_sale"
  "txn_by_ref sample_deposits 81 = Some (deposit_txn 81 None 1 (num 12550000000) 82 0)"
  "txn_by_ref sample_deposits 84 = Some (deposit_txn 84 None 2 (num 100000000000) 85 0)"
  by (simp_all add: deposit_by_ref_def txn_by_ref_def sample_deposit_def sample_sale_def new_deposit_def deposit_txn_def)

definition sample_payments :: "deposit_request list" where
  "sample_payments = [PaymentArrived 81 sample_settle, PaymentFailed 84 None, PaymentArrived 84 sample_settle, VerifyDeposit 1 81 sample_settle]"

section \<open>Results\<close>

text \<open>C27: Whatever the payment providers answer, over any sequence of deposit requests,
  payments, failures and status checks the money in the wallets grows by exactly the credits entered
  in the ledger, and no balance falls below zero.\<close>

theorem deposit_run:
  assumes "deposit_inv s" "t = fold deposit_exec rs s"
  shows "total t - total s = credited (ledger t) - credited (ledger s) \<and> list_all (\<lambda>w. 0 \<le> w_balance w) (wallets t)"
proof -
  have "deposit_rel s t" unfolding assms(2) by (rule dep_run.run_rel[OF assms(1)])
  then show ?thesis using deposit_invD(3)[of t] by (auto simp: deposit_rel_def funds_ok_def list_all_iff)
qed

theorem deposit_run_witness:
  "total (fold deposit_exec sample_payments sample_deposits) - total sample_deposits
    = credited (ledger (fold deposit_exec sample_payments sample_deposits))"
  using deposit_run[OF sample_deposits_inv refl, of sample_payments] by (simp add: credited_def)

text \<open>C28: In every state such a sequence reaches, a transaction has at most one credit, two
  when it is a merchant's sale, and none unless it is completed: no payment is credited
  twice.\<close>

theorem credited_once:
  assumes "deposit_inv s" "t = fold deposit_exec rs s" "x \<in> set (txns t)"
  shows "credits (ledger t) (t_id x) \<le>
    (if t_status x \<noteq> Completed then 0 else if dm_sale (deposit_meta_of t (t_ref x)) then 2 else 1)"
proof -
  have "deposit_inv t" unfolding assms(2) by (rule dep_run.run_keeps[OF assms(1)])
  from deposit_invD(6)[OF this assms(3)] show ?thesis by (auto simp: settled_ok_def split: if_splits)
qed

theorem credited_once_witness: "credits (ledger sample_deposits) 82 \<le> 0"
  using credited_once[OF sample_deposits_inv, of sample_deposits "[]" "deposit_txn 81 None 1 (num 12550000000) 82 0"]
  by (simp add: deposit_txn_def)

text \<open>C29: A completed, failed or cancelled transaction keeps its status, amount and credits
  over any such sequence: late or repeated messages of a provider change nothing.\<close>

theorem deposit_final:
  assumes "deposit_inv s" "t = fold deposit_exec rs s"
    and "txn_by_ref s r = Some x" "t_status x \<in> {Completed, Failed, Cancelled}"
  shows "\<exists>y. txn_by_ref t r = Some y \<and> t_status y = t_status x \<and> t_amount y = t_amount x
    \<and> credits (ledger t) (t_id x) = credits (ledger s) (t_id x)"
proof -
  have "deposit_rel s t" unfolding assms(2) by (rule dep_run.run_rel[OF assms(1)])
  then obtain y where "txn_by_ref t r = Some y" "txn_stays (ledger s) (ledger t) x y"
    using assms(3) unfolding deposit_rel_def by blast
  then show ?thesis using assms(4) by (auto simp: txn_stays_def)
qed

theorem deposit_final_witness:
  "\<exists>y. txn_by_ref (fold deposit_exec sample_payments (snd (failDeposit 84 None sample_deposits))) 84 = Some y \<and> t_status y = Failed"
proof -
  let ?s = "snd (failDeposit 84 None sample_deposits)"
  have inv: "deposit_inv ?s"
    by (rule dep.rel_inv[OF sample_deposits_inv dep.safe_snd[OF failDeposit_safe sample_deposits_inv]])
  have "map_option t_status (txn_by_ref ?s 84) = Some Failed"
    using wpD_snd[of "failDeposit 84 None" "\<lambda>s. map_option t_status (txn_by_ref s 84) = Some Failed" sample_deposits]
    by (simp add: failDeposit_def wp_simps sample_deposits_rows deposit_status_update_def txn_status_update_def deposit_meta_update_def
      sample_sale_def new_deposit_def deposit_txn_def txn_by_ref_def)
  then obtain x where x: "txn_by_ref ?s 84 = Some x" "t_status x = Failed" by auto
  show ?thesis using deposit_final[OF inv refl x(1), of sample_payments] x(2) by auto
qed

text \<open>C30: From tables in order (deposit_inv: among others the merchant fee never exceeds the
  sale), a pending deposit of at most 9,000,000 with an open deposit transaction (a guest's payment
  also with its merchant owning it and both wallets in place) is settled exactly when
  provider_confirms holds: Paystack must report success, NOWPayments a finished or confirmed payment
  of this order, currency and dollar amount; for any other provider the code checks nothing and
  settles. Settling credits the amount in whole cents to the depositor's wallet, or splits it into
  the platform's merchant fee and the merchant's rest, adds just these ledger entries, makes the
  deposit successful and the transaction completed, and raises the total by the amount; without the
  confirmation nothing changes.\<close>

theorem payment_credited:
  assumes "deposit_inv s" "open_rows s r d t" "dp_amount d \<le> 9000000" "t_type t = DepositTxn"
    and "dm_guest (deposit_meta_of s r) \<longrightarrow> sale_ready s d (deposit_meta_of s r)"
  shows "if provider_confirms A r (deposit_meta_of s r) (Some d)
    then \<exists>u. finalizeSuccessfulDeposit r A s = (Inr True, u) \<and> settled s r d t u
    else finalizeSuccessfulDeposit r A s = (Inr False, s)"
  using raises[OF assms] unconfirmed[OF assms(2)] by simp

theorem payment_credited_witness:
  "\<exists>u. finalizeSuccessfulDeposit 84 sample_settle sample_deposits = (Inr True, u)
    \<and> sale_settled sample_deposits 84 sample_sale (deposit_txn 84 None 2 (num 100000000000) 85 0) u"
proof -
  let ?m = "(no_meta 84)\<lparr>dm_provider := Some ''paystack'', dm_user := Some 2, dm_guest := True, dm_merchant := Some 7\<rparr>"
  have m: "deposit_meta_of sample_deposits 84 = ?m" by (simp add: deposit_meta_of_def no_meta_def)
  have "provider_confirms sample_settle 84 ?m (Some sample_sale)" by code_simp
  moreover have "sale_ready sample_deposits sample_sale ?m"
    by (simp add: sale_ready_def sample_sale_def new_deposit_def active_wallet_def user_wallet_def platform_wallet_def sample_defs)
  moreover have "open_rows sample_deposits 84 sample_sale (deposit_txn 84 None 2 (num 100000000000) 85 0)"
    using sample_deposits_rows by (simp add: open_rows_def sample_sale_def new_deposit_def deposit_txn_def)
  moreover have "dp_amount sample_sale \<le> 9000000" "t_type (deposit_txn 84 None 2 (num 100000000000) 85 0) = DepositTxn"
    by (simp_all add: sample_sale_def new_deposit_def deposit_txn_def)
  ultimately show ?thesis
    using payment_credited[OF sample_deposits_inv, of 84 sample_sale "deposit_txn 84 None 2 (num 100000000000) 85 0" sample_settle]
    unfolding m settled_def by auto
qed

end
