(* ===== verification/Requests.thy ===== *)
theory Requests
  imports Wallets
begin

text \<open>
  Requests for money between users: src/payment-requests/payment-requests.service.ts and
  src/transfer-requests/transfer-requests.service.ts.  The two services keep tables of the same
  shape and share most of their code line by line; what is the same is defined once, over the
  table, and each service's operation is its instance.  Amounts are columns and the arithmetic of
  an acceptance is exact (Prisma.Decimal); only the fee is computed in doubles.  The references of
  requests are left out.
\<close>

section \<open>Tables\<close>

datatype request_status = RPending | RAccepted | RRejected | RExpired | RCompleted | RCancelled

record money_request =
  rq_id :: nat
  rq_requester :: nat
  rq_requester_wallet :: nat
  rq_payer :: nat
  rq_payer_wallet :: nat
  rq_amount :: int
  rq_status :: request_status
  rq_txn :: "nat option"
  rq_expires :: int
  rq_created :: int

record request_db = core +
  payment_requests :: "money_request list"
  transfer_requests :: "money_request list"

type_synonym 's request_table = "('s \<Rightarrow> money_request list) \<times> ((money_request list \<Rightarrow> money_request list) \<Rightarrow> 's \<Rightarrow> 's)"

abbreviation payment_table :: "'a request_db_scheme request_table" where
  "payment_table \<equiv> (payment_requests, payment_requests_update)"

abbreviation transfer_table :: "'a request_db_scheme request_table" where
  "transfer_table \<equiv> (transfer_requests, transfer_requests_update)"

definition request_update :: "'s request_table \<Rightarrow> nat \<Rightarrow> (money_request \<Rightarrow> money_request) \<Rightarrow> ('s, unit) op" where
  "request_update T i f = modify (snd T (upd_row rq_id i f))"

section \<open>Asking for money\<close>

record request_dto =
  rd_payer :: string
  rd_amount :: rat

definition MAX_SINGLE_REQUEST :: rat where "MAX_SINGLE_REQUEST = 100000"
definition REQUEST_LIFETIME :: int where "REQUEST_LIFETIME = 5 * 60 * 1000"

text \<open>The payer's user and wallet: by name or phone with an active wallet, else the owner of an address.\<close>

definition request_payer :: "string \<Rightarrow> string \<Rightarrow> ('a core_scheme, nat \<times> nat) op" where
  "request_payer missing ident = bnd (gets (\<lambda>s. find (\<lambda>u. (u_username u = ident \<or> u_phone u = ident)
        \<and> \<not> u_deleted u \<and> u_active u) (users s))) (\<lambda>user.
     bnd (gets (\<lambda>s. Option.bind user (\<lambda>u. active_wallet s (u_id u)))) (\<lambda>w. case w of
       Some w \<Rightarrow> ret (u_id (the user), w_id w)
     | None \<Rightarrow> bnd (gets (\<lambda>s. find (\<lambda>w. w_address w = ident) (wallets s))) (\<lambda>by_address.
         case by_address of
           None \<Rightarrow> throw (NotFound missing)
         | Some w \<Rightarrow> (case w_user w of None \<Rightarrow> throw (NotFound missing) | Some u \<Rightarrow> ret (u, w_id w)))))"

definition request_tx :: "'a core_scheme request_table \<Rightarrow> string \<Rightarrow> nat \<Rightarrow> request_dto \<Rightarrow> ('a core_scheme, money_request) op" where
  "request_tx T missing u dto = transaction
     (bnd (gets (\<lambda>s. active_wallet s u)) (\<lambda>w. case w of
       None \<Rightarrow> throw (NotFound ''Requester wallet not found'')
     | Some w \<Rightarrow> bnd (request_payer missing (rd_payer dto)) (\<lambda>(payer, wallet).
         if w_id w = wallet then throw (BadRequest ''Cannot request from yourself'')
         else if u = payer then throw (BadRequest ''Cannot request from yourself'')
         else bnd fresh (\<lambda>i. bnd (gets now) (\<lambda>t.
           let q = \<lparr>rq_id = i, rq_requester = u, rq_requester_wallet = w_id w, rq_payer = payer, rq_payer_wallet = wallet,
                    rq_amount = to_units (rd_amount dto), rq_status = RPending, rq_txn = None,
                    rq_expires = t + REQUEST_LIFETIME, rq_created = t\<rparr>
           in thn (insert_row (snd T) q) (ret q))))))"

definition createRequest :: "nat \<Rightarrow> request_dto \<Rightarrow> ('a request_db_scheme, money_request) op" where
  "createRequest u dto =
     (if rd_amount dto \<le> 0 then throw (BadRequest ''Amount must be greater than zero'')
      else if rd_amount dto > MAX_SINGLE_REQUEST then throw (BadRequest ''Single request limit is 100000 FARM'')
      else bnd (request_tx payment_table ''Recipient not found'' u dto) (\<lambda>q.
        thn (emit (Notification (rq_payer q) ''payment_request'' (Some (rq_id q)))) (ret q)))"

definition requestFunds :: "nat \<Rightarrow> request_dto \<Rightarrow> ('a request_db_scheme, money_request) op" where
  "requestFunds u dto =
     (if rd_amount dto \<le> 0 then throw (BadRequest ''Amount must be greater than zero'')
      else if rd_amount dto > MAX_SINGLE_REQUEST then throw (BadRequest ''Single request limit is 100000 FARM'')
      else bnd (request_tx transfer_table ''Sender not found'' u dto) (\<lambda>q.
        thn (emit (Notification (rq_payer q) ''transfer_request'' (Some (rq_id q)))) (ret q)))"

section \<open>Expiry\<close>

definition expired_now :: "int \<Rightarrow> money_request \<Rightarrow> bool" where
  "expired_now t q \<longleftrightarrow> rq_status q = RPending \<and> rq_expires q \<le> t"

definition expire_each :: "'a core_scheme request_table \<Rightarrow> string \<Rightarrow> money_request \<Rightarrow> ('a core_scheme, unit) op" where
  "expire_each T kind q = thn (request_update T (rq_id q) (\<lambda>q. q\<lparr>rq_status := RExpired\<rparr>))
     (thn (emit (Notification (rq_requester q) kind (Some (rq_id q))))
          (emit (Notification (rq_payer q) kind (Some (rq_id q)))))"

definition processExpiredPaymentRequests :: "('a request_db_scheme, nat) op" where
  "processExpiredPaymentRequests = bnd (gets (\<lambda>s. take 500 (filter (expired_now (now s)) (payment_requests s)))) (\<lambda>qs.
     thn (each (expire_each payment_table ''payment_request_expired'') qs) (ret (length qs)))"

definition processExpiredTransferRequests :: "('a request_db_scheme, nat) op" where
  "processExpiredTransferRequests = bnd (gets (\<lambda>s. filter (expired_now (now s)) (transfer_requests s))) (\<lambda>qs.
     thn (each (expire_each transfer_table ''transfer_request_expired'') qs) (ret (length qs)))"

section \<open>Lists\<close>

definition pending_requests ::
  "'a core_scheme request_table \<Rightarrow> nat \<Rightarrow> int option \<Rightarrow> int option \<Rightarrow> ('a core_scheme, money_request list \<times> nat) op" where
  "pending_requests T u page limit = bnd (gets now) (\<lambda>t.
     bnd (update_many (fst T) (snd T) (\<lambda>q. rq_payer q = u \<and> expired_now t q) (\<lambda>q. q\<lparr>rq_status := RExpired\<rparr>)) (\<lambda>_.
     bnd (gets (\<lambda>s. filter (\<lambda>q. rq_payer q = u \<and> rq_status q = RPending \<and> rq_expires q > t) (fst T s))) (\<lambda>rows.
     ret (page_of (paginationParams page limit) (sort_key (\<lambda>q. - rq_created q) rows), length rows))))"

definition request_details :: "'a core_scheme request_table \<Rightarrow> string \<Rightarrow> nat \<Rightarrow> nat \<Rightarrow> ('a core_scheme, money_request) op" where
  "request_details T missing u i = bnd (gets (\<lambda>s. find_row rq_id i (fst T s))) (\<lambda>q. case q of
     None \<Rightarrow> throw (NotFound missing)
   | Some q \<Rightarrow> if rq_payer q \<noteq> u \<and> rq_requester q \<noteq> u then throw (Forbidden ''Unauthorized to view this request'') else ret q)"

definition request_history ::
  "'a core_scheme request_table \<Rightarrow> nat \<Rightarrow> int option \<Rightarrow> int option \<Rightarrow> ('a core_scheme, money_request list \<times> nat) op" where
  "request_history T u page limit = gets (\<lambda>s.
     let rows = filter (\<lambda>q. rq_requester q = u \<or> rq_payer q = u) (fst T s) in
     (page_of (paginationParams page limit) (sort_key (\<lambda>q. - rq_created q) rows), length rows))"

definition getPendingPaymentRequests :: "nat \<Rightarrow> int option \<Rightarrow> int option \<Rightarrow> ('a request_db_scheme, money_request list \<times> nat) op" where
  "getPendingPaymentRequests = pending_requests payment_table"

definition getPendingTransferRequests :: "nat \<Rightarrow> int option \<Rightarrow> int option \<Rightarrow> ('a request_db_scheme, money_request list \<times> nat) op" where
  "getPendingTransferRequests = pending_requests transfer_table"

definition getPaymentRequestDetails :: "nat \<Rightarrow> nat \<Rightarrow> ('a request_db_scheme, money_request) op" where
  "getPaymentRequestDetails = request_details payment_table ''Payment request not found''"

definition getTransferRequestDetails :: "nat \<Rightarrow> nat \<Rightarrow> ('a request_db_scheme, money_request) op" where
  "getTransferRequestDetails = request_details transfer_table ''Transfer request not found''"

definition getMyPaymentRequests :: "nat \<Rightarrow> int option \<Rightarrow> int option \<Rightarrow> ('a request_db_scheme, money_request list \<times> nat) op" where
  "getMyPaymentRequests = request_history payment_table"

definition getMyTransferRequests :: "nat \<Rightarrow> int option \<Rightarrow> int option \<Rightarrow> ('a request_db_scheme, money_request list \<times> nat) op" where
  "getMyTransferRequests = request_history transfer_table"

section \<open>Refusing and withdrawing\<close>

text \<open>The row, when it is pending and \<open>who\<close> is the user.\<close>

definition pending_row ::
  "'a core_scheme request_table \<Rightarrow> string \<Rightarrow> (money_request \<Rightarrow> nat) \<Rightarrow> nat \<Rightarrow> nat \<Rightarrow> ('a core_scheme, money_request) op" where
  "pending_row T missing who u i = bnd (gets (\<lambda>s. find_row rq_id i (fst T s))) (\<lambda>q. case q of
     None \<Rightarrow> throw (NotFound missing)
   | Some q \<Rightarrow>
     if who q \<noteq> u then throw (Forbidden ''You are not authorized for this request'')
     else if rq_status q \<noteq> RPending then throw (BadRequest ''Request status is not pending'')
     else ret q)"

definition rejectPaymentRequest :: "nat \<Rightarrow> nat \<Rightarrow> ('a request_db_scheme, unit) op" where
  "rejectPaymentRequest u i = bnd (pending_row payment_table ''Payment request not found'' rq_payer u i) (\<lambda>q.
     thn (request_update payment_table i (\<lambda>q. q\<lparr>rq_status := RRejected\<rparr>))
         (emit (Notification (rq_requester q) ''request_declined'' (Some i))))"

definition rejectTransferRequest :: "nat \<Rightarrow> nat \<Rightarrow> ('a request_db_scheme, unit) op" where
  "rejectTransferRequest u i = bnd (pending_row transfer_table ''Transfer request not found'' rq_payer u i) (\<lambda>q.
     thn (request_update transfer_table i (\<lambda>q. q\<lparr>rq_status := RRejected\<rparr>))
         (emit (Notification (rq_requester q) ''request_declined'' (Some i))))"

definition cancelPaymentRequest :: "nat \<Rightarrow> nat \<Rightarrow> ('a request_db_scheme, unit) op" where
  "cancelPaymentRequest u i = bnd (pending_row payment_table ''Payment request not found'' rq_requester u i) (\<lambda>q.
     thn (request_update payment_table i (\<lambda>q. q\<lparr>rq_status := RCancelled\<rparr>))
         (emit (Notification (rq_requester q) ''request_declined'' (Some i))))"

definition cancelTransferRequest :: "nat \<Rightarrow> nat \<Rightarrow> ('a request_db_scheme, unit) op" where
  "cancelTransferRequest u i = bnd (pending_row transfer_table ''Transfer request not found'' rq_requester u i) (\<lambda>_.
     request_update transfer_table i (\<lambda>q. q\<lparr>rq_status := RCancelled\<rparr>))"

section \<open>Paying\<close>

text \<open>Exact decimals: \<open>x\<close> is in units, the column keeps whole ones.\<close>

definition take_exact :: "rat \<Rightarrow> wallet \<Rightarrow> wallet" where
  "take_exact x w = w\<lparr>w_balance := rhaz (of_int (w_balance w) - x)\<rparr>"

definition add_exact :: "int \<Rightarrow> wallet \<Rightarrow> wallet" where
  "add_exact n w = w\<lparr>w_balance := w_balance w + n\<rparr>"

definition request_txn :: "money_request \<Rightarrow> rat \<Rightarrow> nat \<Rightarrow> int \<Rightarrow> txn" where
  "request_txn q charge i t =
     \<lparr>t_id = i, t_ref = i, t_sender = Some (rq_payer_wallet q), t_receiver = Some (rq_requester_wallet q), t_type = Transfer,
      t_status = Processing, t_amount = rq_amount q, t_fee = to_units charge, t_net = rhaz (of_int (rq_amount q) - sql charge),
      t_created = t, t_meta = [MRequest (rq_id q)]\<rparr>"

record payment_result =
  pr_reference :: nat
  pr_payer_balance :: rat
  pr_requester_balance :: rat
  pr_requester :: nat

text \<open>The writes of a payment, once the payer is known to afford it.\<close>

definition pay_writes ::
  "'a core_scheme request_table \<Rightarrow> money_request \<Rightarrow> rat \<Rightarrow> wallet \<Rightarrow> wallet \<Rightarrow> ('a core_scheme, payment_result) op" where
  "pay_writes T q charge pw rw =
     (let out = of_int (rq_amount q) + sql charge in
      bnd (txn_create (request_txn q charge)) (\<lambda>tx.
      bnd (wallet_update (w_id pw) (take_exact out)) (\<lambda>payer.
      bnd (wallet_update (w_id rw) (add_exact (rq_amount q))) (\<lambda>requester.
      thn (ledger_create \<lparr>l_txn = Some (t_id tx), l_wallet = w_id pw, l_type = Debit, l_amount = rhaz out,
             l_before = Some (w_balance pw), l_after = Some (rhaz (of_int (w_balance pw) - out)), l_category = None\<rparr>)
      (thn (ledger_create \<lparr>l_txn = Some (t_id tx), l_wallet = w_id rw, l_type = Credit, l_amount = rq_amount q,
             l_before = Some (w_balance rw), l_after = Some (w_balance rw + rq_amount q), l_category = None\<rparr>)
      (thn (txn_complete (t_id tx))
      (thn (request_update T (rq_id q) (\<lambda>q. q\<lparr>rq_status := RCompleted, rq_txn := Some (t_id tx)\<rparr>))
      (ret \<lparr>pr_reference = t_ref tx, pr_payer_balance = num (w_balance payer), pr_requester_balance = num (w_balance requester),
            pr_requester = rq_requester q\<rparr>))))))))"

definition pay_request ::
  "'a core_scheme request_table \<Rightarrow> string \<Rightarrow> money_request \<Rightarrow> ('a core_scheme, payment_result) op" where
  "pay_request T missing q = bnd (gets (\<lambda>s. (wallet_by_id s (rq_payer_wallet q), wallet_by_id s (rq_requester_wallet q)))) (\<lambda>(pw, rw).
     case pw of
       None \<Rightarrow> throw (NotFound missing)
     | Some pw \<Rightarrow>
       if w_frozen pw then throw (Forbidden ''Your wallet is frozen. Contact support.'')
       else bnd (ruleFor TransferFee) (\<lambda>rule.
         let charge = computeFee rule (num (rq_amount q)) 8 in
         if of_int (w_balance pw - w_locked pw) < of_int (rq_amount q) + sql charge then throw (BadRequest ''Insufficient balance'')
         else (case rw of
             None \<Rightarrow> throw (Failure ''Cannot read properties of null'')
           | Some rw \<Rightarrow> pay_writes T q charge pw rw)))"

text \<open>The update to \<open>expired\<close> is in the transaction that the next line aborts.\<close>

definition accept_tx ::
  "'a core_scheme request_table \<Rightarrow> string \<Rightarrow> string \<Rightarrow> nat \<Rightarrow> nat \<Rightarrow> ('a core_scheme, payment_result) op" where
  "accept_tx T missing no_wallet u i = transaction
     (bnd (pending_row T missing rq_payer u i) (\<lambda>q. bnd (gets now) (\<lambda>t.
      if rq_expires q < t
      then thn (request_update T i (\<lambda>q. q\<lparr>rq_status := RExpired\<rparr>)) (throw (BadRequest ''This request has expired''))
      else pay_request T no_wallet q)))"

definition paid_updates :: "nat \<Rightarrow> payment_result \<Rightarrow> ('a core_scheme, unit) op" where
  "paid_updates u r = thn (emit (BalanceUpdate u (pr_payer_balance r)))
     (thn (emit (TransactionUpdate u (pr_reference r)))
     (thn (emit (BalanceUpdate (pr_requester r) (pr_requester_balance r)))
     (thn (emit (TransactionUpdate (pr_requester r) (pr_reference r)))
     (thn (emit (Notification u ''transfer_sent'' (Some (pr_reference r))))
          (emit (Notification (pr_requester r) ''transfer_received'' (Some (pr_reference r))))))))"

definition acceptPaymentRequest :: "ext \<Rightarrow> nat \<Rightarrow> nat \<Rightarrow> string \<Rightarrow> ('a request_db_scheme, payment_result) op" where
  "acceptPaymentRequest X u i pin = thn (verifyPin X u pin)
     (bnd (accept_tx payment_table ''Payment request not found'' ''Payer wallet not found'' u i) (\<lambda>r.
      thn (paid_updates u r) (thn (emit (Notification (pr_requester r) ''request_completed'' (Some i))) (ret r))))"

record accept_dto =
  ac_pin :: "string option"
  ac_biometric :: bool
  ac_fingerprint :: "string option"
  ac_fingerprint_alias :: "string option"

definition accept_authorize :: "ext \<Rightarrow> nat \<Rightarrow> accept_dto \<Rightarrow> ('a core_scheme, unit) op" where
  "accept_authorize X u dto =
     (if ac_biometric dto then
        let fingerprint = or_string (ac_fingerprint dto) (ac_fingerprint_alias dto) in
        if \<not> truthy fingerprint
        then throw (BadRequest ''Device fingerprint required for biometric authorization'')
        else bnd (verifyDevice X u (the fingerprint)) (\<lambda>v.
          if \<not> ds_trusted v then throw (BadRequest ''Biometric device verification failed'') else ret ())
      else if \<not> truthy (ac_pin dto) then throw (BadRequest ''Transaction PIN is required'')
      else verifyPin X u (the (ac_pin dto)))"

definition acceptTransferRequest :: "ext \<Rightarrow> nat \<Rightarrow> nat \<Rightarrow> accept_dto \<Rightarrow> ('a request_db_scheme, payment_result) op" where
  "acceptTransferRequest X u i dto = thn (accept_authorize X u dto)
     (bnd (accept_tx transfer_table ''Transfer request not found'' ''Sender wallet not found'' u i) (\<lambda>r.
      thn (paid_updates u r) (ret r)))"

end
