(* ===== verification/Request_Safety.thy ===== *)
theory Request_Safety
  imports Requests
begin

text \<open>
  What requests for money keep: a request is paid once and only while it is pending, a closed
  request never changes, every row is between two different users and wallets within the limit,
  no wallet is overdrawn, and the wallets lose exactly the fees that payments of requests charge.
\<close>

section \<open>The contract\<close>

definition request_rows :: "'a request_db_scheme \<Rightarrow> money_request list" where
  "request_rows s = payment_requests s @ transfer_requests s"

text \<open>Payments of requests: the completed transactions that name one.\<close>

definition pays :: "nat \<Rightarrow> txn \<Rightarrow> bool" where
  "pays i t \<longleftrightarrow> MRequest i \<in> set (t_meta t) \<and> t_status t = Completed"

definition request_fees :: "txn list \<Rightarrow> int" where
  "request_fees ts = sum_list (map t_fee (filter (\<lambda>t. \<exists>m\<in>set (t_meta t). case m of MRequest _ \<Rightarrow> t_status t = Completed | _ \<Rightarrow> False) ts))"

text \<open>Every row is between two users and two wallets, and its amount is within the limit.\<close>

definition request_ok :: "money_request \<Rightarrow> bool" where
  "request_ok q \<longleftrightarrow> rq_requester q \<noteq> rq_payer q \<and> rq_requester_wallet q \<noteq> rq_payer_wallet q
     \<and> 0 \<le> rq_amount q \<and> rq_amount q \<le> 10 ^ 13 \<and> (rq_txn q \<noteq> None \<longleftrightarrow> rq_status q = RCompleted)"

definition paid_once :: "txn list \<Rightarrow> money_request \<Rightarrow> bool" where
  "paid_once ts q \<longleftrightarrow> length (filter (pays (rq_id q)) ts) = (if rq_status q = RCompleted then 1 else 0)"

definition request_numbers :: "nat \<Rightarrow> money_request list \<Rightarrow> txn list \<Rightarrow> bool" where
  "request_numbers n qs ts \<longleftrightarrow> distinct (map rq_id qs) \<and> list_all (\<lambda>q. rq_id q < n) qs
     \<and> list_all (\<lambda>t. t_id t < n \<and> (\<forall>i. MRequest i \<in> set (t_meta t) \<longrightarrow> i < n)) ts"

definition request_inv :: "'a request_db_scheme \<Rightarrow> bool" where
  "request_inv s \<longleftrightarrow> wallet_keys s \<and> solvent s \<and> rules_ok percent_only {TransferFee} s
     \<and> request_numbers (seq s) (request_rows s) (txns s)
     \<and> list_all (\<lambda>q. request_ok q \<and> paid_once (txns s) q) (request_rows s)"

definition request_moves :: "money_request \<Rightarrow> money_request \<Rightarrow> bool" where
  "request_moves q r \<longleftrightarrow> r = q\<lparr>rq_status := rq_status r, rq_txn := rq_txn r\<rparr> \<and> (rq_status q \<noteq> RPending \<longrightarrow> r = q)"

definition request_rel :: "'a request_db_scheme \<Rightarrow> 'a request_db_scheme \<Rightarrow> bool" where
  "request_rel s t \<longleftrightarrow> request_inv t \<and> total s - total t = request_fees (txns t) - request_fees (txns s)
     \<and> (\<forall>q\<in>set (request_rows s). \<exists>r\<in>set (request_rows t). request_moves q r)"

lemma request_moves_refl: "request_moves q q"
  by (simp add: request_moves_def)

lemma request_moves_trans: "request_moves p q \<Longrightarrow> request_moves q r \<Longrightarrow> request_moves p r"
  unfolding request_moves_def by (cases p, cases q, cases r) auto

interpretation req: step_contract request_inv request_rel
proof
  fix s t u :: "'a request_db_scheme"
  show "request_inv s \<Longrightarrow> request_rel s s" by (auto simp: request_rel_def intro: request_moves_refl)
  show "request_rel s u" if "request_rel s t" "request_rel t u"
  proof -
    have "\<exists>r\<in>set (request_rows u). request_moves q r" if q: "q \<in> set (request_rows s)" for q
      using \<open>request_rel s t\<close> \<open>request_rel t u\<close> q unfolding request_rel_def by (meson request_moves_trans)
    then show ?thesis using that by (simp add: request_rel_def)
  qed
  show "request_inv s \<Longrightarrow> request_rel s t \<Longrightarrow> request_inv t" by (simp add: request_rel_def)
qed

section \<open>Steps without money\<close>

lemma request_invD:
  assumes "request_inv s"
  shows "wallet_keys s" "solvent s" "rules_ok percent_only {TransferFee} s" "request_numbers (seq s) (request_rows s) (txns s)"
    "q \<in> set (request_rows s) \<Longrightarrow> request_ok q" "q \<in> set (request_rows s) \<Longrightarrow> paid_once (txns s) q"
  using assms by (auto simp: request_inv_def list_all_iff)

lemma request_fees_rules: "request_inv s \<Longrightarrow> same_fees s t \<Longrightarrow> fee_cache t = fee_cache s \<Longrightarrow> rules_ok percent_only {TransferFee} t"
  by (rule rules_ok_cong[OF request_invD(3)])

lemma request_numbers_mono: "request_numbers m qs ts \<Longrightarrow> m \<le> n \<Longrightarrow> request_numbers n qs ts"
  unfolding request_numbers_def list_all_iff by (meson less_le_trans)

lemma request_same:
  assumes s: "request_inv s" and t: "wallets t = wallets s" "txns t = txns s" "seq s \<le> seq t" "rules_ok percent_only {TransferFee} t"
    and rows: "distinct (map rq_id (request_rows t))" "\<forall>q\<in>set (request_rows t). rq_id q < seq t \<and> request_ok q \<and> paid_once (txns s) q"
      "\<forall>q\<in>set (request_rows s). \<exists>r\<in>set (request_rows t). request_moves q r"
  shows "request_rel s t"
proof -
  have "request_numbers (seq t) (request_rows t) (txns t)"
    using request_numbers_mono[OF request_invD(4)[OF s] t(3)] rows by (auto simp: request_numbers_def t(2) list_all_iff)
  then have "request_inv t"
    using request_invD(1,2)[OF s] rows t wallet_keys_cong[OF t(1)] solvent_cong[OF t(1)] by (auto simp: request_inv_def list_all_iff)
  then show ?thesis using rows(3) total_cong[OF t(1)] by (simp add: request_rel_def t(2))
qed

lemma request_quiet:
  assumes s: "request_inv s" and t: "wallets t = wallets s" "txns t = txns s" "seq s \<le> seq t" "payment_requests t = payment_requests s"
    "transfer_requests t = transfer_requests s" "rules_ok percent_only {TransferFee} t"
  shows "request_rel s t"
proof -
  have rows: "request_rows t = request_rows s" by (simp add: request_rows_def t)
  show ?thesis
    by (rule request_same[OF s t(1-3,6)]) (use request_invD[OF s] t(3) in
      \<open>auto simp: rows request_numbers_def list_all_iff intro: request_moves_refl less_le_trans\<close>)
qed

lemma request_quiet_op: "quiet m \<Longrightarrow> safe_op request_inv request_rel m"
proof (rule req.safeI)
  fix s :: "'a request_db_scheme"
  assume m: "quiet m" and s: "request_inv s"
  have "request_rel s (s\<lparr>outbox := x, cache := c\<rparr>)" for x c
    by (rule request_quiet[OF s]) (simp_all add: request_fees_rules[OF s] same_fees_def)
  then show "wp m (\<lambda>_. request_rel s) (\<lambda>_. request_rel s) s" by (intro wp_quiet[OF m])
qed

lemma request_emit: "safe_op request_inv request_rel (emit e)"
  by (rule request_quiet_op) (rule quiet_emit)

text \<open>Closing pending rows of either table.\<close>

lemma upd_where_in: "q \<in> set rows \<Longrightarrow> (if P q then f q else q) \<in> set (upd_where P f rows)"
  by (auto simp: upd_where_def)

lemma close_rows:
  assumes s: "request_inv s" and st: "st \<notin> {RPending, RCompleted}"
    and t: "wallets t = wallets s" "txns t = txns s" "seq t = seq s" "same_fees s t" "fee_cache t = fee_cache s"
    and rows: "payment_requests t = upd_where P (\<lambda>q. q\<lparr>rq_status := st\<rparr>) (payment_requests s)"
      "transfer_requests t = upd_where P' (\<lambda>q. q\<lparr>rq_status := st\<rparr>) (transfer_requests s)"
    and P: "\<And>q. P q \<Longrightarrow> q \<in> set (request_rows s) \<Longrightarrow> rq_status q = RPending" "\<And>q. P' q \<Longrightarrow> q \<in> set (request_rows s) \<Longrightarrow> rq_status q = RPending"
  shows "request_rel s t"
proof (rule request_same[OF s t(1,2)])
  have rowed: "\<exists>p\<in>set (request_rows s). r = p \<or> rq_status p = RPending \<and> r = p\<lparr>rq_status := st\<rparr>" if "r \<in> set (request_rows t)" for r
    using that P by (fastforce simp: request_rows_def rows in_upd_where)
  show "\<forall>r\<in>set (request_rows t). rq_id r < seq t \<and> request_ok r \<and> paid_once (txns s) r"
  proof
    fix r assume "r \<in> set (request_rows t)"
    from rowed[OF this] obtain p where p: "p \<in> set (request_rows s)" "r = p \<or> rq_status p = RPending \<and> r = p\<lparr>rq_status := st\<rparr>" by blast
    have "rq_id p < seq s" using request_invD(4)[OF s] p(1) by (auto simp: request_numbers_def list_all_iff)
    then show "rq_id r < seq t \<and> request_ok r \<and> paid_once (txns s) r"
      using request_invD(5,6)[OF s p(1)] p(2) st by (auto simp: t(3) request_ok_def paid_once_def)
  qed
  show "\<forall>q\<in>set (request_rows s). \<exists>r\<in>set (request_rows t). request_moves q r"
  proof
    fix q assume q: "q \<in> set (request_rows s)"
    have "q \<in> set (request_rows t) \<or> rq_status q = RPending \<and> q\<lparr>rq_status := st\<rparr> \<in> set (request_rows t)"
    proof -
      let ?f = "\<lambda>q. q\<lparr>rq_status := st\<rparr>"
      have "(if P q then ?f q else q) \<in> set (request_rows t) \<or> (if P' q then ?f q else q) \<in> set (request_rows t)"
        using q upd_where_in[of q _ P ?f] upd_where_in[of q _ P' ?f] by (auto simp: request_rows_def rows)
      then show ?thesis using P[of q] q by (auto split: if_splits)
    qed
    then show "\<exists>r\<in>set (request_rows t). request_moves q r"
    proof (elim disjE conjE)
      assume "q \<in> set (request_rows t)"
      then show ?thesis using request_moves_refl by blast
    next
      assume "rq_status q = RPending" "q\<lparr>rq_status := st\<rparr> \<in> set (request_rows t)"
      moreover from this have "request_moves q (q\<lparr>rq_status := st\<rparr>)" by (simp add: request_moves_def)
      ultimately show ?thesis by blast
    qed
  qed
  show "distinct (map rq_id (request_rows t))"
    using request_invD(4)[OF s] by (simp add: request_numbers_def request_rows_def rows)
  show "rules_ok percent_only {TransferFee} t" by (rule request_fees_rules[OF s t(4,5)])
qed (simp add: t(3))

section \<open>The writes of a payment\<close>

lemma wallet_keyed: "keyed_update w_id (take_exact x)" "keyed_update w_id (add_exact n)"
  by unfold_locales (simp_all add: take_exact_def add_exact_def)

interpretation take_exact: keyed_update w_id "take_exact x"
  by (rule wallet_keyed)

interpretation add_exact: keyed_update w_id "add_exact n"
  by (rule wallet_keyed)

lemma solvent_upd:
  assumes "solvent s" "wallets t = upd_row w_id i f (wallets s)"
    and "\<And>w. w \<in> set (wallets s) \<Longrightarrow> w_id w = i \<Longrightarrow> 0 \<le> w_locked (f w) \<and> 0 \<le> available (f w)"
  shows "solvent t"
  using assms unfolding solvent_def by (auto intro: list_all_upd_row)

lemma wallets_paid:
  assumes s: "wallet_keys s" "solvent s" and w: "wallet_by_id s i = Some pw" "wallet_by_id s j = Some rw" "i \<noteq> j"
    and n: "0 \<le> n" "0 \<le> k" "w_locked pw + n + k \<le> w_balance pw"
    and t: "wallets t = upd_row w_id j (add_exact n) (upd_row w_id i (take_exact (of_int (n + k))) (wallets s))"
  shows "wallet_keys t" "solvent t" "total t = total s - k"
proof -
  let ?u = "s\<lparr>wallets := upd_row w_id i (take_exact (of_int (n + k))) (wallets s)\<rparr>"
  have row: "w = pw" if "w \<in> set (wallets s)" "w_id w = i" for w
    using w(1) s(1) that find_row_in[of w_id "wallets s" w] by (simp add: wallet_by_id_def wallet_keys_def)
  show keys: "wallet_keys t" using s(1) by (simp add: wallet_keys_def t take_exact.keys_upd add_exact.keys_upd)
  have keysu: "wallet_keys ?u" using s(1) by (simp add: wallet_keys_def take_exact.keys_upd)
  have taken: "w_balance (take_exact (of_int (n + k)) pw) = w_balance pw - (n + k)"
    by (cases pw) (simp only: take_exact_def wallet.simps of_int_diff[symmetric] rhaz_of_int)
  have lockp: "w_locked (take_exact (of_int (n + k)) pw) = w_locked pw" by (simp add: take_exact_def)
  have pos: "0 \<le> w_locked w \<and> 0 \<le> available w" if "w \<in> set (wallets s)" for w
    using s(2) that by (auto simp: solvent_def list_all_iff)
  have "pw \<in> set (wallets s)" using wallet_by_id_Some[OF w(1)] by simp
  then have u: "solvent ?u"
    by (intro solvent_upd[OF s(2), of ?u i "take_exact (of_int (n + k))"])
      (use row pos n(3) lockp taken in \<open>auto simp: available_def\<close>)
  show "solvent t"
  proof (rule solvent_upd[OF u])
    show "wallets t = upd_row w_id j (add_exact n) (wallets ?u)" by (simp add: t)
    show "0 \<le> w_locked (add_exact n w) \<and> 0 \<le> available (add_exact n w)" if "w \<in> set (wallets ?u)" for w
      using that u n(1) by (auto simp: solvent_def list_all_iff add_exact_def available_def)
  qed
  have "total ?u = total s - (n + k)" using total_upd[OF w(1) s(1), of "take_exact (of_int (n + k))"] taken by simp
  moreover have "wallet_by_id ?u j = Some rw" using w(2,3) by (simp add: wallet_by_id_def take_exact.find_upd)
  from total_upd[OF this keysu, of "add_exact n"] have "total t = total ?u + n" by (simp add: t total_def add_exact_def)
  ultimately show "total t = total s - k" by simp
qed

text \<open>The payment of a pending request of one table, as the state it leaves.\<close>

lemma length_filter_pays:
  assumes "request_numbers n qs ts" "n \<le> i" shows "filter (pays i) ts = []"
  using assms by (fastforce simp: request_numbers_def list_all_iff pays_def filter_empty_conv)

lemma payment_rel:
  assumes s: "request_inv s" and q: "q \<in> set (request_rows s)" "rq_status q = RPending"
    and w: "wallet_by_id s (rq_payer_wallet q) = Some pw" "wallet_by_id s (rq_requester_wallet q) = Some rw"
    and n: "n = rq_amount q" "0 \<le> k" "w_locked pw + n + k \<le> w_balance pw"
    and t: "wallets t = upd_row w_id (rq_requester_wallet q) (add_exact n) (upd_row w_id (rq_payer_wallet q) (take_exact (of_int (n + k))) (wallets s))"
      "txns t = txns s @ [x]" "seq t = Suc (seq s)" "same_fees s t" "rules_ok percent_only {TransferFee} t"
    and x: "t_id x = seq s" "t_status x = Completed" "t_meta x = [MRequest (rq_id q)]" "t_fee x = k"
    and rows: "payment_requests t = upd_where P (\<lambda>q. q\<lparr>rq_status := RCompleted, rq_txn := Some (seq s)\<rparr>) (payment_requests s)"
      "transfer_requests t = upd_where P' (\<lambda>q. q\<lparr>rq_status := RCompleted, rq_txn := Some (seq s)\<rparr>) (transfer_requests s)"
    and P: "\<And>p. P p \<Longrightarrow> rq_id p = rq_id q" "\<And>p. P' p \<Longrightarrow> rq_id p = rq_id q"
      "q \<in> set (payment_requests s) \<and> P q \<or> q \<in> set (transfer_requests s) \<and> P' q"
  shows "request_rel s t"
proof -
  let ?f = "\<lambda>q. q\<lparr>rq_status := RCompleted, rq_txn := Some (seq s)\<rparr>"
  note num = request_invD(4)[OF s, unfolded request_numbers_def]
  have one: "p = q" if "p \<in> set (request_rows s)" "rq_id p = rq_id q" for p
    using num q(1) that by (auto simp: distinct_map inj_on_def)
  have ok: "request_ok q" by (rule request_invD(5)[OF s q(1)])
  note paid = wallets_paid[OF request_invD(1,2)[OF s] w _ _ n(2,3) t(1)]
  have paid: "wallet_keys t" "solvent t" "total t = total s - k"
    using paid ok by (auto simp: request_ok_def n(1))
  have fees: "request_fees (txns t) = request_fees (txns s) + k"
    by (simp add: request_fees_def t(2) x)
  have split: "filter (pays i) (txns t) = filter (pays i) (txns s) @ (if i = rq_id q then [x] else [])" for i
    by (simp add: t(2) pays_def x)
  have rowed: "r = ?f q \<or> r \<in> set (request_rows s) \<and> rq_id r \<noteq> rq_id q" if r: "r \<in> set (request_rows t)" for r
  proof -
    obtain p where p: "p \<in> set (request_rows s)" "r = p \<and> (p \<in> set (payment_requests s) \<and> \<not> P p \<or> p \<in> set (transfer_requests s) \<and> \<not> P' p)
        \<or> r = ?f p \<and> (P p \<or> P' p)"
      using r by (auto simp: request_rows_def rows in_upd_where split: if_splits)
    show ?thesis
    proof (cases "rq_id p = rq_id q")
      case True
      then have "p = q" using one[OF p(1)] by simp
      moreover have "\<not> (q \<in> set (payment_requests s) \<and> q \<in> set (transfer_requests s))"
        using num by (auto simp: request_rows_def)
      ultimately show ?thesis using p(2) P(3) by blast
    next
      case False
      then show ?thesis using p P(1,2) by blast
    qed
  qed
  have "list_all (\<lambda>q. request_ok q \<and> paid_once (txns t) q) (request_rows t)"
    unfolding list_all_iff
  proof
    fix r assume "r \<in> set (request_rows t)"
    from rowed[OF this] show "request_ok r \<and> paid_once (txns t) r"
    proof
      assume r: "r = ?f q"
      then have "request_ok r" using ok by (simp add: request_ok_def)
      moreover have "paid_once (txns t) r"
        using request_invD(6)[OF s q(1)] q(2) split[of "rq_id q"] by (simp add: paid_once_def r)
      ultimately show ?thesis ..
    next
      assume r: "r \<in> set (request_rows s) \<and> rq_id r \<noteq> rq_id q"
      then have "paid_once (txns t) r" using request_invD(6)[OF s, of r] split[of "rq_id r"] by (simp add: paid_once_def)
      then show ?thesis using request_invD(5)[OF s, of r] r by simp
    qed
  qed
  moreover have "request_numbers (seq t) (request_rows t) (txns t)"
  proof -
    have "map rq_id (request_rows t) = map rq_id (request_rows s)" by (simp add: request_rows_def rows)
    moreover have "rq_id r < Suc (seq s)" if r: "r \<in> set (request_rows t)" for r
      using rowed[OF r] num q(1) by (auto simp: list_all_iff intro: less_SucI)
    ultimately show ?thesis using num q(1) by (auto simp: request_numbers_def list_all_iff t(2,3) x intro: less_SucI)
  qed
  ultimately have "request_inv t" using paid(1,2) t(5) by (simp add: request_inv_def)
  moreover have "\<exists>r\<in>set (request_rows t). request_moves p r" if p: "p \<in> set (request_rows s)" for p
  proof -
    have "(if P p then ?f p else p) \<in> set (request_rows t) \<or> (if P' p then ?f p else p) \<in> set (request_rows t)"
      using p upd_where_in[of p _ P ?f] upd_where_in[of p _ P' ?f] by (auto simp: request_rows_def rows)
    moreover have "request_moves p p" by (rule request_moves_refl)
    moreover have "request_moves p (?f p)" if "P p \<or> P' p"
    proof -
      have "p = q" using one[OF p] P(1,2) that by blast
      then show ?thesis using q(2) by (simp add: request_moves_def)
    qed
    ultimately show ?thesis by (metis (full_types))
  qed
  ultimately show ?thesis using paid(3) fees by (simp add: request_rel_def)
qed

end
