(* ===== verification/Request_Results.thy ===== *)
theory Request_Results
  imports Request_Safety
begin

text \<open>
  Every operation of the two request services keeps the contract of Request_Safety, so it holds
  over any sequence of requests for money, acceptances, refusals, scheduler runs and clock ticks.
\<close>

section \<open>Payments\<close>

definition request_tables :: "'a request_db_scheme request_table set" where
  "request_tables = {payment_table, transfer_table}"

lemma charge_units:
  assumes "percent_only r" "0 \<le> n" "n \<le> 10 ^ 13"
  obtains k where "computeFee r (num n) 8 = num k" "0 \<le> k" "k \<le> n" "sql (num k) = of_int k" "to_units (num k) = k"
proof
  let ?k = "fee_units r (num n) 8"
  show "computeFee r (num n) 8 = num ?k" by (rule computeFee_units) simp
  show k0: "0 \<le> ?k" by (simp add: fee_units_def)
  show kn: "?k \<le> n" using fee_units_le_amount[OF assms(1,2)] assms(3) by simp
  show "sql (num ?k) = of_int ?k" "to_units (num ?k) = ?k" using k0 kn assms(3) by (simp_all add: MAXU_def)
qed

lemma pay_writes_safe:
  assumes s: "request_inv s" and T: "T \<in> request_tables" "q \<in> set (fst T s)" "rq_status q = RPending"
    and w: "wallet_by_id s (rq_payer_wallet q) = Some pw" "wallet_by_id s (rq_requester_wallet q) = Some rw"
    and k: "0 \<le> k" "sql (num k) = of_int k" "to_units (num k) = k" "w_locked pw + rq_amount q + k \<le> w_balance pw"
  shows "wp (pay_writes T q (num k) pw rw) (\<lambda>_. request_rel s) (\<lambda>_ _. False) s"
proof -
  have rows: "q \<in> set (request_rows s)" using T(1,2) by (auto simp: request_tables_def request_rows_def)
  have ids: "w_id pw = rq_payer_wallet q" "w_id rw = rq_requester_wallet q" using w by (auto dest: wallet_by_id_Some)
  have ne: "rq_requester_wallet q \<noteq> rq_payer_wallet q" using request_invD(5)[OF s rows] by (simp add: request_ok_def)
  have "seq s \<notin> t_id ` set (txns s)" using request_invD(4)[OF s] by (auto simp: request_numbers_def list_all_iff)
  then have fresh_id: "upd_row t_id (seq s) f (txns s) = txns s" for f by (rule upd_row_absent)
  have rw': "wallet_by_id (s\<lparr>txns := ts, seq := n, wallets := upd_row w_id (rq_payer_wallet q) (take_exact x) (wallets s)\<rparr>) (rq_requester_wallet q) = Some rw" for ts n x
    using w(2) ne by (simp add: wallet_by_id_def take_exact.find_upd)
  let ?x = "(request_txn q (num k) (seq s) (now s))\<lparr>t_status := Completed\<rparr>"
  have rel: "request_rel s t" if "wallets t = upd_row w_id (rq_requester_wallet q) (add_exact (rq_amount q))
        (upd_row w_id (rq_payer_wallet q) (take_exact (of_int (rq_amount q + k))) (wallets s))"
      "txns t = txns s @ [?x]" "seq t = Suc (seq s)" "same_fees s t" "fee_cache t = fee_cache s"
      "payment_requests t = upd_where P (\<lambda>q. q\<lparr>rq_status := RCompleted, rq_txn := Some (seq s)\<rparr>) (payment_requests s)"
      "transfer_requests t = upd_where P' (\<lambda>q. q\<lparr>rq_status := RCompleted, rq_txn := Some (seq s)\<rparr>) (transfer_requests s)"
      "\<And>p. P p \<Longrightarrow> rq_id p = rq_id q" "\<And>p. P' p \<Longrightarrow> rq_id p = rq_id q"
      "q \<in> set (payment_requests s) \<and> P q \<or> q \<in> set (transfer_requests s) \<and> P' q" for t P P'
    by (rule payment_rel[OF s rows T(3) w refl k(1,4) that(1-4) request_fees_rules[OF s that(4,5)] _ _ _ _ that(6-10)])
      (simp_all add: request_txn_def k(3))
  have none: "upd_where (\<lambda>_. False) f rows = rows" for f :: "money_request \<Rightarrow> money_request" and rows
    by (simp add: upd_where_def)
  note eval = pay_writes_def Let_def wp_bnd wp_thn wp_txn_create wp_wallet_update wp_ledger_create wp_ret ids k(2)
        wallet_by_id_def take_exact.find_upd txn_complete_def request_update_def wp_modify fresh_id request_txn_def same_fees_def
        upd_row_where[of rq_id] none
  from T(1) consider "T = payment_table" | "T = transfer_table" by (auto simp: request_tables_def)
  then show ?thesis
  proof cases
    case 1
    then show ?thesis using T(2,3) w ne
      by (auto simp: eval intro!: rel[where P = "\<lambda>p. rq_id p = rq_id q" and P' = "\<lambda>_. False"])
  next
    case 2
    then show ?thesis using T(2,3) w ne
      by (auto simp: eval intro!: rel[where P = "\<lambda>_. False" and P' = "\<lambda>p. rq_id p = rq_id q"])
  qed
qed

lemma request_cache:
  "request_inv s \<Longrightarrow> rules_ok percent_only {TransferFee} (s\<lparr>fee_cache := c\<rparr>) \<Longrightarrow> request_rel s (s\<lparr>fee_cache := c\<rparr>)"
  by (rule request_quiet) simp_all

lemma request_rollback: "request_inv s \<Longrightarrow> request_inv t \<Longrightarrow> request_rel s (s\<lparr>fee_cache := fee_cache t\<rparr>)"
  by (rule request_cache) (simp_all add: rules_ok_cache[OF request_invD(3) request_invD(3)])

lemma pay_request_safe:
  assumes s: "request_inv s" and T: "T \<in> request_tables" "q \<in> set (fst T s)" "rq_status q = RPending"
  shows "wp (pay_request T missing q) (\<lambda>_. request_rel s) (\<lambda>_. request_inv) s"
proof -
  have rows: "q \<in> set (request_rows s)" using T(1,2) by (auto simp: request_tables_def request_rows_def)
  have amount: "0 \<le> rq_amount q" "rq_amount q \<le> 10 ^ 13" using request_invD(5)[OF s rows] by (simp_all add: request_ok_def)
  obtain k where k: "computeFee (rule_in s TransferFee) (num (rq_amount q)) 8 = num k" "0 \<le> k" "sql (num k) = of_int k" "to_units (num k) = k"
    using charge_units[OF rules_ok_rule[OF request_invD(3)[OF s]] amount] by blast
  let ?s = "s\<lparr>fee_cache := next_cache s\<rparr>"
  have rel: "request_rel s ?s"
    using preserves_wp[OF rules_ok_ruleFor request_invD(3)[OF s], of TransferFee]
    by (intro request_cache[OF s]) (simp add: wp_ruleFor)
  have inv: "request_inv ?s" by (rule req.rel_inv[OF s rel])
  have q: "q \<in> set (fst T ?s)" using T(1,2) by (auto simp: request_tables_def)
  have "wp (pay_writes T q (num k) pw rw) (\<lambda>_. request_rel s) (\<lambda>_. request_inv) ?s"
    if w: "wallet_by_id s (rq_payer_wallet q) = Some pw" "wallet_by_id s (rq_requester_wallet q) = Some rw"
      and b: "\<not> of_int (w_balance pw - w_locked pw) < of_int (rq_amount q) + sql (num k)" for pw rw
  proof -
    have "of_int (rq_amount q + k) \<le> (of_int (w_balance pw - w_locked pw) :: rat)" using b k(3) by simp
    then have "w_locked pw + rq_amount q + k \<le> w_balance pw" by (simp only: of_int_le_iff)
    then have "wp (pay_writes T q (num k) pw rw) (\<lambda>_. request_rel ?s) (\<lambda>_ _. False) ?s"
      using w by (intro pay_writes_safe[OF inv T(1) q T(3) _ _ k(2-4)]) (simp_all add: wallet_by_id_def)
    then show ?thesis by (rule wp_mono) (auto intro: req.rel_trans[OF rel])
  qed
  then show ?thesis
    by (auto simp: pay_request_def Let_def wp_bnd wp_gets wp_throw wp_ruleFor k(1) s inv split: option.split)
qed

lemma pending_row_wp:
  assumes Q: "\<And>q. q \<in> set (fst T s) \<Longrightarrow> rq_id q = i \<Longrightarrow> rq_status q = RPending \<Longrightarrow> Q q s" and E: "\<And>e. E e s"
  shows "wp (pending_row T missing who u i) Q E s"
  using E by (auto simp: pending_row_def wp_simps split: option.split dest!: find_row_Some intro!: Q)

lemma accept_tx_safe:
  assumes T: "T \<in> request_tables"
  shows "safe_op request_inv request_rel (accept_tx T missing no_wallet u i)"
proof (rule req.safeI)
  fix s :: "'a request_db_scheme"
  assume s: "request_inv s"
  show "wp (accept_tx T missing no_wallet u i) (\<lambda>_. request_rel s) (\<lambda>_. request_rel s) s"
    unfolding accept_tx_def wp_transaction wp_bnd[of "pending_row _ _ _ _ _"]
  proof (rule pending_row_wp, goal_cases)
    case (1 q)
    have expired: "wp (thn (request_update T i f) (throw e :: ('a request_db_scheme, payment_result) op)) (\<lambda>_. request_rel s) (\<lambda>e t. request_rel s (s\<lparr>fee_cache := fee_cache t\<rparr>)) s" for f e
      using T req.rel_refl[OF s] by (auto simp: request_tables_def request_update_def wp_thn wp_modify wp_throw)
    have "wp (pay_request T no_wallet q) (\<lambda>_. request_rel s) (\<lambda>e t. request_rel s (s\<lparr>fee_cache := fee_cache t\<rparr>)) s"
      by (rule wp_mono[OF pay_request_safe[OF s T 1(1,3)]]) (auto intro: request_rollback[OF s])
    with expired show ?case by (simp add: wp_bnd[of "gets now"] wp_gets)
  next
    case 2
    show ?case using req.rel_refl[OF s] by simp
  qed
qed

section \<open>The other requests\<close>

lemma table_ops:
  assumes "T \<in> request_tables" "request_inv s" "st \<notin> {RPending, RCompleted}"
    and "\<And>q. P q \<Longrightarrow> q \<in> set (fst T s) \<Longrightarrow> rq_status q = RPending"
  shows "request_rel s (snd T (upd_where P (\<lambda>q. q\<lparr>rq_status := st\<rparr>)) s)"
proof -
  have none: "upd_where (\<lambda>_. False) f rows = rows" for f :: "money_request \<Rightarrow> money_request" and rows
    by (simp add: upd_where_def)
  have both: "request_rel s t" if "wallets t = wallets s" "txns t = txns s" "seq t = seq s" "same_fees s t" "fee_cache t = fee_cache s"
      "payment_requests t = upd_where (\<lambda>q. Q q \<and> q \<in> set (payment_requests s)) (\<lambda>q. q\<lparr>rq_status := st\<rparr>) (payment_requests s)"
      "transfer_requests t = upd_where (\<lambda>q. Q' q \<and> q \<in> set (transfer_requests s)) (\<lambda>q. q\<lparr>rq_status := st\<rparr>) (transfer_requests s)"
      "\<And>q. Q q \<Longrightarrow> q \<in> set (payment_requests s) \<Longrightarrow> rq_status q = RPending"
      "\<And>q. Q' q \<Longrightarrow> q \<in> set (transfer_requests s) \<Longrightarrow> rq_status q = RPending" for t Q Q'
    by (rule close_rows[OF assms(2,3) that(1-7)]) (use that(8,9) in auto)
  have same: "upd_where (\<lambda>q. Q q \<and> q \<in> set rows) f rows = upd_where Q f rows" for Q f and rows :: "money_request list"
    by (simp add: upd_where_def)
  from assms(1) consider "T = payment_table" | "T = transfer_table" by (auto simp: request_tables_def)
  then show ?thesis
  proof cases
    case 1
    then show ?thesis using assms(4) by (intro both[of _ P "\<lambda>_. False"]) (simp_all add: same none same_fees_def)
  next
    case 2
    then show ?thesis using assms(4) by (intro both[of _ "\<lambda>_. False" P]) (simp_all add: same none same_fees_def)
  qed
qed

lemma close_one:
  assumes "T \<in> request_tables" "request_inv s" "st \<notin> {RPending, RCompleted}" "q \<in> set (fst T s)" "rq_status q = RPending"
  shows "request_rel s (snd T (upd_row rq_id (rq_id q) (\<lambda>q. q\<lparr>rq_status := st\<rparr>)) s)"
  unfolding upd_row_where
proof (rule table_ops[OF assms(1-3)])
  fix p assume "rq_id p = rq_id q" "p \<in> set (fst T s)"
  then have "p = q" using request_invD(4)[OF assms(2)] assms(1,4)
    by (auto simp: request_tables_def request_rows_def request_numbers_def distinct_map inj_on_def)
  then show "rq_status p = RPending" using assms(5) by simp
qed

lemma close_request:
  assumes T: "T \<in> request_tables" and st: "st \<notin> {RPending, RCompleted}" and m: "\<And>q. safe_op request_inv request_rel (m q)"
  shows "safe_op request_inv request_rel (bnd (pending_row T missing who u i) (\<lambda>q. thn (request_update T i (\<lambda>q. q\<lparr>rq_status := st\<rparr>)) (m q)))"
proof (rule req.safeI)
  fix s :: "'a request_db_scheme"
  assume s: "request_inv s"
  show "wp (bnd (pending_row T missing who u i) (\<lambda>q. thn (request_update T i (\<lambda>q. q\<lparr>rq_status := st\<rparr>)) (m q)))
      (\<lambda>_. request_rel s) (\<lambda>_. request_rel s) s"
    unfolding wp_bnd
  proof (rule pending_row_wp, goal_cases)
    case (1 q)
    have "request_rel s (snd T (upd_row rq_id i (\<lambda>q. q\<lparr>rq_status := st\<rparr>)) s)" using close_one[OF T s st 1(1,3)] 1(2) by simp
    then show ?case by (simp add: wp_thn request_update_def wp_modify req.safe_from[OF m s])
  qed (rule req.rel_refl[OF s])
qed

text \<open>The scheduler closes the rows it found, which stay pending until it reaches them.\<close>

lemma expire_rows:
  assumes T: "T \<in> request_tables"
  shows "request_inv s \<Longrightarrow> set qs \<subseteq> set (fst T s) \<Longrightarrow> list_all (\<lambda>q. rq_status q = RPending) qs \<Longrightarrow> distinct (map rq_id qs)
    \<Longrightarrow> wp (each (expire_each T kind) qs) (\<lambda>_. request_rel s) (\<lambda>_. request_rel s) s"
proof (induction qs arbitrary: s)
  case Nil
  then show ?case by (simp add: wp_ret req.rel_refl)
next
  case (Cons q qs)
  let ?t = "snd T (upd_row rq_id (rq_id q) (\<lambda>q. q\<lparr>rq_status := RExpired\<rparr>)) s"
  let ?u = "?t\<lparr>outbox := outbox ?t @ [Notification (rq_requester q) kind (Some (rq_id q)), Notification (rq_payer q) kind (Some (rq_id q))]\<rparr>"
  have "request_rel s ?t" by (rule close_one[OF T Cons.prems(1)]) (use Cons.prems in simp_all)
  moreover from this have "request_inv ?t" by (rule req.rel_inv[OF Cons.prems(1)])
  then have "request_rel ?t ?u" by (intro request_quiet) (simp_all add: request_fees_rules same_fees_def)
  ultimately have rel: "request_rel s ?u" by (rule req.rel_trans)
  have inv: "request_inv ?u" by (rule req.rel_inv[OF Cons.prems(1) rel])
  have "p \<in> set (fst T ?u)" if p: "p \<in> set qs" for p
  proof -
    have "p \<in> set (fst T s)" "rq_id p \<noteq> rq_id q" using Cons.prems(2,4) p by (auto simp: image_iff)
    then have "p \<in> set (upd_row rq_id (rq_id q) (\<lambda>q. q\<lparr>rq_status := RExpired\<rparr>) (fst T s))"
      by (auto simp: upd_row_def image_iff)
    then show ?thesis using T by (auto simp: request_tables_def)
  qed
  then have "wp (each (expire_each T kind) qs) (\<lambda>_. request_rel ?u) (\<lambda>_. request_rel ?u) ?u"
    using Cons.prems(3,4) by (intro Cons.IH[OF inv]) auto
  then have "wp (each (expire_each T kind) qs) (\<lambda>_. request_rel s) (\<lambda>_. request_rel s) ?u"
    by (rule wp_mono) (auto intro: req.rel_trans[OF rel])
  then show ?case by (simp add: expire_each_def[of T kind q] request_update_def[of T "rq_id q"] wp_thn wp_modify wp_emit)
qed

lemma new_request:
  assumes s: "request_inv s" and q: "rq_id q = seq s" "request_ok q" "rq_status q = RPending"
    and t: "wallets t = wallets s" "txns t = txns s" "seq t = Suc (seq s)" "same_fees s t" "fee_cache t = fee_cache s"
    and rows: "payment_requests t = payment_requests s @ ps" "transfer_requests t = transfer_requests s @ ts" "ps @ ts = [q]"
  shows "request_rel s t"
proof (rule request_same[OF s t(1,2)])
  note num = request_invD(4)[OF s, unfolded request_numbers_def list_all_iff]
  have which: "ps = [q] \<and> ts = [] \<or> ps = [] \<and> ts = [q]" using rows(3) by (cases ps) auto
  then have set: "set (request_rows t) = insert q (set (request_rows s))" by (auto simp: request_rows_def rows)
  have "\<forall>x\<in>set (payment_requests s) \<union> set (transfer_requests s). rq_id x \<noteq> seq s"
  proof
    fix x assume "x \<in> set (payment_requests s) \<union> set (transfer_requests s)"
    then have "rq_id x < seq s" using num by (auto simp: request_rows_def)
    then show "rq_id x \<noteq> seq s" by simp
  qed
  then show "distinct (map rq_id (request_rows t))"
    using which num q(1) by (elim disjE) (auto simp: request_rows_def rows)
  have "paid_once (txns s) q" using length_filter_pays[OF request_invD(4)[OF s], of "seq s"] q by (simp add: paid_once_def)
  then show "\<forall>r\<in>set (request_rows t). rq_id r < seq t \<and> request_ok r \<and> paid_once (txns s) r"
    using num request_invD(5,6)[OF s] q by (auto simp: set t(3) intro: less_SucI)
  show "\<forall>r\<in>set (request_rows s). \<exists>r'\<in>set (request_rows t). request_moves r r'"
    using request_moves_refl by (auto simp: set)
  show "rules_ok percent_only {TransferFee} t" by (rule request_fees_rules[OF s t(4,5)])
qed (simp add: t(3))

lemma request_payer_wp:
  "(\<And>x. Q x s) \<Longrightarrow> (\<And>e. E e s) \<Longrightarrow> wp (request_payer missing ident) Q E s"
  by (auto simp: request_payer_def wp_simps split: option.split)

lemma request_tx_safe:
  assumes T: "T \<in> request_tables" and x: "0 < rd_amount dto" "rd_amount dto \<le> MAX_SINGLE_REQUEST"
  shows "safe_op request_inv request_rel (request_tx T missing u dto)"
proof (rule req.safeI)
  fix s :: "'a request_db_scheme"
  assume s: "request_inv s"
  have amount: "0 \<le> to_units (rd_amount dto)" "to_units (rd_amount dto) \<le> 10 ^ 13"
    using x to_units_nonneg[of "rd_amount dto"] to_units_le[of "rd_amount dto" 100000]
    by (simp_all add: MAX_SINGLE_REQUEST_def)
  have new: "request_rel s (snd T (\<lambda>rows. rows @ [q]) (s\<lparr>seq := Suc (seq s)\<rparr>))"
    if "request_ok q" "rq_status q = RPending" "rq_id q = seq s" for q
    using T by (auto simp: request_tables_def same_fees_def intro!: new_request[OF s that(3,1,2)])
  show "wp (request_tx T missing u dto) (\<lambda>_. request_rel s) (\<lambda>_. request_rel s) s"
  proof (cases "active_wallet s u")
    case None
    then show ?thesis using req.rel_refl[OF s] by (simp add: request_tx_def wp_transaction wp_bnd wp_gets wp_throw)
  next
    case (Some w)
    show ?thesis
      unfolding request_tx_def wp_transaction wp_bnd[of "gets (\<lambda>s. active_wallet s u)"] wp_gets Some option.case wp_bnd[of "request_payer _ _"]
    proof (rule request_payer_wp, goal_cases)
      case (1 x)
      show ?case using amount req.rel_refl[OF s]
        by (cases x) (auto simp: wp_bnd wp_gets wp_throw wp_fresh wp_thn wp_insert_row wp_ret Let_def request_ok_def intro!: new)
    next
      case 2
      show ?case using req.rel_refl[OF s] by simp
    qed
  qed
qed

lemma request_users:
  "request_inv s \<Longrightarrow> request_rel s (s\<lparr>users := us, biometrics := bs\<rparr>)"
  by (rule request_quiet) (simp_all add: request_fees_rules same_fees_def)

lemma verifyPin_safe: "safe_op request_inv request_rel (verifyPin X u pin)"
proof (rule req.safeI)
  fix s :: "'a request_db_scheme"
  assume s: "request_inv s"
  show "wp (verifyPin X u pin) (\<lambda>_. request_rel s) (\<lambda>_. request_rel s) s"
    using request_users[OF s, where bs = "biometrics s"] by (intro verifyPin_frame) simp_all
qed

lemma verifyDevice_safe: "safe_op request_inv request_rel (verifyDevice X u f)"
proof (rule req.safeI)
  fix s :: "'a request_db_scheme"
  assume s: "request_inv s"
  show "wp (verifyDevice X u f) (\<lambda>_. request_rel s) (\<lambda>_. request_rel s) s"
    using request_users[OF s, where us = "users s"] by (intro verifyDevice_frame) simp_all
qed

lemma paid_updates_quiet: "quiet (paid_updates u r)"
  unfolding paid_updates_def by (intro quiet_intros)

lemma pending_requests_safe:
  assumes T: "T \<in> request_tables" shows "safe_op request_inv request_rel (pending_requests T u page limit)"
proof (rule req.safeI)
  fix s :: "'a request_db_scheme"
  assume s: "request_inv s"
  have "request_rel s (snd T (upd_where (\<lambda>q. rq_payer q = u \<and> expired_now (now s) q) (\<lambda>q. q\<lparr>rq_status := RExpired\<rparr>)) s)"
    by (rule table_ops[OF T s]) (simp_all add: expired_now_def)
  then show "wp (pending_requests T u page limit) (\<lambda>_. request_rel s) (\<lambda>_. request_rel s) s"
    by (simp add: pending_requests_def wp_simps)
qed

lemma process_safe:
  assumes T: "T \<in> request_tables" and qs: "\<And>s. \<exists>n. qs s = take n (filter (expired_now (now s)) (fst T s))"
  shows "safe_op request_inv request_rel (bnd (gets qs) (\<lambda>qs. thn (each (expire_each T kind) qs) (ret (length qs))))"
proof (rule req.safeI)
  fix s :: "'a request_db_scheme"
  assume s: "request_inv s"
  obtain n where n: "qs s = take n (filter (expired_now (now s)) (fst T s))" using qs by blast
  have keys: "distinct (map rq_id (fst T s))"
    using request_invD(4)[OF s] T by (auto simp: request_numbers_def request_rows_def request_tables_def)
  have "wp (each (expire_each T kind) (qs s)) (\<lambda>_. request_rel s) (\<lambda>_. request_rel s) s"
  proof (rule expire_rows[OF T s])
    show "set (qs s) \<subseteq> set (fst T s)" "list_all (\<lambda>q. rq_status q = RPending) (qs s)"
      unfolding n by (auto simp: list_all_iff expired_now_def dest!: in_set_takeD)
    show "distinct (map rq_id (qs s))" unfolding n take_map[symmetric] by (rule distinct_take) (rule distinct_map_filter[OF keys])
  qed
  then show "wp (bnd (gets qs) (\<lambda>qs. thn (each (expire_each T kind) qs) (ret (length qs)))) (\<lambda>_. request_rel s) (\<lambda>_. request_rel s) s"
    by (simp add: wp_bnd wp_gets wp_thn wp_ret_eta)
qed

section \<open>Any sequence of requests\<close>

datatype request_call =
    AskPayment nat request_dto
  | AskTransfer nat request_dto
  | AcceptPayment nat nat string
  | AcceptTransfer nat nat accept_dto
  | RejectPayment nat nat
  | RejectTransfer nat nat
  | CancelPayment nat nat
  | CancelTransfer nat nat
  | ListPayments nat "int option" "int option"
  | ListTransfers nat "int option" "int option"
  | ExpirePayments
  | ExpireTransfers
  | TimePasses nat

fun request_exec :: "ext \<Rightarrow> request_call \<Rightarrow> 'a request_db_scheme \<Rightarrow> 'a request_db_scheme" where
  "request_exec X (AskPayment u dto) s = snd (createRequest u dto s)"
| "request_exec X (AskTransfer u dto) s = snd (requestFunds u dto s)"
| "request_exec X (AcceptPayment u i pin) s = snd (acceptPaymentRequest X u i pin s)"
| "request_exec X (AcceptTransfer u i dto) s = snd (acceptTransferRequest X u i dto s)"
| "request_exec X (RejectPayment u i) s = snd (rejectPaymentRequest u i s)"
| "request_exec X (RejectTransfer u i) s = snd (rejectTransferRequest u i s)"
| "request_exec X (CancelPayment u i) s = snd (cancelPaymentRequest u i s)"
| "request_exec X (CancelTransfer u i) s = snd (cancelTransferRequest u i s)"
| "request_exec X (ListPayments u page limit) s = snd (getPendingPaymentRequests u page limit s)"
| "request_exec X (ListTransfers u page limit) s = snd (getPendingTransferRequests u page limit s)"
| "request_exec X ExpirePayments s = snd (processExpiredPaymentRequests s)"
| "request_exec X ExpireTransfers s = snd (processExpiredTransferRequests s)"
| "request_exec X (TimePasses n) s = s\<lparr>now := now s + int n\<rparr>"

lemma tables [simp]: "payment_table \<in> request_tables" "transfer_table \<in> request_tables"
  by (simp_all add: request_tables_def)

lemma ask_safe: "safe_op request_inv request_rel (createRequest u dto)" "safe_op request_inv request_rel (requestFunds u dto)"
  unfolding createRequest_def requestFunds_def
  by (cases "rd_amount dto \<le> 0 \<or> MAX_SINGLE_REQUEST < rd_amount dto";
      auto intro!: req.safe_throw req.safe_bnd req.safe_thn request_tx_safe request_emit req.safe_ret)+

lemma accept_safe:
  "safe_op request_inv request_rel (acceptPaymentRequest X u i pin)" "safe_op request_inv request_rel (acceptTransferRequest X u i dto)"
  unfolding acceptPaymentRequest_def acceptTransferRequest_def accept_authorize_def Let_def
  by (intro req.safe_rules verifyPin_safe verifyDevice_safe accept_tx_safe tables request_emit request_quiet_op[OF paid_updates_quiet])+

lemma close_safe:
  "safe_op request_inv request_rel (rejectPaymentRequest u i)" "safe_op request_inv request_rel (rejectTransferRequest u i)"
  "safe_op request_inv request_rel (cancelPaymentRequest u i)"
  unfolding rejectPaymentRequest_def rejectTransferRequest_def cancelPaymentRequest_def
  by (intro close_request tables request_emit; simp)+

lemma thn_unit: "bnd m (\<lambda>q. thn (k q) (ret ())) = bnd m k"
  by (simp add: fun_eq_iff bnd_def thn_def ret_def split: prod.split sum.split)

lemma cancelTransfer_safe: "safe_op request_inv request_rel (cancelTransferRequest u i)"
proof -
  have "safe_op request_inv request_rel (bnd (pending_row transfer_table ''Transfer request not found'' rq_requester u i)
      (\<lambda>_. thn (request_update transfer_table i (\<lambda>q. q\<lparr>rq_status := RCancelled\<rparr>)) (ret ())))"
    by (rule close_request) (simp_all add: req.safe_ret)
  then show ?thesis by (simp only: cancelTransferRequest_def thn_unit)
qed

lemma list_safe:
  "safe_op request_inv request_rel (getPendingPaymentRequests u page limit)"
  "safe_op request_inv request_rel (getPendingTransferRequests u page limit)"
  unfolding getPendingPaymentRequests_def getPendingTransferRequests_def by (rule pending_requests_safe; simp)+

lemma expire_safe:
  "safe_op request_inv request_rel processExpiredPaymentRequests" "safe_op request_inv request_rel processExpiredTransferRequests"
  unfolding processExpiredPaymentRequests_def processExpiredTransferRequests_def
  by (rule process_safe; auto intro: exI[of _ 500]) (rule process_safe; simp; metis order_refl take_all)

interpretation req_run: step_run request_inv request_rel "request_exec X"
proof
  fix s :: "'a request_db_scheme" and c
  assume s: "request_inv s"
  have "request_rel s (s\<lparr>now := n\<rparr>)" for n
    by (rule request_quiet[OF s]) (simp_all add: request_fees_rules[OF s] same_fees_def)
  then show "request_rel s (request_exec X c s)"
    using s by (cases c) (simp_all add: req.safe_snd ask_safe accept_safe close_safe cancelTransfer_safe list_safe expire_safe)
qed

section \<open>Results\<close>

text \<open>C35: Over any sequence of requests for money, acceptances, refusals and scheduler runs
  the wallets lose exactly the fees that payments of requests charge, and no balance falls below
  what is locked.\<close>

theorem request_run:
  assumes "request_inv s" "t = fold (request_exec X) rs s"
  shows "total t + request_fees (txns t) = total s + request_fees (txns s) \<and> solvent t"
proof -
  have "request_rel s t" unfolding assms(2) by (rule req_run.run_rel[OF assms(1)])
  then show ?thesis using request_invD(2)[of t] by (auto simp: request_rel_def)
qed

text \<open>C36: Over any such sequence a request keeps its payer and amount, never changes once it
  is closed, and has one completed payment when it is completed and none otherwise.\<close>

theorem request_paid_once:
  assumes "request_inv s" "t = fold (request_exec X) rs s" "q \<in> set (request_rows s)"
  shows "\<exists>r\<in>set (request_rows t). rq_id r = rq_id q \<and> rq_amount r = rq_amount q \<and> rq_payer r = rq_payer q
    \<and> (rq_status q = RPending \<or> r = q)
    \<and> length (filter (pays (rq_id q)) (txns t)) = (if rq_status r = RCompleted then 1 else 0)"
proof -
  have rel: "request_rel s t" unfolding assms(2) by (rule req_run.run_rel[OF assms(1)])
  then obtain r where r: "r \<in> set (request_rows t)" "request_moves q r" using assms(3) unfolding request_rel_def by blast
  have m: "r = q\<lparr>rq_status := rq_status r, rq_txn := rq_txn r\<rparr>" "rq_status q \<noteq> RPending \<longrightarrow> r = q"
    using r(2) by (simp_all add: request_moves_def)
  have "rq_id r = rq_id q" "rq_amount r = rq_amount q" "rq_payer r = rq_payer q" by (subst m(1), simp)+
  moreover have "paid_once (txns t) r" using request_invD(6)[OF req.rel_inv[OF assms(1) rel] r(1)] .
  ultimately show ?thesis using r(1) m(2) by (auto simp: paid_once_def)
qed

text \<open>C37: In every state that such requests reach, each row is between two different users
  and wallets, asks for at most 100,000 FARM, and has a transaction just when it is
  completed.\<close>

theorem request_shape:
  assumes "request_inv s" "t = fold (request_exec X) rs s"
  shows "list_all request_ok (payment_requests t) \<and> list_all request_ok (transfer_requests t)"
proof -
  have "request_inv t" unfolding assms(2) by (rule req_run.run_keeps[OF assms(1)])
  then show ?thesis using request_invD(5)[of t] by (simp add: list_all_iff request_rows_def)
qed

section \<open>A sample\<close>

text \<open>Bob asks ada for 40, and once more, too late.\<close>

definition sample_request :: "nat \<Rightarrow> int \<Rightarrow> money_request" where
  "sample_request i t = \<lparr>rq_id = i, rq_requester = 2, rq_requester_wallet = 12, rq_payer = 1, rq_payer_wallet = 11, rq_amount = 4000000000,
     rq_status = RPending, rq_txn = None, rq_expires = t, rq_created = t - 300000\<rparr>"

definition sample_requests :: request_db where
  "sample_requests = core.extend sample (request_db.fields [sample_request 50 1000000100000] [sample_request 51 999999000000])"

lemma sample_requests_tables [simp]:
  "payment_requests sample_requests = [sample_request 50 1000000100000]" "transfer_requests sample_requests = [sample_request 51 999999000000]"
  "wallets sample_requests = wallets sample" "txns sample_requests = []" "seq sample_requests = 100" "now sample_requests = 1000000000000"
  by (simp_all add: sample_requests_def sample_def core.defs request_db.defs)

lemma sample_requests_inv: "request_inv sample_requests"
proof -
  have "loaded_rule sample_requests TransferFee = default_rule sample TransferFee" "default_rule sample_requests TransferFee = default_rule sample TransferFee"
    "fee_cache sample_requests = None"
    by (simp_all add: loaded_rule_def configured_def default_rule_def defaultPercent_def sample_requests_def sample_def core.defs request_db.defs)
  moreover have "percent_only (default_rule sample TransferFee)"
    by (simp add: percent_only_def default_rule_def defaultPercent_def sample_def)
  ultimately have "rules_ok percent_only {TransferFee} sample_requests" by (simp add: rules_ok_def)
  then show ?thesis
    by (simp add: request_inv_def wallet_keys_def solvent_def available_def sample_tables sample_wallet_def request_numbers_def request_rows_def
        request_ok_def paid_once_def sample_request_def)
qed

definition sample_calls :: "request_call list" where
  "sample_calls = [AcceptPayment 1 50 ''1234'', AcceptPayment 1 50 ''1234'', AcceptTransfer 1 51 \<lparr>ac_pin = Some ''1234'', ac_biometric = False, ac_fingerprint = None, ac_fingerprint_alias = None\<rparr>,
     RejectPayment 1 50, ExpireTransfers]"

theorem request_run_witness:
  "total (fold (request_exec sample_ext) sample_calls sample_requests) + request_fees (txns (fold (request_exec sample_ext) sample_calls sample_requests))
    = total sample"
  using request_run[OF sample_requests_inv refl, of sample_ext sample_calls] by (simp add: request_fees_def total_def)

theorem request_paid_once_witness:
  "\<exists>r\<in>set (request_rows (fold (request_exec sample_ext) sample_calls sample_requests)). rq_id r = 50
    \<and> length (filter (pays 50) (txns (fold (request_exec sample_ext) sample_calls sample_requests))) = (if rq_status r = RCompleted then 1 else 0)"
proof -
  have "sample_request 50 1000000100000 \<in> set (request_rows sample_requests)" by (simp add: request_rows_def)
  from request_paid_once[OF sample_requests_inv refl this, of sample_ext sample_calls] show ?thesis
    by (auto simp: sample_request_def)
qed

theorem request_shape_witness: "list_all request_ok (payment_requests (fold (request_exec sample_ext) sample_calls sample_requests))"
  using request_shape[OF sample_requests_inv refl, of sample_ext sample_calls] by simp

end
