(* ===== verification/Agents.thy ===== *)
theory Agents
  imports Business_Team
begin

text \<open>
  Payment intents of a business, their refunds, and the mandates under which an agent may ask a
  user to pay one: src/agent-payments/agent-payments.service.ts.  Amounts are rounded to cents
  (\<open>r2\<close>) before they are stored.  Payments go through \<open>sendFunds\<close>; an intent is claimed for the
  payment and given back when it fails.  Labels, descriptions and metadata are left out.
\<close>

section \<open>Tables\<close>

datatype intent_status = IRequires | IProcessing | ISucceeded | IPartlyRefunded | IRefunded | ICanceled | IExpired

record intent =
  pi_id :: nat
  pi_business :: nat
  pi_live :: bool
  pi_amount :: int
  pi_status :: intent_status
  pi_payer :: "nat option"
  pi_txn :: "nat option"
  pi_refunded :: int
  pi_key :: "string option"
  pi_expires :: int
  pi_created :: int

record refund_row =
  rf_id :: nat
  rf_intent :: nat
  rf_business :: nat
  rf_live :: bool
  rf_amount :: int
  rf_txn :: "nat option"
  rf_key :: "string option"
  rf_created :: int

datatype mandate_status = MActive | MRevoked | MExpired

record mandate =
  am_id :: nat
  am_user :: nat
  am_business :: nat
  am_per_tx :: int
  am_daily :: int
  am_monthly :: int
  am_status :: mandate_status
  am_expires :: int
  am_created :: int

datatype agent_status = APending | AProcessing | AConfirmed | ARejected | AExpired | ACanceled | AFailed

record agent_request =
  ar_id :: nat
  ar_mandate :: nat
  ar_user :: nat
  ar_business :: nat
  ar_intent :: nat
  ar_amount :: int
  ar_status :: agent_status
  ar_failure :: "string option"
  ar_txn :: "nat option"
  ar_key :: "string option"
  ar_expires :: int
  ar_created :: int

record business_payment =
  by_business :: nat
  by_source :: string
  by_source_id :: nat
  by_payer :: "nat option"
  by_amount :: int
  by_txn :: nat
  by_channel :: string

text \<open>The settings in the environment; a limit is \<open>None\<close> when the variable is not a finite number.\<close>

record agent_env =
  ae_enabled :: bool
  ae_max_per_tx :: "rat option"
  ae_max_monthly :: "rat option"
  ae_request_ttl :: "rat option"
  ae_intent_ttl :: "rat option"

record agent_db = business_db +
  intents :: "intent list"
  refunds :: "refund_row list"
  mandates :: "mandate list"
  agent_requests :: "agent_request list"
  business_payments :: "business_payment list"
  agent_settings :: agent_env

text \<open>\<open>update\<close> by id: the row it leaves, or an error when there is none.\<close>

definition intent_update :: "nat \<Rightarrow> (intent \<Rightarrow> intent) \<Rightarrow> ('a agent_db_scheme, intent) op" where
  "intent_update i f = bnd (gets (\<lambda>s. find_row pi_id i (intents s))) (\<lambda>r. case r of
     None \<Rightarrow> throw (Failure ''Record to update not found'')
   | Some r \<Rightarrow> thn (modify (intents_update (upd_row pi_id i f))) (ret (f r)))"

definition agent_request_update :: "nat \<Rightarrow> (agent_request \<Rightarrow> agent_request) \<Rightarrow> ('a agent_db_scheme, agent_request) op" where
  "agent_request_update i f = bnd (gets (\<lambda>s. find_row ar_id i (agent_requests s))) (\<lambda>r. case r of
     None \<Rightarrow> throw (Failure ''Record to update not found'')
   | Some r \<Rightarrow> thn (modify (agent_requests_update (upd_row ar_id i f))) (ret (f r)))"

definition intent_row :: "'a agent_db_scheme \<Rightarrow> nat \<Rightarrow> intent option" where
  "intent_row s i = find_row pi_id i (intents s)"

definition r2 :: "rat \<Rightarrow> rat" where
  "r2 n = fl (of_int (math_round (fl (n * 100))) / 100)"

section \<open>Settings\<close>

definition ensure_agents :: "('a agent_db_scheme, unit) op" where
  "ensure_agents = bnd (gets (\<lambda>s. ae_enabled (agent_settings s))) (\<lambda>on.
     if on then ret () else throw (Failure ''Agent payments are not enabled yet''))"

definition env_limit :: "rat option \<Rightarrow> rat \<Rightarrow> rat" where
  "env_limit v d = (case v of Some x \<Rightarrow> if x > 0 then x else d | None \<Rightarrow> d)"

definition max_per_tx :: "'a agent_db_scheme \<Rightarrow> rat" where
  "max_per_tx s = env_limit (ae_max_per_tx (agent_settings s)) 50000"

definition max_monthly :: "'a agent_db_scheme \<Rightarrow> rat" where
  "max_monthly s = env_limit (ae_max_monthly (agent_settings s)) 200000"

definition request_ttl_min :: "'a agent_db_scheme \<Rightarrow> rat" where
  "request_ttl_min s = min (env_limit (ae_request_ttl (agent_settings s)) 30) (24 * 60)"

definition intent_ttl_min :: "'a agent_db_scheme \<Rightarrow> rat" where
  "intent_ttl_min s = min (env_limit (ae_intent_ttl (agent_settings s)) 60) (7 * 24 * 60)"

text \<open>\<open>businessName\<close>: the business, which must exist.\<close>

definition known_business :: "nat \<Rightarrow> ('a agent_db_scheme, business) op" where
  "known_business i = bnd (gets (\<lambda>s. business_by_id s i)) (or_throw (NotFound ''Business not found''))"

section \<open>Payment intents\<close>

record biz_ctx =
  cx_business :: nat
  cx_owner :: nat
  cx_live :: bool

record intent_dto =
  id_amount :: rat
  id_minutes :: "rat option"

definition expireIntents :: "(intent \<Rightarrow> bool) \<Rightarrow> ('a agent_db_scheme, unit) op" where
  "expireIntents P = bnd (gets now) (\<lambda>t.
     bnd (update_many intents intents_update (\<lambda>i. P i \<and> pi_status i = IRequires \<and> pi_expires i \<le> t)
       (\<lambda>i. i\<lparr>pi_status := IExpired\<rparr>)) (\<lambda>_. ret ()))"

text \<open>The row with the idempotency key of an earlier call.\<close>

definition same_key :: "nat \<Rightarrow> string option \<Rightarrow> nat \<Rightarrow> string option \<Rightarrow> bool" where
  "same_key b k b' k' \<longleftrightarrow> truthy k \<and> b = b' \<and> k' = k"

definition intent_ttl :: "'a agent_db_scheme \<Rightarrow> intent_dto \<Rightarrow> int" where
  "intent_ttl s dto = min (max \<lfloor>case id_minutes dto of Some m \<Rightarrow> m | None \<Rightarrow> intent_ttl_min s\<rfloor> 5) (7 * 24 * 60)"

definition createIntent :: "biz_ctx \<Rightarrow> intent_dto \<Rightarrow> string option \<Rightarrow> ('a agent_db_scheme, intent) op" where
  "createIntent c dto idem = thn ensure_agents
     (let amount = r2 (id_amount dto) in
      if amount < 1 \<or> amount > 10 ^ 9 then throw (BadRequest ''amount must be between 1 and 1,000,000,000 FARM'')
      else bnd (gets (\<lambda>s. find (\<lambda>i. same_key (cx_business c) idem (pi_business i) (pi_key i)) (intents s))) (\<lambda>ex. case ex of
        Some i \<Rightarrow> if num (pi_amount i) \<noteq> amount
          then throw (Conflict ''Idempotency-Key was used with different parameters'') else ret i
      | None \<Rightarrow> bnd (gets (\<lambda>s. (now s, intent_ttl s dto))) (\<lambda>(t, ttl). bnd fresh (\<lambda>n.
          let i = \<lparr>pi_id = n, pi_business = cx_business c, pi_live = cx_live c, pi_amount = to_units amount,
                   pi_status = IRequires, pi_payer = None, pi_txn = None, pi_refunded = 0, pi_key = idem,
                   pi_expires = t + ttl * 60000, pi_created = t\<rparr>
          in thn (insert_row intents_update i) (ret i)))))"

definition listIntents :: "nat \<Rightarrow> bool \<Rightarrow> intent_status option \<Rightarrow> ('a agent_db_scheme, intent list) op" where
  "listIntents b live st = thn (expireIntents (\<lambda>i. pi_business i = b))
     (gets (\<lambda>s. take 100 (sort_key (\<lambda>i. - pi_created i)
        (filter (\<lambda>i. pi_business i = b \<and> pi_live i = live \<and> (st = None \<or> st = Some (pi_status i))) (intents s)))))"

definition ownIntent :: "nat \<Rightarrow> nat \<Rightarrow> bool option \<Rightarrow> ('a agent_db_scheme, intent) op" where
  "ownIntent b i live = thn (expireIntents (\<lambda>r. pi_id r = i)) (bnd (gets (\<lambda>s. intent_row s i)) (\<lambda>r. case r of
     None \<Rightarrow> throw (NotFound ''Payment intent not found'')
   | Some r \<Rightarrow> if pi_business r \<noteq> b \<or> live \<noteq> None \<and> live \<noteq> Some (pi_live r)
       then throw (NotFound ''Payment intent not found'') else ret r))"

definition getIntent :: "nat \<Rightarrow> nat \<Rightarrow> bool option \<Rightarrow> ('a agent_db_scheme, intent) op" where
  "getIntent = ownIntent"

definition cancelIntent :: "nat \<Rightarrow> nat \<Rightarrow> bool option \<Rightarrow> ('a agent_db_scheme, intent) op" where
  "cancelIntent b i live = thn (ownIntent b i live)
     (bnd (update_many intents intents_update (\<lambda>r. pi_id r = i \<and> pi_status r = IRequires) (\<lambda>r. r\<lparr>pi_status := ICanceled\<rparr>)) (\<lambda>n.
      if n = 0 then throw (Conflict ''Only unpaid intents can be canceled'')
      else bnd (update_many agent_requests agent_requests_update (\<lambda>r. ar_intent r = i \<and> ar_status r = APending)
        (\<lambda>r. r\<lparr>ar_status := ACanceled\<rparr>)) (\<lambda>_. getIntent b i None)))"

definition simulateIntent :: "nat \<Rightarrow> nat \<Rightarrow> ('a agent_db_scheme, intent) op" where
  "simulateIntent b i = bnd (ownIntent b i (Some False)) (\<lambda>r.
     bnd (update_many intents intents_update (\<lambda>x. pi_id x = pi_id r \<and> \<not> pi_live x \<and> pi_status x = IRequires)
       (\<lambda>x. x\<lparr>pi_status := ISucceeded\<rparr>)) (\<lambda>n.
     if n = 0 then throw (Conflict ''Intent is not payable'')
     else thn (emit (Webhook b False ''payment_intent.succeeded'' i)) (getIntent b i None)))"

definition publicIntent :: "nat \<Rightarrow> ('a agent_db_scheme, intent \<times> business) op" where
  "publicIntent i = thn ensure_agents (thn (expireIntents (\<lambda>r. pi_id r = i)) (bnd (gets (\<lambda>s. intent_row s i)) (\<lambda>r. case r of
     None \<Rightarrow> throw (NotFound ''Payment not found'')
   | Some r \<Rightarrow> if \<not> pi_live r then throw (NotFound ''Payment not found'')
       else bnd (known_business (pi_business r)) (\<lambda>b. ret (r, b)))))"

section \<open>Paying an intent\<close>

text \<open>\<open>finance.walletFor\<close>: the active wallet of the owner.\<close>

definition walletFor :: "nat \<Rightarrow> ('a core_scheme, wallet) op" where
  "walletFor owner = bnd (gets (\<lambda>s. active_wallet s owner)) (or_throw (NotFound ''Business wallet not found''))"

text \<open>The transfer; when it fails the intent is given back.\<close>

definition intent_send ::
  "ext \<Rightarrow> nat \<Rightarrow> nat \<Rightarrow> rat \<Rightarrow> nat \<Rightarrow> string \<Rightarrow> ('a agent_db_scheme, nat) op" where
  "intent_send X u i amount owner pin = catch
     (bnd (walletFor owner) (\<lambda>w. bnd (sendFunds X u \<lparr>sd_recipient = w_address w, sd_amount = amount, sd_pin = Some pin,
        sd_biometric = False, sd_fingerprint = None, sd_fingerprint_alias = None\<rparr> False) (\<lambda>r. ret (sr_reference r))))
     (\<lambda>e. bnd (update_many intents intents_update (\<lambda>r. pi_id r = i \<and> pi_status r = IProcessing)
        (\<lambda>r. r\<lparr>pi_status := IRequires, pi_payer := None\<rparr>)) (\<lambda>_. throw e))"

text \<open>Claim, send, record.\<close>

definition pay_claimed :: "ext \<Rightarrow> nat \<Rightarrow> intent \<Rightarrow> business \<Rightarrow> string \<Rightarrow> string \<Rightarrow> ('a agent_db_scheme, intent) op" where
  "pay_claimed X u r b pin channel =
     (let i = pi_id r in
      bnd (intent_send X u i (num (pi_amount r)) (b_owner b) pin) (\<lambda>ref.
      bnd (intent_update i (\<lambda>x. x\<lparr>pi_status := ISucceeded, pi_txn := Some ref\<rparr>)) (\<lambda>done.
      thn (insert_row business_payments_update \<lparr>by_business = pi_business r, by_source = ''payment_intent'', by_source_id = i,
              by_payer = Some u, by_amount = to_units (num (pi_amount r)), by_txn = ref, by_channel = channel\<rparr>)
      (thn (emit (Webhook (pi_business r) True ''payment_intent.succeeded'' i))
      (ret done)))))"

definition payIntent :: "ext \<Rightarrow> nat \<Rightarrow> nat \<Rightarrow> string \<Rightarrow> string \<Rightarrow> ('a agent_db_scheme, intent) op" where
  "payIntent X u i pin channel = thn ensure_agents
     (if pin = [] then throw (BadRequest ''Transaction PIN is required'')
      else thn (expireIntents (\<lambda>r. pi_id r = i)) (bnd (gets (\<lambda>s. intent_row s i)) (\<lambda>r. case r of
        None \<Rightarrow> throw (NotFound ''Payment not found'')
      | Some r \<Rightarrow>
        if \<not> pi_live r then throw (NotFound ''Payment not found'')
        else if pi_status r = ISucceeded \<and> pi_payer r = Some u then ret r
        else if pi_status r \<noteq> IRequires then throw (Gone ''This payment is closed'')
        else bnd (known_business (pi_business r)) (\<lambda>b.
          if b_owner b = u then throw (Forbidden ''You cannot pay your own business'')
          else bnd (gets now) (\<lambda>t.
            bnd (update_many intents intents_update (\<lambda>x. pi_id x = i \<and> pi_status x = IRequires \<and> pi_expires x > t)
              (\<lambda>x. x\<lparr>pi_status := IProcessing, pi_payer := Some u\<rparr>)) (\<lambda>n.
            if n = 0 then throw (Gone ''This payment is no longer payable'')
            else pay_claimed X u r b pin channel))))))"

section \<open>Refunds\<close>

definition listRefunds :: "nat \<Rightarrow> nat \<Rightarrow> bool option \<Rightarrow> ('a agent_db_scheme, refund_row list) op" where
  "listRefunds b i live = thn (ownIntent b i live)
     (gets (\<lambda>s. sort_key (\<lambda>r. - rf_created r) (filter (\<lambda>r. rf_intent r = i) (refunds s))))"

text \<open>The money of a live refund goes back from the owner's wallet to the payer's.\<close>

definition refund_money :: "biz_ctx \<Rightarrow> nat option \<Rightarrow> rat \<Rightarrow> ('a agent_db_scheme, nat) op" where
  "refund_money c payer amt = bnd (gets (\<lambda>s. (active_wallet s (cx_owner c), find (\<lambda>w. w_user w = payer \<and> w_active w) (wallets s)))) (\<lambda>ws. case ws of
     (Some from, Some to) \<Rightarrow>
       if w_frozen from then throw (Forbidden ''Business wallet is frozen'')
       else bnd (update_many wallets wallets_update (\<lambda>w. w_id w = w_id from \<and> of_int (w_balance w) \<ge> sql amt) (dec_balance amt)) (\<lambda>n.
       if n \<noteq> 1 then throw (BadRequest ''Insufficient business balance for this refund'')
       else bnd (wallet_update (w_id to) (inc_balance amt)) (\<lambda>_.
         bnd (txn_create (\<lambda>i t. \<lparr>t_id = i, t_ref = i, t_sender = Some (w_id from), t_receiver = Some (w_id to), t_type = Transfer,
            t_status = Completed, t_amount = to_units amt, t_fee = 0, t_net = to_units amt, t_created = t,
            t_meta = [MCategory ''payment_refund'']\<rparr>)) (\<lambda>t.
         thn (ledger_create \<lparr>l_txn = Some (t_id t), l_wallet = w_id from, l_type = Debit, l_amount = to_units amt,
            l_before = Some (to_units (num (w_balance from))), l_after = Some (to_units (fl (num (w_balance from) - amt))), l_category = None\<rparr>)
         (thn (ledger_create \<lparr>l_txn = Some (t_id t), l_wallet = w_id to, l_type = Credit, l_amount = to_units amt,
            l_before = Some (to_units (num (w_balance to))), l_after = Some (to_units (fl (num (w_balance to) + amt))), l_category = None\<rparr>)
         (ret (t_id t))))))
   | _ \<Rightarrow> throw (NotFound ''Wallet not found''))"

definition refund_payment_tx ::
  "biz_ctx \<Rightarrow> intent \<Rightarrow> rat \<Rightarrow> rat \<Rightarrow> intent_status \<Rightarrow> string option \<Rightarrow> ('a agent_db_scheme, refund_row) op" where
  "refund_payment_tx c i amt refunded st idem = transaction
     (bnd (update_many intents intents_update (\<lambda>x. pi_id x = pi_id i \<and> pi_refunded x = pi_refunded i \<and> pi_status x = pi_status i)
        (\<lambda>x. x\<lparr>pi_refunded := to_units refunded, pi_status := st\<rparr>)) (\<lambda>n.
      if n \<noteq> 1 then throw (Conflict ''The payment changed; try again'')
      else bnd (if cx_live c then bnd (refund_money c (pi_payer i) amt) (\<lambda>t. ret (Some t)) else ret None) (\<lambda>t. bnd fresh (\<lambda>k. bnd (gets now) (\<lambda>tm.
          let r = \<lparr>rf_id = k, rf_intent = pi_id i, rf_business = cx_business c, rf_live = cx_live c, rf_amount = to_units amt,
                   rf_txn = t, rf_key = idem, rf_created = tm\<rparr>
          in thn (insert_row refunds_update r) (ret r))))))"

definition PENNY :: rat where "PENNY = fl (1 / 10 ^ 9)"

text \<open>What can still be refunded.\<close>

definition refundable :: "intent \<Rightarrow> rat" where
  "refundable i = r2 (fl (num (pi_amount i) - num (pi_refunded i)))"

definition refund_intent :: "biz_ctx \<Rightarrow> intent \<Rightarrow> rat option \<Rightarrow> string option \<Rightarrow> ('a agent_db_scheme, refund_row) op" where
  "refund_intent c i amount idem =
     (if pi_status i \<noteq> ISucceeded \<and> pi_status i \<noteq> IPartlyRefunded then throw (Conflict ''Only paid intents can be refunded'')
      else let amt = r2 (case amount of None \<Rightarrow> refundable i | Some a \<Rightarrow> a) in
        if amt \<le> 0 then throw (BadRequest ''Refund amount must be positive'')
        else if amt > fl (refundable i + PENNY) then throw (BadRequest ''Not that much can still be refunded'')
        else let refunded = r2 (fl (num (pi_refunded i) + amt));
                 st = (if refunded \<ge> fl (num (pi_amount i) - PENNY) then IRefunded else IPartlyRefunded) in
          bnd (refund_payment_tx c i amt refunded st idem) (\<lambda>r.
          thn (emit (Webhook (cx_business c) (cx_live c) ''refund.succeeded'' (rf_id r))) (ret r)))"

definition refund :: "biz_ctx \<Rightarrow> nat \<Rightarrow> rat option \<Rightarrow> string option \<Rightarrow> ('a agent_db_scheme, refund_row) op" where
  "refund c i amount idem = thn ensure_agents
     (bnd (gets (\<lambda>s. find (\<lambda>r. same_key (cx_business c) idem (rf_business r) (rf_key r)) (refunds s))) (\<lambda>ex. case ex of
        Some r \<Rightarrow> ret r
      | None \<Rightarrow> bnd (ownIntent (cx_business c) i (Some (cx_live c))) (\<lambda>r. refund_intent c r amount idem)))"

definition refundFromDashboard ::
  "ext \<Rightarrow> nat \<Rightarrow> nat \<Rightarrow> rat option \<Rightarrow> string \<Rightarrow> string option \<Rightarrow> ('a agent_db_scheme, refund_row) op" where
  "refundFromDashboard X u i amount pin idem = bnd (resolve u (Some PayoutsCreate)) (\<lambda>a.
     thn (verifyPin X u pin)
       (refund \<lparr>cx_business = b_id (ac_business a), cx_owner = b_owner (ac_business a), cx_live = True\<rparr> i amount idem))"

section \<open>Mandates\<close>

record mandate_dto =
  md_business :: nat
  md_per_tx :: rat
  md_daily :: rat
  md_monthly :: rat
  md_days :: rat
  md_pin :: string

definition mandate_shown :: "int \<Rightarrow> mandate \<Rightarrow> mandate" where
  "mandate_shown t m = (if am_status m = MActive \<and> am_expires m \<le> t then m\<lparr>am_status := MExpired\<rparr> else m)"

definition mandate_error :: "'a agent_db_scheme \<Rightarrow> mandate_dto \<Rightarrow> err option" where
  "mandate_error s dto =
     (let per = r2 (md_per_tx dto); day = r2 (md_daily dto); mon = r2 (md_monthly dto); days = \<lfloor>md_days dto\<rfloor> in
      if per \<le> 0 \<or> per > max_per_tx s then Some (BadRequest ''Per-payment limit out of range'')
      else if day < per then Some (BadRequest ''Daily limit must be at least the per-payment limit'')
      else if mon < day then Some (BadRequest ''Monthly limit must be at least the daily limit'')
      else if mon > max_monthly s then Some (BadRequest ''Monthly limit out of range'')
      else if days < 1 \<or> days > 365 then Some (BadRequest ''Expiry must be 1-365 days'')
      else None)"

definition createMandate :: "ext \<Rightarrow> nat \<Rightarrow> mandate_dto \<Rightarrow> ('a agent_db_scheme, mandate) op" where
  "createMandate X u dto = thn ensure_agents (thn (verifyPin X u (md_pin dto)) (bnd (known_business (md_business dto)) (\<lambda>b.
     if b_status b \<noteq> BApproved then throw (BadRequest ''This business is not verified'')
     else if b_owner b = u then throw (BadRequest ''You cannot authorize your own business'')
     else bnd (gets (\<lambda>s. (mandate_error s dto, now s))) (\<lambda>(err, t). case err of
       Some e \<Rightarrow> throw e
     | None \<Rightarrow> bnd fresh (\<lambda>n.
         let m = \<lparr>am_id = n, am_user = u, am_business = b_id b, am_per_tx = to_units (r2 (md_per_tx dto)),
                  am_daily = to_units (r2 (md_daily dto)), am_monthly = to_units (r2 (md_monthly dto)), am_status = MActive,
                  am_expires = t + \<lfloor>md_days dto\<rfloor> * 86400000, am_created = t\<rparr>
         in thn (insert_row mandates_update m)
           (thn (emit (Webhook (b_id b) True ''agent_authorization.created'' n)) (ret (mandate_shown t m))))))))"

definition ACTIVE_REQ :: "agent_status list" where
  "ACTIVE_REQ = [APending, AProcessing, AConfirmed]"

text \<open>The amounts that count against a mandate, from a point in time on, one request left out.\<close>

definition usage_since :: "'a agent_db_scheme \<Rightarrow> nat \<Rightarrow> nat option \<Rightarrow> int \<Rightarrow> int" where
  "usage_since s m except from = sum_list (map ar_amount (filter (\<lambda>r. ar_mandate r = m \<and> ar_status r \<in> set ACTIVE_REQ
     \<and> Some (ar_id r) \<noteq> except \<and> ar_created r \<ge> from) (agent_requests s)))"

definition usage :: "ext \<Rightarrow> 'a agent_db_scheme \<Rightarrow> nat \<Rightarrow> nat option \<Rightarrow> rat \<times> rat" where
  "usage X s m except = (num (usage_since s m except (day_start X (now s))), num (usage_since s m except (month_start X (now s))))"

definition myMandates :: "ext \<Rightarrow> nat \<Rightarrow> ('a agent_db_scheme, (mandate \<times> rat \<times> rat) list) op" where
  "myMandates X u = gets (\<lambda>s. map (\<lambda>m. (mandate_shown (now s) m, usage X s (am_id m) None))
     (take 100 (sort_key (\<lambda>m. - am_created m) (filter (\<lambda>m. am_user m = u) (mandates s)))))"

definition revokeMandate :: "nat \<Rightarrow> nat \<Rightarrow> ('a agent_db_scheme, mandate) op" where
  "revokeMandate u i =
     bnd (update_many mandates mandates_update (\<lambda>m. am_id m = i \<and> am_user m = u \<and> am_status m = MActive)
       (\<lambda>m. m\<lparr>am_status := MRevoked\<rparr>)) (\<lambda>n.
     if n = 0 then throw (NotFound ''Active authorization not found'')
     else bnd (update_many agent_requests agent_requests_update (\<lambda>r. ar_mandate r = i \<and> ar_status r = APending)
         (\<lambda>r. r\<lparr>ar_status := ACanceled, ar_failure := Some ''Authorization revoked''\<rparr>)) (\<lambda>_.
       bnd (gets (\<lambda>s. find_row am_id i (mandates s))) (\<lambda>m. case m of
         None \<Rightarrow> throw (Failure ''Cannot read properties of null'')
       | Some m \<Rightarrow> thn (emit (Webhook (am_business m) True ''agent_authorization.revoked'' i)) (ret m))))"

definition businessMandates :: "nat \<Rightarrow> ('a agent_db_scheme, mandate list) op" where
  "businessMandates b = gets (\<lambda>s. map (mandate_shown (now s))
     (take 100 (sort_key (\<lambda>m. - am_created m) (filter (\<lambda>m. am_business m = b) (mandates s)))))"

definition checkCaps :: "ext \<Rightarrow> mandate \<Rightarrow> rat \<Rightarrow> nat option \<Rightarrow> ('a agent_db_scheme, unit) op" where
  "checkCaps X m amount except = bnd (gets now) (\<lambda>t.
     if am_status m \<noteq> MActive \<or> am_expires m \<le> t then throw (Forbidden ''The authorization is not active'')
     else if amount > num (am_per_tx m) then throw (Forbidden ''Amount exceeds the per-payment limit'')
     else bnd (gets (\<lambda>s. usage X s (am_id m) except)) (\<lambda>(day, month).
       if fl (day + amount) > num (am_daily m) then throw (Forbidden ''Amount exceeds the daily limit for this authorization'')
       else if fl (month + amount) > num (am_monthly m) then throw (Forbidden ''Amount exceeds the monthly limit for this authorization'')
       else ret ()))"

section \<open>Requests of agents\<close>

definition request_shown :: "int \<Rightarrow> agent_request \<Rightarrow> agent_request" where
  "request_shown t r = (if ar_status r = APending \<and> ar_expires r \<le> t then r\<lparr>ar_status := AExpired\<rparr> else r)"

text \<open>The row of a request, and what the agent sees of it.\<close>

definition new_agent_request :: "nat \<Rightarrow> mandate \<Rightarrow> biz_ctx \<Rightarrow> intent \<Rightarrow> string option \<Rightarrow> int \<Rightarrow> int \<Rightarrow> agent_request" where
  "new_agent_request n m c i idem t ttl =
     \<lparr>ar_id = n, ar_mandate = am_id m, ar_user = am_user m, ar_business = cx_business c, ar_intent = pi_id i,
      ar_amount = to_units (num (pi_amount i)), ar_status = APending, ar_failure = None, ar_txn = None, ar_key = idem,
      ar_expires = min (t + ttl) (pi_expires i), ar_created = t\<rparr>"

definition request_payment :: "ext \<Rightarrow> biz_ctx \<Rightarrow> mandate \<Rightarrow> intent \<Rightarrow> string option \<Rightarrow> ('a agent_db_scheme, agent_request) op" where
  "request_payment X c m i idem =
     (if pi_status i \<noteq> IRequires then throw (Conflict ''Payment intent is not payable'')
      else thn (checkCaps X m (num (pi_amount i)) None)
        (bnd (gets (\<lambda>s. find (\<lambda>r. ar_intent r = pi_id i \<and> (ar_status r = APending \<or> ar_status r = AProcessing)) (agent_requests s))) (\<lambda>open_row.
         bnd (gets (\<lambda>s. (now s, \<lfloor>fl (request_ttl_min s * 60000)\<rfloor>))) (\<lambda>(t, ttl). case open_row of
           Some r \<Rightarrow> ret (request_shown t r)
         | None \<Rightarrow> bnd fresh (\<lambda>n.
             let r = new_agent_request n m c i idem t ttl in
             thn (insert_row agent_requests_update r)
             (thn (emit (Notification (am_user m) ''payment_request'' (Some n)))
             (thn (emit (Webhook (cx_business c) True ''agent_payment.requested'' n)) (ret (request_shown t r)))))))))"

definition createAgentRequest :: "ext \<Rightarrow> biz_ctx \<Rightarrow> nat \<Rightarrow> nat \<Rightarrow> string option \<Rightarrow> ('a agent_db_scheme, agent_request) op" where
  "createAgentRequest X c mandate_id intent_id idem = thn ensure_agents
     (if \<not> cx_live c then throw (BadRequest ''Agent payment requests need a live key'')
      else bnd (gets (\<lambda>s. (now s, find (\<lambda>r. same_key (cx_business c) idem (ar_business r) (ar_key r)) (agent_requests s)))) (\<lambda>(t, ex). case ex of
        Some r \<Rightarrow> ret (request_shown t r)
      | None \<Rightarrow> bnd (gets (\<lambda>s. find_row am_id mandate_id (mandates s))) (\<lambda>m. case m of
          None \<Rightarrow> throw (NotFound ''Authorization not found'')
        | Some m \<Rightarrow> if am_business m \<noteq> cx_business c then throw (NotFound ''Authorization not found'')
            else bnd (ownIntent (cx_business c) intent_id (Some True)) (\<lambda>i. request_payment X c m i idem))))"

definition businessGetRequest :: "nat \<Rightarrow> nat \<Rightarrow> ('a agent_db_scheme, agent_request) op" where
  "businessGetRequest b i = bnd (gets (\<lambda>s. (now s, find_row ar_id i (agent_requests s)))) (\<lambda>(t, r). case r of
     None \<Rightarrow> throw (NotFound ''Request not found'')
   | Some r \<Rightarrow> if ar_business r \<noteq> b then throw (NotFound ''Request not found'') else ret (request_shown t r))"

definition myRequests :: "nat \<Rightarrow> agent_status option \<Rightarrow> ('a agent_db_scheme, agent_request list) op" where
  "myRequests u st = bnd (gets now) (\<lambda>t.
     bnd (update_many agent_requests agent_requests_update (\<lambda>r. ar_user r = u \<and> ar_status r = APending \<and> ar_expires r \<le> t)
       (\<lambda>r. r\<lparr>ar_status := AExpired\<rparr>)) (\<lambda>_.
     gets (\<lambda>s. map (request_shown t) (take 100 (sort_key (\<lambda>r. - ar_created r)
       (filter (\<lambda>r. ar_user r = u \<and> (st = None \<or> st = Some (ar_status r))) (agent_requests s)))))))"

definition rejectRequest :: "nat \<Rightarrow> nat \<Rightarrow> ('a agent_db_scheme, agent_request) op" where
  "rejectRequest u i =
     bnd (update_many agent_requests agent_requests_update (\<lambda>r. ar_id r = i \<and> ar_user r = u \<and> ar_status r = APending)
       (\<lambda>r. r\<lparr>ar_status := ARejected\<rparr>)) (\<lambda>n.
     if n = 0 then throw (NotFound ''Pending request not found'')
     else bnd (gets (\<lambda>s. find_row ar_id i (agent_requests s))) (\<lambda>r. case r of
       None \<Rightarrow> throw (Failure ''Cannot read properties of null'')
     | Some r \<Rightarrow> thn (emit (Webhook (ar_business r) True ''agent_payment.rejected'' i)) (ret r)))"

text \<open>\<open>/PIN/i.test(msg)\<close>, and the errors that end a request.\<close>

fun mentions :: "string \<Rightarrow> string \<Rightarrow> bool" where
  "mentions p [] \<longleftrightarrow> p = []"
| "mentions p (c # cs) \<longleftrightarrow> take (length p) (c # cs) = p \<or> mentions p cs"

fun err_text :: "err \<Rightarrow> string" where
  "err_text (BadRequest m) = m"
| "err_text (Incomplete m _) = m"
| "err_text (Unauthorized m) = m"
| "err_text (Forbidden m) = m"
| "err_text (NotFound m) = m"
| "err_text (Conflict m) = m"
| "err_text (Gone m) = m"
| "err_text (Failure m) = m"

definition final_error :: "err \<Rightarrow> bool" where
  "final_error e \<longleftrightarrow> (case e of Gone _ \<Rightarrow> True | Forbidden m \<Rightarrow> \<not> mentions ''pin'' (map lower_char m) | _ \<Rightarrow> False)"

definition confirm_claimed :: "ext \<Rightarrow> nat \<Rightarrow> agent_request \<Rightarrow> string \<Rightarrow> ('a agent_db_scheme, agent_request) op" where
  "confirm_claimed X u r pin = catch
     (bnd (gets (\<lambda>s. find_row am_id (ar_mandate r) (mandates s))) (\<lambda>m. case m of
        None \<Rightarrow> throw (Forbidden ''The authorization is not active'')
      | Some m \<Rightarrow> thn (checkCaps X m (num (ar_amount r)) (Some (ar_id r)))
          (bnd (payIntent X u (ar_intent r) pin ''agent'') (\<lambda>paid.
           bnd (agent_request_update (ar_id r) (\<lambda>x. x\<lparr>ar_status := AConfirmed, ar_txn := pi_txn paid, ar_failure := None\<rparr>)) (\<lambda>done.
           thn (emit (Webhook (ar_business r) True ''agent_payment.confirmed'' (ar_id r))) (ret done))))))
     (\<lambda>e. thn (agent_request_update (ar_id r) (\<lambda>x. x\<lparr>ar_status := if final_error e then AFailed else APending,
            ar_failure := Some (take 255 (err_text e))\<rparr>)) (throw e))"

definition confirmRequest :: "ext \<Rightarrow> nat \<Rightarrow> nat \<Rightarrow> string \<Rightarrow> ('a agent_db_scheme, agent_request) op" where
  "confirmRequest X u i pin = thn ensure_agents
     (bnd (gets (\<lambda>s. (now s, find_row ar_id i (agent_requests s)))) (\<lambda>(t, r). case r of
        None \<Rightarrow> throw (NotFound ''Request not found'')
      | Some r \<Rightarrow>
        if ar_user r \<noteq> u then throw (NotFound ''Request not found'')
        else if ar_status r = AConfirmed then ret r
        else if ar_status r \<noteq> APending then throw (Conflict ''Request is closed'')
        else if ar_expires r \<le> t
        then bnd (update_many agent_requests agent_requests_update (\<lambda>x. ar_id x = i \<and> ar_status x = APending)
            (\<lambda>x. x\<lparr>ar_status := AExpired\<rparr>)) (\<lambda>_. throw (Gone ''This request has expired''))
        else bnd (update_many agent_requests agent_requests_update (\<lambda>x. ar_id x = i \<and> ar_status x = APending)
            (\<lambda>x. x\<lparr>ar_status := AProcessing\<rparr>)) (\<lambda>n.
          if n = 0 then throw (Conflict ''Request is already being processed'')
          else confirm_claimed X u r pin)))"

end
