(* ===== verification/Agent_Books.thy ===== *)
theory Agent_Books
  imports Agents
begin

text \<open>
  The tables of payment intents and of mandates on their own: when they are in order, and the
  steps that keep them so.  A paid intent has one payment of its amount, and its refunds add up to
  what it says is refunded, never more than was paid.  The requests that count against a mandate
  stay within its limits on every day and in every month.
\<close>

section \<open>Intents\<close>

definition intent_paid :: "intent_status \<Rightarrow> bool" where
  "intent_paid st \<longleftrightarrow> st \<in> {ISucceeded, IPartlyRefunded, IRefunded}"

definition intent_closed :: "intent_status \<Rightarrow> bool" where
  "intent_closed st \<longleftrightarrow> st \<in> {IRefunded, ICanceled, IExpired}"

definition pays_for :: "nat \<Rightarrow> business_payment \<Rightarrow> bool" where
  "pays_for i p \<longleftrightarrow> by_source p = ''payment_intent'' \<and> by_source_id p = i"

definition refunded_sum :: "nat \<Rightarrow> refund_row list \<Rightarrow> int" where
  "refunded_sum i rf = sum_list (map rf_amount (filter (\<lambda>r. rf_intent r = i) rf))"

text \<open>What was paid: at most a single transfer, in whole cents, by one payment; and what went back.\<close>

definition paid_ok :: "business_payment list \<Rightarrow> intent \<Rightarrow> bool" where
  "paid_ok bp i \<longleftrightarrow> pi_amount i \<le> 10 ^ 13
     \<and> map (\<lambda>p. (by_amount p, by_payer p)) (filter (pays_for (pi_id i)) bp) = [(pi_amount i, pi_payer i)]
     \<and> 0 \<le> pi_refunded i \<and> pi_refunded i \<le> pi_amount i \<and> 1000000 dvd pi_refunded i
     \<and> (pi_status i = IRefunded \<longleftrightarrow> pi_refunded i = pi_amount i)
     \<and> (pi_status i = ISucceeded \<longleftrightarrow> pi_refunded i = 0)"

definition intent_ok :: "refund_row list \<Rightarrow> business_payment list \<Rightarrow> intent \<Rightarrow> bool" where
  "intent_ok rf bp i \<longleftrightarrow> 0 < pi_amount i \<and> (pi_amount i \<le> 10 ^ 13 \<longrightarrow> 1000000 dvd pi_amount i)
     \<and> (pi_live i \<longrightarrow> refunded_sum (pi_id i) rf = pi_refunded i
        \<and> (if intent_paid (pi_status i) then paid_ok bp i else pi_refunded i = 0 \<and> filter (pays_for (pi_id i)) bp = []))"

definition intents_ok :: "nat \<Rightarrow> intent list \<Rightarrow> refund_row list \<Rightarrow> business_payment list \<Rightarrow> bool" where
  "intents_ok n qs rf bp \<longleftrightarrow> distinct (map pi_id qs) \<and> list_all (\<lambda>i. pi_id i < n \<and> intent_ok rf bp i) qs
     \<and> list_all (\<lambda>r. rf_intent r < n) rf \<and> list_all (\<lambda>p. by_source_id p < n) bp"

text \<open>What becomes of an intent.\<close>

definition intent_moves :: "intent \<Rightarrow> intent \<Rightarrow> bool" where
  "intent_moves i j \<longleftrightarrow> pi_id j = pi_id i \<and> pi_business j = pi_business i \<and> pi_amount j = pi_amount i \<and> pi_live j = pi_live i
     \<and> (pi_live i \<longrightarrow> (intent_closed (pi_status i) \<longrightarrow> j = i)
        \<and> (intent_paid (pi_status i) \<longrightarrow> intent_paid (pi_status j) \<and> pi_payer j = pi_payer i \<and> pi_txn j = pi_txn i \<and> pi_refunded i \<le> pi_refunded j))"

definition intents_move :: "intent list \<Rightarrow> intent list \<Rightarrow> bool" where
  "intents_move qs js \<longleftrightarrow> (\<forall>i\<in>set qs. \<exists>j\<in>set js. intent_moves i j)"

lemma intent_moves_refl: "intent_moves i i"
  by (simp add: intent_moves_def)

lemma intent_moves_trans: "intent_moves i j \<Longrightarrow> intent_moves j k \<Longrightarrow> intent_moves i k"
  by (auto simp: intent_moves_def)

lemma intents_move_refl: "intents_move qs qs"
  unfolding intents_move_def using intent_moves_refl by blast

lemma intents_move_trans: "intents_move qs js \<Longrightarrow> intents_move js ks \<Longrightarrow> intents_move qs ks"
  unfolding intents_move_def using intent_moves_trans by blast

lemma intents_move_append: "intents_move qs (qs @ js)"
  unfolding intents_move_def using intent_moves_refl by (metis UnCI set_append)

lemma intents_move_upd:
  assumes "\<And>i. i \<in> set qs \<Longrightarrow> P i \<Longrightarrow> intent_moves i (f i)" shows "intents_move qs (upd_where P f qs)"
  unfolding intents_move_def
proof
  fix i assume "i \<in> set qs"
  then have "(if P i then f i else i) \<in> set (upd_where P f qs)" "intent_moves i (if P i then f i else i)"
    using assms intent_moves_refl by (auto simp: upd_where_def)
  then show "\<exists>j\<in>set (upd_where P f qs). intent_moves i j" by blast
qed

lemma intents_okD:
  assumes "intents_ok n qs rf bp"
  shows "distinct (map pi_id qs)" "i \<in> set qs \<Longrightarrow> pi_id i < n" "i \<in> set qs \<Longrightarrow> intent_ok rf bp i"
    "r \<in> set rf \<Longrightarrow> rf_intent r < n" "p \<in> set bp \<Longrightarrow> by_source_id p < n"
  using assms by (auto simp: intents_ok_def list_all_iff)

lemma intents_ok_mono: "intents_ok n qs rf bp \<Longrightarrow> n \<le> m \<Longrightarrow> intents_ok m qs rf bp"
  by (fastforce simp: intents_ok_def list_all_iff)

lemma one_intent: "intents_ok n qs rf bp \<Longrightarrow> i \<in> set qs \<Longrightarrow> j \<in> set qs \<Longrightarrow> pi_id i = pi_id j \<Longrightarrow> i = j"
  by (auto simp: intents_ok_def distinct_map inj_on_def)

lemma intents_upd:
  assumes "intents_ok n qs rf bp" "\<And>j. pi_id (f j) = pi_id j"
    and "\<And>j. j \<in> set qs \<Longrightarrow> pi_id j = k \<Longrightarrow> intent_ok rf' bp' (f j)" "\<And>j. j \<in> set qs \<Longrightarrow> pi_id j \<noteq> k \<Longrightarrow> intent_ok rf' bp' j"
    and "list_all (\<lambda>r. rf_intent r < n) rf'" "list_all (\<lambda>p. by_source_id p < n) bp'"
  shows "intents_ok n (upd_row pi_id k f qs) rf' bp'"
proof -
  have "list_all (\<lambda>i. pi_id i < n \<and> intent_ok rf' bp' i) (upd_row pi_id k f qs)"
    unfolding list_all_iff
  proof
    fix i assume "i \<in> set (upd_row pi_id k f qs)"
    then obtain j where "j \<in> set qs" "i = (if pi_id j = k then f j else j)" by (auto simp: upd_row_def)
    then show "pi_id i < n \<and> intent_ok rf' bp' i" using intents_okD(2)[OF assms(1), of j] assms(2-4) by (cases "pi_id j = k") simp_all
  qed
  then show ?thesis using assms(1,2,5,6) by (simp add: intents_ok_def)
qed

text \<open>Opening, closing and claiming: nothing is paid before or after.\<close>

definition shift_ok :: "intent \<Rightarrow> intent \<Rightarrow> bool" where
  "shift_ok i j \<longleftrightarrow> j = i\<lparr>pi_status := pi_status j, pi_payer := pi_payer j\<rparr>
     \<and> (pi_live i \<longrightarrow> \<not> intent_paid (pi_status i) \<and> \<not> intent_closed (pi_status i) \<and> \<not> intent_paid (pi_status j))"

lemma shift_okD:
  assumes "shift_ok i j"
  shows "pi_id j = pi_id i" "intent_ok rf bp i \<Longrightarrow> intent_ok rf bp j" "intent_moves i j"
proof -
  have j: "j = i\<lparr>pi_status := pi_status j, pi_payer := pi_payer j\<rparr>" using assms by (simp add: shift_ok_def)
  have eq: "pi_id j = pi_id i" "pi_amount j = pi_amount i" "pi_live j = pi_live i" "pi_refunded j = pi_refunded i" "pi_business j = pi_business i"
    by (subst j; simp)+
  show "pi_id j = pi_id i" by (rule eq)
  show "intent_ok rf bp i \<Longrightarrow> intent_ok rf bp j" using assms by (simp add: intent_ok_def eq shift_ok_def)
  show "intent_moves i j" using assms by (simp add: intent_moves_def eq shift_ok_def)
qed

lemma intents_shift:
  assumes qs: "intents_ok n qs rf bp" and f: "\<And>i. i \<in> set qs \<Longrightarrow> P i \<Longrightarrow> shift_ok i (f i)"
  shows "intents_ok n (upd_where P f qs) rf bp" "intents_move qs (upd_where P f qs)"
proof -
  have "map pi_id (upd_where P f qs) = map pi_id qs"
    using shift_okD(1)[OF f] by (auto simp: upd_where_def)
  then show "intents_ok n (upd_where P f qs) rf bp"
    using qs shift_okD(1,2)[OF f] by (auto simp: intents_ok_def list_all_iff in_upd_where split: if_splits)
  show "intents_move qs (upd_where P f qs)" by (rule intents_move_upd) (rule shift_okD(3)[OF f])
qed

lemma intents_new:
  assumes qs: "intents_ok n qs rf bp" and i: "pi_id i = n" "0 < pi_amount i" "pi_amount i \<le> 10 ^ 13 \<longrightarrow> 1000000 dvd pi_amount i"
    "pi_status i = IRequires" "pi_refunded i = 0"
  shows "intents_ok (Suc n) (qs @ [i]) rf bp"
proof -
  have "filter (\<lambda>r. rf_intent r = n) rf = []" using intents_okD(4)[OF qs] by (auto simp: filter_empty_conv)
  then have "refunded_sum n rf = 0" by (simp add: refunded_sum_def)
  moreover have "filter (pays_for n) bp = []"
    using intents_okD(5)[OF qs] by (auto simp: pays_for_def filter_empty_conv)
  ultimately have "intent_ok rf bp i" using i by (simp add: intent_ok_def intent_paid_def)
  moreover have "pi_id j \<noteq> n" if "j \<in> set qs" for j using intents_okD(2)[OF qs that] by simp
  ultimately show ?thesis using qs i(1) by (auto simp: intents_ok_def list_all_iff intro: less_SucI)
qed

lemma filter_pays_other: "i \<noteq> j \<Longrightarrow> by_source_id p = i \<Longrightarrow> filter (pays_for j) (bp @ [p]) = filter (pays_for j) bp"
  by (simp add: pays_for_def)

text \<open>The payment of an open intent.\<close>

lemma intents_paid:
  assumes qs: "intents_ok n qs rf bp" and i: "i \<in> set qs" "pi_live i" "\<not> intent_paid (pi_status i)" "\<not> intent_closed (pi_status i)" "pi_amount i \<le> 10 ^ 13"
    and p: "by_source p = ''payment_intent''" "by_source_id p = pi_id i" "by_amount p = pi_amount i" "by_payer p = u"
  shows "intents_ok n (upd_row pi_id (pi_id i) (\<lambda>x. x\<lparr>pi_status := ISucceeded, pi_payer := u, pi_txn := t\<rparr>) qs) rf (bp @ [p])"
    "intents_move qs (upd_row pi_id (pi_id i) (\<lambda>x. x\<lparr>pi_status := ISucceeded, pi_payer := u, pi_txn := t\<rparr>) qs)"
proof -
  let ?f = "\<lambda>x. x\<lparr>pi_status := ISucceeded, pi_payer := u, pi_txn := t\<rparr>"
  have ok: "intent_ok rf bp i" by (rule intents_okD(3)[OF qs i(1)])
  have "intent_ok rf (bp @ [p]) (?f i)"
    using ok i p by (auto simp: intent_ok_def paid_ok_def intent_paid_def pays_for_def)
  moreover have "intent_ok rf (bp @ [p]) j" if "j \<in> set qs" "pi_id j \<noteq> pi_id i" for j
    using intents_okD(3)[OF qs that(1)] filter_pays_other[OF that(2)[symmetric] p(2), of bp] unfolding intent_ok_def paid_ok_def by presburger
  ultimately show "intents_ok n (upd_row pi_id (pi_id i) ?f qs) rf (bp @ [p])"
    using one_intent[OF qs _ i(1)] intents_okD(2)[OF qs i(1)] intents_okD(4,5)[OF qs] p(2)
    by (intro intents_upd[OF qs]) (auto simp: list_all_iff)
  show "intents_move qs (upd_row pi_id (pi_id i) ?f qs)"
    unfolding upd_row_where
  proof (rule intents_move_upd)
    fix j assume "j \<in> set qs" "pi_id j = pi_id i"
    then have "j = i" by (intro one_intent[OF qs _ i(1)])
    then show "intent_moves j (?f j)" using i by (simp add: intent_moves_def)
  qed
qed

text \<open>A refund of part of what is left.\<close>

lemma intents_refunded:
  assumes qs: "intents_ok n qs rf bp" and i: "i \<in> set qs" "pi_status i \<in> {ISucceeded, IPartlyRefunded}"
    and r: "rf_intent r = pi_id i" "rf_amount r = x"
    and x: "pi_live i \<Longrightarrow> 0 < x \<and> 1000000 dvd x \<and> pi_refunded i + x \<le> pi_amount i \<and> y = pi_refunded i + x
      \<and> st = (if y = pi_amount i then IRefunded else IPartlyRefunded)"
  shows "intents_ok n (upd_row pi_id (pi_id i) (\<lambda>j. j\<lparr>pi_refunded := y, pi_status := st\<rparr>) qs) (rf @ [r]) bp"
    "intents_move qs (upd_row pi_id (pi_id i) (\<lambda>j. j\<lparr>pi_refunded := y, pi_status := st\<rparr>) qs)"
proof -
  let ?f = "\<lambda>j. j\<lparr>pi_refunded := y, pi_status := st\<rparr>"
  have ok: "intent_ok rf bp i" by (rule intents_okD(3)[OF qs i(1)])
  have p: "intent_paid (pi_status i)" "\<not> intent_closed (pi_status i)" using i(2) by (auto simp: intent_paid_def intent_closed_def)
  have sum: "refunded_sum j (rf @ [r]) = refunded_sum j rf + (if j = pi_id i then x else 0)" for j
    using r by (simp add: refunded_sum_def)
  have "intent_ok (rf @ [r]) bp (?f i)"
    using ok p(1) x by (auto simp: intent_ok_def paid_ok_def sum intent_paid_def)
  moreover have "intent_ok (rf @ [r]) bp j" if "j \<in> set qs" "pi_id j \<noteq> pi_id i" for j
    using intents_okD(3)[OF qs that(1)] that(2) by (simp add: intent_ok_def sum)
  ultimately show "intents_ok n (upd_row pi_id (pi_id i) ?f qs) (rf @ [r]) bp"
    using one_intent[OF qs _ i(1)] intents_okD(2)[OF qs i(1)] intents_okD(4,5)[OF qs] r(1)
    by (intro intents_upd[OF qs]) (auto simp: list_all_iff)
  show "intents_move qs (upd_row pi_id (pi_id i) ?f qs)"
    unfolding upd_row_where
  proof (rule intents_move_upd)
    fix j assume "j \<in> set qs" "pi_id j = pi_id i"
    then have "j = i" by (intro one_intent[OF qs _ i(1)])
    then show "intent_moves j (?f j)" using x p by (auto simp: intent_moves_def intent_paid_def)
  qed
qed

section \<open>Mandates\<close>

text \<open>What the requests under a mandate come to, those created at a time in \<open>P\<close>.\<close>

definition used :: "agent_request list \<Rightarrow> nat \<Rightarrow> (int \<Rightarrow> bool) \<Rightarrow> int" where
  "used rs m P = sum_list (map ar_amount (filter (\<lambda>r. ar_mandate r = m \<and> ar_status r \<in> set ACTIVE_REQ \<and> P (ar_created r)) rs))"

definition MAX_CAP :: int where "MAX_CAP = 5 * 10 ^ 14"

definition within_caps :: "ext \<Rightarrow> agent_request list \<Rightarrow> mandate \<Rightarrow> bool" where
  "within_caps X rs m \<longleftrightarrow> (\<forall>d. used rs (am_id m) (\<lambda>c. day_start X c = d) \<le> am_daily m
     \<and> used rs (am_id m) (\<lambda>c. month_start X c = d) \<le> am_monthly m)"

definition mandate_ok :: "mandate \<Rightarrow> bool" where
  "mandate_ok m \<longleftrightarrow> 0 \<le> am_per_tx m \<and> am_per_tx m \<le> am_daily m \<and> am_daily m \<le> am_monthly m \<and> am_monthly m \<le> MAX_CAP"

definition caps_ok :: "ext \<Rightarrow> nat \<Rightarrow> mandate list \<Rightarrow> agent_request list \<Rightarrow> bool" where
  "caps_ok X n ms rs \<longleftrightarrow> distinct (map ar_id rs) \<and> list_all (\<lambda>r. 0 \<le> ar_amount r \<and> ar_id r < n \<and> ar_mandate r < n) rs
     \<and> distinct (map am_id ms) \<and> list_all (\<lambda>m. am_id m < n \<and> mandate_ok m \<and> within_caps X rs m) ms"

lemma caps_okD:
  assumes "caps_ok X n ms rs"
  shows "distinct (map ar_id rs)" "r \<in> set rs \<Longrightarrow> 0 \<le> ar_amount r" "r \<in> set rs \<Longrightarrow> ar_id r < n" "r \<in> set rs \<Longrightarrow> ar_mandate r < n"
    "m \<in> set ms \<Longrightarrow> am_id m < n" "m \<in> set ms \<Longrightarrow> mandate_ok m" "m \<in> set ms \<Longrightarrow> within_caps X rs m" "distinct (map am_id ms)"
  using assms by (auto simp: caps_ok_def list_all_iff)

lemma caps_ok_mono: "caps_ok X n ms rs \<Longrightarrow> n \<le> m \<Longrightarrow> caps_ok X m ms rs"
  by (fastforce simp: caps_ok_def list_all_iff)

lemma used_nonneg: "list_all (\<lambda>r. 0 \<le> ar_amount r) rs \<Longrightarrow> 0 \<le> used rs m P"
  unfolding used_def by (rule sum_list_nonneg) (auto simp: list_all_iff)

lemma used_Nil [simp]: "used [] m P = 0"
  by (simp add: used_def)

lemma used_Cons: "used (r # rs) m P = (if ar_mandate r = m \<and> ar_status r \<in> set ACTIVE_REQ \<and> P (ar_created r) then ar_amount r else 0) + used rs m P"
  by (simp add: used_def)

lemma used_append: "used (rs @ qs) m P = used rs m P + used qs m P"
  by (simp add: used_def)

text \<open>Requests stop counting, or go on.\<close>

definition fades :: "agent_request \<Rightarrow> agent_request \<Rightarrow> bool" where
  "fades r q \<longleftrightarrow> q = r\<lparr>ar_status := ar_status q, ar_failure := ar_failure q, ar_txn := ar_txn q\<rparr>
     \<and> (ar_status q \<in> set ACTIVE_REQ \<longrightarrow> ar_status r \<in> set ACTIVE_REQ)"

lemma fadesD:
  assumes "fades r q"
  shows "ar_id q = ar_id r" "ar_amount q = ar_amount r" "ar_mandate q = ar_mandate r" "ar_created q = ar_created r"
    "ar_status q \<in> set ACTIVE_REQ \<Longrightarrow> ar_status r \<in> set ACTIVE_REQ"
proof -
  have q: "q = r\<lparr>ar_status := ar_status q, ar_failure := ar_failure q, ar_txn := ar_txn q\<rparr>" using assms by (simp add: fades_def)
  show "ar_id q = ar_id r" "ar_amount q = ar_amount r" "ar_mandate q = ar_mandate r" "ar_created q = ar_created r" by (subst q; simp)+
  show "ar_status q \<in> set ACTIVE_REQ \<Longrightarrow> ar_status r \<in> set ACTIVE_REQ" using assms by (simp add: fades_def)
qed

lemma used_fades:
  assumes "list_all (\<lambda>r. 0 \<le> ar_amount r) rs" "\<And>r. r \<in> set rs \<Longrightarrow> Q r \<Longrightarrow> fades r (f r)"
  shows "used (upd_where Q f rs) m P \<le> used rs m P"
  using assms
proof (induction rs)
  case (Cons r rs)
  have IH: "used (upd_where Q f rs) m P \<le> used rs m P" by (rule Cons.IH) (use Cons.prems in auto)
  have r: "0 \<le> ar_amount r" "Q r \<Longrightarrow> fades r (f r)" using Cons.prems by auto
  show ?case
  proof (cases "Q r")
    case True
    note f = fadesD[OF r(2)[OF True]]
    show ?thesis using IH r(1) f(5) by (auto simp: upd_where_def used_Cons f True)
  qed (use IH in \<open>simp add: upd_where_def used_Cons\<close>)
qed (simp add: upd_where_def)

lemma caps_fade:
  assumes ok: "caps_ok X n ms rs" and f: "\<And>r. r \<in> set rs \<Longrightarrow> Q r \<Longrightarrow> fades r (f r)"
  shows "caps_ok X n ms (upd_where Q f rs)"
proof -
  have "list_all (\<lambda>r. 0 \<le> ar_amount r) rs" using ok by (auto simp: caps_ok_def list_all_iff)
  note u = used_fades[OF this f]
  have "within_caps X (upd_where Q f rs) m" if "m \<in> set ms" for m
    using caps_okD(7)[OF ok that] order_trans[OF u] by (simp add: within_caps_def)
  moreover have "map ar_id (upd_where Q f rs) = map ar_id rs" using fadesD(1)[OF f] by (auto simp: upd_where_def)
  moreover have "0 \<le> ar_amount r \<and> ar_id r < n \<and> ar_mandate r < n" if r: "r \<in> set (upd_where Q f rs)" for r
  proof -
    obtain q where q: "q \<in> set rs" "r = (if Q q then f q else q)" using r unfolding in_upd_where by blast
    then show ?thesis using fadesD(1-3)[OF f[OF q(1)]] caps_okD(2-4)[OF ok q(1)] by simp
  qed
  ultimately show ?thesis using ok by (simp add: caps_ok_def list_all_iff)
qed

lemma caps_new_request:
  assumes ok: "caps_ok X n ms rs" and r: "ar_id r = n" "0 \<le> ar_amount r" "ar_mandate r = am_id m" "m \<in> set ms"
    and u: "used rs (am_id m) (\<lambda>c. day_start X c = day_start X (ar_created r)) + ar_amount r \<le> am_daily m"
      "used rs (am_id m) (\<lambda>c. month_start X c = month_start X (ar_created r)) + ar_amount r \<le> am_monthly m"
  shows "caps_ok X (Suc n) ms (rs @ [r])"
proof -
  have "within_caps X (rs @ [r]) k" if k: "k \<in> set ms" for k
  proof (cases "k = m")
    case True
    have "used rs (am_id m) (\<lambda>c. day_start X c = d) \<le> am_daily m" "used rs (am_id m) (\<lambda>c. month_start X c = d) \<le> am_monthly m" for d
      using caps_okD(7)[OF ok k] by (simp_all add: within_caps_def True)
    then show ?thesis using u r(2) by (auto simp: within_caps_def used_append used_Cons True)
  next
    case False
    then have "am_id k \<noteq> am_id m" using caps_okD(8)[OF ok] k r(4) by (auto simp: distinct_map inj_on_def)
    then show ?thesis using caps_okD(7)[OF ok k] r(3) by (simp add: within_caps_def used_append used_Cons)
  qed
  moreover have "ar_id q \<noteq> n" if "q \<in> set rs" for q using caps_okD(3)[OF ok that] by simp
  ultimately show ?thesis using ok r caps_okD(5)[OF ok r(4)] by (auto simp: caps_ok_def list_all_iff intro: less_SucI)
qed

lemma caps_new_mandate:
  assumes ok: "caps_ok X n ms rs" and m: "am_id m = n" "mandate_ok m"
  shows "caps_ok X (Suc n) (ms @ [m]) rs"
proof -
  have "used rs n P = 0" for P
  proof -
    have "filter (\<lambda>r. ar_mandate r = n \<and> ar_status r \<in> set ACTIVE_REQ \<and> P (ar_created r)) rs = []"
      using caps_okD(4)[OF ok] by (auto simp: filter_empty_conv)
    then show ?thesis by (simp only: used_def list.map sum_list.Nil)
  qed
  then have "within_caps X rs m" using m by (simp add: within_caps_def mandate_ok_def)
  moreover have "am_id q \<noteq> n" if "q \<in> set ms" for q using caps_okD(5)[OF ok that] by simp
  ultimately show ?thesis using ok m by (auto simp: caps_ok_def list_all_iff intro: less_SucI)
qed

lemma caps_revoke: "caps_ok X n ms rs \<Longrightarrow> caps_ok X n (upd_where P (\<lambda>m. m\<lparr>am_status := st\<rparr>) ms) rs"
  by (auto simp: caps_ok_def list_all_iff in_upd_where mandate_ok_def within_caps_def split: if_splits)

end
