(* ===== verification/Agent_Safety.thy ===== *)
theory Agent_Safety
  imports Agent_Books Escrow_System
begin

text \<open>
  The contract of intents, refunds and mandates: the money in the wallets stays, and the tables
  stay in order.  First the arithmetic of amounts in cents, then the operations that move no
  money, and refunds.
\<close>

section \<open>Amounts in cents\<close>

lemma r2_num: "r2 x = num (1000000 * math_round (fl (x * 100)))"
  by (simp add: r2_def num_def)

lemma r2_near: "near e x (1000000 * k) \<Longrightarrow> \<bar>1000000 * k\<bar> \<le> MAXU \<Longrightarrow> e \<le> 1 \<Longrightarrow> r2 x = num (1000000 * k)"
  unfolding r2_def by (rule cents_near)

text \<open>A stored amount of at most a single transfer is a whole number of cents.\<close>

lemma stored_amount:
  assumes "1 \<le> r2 x"
  shows "0 < to_units (r2 x)" "to_units (r2 x) \<le> 10 ^ 13 \<Longrightarrow> 1000000 dvd to_units (r2 x)"
proof -
  define k where "k = math_round (fl (x * 100))"
  have x: "r2 x = num (1000000 * k)" by (simp add: r2_num k_def)
  have "1 * 10 ^ 8 \<le> to_units (r2 x)" by (rule to_units_ge) (use assms in simp_all)
  then show "0 < to_units (r2 x)" by simp
  show "1000000 dvd to_units (r2 x)" if le: "to_units (r2 x) \<le> 10 ^ 13"
  proof (cases "1000000 * k \<le> MAXU")
    case True
    moreover have "0 < 1000000 * k" using assms x num_pos_iff[of "1000000 * k"] by linarith
    ultimately have "to_units (r2 x) = 1000000 * k" unfolding x by (intro to_units_num) simp
    then show ?thesis by simp
  next
    case False
    then have "num (10 ^ 15) \<le> r2 x" unfolding x MAXU_def by (intro num_mono) simp
    moreover have "num (10 ^ 15) = of_int (10 ^ 7)" using fl_of_int[of "10 ^ 7"] by (simp add: num_def)
    ultimately have "10 ^ 7 * 10 ^ 8 \<le> to_units (r2 x)" by (intro to_units_ge) simp_all
    with le show ?thesis by simp
  qed
qed

text \<open>What is left of a payment, what a refund takes of it, and what the row says afterwards.\<close>

lemma penny: "PENNY * 10 ^ 8 \<le> 1 / 5" "0 \<le> PENNY"
proof -
  have "near (1 / 10) (1 / 10 ^ 9) 0" by (simp add: near_def)
  from js.near_rnd_tight[OF this] show "PENNY * 10 ^ 8 \<le> 1 / 5" by (simp add: PENNY_def near_def abs_le_iff)
  show "0 \<le> PENNY" by (simp add: PENNY_def fl_nonneg_iff)
qed

lemma refund_amounts:
  fixes a b :: int
  assumes a: "pi_amount i = 1000000 * a" "1000000 * a \<le> 10 ^ 13" and b: "pi_refunded i = 1000000 * b" "0 \<le> b" "b \<le> a"
    and x: "amt = r2 x" "\<not> amt \<le> 0" "\<not> amt > fl (refundable i + PENNY)"
  obtains k where "amt = num (1000000 * k)" "0 < k" "b + k \<le> a" "r2 (fl (num (pi_refunded i) + amt)) = num (1000000 * (b + k))"
    "fl (num (pi_amount i) - PENNY) \<le> num (1000000 * (b + k)) \<longleftrightarrow> b + k = a"
proof
  let ?k = "math_round (fl (x * 100))"
  show amt: "amt = num (1000000 * ?k)" by (simp add: x(1) r2_num)
  show k: "0 < ?k" using x(2) num_pos_iff[of "1000000 * ?k"] amt by simp
  have bounds: "\<bar>1000000 * a\<bar> \<le> MAXU" "\<bar>1000000 * b\<bar> \<le> MAXU" "\<bar>1000000 * (a - b)\<bar> \<le> MAXU"
    using a(2) b by (simp_all add: MAXU_def)
  have left: "refundable i = num (1000000 * (a - b))"
    unfolding refundable_def a(1) b(1)
    by (rule r2_near[OF js.near_minus[OF near_num near_num, of "1000000 * a" "1000000 * b", unfolded right_diff_distrib[symmetric]]])
      (use bounds in \<open>auto simp: ulp_def right_diff_distrib\<close>)
  have near_penny: "near (1/5) PENNY 0" using penny by (simp add: near_def)
  have up: "near (ulp + 1/5 + ulp) (fl (num (1000000 * (a - b)) + PENNY)) (1000000 * (a - b))"
    using js.near_plus[OF near_num[OF bounds(3)] near_penny] bounds(3) by (simp add: ulp_def)
  show le: "b + ?k \<le> a"
  proof (rule ccontr)
    assume "\<not> b + ?k \<le> a"
    then have "num (1000000 * (a - b + 1)) \<le> amt" unfolding amt by (intro num_mono) simp
    also have "amt \<le> fl (num (1000000 * (a - b)) + PENNY)" using x(3) left by simp
    finally have "num (1000000 * (a - b + 1)) * 10 ^ 8 \<le> fl (num (1000000 * (a - b)) + PENNY) * 10 ^ 8"
      by (rule mult_right_mono) simp
    moreover have "near ulp (num (1000000 * (a - b + 1))) (1000000 * (a - b + 1))"
      by (rule near_num) (use a(2) b in \<open>simp add: MAXU_def\<close>)
    ultimately show False using up unfolding near_def ulp_def abs_le_iff by simp
  qed
  have sum: "\<bar>1000000 * (b + ?k)\<bar> \<le> MAXU" "\<bar>1000000 * ?k\<bar> \<le> MAXU" using a(2) b k le by (simp_all add: MAXU_def)
  show "r2 (fl (num (pi_refunded i) + amt)) = num (1000000 * (b + ?k))"
    unfolding amt b(1)
    by (rule r2_near[OF js.near_plus[OF near_num near_num, of "1000000 * b" "1000000 * ?k", unfolded distrib_left[symmetric]]])
      (use bounds sum in \<open>auto simp: ulp_def distrib_left\<close>)
  have down: "near (ulp + 1/5 + ulp) (fl (num (1000000 * a) - PENNY)) (1000000 * a)"
    using js.near_minus[OF near_num[OF bounds(1)] near_penny] bounds(1) by (simp add: ulp_def)
  show "fl (num (pi_amount i) - PENNY) \<le> num (1000000 * (b + ?k)) \<longleftrightarrow> b + ?k = a"
  proof
    assume "b + ?k = a"
    moreover have "fl (num (1000000 * a) - PENNY) \<le> fl (num (1000000 * a))"
      using penny(2) by (intro fl_mono) simp
    moreover have "fl (num (1000000 * a)) = num (1000000 * a)" by (simp only: num_def fl_fl)
    ultimately show "fl (num (pi_amount i) - PENNY) \<le> num (1000000 * (b + ?k))" by (simp only: a(1))
  next
    assume h: "fl (num (pi_amount i) - PENNY) \<le> num (1000000 * (b + ?k))"
    show "b + ?k = a"
    proof (rule ccontr)
      assume "b + ?k \<noteq> a"
      then have "1000000 * (b + ?k) + 1000000 \<le> 1000000 * a" using le by simp
      moreover have "fl (num (1000000 * a) - PENNY) * 10 ^ 8 \<le> num (1000000 * (b + ?k)) * 10 ^ 8"
        using h unfolding a(1) by (rule mult_right_mono) simp
      ultimately show False using down near_num[OF sum(1)] unfolding near_def ulp_def abs_le_iff by simp
    qed
  qed
qed


text \<open>A check of a cap in doubles is exact.\<close>

lemma num_bound: assumes "num k \<le> num d" "0 \<le> d" "d \<le> MAX_CAP" shows "k \<le> d"
proof (rule ccontr)
  assume "\<not> k \<le> d"
  then have "num (d + 1) \<le> num d" using num_mono[of "d + 1" k] assms(1) by simp
  then show False using assms(2,3) by (simp add: num_le_iff MAXU_def MAX_CAP_def)
qed

lemma cap_check:
  assumes "fl (num x + num a) \<le> num d" "0 \<le> x" "0 \<le> a" "0 \<le> d" "d \<le> MAX_CAP"
  shows "x + a \<le> d"
proof -
  have "fl (num x) \<le> fl (num x + num a)" "fl (num a) \<le> fl (num x + num a)" using assms(2,3) by (auto intro!: fl_mono)
  then have "num x \<le> num d" "num a \<le> num d" using assms(1) by (simp_all only: num_def fl_fl)
  then have "x \<le> d" "a \<le> d" using assms(4,5) by (auto intro: num_bound)
  then have "x \<le> MAXU" "a \<le> MAXU" "x + a \<le> MAXU" "d \<le> MAXU" using assms(5) by (simp_all add: MAXU_def MAX_CAP_def)
  then show ?thesis using near_sum_le[OF assms(2) _ assms(3) _ _ assms(4) _ assms(1)] by blast
qed

section \<open>The contract\<close>

text \<open>The start of a day or month is not after the times in it.\<close>

definition calendar :: "ext \<Rightarrow> bool" where
  "calendar X \<longleftrightarrow> (\<forall>t. day_start X t \<le> t \<and> month_start X t \<le> t)"

definition agent_inv :: "ext \<Rightarrow> 'a agent_db_scheme \<Rightarrow> bool" where
  "agent_inv X s \<longleftrightarrow> wallet_keys s \<and> rules_ok percent_only {TransferFee} s \<and> calendar X \<and> max_monthly s \<le> 5000000
     \<and> intents_ok (seq s) (intents s) (refunds s) (business_payments s) \<and> caps_ok X (seq s) (mandates s) (agent_requests s)"

definition agent_rel :: "ext \<Rightarrow> 'a agent_db_scheme \<Rightarrow> 'a agent_db_scheme \<Rightarrow> bool" where
  "agent_rel X s t \<longleftrightarrow> agent_inv X t \<and> total t = total s \<and> intents_move (intents s) (intents t)"

interpretation agents: step_contract "agent_inv X" "agent_rel X"
proof
  fix s t u :: "'a agent_db_scheme"
  show "agent_inv X s \<Longrightarrow> agent_rel X s s" by (simp add: agent_rel_def intents_move_refl)
  show "agent_rel X s t \<Longrightarrow> agent_rel X t u \<Longrightarrow> agent_rel X s u"
    unfolding agent_rel_def using intents_move_trans[of "intents s" "intents t" "intents u"] by simp
  show "agent_inv X s \<Longrightarrow> agent_rel X s t \<Longrightarrow> agent_inv X t" by (simp add: agent_rel_def)
qed

lemma agent_invD:
  assumes "agent_inv X s"
  shows "wallet_keys s" "rules_ok percent_only {TransferFee} s" "calendar X" "max_monthly s \<le> 5000000"
    "intents_ok (seq s) (intents s) (refunds s) (business_payments s)" "caps_ok X (seq s) (mandates s) (agent_requests s)"
  using assms by (auto simp: agent_inv_def)

lemma agent_step:
  assumes "agent_inv X s" "wallets t = wallets s" "same_fees s t" "fee_cache t = fee_cache s" "agent_settings t = agent_settings s"
    and "intents_ok (seq t) (intents t) (refunds t) (business_payments t)" "caps_ok X (seq t) (mandates t) (agent_requests t)"
    and "intents_move (intents s) (intents t)"
  shows "agent_rel X s t"
proof -
  have "wallet_keys t" "total t = total s" using assms(1,2) by (simp_all add: agent_inv_def wallet_keys_def total_def)
  moreover have "rules_ok percent_only {TransferFee} t" by (rule rules_ok_cong[OF agent_invD(2)[OF assms(1)] assms(3,4)])
  moreover have "max_monthly t \<le> 5000000" using agent_invD(4)[OF assms(1)] by (simp add: max_monthly_def assms(5))
  ultimately show ?thesis using assms(6-8) agent_invD(3)[OF assms(1)] by (simp add: agent_rel_def agent_inv_def)
qed

lemma agent_same:
  assumes "agent_inv X s" "wallets t = wallets s" "same_fees s t" "fee_cache t = fee_cache s" "agent_settings t = agent_settings s" "seq s \<le> seq t"
    "intents t = intents s" "refunds t = refunds s" "business_payments t = business_payments s" "mandates t = mandates s" "agent_requests t = agent_requests s"
  shows "agent_rel X s t"
  using agent_invD(5,6)[OF assms(1)] assms(6)
  by (intro agent_step[OF assms(1-5)]) (simp_all add: assms(7-11) intents_ok_mono caps_ok_mono intents_move_refl)

lemma agent_quiet: "quiet m \<Longrightarrow> safe_op (agent_inv X) (agent_rel X) m"
proof (rule agents.safeI)
  fix s :: "'a agent_db_scheme"
  assume m: "quiet m" and s: "agent_inv X s"
  have "agent_rel X s (s\<lparr>outbox := x, cache := c\<rparr>)" for x c by (rule agent_same[OF s]) (simp_all add: same_fees_def)
  then show "wp m (\<lambda>_. agent_rel X s) (\<lambda>_. agent_rel X s) s" by (intro wp_quiet[OF m])
qed

lemma agent_emit: "safe_op (agent_inv X) (agent_rel X) (emit e)"
  by (rule agent_quiet[OF quiet_emit])

lemma agent_users: "agent_inv X s \<Longrightarrow> agent_rel X s (s\<lparr>users := us, biometrics := bs\<rparr>)"
  by (rule agent_same) (simp_all add: same_fees_def)

lemma agent_pin: "safe_op (agent_inv X) (agent_rel X) (verifyPin X' u pin)"
proof (rule agents.safeI)
  fix s :: "'a agent_db_scheme"
  assume s: "agent_inv X s"
  show "wp (verifyPin X' u pin) (\<lambda>_. agent_rel X s) (\<lambda>_. agent_rel X s) s"
    using agent_users[OF s, where bs = "biometrics s"] by (intro verifyPin_frame) simp_all
qed

lemma agent_intents:
  assumes "agent_inv X s" "\<And>i. i \<in> set (intents s) \<Longrightarrow> P i \<Longrightarrow> shift_ok i (f i)"
  shows "agent_rel X s (intents_update (upd_where P f) s)"
  using intents_shift[OF agent_invD(5)[OF assms(1)], of P f] assms(2) agent_invD(6)[OF assms(1)]
  by (intro agent_step[OF assms(1)]) (simp_all add: same_fees_def)

lemma agent_requests_fade:
  assumes "agent_inv X s" "\<And>r. r \<in> set (agent_requests s) \<Longrightarrow> Q r \<Longrightarrow> fades r (f r)"
  shows "agent_rel X s (agent_requests_update (upd_where Q f) s)"
  using caps_fade[OF agent_invD(6)[OF assms(1)], of Q f] assms(2) agent_invD(5)[OF assms(1)]
  by (intro agent_step[OF assms(1)]) (simp_all add: same_fees_def intents_move_refl)

lemma agent_update_intents:
  "(\<And>i. P i \<Longrightarrow> shift_ok i (f i)) \<Longrightarrow> safe_op (agent_inv X) (agent_rel X) (update_many intents intents_update P f)"
  by (rule agents.safeI) (simp add: wp_update_many agent_intents)

lemma agent_update_requests:
  "(\<And>r. Q r \<Longrightarrow> fades r (f r)) \<Longrightarrow> safe_op (agent_inv X) (agent_rel X) (update_many agent_requests agent_requests_update Q f)"
  by (rule agents.safeI) (simp add: wp_update_many agent_requests_fade)

section \<open>Intents without money\<close>

lemma agent_ensure: "safe_op (agent_inv X) (agent_rel X) ensure_agents"
  unfolding ensure_agents_def by (intro agents.safe_rules)

lemma agent_business: "safe_op (agent_inv X) (agent_rel X) (known_business i)"
  unfolding known_business_def by (intro agents.safe_rules)

lemma agent_expire: "safe_op (agent_inv X) (agent_rel X) (expireIntents P)"
  unfolding expireIntents_def
  by (intro agents.safe_rules agent_update_intents) (simp add: shift_ok_def intent_paid_def intent_closed_def)

lemma agent_own: "safe_op (agent_inv X) (agent_rel X) (ownIntent b i live)"
  unfolding ownIntent_def by (intro agents.safe_rules agent_expire)

lemma agent_get: "safe_op (agent_inv X) (agent_rel X) (getIntent b i live)"
  unfolding getIntent_def by (rule agent_own)

lemma agent_list: "safe_op (agent_inv X) (agent_rel X) (listIntents b live st)"
  unfolding listIntents_def by (intro agents.safe_rules agent_expire)

lemma agent_cancel: "safe_op (agent_inv X) (agent_rel X) (cancelIntent b i live)"
  unfolding cancelIntent_def
  by (intro agents.safe_rules agent_own agent_get agent_update_intents agent_update_requests)
    (simp_all add: shift_ok_def fades_def intent_paid_def intent_closed_def ACTIVE_REQ_def)

lemma agent_simulate: "safe_op (agent_inv X) (agent_rel X) (simulateIntent b i)"
  unfolding simulateIntent_def
  by (intro agents.safe_rules agent_own agent_get agent_update_intents agent_emit) (simp add: shift_ok_def)

lemma agent_public: "safe_op (agent_inv X) (agent_rel X) (publicIntent i)"
  unfolding publicIntent_def by (intro agents.safe_rules agent_ensure agent_expire agent_business)

lemma agent_create: "safe_op (agent_inv X) (agent_rel X) (createIntent c dto idem)"
proof (rule agents.safeI)
  fix s :: "'a agent_db_scheme"
  assume s: "agent_inv X s"
  let ?i = "\<lambda>n t e. \<lparr>pi_id = n, pi_business = cx_business c, pi_live = cx_live c, pi_amount = to_units (r2 (id_amount dto)), pi_status = IRequires,
      pi_payer = None, pi_txn = None, pi_refunded = 0, pi_key = idem, pi_expires = e, pi_created = t\<rparr>"
  have "agent_rel X s (intents_update (\<lambda>rows. rows @ [?i (seq s) t e]) (s\<lparr>seq := Suc (seq s)\<rparr>))" if "\<not> r2 (id_amount dto) < 1" for t e
  proof -
    have "intents_ok (Suc (seq s)) (intents s @ [?i (seq s) t e]) (refunds s) (business_payments s)"
      using stored_amount[of "id_amount dto"] that by (intro intents_new[OF agent_invD(5)[OF s]]) simp_all
    then show ?thesis
      using agent_invD(6)[OF s] by (intro agent_step[OF s]) (simp_all add: same_fees_def intents_move_append caps_ok_mono)
  qed
  then show "wp (createIntent c dto idem) (\<lambda>_. agent_rel X s) (\<lambda>_. agent_rel X s) s"
    using agents.rel_refl[OF s] by (simp add: createIntent_def ensure_agents_def wp_simps split: option.split)
qed

section \<open>Refunds\<close>

lemma refund_money_wp:
  fixes s :: "'a agent_db_scheme"
  assumes keys: "wallet_keys s" and amt: "amt = num k" "\<bar>k\<bar> \<le> MAXU"
    and Q: "\<And>ws ts es x. distinct (map w_id ws) \<Longrightarrow> sum_list (map w_balance ws) = total s
      \<Longrightarrow> Q x (s\<lparr>wallets := ws, seq := Suc (seq s), txns := ts, ledger := es\<rparr>)"
    and E: "\<And>e f. E e (wallets_update f s)"
  shows "wp (refund_money c payer amt) Q E s"
proof -
  have e: "E e s" for e using E[of e "\<lambda>_. wallets s"] by simp
  have both: "wp (refund_money c payer amt) Q E s" if w: "active_wallet s (cx_owner c) = Some from" "find (\<lambda>w. w_user w = payer \<and> w_active w) (wallets s) = Some to" for "from" to
  proof -
    let ?P = "\<lambda>w. w_id w = w_id from \<and> of_int (w_balance w) \<ge> sql amt"
    let ?ws = "upd_where ?P (dec_balance amt) (wallets s)"
    let ?u = "wallets_update (upd_where ?P (dec_balance amt)) s"
    have ids: "map w_id ?ws = map w_id (wallets s)" by simp
    have keys': "distinct (map w_id (wallets s))" using keys by (simp add: wallet_keys_def)
    have one: "sum_list (map w_balance ?ws) = total s - k" if n: "length (filter ?P (wallets s)) = 1"
    proof -
      from n obtain r where "r \<in> set (filter ?P (wallets s))" by (cases "filter ?P (wallets s)") auto
      then have r: "r \<in> set (wallets s)" "?P r" by auto
      have "sum_list (map w_balance ?ws) = sum_list (map w_balance (wallets s)) + (w_balance (dec_balance amt r) - w_balance r)"
        by (rule sum_upd_one[where key = w_id and P = ?P, OF keys' r]) (use r in simp)
      then show ?thesis by (simp add: amt dec_dec_num[OF amt(2)] total_def)
    qed
    have "to \<in> set (wallets s)" using find_Some[OF w(2)] by simp
    then obtain to' where to': "find_row w_id (w_id to) ?ws = Some to'"
      using find_row_None[of w_id "w_id to" ?ws] ids by (metis (no_types, lifting) image_eqI list.set_map not_Some_eq)
    let ?vs = "upd_row w_id (w_id to) (inc_balance amt) ?ws"
    have sum: "sum_list (map w_balance ?vs) = sum_list (map w_balance ?ws) + k"
      using sum_upd_row[OF to', of w_balance "inc_balance amt"] ids keys' by (simp add: amt dec_inc_num[OF amt(2)])
    have "distinct (map w_id ?vs)" using ids keys' by simp
    note fin = Q[OF this]
    show ?thesis
      using w e E one sum to' fin
      by (auto simp: refund_money_def wp_simps wallet_by_id_def)
  qed
  show ?thesis
  proof (cases "active_wallet s (cx_owner c) = None \<or> find (\<lambda>w. w_user w = payer \<and> w_active w) (wallets s) = None")
    case True
    then show ?thesis using e by (auto simp: refund_money_def wp_bnd wp_gets wp_throw split: option.split)
  next
    case False
    then show ?thesis using both by (metis option.exhaust)
  qed
qed


text \<open>What a refund of a live intent comes to in units.\<close>

lemma refund_units:
  assumes ok: "intent_ok rf bp i" "pi_live i" "pi_status i \<in> {ISucceeded, IPartlyRefunded}"
    and amt: "amt = r2 x" "\<not> amt \<le> 0" "\<not> amt > fl (refundable i + PENNY)" and y: "y = r2 (fl (num (pi_refunded i) + amt))"
  obtains k where "amt = num k" "\<bar>k\<bar> \<le> MAXU" "0 < k" "1000000 dvd k" "pi_refunded i + k \<le> pi_amount i" "to_units y = pi_refunded i + k"
    "fl (num (pi_amount i) - PENNY) \<le> y \<longleftrightarrow> pi_refunded i + k = pi_amount i"
proof -
  have p: "paid_ok bp i" "1000000 dvd pi_amount i"
    using ok by (auto simp: intent_ok_def intent_paid_def paid_ok_def)
  obtain a b where ab: "pi_amount i = 1000000 * a" "pi_refunded i = 1000000 * b"
    using p by (auto simp: paid_ok_def elim!: dvdE)
  have le: "1000000 * a \<le> 10 ^ 13" "0 \<le> b" "b \<le> a" using p(1) ab by (auto simp: paid_ok_def)
  obtain k where k: "amt = num (1000000 * k)" "0 < k" "b + k \<le> a" "y = num (1000000 * (b + k))"
      "fl (num (pi_amount i) - PENNY) \<le> num (1000000 * (b + k)) \<longleftrightarrow> b + k = a"
    using refund_amounts[OF ab(1) le(1) ab(2) le(2,3) amt] unfolding y by blast
  have "\<bar>1000000 * k\<bar> \<le> MAXU" "\<bar>1000000 * (b + k)\<bar> \<le> MAXU" using le k(2,3) by (simp_all add: MAXU_def)
  then show thesis using k ab by (intro that[of "1000000 * k"]) (auto simp: distrib_left)
qed

lemma refund_rel:
  fixes s t :: "'a agent_db_scheme"
  assumes s: "agent_inv X s" and i: "i \<in> set (intents s)" "pi_status i \<in> {ISucceeded, IPartlyRefunded}"
    and fit: "pi_live i \<Longrightarrow> 0 < rf_amount r \<and> 1000000 dvd rf_amount r \<and> pi_refunded i + rf_amount r \<le> pi_amount i
        \<and> y = pi_refunded i + rf_amount r \<and> st = (if y = pi_amount i then IRefunded else IPartlyRefunded)" and r: "rf_intent r = pi_id i"
    and t: "wallet_keys t" "total t = total s" "same_fees s t" "fee_cache t = fee_cache s" "agent_settings t = agent_settings s"
      "intents t = upd_row pi_id (pi_id i) (\<lambda>j. j\<lparr>pi_refunded := y, pi_status := st\<rparr>) (intents s)" "refunds t = refunds s @ [r]"
      "business_payments t = business_payments s" "mandates t = mandates s" "agent_requests t = agent_requests s" "seq s \<le> seq t"
  shows "agent_rel X s t"
proof -
  note step = intents_refunded[OF agent_invD(5)[OF s] i r refl fit]
  have "rules_ok percent_only {TransferFee} t" by (rule rules_ok_cong[OF agent_invD(2)[OF s] t(3,4)])
  moreover have "max_monthly t \<le> 5000000" using agent_invD(4)[OF s] by (simp add: max_monthly_def t(5))
  moreover have "caps_ok X (seq t) (mandates t) (agent_requests t)"
    using caps_ok_mono[OF agent_invD(6)[OF s] t(11)] by (simp add: t(9,10))
  moreover have "intents_ok (seq t) (intents t) (refunds t) (business_payments t)"
    using intents_ok_mono[OF step(1) t(11)] by (simp add: t(6-8))
  moreover have "intents_move (intents s) (intents t)" using step(2) by (simp add: t(6))
  ultimately show ?thesis using t(1,2) agent_invD(3)[OF s] by (simp add: agent_rel_def agent_inv_def)
qed

text \<open>The transaction of a refund, its amounts given.\<close>

lemma refund_payment_tx_safe:
  fixes s :: "'a agent_db_scheme"
  assumes s: "agent_inv X s" and i: "i \<in> set (intents s)" "pi_status i \<in> {ISucceeded, IPartlyRefunded}" "pi_live i = cx_live c"
    and fit: "pi_live i \<Longrightarrow> \<exists>k. amt = num k \<and> \<bar>k\<bar> \<le> MAXU \<and> 0 < k \<and> 1000000 dvd k \<and> pi_refunded i + k \<le> pi_amount i
        \<and> to_units y = pi_refunded i + k \<and> st = (if pi_refunded i + k = pi_amount i then IRefunded else IPartlyRefunded)"
  shows "wp (refund_payment_tx c i amt y st idem) (\<lambda>_. agent_rel X s) (\<lambda>_. agent_rel X s) s"
proof -
  define P where "P x \<longleftrightarrow> pi_id x = pi_id i \<and> pi_refunded x = pi_refunded i \<and> pi_status x = pi_status i" for x :: intent
  define f where "f x = x\<lparr>pi_refunded := to_units y, pi_status := st\<rparr>" for x :: intent
  have fun_f: "f = (\<lambda>x. x\<lparr>pi_refunded := to_units y, pi_status := st\<rparr>)" by (simp add: f_def fun_eq_iff)
  define R where "R x n m = \<lparr>rf_id = n, rf_intent = pi_id i, rf_business = cx_business c, rf_live = cx_live c, rf_amount = to_units amt,
        rf_txn = x, rf_key = idem, rf_created = m\<rparr>" for x n m
  define u where "u = intents_update (upd_where P f) s"
  let ?E = "\<lambda>e t. agent_rel X s (s\<lparr>fee_cache := fee_cache t\<rparr>)"
  have undone: "?E e t" if "fee_cache t = fee_cache s" for e and t :: "'a agent_db_scheme"
    using agents.rel_refl[OF s] by (simp add: that)
  have only: "upd_where P f (intents s) = upd_row pi_id (pi_id i) f (intents s)"
    using one_intent[OF agent_invD(5)[OF s] _ i(1)] by (auto simp: upd_where_def upd_row_def P_def)
  have u: "wallet_keys u" "total u = total s" "same_fees s u" "fee_cache u = fee_cache s" "agent_settings u = agent_settings s"
    "intents u = upd_row pi_id (pi_id i) f (intents s)" "refunds u = refunds s" "business_payments u = business_payments s"
    "mandates u = mandates s" "agent_requests u = agent_requests s" "seq u = seq s"
    using agent_invD(1)[OF s] by (simp_all add: u_def same_fees_def wallet_keys_def total_def only)
  have fit': "0 < to_units amt \<and> 1000000 dvd to_units amt \<and> pi_refunded i + to_units amt \<le> pi_amount i \<and> to_units y = pi_refunded i + to_units amt
        \<and> st = (if to_units y = pi_amount i then IRefunded else IPartlyRefunded)" if "pi_live i"
    using fit[OF that] by (elim exE conjE) (simp only: to_units_num simp_thms)
  let ?rest = "\<lambda>x. wp (bnd fresh (\<lambda>n. bnd (gets now) (\<lambda>m. thn (insert_row refunds_update (R x n m)) (ret (R x n m))))) (\<lambda>_. agent_rel X s) ?E"
  have rest: "?rest x v" if v: "distinct (map w_id (wallets v))" "total v = total s" "same_fees u v" "fee_cache v = fee_cache u" "core.more v = core.more u" "seq u \<le> seq v"
    for x and v :: "'a agent_db_scheme"
  proof -
    have more: "agent_settings v = agent_settings u" "intents v = intents u" "refunds v = refunds u" "business_payments v = business_payments u"
      "mandates v = mandates u" "agent_requests v = agent_requests u" using v(5) by (cases u, cases v, simp)+
    show ?thesis
      unfolding wp_bnd wp_fresh wp_gets wp_thn wp_insert_row wp_ret
      by (rule refund_rel[OF s i(1,2), where r = "R x (seq v) (now v)" and y = "to_units y" and st = st])
        (use fit' v u in \<open>simp_all add: R_def fun_f more total_def same_fees_def wallet_keys_def\<close>)
  qed
  have "wp (bnd (if cx_live c then bnd (refund_money c (pi_payer i) amt) (\<lambda>t. ret (Some t)) else ret None) (\<lambda>x. bnd fresh (\<lambda>n. bnd (gets now) (\<lambda>m.
        thn (insert_row refunds_update (R x n m)) (ret (R x n m)))))) (\<lambda>_. agent_rel X s) ?E u"
  proof (cases "cx_live c")
    case True
    obtain k where k: "amt = num k" "\<bar>k\<bar> \<le> MAXU" using fit True i(3) by auto
    have "wp (refund_money c (pi_payer i) amt) (\<lambda>x. ?rest (Some x)) ?E u"
    proof (rule refund_money_wp[OF u(1) k], goal_cases)
      case 1
      then show ?case by (intro rest) (simp_all add: u(11) u(2)[unfolded total_def] same_fees_def total_def)
    next
      case 2
      show ?case by (rule undone) (simp add: u)
    qed
    then show ?thesis using True by (simp only: if_True wp_bnd[of "bnd _ _"] wp_bnd[of "refund_money _ _ _"] wp_ret_eta)
  next
    case False
    have "?rest None u" using u by (intro rest) (simp_all add: wallet_keys_def same_fees_def)
    then show ?thesis using False by (simp only: if_False wp_bnd[of "ret _"] wp_ret)
  qed
  then show ?thesis
    unfolding refund_payment_tx_def Let_def P_def[symmetric] f_def[symmetric] R_def[symmetric] wp_transaction wp_bnd[of "update_many _ _ _ _"] wp_update_many u_def[symmetric]
    by (auto simp: wp_throw intro: undone u)
qed

lemma refund_intent_safe:
  fixes s :: "'a agent_db_scheme"
  assumes s: "agent_inv X s" and i: "i \<in> set (intents s)" "pi_live i = cx_live c"
  shows "wp (refund_intent c i amount idem) (\<lambda>_. agent_rel X s) (\<lambda>_. agent_rel X s) s"
proof -
  let ?amt = "r2 (case amount of None \<Rightarrow> refundable i | Some a \<Rightarrow> a)"
  let ?y = "r2 (fl (num (pi_refunded i) + ?amt))"
  have "wp (bnd (refund_payment_tx c i ?amt ?y (if fl (num (pi_amount i) - PENNY) \<le> ?y then IRefunded else IPartlyRefunded) idem)
      (\<lambda>r. thn (emit (Webhook (cx_business c) (cx_live c) ''refund.succeeded'' (rf_id r))) (ret r))) (\<lambda>_. agent_rel X s) (\<lambda>_. agent_rel X s) s"
    if open_intent: "pi_status i \<in> {ISucceeded, IPartlyRefunded}" and amt: "\<not> ?amt \<le> 0" "\<not> ?amt > fl (refundable i + PENNY)"
  proof (rule agents.safe_after[OF s refund_payment_tx_safe[OF s i(1) open_intent i(2)]])
    assume "pi_live i"
    from refund_units[OF intents_okD(3)[OF agent_invD(5)[OF s] i(1)] this open_intent refl amt refl]
    show "\<exists>k. ?amt = num k \<and> \<bar>k\<bar> \<le> MAXU \<and> 0 < k \<and> 1000000 dvd k \<and> pi_refunded i + k \<le> pi_amount i \<and> to_units ?y = pi_refunded i + k
        \<and> (if fl (num (pi_amount i) - PENNY) \<le> ?y then IRefunded else IPartlyRefunded) = (if pi_refunded i + k = pi_amount i then IRefunded else IPartlyRefunded)"
      by metis
  qed (intro agents.safe_rules agent_emit)
  then show ?thesis
    using agents.rel_refl[OF s] by (auto simp: refund_intent_def Let_def wp_if wp_throw)
qed


lemma own_intent_wp:
  fixes s :: "'a agent_db_scheme"
  assumes s: "agent_inv X s"
    and Q: "\<And>r qs. agent_rel X s (s\<lparr>intents := qs\<rparr>) \<Longrightarrow> r \<in> set qs \<Longrightarrow> pi_id r = i \<Longrightarrow> (\<And>l. live = Some l \<Longrightarrow> pi_live r = l)
      \<Longrightarrow> Q r (s\<lparr>intents := qs\<rparr>)"
    and E: "\<And>e qs. agent_rel X s (s\<lparr>intents := qs\<rparr>) \<Longrightarrow> E e (s\<lparr>intents := qs\<rparr>)"
  shows "wp (ownIntent b i live) Q E s"
proof -
  let ?f = "upd_where (\<lambda>r. pi_id r = i \<and> pi_status r = IRequires \<and> pi_expires r \<le> now s) (\<lambda>r. r\<lparr>pi_status := IExpired\<rparr>)"
  have "agent_rel X s (intents_update ?f s)"
    by (rule agent_intents[OF s]) (simp add: shift_ok_def intent_paid_def intent_closed_def)
  moreover have u: "intents_update ?f s = s\<lparr>intents := ?f (intents s)\<rparr>" by simp
  ultimately have rel: "agent_rel X s (s\<lparr>intents := ?f (intents s)\<rparr>)" by simp
  show ?thesis
    unfolding ownIntent_def expireIntents_def wp_thn wp_bnd wp_gets wp_update_many wp_ret u
    using Q[OF rel] E[OF rel] by (auto simp: wp_throw wp_ret intent_row_def dest!: find_row_Some split: option.split)
qed

lemma refund_owned_safe:
  "safe_op (agent_inv X) (agent_rel X) (bnd (ownIntent (cx_business c) i (Some (cx_live c))) (\<lambda>r. refund_intent c r amount idem))"
proof (rule agents.safeI)
  fix s :: "'a agent_db_scheme"
  assume s: "agent_inv X s"
  show "wp (bnd (ownIntent (cx_business c) i (Some (cx_live c))) (\<lambda>r. refund_intent c r amount idem)) (\<lambda>_. agent_rel X s) (\<lambda>_. agent_rel X s) s"
    unfolding wp_bnd
  proof (rule own_intent_wp[OF s], goal_cases)
    case (1 r qs)
    have "wp (refund_intent c r amount idem) (\<lambda>_. agent_rel X (s\<lparr>intents := qs\<rparr>)) (\<lambda>_. agent_rel X (s\<lparr>intents := qs\<rparr>)) (s\<lparr>intents := qs\<rparr>)"
      by (rule refund_intent_safe[OF agents.rel_inv[OF s 1(1)]]) (use 1(2,4) in simp_all)
    then show ?case by (rule wp_mono) (auto intro: agents.rel_trans[OF 1(1)])
  qed
qed

lemma agent_refund: "safe_op (agent_inv X) (agent_rel X) (refund c i amount idem)"
  unfolding refund_def
  by (intro agents.safe_thn agent_ensure agents.safe_bnd[OF agents.safe_gets] agents.safe_case_option agents.safe_ret refund_owned_safe)

lemma agent_refund_dashboard: "safe_op (agent_inv X) (agent_rel X) (refundFromDashboard Y u i amount pin idem)"
  unfolding refundFromDashboard_def resolve_def by (intro agents.safe_rules agent_pin agent_refund)

lemma agent_refunds: "safe_op (agent_inv X) (agent_rel X) (listRefunds b i live)"
  unfolding listRefunds_def by (intro agents.safe_rules agent_own)

end
