(* ===== verification/Agent_Pay.thy ===== *)
theory Agent_Pay
  imports Agent_Safety
begin

text \<open>
  The payment of an intent: it is claimed, the money is sent, and the payment recorded; when the
  transfer fails the claim is given back.
\<close>

section \<open>The transfer\<close>

text \<open>A transfer leaves the tables of intents and mandates alone.\<close>

lemma tables_beside:
  fixes s t :: "'a agent_db_scheme"
  assumes "beside s t"
  shows "intents t = intents s" "refunds t = refunds s" "mandates t = mandates s" "agent_requests t = agent_requests s"
    "business_payments t = business_payments s" "agent_settings t = agent_settings s" "seq s \<le> seq t"
  using assms by (cases s, cases t, simp add: beside_def)+

lemma intent_send_spec:
  fixes s :: "'a agent_db_scheme"
  assumes keys: "wallet_keys s" and tr: "rules_ok percent_only {TransferFee} s"
    and Q: "\<And>r t. beside s t \<Longrightarrow> wallet_keys t \<Longrightarrow> rules_ok percent_only {TransferFee} t \<Longrightarrow> total t = total s \<Longrightarrow> 0 < k \<Longrightarrow> k \<le> 10 ^ 13 \<Longrightarrow> Q r t"
    and E: "\<And>e t. beside s t \<Longrightarrow> wallet_keys t \<Longrightarrow> rules_ok percent_only {TransferFee} t \<Longrightarrow> total t = total s
      \<Longrightarrow> E e (intents_update (upd_where (\<lambda>r. pi_id r = i \<and> pi_status r = IProcessing) (\<lambda>r. r\<lparr>pi_status := IRequires, pi_payer := None\<rparr>)) t)"
  shows "wp (intent_send X u i (num k) owner pin) Q E s"
proof -
  have same: "beside s s" by (simp add: beside_def)
  let ?send = "\<lambda>w. sendFunds X u \<lparr>sd_recipient = w_address w, sd_amount = num k, sd_pin = Some pin, sd_biometric = False, sd_fingerprint = None, sd_fingerprint_alias = None\<rparr> False
      :: ('a agent_db_scheme, send_result) op"
  have send: "wp (?send w) (\<lambda>_ t. beside s t \<and> wallet_keys t \<and> rules_ok percent_only {TransferFee} t \<and> total t = total s \<and> 0 < k \<and> k \<le> 10 ^ 13)
      (\<lambda>_ t. beside s t \<and> wallet_keys t \<and> rules_ok percent_only {TransferFee} t \<and> total t = total s) s" for w
  proof -
    have frame: "wp (?send w) (\<lambda>_ t. beside s t \<and> rules_ok percent_only {TransferFee} t) (\<lambda>_ t. beside s t \<and> rules_ok percent_only {TransferFee} t) s"
      by (intro wp_conj preserves_wp[OF beside_send] preserves_wp[OF rules_ok_send] same tr)
    have "wp (?send w) (\<lambda>r. transfer_outcome X s u False k) (\<lambda>_. untouched s) s"
      by (rule sendFunds_spec[OF keys _ rules_ok_rule[OF tr]]) simp_all
    from wp_conj[OF frame this] show ?thesis
    proof (rule wp_mono)
      fix r and t :: "'a agent_db_scheme"
      assume t: "(beside s t \<and> rules_ok percent_only {TransferFee} t) \<and> transfer_outcome X s u False k t"
      then obtain sw to where "transferred X s u k (transfer_fee s k) (merchant_cut s False k) sw to t" unfolding transfer_outcome_def by blast
      with transferred_total[OF this keys] t
      show "beside s t \<and> wallet_keys t \<and> rules_ok percent_only {TransferFee} t \<and> total t = total s \<and> 0 < k \<and> k \<le> 10 ^ 13"
        by (simp add: transferred_def)
    qed (use keys in \<open>simp add: untouched_def wallet_keys_def total_def\<close>)
  qed
  show ?thesis
    unfolding intent_send_def walletFor_def
    by (auto simp: wp_simps intro!: wp_mono[OF send] Q E same keys tr split: option.split)
qed

lemma agent_beside:
  fixes s t :: "'a agent_db_scheme"
  assumes s: "agent_inv X s" and t: "beside s t" "wallet_keys t" "rules_ok percent_only {TransferFee} t" "total t = total s"
  shows "agent_rel X s t"
  using agent_invD[OF s] t(2-4) intents_ok_mono[OF _ tables_beside(7)[OF t(1)]] caps_ok_mono[OF _ tables_beside(7)[OF t(1)]]
  by (simp add: agent_rel_def agent_inv_def tables_beside[OF t(1)] max_monthly_def intents_move_refl)

lemma pay_claimed_safe:
  fixes s :: "'a agent_db_scheme"
  assumes s: "agent_inv X s" and j: "j \<in> set (intents s)" "pi_id j = pi_id r" "pi_amount j = pi_amount r" "pi_live j" "pi_status j = IProcessing" "pi_payer j = Some u"
  shows "wp (pay_claimed Y u r b pin channel) (\<lambda>_. agent_rel X s) (\<lambda>_. agent_rel X s) s"
proof -
  let ?v = "\<lambda>ref p t. business_payments_update (\<lambda>rows. rows @ [p]) (intents_update (upd_row pi_id (pi_id r) (\<lambda>x. x\<lparr>pi_status := ISucceeded, pi_txn := Some ref\<rparr>)) t)"
  have paid: "agent_rel X s (?v ref p t)"
    if t: "beside s t" "wallet_keys t" "rules_ok percent_only {TransferFee} t" "total t = total s" and k: "pi_amount r \<le> 10 ^ 13"
      and p: "by_source p = ''payment_intent''" "by_source_id p = pi_id r" "by_amount p = pi_amount r" "by_payer p = Some u" for ref p and t :: "'a agent_db_scheme"
  proof -
    have rel: "agent_rel X s t" by (rule agent_beside[OF s t])
    have inv: "agent_inv X t" by (rule agents.rel_inv[OF s rel])
    have j': "j \<in> set (intents t)" using j(1) by (simp add: tables_beside(1)[OF t(1)])
    have same: "upd_row pi_id (pi_id r) (\<lambda>x. x\<lparr>pi_status := ISucceeded, pi_payer := Some u, pi_txn := Some ref\<rparr>) (intents t)
        = upd_row pi_id (pi_id r) (\<lambda>x. x\<lparr>pi_status := ISucceeded, pi_txn := Some ref\<rparr>) (intents t)"
      using one_intent[OF agent_invD(5)[OF inv] _ j'] j(2,6) by (auto simp: upd_row_def)
    have "\<not> intent_paid (pi_status j)" "\<not> intent_closed (pi_status j)" "pi_amount j \<le> 10 ^ 13"
      using j(3,5) k by (auto simp: intent_paid_def intent_closed_def)
    note intents_paid[OF agent_invD(5)[OF inv] j' j(4) this p(1) _ _ p(4), of "Some ref"]
    then have "agent_rel X t (?v ref p t)"
      using j(2,3) p agent_invD(6)[OF inv] by (intro agent_step[OF inv]) (simp_all add: same same_fees_def)
    then show ?thesis by (rule agents.rel_trans[OF rel])
  qed
  have note_it: "wp (thn (emit e) (ret x)) (\<lambda>_. agent_rel X s) (\<lambda>_. agent_rel X s) t" if "agent_rel X s t" for e and x :: intent and t :: "'a agent_db_scheme"
    by (rule agents.safe_from[OF _ s that]) (intro agents.safe_rules agent_emit)
  have found: "find_row pi_id (pi_id r) (intents s) = Some j"
    using find_row_in[of pi_id "intents s" j] intents_okD(1)[OF agent_invD(5)[OF s]] j(1,2) by simp
  show ?thesis
    unfolding pay_claimed_def Let_def wp_bnd[of "intent_send _ _ _ _ _ _"]
  proof (rule intent_send_spec[OF agent_invD(1,2)[OF s]], goal_cases)
    case (1 ref t)
    have "to_units (num (pi_amount r)) = pi_amount r" using 1(5,6) by (simp add: MAXU_def)
    then show ?case
      using paid[OF 1(1-4,6), of "\<lparr>by_business = pi_business r, by_source = ''payment_intent'', by_source_id = pi_id r,
              by_payer = Some u, by_amount = pi_amount r, by_txn = ref, by_channel = channel\<rparr>" ref] found
      by (simp add: wp_bnd wp_thn intent_update_def wp_gets wp_modify wp_ret wp_insert_row tables_beside(1)[OF 1(1)] note_it[unfolded wp_thn] del: to_units_num)
  next
    case (2 e t)
    have rel: "agent_rel X s t" by (rule agent_beside[OF s 2])
    have "agent_rel X t (intents_update (upd_where (\<lambda>x. pi_id x = pi_id r \<and> pi_status x = IProcessing) (\<lambda>r. r\<lparr>pi_status := IRequires, pi_payer := None\<rparr>)) t)"
      by (rule agent_intents[OF agents.rel_inv[OF s rel]]) (simp add: shift_ok_def intent_paid_def intent_closed_def)
    then show ?case by (rule agents.rel_trans[OF rel])
  qed
qed

lemma agent_pay: "safe_op (agent_inv X) (agent_rel X) (payIntent Y u i pin channel)"
proof -
  have claim: "wp (bnd (gets now) (\<lambda>t.
            bnd (update_many intents intents_update (\<lambda>x. pi_id x = i \<and> pi_status x = IRequires \<and> pi_expires x > t)
              (\<lambda>x. x\<lparr>pi_status := IProcessing, pi_payer := Some u\<rparr>)) (\<lambda>n.
            if n = 0 then throw (Gone ''This payment is no longer payable'')
            else pay_claimed Y u r b pin channel))) (\<lambda>_. agent_rel X s) (\<lambda>_. agent_rel X s) s"
    if s: "agent_inv X s" and r: "intent_row s i = Some r" "pi_live r" "pi_status r = IRequires" for s :: "'a agent_db_scheme" and r b
  proof -
    let ?P = "\<lambda>x. pi_id x = i \<and> pi_status x = IRequires \<and> pi_expires x > now s"
    let ?f = "\<lambda>x. x\<lparr>pi_status := IProcessing, pi_payer := Some u\<rparr>"
    let ?t = "intents_update (upd_where ?P ?f) s"
    have rel: "agent_rel X s ?t"
      by (rule agent_intents[OF s]) (simp add: shift_ok_def intent_paid_def intent_closed_def)
    have inv: "agent_inv X ?t" by (rule agents.rel_inv[OF s rel])
    have r': "r \<in> set (intents s)" "pi_id r = i" using r(1) by (auto simp: intent_row_def dest: find_row_Some)
    have "wp (pay_claimed Y u r b pin channel) (\<lambda>_. agent_rel X s) (\<lambda>_. agent_rel X s) ?t" if n: "length (filter ?P (intents s)) \<noteq> 0"
    proof -
      from n obtain q where "q \<in> set (filter ?P (intents s))" by (cases "filter ?P (intents s)") auto
      then have "q = r" "?P r" using one_intent[OF agent_invD(5)[OF s] _ r'(1), of q] r' by auto
      then have "?f r \<in> set (intents ?t)" using r'(1) by (auto simp: in_upd_where)
      then have "wp (pay_claimed Y u r b pin channel) (\<lambda>_. agent_rel X ?t) (\<lambda>_. agent_rel X ?t) ?t"
        by (rule pay_claimed_safe[OF inv]) (use r(2) in simp_all)
      then show ?thesis by (rule wp_mono) (blast intro: agents.rel_trans[OF rel])+
    qed
    then show ?thesis using rel by (simp add: wp_bnd wp_gets wp_update_many wp_throw)
  qed
  have found: "wp (bnd (gets (\<lambda>s. intent_row s i)) (\<lambda>r. case r of
        None \<Rightarrow> throw (NotFound ''Payment not found'')
      | Some r \<Rightarrow>
        if \<not> pi_live r then throw (NotFound ''Payment not found'')
        else if pi_status r = ISucceeded \<and> pi_payer r = Some u then ret r
        else if pi_status r \<noteq> IRequires then throw (Gone ''This payment is closed'')
        else bnd (known_business (pi_business r)) (\<lambda>b.
          if b_owner b = u then throw (Forbidden ''You cannot pay your own business'')
          else bnd (gets now) (\<lambda>t.
            bnd (update_many intents intents_update (\<lambda>x. pi_id x = i \<and> pi_status x = IRequires \<and> pi_expires x > t)
              (\<lambda>x. x\<lparr>pi_status := IProcessing, pi_payer := Some u\<rparr>)) (\<lambda>n.
            if n = 0 then throw (Gone ''This payment is no longer payable'')
            else pay_claimed Y u r b pin channel))))) (\<lambda>_. agent_rel X s) (\<lambda>_. agent_rel X s) s" if s: "agent_inv X s" for s :: "'a agent_db_scheme"
    using agents.rel_refl[OF s] claim[OF s, unfolded wp_bnd[of "gets _"]]
    by (auto simp: wp_bnd[of "gets _"] wp_gets wp_throw wp_ret known_business_def wp_bnd[of "bnd _ _"] wp_or_throw split: option.split)
  have "safe_op (agent_inv X) (agent_rel X) (thn ensure_agents (if pin = [] then throw e else thn (expireIntents P) m))"
    if "\<And>s. agent_inv X s \<Longrightarrow> wp m (\<lambda>_. agent_rel X s) (\<lambda>_. agent_rel X s) s" for e P and m :: "('a agent_db_scheme, intent) op"
    by (intro agents.safe_rules agent_ensure agent_expire agents.safeI[OF that])
  from this[OF found] show ?thesis unfolding payIntent_def .
qed

end
