(* ===== verification/Agent_Mandates.thy ===== *)
theory Agent_Mandates
  imports Agent_Pay
begin

text \<open>
  Mandates and the requests under them: a new mandate has limits in order, and a request is only
  made when it fits the limits of the day and the month.
\<close>

section \<open>Mandates\<close>

lemma agent_mandates:
  "safe_op (agent_inv X) (agent_rel X) (myMandates Y u)" "safe_op (agent_inv X) (agent_rel X) (businessMandates b)"
  "safe_op (agent_inv X) (agent_rel X) (businessGetRequest b i)" "safe_op (agent_inv X) (agent_rel X) (checkCaps Y m a ex)"
  unfolding myMandates_def businessMandates_def businessGetRequest_def checkCaps_def by (intro agents.safe_rules)+

text \<open>The limits a new mandate is stored with.\<close>

lemma limits_units:
  assumes "\<not> num p \<le> 0" "\<not> num d < num p" "\<not> num m < num d" "\<not> 5000000 < num m"
  shows "0 \<le> to_units (num p)" "to_units (num p) \<le> to_units (num d)" "to_units (num d) \<le> to_units (num m)" "to_units (num m) \<le> MAX_CAP"
proof -
  have cap: "num MAX_CAP = 5000000" using fl_of_int[of "5 * 10 ^ 6"] by (simp add: num_def MAX_CAP_def)
  have le: "num p \<le> num MAX_CAP" "num d \<le> num MAX_CAP" "num m \<le> num MAX_CAP" unfolding cap using assms by linarith+
  have top: "0 \<le> MAX_CAP" "MAX_CAP \<le> MAX_CAP" by (simp_all add: MAX_CAP_def)
  note le = le[THEN num_bound[OF _ top]]
  have pos: "0 < num p" "0 < num d" "0 < num m" using assms by linarith+
  then have pos: "0 < p" "0 < d" "0 < m" by (simp_all only: num_pos_iff)
  have small: "p \<le> MAXU" "d \<le> MAXU" "m \<le> MAXU" using le by (simp_all add: MAXU_def MAX_CAP_def)
  have "to_units (num p) = p" "to_units (num d) = d" "to_units (num m) = m" using pos small by (auto intro: to_units_num)
  moreover have "p \<le> d" "d \<le> m" using assms(2,3) pos small by (auto simp: num_le_iff not_less)
  ultimately show "0 \<le> to_units (num p)" "to_units (num p) \<le> to_units (num d)" "to_units (num d) \<le> to_units (num m)" "to_units (num m) \<le> MAX_CAP"
    using pos le by simp_all
qed

lemma limits_stored:
  assumes "mandate_error s dto = None" "max_monthly s \<le> 5000000"
  shows "0 \<le> to_units (r2 (md_per_tx dto))" "to_units (r2 (md_per_tx dto)) \<le> to_units (r2 (md_daily dto))"
    "to_units (r2 (md_daily dto)) \<le> to_units (r2 (md_monthly dto))" "to_units (r2 (md_monthly dto)) \<le> MAX_CAP"
proof -
  have ok: "\<not> r2 (md_per_tx dto) \<le> 0" "\<not> r2 (md_daily dto) < r2 (md_per_tx dto)" "\<not> r2 (md_monthly dto) < r2 (md_daily dto)"
    "\<not> r2 (md_monthly dto) > max_monthly s"
    using assms(1) unfolding mandate_error_def Let_def by (auto split: if_splits)
  have m: "\<not> r2 (md_monthly dto) > 5000000" using ok(4) assms(2) by linarith
  show "0 \<le> to_units (r2 (md_per_tx dto))" "to_units (r2 (md_per_tx dto)) \<le> to_units (r2 (md_daily dto))"
    "to_units (r2 (md_daily dto)) \<le> to_units (r2 (md_monthly dto))" "to_units (r2 (md_monthly dto)) \<le> MAX_CAP"
    unfolding r2_num by (rule limits_units[OF ok(1-3)[unfolded r2_num] m[unfolded r2_num]])+
qed

lemma agent_new_mandate: "safe_op (agent_inv X) (agent_rel X) (createMandate Y u dto)"
proof -
  have new: "wp (bnd (gets (\<lambda>s. (mandate_error s dto, now s))) (\<lambda>(err, t). case err of
       Some e \<Rightarrow> throw e
     | None \<Rightarrow> bnd fresh (\<lambda>n.
         let m = \<lparr>am_id = n, am_user = u, am_business = b_id b, am_per_tx = to_units (r2 (md_per_tx dto)),
                  am_daily = to_units (r2 (md_daily dto)), am_monthly = to_units (r2 (md_monthly dto)), am_status = MActive,
                  am_expires = t + \<lfloor>md_days dto\<rfloor> * 86400000, am_created = t\<rparr>
         in thn (insert_row mandates_update m)
           (thn (emit (Webhook (b_id b) True ''agent_authorization.created'' n)) (ret (mandate_shown t m))))))
      (\<lambda>_. agent_rel X s) (\<lambda>_. agent_rel X s) s" if s: "agent_inv X s" for s :: "'a agent_db_scheme" and b
  proof (cases "mandate_error s dto")
    case (Some e)
    then show ?thesis using agents.rel_refl[OF s] by (simp add: wp_bnd wp_gets wp_throw)
  next
    case None
    let ?m = "\<lparr>am_id = seq s, am_user = u, am_business = b_id b, am_per_tx = to_units (r2 (md_per_tx dto)),
                  am_daily = to_units (r2 (md_daily dto)), am_monthly = to_units (r2 (md_monthly dto)), am_status = MActive,
                  am_expires = now s + \<lfloor>md_days dto\<rfloor> * 86400000, am_created = now s\<rparr>"
    have "caps_ok X (Suc (seq s)) (mandates s @ [?m]) (agent_requests s)"
      by (rule caps_new_mandate[OF agent_invD(6)[OF s]])
        (use limits_stored[OF None agent_invD(4)[OF s]] in \<open>simp_all add: mandate_ok_def\<close>)
    then have rel: "agent_rel X s (mandates_update (\<lambda>rows. rows @ [?m]) (s\<lparr>seq := Suc (seq s)\<rparr>))"
      using agent_invD(5)[OF s] by (intro agent_step[OF s]) (simp_all add: same_fees_def intents_move_refl intents_ok_mono)
    have "wp (thn (emit e) (ret x)) (\<lambda>_. agent_rel X s) (\<lambda>_. agent_rel X s) t" if "agent_rel X s t" for e and x :: mandate and t :: "'a agent_db_scheme"
      by (rule agents.safe_from[OF _ s that]) (intro agents.safe_rules agent_emit)
    from this[OF rel] show ?thesis by (simp add: wp_bnd[of "gets _"] wp_gets None wp_bnd[of fresh] wp_fresh Let_def wp_thn[of "insert_row _ _"] wp_insert_row)
  qed
  have "safe_op (agent_inv X) (agent_rel X) (thn ensure_agents (thn (verifyPin Y u pin) (bnd (known_business k) (\<lambda>b.
     if P b then throw e else if Q b then throw e' else m b))))"
    if "\<And>b. safe_op (agent_inv X) (agent_rel X) (m b)" for k P Q e e' pin and m :: "business \<Rightarrow> ('a agent_db_scheme, mandate) op"
    by (intro agents.safe_rules agent_ensure agent_pin agent_business that)
  from this[OF agents.safeI[OF new]] show ?thesis unfolding createMandate_def .
qed

lemma agent_revoke: "safe_op (agent_inv X) (agent_rel X) (revokeMandate u i)"
proof -
  have "safe_op (agent_inv X) (agent_rel X) (update_many mandates mandates_update P (\<lambda>m. m\<lparr>am_status := MRevoked\<rparr>)
      :: ('a agent_db_scheme, nat) op)" for P
  proof (rule agents.safeI)
    fix s :: "'a agent_db_scheme"
    assume s: "agent_inv X s"
    have "agent_rel X s (mandates_update (upd_where P (\<lambda>m. m\<lparr>am_status := MRevoked\<rparr>)) s)"
      using caps_revoke[OF agent_invD(6)[OF s]] agent_invD(5)[OF s] by (intro agent_step[OF s]) (simp_all add: same_fees_def intents_move_refl)
    then show "wp (update_many mandates mandates_update P (\<lambda>m. m\<lparr>am_status := MRevoked\<rparr>)) (\<lambda>_. agent_rel X s) (\<lambda>_. agent_rel X s) s"
      by (simp add: wp_update_many)
  qed
  then show ?thesis
    unfolding revokeMandate_def
    by (intro agents.safe_rules agent_emit agent_update_requests) (simp_all add: fades_def ACTIVE_REQ_def)
qed

section \<open>Requests of agents\<close>

lemma agent_close_requests:
  "safe_op (agent_inv X) (agent_rel X) (myRequests u st)" "safe_op (agent_inv X) (agent_rel X) (rejectRequest u i)"
  unfolding myRequests_def rejectRequest_def
  by (intro agents.safe_rules agent_emit agent_update_requests; simp add: fades_def ACTIVE_REQ_def)+

lemma used_le_usage:
  assumes "caps_ok X n ms rs" "\<And>c. P c \<Longrightarrow> lo \<le> c" "rs = agent_requests s"
  shows "used rs m P \<le> usage_since s m None lo" "0 \<le> usage_since s m None lo"
proof -
  have "0 \<le> ar_amount r" if "r \<in> set rs" for r by (rule caps_okD(2)[OF assms(1) that])
  then have "sum_list (map ar_amount (filter (\<lambda>r. ar_mandate r = m \<and> ar_status r \<in> set ACTIVE_REQ \<and> P (ar_created r)) rs))
    \<le> sum_list (map ar_amount (filter (\<lambda>r. ar_mandate r = m \<and> ar_status r \<in> set ACTIVE_REQ \<and> lo \<le> ar_created r) rs))
    \<and> 0 \<le> sum_list (map ar_amount (filter (\<lambda>r. ar_mandate r = m \<and> ar_status r \<in> set ACTIVE_REQ \<and> lo \<le> ar_created r) rs))"
    using assms(2) by (induction rs) (auto intro: order_trans)
  then show "used rs m P \<le> usage_since s m None lo" "0 \<le> usage_since s m None lo"
    unfolding used_def usage_since_def assms(3) by simp_all
qed

lemma request_fits:
  fixes s :: "'a agent_db_scheme"
  assumes s: "agent_inv X s" and m: "m \<in> set (mandates s)" and i: "i \<in> set (intents s)"
    and day: "fl (fst (usage X s (am_id m) None) + num (pi_amount i)) \<le> num (am_daily m)"
    and month: "fl (snd (usage X s (am_id m) None) + num (pi_amount i)) \<le> num (am_monthly m)"
  shows "caps_ok X (Suc (seq s)) (mandates s) (agent_requests s @ [new_agent_request (seq s) m c i idem (now s) ttl])"
proof -
  note caps = agent_invD(6)[OF s]
  have a0: "0 < pi_amount i" using intents_okD(3)[OF agent_invD(5)[OF s] i] by (simp add: intent_ok_def)
  have ok: "0 \<le> am_daily m" "am_daily m \<le> MAX_CAP" "0 \<le> am_monthly m" "am_monthly m \<le> MAX_CAP"
    using caps_okD(6)[OF caps m] by (auto simp: mandate_ok_def)
  have cal: "day_start X c = d \<Longrightarrow> d \<le> c" "month_start X c = d \<Longrightarrow> d \<le> c" for c d
    using agent_invD(3)[OF s] by (auto simp: calendar_def)
  note d = used_le_usage[OF caps cal(1) refl, where P = "\<lambda>c. day_start X c = day_start X (now s)" and lo = "day_start X (now s)" and m = "am_id m"]
  note mo = used_le_usage[OF caps cal(2) refl, where P = "\<lambda>c. month_start X c = month_start X (now s)" and lo = "month_start X (now s)" and m = "am_id m"]
  have D: "usage_since s (am_id m) None (day_start X (now s)) + pi_amount i \<le> am_daily m"
    by (rule cap_check[OF _ d(2) _ ok(1,2)]) (use day a0 in \<open>simp_all add: usage_def\<close>)
  have M: "usage_since s (am_id m) None (month_start X (now s)) + pi_amount i \<le> am_monthly m"
    by (rule cap_check[OF _ mo(2) _ ok(3,4)]) (use month a0 in \<open>simp_all add: usage_def\<close>)
  have "to_units (num (pi_amount i)) = pi_amount i"
    using D d(2) ok(2) a0 by (simp add: MAXU_def MAX_CAP_def)
  then show ?thesis
    using m a0 D M d(1) mo(1) by (intro caps_new_request[OF caps, of _ m]) (simp_all add: new_agent_request_def)
qed

lemma request_payment_safe:
  fixes s :: "'a agent_db_scheme"
  assumes s: "agent_inv X s" and m: "m \<in> set (mandates s)" and i: "i \<in> set (intents s)"
  shows "wp (request_payment X c m i idem) (\<lambda>_. agent_rel X s) (\<lambda>_. agent_rel X s) s"
proof -
  let ?r = "\<lambda>ttl. new_agent_request (seq s) m c i idem (now s) ttl"
  have new: "agent_rel X s (agent_requests_update (\<lambda>rows. rows @ [?r ttl]) (s\<lparr>seq := Suc (seq s)\<rparr>))"
    if "fl (fst (usage X s (am_id m) None) + num (pi_amount i)) \<le> num (am_daily m)"
      "fl (snd (usage X s (am_id m) None) + num (pi_amount i)) \<le> num (am_monthly m)" for ttl
    using request_fits[OF s m i that] agent_invD(5)[OF s]
    by (intro agent_step[OF s]) (simp_all add: same_fees_def intents_move_refl intents_ok_mono)
  have said: "wp (emit e) (\<lambda>_. wp (thn (emit e') (ret x)) (\<lambda>_. agent_rel X s) (\<lambda>_. agent_rel X s)) (\<lambda>_. agent_rel X s) t" if "agent_rel X s t" for e e' and x :: agent_request and t :: "'a agent_db_scheme"
    unfolding wp_thn[of "emit e", symmetric] by (rule agents.safe_from[OF _ s that]) (intro agents.safe_rules agent_emit)
  show ?thesis
    using agents.rel_refl[OF s] said[OF new]
    by (auto simp: request_payment_def checkCaps_def wp_bnd wp_gets wp_throw wp_ret wp_thn[of "insert_row _ _"] wp_thn[of "thn _ _"] wp_thn[of "bnd _ _"] wp_thn[of "emit _"] wp_fresh wp_insert_row Let_def not_less split: prod.split option.split)
qed

lemma agent_ask: "safe_op (agent_inv X) (agent_rel X) (createAgentRequest X c mi ii idem)"
proof -
  have owned: "wp (bnd (ownIntent (cx_business c) ii (Some True)) (\<lambda>i. request_payment X c m i idem)) (\<lambda>_. agent_rel X s) (\<lambda>_. agent_rel X s) s"
    if s: "agent_inv X s" and m: "m \<in> set (mandates s)" for s :: "'a agent_db_scheme" and m
    unfolding wp_bnd
  proof (rule own_intent_wp[OF s], goal_cases)
    case (1 r qs)
    have "wp (request_payment X c m r idem) (\<lambda>_. agent_rel X (s\<lparr>intents := qs\<rparr>)) (\<lambda>_. agent_rel X (s\<lparr>intents := qs\<rparr>)) (s\<lparr>intents := qs\<rparr>)"
      by (rule request_payment_safe[OF agents.rel_inv[OF s 1(1)]]) (use m 1(2) in simp_all)
    then show ?case by (rule wp_mono) (blast intro: agents.rel_trans[OF 1(1)])+
  qed
  show ?thesis
    unfolding createAgentRequest_def
  proof (intro agents.safe_thn agent_ensure agents.safe_if agents.safe_throw agents.safeI)
    fix s :: "'a agent_db_scheme"
    assume s: "agent_inv X s"
    show "wp (bnd (gets (\<lambda>s. (now s, find (\<lambda>r. same_key (cx_business c) idem (ar_business r) (ar_key r)) (agent_requests s)))) (\<lambda>(t, ex). case ex of
        Some r \<Rightarrow> ret (request_shown t r)
      | None \<Rightarrow> bnd (gets (\<lambda>s. find_row am_id mi (mandates s))) (\<lambda>m. case m of
          None \<Rightarrow> throw (NotFound ''Authorization not found'')
        | Some m \<Rightarrow> if am_business m \<noteq> cx_business c then throw (NotFound ''Authorization not found'')
            else bnd (ownIntent (cx_business c) ii (Some True)) (\<lambda>i. request_payment X c m i idem)))) (\<lambda>_. agent_rel X s) (\<lambda>_. agent_rel X s) s"
      using agents.rel_refl[OF s] owned[OF s]
      by (auto simp: wp_bnd[of "gets _"] wp_gets wp_throw wp_ret dest!: find_row_Some split: option.split)
  qed
qed

end
