(* ===== verification/Agent_Results.thy ===== *)
theory Agent_Results
  imports Agent_Mandates Business_Safety
begin

text \<open>
  The confirmation of an agent's request, and what any sequence of the operations on intents,
  refunds, mandates and requests keeps.
\<close>

section \<open>Confirming a request\<close>

text \<open>The claimed request counts until its payment is decided.\<close>

definition held :: "nat \<Rightarrow> agent_request list \<Rightarrow> bool" where
  "held i rs \<longleftrightarrow> (\<forall>r\<in>set rs. ar_id r = i \<longrightarrow> ar_status r \<in> set ACTIVE_REQ)"

definition holds_it :: "ext \<Rightarrow> nat \<Rightarrow> 'a agent_db_scheme \<Rightarrow> bool" where
  "holds_it X i s \<longleftrightarrow> agent_inv X s \<and> held i (agent_requests s)"

definition holds_on :: "ext \<Rightarrow> nat \<Rightarrow> 'a agent_db_scheme \<Rightarrow> 'a agent_db_scheme \<Rightarrow> bool" where
  "holds_on X i s t \<longleftrightarrow> agent_rel X s t \<and> (held i (agent_requests s) \<longrightarrow> held i (agent_requests t))"

interpretation holding: step_contract "holds_it X i" "holds_on X i"
proof
  fix s t u :: "'a agent_db_scheme"
  show "holds_it X i s \<Longrightarrow> holds_on X i s s" by (simp add: holds_it_def holds_on_def agents.rel_refl)
  show "holds_on X i s t \<Longrightarrow> holds_on X i t u \<Longrightarrow> holds_on X i s u" by (auto simp: holds_on_def intro: agents.rel_trans)
  show "holds_it X i s \<Longrightarrow> holds_on X i s t \<Longrightarrow> holds_it X i t" by (auto simp: holds_on_def holds_it_def intro: agents.rel_inv)
qed

lemma hold_beside:
  fixes m :: "('a agent_db_scheme, 'b) op"
  assumes "safe_op (agent_inv X) (agent_rel X) m" "\<And>R. preserves (\<lambda>s. agent_requests s = R) m"
  shows "safe_op (holds_it X i) (holds_on X i) m"
proof (rule holding.safeI)
  fix s :: "'a agent_db_scheme"
  assume s: "holds_it X i s"
  have "wp m (\<lambda>_ t. agent_rel X s t \<and> agent_requests t = agent_requests s) (\<lambda>_ t. agent_rel X s t \<and> agent_requests t = agent_requests s) s"
    using s by (intro wp_conj agents.safeD[OF assms(1)] preserves_wp[OF assms(2)]) (simp_all add: holds_it_def)
  then show "wp m (\<lambda>_. holds_on X i s) (\<lambda>_. holds_on X i s) s" by (rule wp_mono) (simp_all add: holds_on_def)
qed

lemma held_where:
  assumes "\<And>x. x \<in> set rs \<Longrightarrow> ar_id x = i \<Longrightarrow> P x \<Longrightarrow> ar_status (f x) \<in> set ACTIVE_REQ"
    "\<And>x. x \<in> set rs \<Longrightarrow> ar_id x = i \<Longrightarrow> \<not> P x \<Longrightarrow> ar_status x \<in> set ACTIVE_REQ" "\<And>x. ar_id (f x) = ar_id x"
  shows "held i (upd_where P f rs)"
  unfolding held_def
proof (intro ballI impI)
  fix r assume "r \<in> set (upd_where P f rs)" "ar_id r = i"
  then obtain x where x: "x \<in> set rs" "r = (if P x then f x else x)" by (auto simp: upd_where_def)
  then have "ar_id x = i" using \<open>ar_id r = i\<close> assms(3) by (simp split: if_splits)
  then show "ar_status r \<in> set ACTIVE_REQ" using assms(1,2)[OF x(1)] x(2) by simp
qed

text \<open>A payment leaves the requests alone.\<close>

lemma requests_send: "preserves (\<lambda>s :: 'a agent_db_scheme. agent_requests s = R) (sendFunds X u dto mf)"
proof (rule preservesI)
  fix s :: "'a agent_db_scheme"
  assume "agent_requests s = R"
  moreover have "wp (sendFunds X u dto mf) (\<lambda>_. beside s) (\<lambda>_. beside s) s"
    by (rule preserves_wp[OF beside_send]) (simp add: beside_def)
  ultimately show "wp (sendFunds X u dto mf) (\<lambda>_ t. agent_requests t = R) (\<lambda>_ t. agent_requests t = R) s"
    by (auto intro: wp_mono simp: tables_beside(4))
qed

lemma requests_modifies [pres]:
  "preserves (\<lambda>s :: 'a agent_db_scheme. agent_requests s = R) (update_many intents intents_update P f)"
  "preserves (\<lambda>s :: 'a agent_db_scheme. agent_requests s = R) (emit e)"
  "preserves (\<lambda>s :: 'a agent_db_scheme. agent_requests s = R) (insert_row business_payments_update p)"
  by (rule preservesI; simp add: wp_update_many wp_insert_row emit_def wp_modify)+

lemma requests_pay: "preserves (\<lambda>s :: 'a agent_db_scheme. agent_requests s = R) (payIntent X u i pin channel)"
  unfolding payIntent_def ensure_agents_def expireIntents_def known_business_def pay_claimed_def intent_send_def walletFor_def intent_update_def Let_def
  by (intro pres requests_send) simp_all

lemma agent_held_update:
  assumes f: "\<And>q. f q = q\<lparr>ar_status := ar_status (f q), ar_failure := ar_failure (f q), ar_txn := ar_txn (f q)\<rparr>"
  shows "holds_it X i s \<Longrightarrow> agent_rel X s (agent_requests_update (upd_row ar_id i f) s)"
  unfolding upd_row_where holds_it_def
  by (elim conjE, rule agent_requests_fade) (use f in \<open>auto simp: fades_def held_def\<close>)

lemma hold_confirm: "safe_op (holds_it X i) (holds_on X i) (agent_request_update i (\<lambda>x. x\<lparr>ar_status := AConfirmed, ar_txn := t, ar_failure := None\<rparr>))"
proof (rule holding.safeI)
  fix s :: "'a agent_db_scheme"
  assume s: "holds_it X i s"
  let ?f = "\<lambda>x. x\<lparr>ar_status := AConfirmed, ar_txn := t, ar_failure := None\<rparr>"
  have "held i (upd_row ar_id i ?f (agent_requests s))"
    unfolding upd_row_where by (rule held_where) (simp_all add: ACTIVE_REQ_def)
  moreover have "agent_rel X s (agent_requests_update (upd_row ar_id i ?f) s)" by (rule agent_held_update[OF _ s]) simp
  ultimately show "wp (agent_request_update i ?f) (\<lambda>_. holds_on X i s) (\<lambda>_. holds_on X i s) s"
    using holding.rel_refl[OF s] by (auto simp: agent_request_update_def wp_bnd wp_gets wp_throw wp_thn wp_modify wp_ret holds_on_def split: option.split)
qed

lemma confirm_claimed_safe: "safe_op (holds_it X (ar_id r)) (agent_rel X) (confirm_claimed Y u r pin)"
  unfolding safe_op_def confirm_claimed_def wp_catch
proof (intro allI impI, rule wp_mono[OF holding.safeD])
  fix s :: "'a agent_db_scheme"
  assume s: "holds_it X (ar_id r) s"
  show "holds_it X (ar_id r) s" by (rule s)
  show "agent_rel X s t" if "holds_on X (ar_id r) s t" for t using that by (simp add: holds_on_def)
  show "safe_op (holds_it X (ar_id r)) (holds_on X (ar_id r)) (bnd (gets (\<lambda>s. find_row am_id (ar_mandate r) (mandates s))) (\<lambda>m. case m of
        None \<Rightarrow> throw (Forbidden ''The authorization is not active'')
      | Some m \<Rightarrow> thn (checkCaps Y m (num (ar_amount r)) (Some (ar_id r)))
          (bnd (payIntent Y u (ar_intent r) pin ''agent'') (\<lambda>paid.
           bnd (agent_request_update (ar_id r) (\<lambda>x. x\<lparr>ar_status := AConfirmed, ar_txn := pi_txn paid, ar_failure := None\<rparr>)) (\<lambda>done.
           thn (emit (Webhook (ar_business r) True ''agent_payment.confirmed'' (ar_id r))) (ret done))))) :: ('a agent_db_scheme, agent_request) op)"
    by (intro holding.safe_rules hold_confirm hold_beside[OF agent_pay requests_pay] hold_beside[OF agent_emit requests_modifies(2)]
        hold_beside[OF agent_mandates(4)]) (unfold checkCaps_def, intro pres)
  fix e and t :: "'a agent_db_scheme"
  assume t: "holds_on X (ar_id r) s t"
  let ?f = "\<lambda>x. x\<lparr>ar_status := if final_error e then AFailed else APending, ar_failure := Some (take 255 (err_text e))\<rparr>"
  have "agent_rel X t (agent_requests_update (upd_row ar_id (ar_id r) ?f) t)"
    by (rule agent_held_update[OF _ holding.rel_inv[OF s t]]) simp
  then have "agent_rel X s (agent_requests_update (upd_row ar_id (ar_id r) ?f) t)" "agent_rel X s t"
    using t by (auto simp: holds_on_def intro: agents.rel_trans)
  then show "wp (thn (agent_request_update (ar_id r) ?f) (throw e :: ('a agent_db_scheme, agent_request) op)) (\<lambda>_. agent_rel X s) (\<lambda>_. agent_rel X s) t"
    by (auto simp: agent_request_update_def wp_bnd wp_gets wp_throw wp_thn wp_modify wp_ret split: option.split)
qed

lemma claim_request:
  fixes s :: "'a agent_db_scheme"
  assumes s: "agent_inv X s" and r: "find_row ar_id i (agent_requests s) = Some r" and m: "safe_op (holds_it X i) (agent_rel X) m"
  shows "wp (bnd (update_many agent_requests agent_requests_update (\<lambda>x. ar_id x = i \<and> ar_status x = APending)
      (\<lambda>x. x\<lparr>ar_status := AProcessing\<rparr>)) (\<lambda>n. if n = 0 then throw e else m)) (\<lambda>_. agent_rel X s) (\<lambda>_. agent_rel X s) s"
proof -
  let ?P = "\<lambda>x. ar_id x = i \<and> ar_status x = APending"
  let ?t = "agent_requests_update (upd_where ?P (\<lambda>x. x\<lparr>ar_status := AProcessing\<rparr>)) s"
  have rel: "agent_rel X s ?t" by (rule agent_requests_fade[OF s]) (simp add: fades_def ACTIVE_REQ_def)
  have "wp m (\<lambda>_. agent_rel X s) (\<lambda>_. agent_rel X s) ?t" if n: "length (filter ?P (agent_requests s)) \<noteq> 0"
  proof -
    from n obtain q where "q \<in> set (filter ?P (agent_requests s))" by (cases "filter ?P (agent_requests s)") auto
    then have q: "q \<in> set (agent_requests s)" "ar_id q = i" "ar_status q = APending" by auto
    have "x = q" if "x \<in> set (agent_requests s)" "ar_id x = i" for x
      using caps_okD(1)[OF agent_invD(6)[OF s]] that q by (auto simp: distinct_map inj_on_def)
    note one = this
    have "held i (upd_where ?P (\<lambda>x. x\<lparr>ar_status := AProcessing\<rparr>) (agent_requests s))"
    proof (rule held_where)
      show "ar_status x \<in> set ACTIVE_REQ" if "x \<in> set (agent_requests s)" "ar_id x = i" "\<not> ?P x" for x
        using one[OF that(1,2)] q(3) that(2,3) by blast
    qed (simp_all add: ACTIVE_REQ_def)
    then have "holds_it X i ?t" using agents.rel_inv[OF s rel] by (simp add: holds_it_def)
    then have "wp m (\<lambda>_. agent_rel X ?t) (\<lambda>_. agent_rel X ?t) ?t" using m by (simp add: safe_op_def)
    then show ?thesis by (rule wp_mono) (blast intro: agents.rel_trans[OF rel])+
  qed
  then show ?thesis using rel by (simp add: wp_bnd wp_update_many wp_throw)
qed

lemma agent_confirm: "safe_op (agent_inv X) (agent_rel X) (confirmRequest Y u i pin)"
  unfolding confirmRequest_def
proof (intro agents.safe_thn agent_ensure agents.safeI)
  fix s :: "'a agent_db_scheme"
  assume s: "agent_inv X s"
  let ?late = "\<lambda>t. bnd (update_many agent_requests agent_requests_update (\<lambda>x. ar_id x = i \<and> ar_status x = APending)
            (\<lambda>x. x\<lparr>ar_status := AExpired\<rparr>)) (\<lambda>_. throw (Gone ''This request has expired'')) :: ('a agent_db_scheme, agent_request) op"
  have late: "wp (?late t) (\<lambda>_. agent_rel X s) (\<lambda>_. agent_rel X s) s" for t :: int
    by (rule agents.safeD[OF _ s]) (intro agents.safe_rules agent_update_requests, simp add: fades_def ACTIVE_REQ_def)
  have claimed: "wp (bnd (update_many agent_requests agent_requests_update (\<lambda>x. ar_id x = i \<and> ar_status x = APending)
            (\<lambda>x. x\<lparr>ar_status := AProcessing\<rparr>)) (\<lambda>n.
          if n = 0 then throw (Conflict ''Request is already being processed'')
          else confirm_claimed Y u r pin)) (\<lambda>_. agent_rel X s) (\<lambda>_. agent_rel X s) s" if r: "find_row ar_id i (agent_requests s) = Some r" for r
  proof (rule claim_request[OF s r])
    have "ar_id r = i" using r by (auto dest: find_row_Some)
    then show "safe_op (holds_it X i) (agent_rel X) (confirm_claimed Y u r pin)" using confirm_claimed_safe[of X r Y u pin] by simp
  qed
  show "wp (bnd (gets (\<lambda>s. (now s, find_row ar_id i (agent_requests s)))) (\<lambda>(t, r). case r of
        None \<Rightarrow> throw (NotFound ''Request not found'')
      | Some r \<Rightarrow>
        if ar_user r \<noteq> u then throw (NotFound ''Request not found'')
        else if ar_status r = AConfirmed then ret r
        else if ar_status r \<noteq> APending then throw (Conflict ''Request is closed'')
        else if ar_expires r \<le> t then ?late t
        else bnd (update_many agent_requests agent_requests_update (\<lambda>x. ar_id x = i \<and> ar_status x = APending)
            (\<lambda>x. x\<lparr>ar_status := AProcessing\<rparr>)) (\<lambda>n.
          if n = 0 then throw (Conflict ''Request is already being processed'')
          else confirm_claimed Y u r pin))) (\<lambda>_. agent_rel X s) (\<lambda>_. agent_rel X s) s"
    using agents.rel_refl[OF s] late claimed
    by (auto simp: wp_bnd[of "gets _"] wp_gets wp_throw wp_ret split: option.split)
qed

section \<open>Any sequence of operations\<close>

datatype agent_call =
    OpenIntent biz_ctx intent_dto "string option"
  | ListIntents nat bool "intent_status option"
  | GetIntent nat nat "bool option"
  | CancelIntent nat nat "bool option"
  | SimulateIntent nat nat
  | PublicIntent nat
  | PayIntent nat nat string string
  | ListRefunds nat nat "bool option"
  | Refund biz_ctx nat "rat option" "string option"
  | RefundDashboard nat nat "rat option" string "string option"
  | Authorize nat mandate_dto
  | MyMandates nat
  | Revoke nat nat
  | BusinessMandates nat
  | AgentAsks biz_ctx nat nat "string option"
  | AgentLooks nat nat
  | MyAgentRequests nat "agent_status option"
  | Decline nat nat
  | ConfirmAsk nat nat string
  | Later nat

fun agent_exec :: "ext \<Rightarrow> agent_call \<Rightarrow> 'a agent_db_scheme \<Rightarrow> 'a agent_db_scheme" where
  "agent_exec X (OpenIntent c dto k) s = snd (createIntent c dto k s)"
| "agent_exec X (ListIntents b live st) s = snd (listIntents b live st s)"
| "agent_exec X (GetIntent b i live) s = snd (getIntent b i live s)"
| "agent_exec X (CancelIntent b i live) s = snd (cancelIntent b i live s)"
| "agent_exec X (SimulateIntent b i) s = snd (simulateIntent b i s)"
| "agent_exec X (PublicIntent i) s = snd (publicIntent i s)"
| "agent_exec X (PayIntent u i pin ch) s = snd (payIntent X u i pin ch s)"
| "agent_exec X (ListRefunds b i live) s = snd (listRefunds b i live s)"
| "agent_exec X (Refund c i a k) s = snd (refund c i a k s)"
| "agent_exec X (RefundDashboard u i a pin k) s = snd (refundFromDashboard X u i a pin k s)"
| "agent_exec X (Authorize u dto) s = snd (createMandate X u dto s)"
| "agent_exec X (MyMandates u) s = snd (myMandates X u s)"
| "agent_exec X (Revoke u i) s = snd (revokeMandate u i s)"
| "agent_exec X (BusinessMandates b) s = snd (businessMandates b s)"
| "agent_exec X (AgentAsks c m i k) s = snd (createAgentRequest X c m i k s)"
| "agent_exec X (AgentLooks b i) s = snd (businessGetRequest b i s)"
| "agent_exec X (MyAgentRequests u st) s = snd (myRequests u st s)"
| "agent_exec X (Decline u i) s = snd (rejectRequest u i s)"
| "agent_exec X (ConfirmAsk u i pin) s = snd (confirmRequest X u i pin s)"
| "agent_exec X (Later n) s = s\<lparr>now := now s + int n\<rparr>"

lemmas agent_ops = agent_create agent_list agent_get agent_cancel agent_simulate agent_public agent_pay agent_refunds agent_refund
  agent_refund_dashboard agent_new_mandate agent_mandates agent_revoke agent_ask agent_close_requests agent_confirm

interpretation agent_run: step_run "agent_inv X" "agent_rel X" "agent_exec X"
proof
  fix s :: "'a agent_db_scheme" and c
  assume s: "agent_inv X s"
  have "agent_rel X s (s\<lparr>now := n\<rparr>)" for n by (rule agent_same[OF s]) (simp_all add: same_fees_def)
  then show "agent_rel X s (agent_exec X c s)"
    by (cases c) (simp_all add: agents.safe_snd[OF agent_ops(1) s] agents.safe_snd[OF _ s] agent_ops)
qed

section \<open>Results\<close>

text \<open>C38: Over any sequence of operations on payment intents, refunds, mandates and agent
  requests the total of all balances is kept, and the refunds of a live intent add up to what it
  says is refunded, never more than was paid.\<close>

theorem agent_money:
  assumes "agent_inv X s" "t = fold (agent_exec X) cs s"
  shows "total t = total s \<and> (\<forall>i\<in>set (intents t). pi_live i \<longrightarrow> refunded_sum (pi_id i) (refunds t) = pi_refunded i \<and> pi_refunded i \<le> pi_amount i)"
proof -
  have rel: "agent_rel X s t" unfolding assms(2) by (rule agent_run.run_rel[OF assms(1)])
  have "intent_ok (refunds t) (business_payments t) i" if "i \<in> set (intents t)" for i
    using intents_okD(3)[OF agent_invD(5)[OF agents.rel_inv[OF assms(1) rel]] that] .
  then show ?thesis using rel by (force simp: agent_rel_def intent_ok_def paid_ok_def split: if_splits)
qed

text \<open>C39: Over any such sequence a live intent keeps its amount, a refunded, cancelled or
  expired one never changes, a paid one keeps payer and transaction, and there is exactly one
  payment of its amount when it is paid and none otherwise.\<close>

theorem agent_paid_once:
  assumes "agent_inv X s" "t = fold (agent_exec X) cs s" "i \<in> set (intents s)" "pi_live i"
  shows "\<exists>j\<in>set (intents t). pi_id j = pi_id i \<and> pi_amount j = pi_amount i \<and> (intent_closed (pi_status i) \<longrightarrow> j = i)
    \<and> (intent_paid (pi_status i) \<longrightarrow> intent_paid (pi_status j) \<and> pi_payer j = pi_payer i \<and> pi_txn j = pi_txn i)
    \<and> map by_amount (filter (pays_for (pi_id i)) (business_payments t)) = (if intent_paid (pi_status j) then [pi_amount i] else [])"
proof -
  have rel: "agent_rel X s t" unfolding assms(2) by (rule agent_run.run_rel[OF assms(1)])
  then obtain j where j: "j \<in> set (intents t)" "intent_moves i j" using assms(3) by (auto simp: agent_rel_def intents_move_def)
  have ok: "intent_ok (refunds t) (business_payments t) j"
    by (rule intents_okD(3)[OF agent_invD(5)[OF agents.rel_inv[OF assms(1) rel]] j(1)])
  have m: "pi_id j = pi_id i" "pi_amount j = pi_amount i" "pi_live j" using j(2) assms(4) by (simp_all add: intent_moves_def)
  have "map by_amount (filter (pays_for (pi_id i)) (business_payments t)) = (if intent_paid (pi_status j) then [pi_amount i] else [])"
  proof (cases "intent_paid (pi_status j)")
    case True
    then have "map fst (map (\<lambda>p. (by_amount p, by_payer p)) (filter (pays_for (pi_id i)) (business_payments t))) = [pi_amount i]"
      using ok m by (simp add: intent_ok_def paid_ok_def)
    then show ?thesis using True by (simp add: comp_def)
  qed (use ok m in \<open>simp add: intent_ok_def\<close>)
  then show ?thesis using j m assms(4) by (auto simp: intent_moves_def)
qed

text \<open>C40: In every state that such operations reach, what an agent requested under a mandate
  and was not refused stays within the daily limit on every day and within the monthly limit in
  every month: the double arithmetic of the checks is exact.\<close>

theorem agent_caps:
  assumes "agent_inv X s" "t = fold (agent_exec X) cs s" "m \<in> set (mandates t)"
  shows "used (agent_requests t) (am_id m) (\<lambda>c. day_start X c = d) \<le> am_daily m
    \<and> used (agent_requests t) (am_id m) (\<lambda>c. month_start X c = d) \<le> am_monthly m \<and> am_monthly m \<le> MAX_CAP"
proof -
  have "agent_inv X t" unfolding assms(2) by (rule agent_run.run_keeps[OF assms(1)])
  note c = agent_invD(6)[OF this]
  show ?thesis using caps_okD(6,7)[OF c assms(3)] by (simp add: within_caps_def mandate_ok_def)
qed

section \<open>A sample\<close>

text \<open>Ada's business has an open payment and one that bob paid, of which a part went back; bob has
  authorized the business, and one request under that mandate is confirmed.\<close>

definition sample_intent :: "nat \<Rightarrow> intent_status \<Rightarrow> nat option \<Rightarrow> int \<Rightarrow> intent" where
  "sample_intent i st u back = \<lparr>pi_id = i, pi_business = 60, pi_live = True, pi_amount = 4000000000, pi_status = st, pi_payer = u, pi_txn = u,
     pi_refunded = back, pi_key = None, pi_expires = 1000000600000, pi_created = 1000000000000\<rparr>"

definition sample_payment :: business_payment where
  "sample_payment = \<lparr>by_business = 60, by_source = ''payment_intent'', by_source_id = 81, by_payer = Some 2, by_amount = 4000000000,
     by_txn = 2, by_channel = ''agent''\<rparr>"

definition sample_refund :: refund_row where
  "sample_refund = \<lparr>rf_id = 82, rf_intent = 81, rf_business = 60, rf_live = True, rf_amount = 1000000000, rf_txn = Some 90, rf_key = None,
     rf_created = 1000000000000\<rparr>"

definition sample_mandate :: mandate where
  "sample_mandate = \<lparr>am_id = 83, am_user = 2, am_business = 60, am_per_tx = 5000000000, am_daily = 8000000000, am_monthly = 20000000000,
     am_status = MActive, am_expires = 1000090000000, am_created = 1000000000000\<rparr>"

definition sample_ask :: agent_request where
  "sample_ask = \<lparr>ar_id = 84, ar_mandate = 83, ar_user = 2, ar_business = 60, ar_intent = 81, ar_amount = 4000000000, ar_status = AConfirmed,
     ar_failure = None, ar_txn = Some 2, ar_key = None, ar_expires = 1000000600000, ar_created = 1000000000000\<rparr>"

definition sample_agents :: agent_db where
  "sample_agents = business_db.extend (escrow_db.extend (core.extend sample (escrow_db.fields [] [] []))
     (business_db.fields [sample_merchant] [sample_business] [] [] [] [sample_member] []))
     (agent_db.fields [sample_intent 80 IRequires None 0, sample_intent 81 IPartlyRefunded (Some 2) 1000000000] [sample_refund] [sample_mandate]
        [sample_ask] [sample_payment] \<lparr>ae_enabled = True, ae_max_per_tx = None, ae_max_monthly = None, ae_request_ttl = None, ae_intent_ttl = None\<rparr>)"

lemma sample_agents_tables [simp]:
  "intents sample_agents = [sample_intent 80 IRequires None 0, sample_intent 81 IPartlyRefunded (Some 2) 1000000000]"
  "refunds sample_agents = [sample_refund]" "mandates sample_agents = [sample_mandate]" "agent_requests sample_agents = [sample_ask]"
  "business_payments sample_agents = [sample_payment]" "wallets sample_agents = wallets sample" "seq sample_agents = 100"
  by (simp_all add: sample_agents_def sample_def core.defs escrow_db.defs business_db.defs agent_db.defs)

lemma sample_agents_inv: "agent_inv sample_ext sample_agents"
proof -
  have "loaded_rule sample_agents TransferFee = default_rule sample TransferFee" "default_rule sample_agents TransferFee = default_rule sample TransferFee"
    "fee_cache sample_agents = None"
    by (simp_all add: loaded_rule_def configured_def default_rule_def defaultPercent_def sample_agents_def sample_def core.defs escrow_db.defs business_db.defs agent_db.defs)
  moreover have "percent_only (default_rule sample TransferFee)"
    by (simp add: percent_only_def default_rule_def defaultPercent_def sample_def)
  ultimately have "rules_ok percent_only {TransferFee} sample_agents" by (simp add: rules_ok_def)
  moreover have "max_monthly sample_agents = 200000"
    by (simp add: max_monthly_def env_limit_def sample_agents_def core.defs escrow_db.defs business_db.defs agent_db.defs)
  moreover have "calendar sample_ext" by (simp add: calendar_def sample_ext_def)
  moreover have "intents_ok 100 (intents sample_agents) (refunds sample_agents) (business_payments sample_agents)"
    by (simp add: intents_ok_def intent_ok_def intent_paid_def paid_ok_def refunded_sum_def pays_for_def sample_intent_def sample_refund_def sample_payment_def)
  moreover have "caps_ok sample_ext 100 (mandates sample_agents) (agent_requests sample_agents)"
    by (simp add: caps_ok_def mandate_ok_def within_caps_def used_Cons sample_mandate_def sample_ask_def MAX_CAP_def)
  ultimately show ?thesis by (simp add: agent_inv_def wallet_keys_def sample_tables sample_wallet_def)
qed

definition sample_agent_calls :: "agent_call list" where
  "sample_agent_calls = [PayIntent 2 80 ''1234'' ''app'', RefundDashboard 1 81 (Some 10) ''1234'' None,
     AgentAsks \<lparr>cx_business = 60, cx_owner = 1, cx_live = True\<rparr> 83 80 None, Later 60000, Revoke 2 83]"

theorem agent_money_witness:
  "total (fold (agent_exec sample_ext) sample_agent_calls sample_agents) = total sample"
  using agent_money[OF sample_agents_inv refl, of sample_agent_calls] by (simp add: total_def)

theorem agent_paid_once_witness:
  "\<exists>j\<in>set (intents (fold (agent_exec sample_ext) sample_agent_calls sample_agents)). pi_id j = 81 \<and> pi_payer j = Some 2
    \<and> map by_amount (filter (pays_for 81) (business_payments (fold (agent_exec sample_ext) sample_agent_calls sample_agents))) = [4000000000]"
proof -
  have "sample_intent 81 IPartlyRefunded (Some 2) 1000000000 \<in> set (intents sample_agents)" by simp
  from agent_paid_once[OF sample_agents_inv refl this, of sample_agent_calls] show ?thesis
    by (auto simp: sample_intent_def intent_paid_def)
qed

theorem agent_caps_witness:
  "used (agent_requests (fold (agent_exec sample_ext) [BusinessMandates 60, Later 5] sample_agents)) 83
    (\<lambda>c. day_start sample_ext c = 1000000000000 - 1000000000000 mod 86400000) \<le> 8000000000"
proof -
  have "sample_mandate \<in> set (mandates (fold (agent_exec sample_ext) [BusinessMandates 60, Later 5] sample_agents))"
    by (simp add: businessMandates_def gets_def)
  from agent_caps[OF sample_agents_inv refl this] show ?thesis by (simp add: sample_mandate_def)
qed

section \<open>Refunds of locked money\<close>

text \<open>Ada's whole balance is locked for an escrow, and still goes back to bob.\<close>

definition sample_locked :: agent_db where
  "sample_locked = sample_agents\<lparr>wallets := [(sample_wallet 11 1 50000000000)\<lparr>w_locked := 50000000000\<rparr>, sample_wallet 12 2 20000000000]\<rparr>"

theorem refund_spends_locked:
  "solvent sample_locked \<and> (\<exists>x t. refund_money \<lparr>cx_business = 60, cx_owner = 1, cx_live = True\<rparr> (Some 2) 300 sample_locked = (Inr x, t) \<and> \<not> solvent t)"
proof
  show "solvent sample_locked" by (simp add: solvent_def available_def sample_locked_def sample_wallet_def)
  have "sql 300 = of_int 30000000000" using sql_num[of 30000000000] by (simp add: num_300 MAXU_def)
  then have "wp (refund_money \<lparr>cx_business = 60, cx_owner = 1, cx_live = True\<rparr> (Some 2) 300) (\<lambda>_ t. \<not> solvent t) (\<lambda>_ _. False) sample_locked"
    by (simp add: refund_money_def wp_simps sample_locked_def active_wallet_def sample_wallet_def upd_where_def wallet_by_id_def solvent_def available_def units_300)
  from wp_ok[OF this] show "\<exists>x t. refund_money \<lparr>cx_business = 60, cx_owner = 1, cx_live = True\<rparr> (Some 2) 300 sample_locked = (Inr x, t) \<and> \<not> solvent t"
    by auto
qed

end
