(* ===== verification/Spec2Isabelle.thy ===== *)
theory Spec2Isabelle
  imports Escrow_Results Project_Results Withdraw_Results Deposit_Results Request_Results
    Agent_Results
begin

text \<open>
  A verification library for the backend of a wallet and payments service (NestJS, Prisma,
  PostgreSQL; the code is under src/, its schema is prisma/schema.prisma).

  The program.  Every user has a wallet with a balance and a locked part, in units of 1e-8 FARM.
  Money moves between wallets by transfers (wallets.service.ts) and by requests that the payer accepts
  (payment-requests/, transfer-requests/), pays the intents of businesses
  (agent-payments/), is locked for a seller by escrow
  contracts (escrow.service.ts), leaves for the books of an investment project
  (project-marketplace/), leaves the system by withdrawals (withdraw.service.ts) and enters it by
  deposits (deposit.service.ts).  All of them take fees by the same schedule (fees/), write
  transactions and ledger entries, and announce what they did to users and to a Redis cache.  The
  transaction PIN (auth.service.ts), trusted devices (security.service.ts) and the guards decide
  who may move money; business accounts and their teams (business/, business-ops/) decide who acts
  for a merchant.

  The model.  A service method is an operation \<open>('s, 'a) op\<close> (theory Prelude): it maps the
  database to a value or an error and to the database it leaves.  Guards, early returns and
  throws are the branches of the code, in its order.  \<open>transaction\<close> (theory Core) is
  \<open>prisma.$transaction\<close>: an error restores the tables.  \<open>update_many\<close> is a guarded UPDATE and
  returns the number of rows it found.  A request is one step: requests are interleaved, their
  database calls are not.  Where the code relies on a guarded UPDATE against concurrent
  requests, the guard is in the model.  Tables are lists of rows in scan order, one field of the
  state each; the component theories extend the record \<open>core\<close> by their own tables.

  Numbers.  Columns are whole units (type int); everything the services compute is an IEEE
  double, modelled as the rational it denotes with a rounding \<open>fl\<close> after every operation (theory
  Js_Number); \<open>num\<close> reads a column into a double, \<open>dec_inc\<close>, \<open>dec_dec\<close> and \<open>to_units\<close> are what
  the database stores for a double, \<open>sql\<close> is the exact comparison in raw SQL (theory Money).
  Exactness is proved for amounts up to \<open>MAXU\<close> = 10 ^ 15 units (ten million FARM), where a chain of
  a few roundings stays below half a unit; single results state tighter bounds, and where one needs
  whole amounts, percentage fees or fees of at most one half, its statement says so.  There is no fuel:
  every loop of the code that is modelled runs over a list of rows, so the definitions are total.

  Arguments of the model: bcrypt and the hashes (\<open>ext\<close>), the answers of payment providers
  (\<open>payout_api\<close>, \<open>deposit_api\<close>, \<open>settle_answers\<close>), the evidence store and the URL parser of disputes,
  the start of the local day and month.  Results hold for every value of them.

  The interfaces.  \<open>step_contract\<close> states what a component promises of each operation as a
  relation between the states before and after; \<open>viewed_contract\<close> adds operations that leave a view of
  the state alone, and what is known of the view then survives them; \<open>guarded_run\<close> and \<open>step_run\<close>
  carry a contract over any sequence of requests, \<open>invariant_ops\<close> an invariant, \<open>keyed_update\<close> and
  \<open>status_change\<close> are the updates of one row.  Each is interpreted on the operations of the
  components, and the properties rest on these interpretations.

  The theories.
   \<bullet> Js_Number, Money: doubles, columns, and what rounding can cost.
   \<bullet> Prelude, Core: operations, weakest preconditions, frames, tables, the shared rows, a sample.
   \<bullet> Fees: fee-defaults.ts, fees.service.ts.  The schedule, its cache, the arithmetic of a fee and
     the credit of the platform; fees lie between zero and the amount, caps and floors are exact.
   \<bullet> Auth: setPin, verifyPin and changePin, devices, guards; the lockout and the round trip of
     enabling and disabling a device.
   \<bullet> Wallets, Accounts, Transfer_Amounts, Transfers, Wallet_Safety: \<open>sendFunds\<close> in the phases of the
     code, the balance and the history route.  \<open>Accounts\<close> are the abstract books; a transfer is one
     booking of them, so solvency is kept by every run, and limits and failures are as announced.
     An amount that is not a whole number of units is rounded three times, for the sender, the
     receiver and the fees, and moves the total by up to a unit (\<open>send_mints\<close>); whole amounts keep it.
   \<bullet> Escrow, Deals, Escrow_Books, Escrow_Safety, Escrow_Payments, Escrow_System, Escrow_Results:
     the operations of escrow.service.ts and the dispute decision of the admin; \<open>Deals\<close> is the
     abstract escrow, the other theories prove that each operation refines it, what every run
     keeps, and the effect of release, refund, partial release and creation on the books.
   \<bullet> Business, Business_Team, Business_Safety: applications and their review, the permission
     matrix, the team; who can change what over any sequence of requests.
   \<bullet> Projects, Project_Market, Project_Owner, Project_Review, Project_Safety, Project_Runs,
     Project_Results: the life cycle of investment projects, its money and its milestones.
   \<bullet> Withdraw, Withdraw_Settle, Withdraw_Payout, Withdraw_Safety, Withdraw_Runs, Withdraw_Results:
     the lock under daily limits, payout workers and their unknown outcomes, settlement,
     reconcilers; money leaves once for each withdrawal, and a covered withdrawal can complete.
   \<bullet> Deposits, Deposit_Settle, Deposit_Safety, Deposit_Credits, Deposit_Runs, Deposit_Results:
     requests for deposits and exchange rates (currency-conversion.service.ts), the settlement of a
     confirmed payment on its four paths, guest payments to a merchant, failures; money enters with
     ledger credits only and once for each payment.
   \<bullet> Requests, Request_Safety, Request_Results: the requests for money of payment-requests/ and
     transfer-requests/, which share their code over two tables; a request is paid once and only
     while it is pending, and the wallets lose exactly the fees of the payments.
   \<bullet> Agents, Agent_Books, Agent_Safety, Agent_Pay, Agent_Mandates, Agent_Results:
     agent-payments.service.ts, payment intents with their refunds, and the mandates under which an
     agent may ask for payments; an intent is paid once, refunds stay within it, and requests stay
     within the limits of the mandate.

  How the results are stated.  A component has an invariant of its tables (\<open>db_inv\<close>,
  \<open>project_inv\<close>, \<open>withdraw_inv\<close>, \<open>deposit_inv\<close>, \<open>request_inv\<close>, \<open>agent_inv\<close> and so on), a relation that every operation keeps, a
  datatype of its requests with the function that serves one, and run theorems over lists of
  requests.  Properties of single operations are equations or weakest preconditions.  Every
  property with a hypothesis is applied to a small database at the end of its theory.

  Not modelled, and why.  The HTTP clients of payment, identity and travel providers, mail, push,
  file storage and the language model are calls to services outside the repository.  Of webhook/
  neither queue, signatures and dispatch nor the settlement code that webhook.service.ts has of its
  own for IvoryPay (retired: its routes answer 410 by default) and for its repair of stuck deposits is
  modelled; the messages of the other providers reach the services modelled here.  Controllers, modules, guards of the
  framework, DTO validation and logging are glue.  Texts of notifications, descriptions, audit
  logs, timestamps and raw provider responses in metadata are not kept where no operation reads
  them.  Registration, sessions and OTP, the reports and settings of the admin console, KYC and
  support are mostly reads and writes of rows; QR payments, commerce of
  businesses and the chain outbox are components of their own that build on the ones here.
\<close>

end
